(* ===== verification/Errors.thy ===== *)
theory Errors
  imports Prelude
begin

text \<open>
  Error values of the control plane (internal/store/errors.go).  A Go error is represented by
  what the code can observe of it: the sentinels its wrap chain contains, tested by
  errors.Is, and its message.  Every package's sentinels are constructors of one
  datatype, so that errors of different packages stay distinct; ErrSentinel names a package's own by its
  text, ErrApi those of internal/apitypes.
\<close>

datatype sentinel =
    ErrNotFound | ErrConflict | ErrValidation
  | ErrMissingClient | ErrAcknowledgementRequired | ErrApplyFailed
  | ErrUnauthorized | ErrForbidden | ErrRateLimited | ErrCaddyUnavailable
  | ErrUnique
  | ErrSentinel string
  | ErrApi string

datatype goerror = GoErr (err_chain: "sentinel list") (err_msg: string)

type_synonym 'a result = "goerror + 'a"

definition errors_is :: "goerror \<Rightarrow> sentinel \<Rightarrow> bool" where
  "errors_is e s \<longleftrightarrow> List.member (err_chain e) s"

definition errorf :: "string \<Rightarrow> goerror" where
  "errorf m = GoErr [] m"

text \<open>fmt.Errorf("%w: ...", sentinel, ...): the sentinel's text, a colon, the detail.\<close>

definition sentinel_text :: "sentinel \<Rightarrow> string" where
  "sentinel_text s = (case s of
      ErrNotFound \<Rightarrow> ''not found''
    | ErrConflict \<Rightarrow> ''conflict''
    | ErrValidation \<Rightarrow> ''validation error''
    | ErrMissingClient \<Rightarrow> ''exposure: required client scope is not configured''
    | ErrAcknowledgementRequired \<Rightarrow> ''exposure: explicit acknowledgement required before public exposure''
    | ErrApplyFailed \<Rightarrow> ''exposure: apply failed''
    | ErrUnauthorized \<Rightarrow> ''cloudflare: unauthorized''
    | ErrForbidden \<Rightarrow> ''cloudflare: forbidden''
    | ErrRateLimited \<Rightarrow> ''cloudflare: rate limited''
    | ErrCaddyUnavailable \<Rightarrow> ''caddy admin unavailable''
    | ErrUnique \<Rightarrow> ''constraint failed: UNIQUE constraint failed''
    | ErrSentinel m \<Rightarrow> m
    | ErrApi m \<Rightarrow> m)"

definition wrapf :: "sentinel \<Rightarrow> string \<Rightarrow> goerror" where
  "wrapf s m = GoErr [s] (sentinel_text s @ '': '' @ m)"

definition NotFound :: "string \<Rightarrow> goerror" where
  "NotFound m = (if m = [] then GoErr [ErrNotFound] (sentinel_text ErrNotFound) else wrapf ErrNotFound m)"

definition Conflict :: "string \<Rightarrow> goerror" where
  "Conflict m = (if m = [] then GoErr [ErrConflict] (sentinel_text ErrConflict) else wrapf ErrConflict m)"

definition Validation :: "string \<Rightarrow> goerror" where
  "Validation m = (if m = [] then GoErr [ErrValidation] (sentinel_text ErrValidation) else wrapf ErrValidation m)"

definition Status :: "goerror \<Rightarrow> nat" where
  "Status e = (if errors_is e ErrNotFound then 404
     else if errors_is e ErrConflict then 409
     else if errors_is e ErrValidation then 422
     else 500)"

text \<open>Translate: a constraint violation reported by SQLite becomes a conflict; the
  original error stays in the chain.\<close>

definition Translate :: "goerror \<Rightarrow> goerror" where
  "Translate e = (if errors_is e ErrUnique
     then GoErr (ErrConflict # err_chain e) (sentinel_text ErrConflict @ '': '' @ err_msg e)
     else e)"

lemma errors_is_simps [simp]:
  "errors_is (GoErr ss m) s \<longleftrightarrow> s \<in> set ss"
  "errors_is (errorf m) s \<longleftrightarrow> False"
  "errors_is (wrapf s' m) s \<longleftrightarrow> s' = s"
  "errors_is (NotFound m) s \<longleftrightarrow> s = ErrNotFound"
  "errors_is (Conflict m) s \<longleftrightarrow> s = ErrConflict"
  "errors_is (Validation m) s \<longleftrightarrow> s = ErrValidation"
  by (auto simp: errors_is_def errorf_def wrapf_def NotFound_def Conflict_def Validation_def)

lemma errors_is_Translate [simp]:
  "errors_is (Translate e) s \<longleftrightarrow> errors_is e s \<or> (s = ErrConflict \<and> errors_is e ErrUnique)"
  by (cases e) (auto simp: Translate_def errors_is_def)

lemma Status_helpers [simp]:
  "Status (NotFound m) = 404" "Status (Conflict m) = 409" "Status (Validation m) = 422"
  "Status (errorf m) = 500"
  by (simp_all add: Status_def)

end
