(* ===== verification/Domain.thy ===== *)
theory Domain
  imports Errors
begin

text \<open>
  internal/domain: the exposure levels and the health states, as the strings the code stores,
  the slug and hostname validators, and the instance identity (types.go, validate.go).
  ValidEmail is left out: it is a call of net/mail's address parser.
\<close>

type_synonym id = string
type_synonym exposure = string
type_synonym time = int

definition ExposurePrivate :: exposure where "ExposurePrivate = ''private''"
definition ExposureShared :: exposure where "ExposureShared = ''shared''"
definition ExposurePublic :: exposure where "ExposurePublic = ''public''"

definition Exposure_Valid :: "exposure \<Rightarrow> bool" where
  "Exposure_Valid e \<longleftrightarrow> e = ExposurePrivate \<or> e = ExposureShared \<or> e = ExposurePublic"

type_synonym health = string

definition HealthUnknown :: health where "HealthUnknown = ''unknown''"
definition HealthHealthy :: health where "HealthHealthy = ''healthy''"
definition HealthDegraded :: health where "HealthDegraded = ''degraded''"
definition HealthUnhealthy :: health where "HealthUnhealthy = ''unhealthy''"

lemma exposure_distinct [simp]:
  "ExposurePrivate \<noteq> ExposureShared" "ExposureShared \<noteq> ExposurePrivate"
  "ExposurePrivate \<noteq> ExposurePublic" "ExposurePublic \<noteq> ExposurePrivate"
  "ExposureShared \<noteq> ExposurePublic" "ExposurePublic \<noteq> ExposureShared"
  "ExposurePrivate \<noteq> []" "ExposureShared \<noteq> []" "ExposurePublic \<noteq> []"
  "[] \<noteq> ExposurePrivate" "[] \<noteq> ExposureShared" "[] \<noteq> ExposurePublic"
  by (simp_all add: ExposurePrivate_def ExposureShared_def ExposurePublic_def)

lemma Exposure_Valid_consts [simp]:
  "Exposure_Valid ExposurePrivate" "Exposure_Valid ExposureShared" "Exposure_Valid ExposurePublic"
  "\<not> Exposure_Valid []"
  by (simp_all add: Exposure_Valid_def)

section \<open>Slugs and hostnames\<close>

definition is_alnum :: "char \<Rightarrow> bool" where
  "is_alnum c \<longleftrightarrow> is_lower c \<or> is_digit c"

text \<open>The slug pattern: an alphanumeric, optionally followed by at most 61 inner characters and
  a closing alphanumeric.\<close>

definition ValidSlug :: "string \<Rightarrow> bool" where
  "ValidSlug s \<longleftrightarrow> (case s of
      [] \<Rightarrow> False
    | c # r \<Rightarrow> is_alnum c \<and>
        (r = [] \<or> (length (butlast r) \<le> 61 \<and>
                   list_all (\<lambda>d. is_alnum d \<or> d = CHR ''-'') (butlast r) \<and> is_alnum (last r))))"

text \<open>The switch of the loop over a label's bytes at index i.\<close>

definition label_byte_ok :: "nat \<Rightarrow> nat \<Rightarrow> char \<Rightarrow> bool" where
  "label_byte_ok n i c \<longleftrightarrow> is_lower c \<or> is_digit c \<or> (c = CHR ''-'' \<and> 0 < i \<and> i + 1 < n)"

fun label_bytes_ok :: "nat \<Rightarrow> nat \<Rightarrow> string \<Rightarrow> bool" where
  "label_bytes_ok n i [] \<longleftrightarrow> True"
| "label_bytes_ok n i (c # cs) \<longleftrightarrow> label_byte_ok n i c \<and> label_bytes_ok n (Suc i) cs"

definition validLabel :: "string \<Rightarrow> bool" where
  "validLabel l \<longleftrightarrow> \<not> (length l < 1 \<or> length l > 63) \<and> label_bytes_ok (length l) 0 l"

definition ValidHostname :: "string \<Rightarrow> bool" where
  "ValidHostname s \<longleftrightarrow> \<not> (length s = 0 \<or> length s > 253) \<and> list_all validLabel (split_on CHR ''.'' s)"

lemma is_alnum_dash [simp]: "\<not> is_alnum CHR ''-''" "\<not> is_alnum CHR ''.''"
  by (simp_all add: is_alnum_def is_lower_def is_digit_def)

lemma label_byte_not_upper: "label_byte_ok n i c \<Longrightarrow> \<not> is_upper c"
  by (auto simp: label_byte_ok_def lower_not_upper digit_not_upper) (simp add: is_upper_def)

lemma label_bytes_ok_append:
  "label_bytes_ok n i (xs @ ys) \<longleftrightarrow> label_bytes_ok n i xs \<and> label_bytes_ok n (i + length xs) ys"
  by (induction xs arbitrary: i) auto

lemma label_bytes_ok_chars:
  "label_bytes_ok n i cs \<Longrightarrow> c \<in> set cs \<Longrightarrow> is_alnum c \<or> c = CHR ''-''"
  by (induction cs arbitrary: i) (auto simp: label_byte_ok_def is_alnum_def)

lemma label_bytes_ok_lower: "label_bytes_ok n i cs \<Longrightarrow> to_lower cs = cs"
  by (induction cs arbitrary: i) (auto simp: to_lower_def label_byte_not_upper)

lemma label_bytes_ok_inner:
  assumes "0 < i" "i + length cs < n"
  shows "label_bytes_ok n i cs \<longleftrightarrow> list_all (\<lambda>d. is_alnum d \<or> d = CHR ''-'') cs"
  using assms by (induction cs arbitrary: i) (auto simp: label_byte_ok_def is_alnum_def)

lemma validLabel_nonempty: "validLabel l \<Longrightarrow> l \<noteq> [] \<and> length l \<le> 63"
  by (auto simp: validLabel_def)

lemma validLabel_lower: "validLabel l \<Longrightarrow> to_lower l = l"
  by (auto simp: validLabel_def label_bytes_ok_lower)

lemma validLabel_no_dot: "validLabel l \<Longrightarrow> CHR ''.'' \<notin> set l"
  by (auto simp: validLabel_def dest: label_bytes_ok_chars)

lemma validLabel_Cons:
  "validLabel (c # r) \<longleftrightarrow> length r \<le> 62 \<and> is_alnum c \<and>
     (r = [] \<or> (list_all (\<lambda>d. is_alnum d \<or> d = CHR ''-'') (butlast r) \<and> is_alnum (last r)))"
proof (cases r rule: rev_cases)
  case Nil
  then show ?thesis by (auto simp: validLabel_def label_byte_ok_def is_alnum_def)
next
  case (snoc m d)
  have "label_bytes_ok (Suc (Suc (length m))) (Suc 0) m \<longleftrightarrow> list_all (\<lambda>d. is_alnum d \<or> d = CHR ''-'') m"
    by (rule label_bytes_ok_inner) auto
  then show ?thesis using snoc
    by (auto simp: validLabel_def label_bytes_ok_append label_byte_ok_def is_alnum_def)
qed

section \<open>The instance identity\<close>

record Instance =
  inst_ID :: id
  inst_Domain :: string
  inst_Tailnet :: string
  inst_TailscaleIP :: string
  inst_AssistantName :: string
  inst_AssistantSlug :: string
  inst_CreatedAt :: time

definition Instance_Validate :: "Instance \<Rightarrow> goerror option" where
  "Instance_Validate i =
     (if trim_space (inst_ID i) = [] then Some (errorf ''instance: id is required'')
      else if trim_space (inst_Domain i) = [] then Some (errorf ''instance: domain is required'')
      else if \<not> ValidHostname (inst_Domain i)
        then Some (errorf (''instance: invalid domain '' @ quote (inst_Domain i)))
      else if trim_space (inst_AssistantName i) = [] then Some (errorf ''instance: assistant name is required'')
      else if \<not> ValidSlug (inst_AssistantSlug i)
        then Some (errorf (''instance: invalid assistant slug '' @ quote (inst_AssistantSlug i)))
      else None)"

end
