(* ===== verification/ExposureTypes.thy ===== *)
theory ExposureTypes
  imports Domain
begin

text \<open>
  internal/exposure: the data of the exposure controller (exposure.go, clients.go, the types of
  plan.go), its configuration and hostname checks, and the helpers that compare and look up
  resources.  Exposure levels and authentication modes stay the strings the code stores; step
  kinds, plan kinds and plan statuses are datatypes, with one constructor for a step kind the
  switches do not know.  A nil pointer is None; the clone functions are copies and vanish.
\<close>

section \<open>Resources\<close>

record Record =
  rec_ID :: string
  rec_Name :: string
  rec_Type :: string
  rec_Content :: string
  rec_TTL :: int
  rec_Proxied :: bool

record IngressRule =
  rule_Hostname :: string
  rule_Origin :: string

record AccessPolicy =
  pol_Name :: string
  pol_Include :: "string list"

record AccessApp =
  app_ID :: string
  app_Name :: string
  app_Hostname :: string
  app_Policies :: "AccessPolicy list"

record Route =
  route_Hostname :: string
  route_Upstream :: string

section \<open>Configuration and services\<close>

record Config =
  cfg_Domain :: string
  cfg_TailscaleIP :: string
  cfg_TunnelDNS :: string
  cfg_SharedAccessGroups :: "string list"

type_synonym auth_mode = string

definition AuthNone :: auth_mode where "AuthNone = ''none''"
definition AuthNative :: auth_mode where "AuthNative = ''native''"

definition AuthMode_Valid :: "auth_mode \<Rightarrow> bool" where
  "AuthMode_Valid a \<longleftrightarrow> a = AuthNone \<or> a = AuthNative"

lemma auth_distinct [simp]:
  "AuthNone \<noteq> AuthNative" "AuthNative \<noteq> AuthNone" "AuthNone \<noteq> []" "AuthNative \<noteq> []"
  by (simp_all add: AuthNone_def AuthNative_def)

lemma AuthMode_Valid_consts [simp]: "AuthMode_Valid AuthNone" "AuthMode_Valid AuthNative"
  by (simp_all add: AuthMode_Valid_def)

record ServiceRecord =
  svc_ID :: id
  svc_Hostname :: string
  svc_HomeAnchor :: string
  svc_Upstream :: string
  svc_TunnelOrigin :: string
  svc_Exposure :: exposure
  svc_AppAuth :: auth_mode
  svc_Revision :: int
  svc_CreatedAt :: time
  svc_UpdatedAt :: time

record Observation =
  obs_ServiceID :: id
  obs_ObservedAt :: time
  obs_VanityDNS :: "Record option"
  obs_AnchorDNS :: "Record option"
  obs_TunnelIngress :: "IngressRule option"
  obs_AccessApp :: "AccessApp option"
  obs_EdgeRoute :: "Route option"
  obs_Reconciled :: bool
  obs_Drift :: "string list"
  obs_Error :: string
  obs_PlanID :: string

section \<open>Plans\<close>

datatype PlanKind = PlanKindExposure | PlanKindDelete

datatype PlanStatus = PlanPending | PlanApplied | PlanFailed | PlanRolledBack

definition plan_status_text :: "PlanStatus \<Rightarrow> string" where
  "plan_status_text s = (case s of PlanPending \<Rightarrow> ''pending'' | PlanApplied \<Rightarrow> ''applied''
     | PlanFailed \<Rightarrow> ''failed'' | PlanRolledBack \<Rightarrow> ''rolled_back'')"

datatype StepKind =
    StepDNSEnsure | StepDNSRemove | StepAccessEnsure | StepAccessRemove
  | StepIngressEnsure | StepIngressRemove | StepEdgeEnsure | StepEdgeRemove
  | StepUnknown string

definition step_kind_text :: "StepKind \<Rightarrow> string" where
  "step_kind_text k = (case k of
      StepDNSEnsure \<Rightarrow> ''dns.ensure'' | StepDNSRemove \<Rightarrow> ''dns.remove''
    | StepAccessEnsure \<Rightarrow> ''access.ensure'' | StepAccessRemove \<Rightarrow> ''access.remove''
    | StepIngressEnsure \<Rightarrow> ''ingress.ensure'' | StepIngressRemove \<Rightarrow> ''ingress.remove''
    | StepEdgeEnsure \<Rightarrow> ''edge.ensure'' | StepEdgeRemove \<Rightarrow> ''edge.remove''
    | StepUnknown s \<Rightarrow> s)"

datatype step_status = StatusApplied | StatusUnchanged | StatusFailed | StatusRollbackFailed

record Step =
  step_Kind :: StepKind
  step_Hostname :: string
  step_Description :: string
  step_Rollback :: string
  step_Record :: "Record option"
  step_PrevRecord :: "Record option"
  step_App :: "AccessApp option"
  step_PrevApp :: "AccessApp option"
  step_Rule :: "IngressRule option"
  step_PrevRule :: "IngressRule option"
  step_Route :: "Route option"
  step_PrevRoute :: "Route option"

definition new_step :: "StepKind \<Rightarrow> string \<Rightarrow> string \<Rightarrow> string \<Rightarrow> Step" where
  "new_step k h d r = \<lparr>step_Kind = k, step_Hostname = h, step_Description = d, step_Rollback = r,
     step_Record = None, step_PrevRecord = None, step_App = None, step_PrevApp = None,
     step_Rule = None, step_PrevRule = None, step_Route = None, step_PrevRoute = None\<rparr>"

lemma new_step_simps [simp]:
  "step_Kind (new_step k h d r) = k" "step_Hostname (new_step k h d r) = h"
  "step_Record (new_step k h d r) = None" "step_PrevRecord (new_step k h d r) = None"
  "step_App (new_step k h d r) = None" "step_PrevApp (new_step k h d r) = None"
  "step_Rule (new_step k h d r) = None" "step_PrevRule (new_step k h d r) = None"
  "step_Route (new_step k h d r) = None" "step_PrevRoute (new_step k h d r) = None"
  by (simp_all add: new_step_def)

record StepResult =
  res_Index :: nat
  res_Kind :: StepKind
  res_Description :: string
  res_Status :: step_status
  res_Error :: string
  res_RollbackStatus :: "step_status option"
  res_RollbackError :: string

record Plan =
  plan_ID :: id
  plan_ServiceID :: id
  plan_ServiceRevision :: int
  plan_Kind :: PlanKind
  plan_Hostname :: string
  plan_FromExposure :: exposure
  plan_ToExposure :: exposure
  plan_Steps :: "Step list"
  plan_Warnings :: "string list"
  plan_RequiresAck :: bool
  plan_Status :: PlanStatus
  plan_Results :: "StepResult list"
  plan_Error :: string
  plan_CreatedAt :: time
  plan_AppliedAt :: "time option"

text \<open>The resource set that must exist for a desired exposure.\<close>

record desiredResources =
  des_anchor :: Record
  des_vanity :: Record
  des_route :: Route
  des_rule :: "IngressRule option"
  des_app :: "AccessApp option"

end
