(* ===== verification/NetIP.thy ===== *)
theory NetIP
  imports Prelude
begin

text \<open>
  What the sources use of Go's net.ParseIP: whether a string is an IP address.  The first of the
  bytes dot and colon selects the dotted-decimal or the hexadecimal form; a zone is refused.
\<close>

definition is_hex :: "char \<Rightarrow> bool" where
  "is_hex c \<longleftrightarrow> is_digit c \<or> List.member ''abcdefABCDEF'' c"

definition ipv4_field :: "string \<Rightarrow> bool" where
  "ipv4_field f \<longleftrightarrow> f \<noteq> [] \<and> list_all is_digit f \<and> (length f = 1 \<or> hd f \<noteq> CHR ''0'')
     \<and> length f \<le> 3 \<and> parse_digits f \<le> 255"

definition parse_ipv4 :: "string \<Rightarrow> bool" where
  "parse_ipv4 s \<longleftrightarrow> (let fs = split_on CHR ''.'' s in length fs = 4 \<and> list_all ipv4_field fs)"

definition ipv6_end :: "nat \<Rightarrow> bool \<Rightarrow> bool" where
  "ipv6_end i seen \<longleftrightarrow> (if i < 16 then seen else \<not> seen)"

text \<open>The loop over the 16-bit groups: n groups of room left, i bytes filled,
  seen whether a double colon was met.\<close>

fun ipv6_groups :: "nat \<Rightarrow> nat \<Rightarrow> bool \<Rightarrow> string \<Rightarrow> bool" where
  "ipv6_groups 0 i seen s \<longleftrightarrow> s = [] \<and> ipv6_end i seen"
| "ipv6_groups (Suc n) i seen s \<longleftrightarrow>
     (let g = takeWhile is_hex s; r = dropWhile is_hex s in
      if g = [] \<or> length g > 4 then False
      else case r of
          [] \<Rightarrow> ipv6_end (i + 2) seen
        | c # t \<Rightarrow>
            if c = CHR ''.'' then (seen \<or> i = 12) \<and> i + 4 \<le> 16 \<and> parse_ipv4 s \<and> ipv6_end (i + 4) seen
            else if c \<noteq> CHR '':'' then False
            else case t of
                [] \<Rightarrow> False
              | d # t' \<Rightarrow>
                  if d = CHR '':'' then
                    (if seen then False
                     else if t' = [] then ipv6_end (i + 2) True
                     else ipv6_groups n (i + 2) True t')
                  else ipv6_groups n (i + 2) seen t)"

definition parse_ipv6 :: "string \<Rightarrow> bool" where
  "parse_ipv6 s \<longleftrightarrow> (if List.member s (CHR ''%'') then False
     else if has_prefix s ''::'' then
       (let t = drop 2 s in if t = [] then True else ipv6_groups 8 0 True t)
     else ipv6_groups 8 0 False s)"

definition ParseIP :: "string \<Rightarrow> bool" where
  "ParseIP s \<longleftrightarrow> (case List.find (\<lambda>c. c = CHR ''.'' \<or> c = CHR '':'' \<or> c = CHR ''%'') s of
      None \<Rightarrow> False
    | Some c \<Rightarrow> if c = CHR ''.'' then parse_ipv4 s else if c = CHR '':'' then parse_ipv6 s else False)"

lemma ParseIP_nonempty: "ParseIP s \<Longrightarrow> s \<noteq> []"
  by (auto simp: ParseIP_def)

end
