(* ===== verification/ExposureNames.thy ===== *)
theory ExposureNames
  imports ExposureTypes NetIP
begin

text \<open>
  internal/exposure/exposure.go: hostname validation, the home anchor and the configuration
  check, with the part of net.ParseIP the latter uses.
\<close>

section \<open>validateHostname and homeAnchor\<close>

fun first_bad_byte :: "nat \<Rightarrow> nat \<Rightarrow> string \<Rightarrow> char option" where
  "first_bad_byte n i [] = None"
| "first_bad_byte n i (c # cs) = (if label_byte_ok n i c then first_bad_byte n (Suc i) cs else Some c)"

text \<open>One pass of the loop over the labels.  %q of the offending byte shows it as a
  one-character string.\<close>

fun label_errors :: "string \<Rightarrow> string list \<Rightarrow> goerror option" where
  "label_errors name [] = None"
| "label_errors name (l # ls) =
     (if l = [] then Some (errorf (''hostname '' @ quote name @ '' has an empty label''))
      else if length l > 63
        then Some (errorf (''hostname label '' @ quote l @ '' is longer than 63 characters''))
      else case first_bad_byte (length l) 0 l of
          Some c \<Rightarrow> Some (errorf (''hostname label '' @ quote l @ '' contains invalid character '' @ quote [c]))
        | None \<Rightarrow> label_errors name ls)"

definition validateHostname :: "string \<Rightarrow> goerror option" where
  "validateHostname name =
     (if name = [] then Some (errorf ''hostname is empty'')
      else if length name > 253
        then Some (errorf (''hostname '' @ quote name @ '' is longer than 253 characters''))
      else if to_lower name \<noteq> name
        then Some (errorf (''hostname '' @ quote name @ '' must be lowercase''))
      else let labels = split_on CHR ''.'' name in
        if length labels < 2
          then Some (errorf (''hostname '' @ quote name @ '' needs at least two labels''))
        else label_errors name labels)"

definition homeAnchor :: "string \<Rightarrow> string \<Rightarrow> string result" where
  "homeAnchor hostname domain =
     (let suffix = ''.'' @ domain in
      if \<not> has_suffix hostname suffix
        then Inl (errorf (''hostname '' @ quote hostname @ '' is not under domain '' @ quote domain))
      else let prefix = trim_suffix hostname suffix in
        if prefix = []
          then Inl (errorf (''hostname must be a subdomain of '' @ quote domain @ '', not the apex''))
        else Inr (prefix @ ''.home.'' @ domain))"

lemma first_bad_byte_None: "first_bad_byte n i cs = None \<longleftrightarrow> label_bytes_ok n i cs"
  by (induction cs arbitrary: i) auto

lemma label_errors_None: "label_errors name ls = None \<longleftrightarrow> list_all validLabel ls"
  by (induction ls)
    (auto simp: validLabel_def first_bad_byte_None [symmetric] Suc_le_eq split: option.splits)

lemma list_all_validLabel_lower: "list_all validLabel (split_on CHR ''.'' s) \<Longrightarrow> to_lower s = s"
proof -
  assume v: "list_all validLabel (split_on CHR ''.'' s)"
  have *: "list_all validLabel ls \<Longrightarrow> to_lower (join [CHR ''.''] ls) = join [CHR ''.''] ls" for ls
  proof (induction ls rule: induct_list012)
    case (3 x y zs)
    then have "to_lower (join [CHR ''.''] (y # zs)) = join [CHR ''.''] (y # zs)"
      and "to_lower x = x" by (auto dest: validLabel_lower)
    then show ?case by (auto simp: to_lower_def lower_char_def is_upper_def)
  qed (auto dest: validLabel_lower simp: to_lower_def)
  show ?thesis using * [OF v] by simp
qed

lemma validateHostname_None:
  "validateHostname s = None \<longleftrightarrow> ValidHostname s \<and> 2 \<le> length (split_on CHR ''.'' s)"
  by (auto simp: validateHostname_def ValidHostname_def label_errors_None Let_def
      dest: list_all_validLabel_lower)

lemma homeAnchor_Inr:
  "homeAnchor h d = Inr a \<longleftrightarrow> (\<exists>p. p \<noteq> [] \<and> h = p @ ''.'' @ d \<and> a = p @ ''.home.'' @ d)"
  by (auto simp: homeAnchor_def Let_def has_suffix_iff trim_suffix_append [of _ "''.'' @ d", simplified])

lemma homeAnchor_longer: "homeAnchor h d = Inr a \<Longrightarrow> length a = length h + 5"
  by (auto simp: homeAnchor_Inr)

lemma homeAnchor_not_fold: "homeAnchor h d = Inr a \<Longrightarrow> \<not> equal_fold a h"
  using homeAnchor_longer equal_fold_length by fastforce

lemma homeAnchor_inj: "homeAnchor h d = Inr a \<Longrightarrow> homeAnchor h' d = Inr a \<Longrightarrow> h = h'"
  by (auto simp: homeAnchor_Inr)

section \<open>Configuration\<close>

definition defaultTunnelOrigin :: string where
  "defaultTunnelOrigin = ''http://127.0.0.1:80''"

definition dnsTTL :: int where
  "dnsTTL = 300"

definition Config_validate :: "Config \<Rightarrow> goerror option" where
  "Config_validate c =
     (case validateHostname (cfg_Domain c) of
        Some e \<Rightarrow> Some (Validation (''domain: '' @ err_msg e))
      | None \<Rightarrow>
          if cfg_TailscaleIP c = [] then Some (Validation ''tailscale IP is required'')
          else if \<not> ParseIP (cfg_TailscaleIP c)
            then Some (Validation (''tailscale IP '' @ quote (cfg_TailscaleIP c) @ '' is not an IP address''))
          else case validateHostname (cfg_TunnelDNS c) of
              Some e \<Rightarrow> Some (Validation (''tunnel DNS target: '' @ err_msg e))
            | None \<Rightarrow> None)"

definition sharedGroups :: "Config \<Rightarrow> string list" where
  "sharedGroups c = (if cfg_SharedAccessGroups c = [] then [''group:members''] else cfg_SharedAccessGroups c)"

lemma sharedGroups_nonempty [simp]: "sharedGroups c \<noteq> []"
  by (simp add: sharedGroups_def)

lemma Config_validate_None:
  "Config_validate c = None \<longleftrightarrow> validateHostname (cfg_Domain c) = None \<and>
     ParseIP (cfg_TailscaleIP c) \<and> validateHostname (cfg_TunnelDNS c) = None"
  by (auto simp: Config_validate_def dest: ParseIP_nonempty split: option.splits)

end
