(* ===== verification/ExposurePlan.thy ===== *)
theory ExposurePlan
  imports ExposureNames
begin

text \<open>
  internal/exposure/plan.go and clients.go: the client boundary, the comparison of resources, the
  desired resources, the ordered step list of a transition and of a teardown, the ordering check
  and drift.  An external client is a record of functions over an opaque world 'w: each
  call returns the world after it and either an error or a result.
\<close>

section \<open>Clients\<close>

record 'w DNSClient =
  ListRecords :: "'w \<Rightarrow> 'w \<times> Record list result"
  CreateRecord :: "Record \<Rightarrow> 'w \<Rightarrow> 'w \<times> string result"
  ReplaceRecord :: "string \<Rightarrow> Record \<Rightarrow> 'w \<Rightarrow> 'w \<times> unit result"
  DeleteRecord :: "string \<Rightarrow> 'w \<Rightarrow> 'w \<times> unit result"

record 'w TunnelClient =
  ListIngress :: "'w \<Rightarrow> 'w \<times> IngressRule list result"
  SetIngress :: "IngressRule list \<Rightarrow> 'w \<Rightarrow> 'w \<times> unit result"

record 'w AccessClient =
  GetApplication :: "string \<Rightarrow> 'w \<Rightarrow> 'w \<times> AccessApp result"
  PutApplication :: "AccessApp \<Rightarrow> 'w \<Rightarrow> 'w \<times> string result"
  DeleteApplication :: "string \<Rightarrow> 'w \<Rightarrow> 'w \<times> unit result"

record 'w EdgeClient =
  ListRoutes :: "'w \<Rightarrow> 'w \<times> Route list result"
  PutRoute :: "Route \<Rightarrow> 'w \<Rightarrow> 'w \<times> unit result"
  DeleteRoute :: "string \<Rightarrow> 'w \<Rightarrow> 'w \<times> unit result"

record 'w Clients =
  cl_DNS :: "'w DNSClient option"
  cl_Tunnel :: "'w TunnelClient option"
  cl_Access :: "'w AccessClient option"
  cl_Edge :: "'w EdgeClient option"

definition ScopeDNS :: string where "ScopeDNS = ''dns''"
definition ScopeTunnel :: string where "ScopeTunnel = ''tunnel''"
definition ScopeAccess :: string where "ScopeAccess = ''access''"
definition ScopeEdge :: string where "ScopeEdge = ''edge''"

lemma scope_distinct [simp]:
  "ScopeDNS \<noteq> ScopeTunnel" "ScopeTunnel \<noteq> ScopeDNS" "ScopeDNS \<noteq> ScopeAccess" "ScopeAccess \<noteq> ScopeDNS"
  "ScopeDNS \<noteq> ScopeEdge" "ScopeEdge \<noteq> ScopeDNS" "ScopeTunnel \<noteq> ScopeAccess" "ScopeAccess \<noteq> ScopeTunnel"
  "ScopeTunnel \<noteq> ScopeEdge" "ScopeEdge \<noteq> ScopeTunnel" "ScopeAccess \<noteq> ScopeEdge" "ScopeEdge \<noteq> ScopeAccess"
  "ScopeDNS \<noteq> []" "ScopeTunnel \<noteq> []" "ScopeAccess \<noteq> []" "ScopeEdge \<noteq> []"
  by (simp_all add: ScopeDNS_def ScopeTunnel_def ScopeAccess_def ScopeEdge_def)

definition has_scope :: "'w Clients \<Rightarrow> string \<Rightarrow> bool" where
  "has_scope c scope =
     (if scope = ScopeDNS then cl_DNS c \<noteq> None
      else if scope = ScopeTunnel then cl_Tunnel c \<noteq> None
      else if scope = ScopeAccess then cl_Access c \<noteq> None
      else if scope = ScopeEdge then cl_Edge c \<noteq> None
      else False)"

definition missingScopes :: "'w Clients \<Rightarrow> string list \<Rightarrow> string list" where
  "missingScopes c scopes = filter (\<lambda>sc. sc \<noteq> [] \<and> \<not> has_scope c sc) scopes"

definition stepScope :: "StepKind \<Rightarrow> string" where
  "stepScope k = (case k of
      StepDNSEnsure \<Rightarrow> ScopeDNS | StepDNSRemove \<Rightarrow> ScopeDNS
    | StepAccessEnsure \<Rightarrow> ScopeAccess | StepAccessRemove \<Rightarrow> ScopeAccess
    | StepIngressEnsure \<Rightarrow> ScopeTunnel | StepIngressRemove \<Rightarrow> ScopeTunnel
    | StepEdgeEnsure \<Rightarrow> ScopeEdge | StepEdgeRemove \<Rightarrow> ScopeEdge
    | StepUnknown _ \<Rightarrow> [])"

text \<open>The scopes are collected in a Go map and the missing ones sorted, so neither order nor
  repetition shows.\<close>

definition requireClients :: "'w Clients \<Rightarrow> Step list \<Rightarrow> goerror option" where
  "requireClients c steps =
     (let scopes = remdups (filter (\<lambda>sc. sc \<noteq> []) (map (\<lambda>st. stepScope (step_Kind st)) steps));
          missing = missingScopes c scopes in
      if missing \<noteq> [] then Some (wrapf ErrMissingClient (join '', '' (sort missing))) else None)"

lemma missingScopes_Nil: "missingScopes c scopes = [] \<longleftrightarrow> (\<forall>sc \<in> set scopes. sc \<noteq> [] \<longrightarrow> has_scope c sc)"
  by (auto simp: missingScopes_def filter_empty_conv)

lemma requireClients_None:
  "requireClients c steps = None \<longleftrightarrow>
     (\<forall>st \<in> set steps. stepScope (step_Kind st) \<noteq> [] \<longrightarrow> has_scope c (stepScope (step_Kind st)))"
  by (auto simp: requireClients_def Let_def missingScopes_Nil)

section \<open>Comparing and finding resources\<close>

definition recordMatches :: "Record option \<Rightarrow> Record option \<Rightarrow> bool" where
  "recordMatches a b = (case (a, b) of
      (Some a, Some b) \<Rightarrow>
        (if rec_Name a \<noteq> rec_Name b \<or> rec_Type a \<noteq> rec_Type b \<or> rec_Content a \<noteq> rec_Content b
            \<or> rec_Proxied a \<noteq> rec_Proxied b then False
         else rec_Proxied b \<or> rec_TTL a = rec_TTL b)
    | _ \<Rightarrow> False)"

text \<open>Positions of the two sorted copies are compared one by one.\<close>

definition sameStrings :: "string list \<Rightarrow> string list \<Rightarrow> bool" where
  "sameStrings a b =
     (if length a \<noteq> length b then False else list_all2 (=) (sort a) (sort b))"

fun policies_equal :: "AccessPolicy list \<Rightarrow> AccessPolicy list \<Rightarrow> bool" where
  "policies_equal (p # ps) (q # qs) =
     (if pol_Name p \<noteq> pol_Name q then False
      else if \<not> sameStrings (pol_Include p) (pol_Include q) then False
      else policies_equal ps qs)"
| "policies_equal _ _ = True"

definition accessAppsEqual :: "AccessApp option \<Rightarrow> AccessApp option \<Rightarrow> bool" where
  "accessAppsEqual a b = (case (a, b) of
      (Some a, Some b) \<Rightarrow>
        (if app_Name a \<noteq> app_Name b \<or> app_Hostname a \<noteq> app_Hostname b
            \<or> length (app_Policies a) \<noteq> length (app_Policies b) then False
         else policies_equal (app_Policies a) (app_Policies b))
    | _ \<Rightarrow> False)"

definition findRecord :: "Record list \<Rightarrow> string \<Rightarrow> string \<Rightarrow> Record option" where
  "findRecord recs name typ = List.find (\<lambda>r. equal_fold (rec_Name r) name \<and> rec_Type r = typ) recs"

definition findRule :: "IngressRule list \<Rightarrow> string \<Rightarrow> IngressRule option" where
  "findRule rules hostname = List.find (\<lambda>r. equal_fold (rule_Hostname r) hostname) rules"

definition findRoute :: "Route list \<Rightarrow> string \<Rightarrow> Route option" where
  "findRoute routes hostname = List.find (\<lambda>r. equal_fold (route_Hostname r) hostname) routes"

lemma sameStrings_iff: "sameStrings a b \<longleftrightarrow> mset a = mset b"
  by (auto simp: sameStrings_def list_all2_eq [symmetric] sort_eq_iff_mset dest: mset_eq_length)

lemma sameStrings_refl [simp]: "sameStrings a a"
  by (simp add: sameStrings_iff)

lemma policies_equal_iff:
  "length ps = length qs \<Longrightarrow> policies_equal ps qs \<longleftrightarrow>
     list_all2 (\<lambda>p q. pol_Name p = pol_Name q \<and> mset (pol_Include p) = mset (pol_Include q)) ps qs"
  by (induction ps qs rule: list_induct2) (auto simp: sameStrings_iff)

lemma accessAppsEqual_None [simp]: "\<not> accessAppsEqual None b" "\<not> accessAppsEqual a None"
  by (auto simp: accessAppsEqual_def split: option.splits)

lemma accessAppsEqual_Some:
  "accessAppsEqual (Some a) (Some b) \<longleftrightarrow> app_Name a = app_Name b \<and> app_Hostname a = app_Hostname b \<and>
     list_all2 (\<lambda>p q. pol_Name p = pol_Name q \<and> mset (pol_Include p) = mset (pol_Include q))
       (app_Policies a) (app_Policies b)"
  by (auto simp: accessAppsEqual_def policies_equal_iff dest: list_all2_lengthD)

lemma accessAppsEqual_id [simp]: "accessAppsEqual (Some (x\<lparr>app_ID := i\<rparr>)) (Some x)"
  by (simp add: accessAppsEqual_Some list_all2_refl)

lemma accessAppsEqual_refl [simp]: "accessAppsEqual (Some a) (Some a)"
  by (auto simp: accessAppsEqual_Some list_all2_refl)

lemma recordMatches_None [simp]: "\<not> recordMatches None b" "\<not> recordMatches a None"
  by (auto simp: recordMatches_def split: option.splits)

lemma recordMatches_Some:
  "recordMatches (Some a) (Some b) \<longleftrightarrow> rec_Name a = rec_Name b \<and> rec_Type a = rec_Type b \<and>
     rec_Content a = rec_Content b \<and> rec_Proxied a = rec_Proxied b \<and> (rec_Proxied b \<or> rec_TTL a = rec_TTL b)"
  by (auto simp: recordMatches_def)

lemma recordMatches_refl [simp]: "recordMatches (Some a) (Some a)"
  by (simp add: recordMatches_Some)

lemma recordMatches_trans: "recordMatches a b \<Longrightarrow> recordMatches b c \<Longrightarrow> recordMatches a c"
  by (cases a; cases b; cases c) (auto simp: recordMatches_Some)

lemma recordMatches_sym: "recordMatches a b \<Longrightarrow> recordMatches b a"
  by (cases a; cases b) (auto simp: recordMatches_Some)

section \<open>Desired resources\<close>

definition accessAppFor :: "Config \<Rightarrow> ServiceRecord \<Rightarrow> AccessApp" where
  "accessAppFor cfg svc = \<lparr>app_ID = [], app_Name = svc_Hostname svc, app_Hostname = svc_Hostname svc,
     app_Policies = [\<lparr>pol_Name = ''omahab-shared'', pol_Include = sharedGroups cfg\<rparr>]\<rparr>"

definition desiredFor :: "Config \<Rightarrow> ServiceRecord \<Rightarrow> desiredResources" where
  "desiredFor cfg svc =
     \<lparr>des_anchor = \<lparr>rec_ID = [], rec_Name = svc_HomeAnchor svc, rec_Type = ''A'',
        rec_Content = cfg_TailscaleIP cfg, rec_TTL = dnsTTL, rec_Proxied = False\<rparr>,
      des_vanity = (if svc_Exposure svc = ExposurePrivate
        then \<lparr>rec_ID = [], rec_Name = svc_Hostname svc, rec_Type = ''CNAME'',
               rec_Content = svc_HomeAnchor svc, rec_TTL = dnsTTL, rec_Proxied = False\<rparr>
        else \<lparr>rec_ID = [], rec_Name = svc_Hostname svc, rec_Type = ''CNAME'',
               rec_Content = cfg_TunnelDNS cfg, rec_TTL = dnsTTL, rec_Proxied = True\<rparr>),
      des_route = \<lparr>route_Hostname = svc_Hostname svc, route_Upstream = svc_Upstream svc\<rparr>,
      des_rule = (if svc_Exposure svc \<noteq> ExposurePrivate
        then Some \<lparr>rule_Hostname = svc_Hostname svc, rule_Origin = svc_TunnelOrigin svc\<rparr> else None),
      des_app = (if svc_Exposure svc = ExposureShared then Some (accessAppFor cfg svc) else None)\<rparr>"

definition inferExposure :: "Config \<Rightarrow> ServiceRecord \<Rightarrow> Observation \<Rightarrow> exposure" where
  "inferExposure cfg svc obs = (case obs_VanityDNS obs of
      None \<Rightarrow> []
    | Some v \<Rightarrow>
        if rec_Content v = [] then []
        else if rec_Content v = svc_HomeAnchor svc then ExposurePrivate
        else if rec_Content v = cfg_TunnelDNS cfg then
          (if obs_AccessApp obs \<noteq> None then ExposureShared else ExposurePublic)
        else [])"

section \<open>Steps of an exposure transition\<close>

definition dnsRollbackText :: "Record option \<Rightarrow> string" where
  "dnsRollbackText prev = (case prev of
      None \<Rightarrow> ''remove the record again''
    | Some p \<Rightarrow> ''restore '' @ rec_Name p @ '' '' @ rec_Type p @ '' -> '' @ rec_Content p
        @ '' (proxied='' @ fmt_bool (rec_Proxied p) @ '')'')"

definition routeRollbackText :: "Route option \<Rightarrow> string" where
  "routeRollbackText prev = (case prev of
      None \<Rightarrow> ''remove the edge route again''
    | Some p \<Rightarrow> ''restore edge route '' @ route_Hostname p @ '' -> '' @ route_Upstream p)"

definition accessRollbackText :: "AccessApp option \<Rightarrow> string \<Rightarrow> string" where
  "accessRollbackText prev hostname = (case prev of
      None \<Rightarrow> ''remove the Access gate on '' @ hostname @ '' again''
    | Some p \<Rightarrow> ''restore the previous Access gate on '' @ hostname)"

definition ruleRollbackText :: "IngressRule option \<Rightarrow> string \<Rightarrow> string" where
  "ruleRollbackText prev hostname = (case prev of
      None \<Rightarrow> ''remove the tunnel ingress for '' @ hostname @ '' again''
    | Some p \<Rightarrow> ''restore tunnel ingress '' @ rule_Hostname p @ '' -> '' @ rule_Origin p)"

text \<open>The seven blocks of exposureSteps, one per possible step, in the order the code
  appends them: two foundations, the gate, the tunnel path, the reachability switch, two cleanups.\<close>

definition anchor_block :: "ServiceRecord \<Rightarrow> Observation \<Rightarrow> desiredResources \<Rightarrow> Step list" where
  "anchor_block svc obs des =
    (if \<not> recordMatches (obs_AnchorDNS obs) (Some (des_anchor des)) then
       [(new_step StepDNSEnsure (svc_Hostname svc)
           (''point private anchor '' @ rec_Name (des_anchor des) @ '' at '' @ rec_Content (des_anchor des) @ '' (DNS-only)'')
           (dnsRollbackText (obs_AnchorDNS obs)))
         \<lparr>step_Record := Some (des_anchor des), step_PrevRecord := obs_AnchorDNS obs\<rparr>] else [])"

definition edge_block :: "ServiceRecord \<Rightarrow> Observation \<Rightarrow> desiredResources \<Rightarrow> Step list" where
  "edge_block svc obs des =
    (if (case obs_EdgeRoute obs of None \<Rightarrow> True | Some r \<Rightarrow> route_Upstream r \<noteq> route_Upstream (des_route des)) then
       [(new_step StepEdgeEnsure (svc_Hostname svc)
           (''route '' @ route_Hostname (des_route des) @ '' to '' @ route_Upstream (des_route des) @ '' on the local edge'')
           (routeRollbackText (obs_EdgeRoute obs)))
         \<lparr>step_Route := Some (des_route des), step_PrevRoute := obs_EdgeRoute obs\<rparr>] else [])"

definition gate_block :: "Config \<Rightarrow> ServiceRecord \<Rightarrow> Observation \<Rightarrow> desiredResources \<Rightarrow> Step list" where
  "gate_block cfg svc obs des =
    (case des_app des of
       None \<Rightarrow> []
     | Some app \<Rightarrow>
         if \<not> accessAppsEqual (obs_AccessApp obs) (Some app) then
           [(new_step StepAccessEnsure (svc_Hostname svc)
               (''ensure the Access identity gate on '' @ svc_Hostname svc @ '' for '' @ join '', '' (sharedGroups cfg))
               (accessRollbackText (obs_AccessApp obs) (svc_Hostname svc)))
             \<lparr>step_App := Some app, step_PrevApp := obs_AccessApp obs\<rparr>] else [])"

definition ingress_block :: "ServiceRecord \<Rightarrow> Observation \<Rightarrow> desiredResources \<Rightarrow> Step list" where
  "ingress_block svc obs des =
    (case des_rule des of
       None \<Rightarrow> []
     | Some rule \<Rightarrow>
         if (case obs_TunnelIngress obs of None \<Rightarrow> True | Some r \<Rightarrow> rule_Origin r \<noteq> rule_Origin rule) then
           [(new_step StepIngressEnsure (svc_Hostname svc)
               (''publish '' @ rule_Hostname rule @ '' through the tunnel to '' @ rule_Origin rule)
               (ruleRollbackText (obs_TunnelIngress obs) (svc_Hostname svc)))
             \<lparr>step_Rule := Some rule, step_PrevRule := obs_TunnelIngress obs\<rparr>] else [])"

definition vanity_block :: "ServiceRecord \<Rightarrow> Observation \<Rightarrow> desiredResources \<Rightarrow> Step list" where
  "vanity_block svc obs des =
    (if \<not> recordMatches (obs_VanityDNS obs) (Some (des_vanity des)) then
       [(new_step StepDNSEnsure (svc_Hostname svc)
           (''point '' @ rec_Name (des_vanity des) @ '' at '' @ rec_Content (des_vanity des)
             @ '' (proxied='' @ fmt_bool (rec_Proxied (des_vanity des)) @ '')'')
           (dnsRollbackText (obs_VanityDNS obs)))
         \<lparr>step_Record := Some (des_vanity des), step_PrevRecord := obs_VanityDNS obs\<rparr>] else [])"

definition ingress_cleanup :: "ServiceRecord \<Rightarrow> Observation \<Rightarrow> desiredResources \<Rightarrow> Step list" where
  "ingress_cleanup svc obs des =
    (case (des_rule des, obs_TunnelIngress obs) of
       (None, Some r) \<Rightarrow>
         [(new_step StepIngressRemove (svc_Hostname svc)
             (''remove the tunnel ingress for '' @ svc_Hostname svc)
             (''republish '' @ svc_Hostname svc @ '' through the tunnel to '' @ rule_Origin r))
           \<lparr>step_Rule := Some r\<rparr>]
     | _ \<Rightarrow> [])"

definition gate_cleanup :: "ServiceRecord \<Rightarrow> Observation \<Rightarrow> desiredResources \<Rightarrow> Step list" where
  "gate_cleanup svc obs des =
    (case (des_app des, obs_AccessApp obs) of
       (None, Some a) \<Rightarrow>
         [(new_step StepAccessRemove (svc_Hostname svc)
             (''remove the Access identity gate from '' @ svc_Hostname svc)
             (''recreate the Access gate on '' @ svc_Hostname svc))
           \<lparr>step_App := Some a\<rparr>]
     | _ \<Rightarrow> [])"

definition exposureSteps :: "Config \<Rightarrow> ServiceRecord \<Rightarrow> Observation \<Rightarrow> desiredResources \<Rightarrow> Step list" where
  "exposureSteps cfg svc obs des =
     anchor_block svc obs des @ edge_block svc obs des @ gate_block cfg svc obs des @
     ingress_block svc obs des @ vanity_block svc obs des @
     ingress_cleanup svc obs des @ gate_cleanup svc obs des"

lemmas block_defs = anchor_block_def edge_block_def gate_block_def ingress_block_def
  vanity_block_def ingress_cleanup_def gate_cleanup_def

section \<open>Steps of a teardown\<close>

definition deleteSteps :: "ServiceRecord \<Rightarrow> Observation \<Rightarrow> desiredResources \<Rightarrow> Step list" where
  "deleteSteps svc obs des =
     (let vanity = (case obs_VanityDNS obs of None \<Rightarrow> des_vanity des | Some v \<Rightarrow> v);
          rule = (case obs_TunnelIngress obs of None \<Rightarrow> des_rule des | Some r \<Rightarrow> Some r);
          app = (case obs_AccessApp obs of None \<Rightarrow> des_app des | Some a \<Rightarrow> Some a);
          route = (case obs_EdgeRoute obs of None \<Rightarrow> des_route des | Some r \<Rightarrow> r);
          anchor = (case obs_AnchorDNS obs of None \<Rightarrow> des_anchor des | Some a \<Rightarrow> a) in
      [(new_step StepDNSRemove (svc_Hostname svc)
          (''remove vanity record '' @ svc_Hostname svc @ '', cutting public and private DNS reachability first'')
          (''recreate CNAME '' @ rec_Name vanity @ '' -> '' @ rec_Content vanity))
        \<lparr>step_Record := Some vanity\<rparr>] @
      (case rule of
         None \<Rightarrow> []
       | Some r \<Rightarrow>
           [(new_step StepIngressRemove (svc_Hostname svc)
               (''remove the tunnel ingress for '' @ svc_Hostname svc)
               (''republish '' @ rule_Hostname r @ '' through the tunnel to '' @ rule_Origin r))
             \<lparr>step_Rule := Some r\<rparr>]) @
      (case app of
         None \<Rightarrow> []
       | Some a \<Rightarrow>
           [(new_step StepAccessRemove (svc_Hostname svc)
               (''remove the Access identity gate from '' @ svc_Hostname svc)
               (''recreate the Access gate on '' @ svc_Hostname svc))
             \<lparr>step_App := Some a\<rparr>]) @
      [(new_step StepEdgeRemove (svc_Hostname svc)
          (''remove the local edge route for '' @ svc_Hostname svc)
          (''restore edge route '' @ route_Hostname route @ '' -> '' @ route_Upstream route))
        \<lparr>step_Route := Some route\<rparr>,
       (new_step StepDNSRemove (svc_Hostname svc)
          (''remove the private anchor '' @ svc_HomeAnchor svc)
          (''recreate A '' @ rec_Name anchor @ '' -> '' @ rec_Content anchor))
        \<lparr>step_Record := Some anchor\<rparr>])"

section \<open>Warnings\<close>

definition planWarnings :: "Config \<Rightarrow> ServiceRecord \<Rightarrow> string list \<times> bool" where
  "planWarnings cfg svc =
     (if svc_Exposure svc = ExposurePublic then
        (let w = [svc_Hostname svc @ '' will resolve to the Cloudflare tunnel and be reachable from the internet without an identity gate''] in
         if svc_AppAuth svc = AuthNative
         then (w @ [''the service relies on its own application-level authentication; verify it before applying''], False)
         else (w @ [''the service does not authenticate users itself; an explicit acknowledgement (AcknowledgePublic) is required before Apply''], True))
      else if svc_Exposure svc = ExposureShared then
        ([svc_Hostname svc @ '' will be published through the Cloudflare tunnel behind an Access identity gate ('' @ join '', '' (sharedGroups cfg) @ '')''], False)
      else ([], False))"

end
