(* ===== verification/ExposureCheck.thy ===== *)
theory ExposureCheck
  imports ExposurePlan
begin

text \<open>
  internal/exposure/plan.go: the ordering check of a generated plan and the drift report, with
  the lemmas that the planner's own step lists pass the check, that no drift means no steps, and
  that no steps means no drift.
\<close>

section \<open>checkOrdering\<close>

text \<open>Each scan variable of the loop holds the index of the first step a condition accepts, or
  -1.\<close>

fun first_index_from :: "int \<Rightarrow> (Step \<Rightarrow> bool) \<Rightarrow> Step list \<Rightarrow> int" where
  "first_index_from i P [] = -1"
| "first_index_from i P (st # sts) = (if P st then i else first_index_from (i + 1) P sts)"

definition first_index :: "(Step \<Rightarrow> bool) \<Rightarrow> Step list \<Rightarrow> int" where
  "first_index P sts = first_index_from 0 P sts"

definition record_step_to :: "string \<Rightarrow> string \<Rightarrow> Step \<Rightarrow> bool" where
  "record_step_to vanity target st \<longleftrightarrow> step_Kind st = StepDNSEnsure \<and>
     (case step_Record st of None \<Rightarrow> False
      | Some r \<Rightarrow> equal_fold (rec_Name r) vanity \<and> rec_Content r = target)"

definition app_step_on :: "StepKind \<Rightarrow> string \<Rightarrow> Step \<Rightarrow> bool" where
  "app_step_on k vanity st \<longleftrightarrow> step_Kind st = k \<and>
     (case step_App st of None \<Rightarrow> False | Some a \<Rightarrow> equal_fold (app_Hostname a) vanity)"

definition rule_step_on :: "StepKind \<Rightarrow> string \<Rightarrow> Step \<Rightarrow> bool" where
  "rule_step_on k vanity st \<longleftrightarrow> step_Kind st = k \<and>
     (case step_Rule st of None \<Rightarrow> False | Some r \<Rightarrow> equal_fold (rule_Hostname r) vanity)"

definition checkOrdering ::
  "Config \<Rightarrow> ServiceRecord \<Rightarrow> exposure \<Rightarrow> exposure \<Rightarrow> Observation \<Rightarrow> Step list \<Rightarrow> goerror option" where
  "checkOrdering cfg svc from to obs steps =
     (let vanity = svc_Hostname svc;
          vanityTunnel = first_index (record_step_to vanity (cfg_TunnelDNS cfg)) steps;
          vanityAnchor = first_index (record_step_to vanity (svc_HomeAnchor svc)) steps;
          gateEnsure = first_index (app_step_on StepAccessEnsure vanity) steps;
          gateRemove = first_index (app_step_on StepAccessRemove vanity) steps;
          ingressEnsure = first_index (rule_step_on StepIngressEnsure vanity) steps;
          ingressRemove = first_index (rule_step_on StepIngressRemove vanity) steps in
      if vanityTunnel \<ge> 0 \<and> obs_TunnelIngress obs = None \<and> (ingressEnsure < 0 \<or> ingressEnsure > vanityTunnel)
        then Some (errorf (''exposure: unsafe plan order: tunnel ingress must be created before '' @ vanity @ '' points at the tunnel''))
      else if vanityTunnel \<ge> 0 \<and> to = ExposureShared \<and> obs_AccessApp obs = None \<and> (gateEnsure < 0 \<or> gateEnsure > vanityTunnel)
        then Some (errorf (''exposure: unsafe plan order: the identity gate must be created before '' @ vanity @ '' points at the tunnel''))
      else if to = ExposurePrivate \<and> from \<noteq> [] \<and> from \<noteq> ExposurePrivate \<and> vanityAnchor < 0
        then Some (errorf (''exposure: unsafe plan order: returning '' @ vanity @ '' to private must repoint the vanity record at '' @ svc_HomeAnchor svc @ '' first''))
      else if to = ExposurePrivate \<and> from \<noteq> [] \<and> from \<noteq> ExposurePrivate \<and> ingressRemove \<ge> 0 \<and> ingressRemove < vanityAnchor
        then Some (errorf ''exposure: unsafe plan order: tunnel ingress removal must follow the vanity repoint'')
      else if to = ExposurePrivate \<and> from \<noteq> [] \<and> from \<noteq> ExposurePrivate \<and> gateRemove \<ge> 0 \<and> gateRemove < vanityAnchor
        then Some (errorf ''exposure: unsafe plan order: identity gate removal must follow the vanity repoint'')
      else if from = ExposureShared \<and> to = ExposurePublic \<and> vanityTunnel \<ge> 0 \<and> gateRemove \<ge> 0 \<and> gateRemove < vanityTunnel
        then Some (errorf ''exposure: unsafe plan order: DNS must settle before the identity gate is removed'')
      else None)"

section \<open>computeDrift\<close>

definition dns_drift :: "ServiceRecord \<Rightarrow> Observation \<Rightarrow> desiredResources \<Rightarrow> string list" where
  "dns_drift svc obs des =
     (case obs_VanityDNS obs of
        None \<Rightarrow> [''vanity CNAME '' @ svc_Hostname svc @ '' is missing'']
      | Some v \<Rightarrow> if \<not> recordMatches (Some v) (Some (des_vanity des))
          then [''vanity CNAME '' @ svc_Hostname svc @ '' points at '' @ rec_Content v @ '' (proxied=''
                @ fmt_bool (rec_Proxied v) @ ''), want '' @ rec_Content (des_vanity des)] else []) @
     (case obs_AnchorDNS obs of
        None \<Rightarrow> [''anchor A '' @ svc_HomeAnchor svc @ '' is missing'']
      | Some a \<Rightarrow> if \<not> recordMatches (Some a) (Some (des_anchor des))
          then [''anchor A '' @ svc_HomeAnchor svc @ '' points at '' @ rec_Content a @ '', want '' @ rec_Content (des_anchor des)] else [])"

definition tunnel_drift :: "ServiceRecord \<Rightarrow> Observation \<Rightarrow> desiredResources \<Rightarrow> string list" where
  "tunnel_drift svc obs des = (case (des_rule des, obs_TunnelIngress obs) of
      (None, Some r) \<Rightarrow> [''tunnel ingress for '' @ svc_Hostname svc @ '' exists but desired exposure is '' @ svc_Exposure svc]
    | (Some d, None) \<Rightarrow> [''tunnel ingress for '' @ svc_Hostname svc @ '' is missing'']
    | (Some d, Some r) \<Rightarrow> if rule_Origin r \<noteq> rule_Origin d
        then [''tunnel ingress for '' @ svc_Hostname svc @ '' targets '' @ rule_Origin r @ '', want '' @ rule_Origin d] else []
    | (None, None) \<Rightarrow> [])"

definition access_drift :: "ServiceRecord \<Rightarrow> Observation \<Rightarrow> desiredResources \<Rightarrow> string list" where
  "access_drift svc obs des = (case (des_app des, obs_AccessApp obs) of
      (None, Some a) \<Rightarrow> [''Access gate on '' @ svc_Hostname svc @ '' exists but desired exposure is '' @ svc_Exposure svc]
    | (Some d, None) \<Rightarrow> [''Access gate on '' @ svc_Hostname svc @ '' is missing'']
    | (Some d, Some a) \<Rightarrow> if \<not> accessAppsEqual (Some a) (Some d)
        then [''Access gate on '' @ svc_Hostname svc @ '' has different policies''] else []
    | (None, None) \<Rightarrow> [])"

definition edge_drift :: "ServiceRecord \<Rightarrow> Observation \<Rightarrow> desiredResources \<Rightarrow> string list" where
  "edge_drift svc obs des = (case obs_EdgeRoute obs of
      None \<Rightarrow> [''edge route for '' @ svc_Hostname svc @ '' is missing'']
    | Some r \<Rightarrow> if route_Upstream r \<noteq> route_Upstream (des_route des)
        then [''edge route for '' @ svc_Hostname svc @ '' targets '' @ route_Upstream r @ '', want '' @ route_Upstream (des_route des)] else [])"

definition computeDrift :: "Config \<Rightarrow> ServiceRecord \<Rightarrow> Observation \<Rightarrow> string list \<Rightarrow> string list" where
  "computeDrift cfg svc obs missing =
     (let des = desiredFor cfg svc in
      map (\<lambda>sc. ''live state unknown: '' @ sc @ '' client not configured'') missing @
      (if List.member missing ScopeDNS then [] else dns_drift svc obs des) @
      (if List.member missing ScopeTunnel then [] else tunnel_drift svc obs des) @
      (if List.member missing ScopeAccess then [] else access_drift svc obs des) @
      (if List.member missing ScopeEdge then [] else edge_drift svc obs des))"

section \<open>No drift is exactly no steps\<close>

definition settled :: "Config \<Rightarrow> ServiceRecord \<Rightarrow> Observation \<Rightarrow> bool" where
  "settled cfg svc obs \<longleftrightarrow> (let des = desiredFor cfg svc in
     recordMatches (obs_VanityDNS obs) (Some (des_vanity des)) \<and>
     recordMatches (obs_AnchorDNS obs) (Some (des_anchor des)) \<and>
     map_option rule_Origin (obs_TunnelIngress obs) = map_option rule_Origin (des_rule des) \<and>
     (case des_app des of None \<Rightarrow> obs_AccessApp obs = None
        | Some a \<Rightarrow> accessAppsEqual (obs_AccessApp obs) (Some a)) \<and>
     map_option route_Upstream (obs_EdgeRoute obs) = Some (route_Upstream (des_route des)))"

lemma computeDrift_Nil: "computeDrift cfg svc obs [] = [] \<longleftrightarrow> settled cfg svc obs"
  by (auto simp: computeDrift_def settled_def dns_drift_def tunnel_drift_def access_drift_def
      edge_drift_def Let_def split: option.splits)

lemma exposureSteps_Nil: "exposureSteps cfg svc obs (desiredFor cfg svc) = [] \<longleftrightarrow> settled cfg svc obs"
  by (auto simp: exposureSteps_def block_defs settled_def Let_def split: option.splits if_splits)

section \<open>The planner's own plans pass the check\<close>

lemma first_index_from_append:
  "first_index_from i P (xs @ ys) =
     (if list_ex P xs then first_index_from i P xs else first_index_from (i + int (length xs)) P ys)"
  by (induction xs arbitrary: i) (auto simp: algebra_simps)

lemma first_index_from_none [simp]: "\<not> list_ex P xs \<Longrightarrow> first_index_from i P xs = -1"
  by (induction xs arbitrary: i) auto

lemma first_index_from_short: "length xs \<le> 1 \<Longrightarrow> list_ex P xs \<Longrightarrow> first_index_from i P xs = i"
  by (cases xs) auto

lemma block_length [simp]:
  "length (anchor_block svc obs des) \<le> Suc 0" "length (edge_block svc obs des) \<le> Suc 0"
  "length (gate_block cfg svc obs des) \<le> Suc 0" "length (ingress_block svc obs des) \<le> Suc 0"
  "length (vanity_block svc obs des) \<le> Suc 0" "length (ingress_cleanup svc obs des) \<le> Suc 0"
  "length (gate_cleanup svc obs des) \<le> Suc 0"
  by (auto simp: block_defs split: option.splits)

lemma desiredFor_names [simp]:
  "rec_Name (des_anchor (desiredFor cfg svc)) = svc_HomeAnchor svc"
  "rec_Type (des_anchor (desiredFor cfg svc)) = ''A''"
  "rec_Name (des_vanity (desiredFor cfg svc)) = svc_Hostname svc"
  "rec_Type (des_vanity (desiredFor cfg svc)) = ''CNAME''"
  "route_Hostname (des_route (desiredFor cfg svc)) = svc_Hostname svc"
  "route_Upstream (des_route (desiredFor cfg svc)) = svc_Upstream svc"
  by (simp_all add: desiredFor_def)

lemma desiredFor_content [simp]:
  "rec_Content (des_vanity (desiredFor cfg svc)) =
     (if svc_Exposure svc = ExposurePrivate then svc_HomeAnchor svc else cfg_TunnelDNS cfg)"
  "rec_Proxied (des_vanity (desiredFor cfg svc)) = (svc_Exposure svc \<noteq> ExposurePrivate)"
  "rec_Content (des_anchor (desiredFor cfg svc)) = cfg_TailscaleIP cfg"
  "rec_Proxied (des_anchor (desiredFor cfg svc)) = False"
  by (simp_all add: desiredFor_def)

lemma desiredFor_opts [simp]:
  "des_rule (desiredFor cfg svc) = (if svc_Exposure svc = ExposurePrivate then None
     else Some \<lparr>rule_Hostname = svc_Hostname svc, rule_Origin = svc_TunnelOrigin svc\<rparr>)"
  "des_app (desiredFor cfg svc) = (if svc_Exposure svc = ExposureShared then Some (accessAppFor cfg svc) else None)"
  by (simp_all add: desiredFor_def)

lemma accessAppFor_simps [simp]:
  "app_Hostname (accessAppFor cfg svc) = svc_Hostname svc" "app_Name (accessAppFor cfg svc) = svc_Hostname svc"
  by (simp_all add: accessAppFor_def)


lemma record_step_hits:
  "\<not> list_ex (record_step_to h t) (edge_block svc obs des)"
  "\<not> list_ex (record_step_to h t) (gate_block cfg svc obs des)"
  "\<not> list_ex (record_step_to h t) (ingress_block svc obs des)"
  "\<not> list_ex (record_step_to h t) (ingress_cleanup svc obs des)"
  "\<not> list_ex (record_step_to h t) (gate_cleanup svc obs des)"
  "list_ex (record_step_to h t) (anchor_block svc obs des) \<longleftrightarrow>
     anchor_block svc obs des \<noteq> [] \<and> equal_fold (rec_Name (des_anchor des)) h \<and> rec_Content (des_anchor des) = t"
  "list_ex (record_step_to h t) (vanity_block svc obs des) \<longleftrightarrow>
     vanity_block svc obs des \<noteq> [] \<and> equal_fold (rec_Name (des_vanity des)) h \<and> rec_Content (des_vanity des) = t"
  by (auto simp: block_defs record_step_to_def split: option.splits if_splits)

lemma app_step_hits:
  "\<not> list_ex (app_step_on k h) (anchor_block svc obs des)"
  "\<not> list_ex (app_step_on k h) (edge_block svc obs des)"
  "\<not> list_ex (app_step_on k h) (ingress_block svc obs des)"
  "\<not> list_ex (app_step_on k h) (vanity_block svc obs des)"
  "\<not> list_ex (app_step_on k h) (ingress_cleanup svc obs des)"
  "\<not> list_ex (app_step_on StepAccessRemove h) (gate_block cfg svc obs des)"
  "\<not> list_ex (app_step_on StepAccessEnsure h) (gate_cleanup svc obs des)"
  by (auto simp: block_defs app_step_on_def split: option.splits if_splits)

lemma gate_block_hit:
  "list_ex (app_step_on StepAccessEnsure (svc_Hostname svc)) (gate_block cfg svc obs (desiredFor cfg svc)) \<longleftrightarrow>
     svc_Exposure svc = ExposureShared \<and> \<not> accessAppsEqual (obs_AccessApp obs) (Some (accessAppFor cfg svc))"
  by (auto simp: gate_block_def app_step_on_def split: option.splits if_splits)

lemma rule_step_hits:
  "\<not> list_ex (rule_step_on k h) (anchor_block svc obs des)"
  "\<not> list_ex (rule_step_on k h) (edge_block svc obs des)"
  "\<not> list_ex (rule_step_on k h) (gate_block cfg svc obs des)"
  "\<not> list_ex (rule_step_on k h) (vanity_block svc obs des)"
  "\<not> list_ex (rule_step_on k h) (gate_cleanup svc obs des)"
  "\<not> list_ex (rule_step_on StepIngressRemove h) (ingress_block svc obs des)"
  "\<not> list_ex (rule_step_on StepIngressEnsure h) (ingress_cleanup svc obs des)"
  by (auto simp: block_defs rule_step_on_def split: option.splits if_splits)

lemma ingress_block_hit:
  "list_ex (rule_step_on StepIngressEnsure (svc_Hostname svc)) (ingress_block svc obs (desiredFor cfg svc)) \<longleftrightarrow>
     svc_Exposure svc \<noteq> ExposurePrivate \<and>
     map_option rule_Origin (obs_TunnelIngress obs) \<noteq> Some (svc_TunnelOrigin svc)"
  by (auto simp: ingress_block_def rule_step_on_def split: option.splits if_splits)

lemma vanity_block_Nil: "vanity_block svc obs des = [] \<longleftrightarrow> recordMatches (obs_VanityDNS obs) (Some (des_vanity des))"
  by (simp add: vanity_block_def)

lemma first_index_from_lb: "first_index_from i P xs = -1 \<or> i \<le> first_index_from i P xs"
  by (induction xs arbitrary: i) (auto, smt (verit))

lemmas hits = record_step_hits app_step_hits gate_block_hit rule_step_hits ingress_block_hit

text \<open>Positions of the scanned steps in a planned list: lengths of the blocks before them.\<close>

lemma planner_vanity_index:
  fixes cfg svc
  assumes "\<not> equal_fold (svc_HomeAnchor svc) (svc_Hostname svc)"
  defines "des \<equiv> desiredFor cfg svc"
  shows "first_index (record_step_to (svc_Hostname svc) t) (exposureSteps cfg svc obs des) =
    (if \<not> recordMatches (obs_VanityDNS obs) (Some (des_vanity des)) \<and> rec_Content (des_vanity des) = t
     then int (length (anchor_block svc obs des @ edge_block svc obs des @ gate_block cfg svc obs des @ ingress_block svc obs des))
     else -1)"
  using assms
  by (auto simp: first_index_def exposureSteps_def first_index_from_append hits vanity_block_Nil
      first_index_from_short des_def)

lemma planner_gate_index:
  "first_index (app_step_on StepAccessEnsure (svc_Hostname svc)) (exposureSteps cfg svc obs (desiredFor cfg svc)) =
    (if svc_Exposure svc = ExposureShared \<and> \<not> accessAppsEqual (obs_AccessApp obs) (Some (accessAppFor cfg svc))
     then int (length (anchor_block svc obs (desiredFor cfg svc) @ edge_block svc obs (desiredFor cfg svc)))
     else -1)"
  by (auto simp: first_index_def exposureSteps_def first_index_from_append hits first_index_from_short)

lemma planner_ingress_index:
  "first_index (rule_step_on StepIngressEnsure (svc_Hostname svc)) (exposureSteps cfg svc obs (desiredFor cfg svc)) =
    (if svc_Exposure svc \<noteq> ExposurePrivate \<and>
        map_option rule_Origin (obs_TunnelIngress obs) \<noteq> Some (svc_TunnelOrigin svc)
     then int (length (anchor_block svc obs (desiredFor cfg svc) @ edge_block svc obs (desiredFor cfg svc) @
       gate_block cfg svc obs (desiredFor cfg svc)))
     else -1)"
  by (auto simp: first_index_def exposureSteps_def first_index_from_append hits first_index_from_short)

lemma planner_removals_late:
  fixes cfg svc obs h
  defines "des \<equiv> desiredFor cfg svc"
  defines "n \<equiv> int (length (anchor_block svc obs des @ edge_block svc obs des @ gate_block cfg svc obs des @ ingress_block svc obs des))"
  shows "first_index (app_step_on StepAccessRemove h) (exposureSteps cfg svc obs des) = -1 \<or>
      n \<le> first_index (app_step_on StepAccessRemove h) (exposureSteps cfg svc obs des)"
    and "first_index (rule_step_on StepIngressRemove h) (exposureSteps cfg svc obs des) = -1 \<or>
      n \<le> first_index (rule_step_on StepIngressRemove h) (exposureSteps cfg svc obs des)"
proof -
  have "first_index_from j P xs = -1 \<or> n \<le> first_index_from j P xs" if "n \<le> j" for j P xs
    using first_index_from_lb [of j P xs] that by linarith
  then show "first_index (app_step_on StepAccessRemove h) (exposureSteps cfg svc obs des) = -1 \<or>
      n \<le> first_index (app_step_on StepAccessRemove h) (exposureSteps cfg svc obs des)"
    and "first_index (rule_step_on StepIngressRemove h) (exposureSteps cfg svc obs des) = -1 \<or>
      n \<le> first_index (rule_step_on StepIngressRemove h) (exposureSteps cfg svc obs des)"
    by (simp_all add: first_index_def exposureSteps_def first_index_from_append hits n_def)
qed

lemma infer_tunnel: "inferExposure cfg svc obs \<noteq> [] \<Longrightarrow> inferExposure cfg svc obs \<noteq> ExposurePrivate \<Longrightarrow>
   \<exists>v. obs_VanityDNS obs = Some v \<and> rec_Content v \<noteq> svc_HomeAnchor svc"
  by (auto simp: inferExposure_def split: option.splits if_splits)

lemma checkOrdering_NoneI:
  fixes cfg svc steps
  defines "vt \<equiv> first_index (record_step_to (svc_Hostname svc) (cfg_TunnelDNS cfg)) steps"
    and "va \<equiv> first_index (record_step_to (svc_Hostname svc) (svc_HomeAnchor svc)) steps"
    and "ge \<equiv> first_index (app_step_on StepAccessEnsure (svc_Hostname svc)) steps"
    and "gr \<equiv> first_index (app_step_on StepAccessRemove (svc_Hostname svc)) steps"
    and "ie \<equiv> first_index (rule_step_on StepIngressEnsure (svc_Hostname svc)) steps"
    and "ir \<equiv> first_index (rule_step_on StepIngressRemove (svc_Hostname svc)) steps"
  assumes "0 \<le> vt \<Longrightarrow> obs_TunnelIngress obs = None \<Longrightarrow> 0 \<le> ie \<and> ie \<le> vt"
    and "0 \<le> vt \<Longrightarrow> to = ExposureShared \<Longrightarrow> obs_AccessApp obs = None \<Longrightarrow> 0 \<le> ge \<and> ge \<le> vt"
    and "to = ExposurePrivate \<Longrightarrow> from \<noteq> [] \<Longrightarrow> from \<noteq> ExposurePrivate \<Longrightarrow>
      0 \<le> va \<and> (ir = -1 \<or> va \<le> ir) \<and> (gr = -1 \<or> va \<le> gr)"
    and "0 \<le> vt \<Longrightarrow> gr = -1 \<or> vt \<le> gr"
  shows "checkOrdering cfg svc from to obs steps = None"
proof -
  have 1: "\<not> (vt \<ge> 0 \<and> obs_TunnelIngress obs = None \<and> (ie < 0 \<or> ie > vt))"
    and 2: "\<not> (vt \<ge> 0 \<and> to = ExposureShared \<and> obs_AccessApp obs = None \<and> (ge < 0 \<or> ge > vt))"
    and 3: "\<not> (to = ExposurePrivate \<and> from \<noteq> [] \<and> from \<noteq> ExposurePrivate \<and> va < 0)"
    and 4: "\<not> (to = ExposurePrivate \<and> from \<noteq> [] \<and> from \<noteq> ExposurePrivate \<and> ir \<ge> 0 \<and> ir < va)"
    and 5: "\<not> (to = ExposurePrivate \<and> from \<noteq> [] \<and> from \<noteq> ExposurePrivate \<and> gr \<ge> 0 \<and> gr < va)"
    and 6: "\<not> (from = ExposureShared \<and> to = ExposurePublic \<and> vt \<ge> 0 \<and> gr \<ge> 0 \<and> gr < vt)"
    using assms(7-10) by linarith+
  show ?thesis
    unfolding checkOrdering_def Let_def assms(1-6) [symmetric] by (simp only: 1 2 3 4 5 6 if_False)
qed

lemma checkOrdering_planner:
  assumes nf: "\<not> equal_fold (svc_HomeAnchor svc) (svc_Hostname svc)"
    and na: "svc_HomeAnchor svc \<noteq> cfg_TunnelDNS cfg"
  shows "checkOrdering cfg svc (inferExposure cfg svc obs) (svc_Exposure svc) obs
    (exposureSteps cfg svc obs (desiredFor cfg svc)) = None"
proof (rule checkOrdering_NoneI, goal_cases)
  case 1
  then show ?case using na by (simp add: planner_vanity_index [OF nf] planner_ingress_index split: if_splits)
next
  case 2
  then show ?case using na by (simp add: planner_vanity_index [OF nf] planner_gate_index split: if_splits)
next
  case 3
  then have "\<not> recordMatches (obs_VanityDNS obs) (Some (des_vanity (desiredFor cfg svc)))"
    using infer_tunnel [of cfg svc obs] by (auto simp: recordMatches_Some)
  then show ?case using 3 planner_removals_late [of "svc_Hostname svc" cfg svc obs]
    by (simp add: planner_vanity_index [OF nf])
next
  case 4
  then show ?case using na planner_removals_late(1) [of "svc_Hostname svc" cfg svc obs]
    by (simp add: planner_vanity_index [OF nf] split: if_splits)
qed

end
