(* ===== verification/ExposureApply.thy ===== *)
theory ExposureApply
  imports ExposureCheck
begin

text \<open>
  internal/exposure/apply.go: reading live state, executing one step, undoing one step, the
  execution loop and the rollback loop.  A call of an external client threads the world.  A nil
  dereference (a client that is not configured, a step without its payload) is the result None of
  the function that would panic.  ensureRecord writes the created record's ID through the pointer
  it was given, so it returns the record as well, and execStep and undoStep return the step.
\<close>

section \<open>probe\<close>

definition empty_obs :: "id \<Rightarrow> time \<Rightarrow> Observation" where
  "empty_obs sid now = \<lparr>obs_ServiceID = sid, obs_ObservedAt = now, obs_VanityDNS = None, obs_AnchorDNS = None,
     obs_TunnelIngress = None, obs_AccessApp = None, obs_EdgeRoute = None, obs_Reconciled = False,
     obs_Drift = [], obs_Error = [], obs_PlanID = []\<rparr>"

definition probe_dns :: "'w Clients \<Rightarrow> ServiceRecord \<Rightarrow> 'w \<Rightarrow> Observation \<Rightarrow> 'w \<times> Observation \<times> string list \<times> string list" where
  "probe_dns cl svc w obs = (case cl_DNS cl of
      None \<Rightarrow> (w, obs, [ScopeDNS], [])
    | Some c \<Rightarrow> (case ListRecords c w of
          (w', Inl e) \<Rightarrow> (w', obs, [], [''dns: '' @ err_msg e])
        | (w', Inr recs) \<Rightarrow> (w', obs\<lparr>obs_VanityDNS := findRecord recs (svc_Hostname svc) ''CNAME'',
              obs_AnchorDNS := findRecord recs (svc_HomeAnchor svc) ''A''\<rparr>, [], [])))"

definition probe_tunnel :: "'w Clients \<Rightarrow> ServiceRecord \<Rightarrow> 'w \<Rightarrow> Observation \<Rightarrow> 'w \<times> Observation \<times> string list \<times> string list" where
  "probe_tunnel cl svc w obs = (case cl_Tunnel cl of
      None \<Rightarrow> (w, obs, [ScopeTunnel], [])
    | Some c \<Rightarrow> (case ListIngress c w of
          (w', Inl e) \<Rightarrow> (w', obs, [], [''tunnel: '' @ err_msg e])
        | (w', Inr rules) \<Rightarrow> (w', obs\<lparr>obs_TunnelIngress := findRule rules (svc_Hostname svc)\<rparr>, [], [])))"

definition probe_access :: "'w Clients \<Rightarrow> ServiceRecord \<Rightarrow> 'w \<Rightarrow> Observation \<Rightarrow> 'w \<times> Observation \<times> string list \<times> string list" where
  "probe_access cl svc w obs = (case cl_Access cl of
      None \<Rightarrow> (w, obs, [ScopeAccess], [])
    | Some c \<Rightarrow> (case GetApplication c (svc_Hostname svc) w of
          (w', Inl e) \<Rightarrow> (if \<not> errors_is e ErrNotFound then (w', obs, [], [''access: '' @ err_msg e])
                          else (w', obs, [], []))
        | (w', Inr app) \<Rightarrow> (w', obs\<lparr>obs_AccessApp := Some app\<rparr>, [], [])))"

definition probe_edge :: "'w Clients \<Rightarrow> ServiceRecord \<Rightarrow> 'w \<Rightarrow> Observation \<Rightarrow> 'w \<times> Observation \<times> string list \<times> string list" where
  "probe_edge cl svc w obs = (case cl_Edge cl of
      None \<Rightarrow> (w, obs, [ScopeEdge], [])
    | Some c \<Rightarrow> (case ListRoutes c w of
          (w', Inl e) \<Rightarrow> (w', obs, [], [''edge: '' @ err_msg e])
        | (w', Inr routes) \<Rightarrow> (w', obs\<lparr>obs_EdgeRoute := findRoute routes (svc_Hostname svc)\<rparr>, [], [])))"

text \<open>probe returns the observation and the missing scopes with or without an error.\<close>

definition probe ::
  "'w Clients \<Rightarrow> time \<Rightarrow> ServiceRecord \<Rightarrow> 'w \<Rightarrow> 'w \<times> Observation \<times> string list \<times> goerror option" where
  "probe cl now svc w =
     (let (w1, o1, m1, e1) = probe_dns cl svc w (empty_obs (svc_ID svc) now);
          (w2, o2, m2, e2) = probe_tunnel cl svc w1 o1;
          (w3, o3, m3, e3) = probe_access cl svc w2 o2;
          (w4, o4, m4, e4) = probe_edge cl svc w3 o3;
          missing = m1 @ m2 @ m3 @ m4;
          errs = e1 @ e2 @ e3 @ e4 in
      (w4, o4, missing,
       if errs \<noteq> [] then Some (errorf (''exposure: reading live state failed: '' @ join ''; '' errs)) else None))"

section \<open>Ensuring and removing one resource\<close>

definition ensureRecord :: "'w DNSClient \<Rightarrow> Record \<Rightarrow> 'w \<Rightarrow> 'w \<times> step_status result \<times> Record" where
  "ensureRecord c want w = (case ListRecords c w of
      (w1, Inl e) \<Rightarrow> (w1, Inl e, want)
    | (w1, Inr recs) \<Rightarrow>
        (case findRecord recs (rec_Name want) (rec_Type want) of
           Some cur \<Rightarrow>
             if recordMatches (Some cur) (Some want) then (w1, Inr StatusUnchanged, want)
             else (case ReplaceRecord c (rec_ID cur) want w1 of
                 (w2, Inl e) \<Rightarrow> (w2, Inl e, want)
               | (w2, Inr _) \<Rightarrow> (w2, Inr StatusApplied, want))
         | None \<Rightarrow>
             (case CreateRecord c want w1 of
                 (w2, Inl e) \<Rightarrow> (w2, Inl e, want)
               | (w2, Inr i) \<Rightarrow> (w2, Inr StatusApplied, want\<lparr>rec_ID := i\<rparr>))))"

definition removeRecord :: "'w DNSClient \<Rightarrow> string \<Rightarrow> string \<Rightarrow> 'w \<Rightarrow> 'w \<times> step_status result" where
  "removeRecord c name typ w = (case ListRecords c w of
      (w1, Inl e) \<Rightarrow> (w1, Inl e)
    | (w1, Inr recs) \<Rightarrow>
        (case findRecord recs name typ of
           None \<Rightarrow> (w1, Inr StatusUnchanged)
         | Some cur \<Rightarrow> (case DeleteRecord c (rec_ID cur) w1 of
               (w2, Inl e) \<Rightarrow> (w2, Inl e)
             | (w2, Inr _) \<Rightarrow> (w2, Inr StatusApplied))))"

text \<open>GetApplication returns a nil application exactly when it returns an error.\<close>

definition ensureAccess :: "'w AccessClient \<Rightarrow> AccessApp \<Rightarrow> 'w \<Rightarrow> 'w \<times> step_status result" where
  "ensureAccess c want w =
     (let (w1, r) = GetApplication c (app_Hostname want) w;
          put = (\<lambda>next. case PutApplication c next w1 of
                    (w2, Inl e) \<Rightarrow> (w2, Inl e)
                  | (w2, Inr _) \<Rightarrow> (w2, Inr StatusApplied)) in
      case r of
        Inl e \<Rightarrow> if \<not> errors_is e ErrNotFound then (w1, Inl e) else put want
      | Inr cur \<Rightarrow> if accessAppsEqual (Some cur) (Some want) then (w1, Inr StatusUnchanged)
                   else put (want\<lparr>app_ID := app_ID cur\<rparr>))"

definition removeAccess :: "'w AccessClient \<Rightarrow> string \<Rightarrow> 'w \<Rightarrow> 'w \<times> step_status result" where
  "removeAccess c hostname w = (case GetApplication c hostname w of
      (w1, Inl e) \<Rightarrow> if errors_is e ErrNotFound then (w1, Inr StatusUnchanged) else (w1, Inl e)
    | (w1, Inr cur) \<Rightarrow> (case DeleteApplication c (app_ID cur) w1 of
          (w2, Inl e) \<Rightarrow> (w2, Inl e)
        | (w2, Inr _) \<Rightarrow> (w2, Inr StatusApplied)))"

text \<open>The loop over the rules: the first rule for the hostname decides.  None: no rule for it.\<close>

fun replace_rule :: "IngressRule \<Rightarrow> IngressRule list \<Rightarrow> IngressRule list option" where
  "replace_rule want [] = None"
| "replace_rule want (r # rs) =
     (if equal_fold (rule_Hostname r) (rule_Hostname want) then Some (want # rs)
      else map_option ((#) r) (replace_rule want rs))"

definition ensureIngress :: "'w TunnelClient \<Rightarrow> IngressRule \<Rightarrow> 'w \<Rightarrow> 'w \<times> step_status result" where
  "ensureIngress c want w = (case ListIngress c w of
      (w1, Inl e) \<Rightarrow> (w1, Inl e)
    | (w1, Inr rules) \<Rightarrow>
        (let set = (\<lambda>rs. case SetIngress c rs w1 of
                      (w2, Inl e) \<Rightarrow> (w2, Inl e)
                    | (w2, Inr _) \<Rightarrow> (w2, Inr StatusApplied)) in
         case findRule rules (rule_Hostname want) of
           Some r \<Rightarrow> if rule_Origin r = rule_Origin want then (w1, Inr StatusUnchanged)
                     else set (the (replace_rule want rules))
         | None \<Rightarrow> set (rules @ [want])))"

definition removeIngress :: "'w TunnelClient \<Rightarrow> string \<Rightarrow> 'w \<Rightarrow> 'w \<times> step_status result" where
  "removeIngress c hostname w = (case ListIngress c w of
      (w1, Inl e) \<Rightarrow> (w1, Inl e)
    | (w1, Inr rules) \<Rightarrow>
        (let kept = filter (\<lambda>r. \<not> equal_fold (rule_Hostname r) hostname) rules;
             found = list_ex (\<lambda>r. equal_fold (rule_Hostname r) hostname) rules in
         if \<not> found then (w1, Inr StatusUnchanged)
         else (case SetIngress c kept w1 of
             (w2, Inl e) \<Rightarrow> (w2, Inl e)
           | (w2, Inr _) \<Rightarrow> (w2, Inr StatusApplied))))"

definition ensureRoute :: "'w EdgeClient \<Rightarrow> Route \<Rightarrow> 'w \<Rightarrow> 'w \<times> step_status result" where
  "ensureRoute c want w = (case ListRoutes c w of
      (w1, Inl e) \<Rightarrow> (w1, Inl e)
    | (w1, Inr routes) \<Rightarrow>
        if list_ex (\<lambda>r. equal_fold (route_Hostname r) (route_Hostname want) \<and> route_Upstream r = route_Upstream want) routes
        then (w1, Inr StatusUnchanged)
        else (case PutRoute c want w1 of
            (w2, Inl e) \<Rightarrow> (w2, Inl e)
          | (w2, Inr _) \<Rightarrow> (w2, Inr StatusApplied)))"

definition removeRoute :: "'w EdgeClient \<Rightarrow> string \<Rightarrow> 'w \<Rightarrow> 'w \<times> step_status result" where
  "removeRoute c hostname w = (case ListRoutes c w of
      (w1, Inl e) \<Rightarrow> (w1, Inl e)
    | (w1, Inr routes) \<Rightarrow>
        if list_ex (\<lambda>r. equal_fold (route_Hostname r) hostname) routes
        then (case DeleteRoute c hostname w1 of
            (w2, Inl e) \<Rightarrow> (w2, Inl e)
          | (w2, Inr _) \<Rightarrow> (w2, Inr StatusApplied))
        else (w1, Inr StatusUnchanged))"

section \<open>Executing and undoing a step\<close>

text \<open>The record operations through a step: the payload pointer is dereferenced, and the record
  with its new ID is visible in the step afterwards.\<close>

definition ensure_record_at ::
  "'w Clients \<Rightarrow> Record option \<Rightarrow> (Record \<Rightarrow> Step) \<Rightarrow> 'w \<Rightarrow> ('w \<times> step_status result \<times> Step) option" where
  "ensure_record_at cl want back w = (case (cl_DNS cl, want) of
      (Some c, Some r) \<Rightarrow> (case ensureRecord c r w of (w', res, r') \<Rightarrow> Some (w', res, back r'))
    | _ \<Rightarrow> None)"

definition remove_record_at ::
  "'w Clients \<Rightarrow> Record option \<Rightarrow> Step \<Rightarrow> 'w \<Rightarrow> ('w \<times> step_status result \<times> Step) option" where
  "remove_record_at cl r st w = (case (cl_DNS cl, r) of
      (Some c, Some r) \<Rightarrow> (case removeRecord c (rec_Name r) (rec_Type r) w of (w', res) \<Rightarrow> Some (w', res, st))
    | _ \<Rightarrow> None)"

definition ensure_access_at ::
  "'w Clients \<Rightarrow> AccessApp option \<Rightarrow> Step \<Rightarrow> 'w \<Rightarrow> ('w \<times> step_status result \<times> Step) option" where
  "ensure_access_at cl a st w = (case (cl_Access cl, a) of
      (Some c, Some a) \<Rightarrow> (case ensureAccess c a w of (w', res) \<Rightarrow> Some (w', res, st))
    | _ \<Rightarrow> None)"

definition remove_access_at ::
  "'w Clients \<Rightarrow> AccessApp option \<Rightarrow> Step \<Rightarrow> 'w \<Rightarrow> ('w \<times> step_status result \<times> Step) option" where
  "remove_access_at cl a st w = (case (cl_Access cl, a) of
      (Some c, Some a) \<Rightarrow> (case removeAccess c (app_Hostname a) w of (w', res) \<Rightarrow> Some (w', res, st))
    | _ \<Rightarrow> None)"

definition ensure_ingress_at ::
  "'w Clients \<Rightarrow> IngressRule option \<Rightarrow> Step \<Rightarrow> 'w \<Rightarrow> ('w \<times> step_status result \<times> Step) option" where
  "ensure_ingress_at cl r st w = (case (cl_Tunnel cl, r) of
      (Some c, Some r) \<Rightarrow> (case ensureIngress c r w of (w', res) \<Rightarrow> Some (w', res, st))
    | _ \<Rightarrow> None)"

definition remove_ingress_at ::
  "'w Clients \<Rightarrow> IngressRule option \<Rightarrow> Step \<Rightarrow> 'w \<Rightarrow> ('w \<times> step_status result \<times> Step) option" where
  "remove_ingress_at cl r st w = (case (cl_Tunnel cl, r) of
      (Some c, Some r) \<Rightarrow> (case removeIngress c (rule_Hostname r) w of (w', res) \<Rightarrow> Some (w', res, st))
    | _ \<Rightarrow> None)"

definition ensure_route_at ::
  "'w Clients \<Rightarrow> Route option \<Rightarrow> Step \<Rightarrow> 'w \<Rightarrow> ('w \<times> step_status result \<times> Step) option" where
  "ensure_route_at cl r st w = (case (cl_Edge cl, r) of
      (Some c, Some r) \<Rightarrow> (case ensureRoute c r w of (w', res) \<Rightarrow> Some (w', res, st))
    | _ \<Rightarrow> None)"

definition remove_route_at ::
  "'w Clients \<Rightarrow> Route option \<Rightarrow> Step \<Rightarrow> 'w \<Rightarrow> ('w \<times> step_status result \<times> Step) option" where
  "remove_route_at cl r st w = (case (cl_Edge cl, r) of
      (Some c, Some r) \<Rightarrow> (case removeRoute c (route_Hostname r) w of (w', res) \<Rightarrow> Some (w', res, st))
    | _ \<Rightarrow> None)"

definition execStep :: "'w Clients \<Rightarrow> Step \<Rightarrow> 'w \<Rightarrow> ('w \<times> step_status result \<times> Step) option" where
  "execStep cl st w = (case step_Kind st of
      StepDNSEnsure \<Rightarrow> ensure_record_at cl (step_Record st) (\<lambda>r. st\<lparr>step_Record := Some r\<rparr>) w
    | StepDNSRemove \<Rightarrow> remove_record_at cl (step_Record st) st w
    | StepAccessEnsure \<Rightarrow> ensure_access_at cl (step_App st) st w
    | StepAccessRemove \<Rightarrow> remove_access_at cl (step_App st) st w
    | StepIngressEnsure \<Rightarrow> ensure_ingress_at cl (step_Rule st) st w
    | StepIngressRemove \<Rightarrow> remove_ingress_at cl (step_Rule st) st w
    | StepEdgeEnsure \<Rightarrow> ensure_route_at cl (step_Route st) st w
    | StepEdgeRemove \<Rightarrow> remove_route_at cl (step_Route st) st w
    | StepUnknown k \<Rightarrow> Some (w, Inl (errorf (''unknown step kind '' @ quote k)), st))"

definition undoStep :: "'w Clients \<Rightarrow> Step \<Rightarrow> 'w \<Rightarrow> ('w \<times> step_status result \<times> Step) option" where
  "undoStep cl st w = (case step_Kind st of
      StepDNSEnsure \<Rightarrow>
        if step_PrevRecord st \<noteq> None
        then ensure_record_at cl (step_PrevRecord st) (\<lambda>r. st\<lparr>step_PrevRecord := Some r\<rparr>) w
        else remove_record_at cl (step_Record st) st w
    | StepDNSRemove \<Rightarrow> ensure_record_at cl (step_Record st) (\<lambda>r. st\<lparr>step_Record := Some r\<rparr>) w
    | StepAccessEnsure \<Rightarrow>
        if step_PrevApp st \<noteq> None then ensure_access_at cl (step_PrevApp st) st w
        else remove_access_at cl (step_App st) st w
    | StepAccessRemove \<Rightarrow> ensure_access_at cl (step_App st) st w
    | StepIngressEnsure \<Rightarrow>
        if step_PrevRule st \<noteq> None then ensure_ingress_at cl (step_PrevRule st) st w
        else remove_ingress_at cl (step_Rule st) st w
    | StepIngressRemove \<Rightarrow> ensure_ingress_at cl (step_Rule st) st w
    | StepEdgeEnsure \<Rightarrow>
        if step_PrevRoute st \<noteq> None then ensure_route_at cl (step_PrevRoute st) st w
        else remove_route_at cl (step_Route st) st w
    | StepEdgeRemove \<Rightarrow> ensure_route_at cl (step_Route st) st w
    | StepUnknown k \<Rightarrow> Some (w, Inl (errorf (''unknown step kind '' @ quote k)), st))"

section \<open>The two loops\<close>

definition step_result :: "nat \<Rightarrow> Step \<Rightarrow> step_status \<Rightarrow> string \<Rightarrow> StepResult" where
  "step_result i st s e = \<lparr>res_Index = i, res_Kind = step_Kind st, res_Description = step_Description st,
     res_Status = s, res_Error = e, res_RollbackStatus = None, res_RollbackError = []\<rparr>"

text \<open>The loop of Apply: the steps as they are afterwards, one result per step tried, and the
  index and error of the failing step if there is one.\<close>

fun exec_steps ::
  "'w Clients \<Rightarrow> nat \<Rightarrow> Step list \<Rightarrow> 'w \<Rightarrow> ('w \<times> Step list \<times> StepResult list \<times> (nat \<times> goerror) option) option" where
  "exec_steps cl i [] w = Some (w, [], [], None)"
| "exec_steps cl i (st # sts) w = (case execStep cl st w of
      None \<Rightarrow> None
    | Some (w1, Inl e, st') \<Rightarrow>
        Some (w1, st' # sts, [step_result i st StatusFailed (err_msg e)], Some (i, e))
    | Some (w1, Inr s, st') \<Rightarrow> (case exec_steps cl (Suc i) sts w1 of
          None \<Rightarrow> None
        | Some (w2, sts', rs, f) \<Rightarrow> Some (w2, st' # sts', step_result i st s [] # rs, f)))"

text \<open>rollbackApplied walks the results from the last to the first; here over the reversed list of
  steps with their results.  The first error met is the one returned.\<close>

fun undo_steps ::
  "'w Clients \<Rightarrow> (Step \<times> StepResult) list \<Rightarrow> 'w \<Rightarrow> ('w \<times> (Step \<times> StepResult) list \<times> goerror option) option" where
  "undo_steps cl [] w = Some (w, [], None)"
| "undo_steps cl ((st, r) # ps) w =
     (if res_Status r \<noteq> StatusApplied then
        (case undo_steps cl ps w of
           None \<Rightarrow> None
         | Some (w2, ps', f) \<Rightarrow> Some (w2, (st, r) # ps', f))
      else (case undoStep cl st w of
          None \<Rightarrow> None
        | Some (w1, Inl e, st') \<Rightarrow> (case undo_steps cl ps w1 of
              None \<Rightarrow> None
            | Some (w2, ps', f) \<Rightarrow>
                Some (w2, (st', r\<lparr>res_RollbackStatus := Some StatusRollbackFailed, res_RollbackError := err_msg e\<rparr>) # ps', Some e))
        | Some (w1, Inr s, st') \<Rightarrow> (case undo_steps cl ps w1 of
              None \<Rightarrow> None
            | Some (w2, ps', f) \<Rightarrow> Some (w2, (st', r\<lparr>res_RollbackStatus := Some s\<rparr>) # ps', f))))"

definition rollbackApplied ::
  "'w Clients \<Rightarrow> Step list \<Rightarrow> StepResult list \<Rightarrow> 'w \<Rightarrow> ('w \<times> Step list \<times> StepResult list \<times> goerror option) option" where
  "rollbackApplied cl steps results w =
     (case undo_steps cl (rev (zip steps results)) w of
        None \<Rightarrow> None
      | Some (w', ps, f) \<Rightarrow>
          Some (w', map fst (rev ps) @ drop (length results) steps, map snd (rev ps), f))"

end
