(* ===== verification/GoTime.thy ===== *)
theory GoTime
  imports Prelude
begin

text \<open>
  Timestamps: a time is a number of nanoseconds since the Unix epoch, UTC.  FormatTime
  (internal/store/store.go) renders it with Go's RFC3339Nano layout, whose fraction drops
  trailing zeros; the tables store and order that text.  Years are four digits, 0000 to 9999.
\<close>

definition ns_per_sec :: int where "ns_per_sec = 1000000000"
definition ns_per_day :: int where "ns_per_day = 86400000000000"

definition pad :: "nat \<Rightarrow> int \<Rightarrow> string" where
  "pad n i = (let s = itoa i in replicate (n - length s) CHR ''0'' @ s)"

text \<open>The proleptic Gregorian date of a day number (days since 1970-01-01), as year, month, day.\<close>

definition civil_of_days :: "int \<Rightarrow> int \<times> int \<times> int" where
  "civil_of_days d =
     (let z = d + 719468;
          era = z div 146097;
          doe = z mod 146097;
          yoe = (doe - doe div 1460 + doe div 36524 - doe div 146096) div 365;
          doy = doe - (365 * yoe + yoe div 4 - yoe div 100);
          mp = (5 * doy + 2) div 153;
          day = doy - (153 * mp + 2) div 5 + 1;
          month = (if mp < 10 then mp + 3 else mp - 9);
          year = yoe + era * 400 + (if month \<le> 2 then 1 else 0) in
      (year, month, day))"

definition frac_text :: "int \<Rightarrow> string" where
  "frac_text n = (if n = 0 then [] else CHR ''.'' # trim_right (\<lambda>c. c = CHR ''0'') (pad 9 n))"

definition FormatTime :: "int \<Rightarrow> string" where
  "FormatTime t =
     (let d = t div ns_per_day; r = t mod ns_per_day; s = r div ns_per_sec;
          (y, m, dd) = civil_of_days d in
      pad 4 y @ ''-'' @ pad 2 m @ ''-'' @ pad 2 dd @ ''T'' @
      pad 2 (s div 3600) @ '':'' @ pad 2 (s div 60 mod 60) @ '':'' @ pad 2 (s mod 60) @
      frac_text (r mod ns_per_sec) @ ''Z'')"

text \<open>Ordering by the stored text is not ordering by time: a fraction of one digit sorts after a
  longer one that extends it.\<close>

lemma FormatTime_not_monotone:
  "(1000000000100000000 :: int) < 1000000000150000000"
  "FormatTime 1000000000150000000 < FormatTime 1000000000100000000"
  by (simp, code_simp)

end
