(* ===== verification/ExposureStore.thy ===== *)
theory ExposureStore
  imports ExposureTypes GoTime
begin

text \<open>
  internal/exposure/store.go: the four tables of the exposure controller, as lists of rows in
  rowid order with the schema's primary keys and unique columns, and one function per statement.
  A column written as JSON or as RFC 3339 text is the value it encodes; only the order by
  created_at sees the text.  The failures modelled are the constraint violations; a statement
  that fails for another reason (I/O) is not modelled.
\<close>

record publicAck =
  ack_ServiceID :: id
  ack_AckID :: id
  ack_Revision :: int
  ack_CreatedAt :: time

record exposure_db =
  db_services :: "ServiceRecord list"
  db_acks :: "publicAck list"
  db_plans :: "Plan list"
  db_observations :: "Observation list"

definition empty_exposure_db :: exposure_db where
  "empty_exposure_db = \<lparr>db_services = [], db_acks = [], db_plans = [], db_observations = []\<rparr>"

definition unique_error :: "string \<Rightarrow> goerror" where
  "unique_error col = GoErr [ErrUnique] (sentinel_text ErrUnique @ '': '' @ col)"

section \<open>Services\<close>

definition insertService :: "exposure_db \<Rightarrow> ServiceRecord \<Rightarrow> exposure_db result" where
  "insertService db r =
     (if list_ex (\<lambda>s. svc_ID s = svc_ID r) (db_services db) then Inl (unique_error ''exposure_services.id'')
      else if list_ex (\<lambda>s. svc_Hostname s = svc_Hostname r) (db_services db)
        then Inl (unique_error ''exposure_services.hostname'')
      else Inr (db\<lparr>db_services := db_services db @ [r]\<rparr>))"

definition updateService :: "exposure_db \<Rightarrow> ServiceRecord \<Rightarrow> exposure_db" where
  "updateService db r = db\<lparr>db_services := update_where (\<lambda>s. svc_ID s = svc_ID r)
     (\<lambda>s. s\<lparr>svc_Upstream := svc_Upstream r, svc_TunnelOrigin := svc_TunnelOrigin r,
            svc_Exposure := svc_Exposure r, svc_AppAuth := svc_AppAuth r,
            svc_Revision := svc_Revision r, svc_UpdatedAt := svc_UpdatedAt r\<rparr>) (db_services db)\<rparr>"

definition getService :: "exposure_db \<Rightarrow> id \<Rightarrow> ServiceRecord result" where
  "getService db i = (case List.find (\<lambda>s. svc_ID s = i) (db_services db) of
      None \<Rightarrow> Inl (NotFound (''service '' @ quote i)) | Some s \<Rightarrow> Inr s)"

definition getServiceByHostname :: "exposure_db \<Rightarrow> string \<Rightarrow> ServiceRecord result" where
  "getServiceByHostname db h = (case List.find (\<lambda>s. svc_Hostname s = h) (db_services db) of
      None \<Rightarrow> Inl (NotFound (''service '' @ quote h)) | Some s \<Rightarrow> Inr s)"

definition listServices :: "exposure_db \<Rightarrow> ServiceRecord list" where
  "listServices db = sort_key svc_Hostname (db_services db)"

definition deleteServiceRows :: "exposure_db \<Rightarrow> id \<Rightarrow> exposure_db" where
  "deleteServiceRows db i = db\<lparr>
     db_services := filter (\<lambda>s. svc_ID s \<noteq> i) (db_services db),
     db_acks := filter (\<lambda>a. ack_ServiceID a \<noteq> i) (db_acks db),
     db_observations := filter (\<lambda>obs. obs_ServiceID obs \<noteq> i) (db_observations db)\<rparr>"

section \<open>Acknowledgements, plans, observations\<close>

text \<open>INSERT ... ON CONFLICT(service_id) DO UPDATE: the row of the key is overwritten in place.\<close>

definition upsert_by :: "('a \<Rightarrow> 'k) \<Rightarrow> 'a \<Rightarrow> 'a list \<Rightarrow> 'a list" where
  "upsert_by k r rows = (if list_ex (\<lambda>x. k x = k r) rows then update_where (\<lambda>x. k x = k r) (\<lambda>_. r) rows
     else rows @ [r])"

definition putAck :: "exposure_db \<Rightarrow> publicAck \<Rightarrow> exposure_db" where
  "putAck db a = db\<lparr>db_acks := upsert_by ack_ServiceID a (db_acks db)\<rparr>"

definition getAck :: "exposure_db \<Rightarrow> id \<Rightarrow> publicAck option" where
  "getAck db i = List.find (\<lambda>a. ack_ServiceID a = i) (db_acks db)"

definition insertPlan :: "exposure_db \<Rightarrow> Plan \<Rightarrow> exposure_db result" where
  "insertPlan db p =
     (if list_ex (\<lambda>q. plan_ID q = plan_ID p) (db_plans db) then Inl (unique_error ''exposure_plans.id'')
      else Inr (db\<lparr>db_plans := db_plans db @ [p]\<rparr>))"

definition updatePlan :: "exposure_db \<Rightarrow> Plan \<Rightarrow> exposure_db" where
  "updatePlan db p = db\<lparr>db_plans := update_where (\<lambda>q. plan_ID q = plan_ID p)
     (\<lambda>q. q\<lparr>plan_Status := plan_Status p, plan_Results := plan_Results p, plan_Error := plan_Error p,
            plan_AppliedAt := plan_AppliedAt p\<rparr>) (db_plans db)\<rparr>"

definition getPlan :: "exposure_db \<Rightarrow> id \<Rightarrow> Plan result" where
  "getPlan db i = (case List.find (\<lambda>p. plan_ID p = i) (db_plans db) of
      None \<Rightarrow> Inl (NotFound (''plan '' @ quote i)) | Some p \<Rightarrow> Inr p)"

text \<open>ORDER BY created_at DESC, rowid DESC: the text of the timestamp decides, then the later row.\<close>

definition listPlans :: "exposure_db \<Rightarrow> id \<Rightarrow> nat \<Rightarrow> Plan list" where
  "listPlans db i limit = take limit (rev (sort_key (\<lambda>p. FormatTime (plan_CreatedAt p))
     (filter (\<lambda>p. plan_ServiceID p = i) (db_plans db))))"

definition putObservation :: "exposure_db \<Rightarrow> Observation \<Rightarrow> id \<Rightarrow> exposure_db" where
  "putObservation db obs pid = db\<lparr>db_observations :=
     upsert_by obs_ServiceID (obs\<lparr>obs_PlanID := pid\<rparr>) (db_observations db)\<rparr>"

definition getObservation :: "exposure_db \<Rightarrow> id \<Rightarrow> Observation option" where
  "getObservation db i = List.find (\<lambda>obs. obs_ServiceID obs = i) (db_observations db)"

section \<open>Reading after writing\<close>

lemma find_upsert_by:
  "List.find (\<lambda>x. k x = b) (upsert_by k r rows) =
     (if b = k r then Some r else List.find (\<lambda>x. k x = b) rows)"
proof (induction rows)
  case (Cons x rows)
  have "update_where (\<lambda>x. k x = k r) (\<lambda>_. r) (x # rows) =
      (if k x = k r then r else x) # update_where (\<lambda>x. k x = k r) (\<lambda>_. r) rows"
    by (simp add: update_where_def)
  moreover have "update_where (\<lambda>x. k x = k r) (\<lambda>_. r) rows = rows" if "\<not> list_ex (\<lambda>x. k x = k r) rows"
    using that by (auto simp: update_where_def list_ex_iff intro!: map_idI)
  ultimately show ?case using Cons by (auto simp: upsert_by_def)
qed (simp add: upsert_by_def)

lemma distinct_upsert_by: "distinct (map k rows) \<Longrightarrow> distinct (map k (upsert_by k r rows))"
  by (auto simp: upsert_by_def list_ex_iff map_update_where_key [of rows "\<lambda>x. k x = k r" k "\<lambda>_. r", simplified])

lemma getAck_putAck: "getAck (putAck db a) i = (if i = ack_ServiceID a then Some a else getAck db i)"
  by (simp add: getAck_def putAck_def find_upsert_by)

lemma getObservation_putObservation:
  "getObservation (putObservation db obs pid) i =
     (if i = obs_ServiceID obs then Some (obs\<lparr>obs_PlanID := pid\<rparr>) else getObservation db i)"
  by (simp add: getObservation_def putObservation_def find_upsert_by)

lemma getPlan_insertPlan:
  "insertPlan db p = Inr db' \<Longrightarrow> getPlan db' i = (if i = plan_ID p then Inr p else getPlan db i)"
  by (auto simp: insertPlan_def getPlan_def find_snoc_key split: option.splits if_splits)

lemma getService_insertService:
  "insertService db r = Inr db' \<Longrightarrow> getService db' i = (if i = svc_ID r then Inr r else getService db i)"
  by (auto simp: insertService_def getService_def find_snoc_key split: option.splits if_splits)

lemma getServiceByHostname_insertService:
  "insertService db r = Inr db' \<Longrightarrow>
   getServiceByHostname db' h = (if h = svc_Hostname r then Inr r else getServiceByHostname db h)"
  by (auto simp: insertService_def getServiceByHostname_def find_snoc_key split: option.splits if_splits)

lemma getService_deleteServiceRows:
  "getService (deleteServiceRows db i) j =
     (if j = i then Inl (NotFound (''service '' @ quote i)) else getService db j)"
  by (auto simp: getService_def deleteServiceRows_def find_filter_none find_filter_other)

lemma getService_Inr: "getService db i = Inr s \<Longrightarrow> s \<in> set (db_services db) \<and> svc_ID s = i"
  by (auto simp: getService_def dest: find_Some_in split: option.splits)

lemma getServiceByHostname_Inr:
  "getServiceByHostname db h = Inr s \<Longrightarrow> s \<in> set (db_services db) \<and> svc_Hostname s = h"
  by (auto simp: getServiceByHostname_def dest: find_Some_in split: option.splits)

lemma getPlan_Inr: "getPlan db i = Inr p \<Longrightarrow> p \<in> set (db_plans db) \<and> plan_ID p = i"
  by (auto simp: getPlan_def dest: find_Some_in split: option.splits)

lemma db_frame [simp]:
  "db_services (putAck db a) = db_services db" "db_plans (putAck db a) = db_plans db"
  "db_observations (putAck db a) = db_observations db"
  "db_services (updatePlan db p) = db_services db" "db_acks (updatePlan db p) = db_acks db"
  "db_observations (updatePlan db p) = db_observations db"
  "db_services (putObservation db obs pid) = db_services db" "db_acks (putObservation db obs pid) = db_acks db"
  "db_plans (putObservation db obs pid) = db_plans db"
  "db_acks (updateService db r) = db_acks db" "db_plans (updateService db r) = db_plans db"
  "db_observations (updateService db r) = db_observations db"
  "db_plans (deleteServiceRows db i) = db_plans db"
  by (simp_all add: putAck_def updatePlan_def putObservation_def updateService_def deleteServiceRows_def)

end
