(* ===== verification/ExposureService.thy ===== *)
theory ExposureService
  imports ExposureApply ExposureStore
begin

text \<open>
  internal/exposure: the operations of the controller (api.go, New of exposure.go, buildPlan of
  plan.go, Apply and recordObservation of apply.go).  The state is the table record of
  ExposureStore and the world of the clients.  A fresh identifier and the clock reading of an
  operation are arguments.  Where the Go function returns a value next to an error, the pair is
  returned; the zero value is None.
\<close>

section \<open>New\<close>

text \<open>store is required: a nil store is None.\<close>

definition New :: "'s option \<Rightarrow> Config \<Rightarrow> 'w Clients \<Rightarrow> ('s \<times> Config \<times> 'w Clients) result" where
  "New db cfg cl = (case db of
      None \<Rightarrow> Inl (Validation ''store is required'')
    | Some s \<Rightarrow> (case Config_validate cfg of Some e \<Rightarrow> Inl e | None \<Rightarrow> Inr (s, cfg, cl)))"

section \<open>Desired state\<close>

record UpsertInput =
  in_Hostname :: string
  in_Upstream :: string
  in_TunnelOrigin :: string
  in_Exposure :: exposure
  in_AppAuth :: auth_mode

definition url_blanks :: string where
  "url_blanks = [CHR '' '', char_of (9 :: nat), char_of (13 :: nat), char_of (10 :: nat)]"

definition upsert_create ::
  "exposure_db \<Rightarrow> id \<Rightarrow> time \<Rightarrow> UpsertInput \<Rightarrow> string \<Rightarrow> string \<Rightarrow> string \<Rightarrow> string \<Rightarrow>
     exposure_db \<times> ServiceRecord result" where
  "upsert_create db fresh now inp hostname anchor upstream origin =
     (let exposure = (if in_Exposure inp = [] then ExposurePrivate else in_Exposure inp);
          auth = (if in_AppAuth inp = [] then AuthNone else in_AppAuth inp) in
      if \<not> Exposure_Valid exposure then (db, Inl (Validation (''unknown exposure '' @ quote exposure)))
      else if \<not> AuthMode_Valid auth then (db, Inl (Validation (''unknown app auth '' @ quote auth)))
      else
        let r = \<lparr>svc_ID = fresh, svc_Hostname = hostname, svc_HomeAnchor = anchor, svc_Upstream = upstream,
                 svc_TunnelOrigin = origin, svc_Exposure = exposure, svc_AppAuth = auth, svc_Revision = 1,
                 svc_CreatedAt = now, svc_UpdatedAt = now\<rparr> in
        case insertService db r of Inl e \<Rightarrow> (db, Inl e) | Inr db' \<Rightarrow> (db', Inr r))"

definition upsert_update ::
  "exposure_db \<Rightarrow> time \<Rightarrow> UpsertInput \<Rightarrow> string \<Rightarrow> string \<Rightarrow> ServiceRecord \<Rightarrow> exposure_db \<times> ServiceRecord result" where
  "upsert_update db now inp upstream origin ex0 =
     (let ch1 = (upstream \<noteq> svc_Upstream ex0); ex1 = ex0\<lparr>svc_Upstream := upstream\<rparr>;
          ch2 = (origin \<noteq> svc_TunnelOrigin ex1); ex2 = ex1\<lparr>svc_TunnelOrigin := origin\<rparr> in
      if in_Exposure inp \<noteq> [] \<and> \<not> Exposure_Valid (in_Exposure inp)
        then (db, Inl (Validation (''unknown exposure '' @ quote (in_Exposure inp))))
      else
        let ch3 = (in_Exposure inp \<noteq> [] \<and> in_Exposure inp \<noteq> svc_Exposure ex2);
            ex3 = (if ch3 then ex2\<lparr>svc_Exposure := in_Exposure inp\<rparr> else ex2) in
        if in_AppAuth inp \<noteq> [] \<and> \<not> AuthMode_Valid (in_AppAuth inp)
          then (db, Inl (Validation (''unknown app auth '' @ quote (in_AppAuth inp))))
        else
          let ch4 = (in_AppAuth inp \<noteq> [] \<and> in_AppAuth inp \<noteq> svc_AppAuth ex3);
              ex4 = (if ch4 then ex3\<lparr>svc_AppAuth := in_AppAuth inp\<rparr> else ex3) in
          if ch1 \<or> ch2 \<or> ch3 \<or> ch4 then
            (let ex5 = ex4\<lparr>svc_Revision := svc_Revision ex4 + 1, svc_UpdatedAt := now\<rparr> in
             (updateService db ex5, Inr ex5))
          else (db, Inr ex4))"

definition UpsertService ::
  "Config \<Rightarrow> exposure_db \<Rightarrow> id \<Rightarrow> time \<Rightarrow> UpsertInput \<Rightarrow> exposure_db \<times> ServiceRecord result" where
  "UpsertService cfg db fresh now inp =
     (let hostname = to_lower (trim_space (in_Hostname inp)) in
      case validateHostname hostname of
        Some e \<Rightarrow> (db, Inl (Validation (''hostname: '' @ err_msg e)))
      | None \<Rightarrow>
        (case homeAnchor hostname (cfg_Domain cfg) of
           Inl e \<Rightarrow> (db, Inl (Validation (''anchor: '' @ err_msg e)))
         | Inr anchor \<Rightarrow>
             (let upstream = trim_space (in_Upstream inp) in
              if upstream = [] \<or> contains_any upstream url_blanks
                then (db, Inl (Validation ''upstream must be a host[:port] or URL without whitespace''))
              else
                let origin0 = trim_space (in_TunnelOrigin inp);
                    origin = (if origin0 = [] then defaultTunnelOrigin else origin0) in
                if contains_any origin url_blanks
                  then (db, Inl (Validation ''tunnel origin must not contain whitespace''))
                else (case getServiceByHostname db hostname of
                    Inl e \<Rightarrow> if errors_is e ErrNotFound
                      then upsert_create db fresh now inp hostname anchor upstream origin
                      else (db, Inl e)
                  | Inr existing \<Rightarrow> upsert_update db now inp upstream origin existing))))"

definition GetServiceByHostname :: "exposure_db \<Rightarrow> string \<Rightarrow> ServiceRecord result" where
  "GetServiceByHostname db hostname = getServiceByHostname db (to_lower (trim_space hostname))"

definition SetExposure ::
  "exposure_db \<Rightarrow> time \<Rightarrow> id \<Rightarrow> exposure \<Rightarrow> exposure_db \<times> ServiceRecord result" where
  "SetExposure db now sid exposure =
     (if \<not> Exposure_Valid exposure then (db, Inl (Validation (''unknown exposure '' @ quote exposure)))
      else case getService db sid of
          Inl e \<Rightarrow> (db, Inl e)
        | Inr svc \<Rightarrow>
            if svc_Exposure svc = exposure then (db, Inr svc)
            else let svc' = svc\<lparr>svc_Exposure := exposure, svc_Revision := svc_Revision svc + 1, svc_UpdatedAt := now\<rparr> in
              (updateService db svc', Inr svc'))"

definition AcknowledgePublic ::
  "exposure_db \<Rightarrow> id \<Rightarrow> time \<Rightarrow> id \<Rightarrow> exposure_db \<times> id result" where
  "AcknowledgePublic db fresh now sid = (case getService db sid of
      Inl e \<Rightarrow> (db, Inl e)
    | Inr svc \<Rightarrow>
        if svc_Exposure svc \<noteq> ExposurePublic
          then (db, Inl (Validation (svc_Hostname svc @ '' desires '' @ quote (svc_Exposure svc) @ '' exposure; acknowledgement applies to public'')))
        else if svc_AppAuth svc \<noteq> AuthNone
          then (db, Inl (Validation (svc_Hostname svc @ '' authenticates users itself; no acknowledgement is required'')))
        else (putAck db \<lparr>ack_ServiceID = svc_ID svc, ack_AckID = fresh, ack_Revision = svc_Revision svc, ack_CreatedAt = now\<rparr>,
              Inr fresh))"

section \<open>Planning\<close>

definition buildPlan ::
  "Config \<Rightarrow> 'w Clients \<Rightarrow> exposure_db \<Rightarrow> id \<Rightarrow> time \<Rightarrow> ServiceRecord \<Rightarrow> PlanKind \<Rightarrow> 'w \<Rightarrow>
     'w \<times> exposure_db \<times> Plan result" where
  "buildPlan cfg cl db fresh now svc kind w =
     (case probe cl now svc w of
        (w1, _, _, Some e) \<Rightarrow> (w1, db, Inl e)
      | (w1, obs0, missing, None) \<Rightarrow>
          (let drift = computeDrift cfg svc obs0 missing;
               obs = obs0\<lparr>obs_Drift := drift, obs_Reconciled := (length drift = 0)\<rparr>;
               des = desiredFor cfg svc;
               plan0 = \<lparr>plan_ID = fresh, plan_ServiceID = svc_ID svc, plan_ServiceRevision = svc_Revision svc,
                 plan_Kind = kind, plan_Hostname = svc_Hostname svc, plan_FromExposure = inferExposure cfg svc obs,
                 plan_ToExposure = svc_Exposure svc, plan_Steps = [], plan_Warnings = [], plan_RequiresAck = False,
                 plan_Status = PlanPending, plan_Results = [], plan_Error = [], plan_CreatedAt = now,
                 plan_AppliedAt = None\<rparr>;
               planned = (case kind of
                   PlanKindExposure \<Rightarrow>
                     (let plan = plan0\<lparr>plan_Steps := exposureSteps cfg svc obs des,
                            plan_Warnings := fst (planWarnings cfg svc), plan_RequiresAck := snd (planWarnings cfg svc)\<rparr> in
                      case checkOrdering cfg svc (plan_FromExposure plan) (plan_ToExposure plan) obs (plan_Steps plan) of
                        Some e \<Rightarrow> Inl e | None \<Rightarrow> Inr plan)
                 | PlanKindDelete \<Rightarrow>
                     Inr (plan0\<lparr>plan_Steps := deleteSteps svc obs des, plan_ToExposure := [],
                       plan_Warnings := [''applying this plan deletes service '' @ svc_Hostname svc @ '' and its DNS records''] @
                         (if plan_FromExposure plan0 = ExposureShared \<or> plan_FromExposure plan0 = ExposurePublic
                          then [''the service is currently exposed through the tunnel; its vanity record is removed first''] else [])\<rparr>)) in
           case planned of
             Inl e \<Rightarrow> (w1, db, Inl e)
           | Inr plan \<Rightarrow>
               (case requireClients cl (plan_Steps plan) of
                  Some e \<Rightarrow> (w1, db, Inl e)
                | None \<Rightarrow> (case insertPlan db plan of
                      Inl e \<Rightarrow> (w1, db, Inl e)
                    | Inr db1 \<Rightarrow> (w1, putObservation db1 obs (plan_ID plan), Inr plan)))))"

definition Plan_op ::
  "Config \<Rightarrow> 'w Clients \<Rightarrow> exposure_db \<Rightarrow> id \<Rightarrow> time \<Rightarrow> id \<Rightarrow> 'w \<Rightarrow> 'w \<times> exposure_db \<times> Plan result" where
  "Plan_op cfg cl db fresh now sid w = (case getService db sid of
      Inl e \<Rightarrow> (w, db, Inl e)
    | Inr svc \<Rightarrow> buildPlan cfg cl db fresh now svc PlanKindExposure w)"

definition Delete_op ::
  "Config \<Rightarrow> 'w Clients \<Rightarrow> exposure_db \<Rightarrow> id \<Rightarrow> time \<Rightarrow> id \<Rightarrow> 'w \<Rightarrow> 'w \<times> exposure_db \<times> Plan result" where
  "Delete_op cfg cl db fresh now sid w = (case getService db sid of
      Inl e \<Rightarrow> (w, db, Inl e)
    | Inr svc \<Rightarrow> buildPlan cfg cl db fresh now svc PlanKindDelete w)"

definition ListPlans :: "exposure_db \<Rightarrow> id \<Rightarrow> int \<Rightarrow> Plan list" where
  "ListPlans db sid limit = listPlans db sid (if limit \<le> 0 \<or> limit > 100 then 20 else nat limit)"

section \<open>Applying a plan\<close>

text \<open>The preconditions Apply checks before it touches a client.\<close>

definition apply_guard ::
  "'w Clients \<Rightarrow> exposure_db \<Rightarrow> id \<Rightarrow> (Plan option \<times> goerror) + (Plan \<times> ServiceRecord)" where
  "apply_guard cl db planID = (case getPlan db planID of
      Inl e \<Rightarrow> Inl (None, e)
    | Inr plan \<Rightarrow>
        if plan_Status plan \<noteq> PlanPending
          then Inl (Some plan, Conflict (''plan '' @ planID @ '' is already '' @ plan_status_text (plan_Status plan)))
        else (case getService db (plan_ServiceID plan) of
            Inl e \<Rightarrow> Inl (Some plan, e)
          | Inr svc \<Rightarrow>
              if plan_ServiceRevision plan \<noteq> svc_Revision svc
                then Inl (Some plan, Conflict ''service desired state changed since the plan was created; plan again'')
              else if plan_Kind plan = PlanKindExposure \<and> plan_ToExposure plan \<noteq> svc_Exposure svc
                then Inl (Some plan, Conflict (''plan targets '' @ quote (plan_ToExposure plan) @ '' exposure but service desires '' @ quote (svc_Exposure svc)))
              else if plan_RequiresAck plan \<and>
                  (case getAck db (svc_ID svc) of None \<Rightarrow> True | Some a \<Rightarrow> ack_Revision a \<noteq> svc_Revision svc)
                then Inl (Some plan, wrapf ErrAcknowledgementRequired (svc_Hostname svc @
                  '' does not authenticate users itself; call AcknowledgePublic for revision '' @ itoa (svc_Revision svc) @ '' first''))
              else (case requireClients cl (plan_Steps plan) of
                  Some e \<Rightarrow> Inl (Some plan, e)
                | None \<Rightarrow> Inr (plan, svc))))"

definition recordObservation ::
  "Config \<Rightarrow> 'w Clients \<Rightarrow> exposure_db \<Rightarrow> time \<Rightarrow> ServiceRecord \<Rightarrow> Plan \<Rightarrow> 'w \<Rightarrow> 'w \<times> exposure_db" where
  "recordObservation cfg cl db now svc plan w = (case probe cl now svc w of
      (w1, _, _, Some e) \<Rightarrow>
        (w1, putObservation db ((empty_obs (svc_ID svc) now)
           \<lparr>obs_Drift := [''observation failed: '' @ err_msg e], obs_Error := err_msg e\<rparr>) (plan_ID plan))
    | (w1, obs, missing, None) \<Rightarrow>
        (let drift = computeDrift cfg svc obs missing;
             obs1 = obs\<lparr>obs_Drift := drift, obs_Reconciled := (length drift = 0)\<rparr>;
             obs2 = (if plan_Status plan \<noteq> PlanApplied then obs1\<lparr>obs_Error := plan_Error plan\<rparr> else obs1) in
         (w1, putObservation db obs2 (plan_ID plan))))"

definition failed_plan :: "Plan \<Rightarrow> nat \<Rightarrow> goerror \<Rightarrow> goerror option \<Rightarrow> Plan" where
  "failed_plan plan i e rb =
     (let pre = ''step '' @ itoa (int i) @ '' ('' @ step_kind_text (step_Kind (plan_Steps plan ! i)) @ '') failed: '' @ err_msg e in
      case rb of
        Some r \<Rightarrow> plan\<lparr>plan_Status := PlanFailed, plan_Error := pre @ ''; rollback incomplete: '' @ err_msg r\<rparr>
      | None \<Rightarrow> plan\<lparr>plan_Status := PlanRolledBack, plan_Error := pre @ ''; earlier steps were rolled back''\<rparr>)"

text \<open>None is a panic: a step without its payload or client.\<close>

definition Apply ::
  "Config \<Rightarrow> 'w Clients \<Rightarrow> exposure_db \<Rightarrow> time \<Rightarrow> id \<Rightarrow> 'w \<Rightarrow>
     ('w \<times> exposure_db \<times> Plan option \<times> goerror option) option" where
  "Apply cfg cl db now planID w = (case apply_guard cl db planID of
      Inl (p, e) \<Rightarrow> Some (w, db, p, Some e)
    | Inr (plan, svc) \<Rightarrow>
        (case exec_steps cl 0 (plan_Steps plan) w of
           None \<Rightarrow> None
         | Some (w1, steps1, results, Some (i, e)) \<Rightarrow>
             (case rollbackApplied cl steps1 results w1 of
                None \<Rightarrow> None
              | Some (w2, steps2, results2, rb) \<Rightarrow>
                  (let plan1 = failed_plan (plan\<lparr>plan_Steps := steps2, plan_AppliedAt := Some now, plan_Results := results2\<rparr>) i e rb;
                       (w3, db2) = recordObservation cfg cl (updatePlan db plan1) now svc plan1 w2 in
                   Some (w3, db2, Some plan1, Some (wrapf ErrApplyFailed (plan_Error plan1)))))
         | Some (w1, steps1, results, None) \<Rightarrow>
             (let plan1 = plan\<lparr>plan_Steps := steps1, plan_AppliedAt := Some now,
                    plan_Results := results, plan_Status := PlanApplied\<rparr>;
                  db1 = updatePlan db plan1 in
              if plan_Kind plan = PlanKindDelete then Some (w1, deleteServiceRows db1 (svc_ID svc), Some plan1, None)
              else (let (w2, db2) = recordObservation cfg cl db1 now svc plan1 w1 in Some (w2, db2, Some plan1, None)))))"

section \<open>Observing\<close>

definition Observe ::
  "Config \<Rightarrow> 'w Clients \<Rightarrow> exposure_db \<Rightarrow> time \<Rightarrow> id \<Rightarrow> 'w \<Rightarrow> 'w \<times> exposure_db \<times> Observation option \<times> goerror option" where
  "Observe cfg cl db now sid w = (case getService db sid of
      Inl e \<Rightarrow> (w, db, None, Some e)
    | Inr svc \<Rightarrow> (case probe cl now svc w of
          (w1, obs, _, Some e) \<Rightarrow> (w1, db, Some obs, Some e)
        | (w1, obs, missing, None) \<Rightarrow>
            if missing \<noteq> [] then (w1, db, Some obs, Some (wrapf ErrMissingClient (join '', '' missing)))
            else let drift = computeDrift cfg svc obs missing;
                     obs1 = obs\<lparr>obs_Drift := drift, obs_Reconciled := (length drift = 0)\<rparr> in
              (w1, putObservation db obs1 [], Some obs1, None)))"

record Report =
  rep_Service :: ServiceRecord
  rep_Observation :: "Observation option"
  rep_PendingPlan :: "Plan option"
  rep_LastPlan :: "Plan option"

definition Status_op :: "exposure_db \<Rightarrow> id \<Rightarrow> Report result" where
  "Status_op db sid = (case getService db sid of
      Inl e \<Rightarrow> Inl e
    | Inr svc \<Rightarrow>
        (let plans = listPlans db sid 10 in
         Inr \<lparr>rep_Service = svc, rep_Observation = getObservation db sid,
              rep_PendingPlan = List.find (\<lambda>p. plan_Status p = PlanPending) plans,
              rep_LastPlan = (case plans of [] \<Rightarrow> None | p # _ \<Rightarrow> Some p)\<rparr>))"

end
