(* ===== verification/ExposureSafety.thy ===== *)
theory ExposureSafety
  imports ExposureCheck
begin

text \<open>
  What a step list does to the live resources of one service, and who can reach the service at
  every point of it.  A view holds the five resources probe reads; step_view is the intended
  effect of a step on it; reach is the exposure a view gives to the outside world.  The lemmas:
  along a planned transition no prefix makes a service public that is neither desired public nor
  public already, a complete run settles the view, and a teardown cuts reachability first.
\<close>

section \<open>Views\<close>

record view =
  v_vanity :: "Record option"
  v_anchor :: "Record option"
  v_ingress :: "IngressRule option"
  v_app :: "AccessApp option"
  v_route :: "Route option"

definition view_of :: "Observation \<Rightarrow> view" where
  "view_of obs = \<lparr>v_vanity = obs_VanityDNS obs, v_anchor = obs_AnchorDNS obs,
     v_ingress = obs_TunnelIngress obs, v_app = obs_AccessApp obs, v_route = obs_EdgeRoute obs\<rparr>"

definition set_record :: "ServiceRecord \<Rightarrow> string \<Rightarrow> string \<Rightarrow> Record option \<Rightarrow> view \<Rightarrow> view" where
  "set_record svc name typ r v =
     (if equal_fold name (svc_Hostname svc) \<and> typ = ''CNAME'' then v\<lparr>v_vanity := r\<rparr>
      else if equal_fold name (svc_HomeAnchor svc) \<and> typ = ''A'' then v\<lparr>v_anchor := r\<rparr> else v)"

definition set_rule :: "ServiceRecord \<Rightarrow> string \<Rightarrow> IngressRule option \<Rightarrow> view \<Rightarrow> view" where
  "set_rule svc h r v = (if equal_fold h (svc_Hostname svc) then v\<lparr>v_ingress := r\<rparr> else v)"

definition set_app :: "ServiceRecord \<Rightarrow> string \<Rightarrow> AccessApp option \<Rightarrow> view \<Rightarrow> view" where
  "set_app svc h a v = (if equal_fold h (svc_Hostname svc) then v\<lparr>v_app := a\<rparr> else v)"

definition set_route :: "ServiceRecord \<Rightarrow> string \<Rightarrow> Route option \<Rightarrow> view \<Rightarrow> view" where
  "set_route svc h r v = (if equal_fold h (svc_Hostname svc) then v\<lparr>v_route := r\<rparr> else v)"

definition step_view :: "ServiceRecord \<Rightarrow> Step \<Rightarrow> view \<Rightarrow> view" where
  "step_view svc st v = (case step_Kind st of
      StepDNSEnsure \<Rightarrow> (case step_Record st of None \<Rightarrow> v | Some r \<Rightarrow> set_record svc (rec_Name r) (rec_Type r) (Some r) v)
    | StepDNSRemove \<Rightarrow> (case step_Record st of None \<Rightarrow> v | Some r \<Rightarrow> set_record svc (rec_Name r) (rec_Type r) None v)
    | StepAccessEnsure \<Rightarrow> (case step_App st of None \<Rightarrow> v | Some a \<Rightarrow> set_app svc (app_Hostname a) (Some a) v)
    | StepAccessRemove \<Rightarrow> (case step_App st of None \<Rightarrow> v | Some a \<Rightarrow> set_app svc (app_Hostname a) None v)
    | StepIngressEnsure \<Rightarrow> (case step_Rule st of None \<Rightarrow> v | Some r \<Rightarrow> set_rule svc (rule_Hostname r) (Some r) v)
    | StepIngressRemove \<Rightarrow> (case step_Rule st of None \<Rightarrow> v | Some r \<Rightarrow> set_rule svc (rule_Hostname r) None v)
    | StepEdgeEnsure \<Rightarrow> (case step_Route st of None \<Rightarrow> v | Some r \<Rightarrow> set_route svc (route_Hostname r) (Some r) v)
    | StepEdgeRemove \<Rightarrow> (case step_Route st of None \<Rightarrow> v | Some r \<Rightarrow> set_route svc (route_Hostname r) None v)
    | StepUnknown _ \<Rightarrow> v)"

definition run_view :: "ServiceRecord \<Rightarrow> Step list \<Rightarrow> view \<Rightarrow> view" where
  "run_view svc steps v = fold (step_view svc) steps v"

definition tunnelled :: "Config \<Rightarrow> view \<Rightarrow> bool" where
  "tunnelled cfg v \<longleftrightarrow> (case v_vanity v of None \<Rightarrow> False
     | Some r \<Rightarrow> rec_Content r = cfg_TunnelDNS cfg \<and> rec_Proxied r) \<and> v_ingress v \<noteq> None"

text \<open>Tunnel traffic reaches the service when the vanity record is proxied to the tunnel and the
  tunnel publishes the hostname; the gate then decides between shared and public.\<close>

definition reach :: "Config \<Rightarrow> view \<Rightarrow> exposure" where
  "reach cfg v = (if tunnelled cfg v then (if v_app v \<noteq> None then ExposureShared else ExposurePublic)
     else ExposurePrivate)"

lemma reach_public: "reach cfg v = ExposurePublic \<longleftrightarrow> tunnelled cfg v \<and> v_app v = None"
  by (simp add: reach_def)

lemma run_view_append: "run_view svc (xs @ ys) v = run_view svc ys (run_view svc xs v)"
  by (simp add: run_view_def)

lemma run_view_Nil [simp]: "run_view svc [] v = v"
  by (simp add: run_view_def)

lemma run_view_Cons [simp]: "run_view svc (st # sts) v = run_view svc sts (step_view svc st v)"
  by (simp add: run_view_def)

section \<open>The effect of the planned blocks\<close>

text \<open>An observation of a service: what findRecord, findRule, findRoute and GetApplication return
  belongs to the service's names.\<close>

definition obs_for :: "ServiceRecord \<Rightarrow> Observation \<Rightarrow> bool" where
  "obs_for svc obs \<longleftrightarrow>
     pred_option (\<lambda>r. equal_fold (rec_Name r) (svc_Hostname svc) \<and> rec_Type r = ''CNAME'') (obs_VanityDNS obs) \<and>
     pred_option (\<lambda>r. equal_fold (rec_Name r) (svc_HomeAnchor svc) \<and> rec_Type r = ''A'') (obs_AnchorDNS obs) \<and>
     pred_option (\<lambda>r. equal_fold (rule_Hostname r) (svc_Hostname svc)) (obs_TunnelIngress obs) \<and>
     pred_option (\<lambda>a. equal_fold (app_Hostname a) (svc_Hostname svc)) (obs_AccessApp obs) \<and>
     pred_option (\<lambda>r. equal_fold (route_Hostname r) (svc_Hostname svc)) (obs_EdgeRoute obs)"

lemma run_anchor_block:
  "run_view svc (anchor_block svc obs (desiredFor cfg svc)) v =
     (if recordMatches (obs_AnchorDNS obs) (Some (des_anchor (desiredFor cfg svc))) then v
      else v\<lparr>v_anchor := Some (des_anchor (desiredFor cfg svc))\<rparr>)"
  by (simp add: anchor_block_def step_view_def set_record_def)

lemma run_edge_block:
  "run_view svc (edge_block svc obs (desiredFor cfg svc)) v =
     (if map_option route_Upstream (obs_EdgeRoute obs) = Some (svc_Upstream svc) then v
      else v\<lparr>v_route := Some (des_route (desiredFor cfg svc))\<rparr>)"
  by (auto simp: edge_block_def step_view_def set_route_def split: option.splits)

lemma run_gate_block:
  "run_view svc (gate_block cfg svc obs (desiredFor cfg svc)) v =
     (if svc_Exposure svc = ExposureShared \<and> \<not> accessAppsEqual (obs_AccessApp obs) (Some (accessAppFor cfg svc))
      then v\<lparr>v_app := Some (accessAppFor cfg svc)\<rparr> else v)"
  by (auto simp: gate_block_def step_view_def set_app_def split: option.splits)

lemma run_ingress_block:
  "run_view svc (ingress_block svc obs (desiredFor cfg svc)) v =
     (if svc_Exposure svc \<noteq> ExposurePrivate \<and>
         map_option rule_Origin (obs_TunnelIngress obs) \<noteq> Some (svc_TunnelOrigin svc)
      then v\<lparr>v_ingress := Some \<lparr>rule_Hostname = svc_Hostname svc, rule_Origin = svc_TunnelOrigin svc\<rparr>\<rparr> else v)"
  by (auto simp: ingress_block_def step_view_def set_rule_def split: option.splits)

lemma run_vanity_block:
  "run_view svc (vanity_block svc obs (desiredFor cfg svc)) v =
     (if recordMatches (obs_VanityDNS obs) (Some (des_vanity (desiredFor cfg svc))) then v
      else v\<lparr>v_vanity := Some (des_vanity (desiredFor cfg svc))\<rparr>)"
  by (simp add: vanity_block_def step_view_def set_record_def)

lemma run_ingress_cleanup:
  "obs_for svc obs \<Longrightarrow> run_view svc (ingress_cleanup svc obs (desiredFor cfg svc)) v =
     (if svc_Exposure svc = ExposurePrivate \<and> obs_TunnelIngress obs \<noteq> None then v\<lparr>v_ingress := None\<rparr> else v)"
  by (auto simp: ingress_cleanup_def step_view_def set_rule_def obs_for_def split: option.splits)

lemma run_gate_cleanup:
  "obs_for svc obs \<Longrightarrow> run_view svc (gate_cleanup svc obs (desiredFor cfg svc)) v =
     (if svc_Exposure svc \<noteq> ExposureShared \<and> obs_AccessApp obs \<noteq> None then v\<lparr>v_app := None\<rparr> else v)"
  by (auto simp: gate_cleanup_def step_view_def set_app_def obs_for_def split: option.splits)

lemmas run_blocks = run_anchor_block run_edge_block run_gate_block run_ingress_block run_vanity_block
  run_ingress_cleanup run_gate_cleanup

section \<open>No prefix of a transition exposes the service by accident\<close>

lemma prefix_split:
  assumes "length b \<le> Suc 0" "P v" "\<And>k. P (run_view svc (take k r) (run_view svc b v))"
  shows "P (run_view svc (take k (b @ r)) v)"
proof (cases k)
  case (Suc n)
  then have "take k (b @ r) = b @ take (k - length b) r" using assms(1) by (cases b) auto
  then show ?thesis using assms(3) by (simp add: run_view_append)
qed (use assms(2) in simp)

lemma tunnelled_irrelevant [simp]:
  "tunnelled cfg (v\<lparr>v_anchor := x\<rparr>) = tunnelled cfg v" "tunnelled cfg (v\<lparr>v_route := y\<rparr>) = tunnelled cfg v"
  "tunnelled cfg (v\<lparr>v_app := z\<rparr>) = tunnelled cfg v" "\<not> tunnelled cfg (v\<lparr>v_ingress := None\<rparr>)"
  by (auto simp: tunnelled_def)

lemma tunnelled_vanity:
  "tunnelled cfg (v\<lparr>v_vanity := Some r\<rparr>) \<longleftrightarrow>
     rec_Content r = cfg_TunnelDNS cfg \<and> rec_Proxied r \<and> v_ingress v \<noteq> None"
  by (auto simp: tunnelled_def)

lemma prefix_induct:
  fixes cfg svc obs v0
  defines "des \<equiv> desiredFor cfg svc"
  defines "v1 \<equiv> run_view svc (anchor_block svc obs des) v0"
  defines "v2 \<equiv> run_view svc (edge_block svc obs des) v1"
  defines "v3 \<equiv> run_view svc (gate_block cfg svc obs des) v2"
  defines "v4 \<equiv> run_view svc (ingress_block svc obs des) v3"
  defines "v5 \<equiv> run_view svc (vanity_block svc obs des) v4"
  defines "v6 \<equiv> run_view svc (ingress_cleanup svc obs des) v5"
  defines "v7 \<equiv> run_view svc (gate_cleanup svc obs des) v6"
  assumes "P v0" "P v1" "P v2" "P v3" "P v4" "P v5" "P v6" "P v7"
  shows "P (run_view svc (take k (exposureSteps cfg svc obs des)) v0)"
proof -
  have last: "P (run_view svc (take k (gate_cleanup svc obs des)) v6)" for k
    using prefix_split [of "gate_cleanup svc obs des" P v6 svc "[]" k] assms by simp
  show ?thesis
    unfolding exposureSteps_def
    by (intro prefix_split [where P = P] block_length)
      (use assms last in \<open>simp_all add: v1_def [symmetric] v2_def [symmetric] v3_def [symmetric]
        v4_def [symmetric] v5_def [symmetric] v6_def [symmetric]\<close>)
qed

lemma exposureSteps_final:
  assumes "obs_for svc obs"
  shows "run_view svc (exposureSteps cfg svc obs (desiredFor cfg svc)) (view_of obs) =
    \<lparr>v_vanity = (if recordMatches (obs_VanityDNS obs) (Some (des_vanity (desiredFor cfg svc))) then obs_VanityDNS obs
        else Some (des_vanity (desiredFor cfg svc))),
     v_anchor = (if recordMatches (obs_AnchorDNS obs) (Some (des_anchor (desiredFor cfg svc))) then obs_AnchorDNS obs
        else Some (des_anchor (desiredFor cfg svc))),
     v_ingress = (if svc_Exposure svc = ExposurePrivate then None
        else if map_option rule_Origin (obs_TunnelIngress obs) = Some (svc_TunnelOrigin svc) then obs_TunnelIngress obs
        else des_rule (desiredFor cfg svc)),
     v_app = (if svc_Exposure svc \<noteq> ExposureShared then None
        else if accessAppsEqual (obs_AccessApp obs) (Some (accessAppFor cfg svc)) then obs_AccessApp obs
        else des_app (desiredFor cfg svc)),
     v_route = (if map_option route_Upstream (obs_EdgeRoute obs) = Some (svc_Upstream svc) then obs_EdgeRoute obs
        else Some (des_route (desiredFor cfg svc)))\<rparr>"
  using assms
  by (intro view.equality)
    (auto simp: exposureSteps_def run_view_append run_blocks view_of_def if_distrib [of v_vanity]
      if_distrib [of v_anchor] if_distrib [of v_ingress] if_distrib [of v_app] if_distrib [of v_route])

lemma plan_prefix_reach:
  assumes o: "obs_for svc obs"
  shows "reach cfg (run_view svc (take k (exposureSteps cfg svc obs (desiredFor cfg svc))) (view_of obs)) = ExposurePublic \<longrightarrow>
    svc_Exposure svc = ExposurePublic \<or> \<not> Exposure_Valid (svc_Exposure svc) \<or> reach cfg (view_of obs) = ExposurePublic"
  by (rule prefix_induct [where P = "\<lambda>v. reach cfg v = ExposurePublic \<longrightarrow>
       svc_Exposure svc = ExposurePublic \<or> \<not> Exposure_Valid (svc_Exposure svc) \<or> reach cfg (view_of obs) = ExposurePublic"];
      use o in \<open>simp add: run_blocks reach_public Exposure_Valid_def tunnelled_vanity view_of_def\<close>;
      auto simp: tunnelled_def)
section \<open>A complete run settles the view\<close>

definition settled_view :: "Config \<Rightarrow> ServiceRecord \<Rightarrow> view \<Rightarrow> bool" where
  "settled_view cfg svc v \<longleftrightarrow>
     recordMatches (v_vanity v) (Some (des_vanity (desiredFor cfg svc))) \<and>
     recordMatches (v_anchor v) (Some (des_anchor (desiredFor cfg svc))) \<and>
     map_option rule_Origin (v_ingress v) = map_option rule_Origin (des_rule (desiredFor cfg svc)) \<and>
     (case des_app (desiredFor cfg svc) of None \<Rightarrow> v_app v = None | Some a \<Rightarrow> accessAppsEqual (v_app v) (Some a)) \<and>
     map_option route_Upstream (v_route v) = Some (svc_Upstream svc)"

lemma settled_view_of: "settled cfg svc obs \<longleftrightarrow> settled_view cfg svc (view_of obs)"
  by (simp add: settled_def settled_view_def view_of_def Let_def)

lemma exposureSteps_settles:
  "obs_for svc obs \<Longrightarrow>
   settled_view cfg svc (run_view svc (exposureSteps cfg svc obs (desiredFor cfg svc)) (view_of obs))"
  by (auto simp: exposureSteps_final settled_view_def)

section \<open>Teardown\<close>

lemma not_tunnelled_vanity_None: "v_vanity v = None \<Longrightarrow> \<not> tunnelled cfg v"
  by (simp add: tunnelled_def)

definition no_vanity_step :: "ServiceRecord \<Rightarrow> Step \<Rightarrow> bool" where
  "no_vanity_step svc st \<longleftrightarrow> (\<forall>v. v_vanity v = None \<longrightarrow> v_vanity (step_view svc st v) = None)"

lemma no_vanity_run:
  "list_all (no_vanity_step svc) sts \<Longrightarrow> v_vanity v = None \<Longrightarrow> v_vanity (run_view svc sts v) = None"
  by (induction sts arbitrary: v) (auto simp: no_vanity_step_def)

lemma removal_keeps_vanity:
  "step_Kind st \<noteq> StepDNSEnsure \<Longrightarrow> no_vanity_step svc st"
  by (auto simp: no_vanity_step_def step_view_def set_record_def set_rule_def set_app_def set_route_def
      split: StepKind.splits option.splits)

lemma deleteSteps_shape:
  "obs_for svc obs \<Longrightarrow> \<exists>st sts. deleteSteps svc obs (desiredFor cfg svc) = st # sts \<and>
     (\<forall>v. v_vanity (step_view svc st v) = None) \<and> list_all (no_vanity_step svc) sts"
  by (auto simp: deleteSteps_def Let_def step_view_def set_record_def obs_for_def removal_keeps_vanity
      split: option.splits)

lemma delete_prefix_private:
  assumes o: "obs_for svc obs" and k: "0 < k"
  shows "reach cfg (run_view svc (take k (deleteSteps svc obs (desiredFor cfg svc))) (view_of obs)) = ExposurePrivate"
proof -
  obtain st sts where e: "deleteSteps svc obs (desiredFor cfg svc) = st # sts"
    and st: "\<forall>v. v_vanity (step_view svc st v) = None" and sts: "list_all (no_vanity_step svc) sts"
    using deleteSteps_shape [OF o] by blast
  obtain n where n: "k = Suc n" using k by (cases k) auto
  have "list_all (no_vanity_step svc) (take n sts)"
    using sts by (auto simp: list_all_iff dest: in_set_takeD)
  then have "v_vanity (run_view svc (take k (st # sts)) (view_of obs)) = None"
    using no_vanity_run st by (simp add: n)
  then show ?thesis by (simp add: e reach_def not_tunnelled_vanity_None)
qed

lemma obs_for_defaults:
  fixes cfg
  assumes "obs_for svc obs"
  defines "des \<equiv> desiredFor cfg svc"
  shows "equal_fold (rec_Name (case obs_VanityDNS obs of None \<Rightarrow> des_vanity des | Some v \<Rightarrow> v)) (svc_Hostname svc)"
    "rec_Type (case obs_VanityDNS obs of None \<Rightarrow> des_vanity des | Some v \<Rightarrow> v) = ''CNAME''"
    "equal_fold (rec_Name (case obs_AnchorDNS obs of None \<Rightarrow> des_anchor des | Some v \<Rightarrow> v)) (svc_HomeAnchor svc)"
    "rec_Type (case obs_AnchorDNS obs of None \<Rightarrow> des_anchor des | Some v \<Rightarrow> v) = ''A''"
    "equal_fold (route_Hostname (case obs_EdgeRoute obs of None \<Rightarrow> des_route des | Some v \<Rightarrow> v)) (svc_Hostname svc)"
  using assms by (auto simp: obs_for_def split: option.splits)

lemma deleteSteps_clear:
  assumes "obs_for svc obs"
  shows "run_view svc (deleteSteps svc obs (desiredFor cfg svc)) (view_of obs) =
    \<lparr>v_vanity = None, v_anchor = None, v_ingress = None, v_app = None, v_route = None\<rparr>"
proof -
  note d = obs_for_defaults [OF assms, of cfg]
  have r: "run_view svc (case (case obs_TunnelIngress obs of None \<Rightarrow> des_rule (desiredFor cfg svc) | Some r \<Rightarrow> Some r) of
         None \<Rightarrow> [] | Some r \<Rightarrow> [(new_step StepIngressRemove h t (f r))\<lparr>step_Rule := Some r\<rparr>]) v = v\<lparr>v_ingress := None\<rparr>"
    if "v_ingress v = obs_TunnelIngress obs" for v h t f
    using that assms by (auto simp: obs_for_def step_view_def set_rule_def split: option.splits)
  have a: "run_view svc (case (case obs_AccessApp obs of None \<Rightarrow> des_app (desiredFor cfg svc) | Some r \<Rightarrow> Some r) of
         None \<Rightarrow> [] | Some r \<Rightarrow> [(new_step StepAccessRemove h t t')\<lparr>step_App := Some r\<rparr>]) v = v\<lparr>v_app := None\<rparr>"
    if "v_app v = obs_AccessApp obs" for v h t t'
    using that assms by (auto simp: obs_for_def step_view_def set_app_def split: option.splits)
  show ?thesis
    by (simp add: deleteSteps_def Let_def run_view_append r a)
      (simp add: step_view_def set_record_def set_route_def d view_of_def r a)
qed

end
