(* ===== verification/ExposureClients.thy ===== *)
theory ExposureClients
  imports ExposureApply ExposureSafety
begin

text \<open>
  The contract between the exposure controller and its four clients, as a locale: what a read
  returns, what a successful write changes, and that a failed call changes nothing.  The live
  state is what the clients can list.  Inside the locale, the controller's operations on one
  resource are proved to have their intended effect on the view of a service, whatever the other
  resources are, so a step, a run and a rollback of Apply refine the view functions.
\<close>

section \<open>Live state\<close>

record live =
  ls_records :: "Record list"
  ls_rules :: "IngressRule list"
  ls_apps :: "AccessApp list"
  ls_routes :: "Route list"

definition rec_key :: "Record \<Rightarrow> string \<times> string" where
  "rec_key r = (to_lower (rec_Name r), rec_Type r)"

definition app_key :: "AccessApp \<Rightarrow> string" where
  "app_key a = to_lower (app_Hostname a)"

definition route_key :: "Route \<Rightarrow> string" where
  "route_key r = to_lower (route_Hostname r)"

definition uniq :: "live \<Rightarrow> bool" where
  "uniq s \<longleftrightarrow> distinct (map rec_ID (ls_records s)) \<and> distinct (map rec_key (ls_records s)) \<and>
     distinct (map app_ID (ls_apps s)) \<and> distinct (map app_key (ls_apps s)) \<and>
     [] \<notin> app_ID ` set (ls_apps s) \<and> distinct (map route_key (ls_routes s))"

definition findApp :: "AccessApp list \<Rightarrow> string \<Rightarrow> AccessApp option" where
  "findApp apps h = List.find (\<lambda>a. equal_fold (app_Hostname a) h) apps"

definition live_view :: "ServiceRecord \<Rightarrow> live \<Rightarrow> view" where
  "live_view svc s = \<lparr>v_vanity = findRecord (ls_records s) (svc_Hostname svc) ''CNAME'',
     v_anchor = findRecord (ls_records s) (svc_HomeAnchor svc) ''A'',
     v_ingress = findRule (ls_rules s) (svc_Hostname svc),
     v_app = findApp (ls_apps s) (svc_Hostname svc),
     v_route = findRoute (ls_routes s) (svc_Hostname svc)\<rparr>"

lemma findRecord_key: "findRecord recs n t = List.find (\<lambda>r. rec_key r = (to_lower n, t)) recs"
  by (simp add: findRecord_def rec_key_def equal_fold_def)

lemma findRoute_key: "findRoute rs h = List.find (\<lambda>r. route_key r = to_lower h) rs"
  by (simp add: findRoute_def route_key_def equal_fold_def)

lemma findApp_key: "findApp apps h = List.find (\<lambda>a. app_key a = to_lower h) apps"
  by (simp add: findApp_def app_key_def equal_fold_def)

section \<open>Views up to what the comparisons see\<close>

definition rec_sim :: "Record option \<Rightarrow> Record option \<Rightarrow> bool" where
  "rec_sim x y \<longleftrightarrow> x = y \<or> recordMatches x y"

definition app_sim :: "AccessApp option \<Rightarrow> AccessApp option \<Rightarrow> bool" where
  "app_sim x y \<longleftrightarrow> x = y \<or> accessAppsEqual x y"

definition vsim :: "view \<Rightarrow> view \<Rightarrow> bool" where
  "vsim v v' \<longleftrightarrow> rec_sim (v_vanity v) (v_vanity v') \<and> rec_sim (v_anchor v) (v_anchor v') \<and>
     map_option rule_Origin (v_ingress v) = map_option rule_Origin (v_ingress v') \<and>
     app_sim (v_app v) (v_app v') \<and>
     map_option route_Upstream (v_route v) = map_option route_Upstream (v_route v')"

lemma rec_sim_refl [simp]: "rec_sim x x" by (simp add: rec_sim_def)
lemma app_sim_refl [simp]: "app_sim x x" by (simp add: app_sim_def)
lemma vsim_refl [simp]: "vsim v v" by (simp add: vsim_def)

lemma policies_trans:
  fixes ps :: "AccessPolicy list"
  defines "R \<equiv> \<lambda>p q. pol_Name p = pol_Name q \<and> mset (pol_Include p) = mset (pol_Include q)"
  shows "list_all2 R ps qs \<Longrightarrow> list_all2 R qs rs \<Longrightarrow> list_all2 R ps rs"
  by (rule list_all2_trans [of R R R]) (auto simp: R_def)

lemma accessAppsEqual_trans: "accessAppsEqual a b \<Longrightarrow> accessAppsEqual b c \<Longrightarrow> accessAppsEqual a c"
  by (cases a; cases b; cases c) (auto simp: accessAppsEqual_Some intro: policies_trans)

lemma rec_sim_trans: "rec_sim a b \<Longrightarrow> rec_sim b c \<Longrightarrow> rec_sim a c"
  by (auto simp: rec_sim_def intro: recordMatches_trans)

lemma app_sim_trans: "app_sim a b \<Longrightarrow> app_sim b c \<Longrightarrow> app_sim a c"
  by (auto simp: app_sim_def intro: accessAppsEqual_trans)

lemma vsim_trans: "vsim u v \<Longrightarrow> vsim v w \<Longrightarrow> vsim u w"
  by (auto simp: vsim_def intro: rec_sim_trans app_sim_trans)

lemma rec_sim_None [simp]: "rec_sim None x \<longleftrightarrow> x = None" "rec_sim x None \<longleftrightarrow> x = None"
  by (auto simp: rec_sim_def)

lemma app_sim_None [simp]: "app_sim None x \<longleftrightarrow> x = None" "app_sim x None \<longleftrightarrow> x = None"
  by (auto simp: app_sim_def)

lemma rec_sim_match: "rec_sim x y \<Longrightarrow> recordMatches x z = recordMatches y z"
  by (auto simp: rec_sim_def dest: recordMatches_sym intro: recordMatches_trans)

lemma tunnelled_vsim: "vsim v v' \<Longrightarrow> tunnelled cfg v = tunnelled cfg v'"
proof -
  assume s: "vsim v v'"
  then have "v_ingress v = None \<longleftrightarrow> v_ingress v' = None"
    by (metis map_option_is_None vsim_def)
  moreover have "rec_sim (v_vanity v) (v_vanity v')" using s by (simp add: vsim_def)
  ultimately show ?thesis
    by (auto simp: tunnelled_def rec_sim_def recordMatches_Some split: option.splits)
qed

lemma reach_vsim: "vsim v v' \<Longrightarrow> reach cfg v = reach cfg v'"
proof -
  assume s: "vsim v v'"
  then have "v_app v = None \<longleftrightarrow> v_app v' = None" by (auto simp: vsim_def app_sim_def)
  then show ?thesis using tunnelled_vsim [OF s] by (simp add: reach_def)
qed

lemma step_view_vsim: "vsim v v' \<Longrightarrow> vsim (step_view svc st v) (step_view svc st v')"
  by (auto simp: step_view_def set_record_def set_rule_def set_app_def set_route_def vsim_def
      split: StepKind.splits option.splits)

lemma run_view_vsim: "vsim v v' \<Longrightarrow> vsim (run_view svc sts v) (run_view svc sts v')"
  by (induction sts arbitrary: v v') (auto intro: step_view_vsim)

section \<open>Effects on a list of records\<close>

text \<open>rec_upd: looking up key K afterwards gives v, every other key what it gave before.\<close>

definition rec_upd :: "string \<times> string \<Rightarrow> Record option \<Rightarrow> Record list \<Rightarrow> Record list \<Rightarrow> bool" where
  "rec_upd K v rs rs' \<longleftrightarrow> (\<forall>n ty. rec_sim (findRecord rs' n ty) (if (to_lower n, ty) = K then v else findRecord rs n ty))"

definition app_upd :: "string \<Rightarrow> AccessApp option \<Rightarrow> AccessApp list \<Rightarrow> AccessApp list \<Rightarrow> bool" where
  "app_upd K v xs xs' \<longleftrightarrow> (\<forall>h. app_sim (findApp xs' h) (if to_lower h = K then v else findApp xs h))"

definition rule_upd :: "string \<Rightarrow> IngressRule option \<Rightarrow> IngressRule list \<Rightarrow> IngressRule list \<Rightarrow> bool" where
  "rule_upd K v xs xs' \<longleftrightarrow> (\<forall>h. map_option rule_Origin (findRule xs' h) =
     map_option rule_Origin (if to_lower h = K then v else findRule xs h))"

definition route_upd :: "string \<Rightarrow> Route option \<Rightarrow> Route list \<Rightarrow> Route list \<Rightarrow> bool" where
  "route_upd K v xs xs' \<longleftrightarrow> (\<forall>h. map_option route_Upstream (findRoute xs' h) =
     map_option route_Upstream (if to_lower h = K then v else findRoute xs h))"

lemma rec_upd_replace:
  "List.find (\<lambda>r. rec_key r = K) recs = Some cur \<Longrightarrow> rec_key y = K \<Longrightarrow> rec_sim (Some y) v \<Longrightarrow>
   rec_upd K v recs (update_where (\<lambda>r. rec_key r = K) (\<lambda>_. y) recs)"
  by (auto simp: rec_upd_def findRecord_key find_update_where_key)

lemma rec_upd_snoc:
  "\<not> list_ex (\<lambda>r. rec_key r = rec_key y) recs \<Longrightarrow> rec_sim (Some y) v \<Longrightarrow> rec_upd (rec_key y) v recs (recs @ [y])"
  by (auto simp: rec_upd_def findRecord_key find_snoc_key)

lemma rec_upd_filter: "rec_upd K None recs (filter (\<lambda>r. rec_key r \<noteq> K) recs)"
  by (auto simp: rec_upd_def findRecord_key find_filter_key)

lemma app_upd_replace:
  "List.find (\<lambda>r. app_key r = K) xs = Some cur \<Longrightarrow> app_key y = K \<Longrightarrow> app_sim (Some y) v \<Longrightarrow>
   app_upd K v xs (update_where (\<lambda>r. app_key r = K) (\<lambda>_. y) xs)"
  by (auto simp: app_upd_def findApp_key find_update_where_key)

lemma app_upd_snoc:
  "\<not> list_ex (\<lambda>r. app_key r = app_key y) xs \<Longrightarrow> app_sim (Some y) v \<Longrightarrow> app_upd (app_key y) v xs (xs @ [y])"
  by (auto simp: app_upd_def findApp_key find_snoc_key)

lemma app_upd_filter: "app_upd K None xs (filter (\<lambda>r. app_key r \<noteq> K) xs)"
  by (auto simp: app_upd_def findApp_key find_filter_key)

lemma rec_sim_matches: "recordMatches (Some y) (Some x) \<Longrightarrow> rec_sim (Some y) (Some x)"
  by (simp add: rec_sim_def)

lemma app_sim_equal: "accessAppsEqual (Some y) (Some x) \<Longrightarrow> app_sim (Some y) (Some x)"
  by (simp add: app_sim_def)

lemma accessAppsEqual_key: "accessAppsEqual (Some y) (Some x) \<Longrightarrow> app_key y = app_key x"
  by (auto simp: accessAppsEqual_Some app_key_def)

lemma findRule_key: "findRule xs h = List.find (\<lambda>r. to_lower (rule_Hostname r) = to_lower h) xs"
  by (simp add: findRule_def equal_fold_def)

text \<open>The same effects on the view of a service.\<close>

lemma vsim_record:
  assumes "rec_upd (to_lower n, ty) v (ls_records s) rs"
  shows "vsim (live_view svc (s\<lparr>ls_records := rs\<rparr>)) (set_record svc n ty v (live_view svc s))"
proof -
  have "rec_sim (findRecord rs (svc_Hostname svc) ''CNAME'')
      (if equal_fold n (svc_Hostname svc) \<and> ty = ''CNAME'' then v else findRecord (ls_records s) (svc_Hostname svc) ''CNAME'')"
    and "rec_sim (findRecord rs (svc_HomeAnchor svc) ''A'')
      (if equal_fold n (svc_HomeAnchor svc) \<and> ty = ''A'' then v else findRecord (ls_records s) (svc_HomeAnchor svc) ''A'')"
    using assms [unfolded rec_upd_def, rule_format, of "svc_Hostname svc" "''CNAME''"]
      assms [unfolded rec_upd_def, rule_format, of "svc_HomeAnchor svc" "''A''"]
    by (simp_all only: equal_fold_def prod.inject eq_commute [of "to_lower n"] eq_commute [of ty])
  then show ?thesis
    by (cases "ty = ''CNAME''"; cases "ty = ''A''") (auto simp: vsim_def live_view_def set_record_def split: if_splits)
qed

lemma vsim_app:
  assumes "app_upd (to_lower h) v (ls_apps s) xs"
  shows "vsim (live_view svc (s\<lparr>ls_apps := xs\<rparr>)) (set_app svc h v (live_view svc s))"
  using assms [unfolded app_upd_def, rule_format, of "svc_Hostname svc"]
  by (auto simp: vsim_def live_view_def set_app_def equal_fold_def split: if_splits)

lemma vsim_rule: "rule_upd (to_lower h) v (ls_rules s) xs \<Longrightarrow>
   vsim (live_view svc (s\<lparr>ls_rules := xs\<rparr>)) (set_rule svc h v (live_view svc s))"
  by (auto simp: vsim_def live_view_def set_rule_def rule_upd_def equal_fold_def)

lemma vsim_route: "route_upd (to_lower h) v (ls_routes s) xs \<Longrightarrow>
   vsim (live_view svc (s\<lparr>ls_routes := xs\<rparr>)) (set_route svc h v (live_view svc s))"
  by (auto simp: vsim_def live_view_def set_route_def route_upd_def equal_fold_def)

text \<open>A step carries the payload its kind needs, and the payload is one the clients can store.\<close>

definition payload_ok ::
  "(IngressRule \<Rightarrow> bool) \<Rightarrow> (AccessApp \<Rightarrow> bool) \<Rightarrow> (Route \<Rightarrow> bool) \<Rightarrow> Step \<Rightarrow> bool" where
  "payload_ok okrule okapp okroute x \<longleftrightarrow> (case step_Kind x of
      StepDNSEnsure \<Rightarrow> step_Record x \<noteq> None
    | StepDNSRemove \<Rightarrow> step_Record x \<noteq> None
    | StepAccessEnsure \<Rightarrow> (case step_App x of None \<Rightarrow> False
        | Some ap \<Rightarrow> okapp ap \<and> trim_space (app_Hostname ap) = app_Hostname ap \<and> app_ID ap = [])
    | StepAccessRemove \<Rightarrow> (case step_App x of None \<Rightarrow> False
        | Some ap \<Rightarrow> trim_space (app_Hostname ap) = app_Hostname ap)
    | StepIngressEnsure \<Rightarrow> (case step_Rule x of None \<Rightarrow> False | Some r \<Rightarrow> okrule r)
    | StepIngressRemove \<Rightarrow> step_Rule x \<noteq> None
    | StepEdgeEnsure \<Rightarrow> (case step_Route x of None \<Rightarrow> False | Some r \<Rightarrow> okroute r)
    | StepEdgeRemove \<Rightarrow> step_Route x \<noteq> None
    | StepUnknown _ \<Rightarrow> False)"

definition all_clients :: "'w DNSClient \<Rightarrow> 'w TunnelClient \<Rightarrow> 'w AccessClient \<Rightarrow> 'w EdgeClient \<Rightarrow> 'w Clients" where
  "all_clients d t a e = \<lparr>cl_DNS = Some d, cl_Tunnel = Some t, cl_Access = Some a, cl_Edge = Some e\<rparr>"

lemma all_clients_simps [simp]:
  "cl_DNS (all_clients d t a e) = Some d" "cl_Tunnel (all_clients d t a e) = Some t"
  "cl_Access (all_clients d t a e) = Some a" "cl_Edge (all_clients d t a e) = Some e"
  by (simp_all add: all_clients_def)

section \<open>The contract\<close>

locale exposure_clients =
  fixes d :: "'w DNSClient" and t :: "'w TunnelClient" and a :: "'w AccessClient" and e :: "'w EdgeClient"
    and st :: "'w \<Rightarrow> live" and wf :: "'w \<Rightarrow> bool"
    and okrule :: "IngressRule \<Rightarrow> bool" and okapp :: "AccessApp \<Rightarrow> bool" and okroute :: "Route \<Rightarrow> bool"
  assumes list_records: "wf w \<Longrightarrow> ListRecords d w = (w', rs) \<Longrightarrow>
      wf w' \<and> st w' = st w \<and> (\<forall>xs. rs = Inr xs \<longrightarrow> xs = ls_records (st w))"
    and create_record: "wf w \<Longrightarrow> CreateRecord d x w = (w', r) \<Longrightarrow> wf w' \<and> (case r of
      Inl _ \<Rightarrow> st w' = st w
    | Inr i \<Rightarrow> i \<notin> rec_ID ` set (ls_records (st w)) \<and> (\<exists>y. rec_ID y = i \<and> recordMatches (Some y) (Some x) \<and>
        st w' = (st w)\<lparr>ls_records := ls_records (st w) @ [y]\<rparr>))"
    and replace_record: "wf w \<Longrightarrow> ReplaceRecord d i x w = (w', r') \<Longrightarrow> wf w' \<and> (case r' of
      Inl _ \<Rightarrow> st w' = st w
    | Inr _ \<Rightarrow> \<exists>y. rec_ID y = i \<and> recordMatches (Some y) (Some x) \<and>
        st w' = (st w)\<lparr>ls_records := update_where (\<lambda>r. rec_ID r = i) (\<lambda>_. y) (ls_records (st w))\<rparr>)"
    and delete_record: "wf w \<Longrightarrow> DeleteRecord d i w = (w', r') \<Longrightarrow> wf w' \<and> (case r' of
      Inl _ \<Rightarrow> st w' = st w
    | Inr _ \<Rightarrow> st w' = (st w)\<lparr>ls_records := filter (\<lambda>r. rec_ID r \<noteq> i) (ls_records (st w))\<rparr>)"
    and list_ingress: "wf w \<Longrightarrow> ListIngress t w = (w', ru) \<Longrightarrow>
      wf w' \<and> st w' = st w \<and> (\<forall>xs. ru = Inr xs \<longrightarrow> xs = ls_rules (st w) \<and> list_all okrule xs)"
    and set_ingress: "wf w \<Longrightarrow> list_all okrule rules \<Longrightarrow> SetIngress t rules w = (w', r') \<Longrightarrow> wf w' \<and> (case r' of
      Inl _ \<Rightarrow> st w' = st w | Inr _ \<Rightarrow> st w' = (st w)\<lparr>ls_rules := rules\<rparr>)"
    and get_app: "wf w \<Longrightarrow> trim_space h = h \<Longrightarrow> GetApplication a h w = (w', ra) \<Longrightarrow> wf w' \<and> st w' = st w \<and> (case ra of
      Inl err \<Rightarrow> errors_is err ErrNotFound \<longrightarrow> findApp (ls_apps (st w)) h = None
    | Inr ap \<Rightarrow> findApp (ls_apps (st w)) h = Some ap)"
    and put_app: "wf w \<Longrightarrow> okapp ap \<Longrightarrow> PutApplication a ap w = (w', r) \<Longrightarrow> wf w' \<and> (case r of
      Inl _ \<Rightarrow> st w' = st w
    | Inr _ \<Rightarrow> \<exists>y. accessAppsEqual (Some y) (Some ap) \<and>
        (if app_ID ap = [] then app_ID y \<noteq> [] \<and> app_ID y \<notin> app_ID ` set (ls_apps (st w)) \<and>
           st w' = (st w)\<lparr>ls_apps := ls_apps (st w) @ [y]\<rparr>
         else app_ID y = app_ID ap \<and>
           st w' = (st w)\<lparr>ls_apps := update_where (\<lambda>z. app_ID z = app_ID ap) (\<lambda>_. y) (ls_apps (st w))\<rparr>))"
    and okapp_id: "okapp (ap\<lparr>app_ID := i\<rparr>) = okapp ap"
    and delete_app: "wf w \<Longrightarrow> DeleteApplication a i w = (w', r') \<Longrightarrow> wf w' \<and> (case r' of
      Inl _ \<Rightarrow> st w' = st w
    | Inr _ \<Rightarrow> st w' = (st w)\<lparr>ls_apps := filter (\<lambda>z. app_ID z \<noteq> i) (ls_apps (st w))\<rparr>)"
    and list_routes: "wf w \<Longrightarrow> ListRoutes e w = (w', ro) \<Longrightarrow>
      wf w' \<and> st w' = st w \<and> (\<forall>xs. ro = Inr xs \<longrightarrow> xs = ls_routes (st w))"
    and put_route: "wf w \<Longrightarrow> okroute x' \<Longrightarrow> PutRoute e x' w = (w', r') \<Longrightarrow> wf w' \<and> (case r' of
      Inl _ \<Rightarrow> st w' = st w
    | Inr _ \<Rightarrow> \<exists>rs. st w' = (st w)\<lparr>ls_routes := rs\<rparr> \<and>
        (distinct (map route_key (ls_routes (st w))) \<longrightarrow> distinct (map route_key rs)) \<and>
        (\<forall>h. findRoute rs h = (if equal_fold h (route_Hostname x') then Some x' else findRoute (ls_routes (st w)) h)))"
    and delete_route: "wf w \<Longrightarrow> DeleteRoute e h w = (w', r') \<Longrightarrow> wf w' \<and> (case r' of
      Inl _ \<Rightarrow> st w' = st w
    | Inr _ \<Rightarrow> \<exists>rs. st w' = (st w)\<lparr>ls_routes := rs\<rparr> \<and>
        (distinct (map route_key (ls_routes (st w))) \<longrightarrow> distinct (map route_key rs)) \<and>
        (\<forall>h'. findRoute rs h' = (if equal_fold h' h then None else findRoute (ls_routes (st w)) h')))"
begin

lemma ensureRecord_live:
  assumes w: "wf w" "uniq (st w)" and r: "ensureRecord d x w = (w', res, x')"
  shows "wf w' \<and> (case res of Inl _ \<Rightarrow> st w' = st w
    | Inr _ \<Rightarrow> uniq (st w') \<and> (\<exists>rs. st w' = (st w)\<lparr>ls_records := rs\<rparr> \<and> rec_upd (rec_key x) (Some x) (ls_records (st w)) rs))"
proof -
  obtain w1 l where l: "ListRecords d w = (w1, l)" by fastforce
  note L = list_records [OF w(1) l]
  show ?thesis
  proof (cases l)
    case (Inl err)
    then show ?thesis using r l L by (auto simp: ensureRecord_def)
  next
    case (Inr recs)
    then have recs: "recs = ls_records (st w)" and w1: "wf w1" "st w1 = st w" using L by auto
    have fr: "findRecord recs (rec_Name x) (rec_Type x) = List.find (\<lambda>r. rec_key r = rec_key x) recs"
      by (simp add: findRecord_key rec_key_def [of x])
    show ?thesis
    proof (cases "findRecord recs (rec_Name x) (rec_Type x)")
      case (Some cur)
      then have cur: "cur \<in> set recs" "rec_key cur = rec_key x" by (auto simp: fr dest: find_Some_in)
      show ?thesis
      proof (cases "recordMatches (Some cur) (Some x)")
        case True
        then have eqs: "w' = w1" "res = Inr StatusUnchanged" using r l Inr Some by (auto simp: ensureRecord_def)
        have "rec_upd (rec_key x) (Some x) recs recs"
          using Some True by (auto simp: rec_upd_def rec_sim_def findRecord_key rec_key_def [of x])
        moreover have "st w' = (st w)\<lparr>ls_records := recs\<rparr>" using recs eqs w1 by simp
        ultimately show ?thesis using eqs w1 w recs by (auto intro!: exI [of _ "ls_records (st w)"])
      next
        case False
        obtain w2 p where p: "ReplaceRecord d (rec_ID cur) x w1 = (w2, p)" by fastforce
        note P = replace_record [OF w1(1) p]
        show ?thesis
        proof (cases p)
          case (Inl err)
          then show ?thesis using r l \<open>l = Inr recs\<close> Some False p P w1 by (auto simp: ensureRecord_def)
        next
          case (Inr u)
          then obtain y where y: "rec_ID y = rec_ID cur" "recordMatches (Some y) (Some x)"
            "st w2 = (st w)\<lparr>ls_records := update_where (\<lambda>r. rec_ID r = rec_ID cur) (\<lambda>_. y) recs\<rparr>"
            using P w1 recs by auto
          have eqs: "w' = w2" "res = Inr StatusApplied" using r l \<open>l = Inr recs\<close> Some False p Inr by (auto simp: ensureRecord_def)
          have u: "distinct (map rec_ID recs)" "distinct (map rec_key recs)" using w(2) recs by (auto simp: uniq_def)
          have ky: "rec_key y = rec_key x" using y(2) by (auto simp: recordMatches_Some rec_key_def)
          let ?rs = "update_where (\<lambda>r. rec_key r = rec_key x) (\<lambda>_. y) recs"
          have same: "update_where (\<lambda>r. rec_ID r = rec_ID cur) (\<lambda>_. y) recs = ?rs"
            using two_keys_agree [OF u cur(1)] cur(2) by (intro update_where_cong) auto
          have "map rec_ID (update_where (\<lambda>r. rec_ID r = rec_ID cur) (\<lambda>_. y) recs) = map rec_ID recs"
            using y(1) by (intro map_update_where_key) auto
          moreover have "map rec_key ?rs = map rec_key recs"
            using ky by (intro map_update_where_key) auto
          ultimately have "uniq (st w2)" using w(2) u y(3) same by (simp add: uniq_def)
          moreover have "rec_upd (rec_key x) (Some x) recs ?rs"
            using Some ky y(2) unfolding fr by (intro rec_upd_replace rec_sim_matches)
          moreover have "st w2 = (st w)\<lparr>ls_records := ?rs\<rparr>" using y(3) same by simp
          ultimately show ?thesis using eqs P recs by auto
        qed
      qed
    next
      case None
      obtain w2 p where p: "CreateRecord d x w1 = (w2, p)" by fastforce
      note P = create_record [OF w1(1) p]
      show ?thesis
      proof (cases p)
        case (Inl err)
        then show ?thesis using r l Inr None p P w1 by (auto simp: ensureRecord_def)
      next
        case (Inr i)
        then obtain y where y: "rec_ID y = i" "i \<notin> rec_ID ` set recs" "recordMatches (Some y) (Some x)"
          "st w2 = (st w)\<lparr>ls_records := recs @ [y]\<rparr>" using P w1 recs by auto
        have eqs: "w' = w2" "res = Inr StatusApplied" using r l \<open>l = Inr recs\<close> None p Inr by (auto simp: ensureRecord_def)
        have ky: "rec_key y = rec_key x" using y(3) by (auto simp: recordMatches_Some rec_key_def)
        have nk: "\<not> list_ex (\<lambda>r. rec_key r = rec_key y) recs"
          using None ky by (auto simp: fr find_None_iff list_ex_iff)
        have "uniq (st w2)" using w(2) y nk recs by (auto simp: uniq_def list_ex_iff)
        moreover have "rec_upd (rec_key x) (Some x) recs (recs @ [y])"
          using rec_upd_snoc [OF nk rec_sim_matches] y(3) ky by simp
        ultimately show ?thesis using eqs P y(4) recs by auto
      qed
    qed
  qed
qed

lemma removeRecord_live:
  assumes w: "wf w" "uniq (st w)" and r: "removeRecord d n ty w = (w', res)"
  shows "wf w' \<and> (case res of Inl _ \<Rightarrow> st w' = st w
    | Inr _ \<Rightarrow> uniq (st w') \<and> (\<exists>rs. st w' = (st w)\<lparr>ls_records := rs\<rparr> \<and> rec_upd (to_lower n, ty) None (ls_records (st w)) rs))"
proof -
  obtain w1 l where l: "ListRecords d w = (w1, l)" by fastforce
  note L = list_records [OF w(1) l]
  show ?thesis
  proof (cases l)
    case (Inl err)
    then show ?thesis using r l L by (auto simp: removeRecord_def)
  next
    case (Inr recs)
    then have recs: "recs = ls_records (st w)" and w1: "wf w1" "st w1 = st w" using L by auto
    show ?thesis
    proof (cases "findRecord recs n ty")
      case None
      then have "w' = w1" "res = Inr StatusUnchanged" using r l Inr by (auto simp: removeRecord_def)
      moreover have "rec_upd (to_lower n, ty) None recs recs" using None by (auto simp: rec_upd_def findRecord_key)
      moreover have "st w1 = (st w)\<lparr>ls_records := recs\<rparr>" using recs w1 by simp
      ultimately show ?thesis using w1 w recs by (auto intro!: exI [of _ "ls_records (st w)"])
    next
      case (Some cur)
      then have cur: "cur \<in> set recs" "rec_key cur = (to_lower n, ty)" by (auto simp: findRecord_key dest: find_Some_in)
      obtain w2 p where p: "DeleteRecord d (rec_ID cur) w1 = (w2, p)" by fastforce
      note P = delete_record [OF w1(1) p]
      show ?thesis
      proof (cases p)
        case (Inl err)
        then show ?thesis using r l \<open>l = Inr recs\<close> Some p P w1 by (auto simp: removeRecord_def)
      next
        case (Inr u)
        have eqs: "w' = w2" "res = Inr StatusApplied" using r l \<open>l = Inr recs\<close> Some p Inr by (auto simp: removeRecord_def)
        have u: "distinct (map rec_ID recs)" "distinct (map rec_key recs)" using w(2) recs by (auto simp: uniq_def)
        let ?rs = "filter (\<lambda>r. rec_key r \<noteq> (to_lower n, ty)) recs"
        have "filter (\<lambda>r. rec_ID r \<noteq> rec_ID cur) recs = ?rs"
          using two_keys_agree [OF u cur(1)] cur(2) by (intro filter_cong) auto
        then have s2: "st w2 = (st w)\<lparr>ls_records := ?rs\<rparr>" using P Inr w1 recs by simp
        have "uniq (st w2)" using w(2) u recs by (auto simp: s2 uniq_def distinct_map_filter)
        moreover have "rec_upd (to_lower n, ty) None recs ?rs"
          by (rule rec_upd_filter)
        ultimately show ?thesis using eqs P s2 recs by auto
      qed
    qed
  qed
qed

lemma ensureAccess_live:
  assumes w: "wf w" "uniq (st w)" and ok: "okapp x" "trim_space (app_Hostname x) = app_Hostname x"
    and id0: "app_ID x \<noteq> [] \<longrightarrow> findApp (ls_apps (st w)) (app_Hostname x) \<noteq> None"
    and r: "ensureAccess a x w = (w', res)"
  shows "wf w' \<and> (case res of Inl _ \<Rightarrow> st w' = st w
    | Inr _ \<Rightarrow> uniq (st w') \<and> (\<exists>rs. st w' = (st w)\<lparr>ls_apps := rs\<rparr> \<and> app_upd (app_key x) (Some x) (ls_apps (st w)) rs))"
proof -
  obtain w1 l where l: "GetApplication a (app_Hostname x) w = (w1, l)" by fastforce
  note L = get_app [OF w(1) ok(2) l]
  have w1: "wf w1" "st w1 = st w" using L by auto
  let ?xs = "ls_apps (st w)"
  have f: "findApp ?xs (app_Hostname x) = List.find (\<lambda>z. app_key z = app_key x) ?xs"
    by (simp add: findApp_key app_key_def [of x])
  have u: "distinct (map app_ID ?xs)" "distinct (map app_key ?xs)" "[] \<notin> app_ID ` set ?xs"
    using w(2) by (auto simp: uniq_def)
  show ?thesis
  proof (cases l)
    case (Inr cur)
    then have fc: "List.find (\<lambda>z. app_key z = app_key x) ?xs = Some cur" using L f by simp
    then have cur: "cur \<in> set ?xs" "app_key cur = app_key x" "app_ID cur \<noteq> []"
      using u(3) by (auto dest: find_Some_in simp: image_iff) (metis find_Some_in)
    show ?thesis
    proof (cases "accessAppsEqual (Some cur) (Some x)")
      case True
      then have eqs: "w' = w1" "res = Inr StatusUnchanged" using r l Inr by (auto simp: ensureAccess_def)
      have "app_upd (app_key x) (Some x) ?xs ?xs" using fc True by (auto simp: app_upd_def app_sim_def findApp_key)
      then show ?thesis using eqs w1 w by (auto intro!: exI [of _ ?xs])
    next
      case False
      obtain w2 p where p: "PutApplication a (x\<lparr>app_ID := app_ID cur\<rparr>) w1 = (w2, p)" by fastforce
      note P = put_app [OF w1(1) _ p, simplified okapp_id, OF ok(1)]
      show ?thesis
      proof (cases p)
        case (Inl err)
        then show ?thesis using r l \<open>l = Inr cur\<close> False p P w1 by (auto simp: ensureAccess_def)
      next
        case (Inr i)
        then obtain y where y: "accessAppsEqual (Some y) (Some (x\<lparr>app_ID := app_ID cur\<rparr>))" "app_ID y = app_ID cur"
          "st w2 = (st w)\<lparr>ls_apps := update_where (\<lambda>z. app_ID z = app_ID cur) (\<lambda>_. y) ?xs\<rparr>"
          using P w1 cur(3) by auto
        have yx: "accessAppsEqual (Some y) (Some x)" using y(1) by (simp add: accessAppsEqual_Some)
        have ky: "app_key y = app_key x" using yx by (rule accessAppsEqual_key)
        have eqs: "w' = w2" "res = Inr StatusApplied" using r l \<open>l = Inr cur\<close> False p Inr by (auto simp: ensureAccess_def)
        let ?rs = "update_where (\<lambda>z. app_key z = app_key x) (\<lambda>_. y) ?xs"
        have same: "update_where (\<lambda>z. app_ID z = app_ID cur) (\<lambda>_. y) ?xs = ?rs"
          using two_keys_agree [OF u(1,2) cur(1)] cur(2) by (intro update_where_cong) auto
        have ids: "map app_ID (update_where (\<lambda>z. app_ID z = app_ID cur) (\<lambda>_. y) ?xs) = map app_ID ?xs"
          using y(2) by (intro map_update_where_key) auto
        have keys: "map app_key ?rs = map app_key ?xs" using ky by (intro map_update_where_key) auto
        have "uniq (st w2)" using w(2) ids keys same y(3) by (simp add: uniq_def flip: set_map)
        moreover have "app_upd (app_key x) (Some x) ?xs ?rs" using fc ky yx by (intro app_upd_replace app_sim_equal)
        moreover have "st w2 = (st w)\<lparr>ls_apps := ?rs\<rparr>" using y(3) same by simp
        ultimately show ?thesis using eqs P by auto
      qed
    qed
  next
    case (Inl err)
    show ?thesis
    proof (cases "errors_is err ErrNotFound")
      case False
      then show ?thesis using r l Inl w1 by (auto simp: ensureAccess_def)
    next
      case True
      then have fn: "List.find (\<lambda>z. app_key z = app_key x) ?xs = None" using L Inl f by simp
      then have noid: "app_ID x = []" using id0 f by auto
      obtain w2 p where p: "PutApplication a x w1 = (w2, p)" by fastforce
      note P = put_app [OF w1(1) ok(1) p]
      show ?thesis
      proof (cases p)
        case (Inl err')
        then show ?thesis using r l \<open>l = Inl err\<close> True p P w1 by (auto simp: ensureAccess_def)
      next
        case (Inr i)
        then obtain y where y: "accessAppsEqual (Some y) (Some x)" "app_ID y \<noteq> []" "app_ID y \<notin> app_ID ` set ?xs"
          "st w2 = (st w)\<lparr>ls_apps := ?xs @ [y]\<rparr>" using P w1 noid by auto
        have ky: "app_key y = app_key x" using y(1) by (rule accessAppsEqual_key)
        have nk: "\<not> list_ex (\<lambda>z. app_key z = app_key y) ?xs" using fn ky by (auto simp: find_None_iff list_ex_iff)
        have eqs: "w' = w2" "res = Inr StatusApplied" using r l \<open>l = Inl err\<close> True p Inr by (auto simp: ensureAccess_def)
        have "uniq (st w2)" using w(2) y nk by (auto simp: uniq_def list_ex_iff)
        moreover have "app_upd (app_key x) (Some x) ?xs (?xs @ [y])"
          using app_upd_snoc [OF nk app_sim_equal [OF y(1)]] ky by simp
        ultimately show ?thesis using eqs P y(4) by auto
      qed
    qed
  qed
qed

lemma removeAccess_live:
  assumes w: "wf w" "uniq (st w)" and ok: "trim_space h = h" and r: "removeAccess a h w = (w', res)"
  shows "wf w' \<and> (case res of Inl _ \<Rightarrow> st w' = st w
    | Inr _ \<Rightarrow> uniq (st w') \<and> (\<exists>rs. st w' = (st w)\<lparr>ls_apps := rs\<rparr> \<and> app_upd (to_lower h) None (ls_apps (st w)) rs))"
proof -
  obtain w1 l where l: "GetApplication a h w = (w1, l)" by fastforce
  note L = get_app [OF w(1) ok l]
  have w1: "wf w1" "st w1 = st w" using L by auto
  let ?xs = "ls_apps (st w)"
  have u: "distinct (map app_ID ?xs)" "distinct (map app_key ?xs)" using w(2) by (auto simp: uniq_def)
  show ?thesis
  proof (cases l)
    case (Inl err)
    then have "app_upd (to_lower h) None ?xs ?xs" if "errors_is err ErrNotFound"
      using L that by (auto simp: app_upd_def findApp_key)
    then show ?thesis using r l Inl w1 w by (auto simp: removeAccess_def intro!: exI [of _ ?xs] split: if_splits)
  next
    case (Inr cur)
    then have cur: "cur \<in> set ?xs" "app_key cur = to_lower h" using L by (auto simp: findApp_key dest: find_Some_in)
    obtain w2 p where p: "DeleteApplication a (app_ID cur) w1 = (w2, p)" by fastforce
    note P = delete_app [OF w1(1) p]
    show ?thesis
    proof (cases p)
      case (Inl err)
      then show ?thesis using r l \<open>l = Inr cur\<close> p P w1 by (auto simp: removeAccess_def)
    next
      case (Inr v)
      have eqs: "w' = w2" "res = Inr StatusApplied" using r l \<open>l = Inr cur\<close> p Inr by (auto simp: removeAccess_def)
      let ?rs = "filter (\<lambda>z. app_key z \<noteq> to_lower h) ?xs"
      have "filter (\<lambda>z. app_ID z \<noteq> app_ID cur) ?xs = ?rs"
        using two_keys_agree [OF u cur(1)] cur(2) by (intro filter_cong) auto
      then have s2: "st w2 = (st w)\<lparr>ls_apps := ?rs\<rparr>" using P Inr w1 by simp
      have "uniq (st w2)" using w(2) by (auto simp: s2 uniq_def distinct_map_filter)
      then show ?thesis using eqs P s2 app_upd_filter by auto
    qed
  qed
qed

text \<open>The tunnel and the edge.\<close>

lemma replace_rule_Some:
  "findRule rules (rule_Hostname x) \<noteq> None \<Longrightarrow> \<exists>rs. replace_rule x rules = Some rs \<and>
     rule_upd (to_lower (rule_Hostname x)) (Some x) rules rs \<and> set rs \<subseteq> insert x (set rules)"
proof (induction rules)
  case (Cons r rules)
  show ?case
  proof (cases "equal_fold (rule_Hostname r) (rule_Hostname x)")
    case True
    then show ?thesis by (auto simp: rule_upd_def findRule_def equal_fold_def)
  next
    case False
    then have "findRule rules (rule_Hostname x) \<noteq> None" using Cons.prems by (simp add: findRule_def)
    then obtain rs where "replace_rule x rules = Some rs" "rule_upd (to_lower (rule_Hostname x)) (Some x) rules rs"
      "set rs \<subseteq> insert x (set rules)" using Cons.IH by blast
    then show ?thesis using False by (auto simp: rule_upd_def findRule_def equal_fold_def)
  qed
qed (simp add: findRule_def)

lemma ensureIngress_live:
  assumes w: "wf w" and ok: "okrule x" and r: "ensureIngress t x w = (w', res)"
  shows "wf w' \<and> (case res of Inl _ \<Rightarrow> st w' = st w
    | Inr _ \<Rightarrow> (\<exists>rs. st w' = (st w)\<lparr>ls_rules := rs\<rparr> \<and> rule_upd (to_lower (rule_Hostname x)) (Some x) (ls_rules (st w)) rs))"
proof -
  obtain w1 l where l: "ListIngress t w = (w1, l)" by fastforce
  note L = list_ingress [OF w l]
  show ?thesis
  proof (cases l)
    case (Inl err)
    then show ?thesis using r l L by (auto simp: ensureIngress_def)
  next
    case (Inr rules)
    then have rules: "rules = ls_rules (st w)" "list_all okrule rules" and w1: "wf w1" "st w1 = st w" using L by auto
    show ?thesis
    proof (cases "findRule rules (rule_Hostname x)")
      case None
      have ok': "list_all okrule (rules @ [x])" using rules ok by simp
      obtain w2 p where p: "SetIngress t (rules @ [x]) w1 = (w2, p)" by fastforce
      note P = set_ingress [OF w1(1) ok' p]
      have "rule_upd (to_lower (rule_Hostname x)) (Some x) rules (rules @ [x])"
        using None by (auto simp: rule_upd_def findRule_key find_append split: option.splits)
      then show ?thesis using r l Inr None p P w1 rules
        by (cases p) (auto simp: ensureIngress_def)
    next
      case (Some cur)
      show ?thesis
      proof (cases "rule_Origin cur = rule_Origin x")
        case True
        then have "rule_upd (to_lower (rule_Hostname x)) (Some x) rules rules"
          using Some by (auto simp: rule_upd_def findRule_key)
        then show ?thesis using r l Inr Some True w1 rules
          by (auto simp: ensureIngress_def intro!: exI [of _ "ls_rules (st w)"])
      next
        case False
        obtain rs where rs: "replace_rule x rules = Some rs" "rule_upd (to_lower (rule_Hostname x)) (Some x) rules rs"
          "set rs \<subseteq> insert x (set rules)" using replace_rule_Some Some by blast
        have ok': "list_all okrule rs" using rules(2) ok rs(3) by (auto simp: list_all_iff)
        obtain w2 p where p: "SetIngress t rs w1 = (w2, p)" by fastforce
        note P = set_ingress [OF w1(1) ok' p]
        show ?thesis using r l Inr Some False p P w1 rules rs by (cases p) (auto simp: ensureIngress_def)
      qed
    qed
  qed
qed

lemma removeIngress_live:
  assumes w: "wf w" and r: "removeIngress t h w = (w', res)"
  shows "wf w' \<and> (case res of Inl _ \<Rightarrow> st w' = st w
    | Inr _ \<Rightarrow> (\<exists>rs. st w' = (st w)\<lparr>ls_rules := rs\<rparr> \<and> rule_upd (to_lower h) None (ls_rules (st w)) rs))"
proof -
  obtain w1 l where l: "ListIngress t w = (w1, l)" by fastforce
  note L = list_ingress [OF w l]
  show ?thesis
  proof (cases l)
    case (Inl err)
    then show ?thesis using r l L by (auto simp: removeIngress_def)
  next
    case (Inr rules)
    then have rules: "rules = ls_rules (st w)" "list_all okrule rules" and w1: "wf w1" "st w1 = st w" using L by auto
    let ?rs = "filter (\<lambda>r. \<not> equal_fold (rule_Hostname r) h) rules"
    have u: "rule_upd (to_lower h) None rules ?rs"
      using find_filter_key [of "\<lambda>r. to_lower (rule_Hostname r)" _ "to_lower h" rules]
      by (auto simp: rule_upd_def findRule_key equal_fold_def)
    show ?thesis
    proof (cases "list_ex (\<lambda>r. equal_fold (rule_Hostname r) h) rules")
      case False
      then have "?rs = rules" by (auto simp: list_ex_iff filter_id_conv)
      then show ?thesis using r l Inr False w1 rules u
        by (auto simp: removeIngress_def Let_def intro!: exI [of _ "ls_rules (st w)"])
    next
      case True
      have ok': "list_all okrule ?rs" using rules(2) by (auto simp: list_all_iff)
      obtain w2 p where p: "SetIngress t ?rs w1 = (w2, p)" by fastforce
      note P = set_ingress [OF w1(1) ok' p]
      show ?thesis using r l Inr True p P w1 rules u by (cases p) (auto simp: removeIngress_def Let_def)
    qed
  qed
qed

lemma route_unique_find:
  assumes "distinct (map route_key rs)"
  shows "list_ex (\<lambda>r. equal_fold (route_Hostname r) h \<and> route_Upstream r = u) rs \<longleftrightarrow>
    map_option route_Upstream (findRoute rs h) = Some u"
proof
  assume "list_ex (\<lambda>r. equal_fold (route_Hostname r) h \<and> route_Upstream r = u) rs"
  then obtain r where r: "r \<in> set rs" "route_key r = to_lower h" "route_Upstream r = u"
    by (auto simp: list_ex_iff equal_fold_def route_key_def)
  then have "findRoute rs h = Some r" using find_distinct_key [OF assms r(1)] by (simp add: findRoute_key)
  then show "map_option route_Upstream (findRoute rs h) = Some u" using r by simp
qed (auto simp: findRoute_def list_ex_iff dest: find_Some_in)

lemma ensureRoute_live:
  assumes w: "wf w" "uniq (st w)" and ok: "okroute x" and r: "ensureRoute e x w = (w', res)"
  shows "wf w' \<and> (case res of Inl _ \<Rightarrow> st w' = st w
    | Inr _ \<Rightarrow> uniq (st w') \<and> (\<exists>rs. st w' = (st w)\<lparr>ls_routes := rs\<rparr> \<and>
        route_upd (to_lower (route_Hostname x)) (Some x) (ls_routes (st w)) rs))"
proof -
  obtain w1 l where l: "ListRoutes e w = (w1, l)" by fastforce
  note L = list_routes [OF w(1) l]
  show ?thesis
  proof (cases l)
    case (Inl err)
    then show ?thesis using r l L by (auto simp: ensureRoute_def)
  next
    case (Inr routes)
    then have routes: "routes = ls_routes (st w)" and w1: "wf w1" "st w1 = st w" using L by auto
    have one: "distinct (map route_key routes)" using w(2) routes by (simp add: uniq_def)
    show ?thesis
    proof (cases "map_option route_Upstream (findRoute routes (route_Hostname x)) = Some (route_Upstream x)")
      case True
      then have "route_upd (to_lower (route_Hostname x)) (Some x) routes routes"
        by (auto simp: route_upd_def findRoute_key)
      moreover have "w' = w1" "res = Inr StatusUnchanged"
        using r l Inr True [unfolded route_unique_find [OF one, symmetric]] by (auto simp: ensureRoute_def)
      ultimately show ?thesis using w1 routes w by (auto intro!: exI [of _ "ls_routes (st w)"])
    next
      case False
      obtain w2 p where p: "PutRoute e x w1 = (w2, p)" by fastforce
      note P = put_route [OF w1(1) ok p]
      have eqs: "w' = w2" "res = (case p of Inl err \<Rightarrow> Inl err | Inr _ \<Rightarrow> Inr StatusApplied)"
        using r l Inr p False [unfolded route_unique_find [OF one, symmetric]]
        by (auto simp: ensureRoute_def split: sum.splits)
      show ?thesis
      proof (cases p)
        case (Inr u)
        then obtain rs where "st w2 = (st w)\<lparr>ls_routes := rs\<rparr>" "distinct (map route_key rs)"
          "\<forall>h. findRoute rs h = (if equal_fold h (route_Hostname x) then Some x else findRoute routes h)"
          using P w1 routes one by auto
        then show ?thesis using eqs P w Inr routes
          by (auto simp: uniq_def route_upd_def equal_fold_def)
      qed (use eqs P w1 in simp)
    qed
  qed
qed

lemma removeRoute_live:
  assumes w: "wf w" "uniq (st w)" and r: "removeRoute e h w = (w', res)"
  shows "wf w' \<and> (case res of Inl _ \<Rightarrow> st w' = st w
    | Inr _ \<Rightarrow> uniq (st w') \<and> (\<exists>rs. st w' = (st w)\<lparr>ls_routes := rs\<rparr> \<and> route_upd (to_lower h) None (ls_routes (st w)) rs))"
proof -
  obtain w1 l where l: "ListRoutes e w = (w1, l)" by fastforce
  note L = list_routes [OF w(1) l]
  show ?thesis
  proof (cases l)
    case (Inl err)
    then show ?thesis using r l L by (auto simp: removeRoute_def)
  next
    case (Inr routes)
    then have routes: "routes = ls_routes (st w)" and w1: "wf w1" "st w1 = st w" using L by auto
    have one: "distinct (map route_key routes)" using w(2) routes by (simp add: uniq_def)
    show ?thesis
    proof (cases "list_ex (\<lambda>r. equal_fold (route_Hostname r) h) routes")
      case False
      then have "findRoute routes h = None" by (auto simp: findRoute_def find_None_iff list_ex_iff)
      then have "route_upd (to_lower h) None routes routes" by (auto simp: route_upd_def findRoute_key)
      then show ?thesis using r l Inr False w1 routes w
        by (auto simp: removeRoute_def intro!: exI [of _ "ls_routes (st w)"])
    next
      case True
      obtain w2 p where p: "DeleteRoute e h w1 = (w2, p)" by fastforce
      note P = delete_route [OF w1(1) p]
      have eqs: "w' = w2" "res = (case p of Inl err \<Rightarrow> Inl err | Inr _ \<Rightarrow> Inr StatusApplied)"
        using r l Inr True p by (auto simp: removeRoute_def split: sum.splits)
      show ?thesis
      proof (cases p)
        case (Inr u)
        then obtain rs where "st w2 = (st w)\<lparr>ls_routes := rs\<rparr>" "distinct (map route_key rs)"
          "\<forall>h'. findRoute rs h' = (if equal_fold h' h then None else findRoute routes h')"
          using P w1 routes one by auto
        then show ?thesis using eqs P w Inr routes
          by (auto simp: uniq_def route_upd_def equal_fold_def)
      qed (use eqs P w1 in simp)
    qed
  qed
qed

text \<open>A call that either leaves the state alone, with an error, or has the effect f on the view.\<close>

definition view_effect :: "ServiceRecord \<Rightarrow> (view \<Rightarrow> view) \<Rightarrow> 'w \<Rightarrow> 'w \<Rightarrow> 'r result \<Rightarrow> bool" where
  "view_effect svc f w w' res \<longleftrightarrow> wf w' \<and> (case res of Inl _ \<Rightarrow> st w' = st w
    | Inr _ \<Rightarrow> uniq (st w') \<and> vsim (live_view svc (st w')) (f (live_view svc (st w))))"

lemma ensureRecord_effect:
  "wf w \<Longrightarrow> uniq (st w) \<Longrightarrow> ensureRecord d x w = (w', res, x') \<Longrightarrow>
   view_effect svc (set_record svc (rec_Name x) (rec_Type x) (Some x)) w w' res"
  using ensureRecord_live [of w x w' res x']
  by (auto simp: view_effect_def rec_key_def vsim_record split: sum.splits)

lemma removeRecord_effect:
  "wf w \<Longrightarrow> uniq (st w) \<Longrightarrow> removeRecord d n ty w = (w', res) \<Longrightarrow>
   view_effect svc (set_record svc n ty None) w w' res"
  using removeRecord_live [of w n ty w' res] by (auto simp: view_effect_def vsim_record split: sum.splits)

lemma ensureAccess_effect:
  "wf w \<Longrightarrow> uniq (st w) \<Longrightarrow> okapp x \<Longrightarrow> trim_space (app_Hostname x) = app_Hostname x \<Longrightarrow>
   (app_ID x \<noteq> [] \<longrightarrow> findApp (ls_apps (st w)) (app_Hostname x) \<noteq> None) \<Longrightarrow>
   ensureAccess a x w = (w', res) \<Longrightarrow> view_effect svc (set_app svc (app_Hostname x) (Some x)) w w' res"
  using ensureAccess_live [of w x w' res] by (auto simp: view_effect_def app_key_def vsim_app split: sum.splits)

lemma removeAccess_effect:
  "wf w \<Longrightarrow> uniq (st w) \<Longrightarrow> trim_space h = h \<Longrightarrow> removeAccess a h w = (w', res) \<Longrightarrow>
   view_effect svc (set_app svc h None) w w' res"
  using removeAccess_live [of w h w' res] by (auto simp: view_effect_def vsim_app split: sum.splits)

lemma ensureIngress_effect:
  "wf w \<Longrightarrow> uniq (st w) \<Longrightarrow> okrule x \<Longrightarrow> ensureIngress t x w = (w', res) \<Longrightarrow>
   view_effect svc (set_rule svc (rule_Hostname x) (Some x)) w w' res"
  using ensureIngress_live [of w x w' res]
  by (auto simp: view_effect_def vsim_rule uniq_def split: sum.splits)

lemma removeIngress_effect:
  "wf w \<Longrightarrow> uniq (st w) \<Longrightarrow> removeIngress t h w = (w', res) \<Longrightarrow>
   view_effect svc (set_rule svc h None) w w' res"
  using removeIngress_live [of w h w' res]
  by (auto simp: view_effect_def vsim_rule uniq_def split: sum.splits)

lemma ensureRoute_effect:
  "wf w \<Longrightarrow> uniq (st w) \<Longrightarrow> okroute x \<Longrightarrow> ensureRoute e x w = (w', res) \<Longrightarrow>
   view_effect svc (set_route svc (route_Hostname x) (Some x)) w w' res"
  using ensureRoute_live [of w x w' res] by (auto simp: view_effect_def vsim_route split: sum.splits)

lemma removeRoute_effect:
  "wf w \<Longrightarrow> uniq (st w) \<Longrightarrow> removeRoute e h w = (w', res) \<Longrightarrow>
   view_effect svc (set_route svc h None) w w' res"
  using removeRoute_live [of w h w' res] by (auto simp: view_effect_def vsim_route split: sum.splits)

lemmas effects = ensureRecord_effect removeRecord_effect ensureAccess_effect removeAccess_effect
  ensureIngress_effect removeIngress_effect ensureRoute_effect removeRoute_effect

lemma execStep_effect:
  assumes "wf w" "uniq (st w)" "payload_ok okrule okapp okroute x"
  shows "\<exists>w' res x'. execStep (all_clients d t a e) x w = Some (w', res, x') \<and>
    view_effect svc (step_view svc x) w w' res"
proof (cases "step_Kind x")
  case StepDNSEnsure
  then obtain r where r: "step_Record x = Some r" using assms(3) by (auto simp: payload_ok_def)
  obtain w' res r' where q: "ensureRecord d r w = (w', res, r')" by (metis prod_cases3)
  have "view_effect svc (step_view svc x) w w' res"
    using ensureRecord_effect [OF assms(1,2) q] StepDNSEnsure r by (simp add: step_view_def [abs_def])
  then show ?thesis using q r StepDNSEnsure by (simp add: execStep_def ensure_record_at_def)
next
  case StepDNSRemove
  then obtain r where r: "step_Record x = Some r" using assms(3) by (auto simp: payload_ok_def)
  obtain w' res where q: "removeRecord d (rec_Name r) (rec_Type r) w = (w', res)" by fastforce
  have "view_effect svc (step_view svc x) w w' res"
    using removeRecord_effect [OF assms(1,2) q] StepDNSRemove r by (simp add: step_view_def [abs_def])
  then show ?thesis using q r StepDNSRemove by (simp add: execStep_def remove_record_at_def)
next
  case StepAccessEnsure
  then obtain r where r: "step_App x = Some r" "okapp r" "trim_space (app_Hostname r) = app_Hostname r" "app_ID r = []"
    using assms(3) by (auto simp: payload_ok_def split: option.splits)
  obtain w' res where q: "ensureAccess a r w = (w', res)" by fastforce
  have "view_effect svc (step_view svc x) w w' res"
    using ensureAccess_effect [OF assms(1,2) r(2,3) _ q] StepAccessEnsure r by (simp add: step_view_def [abs_def])
  then show ?thesis using q r StepAccessEnsure by (simp add: execStep_def ensure_access_at_def)
next
  case StepAccessRemove
  then obtain r where r: "step_App x = Some r" "trim_space (app_Hostname r) = app_Hostname r"
    using assms(3) by (auto simp: payload_ok_def split: option.splits)
  obtain w' res where q: "removeAccess a (app_Hostname r) w = (w', res)" by fastforce
  have "view_effect svc (step_view svc x) w w' res"
    using removeAccess_effect [OF assms(1,2) r(2) q] StepAccessRemove r by (simp add: step_view_def [abs_def])
  then show ?thesis using q r StepAccessRemove by (simp add: execStep_def remove_access_at_def)
next
  case StepIngressEnsure
  then obtain r where r: "step_Rule x = Some r" "okrule r"
    using assms(3) by (auto simp: payload_ok_def split: option.splits)
  obtain w' res where q: "ensureIngress t r w = (w', res)" by fastforce
  have "view_effect svc (step_view svc x) w w' res"
    using ensureIngress_effect [OF assms(1,2) r(2) q] StepIngressEnsure r by (simp add: step_view_def [abs_def])
  then show ?thesis using q r StepIngressEnsure by (simp add: execStep_def ensure_ingress_at_def)
next
  case StepIngressRemove
  then obtain r where r: "step_Rule x = Some r" using assms(3) by (auto simp: payload_ok_def)
  obtain w' res where q: "removeIngress t (rule_Hostname r) w = (w', res)" by fastforce
  have "view_effect svc (step_view svc x) w w' res"
    using removeIngress_effect [OF assms(1,2) q] StepIngressRemove r by (simp add: step_view_def [abs_def])
  then show ?thesis using q r StepIngressRemove by (simp add: execStep_def remove_ingress_at_def)
next
  case StepEdgeEnsure
  then obtain r where r: "step_Route x = Some r" "okroute r"
    using assms(3) by (auto simp: payload_ok_def split: option.splits)
  obtain w' res where q: "ensureRoute e r w = (w', res)" by fastforce
  have "view_effect svc (step_view svc x) w w' res"
    using ensureRoute_effect [OF assms(1,2) r(2) q] StepEdgeEnsure r by (simp add: step_view_def [abs_def])
  then show ?thesis using q r StepEdgeEnsure by (simp add: execStep_def ensure_route_at_def)
next
  case StepEdgeRemove
  then obtain r where r: "step_Route x = Some r" using assms(3) by (auto simp: payload_ok_def)
  obtain w' res where q: "removeRoute e (route_Hostname r) w = (w', res)" by fastforce
  have "view_effect svc (step_view svc x) w w' res"
    using removeRoute_effect [OF assms(1,2) q] StepEdgeRemove r by (simp add: step_view_def [abs_def])
  then show ?thesis using q r StepEdgeRemove by (simp add: execStep_def remove_route_at_def)
qed (use assms(3) in \<open>simp add: payload_ok_def\<close>)

end

section \<open>Reading the live state\<close>

lemma live_view_obs_for:
  "view_of obs = live_view svc s \<Longrightarrow> obs_for svc obs"
  by (auto simp: view_of_def live_view_def obs_for_def findRecord_def findRule_def findRoute_def findApp_def
      option.pred_set dest: find_Some_in)

context exposure_clients
begin

lemma probe_live:
  assumes w: "wf w" and h: "trim_space (svc_Hostname svc) = svc_Hostname svc"
    and p: "probe (all_clients d t a e) now svc w = (w', obs, missing, err)"
  shows "wf w' \<and> st w' = st w \<and> missing = [] \<and>
    (err = None \<longrightarrow> view_of obs = live_view svc (st w) \<and> obs_ServiceID obs = svc_ID svc \<and> obs_Error obs = [])"
proof -
  obtain w1 r1 where 1: "ListRecords d w = (w1, r1)" by fastforce
  note L1 = list_records [OF w 1]
  obtain w2 r2 where 2: "ListIngress t w1 = (w2, r2)" by fastforce
  note L2 = list_ingress [OF conjunct1 [OF L1] 2]
  obtain w3 r3 where 3: "GetApplication a (svc_Hostname svc) w2 = (w3, r3)" by fastforce
  note L3 = get_app [OF conjunct1 [OF L2] h 3]
  obtain w4 r4 where 4: "ListRoutes e w3 = (w4, r4)" by fastforce
  note L4 = list_routes [OF conjunct1 [OF L3] 4]
  show ?thesis using p L1 L2 L3 L4
    by (cases r1; cases r2; cases r3; cases r4)
      (auto simp: probe_def probe_dns_def probe_tunnel_def probe_access_def probe_edge_def 1 2 3 4
        view_of_def live_view_def empty_obs_def split: if_splits)
qed

section \<open>A run of Apply\<close>

lemma exec_steps_refine:
  assumes "wf w" "uniq (st w)" "list_all (payload_ok okrule okapp okroute) xs"
  shows "\<exists>w' xs' rs f. exec_steps (all_clients d t a e) i xs w = Some (w', xs', rs, f) \<and> wf w' \<and> uniq (st w') \<and>
    (case f of None \<Rightarrow> vsim (live_view svc (st w')) (run_view svc xs (live_view svc (st w)))
     | Some (j, err) \<Rightarrow> i \<le> j \<and> j < i + length xs \<and>
         vsim (live_view svc (st w')) (run_view svc (take (j - i) xs) (live_view svc (st w))))"
  using assms
proof (induction xs arbitrary: i w)
  case (Cons x xs)
  obtain w1 res x' where x: "execStep (all_clients d t a e) x w = Some (w1, res, x')"
    and eff: "view_effect svc (step_view svc x) w w1 res"
    using execStep_effect [OF Cons.prems(1,2)] Cons.prems(3) by fastforce
  show ?case
  proof (cases res)
    case (Inl er)
    then show ?thesis using x eff Cons.prems(2) by (simp add: view_effect_def)
  next
    case (Inr s)
    then have w1: "wf w1" "uniq (st w1)" and v: "vsim (live_view svc (st w1)) (step_view svc x (live_view svc (st w)))"
      using eff by (auto simp: view_effect_def)
    obtain w2 xs' rs f where r: "exec_steps (all_clients d t a e) (Suc i) xs w1 = Some (w2, xs', rs, f)" "wf w2" "uniq (st w2)"
      and c: "case f of None \<Rightarrow> vsim (live_view svc (st w2)) (run_view svc xs (live_view svc (st w1)))
        | Some (j, err) \<Rightarrow> Suc i \<le> j \<and> j < Suc i + length xs \<and>
            vsim (live_view svc (st w2)) (run_view svc (take (j - Suc i) xs) (live_view svc (st w1)))"
      using Cons.IH [OF w1, of "Suc i"] Cons.prems(3) by fastforce
    show ?thesis
    proof (cases f)
      case None
      then show ?thesis using x Inr r c vsim_trans [OF _ run_view_vsim [OF v]] by simp
    next
      case (Some je)
      then obtain j er where f: "f = Some (j, er)" by (cases je) auto
      then have "take (j - i) (x # xs) = x # take (j - Suc i) xs" using c by (auto simp: take_Cons' Suc_diff_le)
      then show ?thesis using x Inr r c f vsim_trans [OF _ run_view_vsim [OF v]] by simp
    qed
  qed
qed simp

end

end
