(* ===== verification/ExposureRefine.thy ===== *)
theory ExposureRefine
  imports ExposureService ExposureClients
begin

text \<open>
  The operations of the controller over clients that satisfy the contract: what Plan_op records,
  and what Apply leaves behind when it succeeds and when a step fails.
\<close>

text \<open>A service whose desired resources the clients can store.\<close>

definition storable ::
  "(IngressRule \<Rightarrow> bool) \<Rightarrow> (AccessApp \<Rightarrow> bool) \<Rightarrow> (Route \<Rightarrow> bool) \<Rightarrow> Config \<Rightarrow> ServiceRecord \<Rightarrow> bool" where
  "storable okrule okapp okroute cfg svc \<longleftrightarrow>
     okrule \<lparr>rule_Hostname = svc_Hostname svc, rule_Origin = svc_TunnelOrigin svc\<rparr> \<and>
     okapp (accessAppFor cfg svc) \<and> okroute (des_route (desiredFor cfg svc)) \<and>
     trim_space (svc_Hostname svc) = svc_Hostname svc"

lemma trim_space_fold: "equal_fold x y \<Longrightarrow> trim_space y = y \<Longrightarrow> trim_space x = x"
proof -
  have sp: "is_space (lower_char c) = is_space c" for c
    by (auto simp: is_space_def Let_def of_lower_char is_upper_def)
  have dl: "dropWhile is_space (map lower_char s) = map lower_char (dropWhile is_space s)" for s
    by (induction s) (auto simp: sp)
  have tl: "to_lower (trim_space s) = trim_space (to_lower s)" for s
    by (simp add: trim_space_def trim_func_def trim_left_def trim_right_def to_lower_def dl rev_map)
  assume e: "equal_fold x y" and y: "trim_space y = y"
  have "length (trim_space x) = length (to_lower (trim_space x))" by simp
  also have "\<dots> = length (to_lower (trim_space y))" using e by (simp only: tl equal_fold_def)
  also have "\<dots> = length x" using y equal_fold_length [OF e] by simp
  finally have len: "length (trim_space x) = length x" .
  have "length (dropWhile is_space x) = length x"
    using len length_dropWhile_le [of is_space x] length_dropWhile_le [of is_space "rev (dropWhile is_space x)"]
    by (simp add: trim_space_def trim_func_def trim_left_def trim_right_def)
  then have d: "dropWhile is_space x = x"
    by (metis add_cancel_left_left append_Nil length_0_conv length_append takeWhile_dropWhile_id)
  then have "length (dropWhile is_space (rev x)) = length (rev x)"
    using len by (simp add: trim_space_def trim_func_def trim_left_def trim_right_def)
  then have "dropWhile is_space (rev x) = rev x"
    by (metis add_cancel_left_left append_Nil length_0_conv length_append takeWhile_dropWhile_id)
  then show "trim_space x = x" using d by (simp add: trim_space_def trim_func_def trim_left_def trim_right_def)
qed

lemma exposureSteps_payload:
  assumes "storable okrule okapp okroute cfg svc" "obs_for svc obs"
  shows "list_all (payload_ok okrule okapp okroute) (exposureSteps cfg svc obs (desiredFor cfg svc))"
proof -
  have "trim_space (app_Hostname ap) = app_Hostname ap" if "obs_AccessApp obs = Some ap" for ap
    using assms that by (auto simp: obs_for_def storable_def intro: trim_space_fold)
  then show ?thesis using assms
    by (auto simp: exposureSteps_def block_defs payload_ok_def storable_def accessAppFor_def split: option.splits)
qed

lemma requireClients_all [simp]: "requireClients (all_clients d t a e) steps = None"
  by (auto simp: requireClients_None has_scope_def stepScope_def split: StepKind.splits)

lemma getPlan_putObservation [simp]: "getPlan (putObservation db obs pid) i = getPlan db i"
  by (simp add: getPlan_def)

lemma getService_frames [simp]:
  "getService (putObservation db obs pid) i = getService db i" "getService (updatePlan db p) i = getService db i"
  by (simp_all add: getService_def)

lemma getService_insertPlan: "insertPlan db p = Inr db' \<Longrightarrow> getService db' i = getService db i"
  by (auto simp: insertPlan_def getService_def split: if_splits)

lemma settled_vsim: "vsim v v' \<Longrightarrow> settled_view cfg svc v' \<Longrightarrow> settled_view cfg svc v"
  by (auto simp: settled_view_def vsim_def rec_sim_match app_sim_def dest: accessAppsEqual_trans split: if_splits)

context exposure_clients
begin

abbreviation "cl \<equiv> all_clients d t a e"

text \<open>What a successful Plan_op has stored.\<close>

lemma Plan_op_plan:
  assumes "wf w" and svc: "getService db sid = Inr svc" and h: "trim_space (svc_Hostname svc) = svc_Hostname svc"
    and p: "Plan_op cfg cl db fresh now sid w = (w1, db1, Inr plan)"
  shows "\<exists>obs. wf w1 \<and> st w1 = st w \<and> view_of obs = live_view svc (st w) \<and>
    plan_Steps plan = exposureSteps cfg svc obs (desiredFor cfg svc) \<and> plan_ID plan = fresh \<and>
    plan_Kind plan = PlanKindExposure \<and> plan_ServiceID plan = svc_ID svc \<and>
    plan_RequiresAck plan = snd (planWarnings cfg svc) \<and> plan_Status plan = PlanPending \<and>
    getPlan db1 fresh = Inr plan \<and> getService db1 sid = Inr svc"
proof -
  obtain w2 obs0 missing er where pr: "probe cl now svc w = (w2, obs0, missing, er)" by (metis prod_cases4)
  note P = probe_live [OF assms(1) h pr]
  have er: "er = None" using p svc pr by (auto simp: Plan_op_def buildPlan_def split: option.splits)
  let ?obs = "obs0\<lparr>obs_Drift := computeDrift cfg svc obs0 missing,
      obs_Reconciled := (length (computeDrift cfg svc obs0 missing) = 0)\<rparr>"
  have v: "view_of ?obs = live_view svc (st w)" using P er by (simp add: view_of_def)
  show ?thesis using p svc pr er P v
    by (auto simp: Plan_op_def buildPlan_def Let_def getPlan_insertPlan getService_insertPlan
        split: option.splits sum.splits if_splits intro!: exI [of _ ?obs])
qed

lemma Apply_success:
  assumes w: "wf w" "uniq (st w)" and s: "storable okrule okapp okroute cfg svc"
    and plan: "getPlan db pid = Inr plan" "plan_Kind plan = PlanKindExposure"
    and svc: "getService db (plan_ServiceID plan) = Inr svc"
    and obs: "view_of obs = live_view svc (st w)" "plan_Steps plan = exposureSteps cfg svc obs (desiredFor cfg svc)"
    and ap: "Apply cfg cl db now pid w = Some (w', db', p, None)"
  shows "wf w' \<and> uniq (st w') \<and> settled_view cfg svc (live_view svc (st w')) \<and>
    (\<exists>ob. getObservation db' (svc_ID svc) = Some ob \<and> (obs_Error ob = [] \<longrightarrow> obs_Reconciled ob))"
proof -
  have of: "obs_for svc obs" using obs(1) by (rule live_view_obs_for)
  obtain w1 xs rs f where ex: "exec_steps cl 0 (plan_Steps plan) w = Some (w1, xs, rs, f)" and w1: "wf w1" "uniq (st w1)"
    and c: "case f of None \<Rightarrow> vsim (live_view svc (st w1)) (run_view svc (plan_Steps plan) (live_view svc (st w)))
      | Some (j, err) \<Rightarrow> 0 \<le> j \<and> j < 0 + length (plan_Steps plan) \<and>
         vsim (live_view svc (st w1)) (run_view svc (take (j - 0) (plan_Steps plan)) (live_view svc (st w)))"
    using exec_steps_refine [OF w exposureSteps_payload [OF s of], of 0 svc] unfolding obs(2) [symmetric] by blast
  have apg: "apply_guard cl db pid = Inr (plan, svc)"
    using ap plan svc by (auto simp: Apply_def apply_guard_def split: if_splits)
  have f: "f = None"
    using ap ex apg by (auto simp: Apply_def Let_def split: option.splits prod.splits)
  let ?plan = "plan\<lparr>plan_Steps := xs, plan_AppliedAt := Some now, plan_Results := rs, plan_Status := PlanApplied\<rparr>"
  have rec: "recordObservation cfg cl (updatePlan db ?plan) now svc ?plan w1 = (w', db')"
    using ap ex apg f plan(2) by (auto simp: Apply_def Let_def split: prod.splits)
  have sv: "settled_view cfg svc (live_view svc (st w1))"
    using settled_vsim c f exposureSteps_settles [OF of, of cfg] obs by simp
  obtain w2 ob missing er where pr: "probe cl now svc w1 = (w2, ob, missing, er)" by (metis prod_cases4)
  have h: "trim_space (svc_Hostname svc) = svc_Hostname svc" using s by (simp add: storable_def)
  note P = probe_live [OF w1(1) h pr]
  have w': "w' = w2" using rec pr by (auto simp: recordObservation_def Let_def split: option.splits)
  show ?thesis
  proof (cases er)
    case None
    then have "computeDrift cfg svc ob missing = []"
      using P sv by (simp add: computeDrift_Nil settled_view_of)
    then show ?thesis using rec pr None P w1 sv w'
      by (auto simp: recordObservation_def Let_def getObservation_putObservation)
  next
    case (Some x)
    then have "x = errorf (err_msg x) \<and> err_msg x \<noteq> []"
      using pr by (auto simp: probe_def Let_def errorf_def split: prod.splits if_splits)
    then show ?thesis using rec pr Some P w1 sv w'
      by (auto simp: recordObservation_def Let_def getObservation_putObservation empty_obs_def)
  qed
qed

lemma exec_prefix_reach:
  assumes w: "wf w" "uniq (st w)" and s: "storable okrule okapp okroute cfg svc"
    and obs: "view_of obs = live_view svc (st w)" and v: "Exposure_Valid (svc_Exposure svc)"
    and ex: "exec_steps cl i (take k (exposureSteps cfg svc obs (desiredFor cfg svc))) w = Some (w', xs, rs, f)"
    and pub: "reach cfg (live_view svc (st w')) = ExposurePublic"
  shows "svc_Exposure svc = ExposurePublic \<or> reach cfg (live_view svc (st w)) = ExposurePublic"
proof -
  let ?steps = "exposureSteps cfg svc obs (desiredFor cfg svc)"
  have of: "obs_for svc obs" using obs by (rule live_view_obs_for)
  have pay: "list_all (payload_ok okrule okapp okroute) (take k ?steps)"
    using exposureSteps_payload [OF s of] by (auto simp: list_all_iff dest: in_set_takeD)
  obtain m where "vsim (live_view svc (st w')) (run_view svc (take m ?steps) (live_view svc (st w)))"
    using exec_steps_refine [OF w pay, of i svc] ex
    by (auto split: option.splits simp: take_take)
  then show ?thesis using plan_prefix_reach [OF of, of cfg m] pub v obs reach_vsim by metis
qed

end

end
