(* ===== verification/Cloudflare.thy ===== *)
theory Cloudflare
  imports ExposurePlan
begin

text \<open>
  internal/cloudflare (dns.go, tunnel.go, access.go, edge.go, errors.go, clients.go) and
  internal/edge/config.go: the adapters behind the controller's client interfaces.  The Cloudflare
  REST service, the Caddy admin endpoint and the file that keeps the last Caddy configuration are
  a record of functions over the world; a request is its method (the function), its path and its
  typed body, and a JSON body is the value it decodes to.  Bodies are decoded by the library, so
  the envelope is the decoded result.
\<close>

section \<open>JSON values\<close>

datatype json = JNull | JBool bool | JNum int | JStr string | JArr "json list" | JObj "(string \<times> json) list"

text \<open>A type assertion to a map, a list or a string, and a map lookup.\<close>

definition as_obj :: "json \<Rightarrow> (string \<times> json) list option" where
  "as_obj j = (case j of JObj m \<Rightarrow> Some m | _ \<Rightarrow> None)"

definition as_arr :: "json \<Rightarrow> json list option" where
  "as_arr j = (case j of JArr xs \<Rightarrow> Some xs | _ \<Rightarrow> None)"

definition as_str :: "json \<Rightarrow> string option" where
  "as_str j = (case j of JStr s \<Rightarrow> Some s | _ \<Rightarrow> None)"

definition obj_at :: "string \<Rightarrow> json \<Rightarrow> json option" where
  "obj_at k j = Option.bind (as_obj j) (\<lambda>m. map_of m k)"

section \<open>Errors\<close>

datatype api_error = APIStatus nat string | Transport string

definition mapAPIError :: "api_error \<Rightarrow> goerror" where
  "mapAPIError er = (case er of
      APIStatus n m \<Rightarrow>
        if n = 401 then wrapf ErrUnauthorized m
        else if n = 403 then wrapf ErrForbidden m
        else if n = 404 then wrapf ErrNotFound m
        else if n = 429 then wrapf ErrRateLimited m
        else if n = 400 \<or> n = 422 then wrapf ErrValidation m
        else if n = 409 then wrapf ErrConflict m
        else errorf m
    | Transport m \<Rightarrow> errorf m)"

definition http_status_text :: "nat \<Rightarrow> string" where
  "http_status_text n = (if n = 400 then ''Bad Request'' else if n = 401 then ''Unauthorized''
     else if n = 403 then ''Forbidden'' else if n = 404 then ''Not Found'' else if n = 409 then ''Conflict''
     else if n = 422 then ''Unprocessable Entity'' else if n = 429 then ''Too Many Requests''
     else if n = 500 then ''Internal Server Error'' else if n = 502 then ''Bad Gateway''
     else if n = 503 then ''Service Unavailable'' else [])"

definition mapHTTPStatus :: "nat \<Rightarrow> string \<Rightarrow> goerror" where
  "mapHTTPStatus status body =
     (let msg = itoa (int status) @ '' '' @ (if body = [] then http_status_text status else body) in
      if status = 401 then wrapf ErrUnauthorized msg
      else if status = 403 then wrapf ErrForbidden msg
      else if status = 404 then wrapf ErrNotFound msg
      else if status = 429 then wrapf ErrRateLimited msg
      else if status = 400 \<or> status = 422 then wrapf ErrValidation msg
      else if status = 409 then wrapf ErrConflict msg
      else errorf (''cloudflare: '' @ msg))"

section \<open>The services behind the adapters\<close>

record wireIngress =
  wi_Hostname :: string
  wi_Service :: string
  wi_Path :: string

record accessPolicyWire =
  wp_Name :: string
  wp_Include :: "(string \<times> json) list list"

record accessAppWire =
  wa_ID :: string
  wa_Name :: string
  wa_Domain :: string
  wa_Policies :: "accessPolicyWire list"

text \<open>An HTTP reply of the Caddy admin endpoint: its status, its text, and the JSON value the text
  decodes to, if it does.  The configuration file likewise.\<close>

datatype http_reply = NoReply string | Reply nat string "json option"

datatype config_file = NoFile | FileError string | FileBlank | FileJSON "json option"

record 'w remote =
  rest_dns_list :: "string \<Rightarrow> 'w \<Rightarrow> 'w \<times> (api_error + Record list)"
  rest_dns_post :: "string \<Rightarrow> Record \<Rightarrow> 'w \<Rightarrow> 'w \<times> (api_error + string)"
  rest_dns_put :: "string \<Rightarrow> Record \<Rightarrow> 'w \<Rightarrow> 'w \<times> (api_error + unit)"
  rest_dns_delete :: "string \<Rightarrow> 'w \<Rightarrow> 'w \<times> (api_error + unit)"
  rest_tunnel_get :: "string \<Rightarrow> 'w \<Rightarrow> 'w \<times> (api_error + wireIngress list)"
  rest_tunnel_put :: "string \<Rightarrow> wireIngress list \<Rightarrow> 'w \<Rightarrow> 'w \<times> (api_error + unit)"
  rest_access_list :: "string \<Rightarrow> 'w \<Rightarrow> 'w \<times> (api_error + accessAppWire list)"
  rest_access_post :: "string \<Rightarrow> accessAppWire \<Rightarrow> 'w \<Rightarrow> 'w \<times> (api_error + string)"
  rest_access_put :: "string \<Rightarrow> accessAppWire \<Rightarrow> 'w \<Rightarrow> 'w \<times> (api_error + string)"
  rest_access_delete :: "string \<Rightarrow> 'w \<Rightarrow> 'w \<times> (api_error + unit)"
  caddy_get_config :: "'w \<Rightarrow> 'w \<times> http_reply"
  caddy_post_load :: "json \<Rightarrow> 'w \<Rightarrow> 'w \<times> http_reply"
  config_read :: "'w \<Rightarrow> 'w \<times> config_file"
  config_write :: "json \<Rightarrow> 'w \<Rightarrow> 'w \<times> goerror option"
  sprint :: "json \<Rightarrow> string"

section \<open>dns.go\<close>

text \<open>The body of a record request has no id.\<close>

definition dns_path :: "string \<Rightarrow> string" where
  "dns_path zone = ''zones/'' @ zone @ ''/dns_records''"

definition dns_ListRecords :: "'w remote \<Rightarrow> string \<Rightarrow> 'w \<Rightarrow> 'w \<times> Record list result" where
  "dns_ListRecords rm zone w = (case rest_dns_list rm (dns_path zone) w of
      (w', Inl er) \<Rightarrow> (w', Inl (mapAPIError er))
    | (w', Inr rs) \<Rightarrow> (w', Inr rs))"

definition dns_CreateRecord :: "'w remote \<Rightarrow> string \<Rightarrow> Record \<Rightarrow> 'w \<Rightarrow> 'w \<times> string result" where
  "dns_CreateRecord rm zone r w =
     (if rec_Name r = [] \<or> rec_Type r = [] \<or> rec_Content r = []
        then (w, Inl (wrapf ErrValidation ''name, type and content are required''))
      else if rec_Type r \<noteq> ''A'' \<and> rec_Type r \<noteq> ''CNAME''
        then (w, Inl (wrapf ErrValidation (''unsupported record type '' @ quote (rec_Type r))))
      else (case rest_dns_post rm (dns_path zone) (r\<lparr>rec_ID := []\<rparr>) w of
          (w', Inl er) \<Rightarrow> (w', Inl (mapAPIError er))
        | (w', Inr i) \<Rightarrow> if i = [] then (w', Inl (errorf ''cloudflare: create record returned empty id''))
                        else (w', Inr i)))"

definition dns_ReplaceRecord :: "'w remote \<Rightarrow> string \<Rightarrow> string \<Rightarrow> Record \<Rightarrow> 'w \<Rightarrow> 'w \<times> unit result" where
  "dns_ReplaceRecord rm zone i r w =
     (if i = [] then (w, Inl (wrapf ErrValidation ''record id is required''))
      else if rec_Name r = [] \<or> rec_Type r = [] \<or> rec_Content r = []
        then (w, Inl (wrapf ErrValidation ''name, type and content are required''))
      else (case rest_dns_put rm (dns_path zone @ ''/'' @ i) (r\<lparr>rec_ID := []\<rparr>) w of
          (w', Inl er) \<Rightarrow> (w', Inl (mapAPIError er))
        | (w', Inr _) \<Rightarrow> (w', Inr ())))"

definition dns_DeleteRecord :: "'w remote \<Rightarrow> string \<Rightarrow> string \<Rightarrow> 'w \<Rightarrow> 'w \<times> unit result" where
  "dns_DeleteRecord rm zone i w =
     (if i = [] then (w, Inl (wrapf ErrValidation ''record id is required''))
      else (case rest_dns_delete rm (dns_path zone @ ''/'' @ i) w of
          (w', Inl er) \<Rightarrow> (if errors_is (mapAPIError er) ErrNotFound then (w', Inr ()) else (w', Inl (mapAPIError er)))
        | (w', Inr _) \<Rightarrow> (w', Inr ())))"

section \<open>tunnel.go\<close>

definition tunnel_path :: "string \<Rightarrow> string \<Rightarrow> string" where
  "tunnel_path account tunnel = ''accounts/'' @ account @ ''/cfd_tunnel/'' @ tunnel @ ''/configurations''"

definition wire_to_rules :: "wireIngress list \<Rightarrow> IngressRule list" where
  "wire_to_rules ws = map (\<lambda>i. \<lparr>rule_Hostname = wi_Hostname i, rule_Origin = wi_Service i\<rparr>)
     (filter (\<lambda>i. \<not> wi_Hostname i = [] \<and> \<not> wi_Service i = ''http_status:404'') ws)"

definition rules_to_wire :: "IngressRule list \<Rightarrow> wireIngress list" where
  "rules_to_wire rs = map (\<lambda>r. \<lparr>wi_Hostname = rule_Hostname r, wi_Service = rule_Origin r, wi_Path = []\<rparr>)
       (filter (\<lambda>r. \<not> (rule_Hostname r = [] \<or> rule_Origin r = [])) rs) @
     [\<lparr>wi_Hostname = [], wi_Service = ''http_status:404'', wi_Path = []\<rparr>]"

definition tunnel_ListIngress :: "'w remote \<Rightarrow> string \<Rightarrow> string \<Rightarrow> 'w \<Rightarrow> 'w \<times> IngressRule list result" where
  "tunnel_ListIngress rm account tunnel w = (case rest_tunnel_get rm (tunnel_path account tunnel) w of
      (w', Inl er) \<Rightarrow> (w', Inl (mapAPIError er))
    | (w', Inr ws) \<Rightarrow> (w', Inr (wire_to_rules ws)))"

definition tunnel_SetIngress ::
  "'w remote \<Rightarrow> string \<Rightarrow> string \<Rightarrow> IngressRule list \<Rightarrow> 'w \<Rightarrow> 'w \<times> unit result" where
  "tunnel_SetIngress rm account tunnel rules w =
     (case rest_tunnel_put rm (tunnel_path account tunnel) (rules_to_wire rules) w of
        (w', Inl er) \<Rightarrow> (w', Inl (mapAPIError er))
      | (w', Inr _) \<Rightarrow> (w', Inr ()))"

section \<open>access.go\<close>

definition nonempty_str :: "json option \<Rightarrow> string option" where
  "nonempty_str j = (case Option.bind j as_str of None \<Rightarrow> None | Some s \<Rightarrow> if s = [] then None else Some s)"

text \<open>One include entry, a JSON object, as a selector string.\<close>

definition include_to_selector :: "(json \<Rightarrow> string) \<Rightarrow> (string \<times> json) list \<Rightarrow> string" where
  "include_to_selector pr inc =
     (let grp = map_of inc ''group'';
          name = Option.bind grp (\<lambda>g. nonempty_str (obj_at ''name'' g));
          gid = Option.bind grp (\<lambda>g. nonempty_str (obj_at ''id'' g));
          email = Option.bind (map_of inc ''email'') (\<lambda>m. nonempty_str (obj_at ''email'' m)) in
      case name of Some n \<Rightarrow> ''group:'' @ n
      | None \<Rightarrow> (case gid of Some n \<Rightarrow> ''group:'' @ n
        | None \<Rightarrow> (case email of Some m \<Rightarrow> m
          | None \<Rightarrow> (case grp of Some g \<Rightarrow> pr g | None \<Rightarrow> pr (JObj inc)))))"

definition wireToDomain :: "(json \<Rightarrow> string) \<Rightarrow> accessAppWire \<Rightarrow> AccessApp" where
  "wireToDomain pr x = \<lparr>app_ID = wa_ID x, app_Name = wa_Name x, app_Hostname = wa_Domain x,
     app_Policies = map (\<lambda>p. \<lparr>pol_Name = wp_Name p, pol_Include = map (include_to_selector pr) (wp_Include p)\<rparr>)
       (wa_Policies x)\<rparr>"

definition selector_to_include :: "string \<Rightarrow> (string \<times> json) list" where
  "selector_to_include sel =
     (if has_prefix sel ''group:'' then [(''group'', JObj [(''name'', JStr (trim_prefix sel ''group:''))])]
      else if contains_str sel ''@'' then [(''email'', JObj [(''email'', JStr sel)])]
      else [(''group'', JObj [(''name'', JStr sel)])])"

definition domainToWire :: "AccessApp \<Rightarrow> accessAppWire" where
  "domainToWire x = \<lparr>wa_ID = app_ID x, wa_Name = app_Name x, wa_Domain = app_Hostname x,
     wa_Policies = map (\<lambda>p. \<lparr>wp_Name = pol_Name p, wp_Include = map selector_to_include (pol_Include p)\<rparr>)
       (app_Policies x)\<rparr>"

definition access_path :: "string \<Rightarrow> string" where
  "access_path account = ''accounts/'' @ account @ ''/access/apps''"

definition access_GetApplication :: "'w remote \<Rightarrow> string \<Rightarrow> string \<Rightarrow> 'w \<Rightarrow> 'w \<times> AccessApp result" where
  "access_GetApplication rm account hostname0 w =
     (let hostname = to_lower (trim_space hostname0) in
      if hostname = [] then (w, Inl (wrapf ErrValidation ''hostname is required''))
      else (case rest_access_list rm (access_path account) w of
          (w', Inl er) \<Rightarrow> (w', Inl (mapAPIError er))
        | (w', Inr ws) \<Rightarrow>
            (case List.find (\<lambda>x. equal_fold (wa_Domain x) hostname) ws of
               Some x \<Rightarrow> (w', Inr (wireToDomain (sprint rm) x))
             | None \<Rightarrow> (w', Inl (wrapf ErrNotFound (''access application for '' @ quote hostname @ '' not found''))))))"

text \<open>The body of an application request has no id either.\<close>

definition access_PutApplication :: "'w remote \<Rightarrow> string \<Rightarrow> AccessApp \<Rightarrow> 'w \<Rightarrow> 'w \<times> string result" where
  "access_PutApplication rm account app w =
     (if app_Hostname app = [] \<or> app_Name app = []
        then (w, Inl (wrapf ErrValidation ''hostname and name are required''))
      else
        let wire = (domainToWire app)\<lparr>wa_ID := []\<rparr> in
        if app_ID app = [] then
          (case rest_access_post rm (access_path account) wire w of
             (w', Inl er) \<Rightarrow> (w', Inl (mapAPIError er))
           | (w', Inr i) \<Rightarrow> if i = [] then (w', Inl (errorf ''cloudflare: put application returned empty id''))
                           else (w', Inr i))
        else
          (case rest_access_put rm (access_path account @ ''/'' @ app_ID app) wire w of
             (w', Inl er) \<Rightarrow> (w', Inl (mapAPIError er))
           | (w', Inr i) \<Rightarrow> if i \<noteq> [] then (w', Inr i) else (w', Inr (app_ID app))))"

definition access_DeleteApplication :: "'w remote \<Rightarrow> string \<Rightarrow> string \<Rightarrow> 'w \<Rightarrow> 'w \<times> unit result" where
  "access_DeleteApplication rm account i w =
     (if i = [] then (w, Inl (wrapf ErrValidation ''application id is required''))
      else (case rest_access_delete rm (access_path account @ ''/'' @ i) w of
          (w', Inl er) \<Rightarrow> (if errors_is (mapAPIError er) ErrNotFound then (w', Inr ()) else (w', Inl (mapAPIError er)))
        | (w', Inr _) \<Rightarrow> (w', Inr ())))"

section \<open>edge/config.go: RenderConfig\<close>

definition render_dial :: "string \<Rightarrow> string" where
  "render_dial upstream =
     trim_suffix (if has_prefix upstream ''http://'' then trim_prefix upstream ''http://''
       else if has_prefix upstream ''https://'' then trim_prefix upstream ''https://'' else upstream) ''/''"

definition render_route :: "Route \<Rightarrow> json list" where
  "render_route r =
     (let hostname = trim_space (route_Hostname r); upstream = trim_space (route_Upstream r) in
      if hostname = [] \<or> upstream = [] then []
      else
        let dial = render_dial upstream;
            handler = [(''handler'', JStr ''reverse_proxy''), (''upstreams'', JArr [JObj [(''dial'', JStr dial)]])] @
              (if dial = ''127.0.0.1:8384''
               then [(''headers'', JObj [(''request'', JObj [(''set'', JObj [(''Host'', JArr [JStr dial])])])])] else []) in
        [JObj [(''@id'', JStr (''omahab-'' @ hostname)),
               (''match'', JArr [JObj [(''host'', JArr [JStr hostname])]]),
               (''handle'', JArr [JObj handler])]])"

definition RenderConfig :: "Route list \<Rightarrow> json" where
  "RenderConfig routes =
     JObj [(''apps'', JObj
       [(''http'', JObj [(''servers'', JObj [(''main'', JObj
           [(''listen'', JArr [JStr '':443'', JStr '':80'']), (''routes'', JArr (concat (map render_route routes)))])])]),
        (''tls'', JObj [(''automation'', JObj [(''policies'', JArr [JObj [(''issuers'', JArr [JObj
           [(''module'', JStr ''acme''), (''challenges'', JObj [(''dns'', JObj [(''provider'', JObj
             [(''name'', JStr ''cloudflare''), (''api_token'', JStr ''{env.CF_API_TOKEN}'')])])])]])]])])])])]"

section \<open>edge.go\<close>

definition first_of :: "json \<Rightarrow> json option" where
  "first_of j = (case as_arr j of Some (x # _) \<Rightarrow> Some x | _ \<Rightarrow> None)"

definition or_empty :: "string option \<Rightarrow> string" where
  "or_empty x = (case x of None \<Rightarrow> [] | Some s \<Rightarrow> s)"

definition extractHost :: "json \<Rightarrow> string" where
  "extractHost m = or_empty (Option.bind (obj_at ''match'' m) (\<lambda>ms. Option.bind (first_of ms) (\<lambda>f.
     Option.bind (obj_at ''host'' f) (\<lambda>hs. Option.bind (first_of hs) as_str))))"

definition extractUpstream :: "json \<Rightarrow> string" where
  "extractUpstream m = or_empty (Option.bind (obj_at ''handle'' m) (\<lambda>hs. Option.bind (first_of hs) (\<lambda>h.
     Option.bind (obj_at ''upstreams'' h) (\<lambda>us. Option.bind (first_of us) (\<lambda>u.
       Option.bind (obj_at ''dial'' u) as_str)))))"

definition with_scheme :: "string \<Rightarrow> string" where
  "with_scheme u = (if \<not> has_prefix u ''http://'' \<and> \<not> has_prefix u ''https://'' then ''http://'' @ u else u)"

text \<open>The body of the loop over the configured routes.\<close>

definition parse_route :: "json \<Rightarrow> Route list" where
  "parse_route r = (case as_obj r of
      None \<Rightarrow> []
    | Some rm \<Rightarrow>
        (let rid = or_empty (Option.bind (map_of rm ''@id'') as_str) in
         if \<not> has_prefix rid ''omahab-'' then []
         else
           let hostname = (if extractHost r \<noteq> [] then extractHost r else trim_prefix rid ''omahab-'');
               upstream = extractUpstream r in
           if hostname = [] \<or> upstream = [] then []
           else [\<lparr>route_Hostname = hostname, route_Upstream = with_scheme upstream\<rparr>]))"

definition config_routes :: "json \<Rightarrow> Route list" where
  "config_routes raw =
     (case Option.bind (obj_at ''apps'' raw) (\<lambda>x. Option.bind (obj_at ''http'' x) (\<lambda>x.
        Option.bind (obj_at ''servers'' x) (\<lambda>x. Option.bind (obj_at ''main'' x) (\<lambda>x.
          Option.bind (obj_at ''routes'' x) as_arr)))) of
        None \<Rightarrow> [] | Some rs \<Rightarrow> concat (map parse_route rs))"

definition edge_do_get :: "'w remote \<Rightarrow> 'w \<Rightarrow> 'w \<times> json result" where
  "edge_do_get rm w = (case caddy_get_config rm w of
      (w', NoReply m) \<Rightarrow> (w', Inl (wrapf ErrCaddyUnavailable m))
    | (w', Reply status body dec) \<Rightarrow>
        if status < 200 \<or> status \<ge> 300 then (w', Inl (mapHTTPStatus status body))
        else if body = [] then (w', Inr (JObj []))
        else (case dec of
            Some (JObj m) \<Rightarrow> (w', Inr (JObj m))
          | Some JNull \<Rightarrow> (w', Inr (JObj []))
          | _ \<Rightarrow> (w', Inl (errorf ''edge: decode response'')))) "

definition routesFromFile :: "'w remote \<Rightarrow> 'w \<Rightarrow> 'w \<times> Route list result" where
  "routesFromFile rm w = (case config_read rm w of
      (w', NoFile) \<Rightarrow> (w', Inr [])
    | (w', FileError m) \<Rightarrow> (w', Inl (errorf m))
    | (w', FileBlank) \<Rightarrow> (w', Inr [])
    | (w', FileJSON dec) \<Rightarrow> (case dec of
          Some (JObj m) \<Rightarrow> (w', Inr (config_routes (JObj m)))
        | Some JNull \<Rightarrow> (w', Inr [])
        | _ \<Rightarrow> (w', Inl (errorf ''edge: decode configuration file''))))"

definition edge_ListRoutes :: "'w remote \<Rightarrow> 'w \<Rightarrow> 'w \<times> Route list result" where
  "edge_ListRoutes rm w = (case edge_do_get rm w of
      (w', Inl er) \<Rightarrow>
        if errors_is er ErrCaddyUnavailable then routesFromFile rm w'
        else if errors_is er ErrNotFound \<or> contains_str (err_msg er) ''404'' then (w', Inr [])
        else (w', Inl er)
    | (w', Inr raw) \<Rightarrow> (w', Inr (config_routes raw)))"

text \<open>applyRoutes: a transport error of the reload is not an error, the file has been written.\<close>

definition edge_applyRoutes :: "'w remote \<Rightarrow> Route list \<Rightarrow> 'w \<Rightarrow> 'w \<times> unit result" where
  "edge_applyRoutes rm routes w =
     (let cfg = RenderConfig routes in
      case config_write rm cfg w of
        (w1, Some er) \<Rightarrow> (w1, Inl er)
      | (w1, None) \<Rightarrow> (case caddy_post_load rm cfg w1 of
            (w2, NoReply m) \<Rightarrow> (w2, Inr ())
          | (w2, Reply status body _) \<Rightarrow>
              if status < 200 \<or> status \<ge> 300 then (w2, Inl (mapHTTPStatus status body)) else (w2, Inr ())))"

fun upsert_route :: "Route \<Rightarrow> Route list \<Rightarrow> Route list" where
  "upsert_route r [] = [r]"
| "upsert_route r (x # xs) = (if equal_fold (route_Hostname x) (route_Hostname r) then r # xs else x # upsert_route r xs)"

definition edge_PutRoute :: "'w remote \<Rightarrow> Route \<Rightarrow> 'w \<Rightarrow> 'w \<times> unit result" where
  "edge_PutRoute rm r w =
     (if trim_space (route_Hostname r) = [] \<or> trim_space (route_Upstream r) = []
        then (w, Inl (wrapf ErrValidation ''hostname and upstream are required''))
      else (case edge_ListRoutes rm w of
          (w1, Inl er) \<Rightarrow> if errors_is er ErrCaddyUnavailable then (w1, Inl er)
                           else edge_applyRoutes rm (upsert_route r []) w1
        | (w1, Inr routes) \<Rightarrow> edge_applyRoutes rm (upsert_route r routes) w1))"

definition edge_DeleteRoute :: "'w remote \<Rightarrow> string \<Rightarrow> 'w \<Rightarrow> 'w \<times> unit result" where
  "edge_DeleteRoute rm hostname w =
     (if trim_space hostname = [] then (w, Inl (wrapf ErrValidation ''hostname is required''))
      else (case edge_ListRoutes rm w of
          (w1, Inl er) \<Rightarrow> if errors_is er ErrCaddyUnavailable then (w1, Inl er)
                           else if contains_str (err_msg er) ''404'' then (w1, Inr ()) else (w1, Inl er)
        | (w1, Inr routes) \<Rightarrow>
            (let filtered = filter (\<lambda>x. \<not> equal_fold (route_Hostname x) hostname) routes in
             if length filtered = length routes \<and> \<not> list_ex (\<lambda>x. equal_fold (route_Hostname x) hostname) routes
             then (w1, Inr ()) else edge_applyRoutes rm filtered w1)))"

section \<open>clients.go\<close>

record Options =
  opt_APITokenDNS :: string
  opt_APITokenTunnel :: string
  opt_APITokenAccess :: string
  opt_ZoneID :: string
  opt_AccountID :: string
  opt_TunnelID :: string
  opt_CaddyAddr :: string

definition dns_client :: "'w remote \<Rightarrow> string \<Rightarrow> 'w DNSClient" where
  "dns_client rm zone = \<lparr>ListRecords = dns_ListRecords rm zone, CreateRecord = dns_CreateRecord rm zone,
     ReplaceRecord = dns_ReplaceRecord rm zone, DeleteRecord = dns_DeleteRecord rm zone\<rparr>"

definition tunnel_client :: "'w remote \<Rightarrow> string \<Rightarrow> string \<Rightarrow> 'w TunnelClient" where
  "tunnel_client rm account tunnel = \<lparr>ListIngress = tunnel_ListIngress rm account tunnel,
     SetIngress = tunnel_SetIngress rm account tunnel\<rparr>"

definition access_client :: "'w remote \<Rightarrow> string \<Rightarrow> 'w AccessClient" where
  "access_client rm account = \<lparr>GetApplication = access_GetApplication rm account,
     PutApplication = access_PutApplication rm account, DeleteApplication = access_DeleteApplication rm account\<rparr>"

definition edge_client :: "'w remote \<Rightarrow> 'w EdgeClient" where
  "edge_client rm = \<lparr>ListRoutes = edge_ListRoutes rm, PutRoute = edge_PutRoute rm, DeleteRoute = edge_DeleteRoute rm\<rparr>"

definition NewClients :: "'w remote \<Rightarrow> Options \<Rightarrow> 'w Clients result" where
  "NewClients rm opts =
     (if opt_APITokenDNS opts \<noteq> [] \<and> opt_ZoneID opts = []
        then Inl (errorf ''cloudflare: ZoneID required when APITokenDNS is set'')
      else if opt_APITokenTunnel opts \<noteq> [] \<and> (opt_AccountID opts = [] \<or> opt_TunnelID opts = [])
        then Inl (errorf ''cloudflare: AccountID and TunnelID required when APITokenTunnel is set'')
      else if opt_APITokenAccess opts \<noteq> [] \<and> opt_AccountID opts = []
        then Inl (errorf ''cloudflare: AccountID required when APITokenAccess is set'')
      else Inr \<lparr>cl_DNS = (if opt_APITokenDNS opts \<noteq> [] then Some (dns_client rm (opt_ZoneID opts)) else None),
        cl_Tunnel = (if opt_APITokenTunnel opts \<noteq> [] then Some (tunnel_client rm (opt_AccountID opts) (opt_TunnelID opts)) else None),
        cl_Access = (if opt_APITokenAccess opts \<noteq> [] then Some (access_client rm (opt_AccountID opts)) else None),
        cl_Edge = (if opt_CaddyAddr opts \<noteq> [] then Some (edge_client rm) else None)\<rparr>)"

end
