(* ===== verification/CloudServer.thy ===== *)
theory CloudServer
  imports Cloudflare ExposureClients
begin

text \<open>
  An instance of the remote services: a zone, a tunnel configuration, a list of Access
  applications and a Caddy configuration held in memory, answering as the documentation of the
  services says (unknown identifiers are 404, proxied records report the automatic TTL, a rejected
  reload leaves the configuration alone).  On it the Cloudflare and Caddy adapters are shown to
  satisfy the contract of ExposureClients, so the contract's lemmas hold of the adapters.
\<close>

record cloud =
  cloud_records :: "Record list"
  cloud_ingress :: "wireIngress list"
  cloud_apps :: "accessAppWire list"
  cloud_caddy :: json
  cloud_file :: config_file
  cloud_reload :: nat
  cloud_dns_status :: nat

definition fresh_id :: "string list \<Rightarrow> string" where
  "fresh_id is = replicate (Suc (sum_list (map length is))) CHR ''x''"

definition auto_ttl :: "Record \<Rightarrow> Record" where
  "auto_ttl r = (if rec_Proxied r then r\<lparr>rec_TTL := 1\<rparr> else r)"

definition zone_id :: string where "zone_id = ''z1''"
definition account_id :: string where "account_id = ''a1''"
definition tunnel_id :: string where "tunnel_id = ''t1''"

text \<open>cloud_dns_status and cloud_reload are the statuses the zone and the reload answer with: 200,
  or the failure under study.\<close>

definition cloud_remote :: "cloud remote" where
  "cloud_remote =
     \<lparr>rest_dns_list = (\<lambda>p w. (w, Inr (cloud_records w))),
      rest_dns_post = (\<lambda>p r w. if cloud_dns_status w \<noteq> 200 then (w, Inl (APIStatus (cloud_dns_status w) ''''))
        else let i = fresh_id (map rec_ID (cloud_records w)) in
          (w\<lparr>cloud_records := cloud_records w @ [auto_ttl (r\<lparr>rec_ID := i\<rparr>)]\<rparr>, Inr i)),
      rest_dns_put = (\<lambda>p r w. let i = trim_prefix p (dns_path zone_id @ ''/'') in
        if cloud_dns_status w \<noteq> 200 then (w, Inl (APIStatus (cloud_dns_status w) ''''))
        else if \<not> list_ex (\<lambda>x. rec_ID x = i) (cloud_records w) then (w, Inl (APIStatus 404 ''''))
        else (w\<lparr>cloud_records := update_where (\<lambda>x. rec_ID x = i) (\<lambda>_. auto_ttl (r\<lparr>rec_ID := i\<rparr>)) (cloud_records w)\<rparr>, Inr ())),
      rest_dns_delete = (\<lambda>p w. let i = trim_prefix p (dns_path zone_id @ ''/'') in
        if cloud_dns_status w \<noteq> 200 then (w, Inl (APIStatus (cloud_dns_status w) ''''))
        else if \<not> list_ex (\<lambda>x. rec_ID x = i) (cloud_records w) then (w, Inl (APIStatus 404 ''''))
        else (w\<lparr>cloud_records := filter (\<lambda>x. rec_ID x \<noteq> i) (cloud_records w)\<rparr>, Inr ())),
      rest_tunnel_get = (\<lambda>p w. (w, Inr (cloud_ingress w))),
      rest_tunnel_put = (\<lambda>p ws w. (w\<lparr>cloud_ingress := ws\<rparr>, Inr ())),
      rest_access_list = (\<lambda>p w. (w, Inr (cloud_apps w))),
      rest_access_post = (\<lambda>p x w. let i = fresh_id (map wa_ID (cloud_apps w)) in
          (w\<lparr>cloud_apps := cloud_apps w @ [x\<lparr>wa_ID := i\<rparr>]\<rparr>, Inr i)),
      rest_access_put = (\<lambda>p x w. let i = trim_prefix p (access_path account_id @ ''/'') in
        if \<not> list_ex (\<lambda>z. wa_ID z = i) (cloud_apps w) then (w, Inl (APIStatus 404 ''''))
        else (w\<lparr>cloud_apps := update_where (\<lambda>z. wa_ID z = i) (\<lambda>_. x\<lparr>wa_ID := i\<rparr>) (cloud_apps w)\<rparr>, Inr i)),
      rest_access_delete = (\<lambda>p w. let i = trim_prefix p (access_path account_id @ ''/'') in
        if \<not> list_ex (\<lambda>z. wa_ID z = i) (cloud_apps w) then (w, Inl (APIStatus 404 ''''))
        else (w\<lparr>cloud_apps := filter (\<lambda>z. wa_ID z \<noteq> i) (cloud_apps w)\<rparr>, Inr ())),
      caddy_get_config = (\<lambda>w. (w, Reply 200 ''json'' (Some (cloud_caddy w)))),
      caddy_post_load = (\<lambda>j w. if cloud_reload w < 200 \<or> cloud_reload w \<ge> 300 then (w, Reply (cloud_reload w) '''' None)
        else (w\<lparr>cloud_caddy := j\<rparr>, Reply (cloud_reload w) '''' None)),
      config_read = (\<lambda>w. (w, cloud_file w)),
      config_write = (\<lambda>j w. (w\<lparr>cloud_file := FileJSON (Some j)\<rparr>, None)),
      sprint = (\<lambda>_. [])\<rparr>"

definition cloud_live :: "cloud \<Rightarrow> live" where
  "cloud_live w = \<lparr>ls_records = cloud_records w, ls_rules = wire_to_rules (cloud_ingress w),
     ls_apps = map (wireToDomain (\<lambda>_. [])) (cloud_apps w), ls_routes = config_routes (cloud_caddy w)\<rparr>"

definition canonical_rule :: "IngressRule \<Rightarrow> bool" where
  "canonical_rule r \<longleftrightarrow> rule_Hostname r \<noteq> [] \<and> rule_Origin r \<noteq> [] \<and> rule_Origin r \<noteq> ''http_status:404''"

text \<open>Selectors that survive the translation to Cloudflare's include form and back.\<close>

definition canonical_selector :: "string \<Rightarrow> bool" where
  "canonical_selector s \<longleftrightarrow>
     (if has_prefix s ''group:'' then trim_prefix s ''group:'' \<noteq> [] else contains_str s ''@'')"

definition canonical_app :: "AccessApp \<Rightarrow> bool" where
  "canonical_app x \<longleftrightarrow> list_all (\<lambda>p. list_all canonical_selector (pol_Include p)) (app_Policies x)"

text \<open>Routes that survive rendering and parsing.\<close>

definition canonical_route :: "Route \<Rightarrow> bool" where
  "canonical_route r \<longleftrightarrow> trim_space (route_Hostname r) = route_Hostname r \<and> route_Hostname r \<noteq> [] \<and>
     trim_space (route_Upstream r) = route_Upstream r \<and> render_dial (route_Upstream r) \<noteq> [] \<and>
     with_scheme (render_dial (route_Upstream r)) = route_Upstream r"

definition cloud_wf :: "cloud \<Rightarrow> bool" where
  "cloud_wf w \<longleftrightarrow> list_all (\<lambda>i. wi_Service i \<noteq> []) (cloud_ingress w) \<and>
     [] \<notin> rec_ID ` set (cloud_records w) \<and> [] \<notin> wa_ID ` set (cloud_apps w) \<and>
     list_all canonical_route (config_routes (cloud_caddy w)) \<and>
     cloud_dns_status w \<noteq> 404 \<and> (case cloud_caddy w of JObj _ \<Rightarrow> True | _ \<Rightarrow> False)"

section \<open>Round trips of the adapters' encodings\<close>

lemma selector_roundtrip:
  "canonical_selector s \<Longrightarrow> include_to_selector pr (selector_to_include s) = s"
proof -
  assume c: "canonical_selector s"
  show ?thesis
  proof (cases "has_prefix s ''group:''")
    case True
    then obtain q where "s = ''group:'' @ q" by (auto simp: has_prefix_iff)
    moreover have "trim_prefix (''group:'' @ q) ''group:'' = q" by (rule trim_prefix_append)
    moreover have "has_prefix (''group:'' @ q) ''group:''" by (auto simp: has_prefix_iff)
    ultimately show ?thesis using c
      by (simp add: selector_to_include_def include_to_selector_def obj_at_def as_obj_def
          nonempty_str_def as_str_def canonical_selector_def del: append_Cons)
  next
    case False
    then have "contains_str s ''@''" "s \<noteq> []" using c by (auto simp: canonical_selector_def)
    then show ?thesis using False
      by (simp add: selector_to_include_def include_to_selector_def obj_at_def as_obj_def
          nonempty_str_def as_str_def)
  qed
qed

lemma app_roundtrip:
  "canonical_app x \<Longrightarrow> wireToDomain pr (domainToWire x) = x"
  by (auto simp: canonical_app_def wireToDomain_def domainToWire_def list_all_iff selector_roundtrip
      intro!: AccessApp.equality map_idI AccessPolicy.equality)

lemma rules_roundtrip: "list_all canonical_rule rs \<Longrightarrow> wire_to_rules (rules_to_wire rs) = rs"
  by (induction rs) (auto simp: wire_to_rules_def rules_to_wire_def canonical_rule_def)

lemma render_dial_Nil [simp]: "render_dial [] = []"
  by (simp add: render_dial_def has_prefix_def trim_suffix_def has_suffix_def)

lemma canonical_route_nonempty: "canonical_route r \<Longrightarrow> route_Upstream r \<noteq> []"
  by (auto simp: canonical_route_def)

lemma extract_rendered:
  assumes "canonical_route r"
  shows "concat (map parse_route (render_route r)) = [r]"
  using assms canonical_route_nonempty [OF assms]
  by (simp add: canonical_route_def render_route_def parse_route_def as_obj_def Let_def has_prefix_def
      extractHost_def extractUpstream_def obj_at_def first_of_def as_arr_def as_str_def or_empty_def)

lemma routes_roundtrip: "list_all canonical_route rs \<Longrightarrow> config_routes (RenderConfig rs) = rs"
proof -
  assume c: "list_all canonical_route rs"
  have "config_routes (RenderConfig rs) = concat (map parse_route (concat (map render_route rs)))"
    by (simp add: config_routes_def RenderConfig_def obj_at_def as_obj_def as_arr_def)
  also have "\<dots> = rs" using c by (induction rs) (auto simp: extract_rendered)
  finally show ?thesis .
qed

section \<open>The adapters satisfy the contract\<close>

lemma fresh_id_longer: "i \<in> set is \<Longrightarrow> length i < length (fresh_id is)"
  by (simp add: fresh_id_def less_Suc_eq_le member_le_sum_list)

lemma fresh_id_fresh [simp]: "fresh_id is \<notin> set is" "fresh_id is \<noteq> []"
  using fresh_id_longer [of "fresh_id is" "is"] by (auto simp: fresh_id_def)

lemma fresh_id_not_Nil [simp]: "[] \<noteq> fresh_id is"
  by (simp add: fresh_id_def)

lemma auto_ttl_matches [simp]: "recordMatches (Some (auto_ttl (r\<lparr>rec_ID := i\<rparr>))) (Some x) = recordMatches (Some (auto_ttl r)) (Some x)"
  "recordMatches (Some (auto_ttl r)) (Some r)" "rec_ID (auto_ttl r) = rec_ID r"
  by (simp_all add: auto_ttl_def recordMatches_Some)

lemma path_ids [simp]:
  "trim_prefix (dns_path z @ CHR ''/'' # i) (dns_path z @ ''/'') = i"
  "trim_prefix (access_path z @ CHR ''/'' # i) (access_path z @ ''/'') = i"
  using trim_prefix_append [of "dns_path z @ ''/''" i] trim_prefix_append [of "access_path z @ ''/''" i] by simp_all

lemma mapAPIError_404 [simp]: "errors_is (mapAPIError (APIStatus n m)) ErrNotFound \<longleftrightarrow> n = 404"
  by (simp add: mapAPIError_def)

lemma upsert_route_find:
  "findRoute (upsert_route r xs) h = (if equal_fold h (route_Hostname r) then Some r else findRoute xs h)"
  by (induction xs) (auto simp: findRoute_def equal_fold_def)

lemma upsert_route_key_set: "set (map route_key (upsert_route r xs)) \<subseteq> insert (route_key r) (set (map route_key xs))"
  by (induction xs) auto

lemma upsert_route_keys: "distinct (map route_key xs) \<Longrightarrow> distinct (map route_key (upsert_route r xs))"
proof (induction xs)
  case (Cons x xs)
  show ?case
  proof (cases "route_key x = route_key r")
    case True
    then show ?thesis using Cons.prems by (simp add: equal_fold_def route_key_def)
  next
    case False
    then have "route_key x \<notin> set (map route_key (upsert_route r xs))"
      using upsert_route_key_set [of r xs] Cons.prems by auto
    then show ?thesis using False Cons by (simp add: equal_fold_def route_key_def)
  qed
qed simp

lemma app_roundtrip_id: "canonical_app x \<Longrightarrow> wireToDomain pr ((domainToWire x)\<lparr>wa_ID := i\<rparr>) = x\<lparr>app_ID := i\<rparr>"
proof -
  assume c: "canonical_app x"
  have "(domainToWire x)\<lparr>wa_ID := i\<rparr> = domainToWire (x\<lparr>app_ID := i\<rparr>)" by (simp add: domainToWire_def)
  then show ?thesis using app_roundtrip [of "x\<lparr>app_ID := i\<rparr>" pr] c by (simp add: canonical_app_def)
qed

lemma wire_ids: "app_ID (wireToDomain pr x) = wa_ID x"
  by (simp add: wireToDomain_def)

lemma wire_update:
  "map (wireToDomain pr) (update_where (\<lambda>z. wa_ID z = i) (\<lambda>_. x) ws) =
   update_where (\<lambda>z. app_ID z = i) (\<lambda>_. wireToDomain pr x) (map (wireToDomain pr) ws)"
  by (simp add: update_where_def wire_ids)

lemma wire_filter:
  "map (wireToDomain pr) (filter (\<lambda>z. wa_ID z \<noteq> i) ws) = filter (\<lambda>z. app_ID z \<noteq> i) (map (wireToDomain pr) ws)"
  by (simp add: filter_map comp_def wire_ids)

lemma upsert_route_canonical:
  "list_all canonical_route xs \<Longrightarrow> canonical_route r \<Longrightarrow> list_all canonical_route (upsert_route r xs)"
  by (induction xs) auto

lemma cloud_list_routes: "cloud_wf w \<Longrightarrow> edge_ListRoutes cloud_remote w = (w, Inr (config_routes (cloud_caddy w)))"
  by (auto simp: edge_ListRoutes_def edge_do_get_def cloud_remote_def cloud_wf_def split: json.splits)

lemma RenderConfig_obj: "\<exists>m. RenderConfig rs = JObj m"
  by (simp add: RenderConfig_def)

lemma cloud_apply_routes:
  assumes "cloud_wf w" "list_all canonical_route rs"
  shows "(\<exists>er w'. edge_applyRoutes cloud_remote rs w = (w', Inl er) \<and> cloud_wf w' \<and> cloud_live w' = cloud_live w) \<or>
    (\<exists>w'. edge_applyRoutes cloud_remote rs w = (w', Inr ()) \<and> cloud_wf w' \<and>
      cloud_live w' = (cloud_live w)\<lparr>ls_routes := rs\<rparr>)"
  using assms routes_roundtrip [OF assms(2)] RenderConfig_obj [of rs]
  by (auto simp: edge_applyRoutes_def cloud_remote_def cloud_wf_def cloud_live_def Let_def)

lemma findApp_map: "findApp (map (wireToDomain pr) ws) h = map_option (wireToDomain pr) (List.find (\<lambda>x. equal_fold (wa_Domain x) h) ws)"
  by (induction ws) (auto simp: findApp_def wireToDomain_def)

interpretation cloud: exposure_clients "dns_client cloud_remote zone_id" "tunnel_client cloud_remote account_id tunnel_id"
  "access_client cloud_remote account_id" "edge_client cloud_remote" cloud_live cloud_wf
  canonical_rule canonical_app canonical_route
proof (unfold_locales, goal_cases)
  case (1 w w' rs)
  then show ?case by (auto simp: dns_client_def dns_ListRecords_def cloud_remote_def cloud_live_def)
next
  case (2 w x w' r)
  have "fresh_id (map rec_ID (cloud_records w)) \<notin> rec_ID ` set (cloud_records w)"
    "[] \<noteq> fresh_id (map rec_ID (cloud_records w))"
    using fresh_id_fresh(1) [of "map rec_ID (cloud_records w)"] by (auto simp del: fresh_id_fresh)
  with 2 show ?case
    by (auto simp: dns_client_def dns_CreateRecord_def cloud_remote_def cloud_live_def cloud_wf_def Let_def recordMatches_Some auto_ttl_def
        split: if_splits)
next
  case (3 w i x w' r')
  then show ?case
    by (auto simp: dns_client_def dns_ReplaceRecord_def cloud_remote_def cloud_live_def cloud_wf_def Let_def
        set_update_where intro!: exI [of _ "auto_ttl (x\<lparr>rec_ID := i\<rparr>)"] split: if_splits)
next
  case (4 w i w' r')
  then show ?case
    by (auto simp: dns_client_def dns_DeleteRecord_def cloud_remote_def cloud_live_def cloud_wf_def Let_def
        list_ex_iff intro!: filter_True [symmetric] split: if_splits)
next
  case (5 w w' ru)
  then show ?case
    by (auto simp: tunnel_client_def tunnel_ListIngress_def cloud_remote_def cloud_live_def cloud_wf_def
        wire_to_rules_def list_all_iff canonical_rule_def)
next
  case (6 w rules w' r')
  then show ?case
    by (auto simp: tunnel_client_def tunnel_SetIngress_def cloud_remote_def cloud_live_def cloud_wf_def rules_roundtrip)
     (auto simp: rules_to_wire_def list_all_iff)
next
  case (7 w h w' ra)
  then show ?case
    by (auto simp: access_client_def access_GetApplication_def cloud_remote_def cloud_live_def Let_def findApp_map
        split: if_splits option.splits)
next
  case (8 w ap w' r)
  have "fresh_id (map wa_ID (cloud_apps w)) \<notin> wa_ID ` set (cloud_apps w)"
    "[] \<noteq> fresh_id (map wa_ID (cloud_apps w))"
    using fresh_id_fresh(1) [of "map wa_ID (cloud_apps w)"] by (auto simp del: fresh_id_fresh)
  moreover have "wireToDomain (\<lambda>_. []) ((domainToWire ap)\<lparr>wa_ID := i\<rparr>) = ap\<lparr>app_ID := i\<rparr>" for i
    using app_roundtrip_id 8(2) .
  ultimately show ?case
  proof (cases "app_ID ap = []")
    case False
    then show ?thesis using 8 app_roundtrip_id [OF 8(2)]
      by (auto simp: access_client_def access_PutApplication_def cloud_remote_def cloud_live_def cloud_wf_def Let_def
        wire_update wire_ids set_update_where image_image split: if_splits intro!: exI [of _ ap])
  qed (use 8 in \<open>auto simp: access_client_def access_PutApplication_def cloud_remote_def cloud_live_def cloud_wf_def Let_def
        wire_ids image_image split: if_splits\<close>)
next
  case (9 ap i)
  then show ?case by (simp add: canonical_app_def)
next
  case (10 w i w' r')
  have "filter (\<lambda>z. app_ID z \<noteq> i) (map (wireToDomain (\<lambda>_. [])) (cloud_apps w)) = map (wireToDomain (\<lambda>_. [])) (cloud_apps w)"
    if "\<not> list_ex (\<lambda>z. wa_ID z = i) (cloud_apps w)"
    using that by (auto simp: list_ex_iff filter_id_conv wire_ids)
  with 10 show ?case
    by (auto simp: access_client_def access_DeleteApplication_def cloud_remote_def cloud_live_def cloud_wf_def Let_def
        wire_filter split: if_splits)
next
  case (11 w w' ro)
  then show ?case by (auto simp: edge_client_def cloud_list_routes cloud_live_def)
next
  case (12 w x' w' r')
  have ok: "list_all canonical_route (upsert_route x' (config_routes (cloud_caddy w)))"
    using 12(1,2) by (auto simp: cloud_wf_def intro: upsert_route_canonical)
  show ?case using 12 cloud_apply_routes [OF 12(1) ok] upsert_route_keys
    by (auto simp: edge_client_def edge_PutRoute_def cloud_list_routes cloud_live_def upsert_route_find split: if_splits)
next
  case (13 w h w' r')
  let ?rs = "filter (\<lambda>x. \<not> equal_fold (route_Hostname x) h) (config_routes (cloud_caddy w))"
  have ok: "list_all canonical_route ?rs" using 13(1) by (auto simp: cloud_wf_def list_all_iff)
  have f: "findRoute ?rs h' = (if equal_fold h' h then None else findRoute (config_routes (cloud_caddy w)) h')" for h'
    using find_filter_key [of route_key "to_lower h'" "to_lower h" "config_routes (cloud_caddy w)"]
    by (auto simp: findRoute_key route_key_def equal_fold_def)
  have k: "distinct (map route_key (config_routes (cloud_caddy w))) \<longrightarrow> distinct (map route_key ?rs)"
    by (simp add: distinct_map_filter)
  have same: "?rs = config_routes (cloud_caddy w)" if "\<not> list_ex (\<lambda>x. equal_fold (route_Hostname x) h) (config_routes (cloud_caddy w))"
    using that by (auto simp: list_ex_iff filter_id_conv)
  show ?case
  proof (cases "list_ex (\<lambda>x. equal_fold (route_Hostname x) h) (config_routes (cloud_caddy w)) \<and> trim_space h \<noteq> []")
    case True
    then show ?thesis using 13 cloud_apply_routes [OF 13(1) ok] f k
      by (auto simp: edge_client_def edge_DeleteRoute_def cloud_list_routes cloud_live_def Let_def)
  next
    case False
    then consider "trim_space h = []" | "trim_space h \<noteq> []" "\<not> list_ex (\<lambda>x. equal_fold (route_Hostname x) h) (config_routes (cloud_caddy w))"
      by blast
    then show ?thesis
    proof cases
      case 1
      then show ?thesis using 13 by (auto simp: edge_client_def edge_DeleteRoute_def)
    next
      case 2
      have "findRoute (config_routes (cloud_caddy w)) h' = None" if "equal_fold h' h" for h'
        using f [of h'] same [OF 2(2)] that by simp
      moreover have "w' = w" "r' = Inr ()"
        using 13 2 same [OF 2(2)] by (auto simp: edge_client_def edge_DeleteRoute_def cloud_list_routes Let_def)
      ultimately show ?thesis using 13(1) by (auto simp: cloud_live_def)
    qed
  qed
qed

end
