(* ===== verification/ExposureDemo.thy ===== *)
theory ExposureDemo
  imports ExposureRefine CloudServer
begin

text \<open>
  A concrete deployment for the witnesses: one service, its zone, tunnel, gate and edge in the
  in-memory services of CloudServer.
\<close>

definition cloud_clients :: "cloud Clients" where
  "cloud_clients = all_clients (dns_client cloud_remote zone_id) (tunnel_client cloud_remote account_id tunnel_id)
     (access_client cloud_remote account_id) (edge_client cloud_remote)"

definition demo_cfg :: Config where
  "demo_cfg = \<lparr>cfg_Domain = ''b.c'', cfg_TailscaleIP = ''1.2.3.4'', cfg_TunnelDNS = ''t.x'',
     cfg_SharedAccessGroups = []\<rparr>"

definition demo_svc :: "exposure \<Rightarrow> ServiceRecord" where
  "demo_svc ex = \<lparr>svc_ID = ''s'', svc_Hostname = ''a.b.c'', svc_HomeAnchor = ''a.home.b.c'',
     svc_Upstream = ''http://u:1'', svc_TunnelOrigin = ''http://o'', svc_Exposure = ex,
     svc_AppAuth = AuthNone, svc_Revision = 1, svc_CreatedAt = 0, svc_UpdatedAt = 0\<rparr>"

definition demo_cloud :: cloud where
  "demo_cloud = \<lparr>cloud_records = [], cloud_ingress = [], cloud_apps = [], cloud_caddy = RenderConfig [],
     cloud_file = NoFile, cloud_reload = 200, cloud_dns_status = 200\<rparr>"

text \<open>The same deployment after the service has been shared.\<close>

definition demo_shared :: cloud where
  "demo_shared = demo_cloud\<lparr>
     cloud_records := [\<lparr>rec_ID = ''1'', rec_Name = ''a.home.b.c'', rec_Type = ''A'', rec_Content = ''1.2.3.4'', rec_TTL = 300, rec_Proxied = False\<rparr>,
       \<lparr>rec_ID = ''2'', rec_Name = ''a.b.c'', rec_Type = ''CNAME'', rec_Content = ''t.x'', rec_TTL = 1, rec_Proxied = True\<rparr>],
     cloud_ingress := rules_to_wire [\<lparr>rule_Hostname = ''a.b.c'', rule_Origin = ''http://o''\<rparr>],
     cloud_apps := [(domainToWire (accessAppFor demo_cfg (demo_svc ExposureShared)))\<lparr>wa_ID := ''3''\<rparr>],
     cloud_caddy := RenderConfig [\<lparr>route_Hostname = ''a.b.c'', route_Upstream = ''http://u:1''\<rparr>]\<rparr>"

definition demo_obs :: "ServiceRecord \<Rightarrow> cloud \<Rightarrow> Observation" where
  "demo_obs svc w = (let v = live_view svc (cloud_live w) in (empty_obs (svc_ID svc) 0)
     \<lparr>obs_VanityDNS := v_vanity v, obs_AnchorDNS := v_anchor v, obs_TunnelIngress := v_ingress v,
      obs_AccessApp := v_app v, obs_EdgeRoute := v_route v\<rparr>)"

definition demo_db :: "exposure \<Rightarrow> exposure_db" where
  "demo_db ex = empty_exposure_db\<lparr>db_services := [demo_svc ex]\<rparr>"

definition demo_reach :: "exposure \<Rightarrow> cloud \<Rightarrow> exposure" where
  "demo_reach ex w = reach demo_cfg (live_view (demo_svc ex) (cloud_live w))"

lemma demo_obs_view: "view_of (demo_obs svc w) = live_view svc (cloud_live w)"
  by (simp add: demo_obs_def view_of_def Let_def)

lemma demo_facts:
  "cloud_wf demo_cloud" "uniq (cloud_live demo_cloud)" "cloud_wf demo_shared" "uniq (cloud_live demo_shared)"
  "storable canonical_rule canonical_app canonical_route demo_cfg (demo_svc ExposureShared)"
  "storable canonical_rule canonical_app canonical_route demo_cfg (demo_svc ExposurePublic)"
  by code_simp+

definition demo_teardown :: "nat \<Rightarrow> (cloud \<times> Plan option) option" where
  "demo_teardown reload = (case Delete_op demo_cfg cloud_clients (demo_db ExposureShared) ''p'' 2 ''s'' demo_shared of
      (w, db, Inr p) \<Rightarrow> map_option (\<lambda>(w, db, p, er). (w, p))
          (Apply demo_cfg cloud_clients db 3 ''p'' (w\<lparr>cloud_reload := reload\<rparr>))
    | _ \<Rightarrow> None)"

end
