(* ===== verification/Tables.thy ===== *)
theory Tables
  imports Prelude
begin

text \<open>
  The contract between a controller's tables and what is proved of them: a step relation, one step
  for each SQL statement, empty tables, and an invariant that the empty tables have and every
  statement keeps.  Each controller interprets it on its own statements; the reachable states and
  the facts that last along any interleaving of operations come from here.
\<close>

locale statement_tables =
  fixes step :: "'db \<Rightarrow> 'db \<Rightarrow> bool"
    and ok :: "'db \<Rightarrow> bool"
    and empty :: 'db
  assumes empty_ok: "ok empty"
    and step_ok: "step db db' \<Longrightarrow> ok db \<Longrightarrow> ok db'"
begin

lemma steps_ok: "step\<^sup>*\<^sup>* db db' \<Longrightarrow> ok db \<Longrightarrow> ok db'"
  by (induction rule: rtranclp_induct) (auto intro: step_ok)

lemma reached_ok: "step\<^sup>*\<^sup>* empty db \<Longrightarrow> ok db"
  using steps_ok empty_ok by blast

text \<open>A fact that every statement keeps, given the invariant and a condition on the states passed
  through, lasts along every path on which the condition holds.\<close>

lemma lasts:
  assumes "(\<lambda>a b. step a b \<and> C b)\<^sup>*\<^sup>* db db'" "ok db" "P db"
    and keeps: "\<And>a b. step a b \<Longrightarrow> ok a \<Longrightarrow> C b \<Longrightarrow> P a \<Longrightarrow> P b"
  shows "ok db' \<and> P db'"
  using assms(1-3) by (induction rule: rtranclp_induct) (use step_ok keeps in blast)+

end

end
