(* ===== verification/ExposureStates.thy ===== *)
theory ExposureStates
  imports ExposureService Tables
begin

text \<open>
  The controller as a state machine over its tables and the world of its clients: one transition
  per exported operation, with identifiers the tables have not used, and arbitrary changes of the
  world in between (the operator, other programs).  The invariant of the tables, and what it says
  about acknowledgements.
\<close>

section \<open>Transitions\<close>

definition used_ids :: "exposure_db \<Rightarrow> id set" where
  "used_ids db = svc_ID ` set (db_services db) \<union> plan_ID ` set (db_plans db) \<union> plan_ServiceID ` set (db_plans db)
     \<union> ack_ServiceID ` set (db_acks db)"

inductive exposure_step :: "Config \<Rightarrow> 'w Clients \<Rightarrow> exposure_db \<times> 'w \<Rightarrow> exposure_db \<times> 'w \<Rightarrow> bool"
  for cfg :: Config and cl :: "'w Clients" where
  step_upsert: "fresh \<notin> used_ids db \<Longrightarrow> UpsertService cfg db fresh now inp = (db', r) \<Longrightarrow>
     exposure_step cfg cl (db, w) (db', w)"
| step_set: "SetExposure db now sid ex = (db', r) \<Longrightarrow> exposure_step cfg cl (db, w) (db', w)"
| step_ack: "AcknowledgePublic db fresh now sid = (db', r') \<Longrightarrow> exposure_step cfg cl (db, w) (db', w)"
| step_plan: "fresh \<notin> used_ids db \<Longrightarrow> Plan_op cfg cl db fresh now sid w = (w', db', p) \<Longrightarrow>
     exposure_step cfg cl (db, w) (db', w')"
| step_delete: "fresh \<notin> used_ids db \<Longrightarrow> Delete_op cfg cl db fresh now sid w = (w', db', p) \<Longrightarrow>
     exposure_step cfg cl (db, w) (db', w')"
| step_apply: "Apply cfg cl db now pid w = Some (w', db', q, er) \<Longrightarrow> exposure_step cfg cl (db, w) (db', w')"
| step_observe: "Observe cfg cl db now sid w = (w', db', ob, er) \<Longrightarrow> exposure_step cfg cl (db, w) (db', w')"
| step_world: "exposure_step cfg cl (db, w) (db, w')"

definition exposure_reachable :: "Config \<Rightarrow> 'w Clients \<Rightarrow> exposure_db \<Rightarrow> 'w \<Rightarrow> bool" where
  "exposure_reachable cfg cl db w \<longleftrightarrow> (\<exists>w0. (exposure_step cfg cl)\<^sup>*\<^sup>* (empty_exposure_db, w0) (db, w))"

section \<open>The invariant\<close>

definition svc_ok :: "Config \<Rightarrow> ServiceRecord \<Rightarrow> bool" where
  "svc_ok cfg s \<longleftrightarrow> validateHostname (svc_Hostname s) = None \<and>
     homeAnchor (svc_Hostname s) (cfg_Domain cfg) = Inr (svc_HomeAnchor s) \<and>
     svc_Upstream s \<noteq> [] \<and> svc_TunnelOrigin s \<noteq> [] \<and> Exposure_Valid (svc_Exposure s) \<and>
     AuthMode_Valid (svc_AppAuth s) \<and> 1 \<le> svc_Revision s"

definition needs_ack :: "ServiceRecord \<Rightarrow> bool" where
  "needs_ack s \<longleftrightarrow> svc_Exposure s = ExposurePublic \<and> svc_AppAuth s \<noteq> AuthNative"

text \<open>A plan never runs ahead of its service, and a plan of the current revision says what the
  service desires and whether it needs an acknowledgement.\<close>

definition plan_current :: "Plan \<Rightarrow> ServiceRecord \<Rightarrow> bool" where
  "plan_current p s \<longleftrightarrow> (plan_ServiceID p = svc_ID s \<longrightarrow> plan_ServiceRevision p \<le> svc_Revision s \<and>
     (plan_Kind p = PlanKindExposure \<and> plan_ServiceRevision p = svc_Revision s \<longrightarrow>
        plan_ToExposure p = svc_Exposure s \<and> plan_RequiresAck p = needs_ack s))"

definition has_payload :: "Step \<Rightarrow> bool" where
  "has_payload x \<longleftrightarrow> (case step_Kind x of
      StepDNSEnsure \<Rightarrow> step_Record x \<noteq> None | StepDNSRemove \<Rightarrow> step_Record x \<noteq> None
    | StepAccessEnsure \<Rightarrow> step_App x \<noteq> None | StepAccessRemove \<Rightarrow> step_App x \<noteq> None
    | StepIngressEnsure \<Rightarrow> step_Rule x \<noteq> None | StepIngressRemove \<Rightarrow> step_Rule x \<noteq> None
    | StepEdgeEnsure \<Rightarrow> step_Route x \<noteq> None | StepEdgeRemove \<Rightarrow> step_Route x \<noteq> None
    | StepUnknown _ \<Rightarrow> True)"

definition db_ok :: "Config \<Rightarrow> exposure_db \<Rightarrow> bool" where
  "db_ok cfg db \<longleftrightarrow> distinct (map svc_ID (db_services db)) \<and> distinct (map svc_Hostname (db_services db)) \<and>
     (\<forall>s \<in> set (db_services db). svc_ok cfg s) \<and> distinct (map plan_ID (db_plans db)) \<and>
     (\<forall>p \<in> set (db_plans db). list_all has_payload (plan_Steps p) \<and> (\<forall>s \<in> set (db_services db). plan_current p s)) \<and>
     (\<forall>a \<in> set (db_acks db). \<forall>s \<in> set (db_services db). ack_ServiceID a = svc_ID s \<longrightarrow> ack_Revision a \<le> svc_Revision s)"

lemma db_ok_empty: "db_ok cfg empty_exposure_db"
  by (simp add: db_ok_def empty_exposure_db_def)

lemma planWarnings_ack: "snd (planWarnings cfg svc) = needs_ack svc"
  by (auto simp: planWarnings_def needs_ack_def Let_def)

text \<open>Changing a service: same identity and names, a later revision.\<close>

lemma updateService_ok:
  assumes ok: "db_ok cfg db" and s: "s \<in> set (db_services db)"
    and same: "svc_ID s' = svc_ID s" "svc_Hostname s' = svc_Hostname s" "svc_HomeAnchor s' = svc_HomeAnchor s"
    and rev: "svc_Revision s < svc_Revision s'" and s': "svc_ok cfg s'"
  shows "db_ok cfg (updateService db s')"
proof -
  define upd where "upd = (\<lambda>x :: ServiceRecord. x\<lparr>svc_Upstream := svc_Upstream s', svc_TunnelOrigin := svc_TunnelOrigin s',
      svc_Exposure := svc_Exposure s', svc_AppAuth := svc_AppAuth s', svc_Revision := svc_Revision s',
      svc_UpdatedAt := svc_UpdatedAt s'\<rparr>)"
  have sv: "db_services (updateService db s') = update_where (\<lambda>x. svc_ID x = svc_ID s') upd (db_services db)"
    by (simp add: updateService_def upd_def)
  have d: "distinct (map svc_ID (db_services db))" using ok by (simp add: db_ok_def)
  have one: "x = s" if "x \<in> set (db_services db)" "svc_ID x = svc_ID s'" for x
    using that s d same(1) by (metis distinct_map inj_onD)
  have mem: "x \<in> set (db_services (updateService db s')) \<Longrightarrow> x = upd s \<or> (x \<in> set (db_services db) \<and> svc_ID x \<noteq> svc_ID s')" for x
    using one by (auto simp: sv set_update_where)
  have oku: "svc_ok cfg (upd s)" using s' same by (simp add: svc_ok_def upd_def)
  have pc: "plan_current p (upd s)" if "p \<in> set (db_plans db)" for p
    using ok that s rev by (force simp: db_ok_def plan_current_def upd_def)
  have "map svc_ID (db_services (updateService db s')) = map svc_ID (db_services db)"
    "map svc_Hostname (db_services (updateService db s')) = map svc_Hostname (db_services db)"
    by (simp_all add: sv map_update_where_key upd_def)
  moreover have "ack_Revision a \<le> svc_Revision (upd s)" if "a \<in> set (db_acks db)" "ack_ServiceID a = svc_ID (upd s)" for a
    using ok that s rev by (force simp: db_ok_def upd_def)
  ultimately show ?thesis using ok oku pc by (auto simp: db_ok_def dest!: mem)
qed

lemma Exposure_default: "Exposure_Valid (if e = [] then ExposurePrivate else e) \<longleftrightarrow> e = [] \<or> Exposure_Valid e"
  by simp

lemma upsert_create_ok:
  assumes ok: "db_ok cfg db" and fr: "fresh \<notin> used_ids db"
    and h: "validateHostname hostname = None" "homeAnchor hostname (cfg_Domain cfg) = Inr anchor"
    and u: "upstream \<noteq> []" "origin \<noteq> []"
    and c: "upsert_create db fresh now inp hostname anchor upstream origin = (db', r)"
  shows "db_ok cfg db'"
proof (cases r)
  case (Inl er)
  then show ?thesis using c ok by (auto simp: upsert_create_def Let_def split: if_splits sum.splits)
next
  case (Inr s)
  then have s: "svc_ID s = fresh" "svc_ok cfg s" "svc_Hostname s = hostname" "db' = db\<lparr>db_services := db_services db @ [s]\<rparr>"
    "hostname \<notin> svc_Hostname ` set (db_services db)"
    using c h u by (auto simp: upsert_create_def Let_def insertService_def svc_ok_def list_ex_iff split: if_splits)
  have "plan_current p s" if "p \<in> set (db_plans db)" for p
  proof -
    have "plan_ServiceID p \<noteq> fresh" using fr that by (auto simp: used_ids_def)
    then show ?thesis using s(1) by (simp add: plan_current_def)
  qed
  moreover have "ack_ServiceID ak \<noteq> svc_ID s" if "ak \<in> set (db_acks db)" for ak
  proof -
    have "ack_ServiceID ak \<noteq> fresh" using fr that by (auto simp: used_ids_def)
    then show ?thesis using s(1) by simp
  qed
  moreover have "svc_ID s \<notin> svc_ID ` set (db_services db)" using fr s(1) by (auto simp: used_ids_def)
  ultimately show ?thesis using ok s by (auto simp: db_ok_def)
qed

lemma upsert_update_ok:
  assumes ok: "db_ok cfg db" and s: "ex \<in> set (db_services db)" and u: "upstream \<noteq> []" "origin \<noteq> []"
    and c: "upsert_update db now inp upstream origin ex = (db', r)"
  shows "db_ok cfg db'"
proof -
  have sok: "svc_ok cfg ex" using ok s by (simp add: db_ok_def)
  have "db' = db \<or> (\<exists>s'. db' = updateService db s' \<and> svc_ID s' = svc_ID ex \<and> svc_Hostname s' = svc_Hostname ex \<and>
      svc_HomeAnchor s' = svc_HomeAnchor ex \<and> svc_Revision s' = svc_Revision ex + 1 \<and> svc_ok cfg s')"
    using c sok u by (auto simp: upsert_update_def Let_def svc_ok_def split: if_splits)
  then show ?thesis using ok updateService_ok [OF ok s] by auto
qed

lemma Upsert_ok:
  assumes ok: "db_ok cfg db" and fr: "fresh \<notin> used_ids db" and u: "UpsertService cfg db fresh now inp = (db', r)"
  shows "db_ok cfg db'"
proof -
  have d: "defaultTunnelOrigin \<noteq> []" by (simp add: defaultTunnelOrigin_def)
  show ?thesis using u ok fr d
    by (auto simp: UpsertService_def Let_def dest: getServiceByHostname_Inr
        intro: upsert_create_ok upsert_update_ok split: option.splits sum.splits if_splits)
qed

lemma SetExposure_ok:
  assumes ok: "db_ok cfg db" and u: "SetExposure db now sid ex = (db', r)"
  shows "db_ok cfg db'"
proof -
  have "db' = db \<or> (\<exists>s \<in> set (db_services db). db' = updateService db (s\<lparr>svc_Exposure := ex, svc_Revision := svc_Revision s + 1, svc_UpdatedAt := now\<rparr>)
     \<and> Exposure_Valid ex)"
    using u by (auto simp: SetExposure_def Let_def dest: getService_Inr split: sum.splits if_splits)
  moreover have "svc_ok cfg (s\<lparr>svc_Exposure := ex, svc_Revision := svc_Revision s + 1, svc_UpdatedAt := now\<rparr>)"
    if "s \<in> set (db_services db)" "Exposure_Valid ex" for s
    using ok that by (auto simp: db_ok_def svc_ok_def)
  ultimately show ?thesis using ok updateService_ok [OF ok] by auto
qed

lemma set_upsert_by: "set (upsert_by k r rows) \<subseteq> insert r (set rows)"
  by (auto simp: upsert_by_def set_update_where)

lemma Ack_ok:
  assumes ok: "db_ok cfg db" and u: "AcknowledgePublic db fresh now sid = (db', r)"
  shows "db_ok cfg db'"
proof (cases "db' = db")
  case False
  then obtain s ak where s: "s \<in> set (db_services db)" "db' = putAck db ak" "ack_ServiceID ak = svc_ID s" "ack_Revision ak = svc_Revision s"
    using u by (auto simp: AcknowledgePublic_def dest: getService_Inr split: sum.splits if_splits)
  have "t = s" if "t \<in> set (db_services db)" "svc_ID t = svc_ID s" for t
    using ok that s(1) by (metis db_ok_def distinct_map inj_onD)
  moreover have "set (db_acks db') \<subseteq> insert ak (set (db_acks db))"
    using set_upsert_by [of ack_ServiceID ak "db_acks db"] by (simp add: s(2) putAck_def)
  ultimately have "ack_Revision b \<le> svc_Revision t"
    if "b \<in> set (db_acks db')" "t \<in> set (db_services db)" "ack_ServiceID b = svc_ID t" for b t
    using ok s that unfolding db_ok_def by (cases "b = ak") auto
  then show ?thesis using ok s(2) by (simp add: db_ok_def)
qed (use ok in simp)

lemma insertPlan_ok:
  assumes ok: "db_ok cfg db" and s: "s \<in> set (db_services db)" and i: "insertPlan db p = Inr db'"
    and p: "plan_ServiceID p = svc_ID s" "plan_ServiceRevision p = svc_Revision s" "list_all has_payload (plan_Steps p)"
      "plan_Kind p = PlanKindExposure \<Longrightarrow> plan_ToExposure p = svc_Exposure s \<and> plan_RequiresAck p = needs_ack s"
  shows "db_ok cfg db'"
proof -
  have "t = s" if "t \<in> set (db_services db)" "svc_ID t = svc_ID s" for t
    using ok that s(1) by (metis db_ok_def distinct_map inj_onD)
  then have "plan_current p t" if "t \<in> set (db_services db)" for t
    using that p by (auto simp: plan_current_def)
  moreover have "plan_ID p \<notin> plan_ID ` set (db_plans db)" "db' = db\<lparr>db_plans := db_plans db @ [p]\<rparr>"
    using i by (force simp: insertPlan_def list_ex_iff split: if_splits)+
  ultimately show ?thesis using ok p(3) by (auto simp: db_ok_def)
qed

lemma exposureSteps_has_payload: "list_all has_payload (exposureSteps cfg svc obs des)"
  by (auto simp: exposureSteps_def block_defs has_payload_def split: option.splits)

lemma deleteSteps_has_payload: "list_all has_payload (deleteSteps svc obs des)"
  by (auto simp: deleteSteps_def Let_def has_payload_def split: option.splits)

lemma putObservation_ok: "db_ok cfg (putObservation db obs pid) = db_ok cfg db"
  by (simp add: db_ok_def)

lemma buildPlan_Inl: "buildPlan cfg cl db fresh now s kind w = (w', db', Inl er) \<Longrightarrow> db' = db"
  by (auto simp: buildPlan_def Let_def split: prod.splits option.splits sum.splits PlanKind.splits)

lemma buildPlan_Inr:
  assumes "buildPlan cfg cl db fresh now s kind w = (w', db', Inr p)"
  shows "\<exists>obs db1. insertPlan db p = Inr db1 \<and> db' = putObservation db1 obs (plan_ID p) \<and>
    plan_ServiceID p = svc_ID s \<and> plan_ServiceRevision p = svc_Revision s \<and> plan_Kind p = kind \<and>
    plan_Status p = PlanPending \<and> plan_ID p = fresh \<and> list_all has_payload (plan_Steps p) \<and>
    requireClients cl (plan_Steps p) = None \<and>
    (kind = PlanKindExposure \<longrightarrow> plan_ToExposure p = svc_Exposure s \<and> plan_RequiresAck p = needs_ack s)"
proof (cases kind)
  case PlanKindExposure
  then show ?thesis using assms
    by (auto simp: buildPlan_def Let_def exposureSteps_has_payload planWarnings_ack
        split: prod.splits option.splits sum.splits)
next
  case PlanKindDelete
  obtain w1 ob ms er where pr: "probe cl now s w = (w1, ob, ms, er)" by (metis prod_cases4)
  show ?thesis using assms PlanKindDelete pr
    by (cases er) (auto simp: buildPlan_def Let_def deleteSteps_has_payload
        split: option.splits sum.splits simp del: append_Cons)
qed

lemma buildPlan_ok:
  assumes ok: "db_ok cfg db" and s: "s \<in> set (db_services db)" and b: "buildPlan cfg cl db fresh now s kind w = (w', db', r)"
  shows "db_ok cfg db'"
proof (cases r)
  case (Inr p)
  then obtain obs db1 where "insertPlan db p = Inr db1" "db' = putObservation db1 obs (plan_ID p)"
    "plan_ServiceID p = svc_ID s" "plan_ServiceRevision p = svc_Revision s" "list_all has_payload (plan_Steps p)"
    "plan_Kind p = PlanKindExposure \<Longrightarrow> plan_ToExposure p = svc_Exposure s \<and> plan_RequiresAck p = needs_ack s"
    using buildPlan_Inr [OF b [unfolded Inr]] by auto
  then show ?thesis using insertPlan_ok [OF ok s] by (simp add: putObservation_ok)
qed (use b buildPlan_Inl ok in \<open>metis\<close>)

lemma Plan_op_ok: "db_ok cfg db \<Longrightarrow> Plan_op cfg cl db fresh now sid w = (w', db', r) \<Longrightarrow> db_ok cfg db'"
  by (auto simp: Plan_op_def dest: getService_Inr intro: buildPlan_ok split: sum.splits)

lemma Delete_op_ok: "db_ok cfg db \<Longrightarrow> Delete_op cfg cl db fresh now sid w = (w', db', r) \<Longrightarrow> db_ok cfg db'"
  by (auto simp: Delete_op_def dest: getService_Inr intro: buildPlan_ok split: sum.splits)

lemma updatePlan_ok: "db_ok cfg db \<Longrightarrow> db_ok cfg (updatePlan db p)"
proof -
  assume ok: "db_ok cfg db"
  have "map plan_ID (db_plans (updatePlan db p)) = map plan_ID (db_plans db)"
    by (simp add: updatePlan_def map_update_where_key)
  moreover have "\<exists>q0 \<in> set (db_plans db). plan_Steps q = plan_Steps q0 \<and> (\<forall>s. plan_current q s = plan_current q0 s)"
    if "q \<in> set (db_plans (updatePlan db p))" for q
    using that by (auto simp: updatePlan_def set_update_where plan_current_def)
  ultimately show ?thesis using ok by (fastforce simp: db_ok_def)
qed

lemma deleteServiceRows_ok: "db_ok cfg db \<Longrightarrow> db_ok cfg (deleteServiceRows db i)"
  by (auto simp: db_ok_def deleteServiceRows_def distinct_map_filter)

lemma recordObservation_ok:
  "db_ok cfg db \<Longrightarrow> recordObservation cfg cl db now svc p w = (w', db') \<Longrightarrow> db_ok cfg db'"
  by (auto simp: recordObservation_def Let_def putObservation_ok split: prod.splits option.splits)

lemma Apply_ok:
  assumes ok: "db_ok cfg db" and a: "Apply cfg cl db now pid w = Some (w', db', q, er)"
  shows "db_ok cfg db'"
  using a ok
  by (auto simp: Apply_def Let_def intro: recordObservation_ok updatePlan_ok deleteServiceRows_ok
      split: sum.splits option.splits prod.splits if_splits)

lemma Observe_ok: "db_ok cfg db \<Longrightarrow> Observe cfg cl db now sid w = (w', db', ob, er) \<Longrightarrow> db_ok cfg db'"
  by (auto simp: Observe_def Let_def putObservation_ok split: sum.splits prod.splits option.splits if_splits)

lemma exposure_step_ok: "exposure_step cfg cl x y \<Longrightarrow> db_ok cfg (fst x) \<Longrightarrow> db_ok cfg (fst y)"
  by (induction rule: exposure_step.induct)
    (auto intro: Upsert_ok SetExposure_ok Ack_ok Plan_op_ok Delete_op_ok Apply_ok Observe_ok)

text \<open>Here a step is an operation and a state the tables with the world.\<close>

interpretation services: statement_tables "exposure_step cfg cl" "\<lambda>x. db_ok cfg (fst x)" "(empty_exposure_db, w)" for cfg cl w
  by (unfold_locales, simp add: db_ok_empty, erule (1) exposure_step_ok)

lemma exposure_steps_ok: "(exposure_step cfg cl)\<^sup>*\<^sup>* x y \<Longrightarrow> db_ok cfg (fst x) \<Longrightarrow> db_ok cfg (fst y)"
  by (rule services.steps_ok)

lemma reachable_ok: "exposure_reachable cfg cl db w \<Longrightarrow> db_ok cfg db"
  using exposure_steps_ok db_ok_empty by (fastforce simp: exposure_reachable_def)

section \<open>Apply does not dereference nil\<close>

definition runnable :: "'w Clients \<Rightarrow> Step \<Rightarrow> bool" where
  "runnable cl x \<longleftrightarrow> has_payload x \<and> (stepScope (step_Kind x) \<noteq> [] \<longrightarrow> has_scope cl (stepScope (step_Kind x)))"

lemmas step_at_defs = ensure_record_at_def remove_record_at_def ensure_access_at_def remove_access_at_def
  ensure_ingress_at_def remove_ingress_at_def ensure_route_at_def remove_route_at_def

lemma execStep_some: "runnable cl x \<Longrightarrow> execStep cl x w \<noteq> None"
  by (cases "step_Kind x")
    (auto simp: runnable_def has_payload_def stepScope_def has_scope_def execStep_def step_at_defs split: prod.splits)

lemma execStep_keeps: "execStep cl x w = Some (w', r, x') \<Longrightarrow> runnable cl x \<Longrightarrow> runnable cl x'"
  by (cases "step_Kind x")
    (auto simp: runnable_def has_payload_def execStep_def step_at_defs split: prod.splits option.splits)

lemma execStep_runs:
  assumes "runnable cl x"
  shows "\<exists>w' r x'. execStep cl x w = Some (w', r, x') \<and> runnable cl x'"
  using execStep_some [OF assms, of w] execStep_keeps [OF _ assms, of w] by (auto simp: prod_eq_iff)

lemma undoStep_runs:
  assumes "runnable cl x"
  shows "\<exists>w' r x'. undoStep cl x w = Some (w', r, x')"
  using assms
  by (cases "step_Kind x")
    (auto simp: runnable_def has_payload_def stepScope_def has_scope_def undoStep_def step_at_defs split: prod.splits)

lemma exec_steps_runs:
  "list_all (runnable cl) xs \<Longrightarrow>
   \<exists>w' xs' rs f. exec_steps cl i xs w = Some (w', xs', rs, f) \<and> list_all (runnable cl) xs' \<and> length xs' = length xs"
proof (induction xs arbitrary: i w)
  case (Cons x xs)
  obtain w1 r x' where x: "execStep cl x w = Some (w1, r, x')" "runnable cl x'" using execStep_runs Cons.prems by fastforce
  obtain w2 xs' rs f where "exec_steps cl (Suc i) xs w1 = Some (w2, xs', rs, f)" "list_all (runnable cl) xs'" "length xs' = length xs"
    using Cons by fastforce
  then show ?case using x Cons.prems by (cases r) auto
qed simp

lemma undo_steps_runs:
  "list_all (\<lambda>(x, r). runnable cl x) ps \<Longrightarrow> undo_steps cl ps w \<noteq> None"
proof (induction ps arbitrary: w)
  case (Cons p ps)
  obtain x r where p: "p = (x, r)" by fastforce
  obtain w1 s x' where u: "undoStep cl x w = Some (w1, s, x')" using undoStep_runs Cons.prems p by fastforce
  have "\<exists>a b c. undo_steps cl ps v = Some (a, b, c)" for v using Cons by (simp add: not_None_eq split_paired_Ex)
  then obtain a1 b1 c1 a2 b2 c2 where t1: "undo_steps cl ps w = Some (a1, b1, c1)"
    and t2: "undo_steps cl ps w1 = Some (a2, b2, c2)" by metis
  show ?case using p u t1 t2 by (cases s) simp_all
qed simp

lemma rollbackApplied_runs:
  assumes "list_all (runnable cl) xs"
  shows "rollbackApplied cl xs rs w \<noteq> None"
proof -
  have "list_all (\<lambda>(x, r). runnable cl x) (rev (zip xs rs))"
    using assms by (auto simp: list_all_iff dest: set_zip_leftD)
  then show ?thesis using undo_steps_runs by (fastforce simp: rollbackApplied_def split: option.splits)
qed

lemma apply_guard_Inr:
  "apply_guard cl db pid = Inr (plan, svc) \<Longrightarrow> plan \<in> set (db_plans db) \<and> plan_ID plan = pid \<and>
     svc \<in> set (db_services db) \<and> plan_ServiceID plan = svc_ID svc \<and> plan_Status plan = PlanPending \<and>
     plan_ServiceRevision plan = svc_Revision svc \<and>
     (plan_Kind plan = PlanKindExposure \<longrightarrow> plan_ToExposure plan = svc_Exposure svc) \<and>
     (plan_RequiresAck plan \<longrightarrow> (\<exists>ak. getAck db (svc_ID svc) = Some ak \<and> ack_Revision ak = svc_Revision svc)) \<and>
     requireClients cl (plan_Steps plan) = None"
  by (auto simp: apply_guard_def dest: getPlan_Inr getService_Inr split: sum.splits if_splits option.splits)

lemma Apply_runs:
  assumes ok: "db_ok cfg db"
  shows "Apply cfg cl db now pid w \<noteq> None"
proof (cases "apply_guard cl db pid")
  case (Inr ps)
  obtain plan svc where ps: "ps = (plan, svc)" by fastforce
  have g: "plan \<in> set (db_plans db)" "requireClients cl (plan_Steps plan) = None"
    using apply_guard_Inr [of cl db pid plan svc] Inr ps by auto
  then have "list_all (runnable cl) (plan_Steps plan)"
    using ok by (auto simp: db_ok_def runnable_def requireClients_None list_all_iff)
  then obtain w' xs' rs f where ex: "exec_steps cl 0 (plan_Steps plan) w = Some (w', xs', rs, f)" "list_all (runnable cl) xs'"
    using exec_steps_runs [of cl "plan_Steps plan" 0 w] by auto
  then show ?thesis using Inr ps rollbackApplied_runs [OF ex(2), of rs w']
    by (auto simp: Apply_def Let_def split: option.splits prod.splits)
qed (auto simp: Apply_def)

section \<open>What the guard guarantees\<close>

lemma ack_gate:
  assumes ok: "db_ok cfg db" and g: "apply_guard cl db pid = Inr (plan, svc)"
    and k: "plan_Kind plan = PlanKindExposure" and n: "needs_ack svc"
  shows "\<exists>ak. getAck db (svc_ID svc) = Some ak \<and> ack_Revision ak = svc_Revision svc"
  using apply_guard_Inr [OF g] ok k n by (auto simp: db_ok_def plan_current_def)

lemma stale_plan_refused:
  assumes ok: "db_ok cfg db" and p: "p \<in> set (db_plans db)" "plan_ServiceID p = sid"
    and s: "s \<in> set (db_services db)" "svc_ID s = sid"
    and db': "db_plans db' = db_plans db" "getService db' sid = Inr s'" "svc_Revision s < svc_Revision s'"
  shows "\<exists>q er. apply_guard cl db' (plan_ID p) = Inl (q, er) \<and> errors_is er ErrConflict"
proof -
  have "List.find (\<lambda>q. plan_ID q = plan_ID p) (db_plans db) = Some p"
    using ok p(1) by (auto simp: db_ok_def intro: find_distinct_key)
  then have "getPlan db' (plan_ID p) = Inr p" using db' by (simp add: getPlan_def)
  moreover have "plan_ServiceRevision p \<le> svc_Revision s" using ok p s by (auto simp: db_ok_def plan_current_def)
  ultimately show ?thesis using p db' by (auto simp: apply_guard_def)
qed

end
