(* ===== verification/ExposureRollback.thy ===== *)
theory ExposureRollback
  imports ExposureRefine ExposureStates
begin

text \<open>
  Rollback.  undoStep of an applied step is the execution of an inverse step built from the
  snapshot of planning time; prevs says that every inverse undoes its step from where the run
  finds it.  When Apply fails part way and the rollback reports no error, the view of the service
  is what it was before (up to what the comparisons of the controller see).
\<close>

section \<open>Inverse steps\<close>

text \<open>ensureAccess takes the identifier of the live application, so the one in the snapshot does
  not matter when there is a live one.\<close>

definition inverse_step :: "Step \<Rightarrow> Step" where
  "inverse_step x = (case step_Kind x of
      StepDNSEnsure \<Rightarrow> (case step_PrevRecord x of
          Some r \<Rightarrow> x\<lparr>step_Record := Some r\<rparr> | None \<Rightarrow> x\<lparr>step_Kind := StepDNSRemove\<rparr>)
    | StepDNSRemove \<Rightarrow> x\<lparr>step_Kind := StepDNSEnsure\<rparr>
    | StepAccessEnsure \<Rightarrow> (case step_PrevApp x of
          Some ap \<Rightarrow> x\<lparr>step_App := Some (ap\<lparr>app_ID := []\<rparr>)\<rparr> | None \<Rightarrow> x\<lparr>step_Kind := StepAccessRemove\<rparr>)
    | StepAccessRemove \<Rightarrow> x\<lparr>step_Kind := StepAccessEnsure\<rparr>
    | StepIngressEnsure \<Rightarrow> (case step_PrevRule x of
          Some r \<Rightarrow> x\<lparr>step_Rule := Some r\<rparr> | None \<Rightarrow> x\<lparr>step_Kind := StepIngressRemove\<rparr>)
    | StepIngressRemove \<Rightarrow> x\<lparr>step_Kind := StepIngressEnsure\<rparr>
    | StepEdgeEnsure \<Rightarrow> (case step_PrevRoute x of
          Some r \<Rightarrow> x\<lparr>step_Route := Some r\<rparr> | None \<Rightarrow> x\<lparr>step_Kind := StepEdgeRemove\<rparr>)
    | StepEdgeRemove \<Rightarrow> x\<lparr>step_Kind := StepEdgeEnsure\<rparr>
    | StepUnknown _ \<Rightarrow> x)"

lemma list_all2_sym: "(\<And>x y. R x y \<Longrightarrow> R y x) \<Longrightarrow> list_all2 R ps qs \<Longrightarrow> list_all2 R qs ps"
  by (simp add: list_all2_conv_all_nth)

lemma accessAppsEqual_sym: "accessAppsEqual x y \<Longrightarrow> accessAppsEqual y x"
proof (cases x; cases y)
  fix u v
  assume "accessAppsEqual x y" and xy: "x = Some u" "y = Some v"
  then have e: "app_Name u = app_Name v" "app_Hostname u = app_Hostname v" and
    l: "list_all2 (\<lambda>p q. pol_Name p = pol_Name q \<and> mset (pol_Include p) = mset (pol_Include q)) (app_Policies u) (app_Policies v)"
    by (simp_all add: accessAppsEqual_Some)
  have "list_all2 (\<lambda>p q. pol_Name p = pol_Name q \<and> mset (pol_Include p) = mset (pol_Include q)) (app_Policies v) (app_Policies u)"
    using l by (rule list_all2_sym [rotated]) simp
  then show ?thesis using e xy by (simp add: accessAppsEqual_Some)
qed simp_all

lemma vsim_sym: "vsim u v \<Longrightarrow> vsim v u"
proof -
  have "rec_sim x y \<Longrightarrow> rec_sim y x" for x y unfolding rec_sim_def using recordMatches_sym by blast
  moreover have "app_sim x y \<Longrightarrow> app_sim y x" for x y unfolding app_sim_def using accessAppsEqual_sym by blast
  ultimately show "vsim u v \<Longrightarrow> vsim v u" unfolding vsim_def by metis
qed

text \<open>A step after its execution has the same inverse, up to the identifier of the record.\<close>

definition same_step :: "Step \<Rightarrow> Step \<Rightarrow> bool" where
  "same_step x y \<longleftrightarrow> x = y \<or> (step_Kind x = StepDNSEnsure \<and>
     (\<exists>r i. step_Record x = Some r \<and> y = x\<lparr>step_Record := Some (r\<lparr>rec_ID := i\<rparr>)\<rparr>))"

lemma execStep_same: "execStep cl x w = Some (w', res, x') \<Longrightarrow> same_step x x'"
proof (cases "step_Kind x = StepDNSEnsure")
  case True
  assume ex: "execStep cl x w = Some (w', res, x')"
  then obtain c r where cr: "cl_DNS cl = Some c" "step_Record x = Some r"
    using True by (auto simp: execStep_def ensure_record_at_def split: option.splits)
  obtain w1 q r' where e: "ensureRecord c r w = (w1, q, r')" by (metis prod_cases3)
  then have "r' = r \<or> (\<exists>i. r' = r\<lparr>rec_ID := i\<rparr>)"
    by (auto simp: ensureRecord_def split: prod.splits sum.splits option.splits if_splits)
  then have "x' = x \<or> (\<exists>i. x' = x\<lparr>step_Record := Some (r\<lparr>rec_ID := i\<rparr>)\<rparr>)"
    using ex True cr e by (auto simp: execStep_def ensure_record_at_def)
  then show ?thesis using True cr by (auto simp: same_step_def)
qed (auto simp: same_step_def execStep_def step_at_defs split: StepKind.splits option.splits prod.splits)

lemma inverse_same:
  assumes "same_step x x'"
  shows "step_view svc (inverse_step x') = step_view svc (inverse_step x)"
    and "payload_ok okrule okapp okroute (inverse_step x') = payload_ok okrule okapp okroute (inverse_step x)"
  using assms
  by (cases "step_PrevRecord x"; force simp: same_step_def inverse_step_def step_view_def payload_ok_def)+

section \<open>The statuses of a step\<close>

lemma execStep_status:
  assumes "execStep cl x w = Some (w', Inr s, x')"
  shows "s = StatusApplied \<or> s = StatusUnchanged"
  using assms
  by (auto simp: execStep_def step_at_defs ensureRecord_def removeRecord_def ensureAccess_def removeAccess_def
      ensureIngress_def removeIngress_def ensureRoute_def removeRoute_def Let_def
      split: StepKind.splits option.splits prod.splits sum.splits if_splits)

section \<open>Runs that can be undone\<close>

fun prevs :: "(Step \<Rightarrow> bool) \<Rightarrow> ServiceRecord \<Rightarrow> Step list \<Rightarrow> view \<Rightarrow> bool" where
  "prevs pok svc [] v \<longleftrightarrow> True"
| "prevs pok svc (x # xs) v \<longleftrightarrow>
     (xs \<noteq> [] \<longrightarrow> pok (inverse_step x) \<and> vsim (step_view svc (inverse_step x) (step_view svc x v)) v \<and>
        (step_Kind x = StepAccessEnsure \<longrightarrow> v_app (step_view svc x v) \<noteq> None \<and>
           pred_option (\<lambda>ap. equal_fold (app_Hostname ap) (svc_Hostname svc)) (step_PrevApp x)) \<and>
        step_Kind x \<noteq> StepAccessRemove) \<and>
     prevs pok svc xs (step_view svc x v)"

lemma prevs_butlast:
  "prevs pok svc (xs @ [x]) v \<Longrightarrow> prevs pok svc xs v"
  by (induction xs arbitrary: v) auto

lemma undo_steps_append:
  "undo_steps cl (ps @ qs) w = (case undo_steps cl ps w of None \<Rightarrow> None
     | Some (w1, ps', f) \<Rightarrow> (case undo_steps cl qs w1 of None \<Rightarrow> None
         | Some (w2, qs', g) \<Rightarrow> Some (w2, ps' @ qs', case f of Some e \<Rightarrow> Some e | None \<Rightarrow> g)))"
proof (induction ps arbitrary: w)
  case (Cons p ps)
  obtain x r where p: "p = (x, r)" by fastforce
  show ?case using Cons by (auto simp: p split: option.splits prod.splits sum.splits)
qed (auto split: option.splits prod.splits)

context exposure_clients
begin

lemma ensureAccess_strip:
  assumes "wf w" "trim_space (app_Hostname ap) = app_Hostname ap" "findApp (ls_apps (st w)) (app_Hostname ap) \<noteq> None"
  shows "ensureAccess a (ap\<lparr>app_ID := []\<rparr>) w = ensureAccess a ap w"
proof -
  obtain w1 l where l: "GetApplication a (app_Hostname ap) w = (w1, l)" by fastforce
  have eq: "accessAppsEqual (Some c) (Some (ap\<lparr>app_ID := []\<rparr>)) = accessAppsEqual (Some c) (Some ap)" for c
    by (simp add: accessAppsEqual_Some)
  show ?thesis using get_app [OF assms(1,2) l] assms(3) l
    by (cases l) (auto simp: ensureAccess_def eq)
qed

text \<open>Undoing is executing the inverse.\<close>

lemma undoStep_inverse:
  assumes "wf w" "payload_ok okrule okapp okroute (inverse_step x)" "step_Kind x \<noteq> StepAccessRemove"
    "step_Kind x = StepAccessEnsure \<Longrightarrow> pred_option (\<lambda>ap. findApp (ls_apps (st w)) (app_Hostname ap) \<noteq> None) (step_PrevApp x)"
    and "execStep (all_clients d t a e) (inverse_step x) w = Some (w', res, x1)"
  shows "\<exists>x'. undoStep (all_clients d t a e) x w = Some (w', res, x')"
proof (cases "step_Kind x = StepAccessEnsure \<and> step_PrevApp x \<noteq> None")
  case True
  then obtain ap where ap: "step_PrevApp x = Some ap" by blast
  have "trim_space (app_Hostname ap) = app_Hostname ap"
    using assms(2) True ap by (simp add: inverse_step_def payload_ok_def)
  then have "ensureAccess a (ap\<lparr>app_ID := []\<rparr>) w = ensureAccess a ap w"
    using ensureAccess_strip assms(1,4) True ap by simp
  then show ?thesis using assms(5) True ap
    by (auto simp: undoStep_def execStep_def inverse_step_def ensure_access_at_def split: prod.splits)
next
  case False
  then show ?thesis using assms(3,5)
    by (cases "step_Kind x"; cases "step_PrevRecord x"; cases "step_PrevRule x"; cases "step_PrevRoute x")
      (auto simp: undoStep_def execStep_def inverse_step_def step_at_defs split: prod.splits option.splits)
qed

lemma undoStep_effect:
  assumes "wf w" "uniq (st w)" "payload_ok okrule okapp okroute (inverse_step x)" "step_Kind x \<noteq> StepAccessRemove"
    "step_Kind x = StepAccessEnsure \<Longrightarrow> pred_option (\<lambda>ap. findApp (ls_apps (st w)) (app_Hostname ap) \<noteq> None) (step_PrevApp x)"
  shows "\<exists>w' res x'. undoStep (all_clients d t a e) x w = Some (w', res, x') \<and>
    view_effect svc (step_view svc (inverse_step x)) w w' res"
  using execStep_effect [OF assms(1-3)] undoStep_inverse [OF assms(1,3-5)] by metis

lemma execStep_unchanged:
  assumes "wf w" "payload_ok okrule okapp okroute x"
    "execStep (all_clients d t a e) x w = Some (w', Inr StatusUnchanged, x')"
  shows "st w' = st w"
  using assms
  by (auto simp: execStep_def step_at_defs ensureRecord_def removeRecord_def ensureAccess_def removeAccess_def
      ensureIngress_def removeIngress_def ensureRoute_def removeRoute_def Let_def payload_ok_def
      dest: list_records list_ingress list_routes get_app [OF assms(1)]
      split: StepKind.splits option.splits prod.splits sum.splits if_splits)

lemma undo_one:
  assumes x': "same_step x x'" and w: "wf w" "uniq (st w)" and g: "vsim (live_view svc (st w)) (step_view svc x g)"
    and pv: "prevs (payload_ok okrule okapp okroute) svc (x # xs) g" "xs \<noteq> []" and r: "res_Status r = StatusApplied"
    and u: "undo_steps (all_clients d t a e) [(x', r)] w = Some (w', ps, None)"
  shows "wf w' \<and> uniq (st w') \<and> vsim (live_view svc (st w')) g"
proof -
  have k: "step_Kind x' = step_Kind x" "step_PrevApp x' = step_PrevApp x" using x' by (auto simp: same_step_def)
  have pok: "payload_ok okrule okapp okroute (inverse_step x')" and nr: "step_Kind x' \<noteq> StepAccessRemove"
    using pv inverse_same(2) [OF x'] k by auto
  have app: "pred_option (\<lambda>ap. findApp (ls_apps (st w)) (app_Hostname ap) \<noteq> None) (step_PrevApp x')"
    if "step_Kind x' = StepAccessEnsure"
  proof -
    have "app_sim (v_app (live_view svc (st w))) (v_app (step_view svc x g))" using g by (simp add: vsim_def)
    moreover have "v_app (step_view svc x g) \<noteq> None" using pv that k by simp
    ultimately have "v_app (live_view svc (st w)) \<noteq> None" by (cases "v_app (live_view svc (st w))") auto
    then have "findApp (ls_apps (st w)) h \<noteq> None" if "equal_fold h (svc_Hostname svc)" for h
      using that by (simp add: live_view_def findApp_key equal_fold_def)
    then show ?thesis using pv that k by (auto simp: pred_option_def)
  qed
  obtain w1 res y where un: "undoStep (all_clients d t a e) x' w = Some (w1, res, y)"
    and eff: "view_effect svc (step_view svc (inverse_step x')) w w1 res"
    using undoStep_effect [OF w pok nr app] by blast
  obtain q where res: "res = Inr q" "w' = w1" using u un r by (cases res) auto
  then have "wf w'" "uniq (st w')" "vsim (live_view svc (st w')) (step_view svc (inverse_step x) (live_view svc (st w)))"
    using eff inverse_same(1) [OF x'] by (auto simp: view_effect_def)
  moreover have "vsim (step_view svc (inverse_step x) (live_view svc (st w))) (step_view svc (inverse_step x) (step_view svc x g))"
    using g by (rule step_view_vsim)
  ultimately show ?thesis using pv by (auto intro: vsim_trans)
qed

lemma undo_steps_restore:
  "wf w \<Longrightarrow> uniq (st w) \<Longrightarrow> list_all (payload_ok okrule okapp okroute) xs \<Longrightarrow>
   prevs (payload_ok okrule okapp okroute) svc xs g \<Longrightarrow> vsim (live_view svc (st w)) g \<Longrightarrow>
   exec_steps (all_clients d t a e) i xs w = Some (w1, ys, rs, Some f) \<Longrightarrow>
   undo_steps (all_clients d t a e) (rev (zip ys rs)) w1 = Some (w2, ps, None) \<Longrightarrow>
   wf w2 \<and> uniq (st w2) \<and> vsim (live_view svc (st w2)) g"
proof (induction xs arbitrary: i w g w1 ys rs w2 ps)
  case (Cons x xs)
  have px: "payload_ok okrule okapp okroute x" "list_all (payload_ok okrule okapp okroute) xs" using Cons.prems(3) by auto
  obtain v res x' where x: "execStep (all_clients d t a e) x w = Some (v, res, x')"
    and eff: "view_effect svc (step_view svc x) w v res"
    using execStep_effect [OF Cons.prems(1,2) px(1)] by blast
  show ?case
  proof (cases res)
    case (Inl er)
    then have "w1 = v" "ys = x' # xs" "rs = [step_result i x StatusFailed (err_msg er)]" using Cons.prems(6) x by auto
    then have "w2 = v" using Cons.prems(7) by (auto simp: step_result_def)
    then show ?thesis using eff Inl Cons.prems by (simp add: view_effect_def)
  next
    case (Inr q)
    then obtain ys' rs' where e: "exec_steps (all_clients d t a e) (Suc i) xs v = Some (w1, ys', rs', Some f)"
      and ys: "ys = x' # ys'" "rs = step_result i x q [] # rs'"
      using Cons.prems(6) x by (auto split: option.splits prod.splits)
    have xs: "xs \<noteq> []" using e by auto
    let ?g = "step_view svc x g"
    have v: "wf v" "uniq (st v)" "vsim (live_view svc (st v)) ?g"
      using eff Inr vsim_trans step_view_vsim [OF Cons.prems(5)] by (auto simp: view_effect_def)
    obtain w3 ps1 ps2 where u: "undo_steps (all_clients d t a e) (rev (zip ys' rs')) w1 = Some (w3, ps1, None)"
      "undo_steps (all_clients d t a e) [(x', step_result i x q [])] w3 = Some (w2, ps2, None)"
      using Cons.prems(7) ys by (auto simp: undo_steps_append simp del: undo_steps.simps split: option.splits prod.splits)
    have I: "wf w3" "uniq (st w3)" "vsim (live_view svc (st w3)) ?g"
      using Cons.IH [OF v(1,2) px(2) _ v(3) e u(1)] Cons.prems(4) by auto
    show ?thesis
    proof (cases "q = StatusApplied")
      case True
      then show ?thesis
        using undo_one [OF execStep_same [OF x] I Cons.prems(4) xs _ u(2)] by (simp add: step_result_def)
    next
      case False
      then have q: "q = StatusUnchanged" using execStep_status [of _ x w v q x'] x Inr by blast
      then have "st v = st w" using execStep_unchanged [OF Cons.prems(1) px(1)] x Inr by blast
      then have "vsim ?g g" using v(3) Cons.prems(5) vsim_sym vsim_trans by metis
      moreover have "w2 = w3" using u(2) q by (auto simp: step_result_def)
      ultimately show ?thesis using I vsim_trans by blast
    qed
  qed
qed simp

end

section \<open>Planned transitions can be undone\<close>

text \<open>What rollback may have to store again: the observed rule, gate and route.\<close>

definition restorable ::
  "(IngressRule \<Rightarrow> bool) \<Rightarrow> (AccessApp \<Rightarrow> bool) \<Rightarrow> (Route \<Rightarrow> bool) \<Rightarrow> Observation \<Rightarrow> bool" where
  "restorable okrule okapp okroute obs \<longleftrightarrow> pred_option okrule (obs_TunnelIngress obs) \<and>
     pred_option (\<lambda>ap. okapp (ap\<lparr>app_ID := []\<rparr>) \<and> trim_space (app_Hostname ap) = app_Hostname ap) (obs_AccessApp obs) \<and>
     pred_option okroute (obs_EdgeRoute obs)"

fun prevs_all :: "(Step \<Rightarrow> bool) \<Rightarrow> ServiceRecord \<Rightarrow> Step list \<Rightarrow> view \<Rightarrow> bool" where
  "prevs_all pok svc [] v \<longleftrightarrow> True"
| "prevs_all pok svc (x # xs) v \<longleftrightarrow>
     pok (inverse_step x) \<and> vsim (step_view svc (inverse_step x) (step_view svc x v)) v \<and>
     (step_Kind x = StepAccessEnsure \<longrightarrow> v_app (step_view svc x v) \<noteq> None \<and>
        pred_option (\<lambda>ap. equal_fold (app_Hostname ap) (svc_Hostname svc)) (step_PrevApp x)) \<and>
     step_Kind x \<noteq> StepAccessRemove \<and> prevs_all pok svc xs (step_view svc x v)"

lemma prevs_append: "prevs_all pok svc xs v \<Longrightarrow> prevs pok svc ys (run_view svc xs v) \<Longrightarrow> prevs pok svc (xs @ ys) v"
  by (induction xs arbitrary: v) auto

lemma prevs_short: "length xs \<le> Suc 0 \<Longrightarrow> prevs pok svc xs v"
  by (cases xs) auto

lemma prevs_blocks:
  assumes o: "obs_for svc obs" and s: "storable okrule okapp okroute cfg svc" and b: "restorable okrule okapp okroute obs"
  defines "pok \<equiv> payload_ok okrule okapp okroute" and "des \<equiv> desiredFor cfg svc"
  shows "v_anchor v = obs_AnchorDNS obs \<Longrightarrow> prevs_all pok svc (anchor_block svc obs des) v"
    and "v_route v = obs_EdgeRoute obs \<Longrightarrow> prevs_all pok svc (edge_block svc obs des) v"
    and "v_app v = obs_AccessApp obs \<Longrightarrow> prevs_all pok svc (gate_block cfg svc obs des) v"
    and "v_ingress v = obs_TunnelIngress obs \<Longrightarrow> prevs_all pok svc (ingress_block svc obs des) v"
    and "v_vanity v = obs_VanityDNS obs \<Longrightarrow> prevs_all pok svc (vanity_block svc obs des) v"
    and "(svc_Exposure svc = ExposurePrivate \<Longrightarrow> v_ingress v = obs_TunnelIngress obs) \<Longrightarrow>
      prevs_all pok svc (ingress_cleanup svc obs des) v"
proof -
  note defs = pok_def des_def inverse_step_def step_view_def payload_ok_def vsim_def set_record_def set_rule_def set_app_def set_route_def
  show "v_anchor v = obs_AnchorDNS obs \<Longrightarrow> prevs_all pok svc (anchor_block svc obs des) v"
    using o by (cases "obs_AnchorDNS obs") (auto simp: anchor_block_def defs obs_for_def)
  show "v_route v = obs_EdgeRoute obs \<Longrightarrow> prevs_all pok svc (edge_block svc obs des) v"
    using o b by (cases "obs_EdgeRoute obs") (auto simp: edge_block_def defs obs_for_def restorable_def)
  show "v_app v = obs_AccessApp obs \<Longrightarrow> prevs_all pok svc (gate_block cfg svc obs des) v"
    using o b s by (cases "obs_AccessApp obs")
      (auto simp: gate_block_def defs obs_for_def restorable_def storable_def app_sim_def)
  show "v_ingress v = obs_TunnelIngress obs \<Longrightarrow> prevs_all pok svc (ingress_block svc obs des) v"
    using o b by (cases "obs_TunnelIngress obs") (auto simp: ingress_block_def defs obs_for_def restorable_def)
  show "v_vanity v = obs_VanityDNS obs \<Longrightarrow> prevs_all pok svc (vanity_block svc obs des) v"
    using o by (cases "obs_VanityDNS obs") (auto simp: vanity_block_def defs obs_for_def)
  show "(svc_Exposure svc = ExposurePrivate \<Longrightarrow> v_ingress v = obs_TunnelIngress obs) \<Longrightarrow>
      prevs_all pok svc (ingress_cleanup svc obs des) v"
    using o b by (cases "obs_TunnelIngress obs") (auto simp: ingress_cleanup_def defs obs_for_def restorable_def)
qed

lemma exposureSteps_prevs:
  assumes o: "obs_for svc obs" and s: "storable okrule okapp okroute cfg svc" and b: "restorable okrule okapp okroute obs"
  shows "prevs (payload_ok okrule okapp okroute) svc (exposureSteps cfg svc obs (desiredFor cfg svc)) (view_of obs)"
  unfolding exposureSteps_def
  by (intro prevs_append prevs_blocks [OF o s b] prevs_short block_length)
    (auto simp: run_blocks o view_of_def)

text \<open>The operation as a whole.\<close>

context exposure_clients
begin

lemma recordObservation_live:
  assumes "wf w" "trim_space (svc_Hostname svc) = svc_Hostname svc"
    "recordObservation cfg cl db now svc p w = (w', db')"
  shows "wf w' \<and> st w' = st w"
proof -
  obtain w1 ob ms er where pr: "probe cl now svc w = (w1, ob, ms, er)" by (metis prod_cases4)
  show ?thesis using probe_live [OF assms(1,2) pr] assms(3) pr
    by (auto simp: recordObservation_def Let_def split: option.splits)
qed

lemma Apply_rolled_back:
  assumes w: "wf w" "uniq (st w)" and s: "storable okrule okapp okroute cfg svc" and b: "restorable okrule okapp okroute obs"
    and plan: "getPlan db pid = Inr plan"
    and svc: "getService db (plan_ServiceID plan) = Inr svc"
    and obs: "view_of obs = live_view svc (st w)" "plan_Steps plan = exposureSteps cfg svc obs (desiredFor cfg svc)"
    and ap: "Apply cfg cl db now pid w = Some (w', db', Some p, Some er)" "plan_Status p = PlanRolledBack"
    and g: "apply_guard cl db pid = Inr (plan, svc)"
  shows "wf w' \<and> uniq (st w') \<and> vsim (live_view svc (st w')) (live_view svc (st w))"
proof -
  have of: "obs_for svc obs" using obs(1) by (rule live_view_obs_for)
  obtain w1 xs rs f where ex: "exec_steps cl 0 (plan_Steps plan) w = Some (w1, xs, rs, f)"
    using ap g by (auto simp: Apply_def split: option.splits)
  obtain je where f: "f = Some je" using ap g ex by (cases f) (auto simp: Apply_def Let_def split: prod.splits if_splits)
  obtain w2 ps fe where u: "undo_steps cl (rev (zip xs rs)) w1 = Some (w2, ps, fe)"
    using ap g ex f by (auto simp: Apply_def rollbackApplied_def split: option.splits prod.splits)
  have fe: "fe = None"
    using ap g ex f u by (cases fe) (auto simp: Apply_def rollbackApplied_def failed_plan_def Let_def split: prod.splits)
  have r: "\<exists>q db0. recordObservation cfg cl db0 now svc q w2 = (w', db')"
    using ap(1) g ex f u by (auto simp: Apply_def rollbackApplied_def Let_def split: prod.splits)
  have "wf w2 \<and> uniq (st w2) \<and> vsim (live_view svc (st w2)) (live_view svc (st w))"
    using undo_steps_restore [OF w exposureSteps_payload [OF s of] exposureSteps_prevs [OF of s b]]
      ex [unfolded obs(2) f] u [unfolded fe] obs(1) by (metis vsim_refl)
  moreover have "trim_space (svc_Hostname svc) = svc_Hostname svc" using s by (simp add: storable_def)
  ultimately show ?thesis using r recordObservation_live by metis
qed

end

end
