(* ===== verification/ExposureProps.thy ===== *)
theory ExposureProps
  imports ExposureDemo ExposureRollback
begin


text \<open>
  The properties of the exposure controller, each with a witness on the deployment of
  ExposureDemo.  The proofs apply the lemmas of the component theories; the contract of the
  clients enters as the locale predicate exposure_clients, which CloudServer interprets on the
  adapters of internal/cloudflare.
\<close>

section \<open>Shared helpers\<close>

lemma settled_reach:
  assumes "settled_view cfg svc v" "Exposure_Valid (svc_Exposure svc)"
  shows "reach cfg v = svc_Exposure svc"
proof -
  have "v_app v = None \<longleftrightarrow> svc_Exposure svc \<noteq> ExposureShared"
    using assms(1) by (cases "v_app v"; auto simp: settled_view_def split: if_splits)
  moreover have "v_ingress v = None \<longleftrightarrow> svc_Exposure svc = ExposurePrivate"
    using assms(1) by (auto simp: settled_view_def split: if_splits)
  moreover have "\<exists>r. v_vanity v = Some r \<and> (svc_Exposure svc \<noteq> ExposurePrivate \<longrightarrow> rec_Content r = cfg_TunnelDNS cfg \<and> rec_Proxied r)"
    using assms(1) by (cases "v_vanity v") (auto simp: settled_view_def recordMatches_Some)
  ultimately show ?thesis using assms(2)
    by (auto simp: reach_def tunnelled_def Exposure_Valid_def)
qed

lemma cloud_contract:
  "exposure_clients (dns_client cloud_remote zone_id) (tunnel_client cloud_remote account_id tunnel_id)
     (access_client cloud_remote account_id) (edge_client cloud_remote) cloud_live cloud_wf
     canonical_rule canonical_app canonical_route"
  by (rule cloud.exposure_clients_axioms)

text \<open>The plan the demonstration deployment gets, and what is left of the state after planning.\<close>

definition demo_planned :: "exposure \<Rightarrow> cloud \<Rightarrow> cloud \<times> exposure_db \<times> Plan result" where
  "demo_planned ex w = Plan_op demo_cfg cloud_clients (demo_db ex) ''p'' 2 ''s'' w"

definition demo_plan :: "exposure \<Rightarrow> cloud \<Rightarrow> Plan" where
  "demo_plan ex w = projr (snd (snd (demo_planned ex w)))"

definition demo_applied :: "exposure \<Rightarrow> cloud \<Rightarrow> (cloud \<times> exposure_db \<times> Plan option \<times> goerror option) option" where
  "demo_applied ex w = Apply demo_cfg cloud_clients (fst (snd (demo_planned ex w))) 3 ''p'' (fst (demo_planned ex w))"

lemma demo_plan_ok: "isl (snd (snd (demo_planned ExposureShared demo_cloud))) = False"
  by code_simp

lemma demo_applied_ok:
  "(case demo_applied ExposureShared demo_cloud of Some (w, db, Some p, None) \<Rightarrow> True | _ \<Rightarrow> False)"
  by code_simp


definition demo_steps :: "exposure \<Rightarrow> cloud \<Rightarrow> Step list" where
  "demo_steps ex w = exposureSteps demo_cfg (demo_svc ex) (demo_obs (demo_svc ex) w) (desiredFor demo_cfg (demo_svc ex))"

lemma cloud_clients_all:
  "all_clients (dns_client cloud_remote zone_id) (tunnel_client cloud_remote account_id tunnel_id)
     (access_client cloud_remote account_id) (edge_client cloud_remote) = cloud_clients"
  by (simp add: cloud_clients_def)

lemma demo_exposures [simp]: "svc_Exposure (demo_svc ex) = ex"
  by (simp add: demo_svc_def)

lemma demo_valid: "Exposure_Valid ExposureShared" "Exposure_Valid ExposurePublic"
  by code_simp+

section \<open>Exposure transitions\<close>






text \<open>The edge rejects the reload: the second step fails and the anchor is removed again.\<close>

definition demo_broken :: cloud where
  "demo_broken = demo_cloud\<lparr>cloud_reload := 500\<rparr>"

lemma demo_broken_facts: "cloud_wf demo_broken" "uniq (cloud_live demo_broken)"
  "restorable canonical_rule canonical_app canonical_route (demo_obs (demo_svc ExposureShared) demo_broken)"
  by code_simp+ simp



section \<open>A history\<close>

definition demo_input :: UpsertInput where
  "demo_input = \<lparr>in_Hostname = ''a.b.c'', in_Upstream = ''http://u:1'', in_TunnelOrigin = ''http://o'',
     in_Exposure = ExposurePublic, in_AppAuth = AuthNone\<rparr>"

definition demo_db1 :: exposure_db where
  "demo_db1 = fst (UpsertService demo_cfg empty_exposure_db ''s'' 1 demo_input)"

definition demo_db2 :: exposure_db where
  "demo_db2 = fst (snd (Plan_op demo_cfg cloud_clients demo_db1 ''p'' 2 ''s'' demo_cloud))"

definition demo_world2 :: cloud where
  "demo_world2 = fst (Plan_op demo_cfg cloud_clients demo_db1 ''p'' 2 ''s'' demo_cloud)"

lemma demo_reachable: "exposure_reachable demo_cfg cloud_clients demo_db2 demo_world2"
proof -
  have f: "''s'' \<notin> used_ids empty_exposure_db" "''p'' \<notin> used_ids demo_db1" by code_simp+
  have "exposure_step demo_cfg cloud_clients (empty_exposure_db, demo_cloud) (demo_db1, demo_cloud)"
    by (rule step_upsert [OF f(1), of _ 1 demo_input _ "snd (UpsertService demo_cfg empty_exposure_db ''s'' 1 demo_input)"])
      (simp add: demo_db1_def)
  moreover have "exposure_step demo_cfg cloud_clients (demo_db1, demo_cloud) (demo_db2, demo_world2)"
    by (rule step_plan [OF f(2), of _ _ 2 "''s''" _ _ _ "snd (snd (Plan_op demo_cfg cloud_clients demo_db1 ''p'' 2 ''s'' demo_cloud))"])
      (simp add: demo_db2_def demo_world2_def)
  ultimately show ?thesis unfolding exposure_reachable_def
    by (meson converse_rtranclp_into_rtranclp rtranclp.rtrancl_refl)
qed

definition demo_pair :: "exposure_db \<Rightarrow> bool" where
  "demo_pair db \<longleftrightarrow> (case (db_plans db, db_services db, db_acks db) of
     ([p], [s], []) \<Rightarrow> plan_Kind p = PlanKindExposure \<and> plan_ServiceID p = ''s'' \<and> svc_ID s = ''s'' \<and> plan_ID p = ''p'' \<and> needs_ack s
   | _ \<Rightarrow> False)"

lemma demo_pair: "demo_pair demo_db2"
  by code_simp

lemma demo_db2_facts:
  "\<exists>p s. db_plans demo_db2 = [p] \<and> db_services demo_db2 = [s] \<and> plan_Kind p = PlanKindExposure \<and> plan_ServiceID p = ''s'' \<and>
     svc_ID s = ''s'' \<and> plan_ID p = ''p'' \<and> needs_ack s \<and> getAck demo_db2 ''s'' = None"
  using demo_pair by (auto simp: demo_pair_def getAck_def split: list.splits)

text \<open>
  C4: In every reachable state, Apply of an exposure plan of a service that desires public
  exposure and does not authenticate its users is refused without touching a client or a table,
  unless the operator acknowledged exactly the current revision.
\<close>

theorem public_needs_acknowledgement:
  assumes "exposure_reachable cfg cl db w"
    and "p \<in> set (db_plans db)" "plan_Kind p = PlanKindExposure"
    and "s \<in> set (db_services db)" "plan_ServiceID p = svc_ID s" "needs_ack s"
    and "\<forall>ak. getAck db (svc_ID s) = Some ak \<longrightarrow> ack_Revision ak \<noteq> svc_Revision s"
  shows "\<exists>er. Apply cfg cl db now (plan_ID p) w = Some (w, db, Some p, Some er) \<and>
    (errors_is er ErrConflict \<or> errors_is er ErrAcknowledgementRequired)"
proof -
  have ok: "db_ok cfg db" using assms(1) by (rule reachable_ok)
  have p: "getPlan db (plan_ID p) = Inr p" and s: "getService db (svc_ID s) = Inr s"
    using ok assms(2,4) by (auto simp: db_ok_def getPlan_def getService_def find_distinct_key)
  have "plan_RequiresAck p" if "plan_ServiceRevision p = svc_Revision s"
    using ok assms(2-6) that by (auto simp: db_ok_def plan_current_def)
  then show ?thesis using p s assms(5,7)
    by (auto simp: Apply_def apply_guard_def split: option.splits)
qed

theorem public_needs_acknowledgement_witness:
  "\<exists>p er. Apply demo_cfg cloud_clients demo_db2 3 ''p'' demo_world2 = Some (demo_world2, demo_db2, Some p, Some er) \<and>
    (errors_is er ErrConflict \<or> errors_is er ErrAcknowledgementRequired)"
proof -
  obtain p s where ps: "db_plans demo_db2 = [p]" "db_services demo_db2 = [s]" "plan_Kind p = PlanKindExposure"
    "plan_ServiceID p = ''s''" "svc_ID s = ''s''" "plan_ID p = ''p''" "needs_ack s" "getAck demo_db2 ''s'' = None"
    using demo_db2_facts by blast
  then show ?thesis
    using public_needs_acknowledgement [OF demo_reachable, of p s 3] by auto
qed

lemma getService_updateService:
  assumes "getService db i = Inr s" "svc_ID r = i" "svc_Hostname r = svc_Hostname s"
    "svc_HomeAnchor r = svc_HomeAnchor s" "svc_CreatedAt r = svc_CreatedAt s"
  shows "getService (updateService db r) i = Inr r"
proof -
  have s: "svc_ID s = i" "List.find (\<lambda>x. svc_ID x = i) (db_services db) = Some s"
    using getService_Inr [OF assms(1)] assms(1) by (simp_all add: getService_def split: option.splits)
  let ?f = "\<lambda>x :: ServiceRecord. x\<lparr>svc_Upstream := svc_Upstream r, svc_TunnelOrigin := svc_TunnelOrigin r,
      svc_Exposure := svc_Exposure r, svc_AppAuth := svc_AppAuth r, svc_Revision := svc_Revision r, svc_UpdatedAt := svc_UpdatedAt r\<rparr>"
  have "List.find (\<lambda>x. svc_ID x = i) (update_where (\<lambda>x. svc_ID x = i) ?f (db_services db)) =
      map_option ?f (List.find (\<lambda>x. svc_ID x = i) (db_services db))"
    by (subst find_update_where_key) simp_all
  moreover have "?f s = r" using s(1) assms(2-5) by (intro ServiceRecord.equality) simp_all
  ultimately show ?thesis using s(2) assms(2) by (simp add: getService_def updateService_def)
qed

theorem changed_service_voids_plans:
  assumes "exposure_reachable cfg cl db w" "p \<in> set (db_plans db)" "plan_ServiceID p = sid"
    and "SetExposure db now sid ex = (db', Inr s')" "db' \<noteq> db"
  shows "\<exists>q er. Apply cfg cl db' now' (plan_ID p) w = Some (w, db', q, Some er) \<and> errors_is er ErrConflict"
proof -
  have ok: "db_ok cfg db" using assms(1) by (rule reachable_ok)
  obtain s where g: "getService db sid = Inr s"
    using assms(4) by (cases "getService db sid") (simp_all add: SetExposure_def split: if_splits)
  let ?s = "s\<lparr>svc_Exposure := ex, svc_Revision := svc_Revision s + 1, svc_UpdatedAt := now\<rparr>"
  have "updateService db ?s = db' \<and> ?s = s'"
    using assms(4,5) g by (simp add: SetExposure_def Let_def split: if_splits) metis
  then have s: "db' = updateService db s'" "s' = ?s" by blast+
  have m: "s \<in> set (db_services db)" "svc_ID s = sid" using getService_Inr [OF g] by simp_all
  have "getService db' sid = Inr s'"
    unfolding s(1) by (rule getService_updateService [OF g]) (simp_all add: s(2) m(2))
  then show ?thesis
    using stale_plan_refused [OF ok assms(2,3) m, of db' s' cl] by (auto simp: Apply_def s updateService_def)
qed

lemma demo_set: "case SetExposure demo_db2 3 ''s'' ExposureShared of (db', Inr s') \<Rightarrow> db_services db' \<noteq> db_services demo_db2 | _ \<Rightarrow> False"
  by code_simp

theorem changed_service_voids_plans_witness:
  "\<exists>q er. Apply demo_cfg cloud_clients (fst (SetExposure demo_db2 3 ''s'' ExposureShared)) 4 ''p'' demo_world2 =
     Some (demo_world2, fst (SetExposure demo_db2 3 ''s'' ExposureShared), q, Some er) \<and> errors_is er ErrConflict"
proof -
  obtain db' s' where s: "SetExposure demo_db2 3 ''s'' ExposureShared = (db', Inr s')" "db' \<noteq> demo_db2"
    using demo_set by (auto split: prod.splits sum.splits)
  obtain p where "p \<in> set (db_plans demo_db2)" "plan_ServiceID p = ''s''" "plan_ID p = ''p''"
    using demo_db2_facts by auto
  then show ?thesis using changed_service_voids_plans [OF demo_reachable _ _ s] s by fastforce
qed

theorem apply_never_panics:
  assumes "exposure_reachable cfg cl db w"
  shows "Apply cfg cl db now pid v \<noteq> None"
  using assms by (intro Apply_runs reachable_ok)

theorem apply_never_panics_witness: "Apply demo_cfg cloud_clients demo_db2 3 ''p'' demo_world2 \<noteq> None"
  by (rule apply_never_panics [OF demo_reachable])

text \<open>
  C5: In every reachable state every stored service has a valid hostname, the anchor derived
  from it, an upstream and an origin, a known exposure and authentication mode; no two services
  share a hostname or an anchor; and no plan of a service is ahead of its revision.
\<close>

theorem tables_stay_consistent:
  assumes "exposure_reachable cfg cl db w" "s \<in> set (db_services db)"
  shows "ValidHostname (svc_Hostname s) \<and> homeAnchor (svc_Hostname s) (cfg_Domain cfg) = Inr (svc_HomeAnchor s) \<and>
    svc_Upstream s \<noteq> [] \<and> svc_TunnelOrigin s \<noteq> [] \<and> Exposure_Valid (svc_Exposure s) \<and> AuthMode_Valid (svc_AppAuth s) \<and>
    (\<forall>t \<in> set (db_services db). svc_Hostname t = svc_Hostname s \<or> svc_HomeAnchor t = svc_HomeAnchor s \<longrightarrow> t = s) \<and>
    (\<forall>p \<in> set (db_plans db). plan_ServiceID p = svc_ID s \<longrightarrow> plan_ServiceRevision p \<le> svc_Revision s)"
proof -
  have ok: "db_ok cfg db" using assms(1) by (rule reachable_ok)
  then have sv: "\<forall>t \<in> set (db_services db). svc_ok cfg t" and d: "distinct (map svc_Hostname (db_services db))"
    by (simp_all add: db_ok_def)
  have one: "t = s" if "t \<in> set (db_services db)" "svc_Hostname t = svc_Hostname s" for t
    using d that assms(2) by (auto simp: distinct_map dest: inj_onD)
  have anchor: "svc_Hostname t = svc_Hostname s" if "t \<in> set (db_services db)" "svc_HomeAnchor t = svc_HomeAnchor s" for t
    using sv that assms(2) homeAnchor_inj [of "svc_Hostname t" "cfg_Domain cfg" "svc_HomeAnchor s" "svc_Hostname s"]
    by (auto simp: svc_ok_def)
  have "plan_ServiceRevision p \<le> svc_Revision s" if "p \<in> set (db_plans db)" "plan_ServiceID p = svc_ID s" for p
    using ok that assms(2) by (auto simp: db_ok_def plan_current_def)
  moreover have "svc_ok cfg s" using sv assms(2) by blast
  ultimately show ?thesis using one anchor by (simp add: svc_ok_def validateHostname_None)
qed

theorem tables_stay_consistent_witness:
  "\<exists>s. db_services demo_db2 = [s] \<and> ValidHostname (svc_Hostname s) \<and> homeAnchor (svc_Hostname s) ''b.c'' = Inr (svc_HomeAnchor s)"
proof -
  obtain s where s: "db_services demo_db2 = [s]" using demo_db2_facts by blast
  then show ?thesis using tables_stay_consistent [OF demo_reachable, of s] by (simp add: demo_cfg_def)
qed

theorem planner_passes_its_own_check:
  assumes "svc_ok cfg svc" "svc_HomeAnchor svc \<noteq> cfg_TunnelDNS cfg"
  shows "checkOrdering cfg svc (inferExposure cfg svc obs) (svc_Exposure svc) obs
    (exposureSteps cfg svc obs (desiredFor cfg svc)) = None"
  using assms by (auto simp: svc_ok_def intro!: checkOrdering_planner dest: homeAnchor_not_fold)

theorem planner_passes_its_own_check_witness:
  "checkOrdering demo_cfg (demo_svc ExposureShared) (inferExposure demo_cfg (demo_svc ExposureShared) (demo_obs (demo_svc ExposureShared) demo_cloud))
     ExposureShared (demo_obs (demo_svc ExposureShared) demo_cloud) (demo_steps ExposureShared demo_cloud) = None"
proof -
  have "svc_ok demo_cfg (demo_svc ExposureShared)" "svc_HomeAnchor (demo_svc ExposureShared) \<noteq> cfg_TunnelDNS demo_cfg"
    by code_simp+
  from planner_passes_its_own_check [OF this] show ?thesis by (simp add: demo_steps_def)
qed

theorem no_drift_iff_no_steps:
  "computeDrift cfg svc obs missing = [] \<longleftrightarrow> missing = [] \<and> exposureSteps cfg svc obs (desiredFor cfg svc) = []"
  using computeDrift_Nil exposureSteps_Nil by (cases missing) (auto simp: computeDrift_def Let_def)


section \<open>Teardown\<close>

lemma deleteSteps_payload:
  assumes "storable okrule okapp okroute cfg svc" "obs_for svc obs"
  shows "list_all (payload_ok okrule okapp okroute) (deleteSteps svc obs (desiredFor cfg svc))"
proof -
  have "trim_space (app_Hostname ap) = app_Hostname ap" if "obs_AccessApp obs = Some ap" for ap
    using assms that by (auto simp: obs_for_def storable_def intro: trim_space_fold)
  then show ?thesis using assms(1)
    by (auto simp: deleteSteps_def Let_def payload_ok_def storable_def split: option.splits)
qed

lemma vsim_cleared: "vsim v \<lparr>v_vanity = None, v_anchor = None, v_ingress = None, v_app = None, v_route = None\<rparr> \<Longrightarrow>
   v = \<lparr>v_vanity = None, v_anchor = None, v_ingress = None, v_app = None, v_route = None\<rparr>"
  by (cases v) (simp add: vsim_def)

theorem teardown_closes_first:
  assumes "exposure_clients d t a e st ok okrule okapp okroute"
    and "ok w" "uniq (st w)" "storable okrule okapp okroute cfg svc"
    and "view_of obs = live_view svc (st w)" "0 < k"
    and "exec_steps (all_clients d t a e) i (take k (deleteSteps svc obs (desiredFor cfg svc))) w = Some (w', xs, rs, f)"
    and "\<forall>er. f \<noteq> Some (i, er)"
  shows "reach cfg (live_view svc (st w')) = ExposurePrivate \<and>
    (f = None \<and> length (deleteSteps svc obs (desiredFor cfg svc)) \<le> k \<longrightarrow>
     live_view svc (st w') = \<lparr>v_vanity = None, v_anchor = None, v_ingress = None, v_app = None, v_route = None\<rparr>)"
proof -
  let ?steps = "deleteSteps svc obs (desiredFor cfg svc)"
  have of: "obs_for svc obs" using assms(5) by (rule live_view_obs_for)
  have pay: "list_all (payload_ok okrule okapp okroute) (take k ?steps)"
    using deleteSteps_payload [OF assms(4) of] by (auto simp: list_all_iff dest: in_set_takeD)
  have c: "case f of None \<Rightarrow> vsim (live_view svc (st w')) (run_view svc (take k ?steps) (live_view svc (st w)))
      | Some (j, err) \<Rightarrow> i \<le> j \<and> j < i + length (take k ?steps) \<and>
         vsim (live_view svc (st w')) (run_view svc (take (j - i) (take k ?steps)) (live_view svc (st w)))"
    using exposure_clients.exec_steps_refine [OF assms(1-3) pay, of i svc] unfolding assms(7) by auto
  have "\<exists>m. 0 < m \<and> (f = None \<longrightarrow> m = k) \<and> vsim (live_view svc (st w')) (run_view svc (take m ?steps) (live_view svc (st w)))"
  proof (cases f)
    case None
    then show ?thesis using c assms(6) by auto
  next
    case (Some je)
    then obtain j er where j: "f = Some (j, er)" by (cases je) auto
    then have "i \<noteq> j" using assms(8) by auto
    then show ?thesis using c j by (intro exI [of _ "min (j - i) k"]) (simp add: assms(6))
  qed
  then obtain m where m: "0 < m" "f = None \<longrightarrow> m = k"
    and v: "vsim (live_view svc (st w')) (run_view svc (take m ?steps) (live_view svc (st w)))" by blast
  have "reach cfg (live_view svc (st w')) = ExposurePrivate"
    using delete_prefix_private [OF of m(1), of cfg] reach_vsim [OF v] assms(5) by simp
  moreover have "live_view svc (st w') = \<lparr>v_vanity = None, v_anchor = None, v_ingress = None, v_app = None, v_route = None\<rparr>"
    if "f = None" "length ?steps \<le> k"
  proof -
    have "take m ?steps = ?steps" using m that by simp
    then show ?thesis using v deleteSteps_clear [OF of, of cfg] assms(5) by (intro vsim_cleared) simp
  qed
  ultimately show ?thesis by blast
qed

definition demo_delete_steps :: "Step list" where
  "demo_delete_steps = deleteSteps (demo_svc ExposureShared) (demo_obs (demo_svc ExposureShared) demo_shared)
     (desiredFor demo_cfg (demo_svc ExposureShared))"

theorem teardown_closes_first_witness:
  "case exec_steps cloud_clients 0 (take 1 demo_delete_steps) demo_shared of
     Some (w', xs, rs, f) \<Rightarrow> demo_reach ExposureShared demo_shared = ExposureShared \<and> demo_reach ExposureShared w' = ExposurePrivate
   | None \<Rightarrow> False"
proof -
  have l: "map_option (\<lambda>(w', xs, rs, f). f) (exec_steps cloud_clients 0 (take 1 demo_delete_steps) demo_shared) = Some None"
    "demo_reach ExposureShared demo_shared = ExposureShared"
    by code_simp+
  then obtain w' xs rs where ex: "exec_steps cloud_clients 0 (take 1 demo_delete_steps) demo_shared = Some (w', xs, rs, None)"
    by auto
  have "demo_reach ExposureShared w' = ExposurePrivate"
    using teardown_closes_first [OF cloud_contract demo_facts(3,4,5) demo_obs_view _ ex [unfolded demo_delete_steps_def, folded cloud_clients_all]]
    by (simp add: demo_reach_def)
  then show ?thesis using ex l by simp
qed

theorem failed_teardown_makes_public:
  "demo_reach ExposureShared demo_shared = ExposureShared \<and>
   map_option (\<lambda>(w, p). (demo_reach ExposureShared w, map_option plan_Status p)) (demo_teardown 500) =
     Some (ExposurePublic, Some PlanFailed)"
  by code_simp

section \<open>Names and comparisons\<close>

theorem hostname_validation_agrees:
  "validateHostname h = None \<longleftrightarrow> ValidHostname h \<and> 2 \<le> length (split_on CHR ''.'' h)"
  by (rule validateHostname_None)

theorem anchors_do_not_collide:
  assumes "homeAnchor h d = Inr a" "homeAnchor h' d = Inr a'"
  shows "(a = a' \<longleftrightarrow> h = h') \<and> \<not> equal_fold a h"
  using assms homeAnchor_inj homeAnchor_not_fold by auto

theorem anchors_do_not_collide_witness:
  "homeAnchor ''a.b.c'' ''b.c'' = Inr ''a.home.b.c'' \<and> homeAnchor ''x.b.c'' ''b.c'' = Inr ''x.home.b.c'' \<and>
   \<not> equal_fold ''a.home.b.c'' ''a.b.c''"
proof -
  have h: "homeAnchor ''a.b.c'' ''b.c'' = Inr ''a.home.b.c''" "homeAnchor ''x.b.c'' ''b.c'' = Inr ''x.home.b.c''"
    by code_simp+
  then show ?thesis using anchors_do_not_collide [OF h] by blast
qed


section \<open>The adapters\<close>

theorem access_policies_roundtrip:
  assumes "canonical_app x"
  shows "wireToDomain pr (domainToWire x) = x"
  using assms by (rule app_roundtrip)

theorem access_policies_roundtrip_witness:
  "wireToDomain (\<lambda>_. []) (domainToWire (accessAppFor demo_cfg (demo_svc ExposureShared))) = accessAppFor demo_cfg (demo_svc ExposureShared) \<and>
   app_Policies (accessAppFor demo_cfg (demo_svc ExposureShared)) \<noteq> []"
proof -
  have "canonical_app (accessAppFor demo_cfg (demo_svc ExposureShared))"
    "app_Policies (accessAppFor demo_cfg (demo_svc ExposureShared)) \<noteq> []" by code_simp+
  then show ?thesis using access_policies_roundtrip by blast
qed

theorem ingress_rules_roundtrip:
  assumes "list_all canonical_rule rs"
  shows "wire_to_rules (rules_to_wire rs) = rs \<and>
    last (rules_to_wire rs) = \<lparr>wi_Hostname = [], wi_Service = ''http_status:404'', wi_Path = []\<rparr>"
  using assms by (simp add: rules_roundtrip) (simp add: rules_to_wire_def)

theorem ingress_rules_roundtrip_witness:
  "wire_to_rules (rules_to_wire [\<lparr>rule_Hostname = ''a.b.c'', rule_Origin = ''http://o''\<rparr>]) = [\<lparr>rule_Hostname = ''a.b.c'', rule_Origin = ''http://o''\<rparr>] \<and>
   last (rules_to_wire [\<lparr>rule_Hostname = ''a.b.c'', rule_Origin = ''http://o''\<rparr>]) = \<lparr>wi_Hostname = [], wi_Service = ''http_status:404'', wi_Path = []\<rparr>"
  by (rule ingress_rules_roundtrip) code_simp

theorem foreign_path_rules_lose_their_path:
  "case ensureIngress (tunnel_client cloud_remote account_id tunnel_id) \<lparr>rule_Hostname = ''a.b.c'', rule_Origin = ''http://o''\<rparr>
       (demo_cloud\<lparr>cloud_ingress := [\<lparr>wi_Hostname = ''x.b.c'', wi_Service = ''http://x'', wi_Path = ''/api''\<rparr>]\<rparr>) of
     (w', r) \<Rightarrow> r = Inr StatusApplied \<and>
       cloud_ingress w' = [\<lparr>wi_Hostname = ''x.b.c'', wi_Service = ''http://x'', wi_Path = []\<rparr>,
         \<lparr>wi_Hostname = ''a.b.c'', wi_Service = ''http://o'', wi_Path = []\<rparr>,
         \<lparr>wi_Hostname = [], wi_Service = ''http_status:404'', wi_Path = []\<rparr>]"
  by code_simp

theorem edge_routes_roundtrip:
  assumes "list_all canonical_route rs"
  shows "config_routes (RenderConfig rs) = rs"
  using assms by (rule routes_roundtrip)

theorem edge_routes_roundtrip_witness:
  "config_routes (RenderConfig [des_route (desiredFor demo_cfg (demo_svc ExposurePublic))]) = [des_route (desiredFor demo_cfg (demo_svc ExposurePublic))]"
  by (rule edge_routes_roundtrip) code_simp

definition demo_bare :: UpsertInput where
  "demo_bare = demo_input\<lparr>in_Upstream := ''immich:8080'', in_Exposure := ExposurePrivate\<rparr>"

definition demo_bare_db :: exposure_db where
  "demo_bare_db = fst (UpsertService demo_cfg empty_exposure_db ''s'' 1 demo_bare)"

definition demo_bare_run :: "(bool \<times> string list) option" where
  "demo_bare_run = (case Plan_op demo_cfg cloud_clients demo_bare_db ''p'' 2 ''s'' demo_cloud of (w1, db1, _) \<Rightarrow>
     (case Apply demo_cfg cloud_clients db1 3 ''p'' w1 of
        Some (w2, db2, _, None) \<Rightarrow> map_option (\<lambda>ob. (obs_Reconciled ob, obs_Drift ob)) (getObservation db2 ''s'')
      | _ \<Rightarrow> None))"

theorem bare_upstream_never_reconciles:
  "demo_bare_run = Some (False, [''edge route for a.b.c targets http://immich:8080, want immich:8080''])"
  by code_simp

theorem put_route_after_failed_listing_drops_the_rest:
  assumes "trim_space (route_Hostname r) \<noteq> []" "trim_space (route_Upstream r) \<noteq> []"
    and "edge_do_get rm w = (w1, Inl er)"
    and "\<not> errors_is er ErrCaddyUnavailable" "\<not> errors_is er ErrNotFound" "\<not> contains_str (err_msg er) ''404''"
  shows "edge_PutRoute rm r w = edge_applyRoutes rm [r] w1"
  using assms by (simp add: edge_PutRoute_def edge_ListRoutes_def)

definition flaky_remote :: "cloud remote" where
  "flaky_remote = cloud_remote\<lparr>caddy_get_config := (\<lambda>w. (w, Reply 503 ''busy'' None))\<rparr>"

theorem put_route_after_failed_listing_drops_the_rest_witness:
  "edge_PutRoute flaky_remote \<lparr>route_Hostname = ''x.b.c'', route_Upstream = ''http://x:1''\<rparr> demo_shared =
     edge_applyRoutes flaky_remote [\<lparr>route_Hostname = ''x.b.c'', route_Upstream = ''http://x:1''\<rparr>] demo_shared"
proof -
  have f: "trim_space (route_Hostname \<lparr>route_Hostname = ''x.b.c'', route_Upstream = ''http://x:1''\<rparr>) \<noteq> []"
    "trim_space (route_Upstream \<lparr>route_Hostname = ''x.b.c'', route_Upstream = ''http://x:1''\<rparr>) \<noteq> []" by code_simp+
  have g: "edge_do_get flaky_remote demo_shared = (demo_shared, Inl (mapHTTPStatus 503 ''busy''))"
    by (simp add: edge_do_get_def flaky_remote_def)
  have h: "\<not> errors_is (mapHTTPStatus 503 ''busy'') ErrCaddyUnavailable" "\<not> errors_is (mapHTTPStatus 503 ''busy'') ErrNotFound"
    "\<not> contains_str (err_msg (mapHTTPStatus 503 ''busy'')) ''404''" by code_simp+
  show ?thesis by (rule put_route_after_failed_listing_drops_the_rest [OF f g h])
qed

definition plan_at :: "id \<Rightarrow> time \<Rightarrow> Plan" where
  "plan_at i t = \<lparr>plan_ID = i, plan_ServiceID = ''s'', plan_ServiceRevision = 1, plan_Kind = PlanKindExposure,
     plan_Hostname = ''a.b.c'', plan_FromExposure = [], plan_ToExposure = ExposurePrivate, plan_Steps = [], plan_Warnings = [],
     plan_RequiresAck = False, plan_Status = PlanPending, plan_Results = [], plan_Error = [], plan_CreatedAt = t, plan_AppliedAt = None\<rparr>"

theorem plan_history_out_of_order:
  "map plan_ID (listPlans (empty_exposure_db\<lparr>db_plans := [plan_at ''older'' 1000000000100000000, plan_at ''newer'' 1000000000150000000]\<rparr>) ''s'' 10) =
     [''older'', ''newer'']"
  by code_simp

end
