(* ===== verification/ProjectsValidate.thy ===== *)
theory ProjectsValidate
  imports Domain NetIP
begin

text \<open>
  internal/projects: sentinels (errors.go), the ONCE contract and the input validators
  (util.go), the deployment configuration (config.go).  The regular expressions of the source
  are boolean functions on strings.  url.Parse is an argument of validateRepositoryURL: it
  returns the scheme and the host, or the text of its error.
\<close>

section \<open>Errors\<close>

definition PErrNotFound :: sentinel where "PErrNotFound = ErrSentinel ''not found''"
definition ErrSlugTaken :: sentinel where "ErrSlugTaken = ErrSentinel ''slug already in use''"
definition ErrDeployInProgress :: sentinel where "ErrDeployInProgress = ErrSentinel ''deployment already in progress''"
definition ErrNoRollbackTarget :: sentinel where "ErrNoRollbackTarget = ErrSentinel ''no previous release to roll back to''"
definition ErrDeployFailed :: sentinel where "ErrDeployFailed = ErrSentinel ''deployment failed''"
definition ErrUndeployFailed :: sentinel where "ErrUndeployFailed = ErrSentinel ''undeploy failed''"
definition PErrUnauthorized :: sentinel where "PErrUnauthorized = ErrSentinel ''unauthorized''"
definition ErrReleaseMismatch :: sentinel where "ErrReleaseMismatch = ErrSentinel ''release digest and commit do not match recorded release''"
definition PErrValidation :: sentinel where "PErrValidation = ErrSentinel ''validation failed''"

lemmas project_sentinels = PErrNotFound_def ErrSlugTaken_def ErrDeployInProgress_def ErrNoRollbackTarget_def
  ErrDeployFailed_def ErrUndeployFailed_def PErrUnauthorized_def ErrReleaseMismatch_def PErrValidation_def

lemma project_sentinels_distinct [simp]:
  "distinct [PErrNotFound, ErrSlugTaken, ErrDeployInProgress, ErrNoRollbackTarget, ErrDeployFailed,
     ErrUndeployFailed, PErrUnauthorized, ErrReleaseMismatch, PErrValidation]"
  by (simp add: project_sentinels)

definition invalidf :: "string \<Rightarrow> string \<Rightarrow> goerror" where
  "invalidf field reason = GoErr [PErrValidation] (''invalid '' @ field @ '': '' @ reason)"

definition bare :: "sentinel \<Rightarrow> goerror" where
  "bare s = GoErr [s] (sentinel_text s)"

text \<open>fmt.Errorf with two wrapped errors, and with a text before the wrapped one.\<close>

definition wrap2 :: "sentinel \<Rightarrow> goerror \<Rightarrow> goerror" where
  "wrap2 s e = GoErr (s # err_chain e) (sentinel_text s @ '': '' @ err_msg e)"

definition wrapctx :: "string \<Rightarrow> goerror \<Rightarrow> goerror" where
  "wrapctx m e = GoErr (err_chain e) (m @ '': '' @ err_msg e)"

lemma errors_is_wraps [simp]:
  "errors_is (invalidf f r) s \<longleftrightarrow> s = PErrValidation"
  "errors_is (bare s') s \<longleftrightarrow> s = s'"
  "errors_is (wrap2 s' e) s \<longleftrightarrow> s = s' \<or> errors_is e s"
  "errors_is (wrapctx m e) s \<longleftrightarrow> errors_is e s"
  by (auto simp: invalidf_def bare_def wrap2_def wrapctx_def errors_is_def)

section \<open>The contract\<close>

record Contract =
  con_Port :: int
  con_HealthPath :: string
  con_StoragePath :: string

definition DefaultContract :: Contract where
  "DefaultContract = \<lparr>con_Port = 80, con_HealthPath = ''/up'', con_StoragePath = ''/storage''\<rparr>"

definition Contract_withDefaults :: "Contract \<Rightarrow> Contract" where
  "Contract_withDefaults c =
     (let c1 = (if con_Port c = 0 then c\<lparr>con_Port := con_Port DefaultContract\<rparr> else c);
          c2 = (if con_HealthPath c1 = [] then c1\<lparr>con_HealthPath := con_HealthPath DefaultContract\<rparr> else c1) in
      if con_StoragePath c2 = [] then c2\<lparr>con_StoragePath := con_StoragePath DefaultContract\<rparr> else c2)"

definition Contract_validate :: "Contract \<Rightarrow> goerror option" where
  "Contract_validate c =
     (if con_Port c \<noteq> 80
        then Some (invalidf ''contract.port'' (''the default ONCE contract requires port 80, got '' @ itoa (con_Port c)))
      else if con_HealthPath c \<noteq> ''/up''
        then Some (invalidf ''contract.health_path'' (''the default ONCE contract requires /up, got '' @ quote (con_HealthPath c)))
      else if con_StoragePath c \<noteq> ''/storage''
        then Some (invalidf ''contract.storage_path'' (''the default ONCE contract requires /storage, got '' @ quote (con_StoragePath c)))
      else None)"

lemma Contract_validate_None: "Contract_validate c = None \<longleftrightarrow> c = DefaultContract"
  by (cases c) (auto simp: Contract_validate_def DefaultContract_def)

section \<open>Validators\<close>

definition is_lower_hex :: "char \<Rightarrow> bool" where
  "is_lower_hex c \<longleftrightarrow> is_digit c \<or> (97 \<le> (of_char c :: nat) \<and> (of_char c :: nat) \<le> 102)"

text \<open>The hostname pattern is a sequence of slugs joined by dots.\<close>

definition hostnamePattern :: "string \<Rightarrow> bool" where
  "hostnamePattern s \<longleftrightarrow> list_all ValidSlug (split_on CHR ''.'' s)"

definition digestPattern :: "string \<Rightarrow> bool" where
  "digestPattern s \<longleftrightarrow> has_prefix s ''sha256:'' \<and> length s = 71 \<and> list_all is_lower_hex (drop 7 s)"

definition slug_text :: string where
  "slug_text = ''must be lowercase letters, digits, or hyphens, and must start and end with an alphanumeric; got ''"

definition validateSlug :: "string \<Rightarrow> string result" where
  "validateSlug s0 = (let s = trim_space s0 in
     if s = [] then Inl (invalidf ''slug'' ''must not be empty'')
     else if length s > 63 then Inl (invalidf ''slug'' ''must be 1-63 characters'')
     else if \<not> ValidSlug s then Inl (invalidf ''slug'' (slug_text @ quote s))
     else Inr s)"

text \<open>Every maximal run of characters outside a-z and 0-9 becomes one hyphen.\<close>

fun replace_runs :: "bool \<Rightarrow> string \<Rightarrow> string" where
  "replace_runs inrun [] = []"
| "replace_runs inrun (c # s) =
     (if is_alnum c then c # replace_runs False s
      else if inrun then replace_runs True s else CHR ''-'' # replace_runs True s)"

definition is_dash :: "char \<Rightarrow> bool" where "is_dash c \<longleftrightarrow> c = CHR ''-''"

definition DeriveSlug :: "string \<Rightarrow> string result" where
  "DeriveSlug name =
     (let s = to_lower (trim_space name) in
      if s = [] then Inl (invalidf ''slug'' ''must not be empty'')
      else
        let s1 = trim_func is_dash (replace_runs False s);
            s2 = (if length s1 > 63 then trim_right is_dash (take 63 s1) else s1) in
        if s2 = [] then Inl (invalidf ''slug'' ''must not be empty'') else validateSlug s2)"

definition normalizeAndValidateCommit :: "string \<Rightarrow> string result" where
  "normalizeAndValidateCommit s0 = (let s = to_lower (trim_space s0) in
     if s = [] then Inl (invalidf ''commit'' ''must not be empty'')
     else if length s \<noteq> 40 \<and> length s \<noteq> 64
       then Inl (invalidf ''commit'' (''must be a 40 or 64 character hex SHA, got length '' @ itoa (int (length s))))
     else if \<not> list_all is_lower_hex s then Inl (invalidf ''commit'' ''must be lowercase hex'')
     else Inr s)"

definition normalizeAndValidateDigest :: "string \<Rightarrow> string result" where
  "normalizeAndValidateDigest s0 = (let s = to_lower (trim_space s0) in
     if s = [] then Inl (invalidf ''digest'' ''must not be empty'')
     else if \<not> digestPattern s
       then Inl (invalidf ''digest'' (''must be '' @ quote ''sha256:'' @ '' followed by 64 lowercase hex characters, got '' @ quote s))
     else Inr s)"

definition whitespace_chars :: string where
  "whitespace_chars = [CHR '' '', char_of (9 :: nat), char_of (13 :: nat), char_of (10 :: nat)]"

definition last_component :: "string \<Rightarrow> string" where
  "last_component s = rev (takeWhile (\<lambda>c. c \<noteq> CHR ''/'') (rev s))"

definition validateImageBase :: "string \<Rightarrow> string result" where
  "validateImageBase s0 = (let s = trim_space s0 in
     if s = [] then Inl (invalidf ''image'' ''must not be empty'')
     else if length s > 512 then Inl (invalidf ''image'' ''must be at most 512 characters'')
     else if contains_str s ''@'' then Inl (invalidf ''image'' (''must not contain '' @ quote ''@'' @ ''; the digest is supplied separately''))
     else if contains_any s whitespace_chars then Inl (invalidf ''image'' ''must not contain whitespace'')
     else if \<not> contains_str s ''/'' then Inl (invalidf ''image'' (''must contain at least one '' @ quote ''/'' @ '' separating registry/name''))
     else if has_suffix s ''/'' then Inl (invalidf ''image'' (''must not end with '' @ quote ''/''))
     else if contains_str (last_component s) '':'' then Inl (invalidf ''image'' ''must not contain a tag; pass the digest separately'')
     else Inr s)"

definition validateRepositoryURL :: "(string \<Rightarrow> string + (string \<times> string)) \<Rightarrow> string \<Rightarrow> string result" where
  "validateRepositoryURL url_parse raw0 = (let raw = trim_space raw0 in
     if raw = [] then Inl (invalidf ''repository_url'' ''must not be empty'')
     else if length raw > 2048 then Inl (invalidf ''repository_url'' ''must be at most 2048 characters'')
     else (case url_parse raw of
         Inl m \<Rightarrow> Inl (invalidf ''repository_url'' (''invalid URL: '' @ m))
       | Inr (scheme, host) \<Rightarrow>
           if to_lower scheme \<noteq> ''https'' \<and> to_lower scheme \<noteq> ''http''
             then Inl (invalidf ''repository_url'' (''scheme must be https or http, got '' @ quote scheme))
           else if host = [] then Inl (invalidf ''repository_url'' ''must include a host'')
           else Inr raw))"

definition validateName :: "string \<Rightarrow> string result" where
  "validateName s0 = (let s = trim_space s0 in
     if s = [] then Inl (invalidf ''name'' ''must not be empty'')
     else if length s > 100 then Inl (invalidf ''name'' ''must be at most 100 characters'')
     else Inr s)"

definition project_validateHostname :: "string \<Rightarrow> string result" where
  "project_validateHostname s0 = (let s = to_lower (trim_space s0) in
     if s = [] then Inr s
     else if length s > 253 then Inl (invalidf ''hostname'' ''must be at most 253 characters'')
     else if \<not> hostnamePattern s then Inl (invalidf ''hostname'' (''must be a valid lowercase hostname, got '' @ quote s))
     else Inr s)"

section \<open>What the validators accept\<close>

lemma ValidSlug_validLabel: "ValidSlug s = validLabel s"
proof (cases s)
  case (Cons c r)
  then show ?thesis by (cases r rule: rev_cases) (auto simp: validLabel_Cons ValidSlug_def)
qed (simp add: ValidSlug_def validLabel_def)

lemma ValidSlug_length: "ValidSlug s \<Longrightarrow> s \<noteq> [] \<and> length s \<le> 63"
  by (simp add: ValidSlug_validLabel validLabel_nonempty)

text \<open>Slugs have no surrounding white space.\<close>

lemma trim_none: "\<forall>c \<in> set s. \<not> P c \<Longrightarrow> trim_func P s = s"
proof -
  assume a: "\<forall>c \<in> set s. \<not> P c"
  have d: "dropWhile P t = t" if "\<forall>c \<in> set t. \<not> P c" for t using that by (cases t) auto
  show ?thesis using a by (simp add: trim_func_def trim_left_def trim_right_def d)
qed

lemma is_alnum_not_space: "is_alnum c \<Longrightarrow> \<not> is_space c"
  by (auto simp: is_alnum_def is_lower_def is_digit_def is_space_def Let_def)

lemma ValidSlug_chars: "ValidSlug s \<Longrightarrow> c \<in> set s \<Longrightarrow> is_alnum c \<or> c = CHR ''-''"
  by (auto simp: ValidSlug_validLabel validLabel_def dest: label_bytes_ok_chars)

lemma ValidSlug_trim: "ValidSlug s \<Longrightarrow> trim_space s = s"
  unfolding trim_space_def
  by (rule trim_none) (auto dest!: ValidSlug_chars is_alnum_not_space simp: is_space_def Let_def)

lemma validateSlug_Inr: "validateSlug s = Inr t \<longleftrightarrow> t = trim_space s \<and> ValidSlug t"
  using ValidSlug_length [of "trim_space s"] by (auto simp: validateSlug_def Let_def)

lemma normalizeAndValidateCommit_Inr:
  "normalizeAndValidateCommit s = Inr t \<longleftrightarrow> t = to_lower (trim_space s) \<and> (length t = 40 \<or> length t = 64) \<and> list_all is_lower_hex t"
  by (auto simp: normalizeAndValidateCommit_def Let_def)

lemma normalizeAndValidateDigest_Inr:
  "normalizeAndValidateDigest s = Inr t \<longleftrightarrow> t = to_lower (trim_space s) \<and> digestPattern t"
  by (auto simp: normalizeAndValidateDigest_def Let_def digestPattern_def has_prefix_def)

end
