(* ===== verification/ProjectsDb.thy ===== *)
theory ProjectsDb
  imports ProjectsValidate GoTime
begin

text \<open>
  internal/projects: the tables (schema.go), the deploy lock and the release rows (deploy.go),
  the release tokens (release_tokens.go).  Rows are in insertion order, which is the rowid
  order; a listing by created_at orders by the stored text.
\<close>

section \<open>Rows\<close>

record Project =
  proj_ID :: id
  proj_Slug :: string
  proj_Name :: string
  proj_RepositoryURL :: string
  proj_Exposure :: exposure
  proj_Hostname :: string
  proj_CreatedAt :: time
  proj_UpdatedAt :: time
  proj_Image :: string
  proj_Contract :: Contract
  proj_Deploying :: bool

record ProjectRow =
  row_project :: Project
  row_started :: int

definition ReleaseDeploying :: string where "ReleaseDeploying = ''deploying''"
definition ReleaseSucceeded :: string where "ReleaseSucceeded = ''succeeded''"
definition ReleaseFailed :: string where "ReleaseFailed = ''failed''"

lemma release_status_distinct [simp]:
  "ReleaseDeploying \<noteq> ReleaseSucceeded" "ReleaseSucceeded \<noteq> ReleaseDeploying" "ReleaseDeploying \<noteq> ReleaseFailed"
  "ReleaseFailed \<noteq> ReleaseDeploying" "ReleaseSucceeded \<noteq> ReleaseFailed" "ReleaseFailed \<noteq> ReleaseSucceeded"
  by (simp_all add: ReleaseDeploying_def ReleaseSucceeded_def ReleaseFailed_def)

record Release =
  rel_ID :: id
  rel_ProjectID :: id
  rel_Commit :: string
  rel_Digest :: string
  rel_Status :: string
  rel_Active :: bool
  rel_CreatedAt :: time
  rel_UpdatedAt :: time

record TokenRow =
  tok_ProjectID :: id
  tok_Hash :: string
  tok_Prefix :: string
  tok_CreatedAt :: time
  tok_UpdatedAt :: time
  tok_LastUsedAt :: "time option"

record projects_db =
  pdb_projects :: "ProjectRow list"
  pdb_releases :: "Release list"
  pdb_tokens :: "TokenRow list"

definition empty_projects_db :: projects_db where
  "empty_projects_db = \<lparr>pdb_projects = [], pdb_releases = [], pdb_tokens = []\<rparr>"

abbreviation row_id :: "ProjectRow \<Rightarrow> id" where "row_id r \<equiv> proj_ID (row_project r)"

section \<open>Projects\<close>

definition fetchProject :: "projects_db \<Rightarrow> id \<Rightarrow> Project result" where
  "fetchProject db i = (case List.find (\<lambda>r. row_id r = i) (pdb_projects db) of
      None \<Rightarrow> Inl (bare PErrNotFound) | Some r \<Rightarrow> Inr (row_project r))"

definition fetchProjectBySlug :: "projects_db \<Rightarrow> string \<Rightarrow> Project result" where
  "fetchProjectBySlug db s = (case List.find (\<lambda>r. proj_Slug (row_project r) = s) (pdb_projects db) of
      None \<Rightarrow> Inl (bare PErrNotFound) | Some r \<Rightarrow> Inr (row_project r))"

definition insertProject :: "projects_db \<Rightarrow> Project \<Rightarrow> projects_db result" where
  "insertProject db p =
     (if list_ex (\<lambda>r. row_id r = proj_ID p \<or> proj_Slug (row_project r) = proj_Slug p) (pdb_projects db)
        then Inl (wrapf ErrSlugTaken (''slug '' @ quote (proj_Slug p)))
      else Inr (db\<lparr>pdb_projects := pdb_projects db @ [\<lparr>row_project = p, row_started = 0\<rparr>]\<rparr>))"

definition List_projects :: "projects_db \<Rightarrow> Project list" where
  "List_projects db = map row_project (sort_key (\<lambda>r. proj_Slug (row_project r)) (pdb_projects db))"

text \<open>The two deletes of the transaction; no row of the project is not found.\<close>

definition deleteProjectRows :: "projects_db \<Rightarrow> id \<Rightarrow> projects_db result" where
  "deleteProjectRows db i =
     (if list_ex (\<lambda>r. row_id r = i) (pdb_projects db)
      then Inr (db\<lparr>pdb_releases := filter (\<lambda>r. rel_ProjectID r \<noteq> i) (pdb_releases db),
                   pdb_projects := filter (\<lambda>r. row_id r \<noteq> i) (pdb_projects db)\<rparr>)
      else Inl (bare PErrNotFound))"

section \<open>The deploy lock\<close>

definition lock_free :: "int \<Rightarrow> ProjectRow \<Rightarrow> bool" where
  "lock_free stale r \<longleftrightarrow> \<not> proj_Deploying (row_project r) \<or> (row_started r \<noteq> 0 \<and> row_started r < stale)"

definition set_deploying :: "bool \<Rightarrow> int \<Rightarrow> ProjectRow \<Rightarrow> ProjectRow" where
  "set_deploying b t r = r\<lparr>row_project := (row_project r)\<lparr>proj_Deploying := b\<rparr>, row_started := t\<rparr>"

definition beginDeployFlag :: "projects_db \<Rightarrow> time \<Rightarrow> int \<Rightarrow> id \<Rightarrow> projects_db \<times> goerror option" where
  "beginDeployFlag db now stale_age i =
     (if list_ex (\<lambda>r. row_id r = i \<and> lock_free (now - stale_age) r) (pdb_projects db)
      then (db\<lparr>pdb_projects := update_where (\<lambda>r. row_id r = i \<and> lock_free (now - stale_age) r)
                 (set_deploying True now) (pdb_projects db)\<rparr>, None)
      else (case fetchProject db i of
          Inl e \<Rightarrow> (db, Some e)
        | Inr _ \<Rightarrow> (db, Some (bare ErrDeployInProgress))))"

definition endDeployFlag :: "projects_db \<Rightarrow> id \<Rightarrow> projects_db" where
  "endDeployFlag db i = db\<lparr>pdb_projects := update_where (\<lambda>r. row_id r = i) (set_deploying False 0) (pdb_projects db)\<rparr>"

section \<open>Releases\<close>

definition hasReleases :: "projects_db \<Rightarrow> id \<Rightarrow> bool" where
  "hasReleases db i = list_ex (\<lambda>r. rel_ProjectID r = i) (pdb_releases db)"

definition releaseByProjectDigest :: "projects_db \<Rightarrow> id \<Rightarrow> string \<Rightarrow> Release option" where
  "releaseByProjectDigest db i d = List.find (\<lambda>r. rel_ProjectID r = i \<and> rel_Digest r = d) (pdb_releases db)"

definition activeRelease :: "projects_db \<Rightarrow> id \<Rightarrow> Release option" where
  "activeRelease db i = List.find (\<lambda>r. rel_ProjectID r = i \<and> rel_Active r) (pdb_releases db)"

text \<open>Newest first: by the text of created_at, then by rowid.\<close>

definition newest_first :: "Release list \<Rightarrow> Release list" where
  "newest_first rs = rev (sort_key (\<lambda>r. FormatTime (rel_CreatedAt r)) rs)"

definition previousSucceededRelease :: "projects_db \<Rightarrow> id \<Rightarrow> id \<Rightarrow> Release option" where
  "previousSucceededRelease db i cur =
     (case newest_first (filter (\<lambda>r. rel_ProjectID r = i \<and> rel_ID r \<noteq> cur \<and> rel_Status r = ReleaseSucceeded) (pdb_releases db)) of
        [] \<Rightarrow> None | r # _ \<Rightarrow> Some r)"

definition Releases :: "projects_db \<Rightarrow> id \<Rightarrow> Release list result" where
  "Releases db i =
     (if trim_space i = [] then Inl (invalidf ''project_id'' ''must not be empty'')
      else case fetchProject db i of
        Inl e \<Rightarrow> Inl e
      | Inr _ \<Rightarrow> Inr (newest_first (filter (\<lambda>r. rel_ProjectID r = i) (pdb_releases db))))"

definition setReleaseStatus :: "projects_db \<Rightarrow> id \<Rightarrow> string \<Rightarrow> time \<Rightarrow> projects_db" where
  "setReleaseStatus db i s now = db\<lparr>pdb_releases :=
     update_where (\<lambda>r. rel_ID r = i) (\<lambda>r. r\<lparr>rel_Status := s, rel_UpdatedAt := now\<rparr>) (pdb_releases db)\<rparr>"

text \<open>A row of the digest is reused when the commit agrees; otherwise a row is added.  A unique
  violation of the insert cannot happen here: the lookup has just found no row.\<close>

definition beginRelease ::
  "projects_db \<Rightarrow> id \<Rightarrow> time \<Rightarrow> id \<Rightarrow> string \<Rightarrow> string \<Rightarrow> projects_db \<times> Release result" where
  "beginRelease db fresh now i commit digest = (case releaseByProjectDigest db i digest of
      Some ex \<Rightarrow>
        if rel_Commit ex \<noteq> commit
          then (db, Inl (wrapf ErrReleaseMismatch (''digest '' @ digest @ '' was released from commit '' @ rel_Commit ex)))
        else (setReleaseStatus db (rel_ID ex) ReleaseDeploying now,
              Inr (ex\<lparr>rel_UpdatedAt := now, rel_Status := ReleaseDeploying\<rparr>))
    | None \<Rightarrow>
        (let rel = \<lparr>rel_ID = fresh, rel_ProjectID = i, rel_Commit = commit, rel_Digest = digest,
               rel_Status = ReleaseDeploying, rel_Active = False, rel_CreatedAt = now, rel_UpdatedAt = now\<rparr> in
         (db\<lparr>pdb_releases := pdb_releases db @ [rel]\<rparr>, Inr rel)))"

definition activateRelease :: "projects_db \<Rightarrow> time \<Rightarrow> id \<Rightarrow> id \<Rightarrow> projects_db" where
  "activateRelease db now i relid =
     (let rs1 = update_where (\<lambda>r. rel_ProjectID r = i \<and> rel_Active r \<and> rel_ID r \<noteq> relid)
            (\<lambda>r. r\<lparr>rel_Active := False, rel_UpdatedAt := now\<rparr>) (pdb_releases db);
          rs2 = update_where (\<lambda>r. rel_ID r = relid)
            (\<lambda>r. r\<lparr>rel_Status := ReleaseSucceeded, rel_Active := True, rel_UpdatedAt := now\<rparr>) rs1 in
      db\<lparr>pdb_releases := rs2,
         pdb_projects := update_where (\<lambda>r. row_id r = i)
           (\<lambda>r. r\<lparr>row_project := (row_project r)\<lparr>proj_UpdatedAt := now\<rparr>\<rparr>) (pdb_projects db)\<rparr>)"

section \<open>Release tokens\<close>

text \<open>hash is the hexadecimal SHA-256 of the token; the random token is an argument.\<close>

definition storeReleaseTokenHash :: "(string \<Rightarrow> string) \<Rightarrow> projects_db \<Rightarrow> time \<Rightarrow> id \<Rightarrow> string \<Rightarrow> projects_db" where
  "storeReleaseTokenHash hash db now i token =
     (let row = \<lparr>tok_ProjectID = i, tok_Hash = hash token, tok_Prefix = take 8 token,
            tok_CreatedAt = now, tok_UpdatedAt = now, tok_LastUsedAt = None\<rparr> in
      if list_ex (\<lambda>t. tok_ProjectID t = i) (pdb_tokens db)
      then db\<lparr>pdb_tokens := update_where (\<lambda>t. tok_ProjectID t = i)
             (\<lambda>t. row\<lparr>tok_CreatedAt := tok_CreatedAt t\<rparr>) (pdb_tokens db)\<rparr>
      else db\<lparr>pdb_tokens := pdb_tokens db @ [row]\<rparr>)"

definition IssueReleaseToken ::
  "(string \<Rightarrow> string) \<Rightarrow> projects_db \<Rightarrow> time \<Rightarrow> string \<Rightarrow> id \<Rightarrow> projects_db \<times> string result" where
  "IssueReleaseToken hash db now random i =
     (if trim_space i = [] then (db, Inl (invalidf ''project_id'' ''must not be empty''))
      else case fetchProject db i of
        Inl e \<Rightarrow> (db, Inl e)
      | Inr _ \<Rightarrow> (storeReleaseTokenHash hash db now i random, Inr random))"

text \<open>Rotating is issuing again: the stored hash is overwritten.\<close>

definition RotateReleaseToken ::
  "(string \<Rightarrow> string) \<Rightarrow> projects_db \<Rightarrow> time \<Rightarrow> string \<Rightarrow> id \<Rightarrow> projects_db \<times> string result" where
  "RotateReleaseToken hash db now random i = IssueReleaseToken hash db now random i"

definition tokenVerifyErr :: "string \<Rightarrow> goerror" where
  "tokenVerifyErr m = wrap2 PErrUnauthorized (wrapf ErrReleaseMismatch m)"

definition VerifyReleaseToken ::
  "(string \<Rightarrow> string) \<Rightarrow> time \<Rightarrow> id \<Rightarrow> string \<Rightarrow> projects_db \<Rightarrow> projects_db \<times> goerror option" where
  "VerifyReleaseToken hash now i token db =
     (if trim_space i = [] then (db, Some (tokenVerifyErr ''project id required''))
      else if trim_space token = [] then (db, Some (tokenVerifyErr ''release token required''))
      else (case List.find (\<lambda>t. tok_ProjectID t = i) (pdb_tokens db) of
          None \<Rightarrow> (db, Some (tokenVerifyErr ''release token not configured''))
        | Some t \<Rightarrow>
            if hash (trim_space token) \<noteq> tok_Hash t then (db, Some (tokenVerifyErr ''invalid release token''))
            else (db\<lparr>pdb_tokens := update_where (\<lambda>t. tok_ProjectID t = i)
                    (\<lambda>t. t\<lparr>tok_LastUsedAt := Some now, tok_UpdatedAt := now\<rparr>) (pdb_tokens db)\<rparr>, None)))"

end
