(* ===== verification/ProjectsDeploy.thy ===== *)
theory ProjectsDeploy
  imports ProjectsDb
begin

text \<open>
  internal/projects: the service (service.go, deploy.go).  The runner, the file system, the
  clock, the random identifiers, the secrets controller and the event recorder are a record of
  functions over an opaque world.  A Go function that panics has the outcome Panics; the None
  of an option is an execution that does not end.  Database errors other than the constraints
  of the schema are not modelled.
\<close>

section \<open>The world of the service\<close>

record DeployInput =
  di_App :: string
  di_Hostname :: string
  di_Image :: string
  di_Port :: int
  di_HealthPath :: string
  di_StoragePath :: string
  di_ProxyBind :: string
  di_TLS :: string
  di_SecretsFile :: string

record HealthInput =
  hi_App :: string
  hi_ProxyBind :: string
  hi_Hostname :: string
  hi_Port :: int
  hi_Path :: string

record HealthResult =
  hr_Healthy :: bool
  hr_Detail :: string

record Event =
  evt_Type :: string
  evt_Severity :: string
  evt_ResourceID :: id
  evt_Message :: string
  evt_Data :: "(string \<times> string) list"

text \<open>A secret as the listing of the secrets controller shows it.\<close>

record SecretInfo =
  si_ID :: id
  si_Scope :: string
  si_Name :: string

record 'w ProjectDeps =
  dep_Deploy :: "DeployInput \<Rightarrow> 'w \<Rightarrow> 'w \<times> string result"
  dep_Update :: "(DeployInput \<Rightarrow> 'w \<Rightarrow> 'w \<times> string result) option"
  dep_Health :: "HealthInput \<Rightarrow> 'w \<Rightarrow> 'w \<times> HealthResult result"
  dep_Undeploy :: "string \<Rightarrow> string \<Rightarrow> 'w \<Rightarrow> 'w \<times> goerror option"
  dep_MkdirAll :: "string \<Rightarrow> 'w \<Rightarrow> 'w \<times> goerror option"
  dep_WriteFile :: "string \<Rightarrow> string \<Rightarrow> 'w \<Rightarrow> 'w \<times> goerror option"
  dep_Secrets :: "(('w \<Rightarrow> SecretInfo list result) \<times> (id \<Rightarrow> 'w \<Rightarrow> string result)) option"
  dep_Now :: "'w \<Rightarrow> time"
  dep_CtxErr :: "'w \<Rightarrow> string option"
  dep_Wait :: "int \<Rightarrow> 'w \<Rightarrow> 'w \<times> string option"
  dep_NewID :: "'w \<Rightarrow> 'w \<times> id"
  dep_Emit :: "Event \<Rightarrow> 'w \<Rightarrow> 'w"

record ProjectConfig =
  pc_DataDir :: string
  pc_ProxyBind :: string
  pc_SecretsDir :: string
  pc_HealthTimeout :: int
  pc_HealthInterval :: int
  pc_StaleDeployAge :: int

datatype 'a outcome = Returns 'a | Panics

section \<open>Paths and names\<close>

text \<open>filepath.Join, for configured directories that are clean paths.\<close>

definition routeHostname :: "Project \<Rightarrow> string" where
  "routeHostname p = (if trim_space (proj_Hostname p) \<noteq> [] then proj_Hostname p else proj_Slug p)"

definition storageHostPath :: "ProjectConfig \<Rightarrow> string \<Rightarrow> string" where
  "storageHostPath cfg slug = pc_DataDir cfg @ ''/projects/'' @ slug @ ''/storage''"

definition secretsFilePath :: "ProjectConfig \<Rightarrow> string \<Rightarrow> string" where
  "secretsFilePath cfg slug = pc_SecretsDir cfg @ ''/'' @ slug @ ''.env''"

section \<open>The secrets file\<close>

definition secret_lines :: "(id \<Rightarrow> string result) \<Rightarrow> string \<Rightarrow> SecretInfo list \<Rightarrow> string list" where
  "secret_lines reveal scope list = concat (map (\<lambda>s. if si_Scope s \<noteq> scope then []
     else (case reveal (si_ID s) of Inl _ \<Rightarrow> [] | Inr v \<Rightarrow> [si_Name s @ ''='' @ v])) list)"

definition writeProjectSecretsFile :: "ProjectConfig \<Rightarrow> 'w ProjectDeps \<Rightarrow> Project \<Rightarrow> 'w \<Rightarrow> 'w \<times> goerror option" where
  "writeProjectSecretsFile cfg dep p w =
     (let path = secretsFilePath cfg (proj_Slug p) in
      case dep_MkdirAll dep (pc_SecretsDir cfg) w of
        (w1, Some e) \<Rightarrow> (w1, Some (wrapctx (''create secrets dir '' @ pc_SecretsDir cfg) e))
      | (w1, None) \<Rightarrow>
          (case dep_Secrets dep of
             None \<Rightarrow> (case dep_WriteFile dep path [] w1 of
                 (w2, Some e) \<Rightarrow> (w2, Some (wrapctx (''write empty secrets file '' @ path) e))
               | (w2, None) \<Rightarrow> (w2, None))
           | Some (list, reveal) \<Rightarrow>
               (case list w1 of
                  Inl e \<Rightarrow> (w1, Some (wrapctx ''list project secrets'' e))
                | Inr secs \<Rightarrow>
                    (let content = join [char_of (10 :: nat)] (secret_lines (\<lambda>i. reveal i w1) (''project:'' @ proj_ID p) secs);
                         content1 = (if content \<noteq> [] then content @ [char_of (10 :: nat)] else content) in
                     case dep_WriteFile dep path content1 w1 of
                       (w2, Some e) \<Rightarrow> (w2, Some (wrapctx (''write secrets file '' @ path) e))
                     | (w2, None) \<Rightarrow> (w2, None)))))"

section \<open>Health\<close>

definition health_detail :: "HealthResult result \<Rightarrow> string" where
  "health_detail r = (case r of
      Inl e \<Rightarrow> ''probe error: '' @ err_msg e
    | Inr h \<Rightarrow> if trim_space (hr_Detail h) \<noteq> [] then hr_Detail h else ''reported unhealthy'')"

partial_function (option) await_loop ::
  "'w ProjectDeps \<Rightarrow> HealthInput \<Rightarrow> int \<Rightarrow> time \<Rightarrow> 'w \<Rightarrow> ('w \<times> bool \<times> string) option" where
  "await_loop dep hi interval deadline w =
     (case dep_CtxErr dep w of
        Some e \<Rightarrow> Some (w, False, ''context canceled: '' @ e)
      | None \<Rightarrow>
          (case dep_Health dep hi w of (w1, r) \<Rightarrow>
             if (case r of Inr h \<Rightarrow> hr_Healthy h | Inl _ \<Rightarrow> False)
             then Some (w1, True, (case r of Inr h \<Rightarrow> hr_Detail h | Inl _ \<Rightarrow> []))
             else
               (let remaining = deadline - dep_Now dep w1 in
                if remaining \<le> 0 then Some (w1, False, health_detail r)
                else (case dep_Wait dep (min interval remaining) w1 of
                    (w2, Some e) \<Rightarrow> Some (w2, False, ''context canceled: '' @ e)
                  | (w2, None) \<Rightarrow> await_loop dep hi interval deadline w2))))"

definition health_input :: "ProjectConfig \<Rightarrow> Project \<Rightarrow> HealthInput" where
  "health_input cfg p = \<lparr>hi_App = proj_Slug p, hi_ProxyBind = pc_ProxyBind cfg, hi_Hostname = routeHostname p,
     hi_Port = con_Port (proj_Contract p), hi_Path = con_HealthPath (proj_Contract p)\<rparr>"

definition awaitHealth :: "ProjectConfig \<Rightarrow> 'w ProjectDeps \<Rightarrow> Project \<Rightarrow> 'w \<Rightarrow> ('w \<times> bool \<times> string) option" where
  "awaitHealth cfg dep p w =
     await_loop dep (health_input cfg p) (pc_HealthInterval cfg) (dep_Now dep w + pc_HealthTimeout cfg) w"

section \<open>Running a deployment\<close>

definition isHostnameInUse :: "goerror \<Rightarrow> bool" where
  "isHostnameInUse e \<longleftrightarrow> contains_str (err_msg e) ''hostname already in use''"

definition deployOrUpdate :: "'w ProjectDeps \<Rightarrow> DeployInput \<Rightarrow> 'w \<Rightarrow> 'w \<times> string result" where
  "deployOrUpdate dep inp w = (case dep_Deploy dep inp w of
      (w1, Inr v) \<Rightarrow> (w1, Inr v)
    | (w1, Inl e) \<Rightarrow> (case dep_Update dep of
          None \<Rightarrow> (w1, Inl e)
        | Some up \<Rightarrow> if \<not> isHostnameInUse e then (w1, Inl e) else up inp w1))"

definition failRelease ::
  "'w ProjectDeps \<Rightarrow> projects_db \<Rightarrow> Release \<Rightarrow> Project \<Rightarrow> string \<Rightarrow> string \<Rightarrow> goerror \<Rightarrow> 'w \<Rightarrow> 'w \<times> projects_db \<times> Release" where
  "failRelease dep db rel p commit digest cause w =
     (let now = dep_Now dep w;
          db1 = setReleaseStatus db (rel_ID rel) ReleaseFailed now in
      (dep_Emit dep \<lparr>evt_Type = ''deployment.failed'', evt_Severity = ''error'', evt_ResourceID = proj_ID p,
          evt_Message = ''project '' @ quote (proj_Slug p) @ '' deployment failed: '' @ err_msg cause,
          evt_Data = [(''slug'', proj_Slug p), (''digest'', digest), (''commit'', commit), (''reason'', err_msg cause)]\<rparr> w,
       db1, rel\<lparr>rel_UpdatedAt := now, rel_Status := ReleaseFailed, rel_Active := False\<rparr>))"

definition deploy_input :: "ProjectConfig \<Rightarrow> Project \<Rightarrow> string \<Rightarrow> DeployInput" where
  "deploy_input cfg p digest = \<lparr>di_App = proj_Slug p, di_Hostname = routeHostname p, di_Image = proj_Image p @ ''@'' @ digest,
     di_Port = con_Port (proj_Contract p), di_HealthPath = con_HealthPath (proj_Contract p),
     di_StoragePath = storageHostPath cfg (proj_Slug p), di_ProxyBind = pc_ProxyBind cfg, di_TLS = ''external'',
     di_SecretsFile = secretsFilePath cfg (proj_Slug p)\<rparr>"

text \<open>The runner and the health check: the error of the deployment, if any, with the version.\<close>

definition run_deploy ::
  "ProjectConfig \<Rightarrow> 'w ProjectDeps \<Rightarrow> Project \<Rightarrow> string \<Rightarrow> 'w \<Rightarrow> ('w \<times> string result) option" where
  "run_deploy cfg dep p digest w = (case deployOrUpdate dep (deploy_input cfg p digest) w of
      (w1, Inl e) \<Rightarrow> Some (w1, Inl e)
    | (w1, Inr v) \<Rightarrow> (case awaitHealth cfg dep p w1 of
          None \<Rightarrow> None
        | Some (w2, True, _) \<Rightarrow> Some (w2, Inr v)
        | Some (w2, False, detail) \<Rightarrow> Some (w2, Inl (errorf (''health check '' @ con_HealthPath (proj_Contract p) @
            '' did not become healthy: '' @ detail)))))"

definition deployed_event :: "Project \<Rightarrow> string \<Rightarrow> string \<Rightarrow> string \<Rightarrow> bool \<Rightarrow> Event" where
  "deployed_event p commit digest version rollback =
     (let data = [(''slug'', proj_Slug p), (''digest'', digest), (''commit'', commit)] in
      if rollback then \<lparr>evt_Type = ''deployment.rolled_back'', evt_Severity = ''info'', evt_ResourceID = proj_ID p,
          evt_Message = ''project '' @ quote (proj_Slug p) @ '' rolled back to '' @ digest, evt_Data = data\<rparr>
      else \<lparr>evt_Type = ''deployment.completed'', evt_Severity = ''info'', evt_ResourceID = proj_ID p,
          evt_Message = ''project '' @ quote (proj_Slug p) @ '' deployed '' @ digest,
          evt_Data = data @ (if trim_space version \<noteq> [] then [(''version'', trim_space version)] else [])\<rparr>)"

text \<open>The body of deployProject after the release row: the error of beginRelease is not looked at,
  so without a row the first use of its identifier panics, after the runner has run.\<close>

definition finish_deploy ::
  "ProjectConfig \<Rightarrow> 'w ProjectDeps \<Rightarrow> projects_db \<Rightarrow> Project \<Rightarrow> string \<Rightarrow> string \<Rightarrow> bool \<Rightarrow> Release option \<Rightarrow> 'w \<Rightarrow>
     ('w \<times> projects_db \<times> (Release option \<times> goerror option) outcome) option" where
  "finish_deploy cfg dep db p commit digest rollback rel w = (case run_deploy cfg dep p digest w of
      None \<Rightarrow> None
    | Some (w1, Inl e) \<Rightarrow> (case rel of
          None \<Rightarrow> Some (w1, db, Panics)
        | Some r \<Rightarrow> (case failRelease dep db r p commit digest e w1 of
              (w2, db2, r2) \<Rightarrow> Some (w2, db2, Returns (Some r2, Some (wrap2 ErrDeployFailed e)))))
    | Some (w1, Inr v) \<Rightarrow> (case rel of
          None \<Rightarrow> Some (w1, db, Panics)
        | Some r \<Rightarrow>
            (let now = dep_Now dep w1 in
             Some (dep_Emit dep (deployed_event p commit digest v rollback) w1,
                   activateRelease db now (proj_ID p) (rel_ID r),
                   Returns (Some (r\<lparr>rel_Status := ReleaseSucceeded, rel_Active := True, rel_UpdatedAt := now\<rparr>), None)))))"

definition deployProject ::
  "ProjectConfig \<Rightarrow> 'w ProjectDeps \<Rightarrow> projects_db \<Rightarrow> Project \<Rightarrow> string \<Rightarrow> string \<Rightarrow> bool \<Rightarrow> 'w \<Rightarrow>
     ('w \<times> projects_db \<times> (Release option \<times> goerror option) outcome) option" where
  "deployProject cfg dep db p rawCommit rawDigest rollback w =
     (case normalizeAndValidateCommit rawCommit of
        Inl e \<Rightarrow> Some (w, db, Returns (None, Some e))
      | Inr commit \<Rightarrow> (case normalizeAndValidateDigest rawDigest of
          Inl e \<Rightarrow> Some (w, db, Returns (None, Some e))
        | Inr digest \<Rightarrow>
            (case dep_MkdirAll dep (storageHostPath cfg (proj_Slug p)) w of
               (w1, Some e) \<Rightarrow> Some (w1, db, Returns (None, Some (wrapctx (''create project storage '' @ storageHostPath cfg (proj_Slug p)) e)))
             | (w1, None) \<Rightarrow>
                 (case writeProjectSecretsFile cfg dep p w1 of
                    (w2, Some e) \<Rightarrow> Some (w2, db, Returns (None, Some (wrapctx ''write project secrets file'' e)))
                  | (w2, None) \<Rightarrow>
                      (case dep_NewID dep w2 of (w3, fresh) \<Rightarrow>
                       (case beginRelease db fresh (dep_Now dep w3) (proj_ID p) commit digest of
                          (db1, Inl _) \<Rightarrow> finish_deploy cfg dep db1 p commit digest rollback None w3
                        | (db1, Inr r) \<Rightarrow> finish_deploy cfg dep db1 p commit digest rollback (Some r) w3))))))"

section \<open>Under the deploy lock\<close>

text \<open>The lock is released when the function returns and when it panics.\<close>

definition withDeployLock ::
  "ProjectConfig \<Rightarrow> 'w ProjectDeps \<Rightarrow> projects_db \<Rightarrow> id \<Rightarrow>
     (projects_db \<Rightarrow> 'w \<Rightarrow> ('w \<times> projects_db \<times> ('a \<times> goerror option) outcome) option) \<Rightarrow> 'a \<Rightarrow> 'w \<Rightarrow>
     ('w \<times> projects_db \<times> ('a \<times> goerror option) outcome) option" where
  "withDeployLock cfg dep db i f none w = (case beginDeployFlag db (dep_Now dep w) (pc_StaleDeployAge cfg) i of
      (db1, Some e) \<Rightarrow> Some (w, db1, Returns (none, Some e))
    | (db1, None) \<Rightarrow> (case f db1 w of
          None \<Rightarrow> None
        | Some (w2, db2, r) \<Rightarrow> Some (w2, endDeployFlag db2 i, r)))"

text \<open>Deploy, Release and Rollback hand the release to the caller only with a nil error or a
  deployment failure.\<close>

definition caller_view :: "(Release option \<times> goerror option) outcome \<Rightarrow> (Release option \<times> goerror option) outcome" where
  "caller_view r = (case r of Panics \<Rightarrow> Panics
    | Returns (rel, Some e) \<Rightarrow> if errors_is e ErrDeployFailed then Returns (rel, Some e) else Returns (None, Some e)
    | Returns (rel, None) \<Rightarrow> Returns (rel, None))"

definition on_outcome :: "('a \<Rightarrow> 'b) \<Rightarrow> ('w \<times> 'd \<times> 'a) option \<Rightarrow> ('w \<times> 'd \<times> 'b) option" where
  "on_outcome g x = map_option (\<lambda>(w, db, r). (w, db, g r)) x"

definition locked_deploy ::
  "ProjectConfig \<Rightarrow> 'w ProjectDeps \<Rightarrow> projects_db \<Rightarrow> id \<Rightarrow> string \<Rightarrow> string \<Rightarrow> 'w \<Rightarrow>
     ('w \<times> projects_db \<times> (Release option \<times> goerror option) outcome) option" where
  "locked_deploy cfg dep db i commit digest w =
     on_outcome caller_view (withDeployLock cfg dep db i (\<lambda>db1 w1. case fetchProject db1 i of
         Inl e \<Rightarrow> Some (w1, db1, Returns (None, Some e))
       | Inr p \<Rightarrow> deployProject cfg dep db1 p commit digest False w1) None w)"

definition Deploy ::
  "ProjectConfig \<Rightarrow> 'w ProjectDeps \<Rightarrow> projects_db \<Rightarrow> id \<Rightarrow> string \<Rightarrow> string \<Rightarrow> 'w \<Rightarrow>
     ('w \<times> projects_db \<times> (Release option \<times> goerror option) outcome) option" where
  "Deploy cfg dep db i commit digest w =
     (if trim_space i = [] then Some (w, db, Returns (None, Some (invalidf ''project_id'' ''must not be empty'')))
      else (case fetchProject db i of
          Inl e \<Rightarrow> Some (w, db, Returns (None, Some e))
        | Inr p \<Rightarrow> locked_deploy cfg dep db (proj_ID p) commit digest w))"

definition Release_op ::
  "ProjectConfig \<Rightarrow> 'w ProjectDeps \<Rightarrow> (id \<Rightarrow> string \<Rightarrow> projects_db \<Rightarrow> projects_db \<times> goerror option) option \<Rightarrow>
     projects_db \<Rightarrow> string \<Rightarrow> string \<Rightarrow> string \<Rightarrow> string \<Rightarrow> 'w \<Rightarrow>
     ('w \<times> projects_db \<times> (Release option \<times> goerror option) outcome) option" where
  "Release_op cfg dep verifier db slug0 commit digest token w =
     (if trim_space slug0 = [] then Some (w, db, Returns (None, Some (invalidf ''slug'' ''must not be empty'')))
      else (case validateSlug (trim_space slug0) of
          Inl e \<Rightarrow> Some (w, db, Returns (None, Some e))
        | Inr slug \<Rightarrow> (case fetchProjectBySlug db slug of
            Inl e \<Rightarrow> Some (w, db, Returns (None, Some e))
          | Inr p \<Rightarrow> (case verifier of
              None \<Rightarrow> Some (w, db, Returns (None, Some (wrapf PErrUnauthorized ''no release token verifier configured'')))
            | Some verify \<Rightarrow>
                if trim_space token = [] then Some (w, db, Returns (None, Some (wrapf PErrUnauthorized ''missing release token'')))
                else (case verify (proj_ID p) token db of
                    (db1, Some _) \<Rightarrow> Some (w, db1, Returns (None, Some (wrapf PErrUnauthorized ''release token rejected'')))
                  | (db1, None) \<Rightarrow> locked_deploy cfg dep db1 (proj_ID p) commit digest w)))))"

definition Rollback ::
  "ProjectConfig \<Rightarrow> 'w ProjectDeps \<Rightarrow> projects_db \<Rightarrow> id \<Rightarrow> 'w \<Rightarrow>
     ('w \<times> projects_db \<times> (Release option \<times> goerror option) outcome) option" where
  "Rollback cfg dep db i w =
     (if trim_space i = [] then Some (w, db, Returns (None, Some (invalidf ''project_id'' ''must not be empty'')))
      else (case fetchProject db i of
          Inl e \<Rightarrow> Some (w, db, Returns (None, Some e))
        | Inr p0 \<Rightarrow> on_outcome caller_view (withDeployLock cfg dep db (proj_ID p0) (\<lambda>db1 w1. case fetchProject db1 (proj_ID p0) of
              Inl e \<Rightarrow> Some (w1, db1, Returns (None, Some e))
            | Inr p \<Rightarrow> (case activeRelease db1 (proj_ID p) of
                None \<Rightarrow> Some (w1, db1, Returns (None, Some (bare ErrNoRollbackTarget)))
              | Some cur \<Rightarrow> (case previousSucceededRelease db1 (proj_ID p) (rel_ID cur) of
                  None \<Rightarrow> Some (w1, db1, Returns (None, Some (bare ErrNoRollbackTarget)))
                | Some target \<Rightarrow> deployProject cfg dep db1 p (rel_Commit target) (rel_Digest target) True w1))) None w)))"

end
