(* ===== verification/ProjectsService.thy ===== *)
theory ProjectsService
  imports ProjectsDeploy
begin

text \<open>
  internal/projects/service.go: creating, reading and deleting projects.  A deletion undeploys
  first and keeps the rows when that fails with anything but the affirmation that there is
  nothing to undeploy.
\<close>

section \<open>Create and read\<close>

record CreateParams =
  cp_Slug :: string
  cp_Name :: string
  cp_RepositoryURL :: string
  cp_Image :: string
  cp_Exposure :: exposure
  cp_Hostname :: string
  cp_Contract :: Contract

definition exposure_text :: string where
  "exposure_text = ''must be '' @ quote ExposurePrivate @ '', '' @ quote ExposureShared @ '', or '' @ quote ExposurePublic"

definition new_project :: "(string \<Rightarrow> string + (string \<times> string)) \<Rightarrow> CreateParams \<Rightarrow> id \<Rightarrow> time \<Rightarrow> Project result" where
  "new_project url_parse p fresh now = (case validateSlug (cp_Slug p) of
      Inl e \<Rightarrow> Inl e
    | Inr slug \<Rightarrow> (case validateName (cp_Name p) of
        Inl e \<Rightarrow> Inl e
      | Inr name \<Rightarrow> (case validateRepositoryURL url_parse (cp_RepositoryURL p) of
          Inl e \<Rightarrow> Inl e
        | Inr repo \<Rightarrow> (case validateImageBase (cp_Image p) of
            Inl e \<Rightarrow> Inl e
          | Inr img \<Rightarrow> (case project_validateHostname (cp_Hostname p) of
              Inl e \<Rightarrow> Inl e
            | Inr hostname \<Rightarrow>
                (let exposure = (if cp_Exposure p = [] then ExposurePrivate else cp_Exposure p);
                     contract = Contract_withDefaults (cp_Contract p) in
                 if \<not> Exposure_Valid exposure then Inl (invalidf ''exposure'' exposure_text)
                 else (case Contract_validate contract of
                     Some e \<Rightarrow> Inl e
                   | None \<Rightarrow> Inr \<lparr>proj_ID = fresh, proj_Slug = slug, proj_Name = name, proj_RepositoryURL = repo,
                       proj_Exposure = exposure, proj_Hostname = hostname, proj_CreatedAt = now, proj_UpdatedAt = now,
                       proj_Image = img, proj_Contract = contract, proj_Deploying = False\<rparr>)))))))"

definition Create ::
  "(string \<Rightarrow> string + (string \<times> string)) \<Rightarrow> 'w ProjectDeps \<Rightarrow> projects_db \<Rightarrow> CreateParams \<Rightarrow> 'w \<Rightarrow>
     'w \<times> projects_db \<times> Project result" where
  "Create url_parse dep db p w = (case dep_NewID dep w of (w1, fresh) \<Rightarrow>
     (case new_project url_parse p fresh (dep_Now dep w) of
        Inl e \<Rightarrow> (w, db, Inl e)
      | Inr proj \<Rightarrow> (case insertProject db proj of
          Inl e \<Rightarrow> (w1, db, Inl e)
        | Inr db1 \<Rightarrow> (dep_Emit dep \<lparr>evt_Type = ''project.created'', evt_Severity = ''info'', evt_ResourceID = proj_ID proj,
              evt_Message = ''project '' @ quote (proj_Slug proj) @ '' created'',
              evt_Data = [(''slug'', proj_Slug proj), (''exposure'', proj_Exposure proj)]\<rparr> w1, db1, Inr proj))))"

definition Get :: "projects_db \<Rightarrow> id \<Rightarrow> Project result" where
  "Get db i = (if trim_space i = [] then Inl (invalidf ''id'' ''must not be empty'') else fetchProject db i)"

definition GetBySlug :: "projects_db \<Rightarrow> string \<Rightarrow> Project result" where
  "GetBySlug db slug0 =
     (if trim_space slug0 = [] then Inl (invalidf ''slug'' ''must not be empty'')
      else case validateSlug (trim_space slug0) of Inl e \<Rightarrow> Inl e | Inr slug \<Rightarrow> fetchProjectBySlug db slug)"

section \<open>Undeploying\<close>

text \<open>The pattern for a quoted application name: a word boundary, app, white space, a non-empty
  quoted text, white space, not found, a word boundary.\<close>

definition is_word :: "char \<Rightarrow> bool" where
  "is_word c \<longleftrightarrow> is_upper c \<or> is_lower c \<or> is_digit c \<or> c = CHR ''_''"

definition quote_mark :: char where "quote_mark = char_of (34 :: nat)"

text \<open>The white space class of the pattern has no vertical tab.\<close>

definition is_re_space :: "char \<Rightarrow> bool" where
  "is_re_space c \<longleftrightarrow> (let n = (of_char c :: nat) in n = 9 \<or> n = 10 \<or> n = 12 \<or> n = 13 \<or> n = 32)"

definition absent_here :: "string \<Rightarrow> bool" where
  "absent_here s \<longleftrightarrow> has_prefix s ''app'' \<and>
     (let r = drop 3 s; r1 = dropWhile is_re_space r in
      r \<noteq> [] \<and> is_re_space (hd r) \<and> r1 \<noteq> [] \<and> hd r1 = quote_mark \<and>
      (let q = takeWhile (\<lambda>c. c \<noteq> quote_mark) (tl r1); r2 = drop (length q) (tl r1) in
       q \<noteq> [] \<and> r2 \<noteq> [] \<and>
       (let r3 = tl r2; r4 = dropWhile is_re_space r3 in
        r3 \<noteq> [] \<and> is_re_space (hd r3) \<and> has_prefix r4 ''not found'' \<and>
        (let r5 = drop 9 r4 in r5 = [] \<or> \<not> is_word (hd r5)))))"

fun absentAppQuoted :: "bool \<Rightarrow> string \<Rightarrow> bool" where
  "absentAppQuoted prevword [] \<longleftrightarrow> False"
| "absentAppQuoted prevword (c # s) \<longleftrightarrow> (\<not> prevword \<and> absent_here (c # s)) \<or> absentAppQuoted (is_word c) s"

definition absent_phrases :: "string list" where
  "absent_phrases = [''no application found'', ''application not found'', ''app not found'', ''unknown application'',
     ''unknown app'', ''no such application'', ''not deployed'', ''already undeployed'', ''already removed'']"

definition isAbsentAppError :: "goerror \<Rightarrow> bool" where
  "isAbsentAppError e \<longleftrightarrow> (let msg = to_lower (err_msg e) in
     \<not> (contains_str msg ''binary'' \<or> contains_str msg ''not configured'') \<and>
     (list_ex (contains_str msg) absent_phrases \<or> absentAppQuoted False msg))"

definition undeployIfActive :: "'w ProjectDeps \<Rightarrow> projects_db \<Rightarrow> Project \<Rightarrow> 'w \<Rightarrow> 'w \<times> goerror option" where
  "undeployIfActive dep db p w =
     (if \<not> hasReleases db (proj_ID p) then (w, None)
      else (case dep_Undeploy dep (proj_Slug p) (routeHostname p) w of
          (w1, None) \<Rightarrow> (w1, None)
        | (w1, Some e) \<Rightarrow>
            if isAbsentAppError e
            then (dep_Emit dep \<lparr>evt_Type = ''project.undeploy_skipped'', evt_Severity = ''info'', evt_ResourceID = proj_ID p,
                evt_Message = ''project '' @ quote (proj_Slug p) @ '' undeploy skipped: no live deployment ('' @ err_msg e @ '')'',
                evt_Data = [(''slug'', proj_Slug p)]\<rparr> w1, None)
            else (w1, Some (wrap2 ErrUndeployFailed e))))"

section \<open>Delete\<close>

definition delete_rows :: "'w ProjectDeps \<Rightarrow> projects_db \<Rightarrow> Project \<Rightarrow> 'w \<Rightarrow> 'w \<times> projects_db \<times> (unit \<times> goerror option) outcome" where
  "delete_rows dep db p w = (case deleteProjectRows db (proj_ID p) of
      Inl e \<Rightarrow> (w, db, Returns ((), Some e))
    | Inr db1 \<Rightarrow> (dep_Emit dep \<lparr>evt_Type = ''project.deleted'', evt_Severity = ''info'', evt_ResourceID = proj_ID p,
          evt_Message = ''project '' @ quote (proj_Slug p) @ '' deleted'', evt_Data = [(''slug'', proj_Slug p)]\<rparr> w,
        db1, Returns ((), None)))"

definition DeleteWithTeardown ::
  "ProjectConfig \<Rightarrow> 'w ProjectDeps \<Rightarrow> projects_db \<Rightarrow> id \<Rightarrow> (Project \<Rightarrow> 'w \<Rightarrow> 'w \<times> goerror option) option \<Rightarrow> 'w \<Rightarrow>
     ('w \<times> projects_db \<times> (unit \<times> goerror option) outcome) option" where
  "DeleteWithTeardown cfg dep db i teardown w =
     (if trim_space i = [] then Some (w, db, Returns ((), Some (invalidf ''id'' ''must not be empty'')))
      else (case fetchProject db i of
          Inl e \<Rightarrow> Some (w, db, Returns ((), Some e))
        | Inr p \<Rightarrow> withDeployLock cfg dep db (proj_ID p) (\<lambda>db1 w1. case undeployIfActive dep db1 p w1 of
              (w2, Some e) \<Rightarrow> Some (w2, db1, Returns ((), Some e))
            | (w2, None) \<Rightarrow>
                (case (case teardown of None \<Rightarrow> (w2, None) | Some f \<Rightarrow> f p w2) of
                   (w3, Some e) \<Rightarrow> Some (w3, db1, Returns ((), Some e))
                 | (w3, None) \<Rightarrow> Some (delete_rows dep db1 p w3))) () w))"

definition Delete_project ::
  "ProjectConfig \<Rightarrow> 'w ProjectDeps \<Rightarrow> projects_db \<Rightarrow> id \<Rightarrow> 'w \<Rightarrow> ('w \<times> projects_db \<times> (unit \<times> goerror option) outcome) option" where
  "Delete_project cfg dep db i w = DeleteWithTeardown cfg dep db i None w"

definition UndeployProject ::
  "ProjectConfig \<Rightarrow> 'w ProjectDeps \<Rightarrow> projects_db \<Rightarrow> id \<Rightarrow> 'w \<Rightarrow> ('w \<times> projects_db \<times> (unit \<times> goerror option) outcome) option" where
  "UndeployProject cfg dep db i w = (case fetchProject db i of
      Inl e \<Rightarrow> Some (w, db, Returns ((), Some e))
    | Inr p \<Rightarrow> withDeployLock cfg dep db (proj_ID p) (\<lambda>db1 w1. case undeployIfActive dep db1 p w1 of
          (w2, r) \<Rightarrow> Some (w2, db1, Returns ((), r))) () w)"

definition DeleteProjectRecord ::
  "ProjectConfig \<Rightarrow> 'w ProjectDeps \<Rightarrow> projects_db \<Rightarrow> id \<Rightarrow> 'w \<Rightarrow> ('w \<times> projects_db \<times> (unit \<times> goerror option) outcome) option" where
  "DeleteProjectRecord cfg dep db i w =
     (if trim_space i = [] then Some (w, db, Returns ((), Some (invalidf ''id'' ''must not be empty'')))
      else (case fetchProject db i of
          Inl e \<Rightarrow> Some (w, db, Returns ((), Some e))
        | Inr p \<Rightarrow> withDeployLock cfg dep db (proj_ID p) (\<lambda>db1 w1. Some (delete_rows dep db1 p w1)) () w))"

end
