(* ===== verification/ProjectsStates.thy ===== *)
theory ProjectsStates
  imports ProjectsService Tables
begin

text \<open>
  internal/projects: the statements that change the tables, as a step relation in which any
  interleaving of service calls is a sequence, the well-formedness the schema (schema.go) and
  the validators promise, and that every statement keeps it.
\<close>

section \<open>Statement steps\<close>

inductive db_step :: "projects_db \<Rightarrow> projects_db \<Rightarrow> bool" where
  st_create: "new_project url_parse p fresh now = Inr proj \<Longrightarrow> insertProject db proj = Inr db' \<Longrightarrow> db_step db db'"
| st_lock: "beginDeployFlag db now age i = (db', e) \<Longrightarrow> db_step db db'"
| st_unlock: "db_step db (endDeployFlag db i)"
| st_begin: "fresh \<notin> rel_ID ` set (pdb_releases db) \<Longrightarrow> i \<in> row_id ` set (pdb_projects db) \<Longrightarrow>
    normalizeAndValidateCommit c0 = Inr c \<Longrightarrow> normalizeAndValidateDigest d0 = Inr d \<Longrightarrow>
    beginRelease db fresh now i c d = (db', x) \<Longrightarrow> db_step db db'"
| st_fail: "db_step db (setReleaseStatus db j ReleaseFailed now)"
| st_activate: "\<forall>r \<in> set (pdb_releases db). rel_ID r = j \<longrightarrow> rel_ProjectID r = i \<Longrightarrow>
    db_step db (activateRelease db now i j)"
| st_delete: "deleteProjectRows db i = Inr db' \<Longrightarrow> db_step db db'"
| st_issue: "db_step db (storeReleaseTokenHash hash db now i token)"
| st_verify: "VerifyReleaseToken hash now i token db = (db', e) \<Longrightarrow> db_step db db'"

section \<open>Well-formed tables\<close>

definition project_ok :: "Project \<Rightarrow> bool" where
  "project_ok p \<longleftrightarrow> ValidSlug (proj_Slug p) \<and> Exposure_Valid (proj_Exposure p) \<and> proj_Contract p = DefaultContract"

definition release_ok :: "Release \<Rightarrow> bool" where
  "release_ok r \<longleftrightarrow> digestPattern (rel_Digest r) \<and> (length (rel_Commit r) = 40 \<or> length (rel_Commit r) = 64) \<and>
     list_all is_lower_hex (rel_Commit r) \<and>
     (rel_Status r = ReleaseDeploying \<or> rel_Status r = ReleaseSucceeded \<or> rel_Status r = ReleaseFailed)"

definition one_active :: "Release list \<Rightarrow> bool" where
  "one_active rs \<longleftrightarrow> (\<forall>r \<in> set rs. \<forall>s \<in> set rs. rel_Active r \<and> rel_Active s \<and> rel_ProjectID r = rel_ProjectID s
     \<longrightarrow> rel_ID r = rel_ID s)"

abbreviation rel_key :: "Release \<Rightarrow> id \<times> string" where "rel_key r \<equiv> (rel_ProjectID r, rel_Digest r)"

definition projects_ok :: "projects_db \<Rightarrow> bool" where
  "projects_ok db \<longleftrightarrow>
     distinct (map row_id (pdb_projects db)) \<and>
     distinct (map (\<lambda>r. proj_Slug (row_project r)) (pdb_projects db)) \<and>
     (\<forall>r \<in> set (pdb_projects db). project_ok (row_project r)) \<and>
     distinct (map rel_ID (pdb_releases db)) \<and>
     distinct (map rel_key (pdb_releases db)) \<and>
     one_active (pdb_releases db) \<and>
     (\<forall>r \<in> set (pdb_releases db). release_ok r \<and> rel_ProjectID r \<in> row_id ` set (pdb_projects db)) \<and>
     distinct (map tok_ProjectID (pdb_tokens db))"

lemma projects_okI:
  assumes "distinct (map row_id (pdb_projects db))"
    "distinct (map (\<lambda>r. proj_Slug (row_project r)) (pdb_projects db))"
    "\<And>r. r \<in> set (pdb_projects db) \<Longrightarrow> project_ok (row_project r)"
    "distinct (map rel_ID (pdb_releases db))" "distinct (map rel_key (pdb_releases db))"
    "one_active (pdb_releases db)"
    "\<And>r. r \<in> set (pdb_releases db) \<Longrightarrow> release_ok r \<and> rel_ProjectID r \<in> row_id ` set (pdb_projects db)"
    "distinct (map tok_ProjectID (pdb_tokens db))"
  shows "projects_ok db"
  using assms by (simp add: projects_ok_def)

lemma projects_okD:
  assumes "projects_ok db"
  shows "distinct (map row_id (pdb_projects db))"
    "distinct (map (\<lambda>r. proj_Slug (row_project r)) (pdb_projects db))"
    "\<And>r. r \<in> set (pdb_projects db) \<Longrightarrow> project_ok (row_project r)"
    "distinct (map rel_ID (pdb_releases db))" "distinct (map rel_key (pdb_releases db))"
    "one_active (pdb_releases db)"
    "\<And>r. r \<in> set (pdb_releases db) \<Longrightarrow> release_ok r \<and> rel_ProjectID r \<in> row_id ` set (pdb_projects db)"
    "distinct (map tok_ProjectID (pdb_tokens db))"
  using assms by (auto simp: projects_ok_def)

lemma empty_projects_ok: "projects_ok empty_projects_db"
  by (simp add: projects_ok_def empty_projects_db_def one_active_def)

text \<open>An update of project rows that keeps identifiers, slugs and validated columns.\<close>

lemma ok_update_projects:
  assumes "projects_ok db"
    and k: "\<And>r. row_id (f r) = row_id r \<and> proj_Slug (row_project (f r)) = proj_Slug (row_project r) \<and>
      project_ok (row_project (f r)) = project_ok (row_project r)"
  shows "projects_ok (db\<lparr>pdb_projects := update_where P f (pdb_projects db)\<rparr>)"
proof (rule projects_okI)
  note o = projects_okD [OF assms(1)]
  have im: "row_id ` set (update_where P f (pdb_projects db)) = row_id ` set (pdb_projects db)"
    by (rule image_update_where_key) (use k in blast)
  show "release_ok r \<and> rel_ProjectID r \<in> row_id ` set (pdb_projects (db\<lparr>pdb_projects := update_where P f (pdb_projects db)\<rparr>))"
    if "r \<in> set (pdb_releases (db\<lparr>pdb_projects := update_where P f (pdb_projects db)\<rparr>))" for r
    using o(7) that im by simp
  show "project_ok (row_project r)" if "r \<in> set (pdb_projects (db\<lparr>pdb_projects := update_where P f (pdb_projects db)\<rparr>))" for r
    using o(3) that k by (auto simp: set_update_where)
qed (use k projects_okD [OF assms(1)] in \<open>simp_all add: map_update_where_key\<close>)

text \<open>An update of release rows that keeps their identity and does not break the other columns.\<close>

lemma ok_update_releases:
  assumes "projects_ok db"
    and k: "\<And>r. rel_ID (f r) = rel_ID r \<and> rel_key (f r) = rel_key r"
    and v: "\<And>r. r \<in> set (pdb_releases db) \<Longrightarrow> release_ok (f r)"
    and a: "one_active (update_where P f (pdb_releases db))"
  shows "projects_ok (db\<lparr>pdb_releases := update_where P f (pdb_releases db)\<rparr>)"
proof (rule projects_okI)
  note o = projects_okD [OF assms(1)]
  show "release_ok r \<and> rel_ProjectID r \<in> row_id ` set (pdb_projects (db\<lparr>pdb_releases := update_where P f (pdb_releases db)\<rparr>))"
    if "r \<in> set (pdb_releases (db\<lparr>pdb_releases := update_where P f (pdb_releases db)\<rparr>))" for r
    using that o(7) v k by (auto simp: set_update_where)
qed (use k a projects_okD [OF assms(1)] in \<open>simp_all add: map_update_where_key\<close>)

lemma one_active_transfer:
  assumes "one_active rs"
    "\<And>x. x \<in> set ys \<Longrightarrow> rel_Active x \<Longrightarrow>
       \<exists>r \<in> set rs. rel_ID r = rel_ID x \<and> rel_ProjectID r = rel_ProjectID x \<and> rel_Active r"
  shows "one_active ys"
  unfolding one_active_def
proof (intro ballI impI, elim conjE)
  fix x y assume a: "x \<in> set ys" "y \<in> set ys" "rel_Active x" "rel_Active y" "rel_ProjectID x = rel_ProjectID y"
  from assms(2) [OF a(1,3)] assms(2) [OF a(2,4)] obtain r s where
    "r \<in> set rs" "rel_ID r = rel_ID x" "rel_ProjectID r = rel_ProjectID x" "rel_Active r"
    "s \<in> set rs" "rel_ID s = rel_ID y" "rel_ProjectID s = rel_ProjectID y" "rel_Active s" by blast
  with assms(1) a(5) show "rel_ID x = rel_ID y" unfolding one_active_def by metis
qed

lemma one_active_status:
  assumes "one_active rs" "\<And>r. rel_ID (f r) = rel_ID r \<and> rel_ProjectID (f r) = rel_ProjectID r"
    "\<And>r. rel_Active (f r) \<Longrightarrow> rel_Active r"
  shows "one_active (update_where P f rs)"
  by (rule one_active_transfer [OF assms(1)]) (use assms(2,3) in \<open>auto simp: set_update_where\<close>)

lemma release_ok_status [simp]:
  "release_ok (r\<lparr>rel_Active := b\<rparr>) = release_ok r" "release_ok (r\<lparr>rel_UpdatedAt := t\<rparr>) = release_ok r"
  by (simp_all add: release_ok_def)

section \<open>Every statement keeps the tables well-formed\<close>

lemma new_project_ok: "new_project url_parse p fresh now = Inr proj \<Longrightarrow> project_ok proj \<and> proj_ID proj = fresh"
  by (auto simp: new_project_def project_ok_def Contract_validate_None validateSlug_Inr Let_def
      split: sum.splits if_splits option.splits)

lemma insertProject_ok:
  assumes ok: "projects_ok db" and p: "project_ok p" and ins: "insertProject db p = Inr db'"
  shows "projects_ok db'"
proof -
  note o = projects_okD [OF ok]
  have new: "\<forall>r \<in> set (pdb_projects db). row_id r \<noteq> proj_ID p \<and> proj_Slug (row_project r) \<noteq> proj_Slug p"
    and db': "db' = db\<lparr>pdb_projects := pdb_projects db @ [\<lparr>row_project = p, row_started = 0\<rparr>]\<rparr>"
    using ins by (simp_all add: insertProject_def list_ex_iff split: if_splits)
  show ?thesis unfolding db'
  proof (rule projects_okI, goal_cases)
    case 1 show ?case using o(1) new by (simp add: image_iff) metis
  next
    case 2 show ?case using o(2) new by (simp add: image_iff) metis
  next
    case (3 r) then show ?case using o(3) p by auto
  next
    case (7 r) then show ?case using o(7) [of r] by auto
  qed (use o in simp_all)
qed

lemma project_ok_deploying [simp]: "project_ok (p\<lparr>proj_Deploying := b\<rparr>) = project_ok p"
  "project_ok (p\<lparr>proj_UpdatedAt := t\<rparr>) = project_ok p"
  by (simp_all add: project_ok_def)

lemma beginDeployFlag_ok: "projects_ok db \<Longrightarrow> beginDeployFlag db now age i = (db', e) \<Longrightarrow> projects_ok db'"
  by (auto simp: beginDeployFlag_def set_deploying_def intro!: ok_update_projects split: if_splits sum.splits)

lemma endDeployFlag_ok: "projects_ok db \<Longrightarrow> projects_ok (endDeployFlag db i)"
  by (auto simp: endDeployFlag_def set_deploying_def intro!: ok_update_projects)

lemma setReleaseStatus_ok:
  "projects_ok db \<Longrightarrow> s = ReleaseDeploying \<or> s = ReleaseFailed \<or> s = ReleaseSucceeded \<Longrightarrow> projects_ok (setReleaseStatus db j s now)"
  unfolding setReleaseStatus_def
  by (rule ok_update_releases) (auto simp: release_ok_def dest: projects_okD(7) intro!: one_active_status projects_okD(6))

lemma beginRelease_ok:
  assumes "projects_ok db" "fresh \<notin> rel_ID ` set (pdb_releases db)" "i \<in> row_id ` set (pdb_projects db)"
    "normalizeAndValidateCommit c0 = Inr c" "normalizeAndValidateDigest d0 = Inr d"
    "beginRelease db fresh now i c d = (db', x)"
  shows "projects_ok db'"
proof (cases "releaseByProjectDigest db i d")
  case None
  then have n: "\<forall>r \<in> set (pdb_releases db). rel_key r \<noteq> (i, d)"
    by (auto simp: releaseByProjectDigest_def find_None_iff)
  let ?rel = "\<lparr>rel_ID = fresh, rel_ProjectID = i, rel_Commit = c, rel_Digest = d,
               rel_Status = ReleaseDeploying, rel_Active = False, rel_CreatedAt = now, rel_UpdatedAt = now\<rparr>"
  have d: "db' = db\<lparr>pdb_releases := pdb_releases db @ [?rel]\<rparr>"
    using assms(6) None by (simp add: beginRelease_def Let_def)
  have r: "release_ok ?rel"
    using assms(4,5) by (auto simp: release_ok_def normalizeAndValidateCommit_Inr normalizeAndValidateDigest_Inr)
  note o = projects_okD [OF assms(1)]
  show ?thesis unfolding d
  proof (rule projects_okI, goal_cases)
    case 4 show ?case using o(4) assms(2) by simp
  next
    case 5 show ?case using o(5) n by (auto simp: image_iff)
  next
    case 6 show ?case using one_active_transfer [OF o(6), of "pdb_releases db @ [?rel]"] by fastforce
  next
    case (7 s) then show ?case using o(7) [of s] r assms(3) by auto
  qed (use o in simp_all)
next
  case (Some ex)
  then show ?thesis using assms(1,6)
    by (auto simp: beginRelease_def intro!: setReleaseStatus_ok split: if_splits)
qed

lemma one_active_activate:
  assumes "distinct (map rel_ID rs)" "one_active rs" "\<forall>r \<in> set rs. rel_ID r = j \<longrightarrow> rel_ProjectID r = i"
  shows "one_active (update_where (\<lambda>r. rel_ID r = j) (\<lambda>r. r\<lparr>rel_Status := s, rel_Active := True, rel_UpdatedAt := now\<rparr>)
    (update_where (\<lambda>r. rel_ProjectID r = i \<and> rel_Active r \<and> rel_ID r \<noteq> j) (\<lambda>r. r\<lparr>rel_Active := False, rel_UpdatedAt := now\<rparr>) rs))"
    (is "one_active ?rs")
proof -
  have old: "rel_ID x = j \<and> rel_ProjectID x = i \<or> rel_ProjectID x \<noteq> i \<and> x \<in> set rs \<and> rel_Active x"
    if "x \<in> set ?rs" "rel_Active x" for x
  proof -
    from that(1) obtain r where r: "r \<in> set rs"
      "x = (let y = (if rel_ProjectID r = i \<and> rel_Active r \<and> rel_ID r \<noteq> j then r\<lparr>rel_Active := False, rel_UpdatedAt := now\<rparr> else r)
            in if rel_ID y = j then y\<lparr>rel_Status := s, rel_Active := True, rel_UpdatedAt := now\<rparr> else y)"
      by (auto simp: update_where_def Let_def)
    show ?thesis
    proof (cases "rel_ID r = j")
      case True then show ?thesis using r assms(3) by simp
    next
      case False then show ?thesis using r that(2) by (auto split: if_splits)
    qed
  qed
  show ?thesis unfolding one_active_def
  proof (intro ballI impI, elim conjE)
    fix x y assume a: "x \<in> set ?rs" "y \<in> set ?rs" "rel_Active x" "rel_Active y" "rel_ProjectID x = rel_ProjectID y"
    show "rel_ID x = rel_ID y"
    proof (cases "rel_ProjectID x = i")
      case True
      then show ?thesis using old [OF a(1,3)] old [OF a(2,4)] a(5) by simp
    next
      case False
      then have "x \<in> set rs \<and> y \<in> set rs" using old [OF a(1,3)] old [OF a(2,4)] a(5) by auto
      then show ?thesis using assms(2) a(3,4,5) by (simp add: one_active_def)
    qed
  qed
qed

lemma activateRelease_ok:
  assumes ok: "projects_ok db" and own: "\<forall>r \<in> set (pdb_releases db). rel_ID r = j \<longrightarrow> rel_ProjectID r = i"
  shows "projects_ok (activateRelease db now i j)"
proof -
  let ?f = "\<lambda>r. r\<lparr>rel_Active := False, rel_UpdatedAt := now\<rparr>"
  let ?P = "\<lambda>r. rel_ProjectID r = i \<and> rel_Active r \<and> rel_ID r \<noteq> j"
  let ?db1 = "db\<lparr>pdb_releases := update_where ?P ?f (pdb_releases db)\<rparr>"
  let ?g = "\<lambda>r. r\<lparr>rel_Status := ReleaseSucceeded, rel_Active := True, rel_UpdatedAt := now\<rparr>"
  have ok1: "projects_ok ?db1"
    by (rule ok_update_releases [OF ok])
       (auto dest: projects_okD(7) [OF ok] intro!: one_active_status projects_okD(6) [OF ok])
  have "projects_ok (?db1\<lparr>pdb_releases := update_where (\<lambda>r. rel_ID r = j) ?g (pdb_releases ?db1)\<rparr>)"
    by (rule ok_update_releases [OF ok1])
       (use one_active_activate [OF projects_okD(4,6) [OF ok] own] projects_okD(7) [OF ok1] in \<open>auto simp: release_ok_def\<close>)
  then have "projects_ok ((?db1\<lparr>pdb_releases := update_where (\<lambda>r. rel_ID r = j) ?g (pdb_releases ?db1)\<rparr>)
      \<lparr>pdb_projects := update_where (\<lambda>r. row_id r = i) (\<lambda>r. r\<lparr>row_project := (row_project r)\<lparr>proj_UpdatedAt := now\<rparr>\<rparr>)
        (pdb_projects (?db1\<lparr>pdb_releases := update_where (\<lambda>r. rel_ID r = j) ?g (pdb_releases ?db1)\<rparr>))\<rparr>)"
    by (rule ok_update_projects) simp
  then show ?thesis by (simp add: activateRelease_def Let_def)
qed

lemma deleteProjectRows_ok:
  assumes ok: "projects_ok db" and d: "deleteProjectRows db i = Inr db'"
  shows "projects_ok db'"
proof -
  have db': "db' = db\<lparr>pdb_releases := filter (\<lambda>r. rel_ProjectID r \<noteq> i) (pdb_releases db),
      pdb_projects := filter (\<lambda>r. row_id r \<noteq> i) (pdb_projects db)\<rparr>"
    using d by (simp add: deleteProjectRows_def split: if_splits)
  note o = projects_okD [OF ok]
  show ?thesis unfolding db'
  proof (rule projects_okI, goal_cases)
    case 6 show ?case using o(6) by (auto simp: one_active_def)
  next
    case (7 r) then show ?case using o(7) [of r] by auto
  qed (use o in \<open>simp_all add: filter_distinct_map\<close>)
qed

lemma storeReleaseTokenHash_ok: "projects_ok db \<Longrightarrow> projects_ok (storeReleaseTokenHash hash db now i token)"
  by (auto simp: storeReleaseTokenHash_def projects_ok_def Let_def list_ex_iff map_update_where_key)

lemma VerifyReleaseToken_ok:
  "projects_ok db \<Longrightarrow> VerifyReleaseToken hash now i token db = (db', e) \<Longrightarrow> projects_ok db'"
  by (auto simp: VerifyReleaseToken_def projects_ok_def Let_def map_update_where_key split: if_splits option.splits)

lemma db_step_ok: "db_step db db' \<Longrightarrow> projects_ok db \<Longrightarrow> projects_ok db'"
  by (induction rule: db_step.induct)
     (auto dest: new_project_ok intro: insertProject_ok beginDeployFlag_ok endDeployFlag_ok beginRelease_ok
       setReleaseStatus_ok activateRelease_ok deleteProjectRows_ok storeReleaseTokenHash_ok VerifyReleaseToken_ok)

interpretation projects: statement_tables db_step projects_ok empty_projects_db
  by (unfold_locales, rule empty_projects_ok, erule (1) db_step_ok)

lemma db_steps_ok: "db_step\<^sup>*\<^sup>* db db' \<Longrightarrow> projects_ok db \<Longrightarrow> projects_ok db'"
  by (rule projects.steps_ok)

section \<open>Every operation is a sequence of statements\<close>

text \<open>What the random identifiers promise: the next one is not the identifier of a row.\<close>

definition fresh_ids :: "'w ProjectDeps \<Rightarrow> projects_db \<Rightarrow> bool" where
  "fresh_ids dep db \<longleftrightarrow> (\<forall>w. snd (dep_NewID dep w) \<notin> rel_ID ` set (pdb_releases db))"

lemma beginDeployFlag_releases: "beginDeployFlag db now age i = (db', e) \<Longrightarrow> pdb_releases db' = pdb_releases db"
  by (auto simp: beginDeployFlag_def split: if_splits sum.splits)

lemma fetchProject_Inr:
  "fetchProject db i = Inr p \<Longrightarrow> proj_ID p = i \<and> (\<exists>r \<in> set (pdb_projects db). row_project r = p)"
  by (auto simp: fetchProject_def dest!: find_Some_in split: option.splits)

lemma fetchProject_in: "fetchProject db i = Inr p \<Longrightarrow> proj_ID p \<in> row_id ` set (pdb_projects db)"
  by (force dest: fetchProject_Inr)

lemma beginRelease_owner:
  assumes "projects_ok db" "beginRelease db fresh now i c d = (db', Inr r)" "fresh \<notin> rel_ID ` set (pdb_releases db)"
    "s \<in> set (pdb_releases db')" "rel_ID s = rel_ID r"
  shows "rel_ProjectID s = i"
proof (cases "releaseByProjectDigest db i d")
  case None
  then show ?thesis using assms by (auto simp: beginRelease_def Let_def image_iff)
next
  case (Some ex)
  then have e: "ex \<in> set (pdb_releases db)" "rel_ProjectID ex = i"
    by (auto simp: releaseByProjectDigest_def dest: find_Some_in)
  have d: "db' = setReleaseStatus db (rel_ID ex) ReleaseDeploying now" "rel_ID r = rel_ID ex"
    using Some assms(2) by (auto simp: beginRelease_def split: if_splits)
  obtain t where t: "t \<in> set (pdb_releases db)" "rel_ID t = rel_ID s" "rel_ProjectID t = rel_ProjectID s"
    using assms(4) unfolding d by (auto simp: setReleaseStatus_def set_update_where)
  have "t = ex" using projects_okD(4) [OF assms(1)] t e(1) assms(5) d(2) by (simp add: distinct_map inj_on_def)
  then show ?thesis using t e(2) by simp
qed

lemma db_step_once: "db_step db db' \<Longrightarrow> db_step\<^sup>*\<^sup>* db db'" by (rule r_into_rtranclp)

lemma finish_deploy_steps:
  assumes "finish_deploy cfg dep db p c d rb rel w = Some (w', db', out)"
    "\<And>r s. rel = Some r \<Longrightarrow> s \<in> set (pdb_releases db) \<Longrightarrow> rel_ID s = rel_ID r \<Longrightarrow> rel_ProjectID s = proj_ID p"
  shows "db_step\<^sup>*\<^sup>* db db'"
proof -
  have "db' = db \<or> (\<exists>r now. rel = Some r \<and> (db' = setReleaseStatus db (rel_ID r) ReleaseFailed now
      \<or> db' = activateRelease db now (proj_ID p) (rel_ID r)))"
    using assms(1) by (auto simp: finish_deploy_def failRelease_def Let_def split: option.splits sum.splits)
  then show ?thesis using assms(2) by (auto intro: db_step_once st_fail st_activate)
qed

text \<open>A deployment either leaves the tables alone or gets to the release row.\<close>

lemma deployProject_elim:
  assumes run: "deployProject cfg dep db p c0 d0 rb w = Some (w', db', out)"
  obtains (refused) e where "db' = db" "out = Returns (None, Some e)"
  | (ran) c d w1 w2 w3 fresh db1 x where "normalizeAndValidateCommit c0 = Inr c" "normalizeAndValidateDigest d0 = Inr d"
      "dep_MkdirAll dep (storageHostPath cfg (proj_Slug p)) w = (w1, None)"
      "writeProjectSecretsFile cfg dep p w1 = (w2, None)" "dep_NewID dep w2 = (w3, fresh)"
      "beginRelease db fresh (dep_Now dep w3) (proj_ID p) c d = (db1, x)"
      "finish_deploy cfg dep db1 p c d rb (case x of Inl _ \<Rightarrow> None | Inr r \<Rightarrow> Some r) w3 = Some (w', db', out)"
proof (cases "normalizeAndValidateCommit c0")
  case (Inl e) then show thesis using run by (auto simp: deployProject_def intro: refused)
next
  case (Inr c)
  note c = this
  show thesis
  proof (cases "normalizeAndValidateDigest d0")
    case (Inl e) then show thesis using run c by (auto simp: deployProject_def intro: refused)
  next
    case (Inr d)
    note d = this
    obtain w1 e1 where m: "dep_MkdirAll dep (storageHostPath cfg (proj_Slug p)) w = (w1, e1)" by (cases "dep_MkdirAll dep (storageHostPath cfg (proj_Slug p)) w")
    obtain w2 e2 where f: "writeProjectSecretsFile cfg dep p w1 = (w2, e2)" by (cases "writeProjectSecretsFile cfg dep p w1")
    obtain w3 fresh where n: "dep_NewID dep w2 = (w3, fresh)" by (cases "dep_NewID dep w2")
    obtain db1 x where b: "beginRelease db fresh (dep_Now dep w3) (proj_ID p) c d = (db1, x)"
      by (cases "beginRelease db fresh (dep_Now dep w3) (proj_ID p) c d")
    show thesis
    proof (cases "e1 = None \<and> e2 = None")
      case True
      then have "finish_deploy cfg dep db1 p c d rb (case x of Inl _ \<Rightarrow> None | Inr r \<Rightarrow> Some r) w3 = Some (w', db', out)"
        using run c d m f n b by (simp add: deployProject_def split: sum.splits)
      then show thesis using ran [OF c d _ _ n b] m f True by simp
    next
      case False
      then show thesis using run c d m f n by (auto simp: deployProject_def intro: refused split: option.splits)
    qed
  qed
qed

lemma deployProject_steps:
  assumes ok: "projects_ok db" and fr: "fresh_ids dep db" and pin: "proj_ID p \<in> row_id ` set (pdb_projects db)"
    and run: "deployProject cfg dep db p c0 d0 rb w = Some (w', db', out)"
  shows "db_step\<^sup>*\<^sup>* db db'"
proof -
  show ?thesis using run
  proof (cases rule: deployProject_elim)
    case (ran c d w1 w2 w3 fresh db1 x)
    then have n: "fresh \<notin> rel_ID ` set (pdb_releases db)" using fr unfolding fresh_ids_def by (metis snd_conv)
    have "db_step db db1" by (rule st_begin [OF n pin ran(1,2,6)])
    moreover have "db_step\<^sup>*\<^sup>* db1 db'"
      by (rule finish_deploy_steps [OF ran(7)]) (use beginRelease_owner [OF ok _ n] ran(6) in \<open>auto split: sum.splits\<close>)
    ultimately show ?thesis by (rule converse_rtranclp_into_rtranclp)
  qed simp
qed

lemma withDeployLock_steps:
  assumes "withDeployLock cfg dep db i f none w = Some (w', db', out)"
    "\<And>db1 w1 db2 r. beginDeployFlag db (dep_Now dep w) (pc_StaleDeployAge cfg) i = (db1, None) \<Longrightarrow>
       f db1 w = Some (w1, db2, r) \<Longrightarrow> db_step\<^sup>*\<^sup>* db1 db2"
  shows "db_step\<^sup>*\<^sup>* db db'"
proof (cases "beginDeployFlag db (dep_Now dep w) (pc_StaleDeployAge cfg) i")
  case (Pair db1 e)
  have s: "db_step db db1" by (rule st_lock [OF Pair])
  show ?thesis
  proof (cases e)
    case (Some x) then show ?thesis using assms(1) Pair s by (auto simp: withDeployLock_def)
  next
    case None
    then obtain w1 db2 r where f: "f db1 w = Some (w1, db2, r)" "db' = endDeployFlag db2 i"
      using assms(1) Pair by (auto simp: withDeployLock_def split: option.splits prod.splits)
    have "db_step\<^sup>*\<^sup>* db1 db2" using assms(2) Pair None f(1) by blast
    then show ?thesis using s st_unlock unfolding f(2) by (metis converse_rtranclp_into_rtranclp rtranclp.rtrancl_into_rtrancl)
  qed
qed

lemma on_outcome_Some:
  "on_outcome g x = Some (w', db', r) \<longleftrightarrow> (\<exists>r0. x = Some (w', db', r0) \<and> r = g r0)"
  by (cases x) (auto simp: on_outcome_def)

lemma locked_db: 
  assumes "projects_ok db" "fresh_ids dep db" "beginDeployFlag db now age i = (db1, None)"
  shows "projects_ok db1" "fresh_ids dep db1"
  using assms beginDeployFlag_ok [OF assms(1,3)] by (simp_all add: fresh_ids_def beginDeployFlag_releases)

lemma locked_deployProject_steps:
  assumes "projects_ok db" "fresh_ids dep db" "beginDeployFlag db now age i = (db1, None)"
    "fetchProject db1 j = Inr p" "deployProject cfg dep db1 p c d rb w = Some (w1, db2, r)"
  shows "db_step\<^sup>*\<^sup>* db1 db2"
  using deployProject_steps [OF locked_db [OF assms(1-3)] fetchProject_in [OF assms(4)] assms(5)] .

lemma locked_deploy_steps:
  assumes "projects_ok db" "fresh_ids dep db" "locked_deploy cfg dep db i c d w = Some (w', db', out)"
  shows "db_step\<^sup>*\<^sup>* db db'"
proof -
  obtain r0 where "withDeployLock cfg dep db i (\<lambda>db1 w1. case fetchProject db1 i of
         Inl e \<Rightarrow> Some (w1, db1, Returns (None, Some e))
       | Inr p \<Rightarrow> deployProject cfg dep db1 p c d False w1) None w = Some (w', db', r0)"
    using assms(3) by (auto simp: locked_deploy_def on_outcome_Some)
  then show ?thesis
    by (rule withDeployLock_steps)
       (auto split: sum.splits intro: locked_deployProject_steps [OF assms(1,2)])
qed

lemma Deploy_steps:
  assumes "projects_ok db" "fresh_ids dep db" "Deploy cfg dep db i c d w = Some (w', db', out)"
  shows "db_step\<^sup>*\<^sup>* db db'"
  using assms(3) locked_deploy_steps [OF assms(1,2)] by (auto simp: Deploy_def split: if_splits sum.splits)

lemma Rollback_steps:
  assumes "projects_ok db" "fresh_ids dep db" "Rollback cfg dep db i w = Some (w', db', out)"
  shows "db_step\<^sup>*\<^sup>* db db'"
  using assms(3)
  by (auto simp: Rollback_def on_outcome_Some split: if_splits sum.splits option.splits elim!: withDeployLock_steps
      intro: locked_deployProject_steps [OF assms(1,2)])

lemma delete_rows_steps: "delete_rows dep db p w = (w', db', out) \<Longrightarrow> db_step\<^sup>*\<^sup>* db db'"
  by (auto simp: delete_rows_def split: sum.splits intro!: db_step_once st_delete)

lemma DeleteWithTeardown_steps:
  "DeleteWithTeardown cfg dep db i teardown w = Some (w', db', out) \<Longrightarrow> db_step\<^sup>*\<^sup>* db db'"
  by (auto simp: DeleteWithTeardown_def split: if_splits sum.splits prod.splits option.splits
      elim!: withDeployLock_steps intro: delete_rows_steps)

lemma UndeployProject_steps: "UndeployProject cfg dep db i w = Some (w', db', out) \<Longrightarrow> db_step\<^sup>*\<^sup>* db db'"
  by (auto simp: UndeployProject_def split: sum.splits prod.splits elim!: withDeployLock_steps)

lemma DeleteProjectRecord_steps: "DeleteProjectRecord cfg dep db i w = Some (w', db', out) \<Longrightarrow> db_step\<^sup>*\<^sup>* db db'"
  by (auto simp: DeleteProjectRecord_def split: if_splits sum.splits elim!: withDeployLock_steps intro: delete_rows_steps)

lemma Create_steps: "Create url_parse dep db p w = (w', db', out) \<Longrightarrow> db_step\<^sup>*\<^sup>* db db'"
  by (auto simp: Create_def split: sum.splits prod.splits intro!: db_step_once st_create)

lemma IssueReleaseToken_steps: "IssueReleaseToken hash db now random i = (db', out) \<Longrightarrow> db_step\<^sup>*\<^sup>* db db'"
  by (auto simp: IssueReleaseToken_def split: if_splits sum.splits intro!: db_step_once st_issue)

lemma VerifyReleaseToken_releases: "VerifyReleaseToken hash now i token db = (db', e) \<Longrightarrow> pdb_releases db' = pdb_releases db"
  by (auto simp: VerifyReleaseToken_def Let_def split: if_splits option.splits)

lemma Release_op_steps:
  assumes "projects_ok db" "fresh_ids dep db"
    "Release_op cfg dep (Some (VerifyReleaseToken hash now)) db s c d token w = Some (w', db', out)"
  shows "db_step\<^sup>*\<^sup>* db db'"
proof -
  have v: "db_step db db1 \<and> projects_ok db1 \<and> fresh_ids dep db1"
    if "VerifyReleaseToken hash now j token db = (db1, e)" for j db1 e
    using st_verify [OF that] VerifyReleaseToken_ok [OF assms(1) that] that assms(2)
    by (auto simp: fresh_ids_def VerifyReleaseToken_releases)
  show ?thesis using assms(3)
    by (auto simp: Release_op_def split: if_splits sum.splits prod.splits option.splits dest: v
        intro: db_step_once locked_deploy_steps converse_rtranclp_into_rtranclp)
qed

end
