(* ===== verification/ProjectsSafety.thy ===== *)
theory ProjectsSafety
  imports ProjectsStates
begin

text \<open>
  internal/projects: what a deployment does to the active release, the deploy lock, the
  bounded health wait and the release tokens.
\<close>

section \<open>The health wait ends\<close>

text \<open>The clock law: time does not go back while probing, and a wait that was not cut short by
  the context lasts at least as long as asked.\<close>

definition monotone_clock :: "'w ProjectDeps \<Rightarrow> bool" where
  "monotone_clock dep \<longleftrightarrow> (\<forall>hi w. dep_Now dep w \<le> dep_Now dep (fst (dep_Health dep hi w))) \<and>
     (\<forall>d w. 0 < d \<and> snd (dep_Wait dep d w) = None \<longrightarrow> dep_Now dep w + d \<le> dep_Now dep (fst (dep_Wait dep d w)))"

text \<open>The loop with at most n probes: None when a further probe would be needed.\<close>

fun await_within :: "nat \<Rightarrow> 'w ProjectDeps \<Rightarrow> HealthInput \<Rightarrow> int \<Rightarrow> time \<Rightarrow> 'w \<Rightarrow> ('w \<times> bool \<times> string) option" where
  "await_within 0 dep hi interval deadline w = None"
| "await_within (Suc n) dep hi interval deadline w =
     (case dep_CtxErr dep w of
        Some e \<Rightarrow> Some (w, False, ''context canceled: '' @ e)
      | None \<Rightarrow>
          (case dep_Health dep hi w of (w1, r) \<Rightarrow>
             if (case r of Inr h \<Rightarrow> hr_Healthy h | Inl _ \<Rightarrow> False)
             then Some (w1, True, (case r of Inr h \<Rightarrow> hr_Detail h | Inl _ \<Rightarrow> []))
             else
               (let remaining = deadline - dep_Now dep w1 in
                if remaining \<le> 0 then Some (w1, False, health_detail r)
                else (case dep_Wait dep (min interval remaining) w1 of
                    (w2, Some e) \<Rightarrow> Some (w2, False, ''context canceled: '' @ e)
                  | (w2, None) \<Rightarrow> await_within n dep hi interval deadline w2))))"

lemma await_within_loop:
  "await_within n dep hi interval deadline w = Some r \<Longrightarrow> await_loop dep hi interval deadline w = Some r"
proof (induction n arbitrary: w)
  case (Suc n)
  then show ?case
    by (subst await_loop.simps) (auto simp: Let_def split: option.splits prod.splits sum.splits if_splits)
qed simp

text \<open>The number of probes that is enough: the intervals that fit in the remaining time,
  rounded up, and one more.\<close>

definition probes :: "int \<Rightarrow> int \<Rightarrow> nat" where
  "probes interval remaining = nat ((remaining + interval - 1) div interval) + 1"

lemma probes_step:
  assumes "0 < interval" "0 < remaining" "remaining' \<le> remaining - min interval remaining"
  shows "probes interval remaining' < probes interval remaining"
proof (cases "remaining \<le> interval")
  case True
  then have "(remaining' + interval - 1) div interval \<le> 0"
    using assms zdiv_mono1 [of "remaining' + interval - 1" "interval - 1" interval] by simp
  moreover have "1 \<le> (remaining + interval - 1) div interval"
    using assms zdiv_mono1 [of interval "remaining + interval - 1" interval] by simp
  ultimately show ?thesis by (simp add: probes_def)
next
  case False
  then have "(remaining' + interval - 1) div interval \<le> (remaining + interval - 1 + (- 1) * interval) div interval"
    using assms by (intro zdiv_mono1) auto
  also have "\<dots> = (remaining + interval - 1) div interval - 1"
    using assms(1) by (subst div_mult_self1) auto
  finally have "(remaining' + interval - 1) div interval < (remaining + interval - 1) div interval" by simp
  moreover have "0 < (remaining + interval - 1) div interval"
    using False assms by (simp add: pos_imp_zdiv_pos_iff)
  ultimately show ?thesis by (simp add: probes_def)
qed

lemma await_within_enough:
  assumes clock: "monotone_clock dep" and i: "0 < interval"
  shows "probes interval (deadline - dep_Now dep w) \<le> n \<Longrightarrow> await_within n dep hi interval deadline w \<noteq> None"
proof (induction n arbitrary: w)
  case 0 then show ?case by (simp add: probes_def)
next
  case (Suc n)
  have step: "await_within n dep hi interval deadline w2 \<noteq> None"
    if h: "dep_Health dep hi w = (w1, r)" and rem: "\<not> deadline - dep_Now dep w1 \<le> 0"
      and wt: "dep_Wait dep (min interval (deadline - dep_Now dep w1)) w1 = (w2, None)" for w1 r w2
  proof (rule Suc.IH)
    have t1: "dep_Now dep w \<le> dep_Now dep w1" using clock h unfolding monotone_clock_def by (metis fst_conv)
    have t2: "dep_Now dep w1 + min interval (deadline - dep_Now dep w1) \<le> dep_Now dep w2"
      using clock wt i rem unfolding monotone_clock_def
      by (metis fst_conv min_less_iff_conj not_le snd_conv)
    have "probes interval (deadline - dep_Now dep w2) < probes interval (deadline - dep_Now dep w1)"
      by (rule probes_step [OF i]) (use rem t2 in auto)
    moreover have "probes interval (deadline - dep_Now dep w1) \<le> probes interval (deadline - dep_Now dep w)"
      unfolding probes_def using t1 i by (intro add_right_mono nat_mono zdiv_mono1) auto
    ultimately show "probes interval (deadline - dep_Now dep w2) \<le> n" using Suc.prems by simp
  qed
  show ?case using step by (fastforce simp: Let_def split: option.splits prod.splits)
qed

lemma awaitHealth_within:
  assumes "monotone_clock dep" "0 < pc_HealthInterval cfg"
  shows "\<exists>r. awaitHealth cfg dep p w = Some r \<and>
    await_within (probes (pc_HealthInterval cfg) (pc_HealthTimeout cfg)) dep (health_input cfg p) (pc_HealthInterval cfg)
      (dep_Now dep w + pc_HealthTimeout cfg) w = Some r"
proof -
  have "await_within (probes (pc_HealthInterval cfg) (pc_HealthTimeout cfg)) dep (health_input cfg p) (pc_HealthInterval cfg)
      (dep_Now dep w + pc_HealthTimeout cfg) w \<noteq> None"
    by (rule await_within_enough [OF assms]) simp
  then show ?thesis by (auto simp: awaitHealth_def dest: await_within_loop)
qed

text \<open>A healthy verdict comes from a probe that reported healthy.\<close>

lemma await_within_healthy:
  "await_within n dep hi interval deadline w = Some (w', True, detail) \<Longrightarrow>
   \<exists>wp h. dep_Health dep hi wp = (w', Inr h) \<and> hr_Healthy h"
  by (induction n dep hi interval deadline w rule: await_within.induct)
     (auto simp: Let_def split: option.splits prod.splits sum.splits if_splits)

lemma await_loop_within:
  "await_loop dep hi interval deadline w = Some y \<Longrightarrow> \<exists>n. await_within n dep hi interval deadline w = Some y"
proof (induction dep hi interval deadline w y rule: await_loop.raw_induct [rotated 1, consumes 1, case_names 1])
  case (1 f dep hi interval deadline w y)
  obtain w1 r where h: "dep_Health dep hi w = (w1, r)" by (cases "dep_Health dep hi w")
  let ?d = "min interval (deadline - dep_Now dep w1)"
  show ?case
  proof (cases "dep_CtxErr dep w = None \<and> \<not> (case r of Inr h \<Rightarrow> hr_Healthy h | Inl _ \<Rightarrow> False) \<and>
      \<not> deadline - dep_Now dep w1 \<le> 0 \<and> snd (dep_Wait dep ?d w1) = None")
    case True
    then obtain w2 where w2: "dep_Wait dep ?d w1 = (w2, None)" by (cases "dep_Wait dep ?d w1") auto
    have "f dep hi interval deadline w2 = Some y" using 1(2) True h w2 by (simp add: Let_def)
    then obtain n where "await_within n dep hi interval deadline w2 = Some y" using 1(1) by blast
    then have "await_within (Suc n) dep hi interval deadline w = Some y" using True h w2 by (simp add: Let_def)
    then show ?thesis by blast
  next
    case False
    then have "await_within (Suc 0) dep hi interval deadline w = Some y"
      using 1(2) h by (auto simp: Let_def split: option.splits prod.splits if_splits)
    then show ?thesis by blast
  qed
qed

lemma awaitHealth_healthy:
  "awaitHealth cfg dep p w = Some (w', True, detail) \<Longrightarrow>
   \<exists>wp h. dep_Health dep (health_input cfg p) wp = (w', Inr h) \<and> hr_Healthy h"
  unfolding awaitHealth_def by (blast dest: await_loop_within await_within_healthy)

end
