(* ===== verification/ProjectsOutcome.thy ===== *)
theory ProjectsOutcome
  imports ProjectsSafety
begin

text \<open>
  internal/projects: the outcome of a deployment in the tables.  active_ids lists the active
  releases of a project; a deployment that does not succeed leaves the list as it was.
\<close>

section \<open>Active releases\<close>

definition active_ids :: "projects_db \<Rightarrow> id \<Rightarrow> id list" where
  "active_ids db i = map rel_ID (filter (\<lambda>r. rel_ProjectID r = i \<and> rel_Active r) (pdb_releases db))"

lemma active_ids_update:
  assumes "\<And>r. rel_ID (f r) = rel_ID r \<and> rel_ProjectID (f r) = rel_ProjectID r \<and> rel_Active (f r) = rel_Active r"
  shows "active_ids (db\<lparr>pdb_releases := update_where P f (pdb_releases db)\<rparr>) i = active_ids db i"
proof -
  have "map rel_ID (filter (\<lambda>r. rel_ProjectID r = i \<and> rel_Active r) (update_where P f rs)) =
      map rel_ID (filter (\<lambda>r. rel_ProjectID r = i \<and> rel_Active r) rs)" for rs
    using assms by (induction rs) (simp_all add: update_where_def)
  then show ?thesis by (simp add: active_ids_def)
qed

lemma active_ids_setReleaseStatus [simp]: "active_ids (setReleaseStatus db j s now) i = active_ids db i"
  unfolding setReleaseStatus_def by (rule active_ids_update) simp

lemma active_ids_same_releases: "pdb_releases db' = pdb_releases db \<Longrightarrow> active_ids db' i = active_ids db i"
  by (simp add: active_ids_def)

lemma active_ids_beginRelease: "beginRelease db fresh now j c d = (db', x) \<Longrightarrow> active_ids db' i = active_ids db i"
  by (auto simp: beginRelease_def Let_def split: option.splits if_splits) (simp add: active_ids_def)

lemma endDeployFlag_releases [simp]: "pdb_releases (endDeployFlag db i) = pdb_releases db"
  by (simp add: endDeployFlag_def)

lemma map_filter_key: "distinct (map k xs) \<Longrightarrow> a \<in> k ` set xs \<Longrightarrow> map k (filter (\<lambda>x. k x = a) xs) = [a]"
  by (induction xs) (auto simp: image_iff filter_empty_conv)

text \<open>What the two updates of an activation do to one row.\<close>

definition activated :: "time \<Rightarrow> id \<Rightarrow> id \<Rightarrow> Release \<Rightarrow> Release" where
  "activated now i j r =
     (let r1 = (if rel_ProjectID r = i \<and> rel_Active r \<and> rel_ID r \<noteq> j then r\<lparr>rel_Active := False, rel_UpdatedAt := now\<rparr> else r) in
      if rel_ID r1 = j then r1\<lparr>rel_Status := ReleaseSucceeded, rel_Active := True, rel_UpdatedAt := now\<rparr> else r1)"

lemma activated_simps [simp]:
  "rel_ID (activated now i j r) = rel_ID r" "rel_ProjectID (activated now i j r) = rel_ProjectID r"
  "rel_Digest (activated now i j r) = rel_Digest r" "rel_Commit (activated now i j r) = rel_Commit r"
  "rel_Active (activated now i j r) \<longleftrightarrow> rel_ID r = j \<or> (rel_Active r \<and> rel_ProjectID r \<noteq> i)"
  by (auto simp: activated_def Let_def)

lemma activateRelease_releases: "pdb_releases (activateRelease db now i j) = map (activated now i j) (pdb_releases db)"
  by (simp add: activateRelease_def Let_def update_where_def activated_def)

lemma active_ids_activate:
  assumes "distinct (map rel_ID (pdb_releases db))" "\<forall>r \<in> set (pdb_releases db). rel_ID r = j \<longrightarrow> rel_ProjectID r = i"
    "j \<in> rel_ID ` set (pdb_releases db)"
  shows "active_ids (activateRelease db now i j) i = [j]"
proof -
  have "filter (\<lambda>r. rel_ProjectID r = i \<and> (rel_ID r = j \<or> rel_Active r \<and> rel_ProjectID r \<noteq> i)) (pdb_releases db) =
      filter (\<lambda>r. rel_ID r = j) (pdb_releases db)"
    by (rule filter_cong) (use assms(2) in auto)
  then show ?thesis using map_filter_key [OF assms(1,3)]
    by (simp add: active_ids_def activateRelease_releases filter_map comp_def)
qed

lemma active_ids_activate_other:
  assumes "\<forall>r \<in> set (pdb_releases db). rel_ID r = j \<longrightarrow> rel_ProjectID r = i" "k \<noteq> i"
  shows "active_ids (activateRelease db now i j) k = active_ids db k"
proof -
  have "filter (\<lambda>r. rel_ProjectID r = k \<and> (rel_ID r = j \<or> rel_Active r \<and> rel_ProjectID r \<noteq> i)) (pdb_releases db) =
      filter (\<lambda>r. rel_ProjectID r = k \<and> rel_Active r) (pdb_releases db)"
    by (rule filter_cong) (use assms in auto)
  then show ?thesis by (simp add: active_ids_def activateRelease_releases filter_map comp_def)
qed

section \<open>The body of a deployment\<close>

text \<open>The release row the deployment works on.\<close>

lemma beginRelease_row:
  "beginRelease db fresh now i c d = (db', Inr r) \<Longrightarrow>
   rel_ID r \<in> rel_ID ` set (pdb_releases db') \<and> rel_Digest r = d \<and> rel_Commit r = c"
  by (auto simp: beginRelease_def Let_def releaseByProjectDigest_def setReleaseStatus_def image_update_where_key
      dest!: find_Some_in split: option.splits if_splits)

definition healthy_probe :: "'w ProjectDeps \<Rightarrow> HealthInput \<Rightarrow> bool" where
  "healthy_probe dep hi \<longleftrightarrow> (\<exists>wp wq h. dep_Health dep hi wp = (wq, Inr h) \<and> hr_Healthy h)"

lemma run_deploy_healthy: "run_deploy cfg dep p d w = Some (w', Inr v) \<Longrightarrow> healthy_probe dep (health_input cfg p)"
  unfolding healthy_probe_def run_deploy_def
  by (auto split: prod.splits sum.splits option.splits bool.splits dest!: awaitHealth_healthy)

lemma finish_deploy_outcome:
  assumes "finish_deploy cfg dep db p c d rb rel w = Some (w', db', out)"
  shows "(\<exists>r r' now. rel = Some r \<and> out = Returns (Some r', None) \<and> rel_ID r' = rel_ID r \<and> rel_Digest r' = rel_Digest r \<and>
            db' = activateRelease db now (proj_ID p) (rel_ID r) \<and> healthy_probe dep (health_input cfg p)) \<or>
         (\<exists>r r' now e. rel = Some r \<and> out = Returns (Some r', Some (wrap2 ErrDeployFailed e)) \<and> rel_ID r' = rel_ID r \<and>
            \<not> rel_Active r' \<and> db' = setReleaseStatus db (rel_ID r) ReleaseFailed now) \<or>
         (rel = None \<and> out = Panics \<and> db' = db)"
proof (cases "run_deploy cfg dep p d w")
  case None
  then show ?thesis using assms by (simp add: finish_deploy_def)
next
  case (Some wr)
  then obtain w1 res where r: "run_deploy cfg dep p d w = Some (w1, res)" by (cases wr) auto
  show ?thesis
  proof (cases rel)
    case None
    then show ?thesis using assms r by (auto simp: finish_deploy_def split: sum.splits)
  next
    case (Some x)
    show ?thesis
    proof (cases res)
      case (Inl e)
      then show ?thesis using assms r Some by (auto simp: finish_deploy_def failRelease_def Let_def)
    next
      case (Inr v)
      have "healthy_probe dep (health_input cfg p)" by (rule run_deploy_healthy) (use r Inr in simp)
      then show ?thesis using assms r Some Inr by (auto simp: finish_deploy_def Let_def)
    qed
  qed
qed

text \<open>What a deployment of a project can end in.\<close>

definition deploy_result :: "'w ProjectDeps \<Rightarrow> HealthInput \<Rightarrow> projects_db \<Rightarrow> id \<Rightarrow> string \<Rightarrow> projects_db \<Rightarrow>
    (Release option \<times> goerror option) outcome \<Rightarrow> bool" where
  "deploy_result dep hi db i d db' out \<longleftrightarrow>
     (\<forall>k. k \<noteq> i \<longrightarrow> active_ids db' k = active_ids db k) \<and>
     (case out of
        Returns (Some r, None) \<Rightarrow> active_ids db' i = [rel_ID r] \<and> rel_Digest r = to_lower (trim_space d) \<and> healthy_probe dep hi
      | Returns (Some r, Some e) \<Rightarrow> active_ids db' i = active_ids db i \<and> errors_is e ErrDeployFailed \<and> \<not> rel_Active r \<and>
          (\<exists>s \<in> set (pdb_releases db'). rel_ID s = rel_ID r \<and> rel_Status s = ReleaseFailed)
      | Returns (None, e) \<Rightarrow> active_ids db' i = active_ids db i \<and> e \<noteq> None
      | Panics \<Rightarrow> active_ids db' i = active_ids db i)"

lemma deploy_result_refused:
  "pdb_releases db' = pdb_releases db \<Longrightarrow> deploy_result dep hi db i d db' (Returns (None, Some e))"
  by (simp add: deploy_result_def active_ids_def)

lemma deploy_result_cong:
  assumes "pdb_releases db1 = pdb_releases db" "pdb_releases db2 = pdb_releases db'"
  shows "deploy_result dep hi db1 i d db2 out = deploy_result dep hi db i d db' out"
  unfolding deploy_result_def active_ids_def assms ..

lemma deployProject_result:
  assumes ok: "projects_ok db" and fr: "fresh_ids dep db" and pin: "proj_ID p \<in> row_id ` set (pdb_projects db)"
    and run: "deployProject cfg dep db p c0 d0 rb w = Some (w', db', out)"
  shows "deploy_result dep (health_input cfg p) db (proj_ID p) d0 db' out"
  using run
proof (cases rule: deployProject_elim)
  case (refused e)
  then show ?thesis by (simp add: deploy_result_def)
next
  case (ran c d w1 w2 w3 fresh db1 x)
  then have n: "fresh \<notin> rel_ID ` set (pdb_releases db)" using fr unfolding fresh_ids_def by (metis snd_conv)
  have ok1: "projects_ok db1" by (rule beginRelease_ok [OF ok n pin ran(1,2,6)])
  note same = active_ids_beginRelease [OF ran(6)]
  show ?thesis
  proof (cases x)
    case (Inl e)
    then show ?thesis using finish_deploy_outcome [OF ran(7)] same by (auto simp: deploy_result_def)
  next
    case (Inr r)
    have own: "\<forall>s \<in> set (pdb_releases db1). rel_ID s = rel_ID r \<longrightarrow> rel_ProjectID s = proj_ID p"
      using beginRelease_owner [OF ok _ n] ran(6) Inr by blast
    have row: "rel_ID r \<in> rel_ID ` set (pdb_releases db1)" "rel_Digest r = d"
      using beginRelease_row ran(6) Inr by blast+
    have failed: "\<exists>s \<in> set (pdb_releases (setReleaseStatus db1 (rel_ID r) ReleaseFailed now)).
        rel_ID s = rel_ID r \<and> rel_Status s = ReleaseFailed" for now
    proof -
      from row(1) obtain s where "s \<in> set (pdb_releases db1)" "rel_ID s = rel_ID r" by auto
      then show ?thesis
        by (intro bexI [of _ "s\<lparr>rel_Status := ReleaseFailed, rel_UpdatedAt := now\<rparr>"])
           (auto simp: setReleaseStatus_def set_update_where)
    qed
    have d: "d = to_lower (trim_space d0)" using ran(2) by (simp add: normalizeAndValidateDigest_Inr)
    have act: "active_ids (activateRelease db1 now (proj_ID p) (rel_ID r)) (proj_ID p) = [rel_ID r]"
      "k \<noteq> proj_ID p \<Longrightarrow> active_ids (activateRelease db1 now (proj_ID p) (rel_ID r)) k = active_ids db k" for now k
      using active_ids_activate [OF projects_okD(4) [OF ok1] own row(1)] active_ids_activate_other [OF own] same by auto
    show ?thesis using finish_deploy_outcome [OF ran(7)] Inr same failed row(2) d act
      unfolding deploy_result_def by (elim disjE exE conjE) simp_all
  qed
qed

section \<open>Under the lock\<close>

lemma beginDeployFlag_fetch:
  assumes "beginDeployFlag db now age i = (db1, None)" "fetchProject db1 i = Inr q" "fetchProject db i = Inr p"
  shows "q = p\<lparr>proj_Deploying := proj_Deploying q\<rparr>"
proof -
  have g: "fetchProject db1 i = Inr q \<Longrightarrow> fetchProject db i = Inr p \<Longrightarrow>
      pdb_projects db1 = update_where P (set_deploying True now) (pdb_projects db) \<Longrightarrow> ?thesis" for P
  proof -
    have f: "List.find (\<lambda>r. row_id r = i) (update_where P (set_deploying True now) rows) =
       map_option (\<lambda>r. if P r then set_deploying True now r else r) (List.find (\<lambda>r. row_id r = i) rows)" for rows
      by (induction rows) (auto simp: update_where_def set_deploying_def)
    assume "fetchProject db1 i = Inr q" "fetchProject db i = Inr p"
      "pdb_projects db1 = update_where P (set_deploying True now) (pdb_projects db)"
    then show ?thesis by (auto simp: fetchProject_def f set_deploying_def split: option.splits if_splits)
  qed
  show ?thesis using assms g by (auto simp: beginDeployFlag_def split: if_splits sum.splits)
qed

lemma health_input_deploying [simp]: "health_input cfg (p\<lparr>proj_Deploying := b\<rparr>) = health_input cfg p"
  by (simp add: health_input_def routeHostname_def)

lemma caller_view_result:
  "deploy_result dep hi db i d db' out \<Longrightarrow> deploy_result dep hi db i d db' (caller_view out)"
  by (auto simp: deploy_result_def caller_view_def split: outcome.splits option.splits prod.splits if_splits)

lemma Deploy_result:
  assumes ok: "projects_ok db" and fr: "fresh_ids dep db" and p: "fetchProject db i = Inr p"
    and run: "Deploy cfg dep db i c d w = Some (w', db', out)"
  shows "deploy_result dep (health_input cfg p) db i d db' out"
proof (cases "trim_space i = []")
  case True
  then show ?thesis using run by (auto simp: Deploy_def deploy_result_def)
next
  case False
  have i: "proj_ID p = i" using fetchProject_Inr [OF p] by simp
  obtain r0 where r0: "withDeployLock cfg dep db i (\<lambda>db1 w1. case fetchProject db1 i of
         Inl e \<Rightarrow> Some (w1, db1, Returns (None, Some e))
       | Inr p \<Rightarrow> deployProject cfg dep db1 p c d False w1) None w = Some (w', db', r0)" "out = caller_view r0"
    using run False p i by (auto simp: Deploy_def locked_deploy_def on_outcome_Some)
  obtain db1 e where b: "beginDeployFlag db (dep_Now dep w) (pc_StaleDeployAge cfg) i = (db1, e)" by fastforce
  note rel = beginDeployFlag_releases [OF b]
  have "deploy_result dep (health_input cfg p) db i d db' r0"
  proof (cases e)
    case (Some x)
    then have "db' = db1" "r0 = Returns (None, Some x)" using r0(1) b by (simp_all add: withDeployLock_def)
    then show ?thesis using deploy_result_refused [OF rel] by simp
  next
    case None
    then obtain w1 db2 where f: "(case fetchProject db1 i of
         Inl e \<Rightarrow> Some (w, db1, Returns (None, Some e))
       | Inr p \<Rightarrow> deployProject cfg dep db1 p c d False w) = Some (w1, db2, r0)" "db' = endDeployFlag db2 i"
      using r0(1) b by (auto simp: withDeployLock_def split: option.splits prod.splits)
    have e2: "pdb_releases db2 = pdb_releases db'" using f(2) by simp
    show ?thesis
    proof (cases "fetchProject db1 i")
      case (Inl y)
      then have "db2 = db1" "r0 = Returns (None, Some y)" using f(1) by simp_all
      then show ?thesis using deploy_result_refused [of db' db] rel e2 by simp
    next
      case (Inr q)
      have q: "health_input cfg q = health_input cfg p"
        using beginDeployFlag_fetch [OF _ Inr p] b None by (metis health_input_deploying)
      have "proj_ID q = i" using fetchProject_Inr [OF Inr] by simp
      moreover have b': "beginDeployFlag db (dep_Now dep w) (pc_StaleDeployAge cfg) i = (db1, None)" using b None by simp
      have "deployProject cfg dep db1 q c d False w = Some (w1, db2, r0)" using f(1) Inr by simp
      from deployProject_result [OF locked_db [OF ok fr b'] fetchProject_in [OF Inr] this]
      have "deploy_result dep (health_input cfg q) db1 (proj_ID q) d db2 r0" .
      ultimately have "deploy_result dep (health_input cfg p) db1 i d db2 r0" using q by simp
      then show ?thesis by (simp add: deploy_result_cong [OF rel e2])
    qed
  qed
  then show ?thesis unfolding r0(2) by (rule caller_view_result)
qed

end
