(* ===== verification/ProjectsLemmas.thy ===== *)
theory ProjectsLemmas
  imports ProjectsOutcome
begin

text \<open>
  internal/projects: the slugs DeriveSlug produces, the deploy lock, deployments that do not
  succeed, deletion and release tokens: the lemmas behind the properties.
\<close>

section \<open>Derived slugs\<close>

lemma replace_runs_chars: "c \<in> set (replace_runs b s) \<Longrightarrow> is_alnum c \<or> c = CHR ''-''"
  by (induction b s rule: replace_runs.induct) (auto split: if_splits)

lemma replace_runs_alnum: "is_alnum c \<Longrightarrow> c \<in> set (replace_runs b s) \<longleftrightarrow> c \<in> set s"
  by (induction b s rule: replace_runs.induct) auto

lemma set_dropWhile_subset: "set (dropWhile P s) \<subseteq> set s"
  by (auto dest: set_dropWhileD)

lemma trim_left_sub: "set (trim_left P s) \<subseteq> set s" "set (trim_right P s) \<subseteq> set s"
  using set_dropWhile_subset [of P s] set_dropWhile_subset [of P "rev s"] by (auto simp: trim_left_def trim_right_def)

lemma trim_right_last: "trim_right P s \<noteq> [] \<Longrightarrow> \<not> P (last (trim_right P s))"
  using hd_dropWhile [of P "rev s"] by (simp add: trim_right_def last_rev)

lemma trim_right_prefix: "\<exists>t. s = trim_right P s @ t"
  by (metis append_take_drop_id rev_append rev_rev_ident takeWhile_dropWhile_id trim_right_def)

lemma trim_right_hd: "trim_right P s \<noteq> [] \<Longrightarrow> hd (trim_right P s) = hd s"
  using trim_right_prefix [of s P] by (metis hd_append2)

lemma trim_right_keeps: "c \<in> set s \<Longrightarrow> \<not> P c \<Longrightarrow> c \<in> set (trim_right P s)"
  by (metis (mono_tags) Un_iff rev_rev_ident set_append set_rev set_takeWhileD takeWhile_dropWhile_id trim_right_def)

lemma trim_left_keeps: "c \<in> set s \<Longrightarrow> \<not> P c \<Longrightarrow> c \<in> set (trim_left P s)"
  by (metis (mono_tags) Un_iff set_append set_takeWhileD takeWhile_dropWhile_id trim_left_def)

lemma trim_func_keeps: "c \<in> set s \<Longrightarrow> \<not> P c \<Longrightarrow> c \<in> set (trim_func P s)"
  by (simp add: trim_func_def trim_left_keeps trim_right_keeps)

lemma length_trim_right: "length (trim_right P s) \<le> length s"
  using length_dropWhile_le [of P "rev s"] by (simp add: trim_right_def)

text \<open>A text of alphanumerics and hyphens that starts and ends with an alphanumeric is a slug.\<close>

lemma ValidSlug_ends:
  assumes "s \<noteq> []" "length s \<le> 63" "\<forall>c \<in> set s. is_alnum c \<or> c = CHR ''-''" "is_alnum (hd s)" "is_alnum (last s)"
  shows "ValidSlug s"
proof (cases s)
  case (Cons c r)
  then show ?thesis using assms by (auto simp: ValidSlug_def list_all_iff dest: in_set_butlastD)
qed (use assms in simp)

definition slug_body :: "string \<Rightarrow> string" where
  "slug_body s = (let s1 = trim_func is_dash (replace_runs False s) in
     if length s1 > 63 then trim_right is_dash (take 63 s1) else s1)"

lemma slug_body_valid:
  assumes "c \<in> set s" "is_alnum c"
  shows "ValidSlug (slug_body s)"
proof -
  let ?r = "replace_runs False s"
  let ?s1 = "trim_func is_dash ?r"
  have dash: "is_alnum d \<or> d = CHR ''-''" if "d \<in> set ?s1" for d
    using that replace_runs_chars trim_left_sub unfolding trim_func_def by (metis subsetD)
  have nd: "\<not> is_dash c" using assms(2) by (auto simp: is_dash_def)
  have "c \<in> set ?s1" by (rule trim_func_keeps [of c ?r is_dash, OF _ nd]) (use assms in \<open>simp add: replace_runs_alnum\<close>)
  then have ne: "?s1 \<noteq> []" by auto
  have tl: "trim_left is_dash ?r \<noteq> []" using ne by (auto simp: trim_func_def trim_right_def)
  have hd1: "is_alnum (hd ?s1)"
  proof -
    have "hd ?s1 = hd (trim_left is_dash ?r)" using ne trim_right_hd unfolding trim_func_def by blast
    moreover have "\<not> is_dash (hd (trim_left is_dash ?r))" using hd_dropWhile tl unfolding trim_left_def by blast
    ultimately show ?thesis using dash [OF hd_in_set [OF ne]] by (simp add: is_dash_def)
  qed
  have last1: "is_alnum (last ?s1)"
    using dash [OF last_in_set [OF ne]] ne trim_right_last unfolding trim_func_def is_dash_def by blast
  show ?thesis
  proof (cases "length ?s1 > 63")
    case False
    then show ?thesis using ValidSlug_ends [OF ne _ _ hd1 last1] dash by (simp add: slug_body_def Let_def)
  next
    case True
    let ?t = "take 63 ?s1"
    let ?u = "trim_right is_dash ?t"
    have hdt: "hd ?t = hd ?s1" "?t \<noteq> []" using ne by (simp_all add: hd_take)
    have "hd ?t \<in> set ?u"
    proof (rule trim_right_keeps)
      show "hd ?t \<in> set ?t" by (rule hd_in_set [OF hdt(2)])
      show "\<not> is_dash (hd ?t)" using hdt(1) hd1 by (auto simp: is_dash_def)
    qed
    then have u: "?u \<noteq> []" by auto
    have su: "\<forall>d \<in> set ?u. is_alnum d \<or> d = CHR ''-''"
      using dash trim_left_sub(2) [of is_dash ?t] set_take_subset [of 63 ?s1] by blast
    have "ValidSlug ?u"
      using su trim_right_hd [OF u] hdt hd1 trim_right_last [OF u] last_in_set [OF u] length_trim_right [of is_dash ?t]
      by (intro ValidSlug_ends u) (auto simp: is_dash_def)
    then show ?thesis using True by (simp add: slug_body_def Let_def)
  qed
qed

lemma slug_body_empty:
  assumes "\<And>c. c \<in> set s \<Longrightarrow> \<not> is_alnum c"
  shows "slug_body s = []"
proof -
  have "\<forall>c \<in> set (replace_runs False s). is_dash c"
    using replace_runs_chars replace_runs_alnum assms unfolding is_dash_def by metis
  then have "trim_func is_dash (replace_runs False s) = []"
    by (simp add: trim_func_def trim_left_def trim_right_def dropWhile_eq_Nil_conv [THEN iffD2])
  then show ?thesis by (simp add: slug_body_def)
qed

lemma DeriveSlug_body: "DeriveSlug name = (let s = to_lower (trim_space name) in
   if s = [] \<or> slug_body s = [] then Inl (invalidf ''slug'' ''must not be empty'') else validateSlug (slug_body s))"
  by (simp add: DeriveSlug_def slug_body_def Let_def)

lemma DeriveSlug_ok:
  assumes "c \<in> set name" "is_alnum (lower_char c)"
  shows "DeriveSlug name = Inr (slug_body (to_lower (trim_space name))) \<and> ValidSlug (slug_body (to_lower (trim_space name)))"
proof -
  have "\<not> is_space c"
    using is_alnum_not_space [OF assms(2)] by (auto simp: lower_char_def is_space_def is_upper_def Let_def split: if_splits)
  then have "c \<in> set (trim_space name)" unfolding trim_space_def by (rule trim_func_keeps [OF assms(1)])
  then have in': "lower_char c \<in> set (to_lower (trim_space name))" by (simp add: to_lower_def)
  have v: "ValidSlug (slug_body (to_lower (trim_space name)))" by (rule slug_body_valid [OF in' assms(2)])
  moreover have "slug_body (to_lower (trim_space name)) \<noteq> []" using ValidSlug_length v by blast
  moreover have "to_lower (trim_space name) \<noteq> []" using in' by auto
  ultimately show ?thesis by (simp add: DeriveSlug_body validateSlug_Inr ValidSlug_trim)
qed

lemma DeriveSlug_none:
  assumes "\<And>c. c \<in> set name \<Longrightarrow> \<not> is_alnum (lower_char c)"
  shows "DeriveSlug name = Inl (invalidf ''slug'' ''must not be empty'')"
proof -
  have "set (trim_space name) \<subseteq> set name"
    using trim_left_sub unfolding trim_space_def trim_func_def by blast
  then have "slug_body (to_lower (trim_space name)) = []"
    by (intro slug_body_empty) (use assms in \<open>auto simp: to_lower_def\<close>)
  then show ?thesis by (simp add: DeriveSlug_body Let_def)
qed

section \<open>The deploy lock\<close>

text \<open>The row of the project is locked, and the lock is not stale.\<close>

definition deploy_held :: "projects_db \<Rightarrow> time \<Rightarrow> int \<Rightarrow> id \<Rightarrow> bool" where
  "deploy_held db now age i \<longleftrightarrow> list_all (\<lambda>r. row_id r = i \<longrightarrow> \<not> lock_free (now - age) r) (pdb_projects db)"

lemma beginDeployFlag_held:
  assumes "deploy_held db now age i" "fetchProject db i = Inr p"
  shows "beginDeployFlag db now age i = (db, Some (bare ErrDeployInProgress))"
proof -
  have "\<not> list_ex (\<lambda>r. row_id r = i \<and> lock_free (now - age) r) (pdb_projects db)"
    using assms(1) unfolding deploy_held_def list_all_iff list_ex_iff by blast
  then show ?thesis using assms(2) by (simp add: beginDeployFlag_def)
qed

lemma withDeployLock_held:
  "deploy_held db (dep_Now dep w) (pc_StaleDeployAge cfg) i \<Longrightarrow> fetchProject db i = Inr p \<Longrightarrow>
   withDeployLock cfg dep db i f none w = Some (w, db, Returns (none, Some (bare ErrDeployInProgress)))"
  by (simp add: withDeployLock_def beginDeployFlag_held)

lemma endDeployFlag_free:
  assumes "r \<in> set (pdb_projects (endDeployFlag db i))" "row_id r = i"
  shows "\<not> proj_Deploying (row_project r)"
proof -
  obtain x where "r = (if row_id x = i then set_deploying False 0 x else x)"
    using assms(1) unfolding endDeployFlag_def update_where_def by fastforce
  then show ?thesis using assms(2) by (simp add: set_deploying_def split: if_splits)
qed

lemma withDeployLock_released:
  assumes "withDeployLock cfg dep db i f none w = Some (w', db', out)"
    "list_ex (\<lambda>r. row_id r = i \<and> lock_free (dep_Now dep w - pc_StaleDeployAge cfg) r) (pdb_projects db)"
    "r \<in> set (pdb_projects db')" "row_id r = i"
  shows "\<not> proj_Deploying (row_project r)"
  using assms endDeployFlag_free
  by (auto simp: withDeployLock_def beginDeployFlag_def split: option.splits prod.splits)

text \<open>The end of an overtaken deployment opens the lock its successor holds.\<close>

lemma unlock_opens:
  assumes "fetchProject db i = Inr p"
  shows "snd (beginDeployFlag (endDeployFlag db i) now age i) = None"
proof -
  obtain r where "r \<in> set (pdb_projects db)" "row_id r = i" using fetchProject_Inr [OF assms] by auto
  then have "set_deploying False 0 r \<in> set (pdb_projects (endDeployFlag db i))" "row_id (set_deploying False 0 r) = i"
    "lock_free (now - age) (set_deploying False 0 r)"
    by (auto simp: endDeployFlag_def set_update_where set_deploying_def lock_free_def)
  then show ?thesis by (auto simp: beginDeployFlag_def list_ex_iff)
qed

section \<open>A deployment under a free lock\<close>

lemma locked_fetch:
  assumes "list_ex (\<lambda>r. row_id r = i \<and> lock_free (now - age) r) (pdb_projects db)" "fetchProject db i = Inr p"
  obtains db1 q where "beginDeployFlag db now age i = (db1, None)" "fetchProject db1 i = Inr q"
    "q = p\<lparr>proj_Deploying := proj_Deploying q\<rparr>" "pdb_releases db1 = pdb_releases db" "pdb_projects db1 \<noteq> []"
proof -
  obtain db1 where b: "beginDeployFlag db now age i = (db1, None)"
    using assms(1) by (simp add: beginDeployFlag_def)
  obtain r where r: "List.find (\<lambda>r. row_id r = i) (pdb_projects db) = Some r"
    using assms(2) by (auto simp: fetchProject_def split: option.splits)
  have "\<exists>q. fetchProject db1 i = Inr q"
  proof -
    from find_Some_in [OF r] have r': "r \<in> set (pdb_projects db)" "row_id r = i" by simp_all
    have "map row_id (pdb_projects db1) = map row_id (pdb_projects db)"
      using b assms(1) by (auto simp: beginDeployFlag_def map_update_where_key set_deploying_def)
    then have "i \<in> row_id ` set (pdb_projects db1)" using r' by (metis image_eqI list.set_map)
    then show ?thesis by (auto simp: fetchProject_def find_None_iff split: option.splits)
  qed
  then obtain q where q: "fetchProject db1 i = Inr q" by blast
  moreover have "pdb_projects db1 \<noteq> []" using q by (auto simp: fetchProject_def)
  ultimately show thesis
    using that [OF b q beginDeployFlag_fetch [OF b q assms(2)] beginDeployFlag_releases [OF b]] by blast
qed

section \<open>Release tokens\<close>

lemma IssueReleaseToken_stored:
  assumes "IssueReleaseToken hash db now random i = (db', Inr tok)" "distinct (map tok_ProjectID (pdb_tokens db))"
  shows "tok = random \<and> map_option tok_Hash (List.find (\<lambda>t. tok_ProjectID t = i) (pdb_tokens db')) = Some (hash random) \<and>
    trim_space i \<noteq> []"
proof -
  have f: "List.find (\<lambda>t. tok_ProjectID t = i) (update_where (\<lambda>t. tok_ProjectID t = i) g ts) =
      map_option g (List.find (\<lambda>t. tok_ProjectID t = i) ts)" if "\<And>t. tok_ProjectID (g t) = i" for g ts
    using find_update_where_key [of ts tok_ProjectID i g i] that by simp
  have n: "list_ex (\<lambda>t. tok_ProjectID t = i) ts \<longleftrightarrow> List.find (\<lambda>t. tok_ProjectID t = i) ts \<noteq> None" for ts
    by (auto simp: find_None_iff list_ex_iff)
  show ?thesis using assms(1)
    by (auto simp: IssueReleaseToken_def storeReleaseTokenHash_def Let_def f n find_append split: if_splits sum.splits option.splits)
qed

lemma VerifyReleaseToken_verdict:
  "map_option tok_Hash (List.find (\<lambda>t. tok_ProjectID t = i) (pdb_tokens db)) = Some h \<Longrightarrow> trim_space i \<noteq> [] \<Longrightarrow>
   snd (VerifyReleaseToken hash now i token db) = None \<longleftrightarrow> trim_space token \<noteq> [] \<and> hash (trim_space token) = h"
  by (auto simp: VerifyReleaseToken_def Let_def split: if_splits)

lemma VerifyReleaseToken_refused:
  "snd (VerifyReleaseToken hash now i token db) = Some e \<Longrightarrow>
   fst (VerifyReleaseToken hash now i token db) = db \<and> errors_is e PErrUnauthorized"
  by (auto simp: VerifyReleaseToken_def tokenVerifyErr_def Let_def split: if_splits option.splits)

end
