(* ===== verification/ProjectsProps.thy ===== *)
theory ProjectsProps
  imports ProjectsLemmas
begin

text \<open>
  The properties of the projects controller, and a demonstration instance for the witnesses:
  one project with one active release, a runner that reports the health it is told to.
\<close>

section \<open>The demonstration instance\<close>

declare await_loop.simps [code]

type_synonym demo_world = "int \<times> nat \<times> string list"

definition demo_deps :: "bool \<Rightarrow> demo_world ProjectDeps" where
  "demo_deps ok = \<lparr>dep_Deploy = (\<lambda>inp w. case w of (t, n, l) \<Rightarrow> ((t, n, l @ [di_Image inp]), Inr ''v1'')),
     dep_Update = None,
     dep_Health = (\<lambda>hi w. (w, Inr \<lparr>hr_Healthy = ok, hr_Detail = []\<rparr>)),
     dep_Undeploy = (\<lambda>app host w. (w, None)),
     dep_MkdirAll = (\<lambda>path w. (w, None)),
     dep_WriteFile = (\<lambda>path content w. (w, None)),
     dep_Secrets = None,
     dep_Now = (\<lambda>w. case w of (t, n, l) \<Rightarrow> t),
     dep_CtxErr = (\<lambda>w. None),
     dep_Wait = (\<lambda>d w. case w of (t, n, l) \<Rightarrow> ((t + d, n, l), None)),
     dep_NewID = (\<lambda>w. case w of (t, n, l) \<Rightarrow> ((t, Suc n, l), ''r'' @ itoa (int n))),
     dep_Emit = (\<lambda>e w. w)\<rparr>"

definition demo_cfg :: ProjectConfig where
  "demo_cfg = \<lparr>pc_DataDir = ''/srv/omahab'', pc_ProxyBind = ''127.0.0.1:8080'', pc_SecretsDir = ''/var/lib/omahab/secrets/projects'',
     pc_HealthTimeout = 60, pc_HealthInterval = 20, pc_StaleDeployAge = 600\<rparr>"

definition demo_digest :: "char \<Rightarrow> string" where "demo_digest c = ''sha256:'' @ replicate 64 c"
definition demo_commit :: "char \<Rightarrow> string" where "demo_commit c = replicate 40 c"

definition demo_project :: Project where
  "demo_project = \<lparr>proj_ID = ''p1'', proj_Slug = ''blog'', proj_Name = ''Blog'', proj_RepositoryURL = ''https://git/blog'',
     proj_Exposure = ExposurePrivate, proj_Hostname = [], proj_CreatedAt = 0, proj_UpdatedAt = 0,
     proj_Image = ''registry/blog'', proj_Contract = DefaultContract, proj_Deploying = False\<rparr>"

definition demo_release :: "string \<Rightarrow> char \<Rightarrow> bool \<Rightarrow> Release" where
  "demo_release i c active = \<lparr>rel_ID = i, rel_ProjectID = ''p1'', rel_Commit = demo_commit c, rel_Digest = demo_digest c,
     rel_Status = ReleaseSucceeded, rel_Active = active, rel_CreatedAt = 0, rel_UpdatedAt = 0\<rparr>"

definition demo_projects :: "bool \<Rightarrow> int \<Rightarrow> projects_db" where
  "demo_projects held t = \<lparr>pdb_projects = [\<lparr>row_project = demo_project\<lparr>proj_Deploying := held\<rparr>, row_started = t\<rparr>],
     pdb_releases = [demo_release ''x1'' CHR ''a'' True], pdb_tokens = []\<rparr>"

lemma demo_projects_ok: "projects_ok (demo_projects held t)"
  unfolding projects_ok_def by (cases held; simp add: demo_projects_def; code_simp)

lemma demo_fresh: "fresh_ids (demo_deps ok) (demo_projects held t)"
  by (auto simp: fresh_ids_def demo_deps_def demo_projects_def demo_release_def split: prod.splits)

lemma demo_clock: "monotone_clock (demo_deps ok)"
  by (auto simp: monotone_clock_def demo_deps_def split: prod.splits)

lemma demo_fetch: "fetchProject (demo_projects held t) ''p1'' = Inr (demo_project\<lparr>proj_Deploying := held\<rparr>)"
  by (simp add: fetchProject_def demo_projects_def demo_project_def)

section \<open>Every operation returns\<close>

definition returns :: "'a option \<Rightarrow> bool" where "returns y \<longleftrightarrow> y \<noteq> None"

lemma returns_simps [simp]:
  "returns (Some x)" "\<not> returns None" "returns (map_option g y) = returns y" "returns (on_outcome h z) = returns z"
  by (simp_all add: returns_def on_outcome_def)

lemma run_deploy_returns:
  assumes "monotone_clock dep" "0 < pc_HealthInterval cfg"
  shows "returns (run_deploy cfg dep p d w)"
proof -
  obtain w1 r where d: "deployOrUpdate dep (deploy_input cfg p d) w = (w1, r)" by fastforce
  obtain w2 b det where a: "awaitHealth cfg dep p w1 = Some (w2, b, det)"
    using awaitHealth_within [OF assms] by (metis prod_cases3)
  show ?thesis using d a by (cases r; cases b) (simp_all add: run_deploy_def)
qed

lemma finish_deploy_returns:
  assumes "monotone_clock dep" "0 < pc_HealthInterval cfg"
  shows "returns (finish_deploy cfg dep db p c d rb rel w)"
proof -
  obtain w1 r where "run_deploy cfg dep p d w = Some (w1, r)"
    using run_deploy_returns [OF assms] unfolding returns_def by (metis not_Some_eq surj_pair)
  then show ?thesis by (cases r; cases rel) (simp_all add: finish_deploy_def Let_def split: prod.splits)
qed

lemma deployProject_returns:
  assumes "monotone_clock dep" "0 < pc_HealthInterval cfg"
  shows "returns (deployProject cfg dep db p c d rb w)"
  using finish_deploy_returns [OF assms] unfolding deployProject_def
  by (simp split: sum.split prod.split option.split)

lemma withDeployLock_returns:
  assumes "\<And>db1. returns (f db1 w)"
  shows "returns (withDeployLock cfg dep db i f none w)"
proof -
  have "f db1 w \<noteq> None" for db1 using assms unfolding returns_def by blast
  then show ?thesis unfolding withDeployLock_def returns_def by (simp split: prod.split option.split del: not_None_eq)
qed

lemma locked_deploy_returns:
  assumes "monotone_clock dep" "0 < pc_HealthInterval cfg"
  shows "returns (locked_deploy cfg dep db i c d w)"
  unfolding locked_deploy_def returns_simps
  by (rule withDeployLock_returns) (use deployProject_returns [OF assms] in \<open>simp split: sum.split\<close>)

lemma Deploy_returns:
  assumes "monotone_clock dep" "0 < pc_HealthInterval cfg"
  shows "returns (Deploy cfg dep db i c d w)"
  using locked_deploy_returns [OF assms] by (simp add: Deploy_def split: sum.split)

lemma Release_op_returns:
  assumes "monotone_clock dep" "0 < pc_HealthInterval cfg"
  shows "returns (Release_op cfg dep v db s c d t w)"
  using locked_deploy_returns [OF assms] by (simp add: Release_op_def split: sum.split option.split prod.split)

lemma Rollback_returns:
  assumes "monotone_clock dep" "0 < pc_HealthInterval cfg"
  shows "returns (Rollback cfg dep db i w)"
  unfolding Rollback_def using deployProject_returns [OF assms]
  by (auto split: sum.split option.split intro!: withDeployLock_returns)

lemma DeleteWithTeardown_returns: "returns (DeleteWithTeardown cfg dep db i teardown w)"
  unfolding DeleteWithTeardown_def
  by (auto split: sum.split prod.split option.split intro!: withDeployLock_returns)

lemma UndeployProject_returns: "returns (UndeployProject cfg dep db i w)"
  unfolding UndeployProject_def by (auto split: sum.split prod.split intro!: withDeployLock_returns)

lemma DeleteProjectRecord_returns: "returns (DeleteProjectRecord cfg dep db i w)"
  unfolding DeleteProjectRecord_def by (auto split: sum.split intro!: withDeployLock_returns)

text \<open>The calls of the service that change its state, with the world and the tables after them.\<close>

datatype project_op =
    OpCreate CreateParams
  | OpDeploy id string string
  | OpRelease string string string string
  | OpRollback id
  | OpDelete id
  | OpUndeploy id
  | OpDeleteRecord id
  | OpIssue id string

definition run_op :: "(string \<Rightarrow> string + (string \<times> string)) \<Rightarrow> (string \<Rightarrow> string) \<Rightarrow> ProjectConfig \<Rightarrow> 'w ProjectDeps \<Rightarrow>
    project_op \<Rightarrow> projects_db \<Rightarrow> 'w \<Rightarrow> ('w \<times> projects_db) option" where
  "run_op url_parse hash cfg dep oper db w = (case oper of
      OpCreate cp \<Rightarrow> (case Create url_parse dep db cp w of (w1, db1, _) \<Rightarrow> Some (w1, db1))
    | OpDeploy i c d \<Rightarrow> map_option (\<lambda>(w1, db1, _). (w1, db1)) (Deploy cfg dep db i c d w)
    | OpRelease s c d t \<Rightarrow> map_option (\<lambda>(w1, db1, _). (w1, db1))
        (Release_op cfg dep (Some (VerifyReleaseToken hash (dep_Now dep w))) db s c d t w)
    | OpRollback i \<Rightarrow> map_option (\<lambda>(w1, db1, _). (w1, db1)) (Rollback cfg dep db i w)
    | OpDelete i \<Rightarrow> map_option (\<lambda>(w1, db1, _). (w1, db1)) (Delete_project cfg dep db i w)
    | OpUndeploy i \<Rightarrow> map_option (\<lambda>(w1, db1, _). (w1, db1)) (UndeployProject cfg dep db i w)
    | OpDeleteRecord i \<Rightarrow> map_option (\<lambda>(w1, db1, _). (w1, db1)) (DeleteProjectRecord cfg dep db i w)
    | OpIssue i random \<Rightarrow> Some (w, fst (IssueReleaseToken hash db (dep_Now dep w) random i)))"

section \<open>Properties\<close>

text \<open>
  C7: In every state the statements of the service reach from empty tables, in any
  interleaving: identifiers and slugs are unique, slugs, exposures and contracts are valid, at
  most one release of a project is active, a project has one release per digest, digests,
  commits and statuses are well-formed, and every release belongs to a stored project.
\<close>

theorem project_tables_well_formed:
  assumes "db_step\<^sup>*\<^sup>* empty_projects_db db"
  shows "projects_ok db"
  using assms empty_projects_ok by (rule db_steps_ok)

theorem project_tables_well_formed_witness:
  "projects_ok (storeReleaseTokenHash id (endDeployFlag empty_projects_db ''p1'') 5 ''p1'' ''token'')"
  by (rule project_tables_well_formed)
     (rule rtranclp_trans [OF db_step_once [OF st_unlock] db_step_once [OF st_issue]])



text \<open>
  C9: Every operation of the projects service returns, in every state and world, when the clock
  does not go back while probing, a wait takes as long as asked and the health interval is
  positive: the health wait is the only loop.
\<close>

theorem project_operations_return:
  assumes "monotone_clock dep" "0 < pc_HealthInterval cfg"
  shows "run_op url_parse hash cfg dep oper db w \<noteq> None"
proof -
  have "returns (run_op url_parse hash cfg dep oper db w)"
    using Deploy_returns [OF assms] Release_op_returns [OF assms] Rollback_returns [OF assms]
    by (cases oper) (simp_all add: run_op_def Delete_project_def DeleteWithTeardown_returns UndeployProject_returns
      DeleteProjectRecord_returns split: prod.split)
  then show ?thesis by (simp add: returns_def)
qed

theorem project_operations_return_witness:
  "run_op Inl id demo_cfg (demo_deps False) (OpDeploy ''p1'' (demo_commit CHR ''b'') (demo_digest CHR ''b''))
     (demo_projects False 0) (0, 0, []) \<noteq> None"
  by (rule project_operations_return [OF demo_clock]) (simp add: demo_cfg_def)

text \<open>
  C10: Waiting for health takes at most as many probes as intervals fit in the timeout, rounded
  up, plus one: the loop is equal to the one that is cut off after so many probes.
\<close>

theorem health_wait_bounded:
  assumes "monotone_clock dep" "0 < pc_HealthInterval cfg"
  shows "awaitHealth cfg dep p w =
    await_within (probes (pc_HealthInterval cfg) (pc_HealthTimeout cfg)) dep (health_input cfg p) (pc_HealthInterval cfg)
      (dep_Now dep w + pc_HealthTimeout cfg) w"
  using awaitHealth_within [OF assms] by (metis (no_types))

theorem health_wait_bounded_witness:
  "awaitHealth demo_cfg (demo_deps False) demo_project (0, 0, []) =
     await_within 4 (demo_deps False) (health_input demo_cfg demo_project) 20 60 (0, 0, [])"
  using health_wait_bounded [OF demo_clock, of demo_cfg False demo_project "(0, 0, [])"]
  by (simp add: demo_cfg_def probes_def) (simp add: demo_deps_def)


definition outcome_id :: "('w \<times> projects_db \<times> (Release option \<times> goerror option) outcome) option \<Rightarrow> (id \<times> bool) option" where
  "outcome_id x = (case x of
      Some (w, db, Returns (Some r, e)) \<Rightarrow> Some (rel_ID r, case e of None \<Rightarrow> True | Some _ \<Rightarrow> False)
    | _ \<Rightarrow> None)"

lemma outcome_id_Some:
  "outcome_id x = Some (j, b) \<Longrightarrow> \<exists>w db r e. x = Some (w, db, Returns (Some r, e)) \<and> rel_ID r = j \<and> (e = None \<longleftrightarrow> b)"
  by (auto simp: outcome_id_def split: option.splits outcome.splits)

lemma demo_deploy:
  "outcome_id (Deploy demo_cfg (demo_deps True) (demo_projects False 0) ''p1'' (demo_commit CHR ''b'') (demo_digest CHR ''b'') (0, 0, []))
     = Some (''r0'', True)"
  by code_simp


theorem held_lock_refuses:
  assumes "fetchProject db i = Inr p" "trim_space i \<noteq> []" "deploy_held db (dep_Now dep w) (pc_StaleDeployAge cfg) i"
  shows "Deploy cfg dep db i c d w = Some (w, db, Returns (None, Some (bare ErrDeployInProgress)))
    \<and> Rollback cfg dep db i w = Some (w, db, Returns (None, Some (bare ErrDeployInProgress)))
    \<and> DeleteWithTeardown cfg dep db i teardown w = Some (w, db, Returns ((), Some (bare ErrDeployInProgress)))
    \<and> UndeployProject cfg dep db i w = Some (w, db, Returns ((), Some (bare ErrDeployInProgress)))"
proof -
  have i: "proj_ID p = i" using fetchProject_Inr [OF assms(1)] by simp
  have c: "caller_view (Returns (None, Some (bare ErrDeployInProgress))) = Returns (None, Some (bare ErrDeployInProgress))"
    by (simp add: caller_view_def project_sentinels)
  show ?thesis using assms(1,2) i c
    by (simp add: Deploy_def locked_deploy_def Rollback_def DeleteWithTeardown_def UndeployProject_def on_outcome_def
        withDeployLock_held [OF assms(3,1)])
qed

theorem held_lock_refuses_witness:
  "Deploy demo_cfg (demo_deps True) (demo_projects True 100) ''p1'' [] [] (200, 0, []) =
     Some ((200, 0, []), demo_projects True 100, Returns (None, Some (bare ErrDeployInProgress)))"
proof -
  have "deploy_held (demo_projects True 100) (dep_Now (demo_deps True) (200, 0, [])) (pc_StaleDeployAge demo_cfg) ''p1''"
    by (simp add: deploy_held_def demo_projects_def lock_free_def demo_deps_def demo_cfg_def demo_project_def)
  from held_lock_refuses [OF demo_fetch _ this, of "[]" "[]" None] show ?thesis
    by (simp add: trim_space_def trim_func_def trim_left_def trim_right_def is_space_def)
qed

lemma beginDeployFlag_locks:
  assumes "projects_ok db" "beginDeployFlag db now age i = (db', None)" "r \<in> set (pdb_projects db')" "row_id r = i"
  shows "proj_Deploying (row_project r) \<and> row_started r = now"
proof -
  obtain z where z: "z \<in> set (pdb_projects db)" "row_id z = i" "lock_free (now - age) z"
    and db': "pdb_projects db' = update_where (\<lambda>r. row_id r = i \<and> lock_free (now - age) r) (set_deploying True now) (pdb_projects db)"
    using assms(2) unfolding beginDeployFlag_def list_ex_iff by (force split: if_splits sum.splits)
  have "\<exists>y \<in> set (pdb_projects db). r = (if row_id y = i \<and> lock_free (now - age) y then set_deploying True now y else y)"
    using assms(3) unfolding db' update_where_def set_map by (elim imageE) blast
  then obtain y where y: "y \<in> set (pdb_projects db)"
    "r = (if row_id y = i \<and> lock_free (now - age) y then set_deploying True now y else y)" by (elim bexE)
  then have "row_id y = i" using assms(4) by (auto simp: set_deploying_def split: if_splits)
  then have "y = z" using projects_okD(1) [OF assms(1)] z(1,2) y(1) by (simp add: distinct_map inj_on_def)
  then show ?thesis using y(2) z by (simp add: set_deploying_def)
qed

theorem overtaken_deployment_opens_the_lock:
  assumes "projects_ok db" "fetchProject db i = Inr p" "beginDeployFlag db t1 age i = (db1, None)" "t1 \<noteq> 0" "t1 < t2 - age"
    "t3 \<le> t2 + age"
  shows "\<exists>db2. beginDeployFlag db1 t2 age i = (db2, None) \<and> deploy_held db2 t3 age i \<and>
    snd (beginDeployFlag (endDeployFlag db2 i) t3 age i) = None"
proof -
  have ok1: "projects_ok db1" by (rule beginDeployFlag_ok [OF assms(1,3)])
  have free: "list_ex (\<lambda>r. row_id r = i \<and> lock_free (t1 - age) r) (pdb_projects db)"
    using assms(2,3) by (auto simp: beginDeployFlag_def split: if_splits)
  obtain q where q: "fetchProject db1 i = Inr q"
    using locked_fetch [OF free assms(2)] assms(3) by (metis prod.inject)
  obtain r where "r \<in> set (pdb_projects db1)" "row_id r = i" using fetchProject_Inr [OF q] by auto
  then have free1: "list_ex (\<lambda>r. row_id r = i \<and> lock_free (t2 - age) r) (pdb_projects db1)"
    using beginDeployFlag_locks [OF assms(1,3)] assms(4,5) by (auto simp: list_ex_iff lock_free_def)
  obtain db2 q2 where b2: "beginDeployFlag db1 t2 age i = (db2, None)" and q2: "fetchProject db2 i = Inr q2"
    using locked_fetch [OF free1 q] by metis
  have "deploy_held db2 t3 age i"
    using beginDeployFlag_locks [OF ok1 b2] assms(6) by (auto simp: deploy_held_def list_all_iff lock_free_def)
  then show ?thesis using b2 unlock_opens [OF q2] by blast
qed

theorem overtaken_deployment_opens_the_lock_witness:
  "\<exists>db2. beginDeployFlag (demo_projects True 100) 800 600 ''p1'' = (db2, None) \<and>
     snd (beginDeployFlag (endDeployFlag db2 ''p1'') 900 600 ''p1'') = None"
proof -
  have "beginDeployFlag (demo_projects False 0) 100 600 ''p1'' = (demo_projects True 100, None)"
    by (simp add: beginDeployFlag_def demo_projects_def lock_free_def update_where_def set_deploying_def demo_project_def)
  from overtaken_deployment_opens_the_lock [OF demo_projects_ok demo_fetch this, of 800 900] show ?thesis by auto
qed

theorem failed_redeploy_leaves_failed_release_active:
  assumes "projects_ok db" "fresh_ids dep db" "fetchProject db i = Inr p"
    "Deploy cfg dep db i c d w = Some (w', db', Returns (Some r, Some e))" "rel_ID r \<in> set (active_ids db i)"
  shows "\<not> rel_Active r \<and> (\<exists>s \<in> set (pdb_releases db'). rel_ID s = rel_ID r \<and> rel_Active s \<and> rel_Status s = ReleaseFailed)"
proof -
  have res: "active_ids db' i = active_ids db i" "\<not> rel_Active r"
    "\<exists>s \<in> set (pdb_releases db'). rel_ID s = rel_ID r \<and> rel_Status s = ReleaseFailed"
    using Deploy_result [OF assms(1-4)] by (simp_all add: deploy_result_def)
  have "projects_ok db'" by (rule db_steps_ok [OF Deploy_steps [OF assms(1,2,4)] assms(1)])
  moreover have "\<exists>s \<in> set (pdb_releases db'). rel_ID s = rel_ID r \<and> rel_Active s"
    using assms(5) unfolding res(1) [symmetric] by (auto simp: active_ids_def)
  ultimately show ?thesis using res(2,3) projects_okD(4) by (metis distinct_map inj_on_def)
qed

lemma demo_failed_redeploy:
  "outcome_id (Deploy demo_cfg (demo_deps False) (demo_projects False 0) ''p1'' (demo_commit CHR ''a'') (demo_digest CHR ''a'') (0, 0, []))
     = Some (''x1'', False)"
  by code_simp

theorem failed_redeploy_leaves_failed_release_active_witness:
  "\<exists>w' db' r e. Deploy demo_cfg (demo_deps False) (demo_projects False 0) ''p1'' (demo_commit CHR ''a'') (demo_digest CHR ''a'') (0, 0, [])
      = Some (w', db', Returns (Some r, Some e)) \<and> \<not> rel_Active r \<and>
     (\<exists>s \<in> set (pdb_releases db'). rel_ID s = rel_ID r \<and> rel_Active s \<and> rel_Status s = ReleaseFailed)"
proof -
  obtain w' db' r e where d: "Deploy demo_cfg (demo_deps False) (demo_projects False 0) ''p1'' (demo_commit CHR ''a'') (demo_digest CHR ''a'') (0, 0, [])
      = Some (w', db', Returns (Some r, Some e))" "rel_ID r = ''x1''"
    using outcome_id_Some [OF demo_failed_redeploy] by (metis not_None_eq)
  have "rel_ID r \<in> set (active_ids (demo_projects False 0) ''p1'')"
    using d(2) by (simp add: active_ids_def demo_projects_def demo_release_def)
  from failed_redeploy_leaves_failed_release_active [OF demo_projects_ok demo_fresh demo_fetch d(1) this] d(1)
  show ?thesis by blast
qed

lemma run_deploy_deploying [simp]: "run_deploy cfg dep (p\<lparr>proj_Deploying := b\<rparr>) d w = run_deploy cfg dep p d w"
proof -
  have "deploy_input cfg (p\<lparr>proj_Deploying := b\<rparr>) d = deploy_input cfg p d"
    by (simp add: deploy_input_def routeHostname_def)
  moreover have "awaitHealth cfg dep (p\<lparr>proj_Deploying := b\<rparr>) w1 = awaitHealth cfg dep p w1" for w1
    by (simp add: awaitHealth_def)
  ultimately show ?thesis by (auto simp: run_deploy_def split: prod.split sum.split option.split bool.split)
qed

theorem mismatched_digest_deploys_then_panics:
  assumes "fetchProject db i = Inr p" "trim_space i \<noteq> []" "normalizeAndValidateCommit c0 = Inr c" "normalizeAndValidateDigest d0 = Inr d"
    "list_ex (\<lambda>r. row_id r = i \<and> lock_free (dep_Now dep w - pc_StaleDeployAge cfg) r) (pdb_projects db)"
    "releaseByProjectDigest db i d = Some ex" "rel_Commit ex \<noteq> c"
    "\<And>path w. snd (dep_MkdirAll dep path w) = None" "\<And>path content w. snd (dep_WriteFile dep path content w) = None"
    "dep_Secrets dep = None" "monotone_clock dep" "0 < pc_HealthInterval cfg"
  shows "\<exists>w' db' w1 res. Deploy cfg dep db i c0 d0 w = Some (w', db', Panics) \<and> run_deploy cfg dep p d w1 = Some (w', res)"
proof -
  have i: "proj_ID p = i" using fetchProject_Inr [OF assms(1)] by simp
  obtain db1 q where l: "beginDeployFlag db (dep_Now dep w) (pc_StaleDeployAge cfg) i = (db1, None)" "fetchProject db1 i = Inr q"
    "q = p\<lparr>proj_Deploying := proj_Deploying q\<rparr>" "pdb_releases db1 = pdb_releases db"
    using locked_fetch [OF assms(5,1)] by metis
  have q: "proj_ID q = i" using fetchProject_Inr [OF l(2)] by simp
  obtain w1 where m: "dep_MkdirAll dep (storageHostPath cfg (proj_Slug q)) w = (w1, None)"
    using assms(8) by (metis surj_pair snd_conv)
  have "snd (writeProjectSecretsFile cfg dep q w1) = None"
    using assms(8) [of "pc_SecretsDir cfg" w1] assms(9,10)
    by (auto simp: writeProjectSecretsFile_def Let_def split: prod.split option.split) (metis snd_conv option.distinct(1))+
  then obtain w2 where f: "writeProjectSecretsFile cfg dep q w1 = (w2, None)" by (metis surj_pair snd_conv)
  obtain w3 fresh where n: "dep_NewID dep w2 = (w3, fresh)" by fastforce
  have "releaseByProjectDigest db1 i d = Some ex" using assms(6) l(4) by (simp add: releaseByProjectDigest_def)
  then have b: "\<exists>e. beginRelease db1 fresh (dep_Now dep w3) i c d = (db1, Inl e)" using assms(7) by (simp add: beginRelease_def)
  obtain w4 res where r: "run_deploy cfg dep q d w3 = Some (w4, res)"
    using run_deploy_returns [OF assms(11,12)] unfolding returns_def by (metis not_Some_eq surj_pair)
  have fin: "finish_deploy cfg dep db1 q c d False None w3 = Some (w4, db1, Panics)"
    using r by (cases res) (simp_all add: finish_deploy_def)
  have "deployProject cfg dep db1 q c0 d0 False w = Some (w4, db1, Panics)"
    using b by (auto simp: deployProject_def assms(3,4) m f n q fin)
  then have "Deploy cfg dep db i c0 d0 w = Some (w4, endDeployFlag db1 i, Panics)"
    by (simp add: Deploy_def assms(1,2) i locked_deploy_def withDeployLock_def l(1,2) on_outcome_def caller_view_def)
  moreover have "run_deploy cfg dep p d w3 = Some (w4, res)" using r l(3) by (metis run_deploy_deploying)
  ultimately show ?thesis by blast
qed

theorem mismatched_digest_deploys_then_panics_witness:
  "\<exists>w' db' w1 res. Deploy demo_cfg (demo_deps True) (demo_projects False 0) ''p1'' (demo_commit CHR ''b'') (demo_digest CHR ''a'') (0, 0, [])
      = Some (w', db', Panics) \<and> run_deploy demo_cfg (demo_deps True) demo_project (demo_digest CHR ''a'') w1 = Some (w', res)"
proof -
  have p: "fetchProject (demo_projects False 0) ''p1'' = Inr demo_project" using demo_fetch [of False 0] by (simp add: demo_project_def)
  have c: "normalizeAndValidateCommit (demo_commit CHR ''b'') = Inr (demo_commit CHR ''b'')" by code_simp
  have d: "normalizeAndValidateDigest (demo_digest CHR ''a'') = Inr (demo_digest CHR ''a'')" by code_simp
  have l: "list_ex (\<lambda>r. row_id r = ''p1'' \<and> lock_free (dep_Now (demo_deps True) (0, 0, []) - pc_StaleDeployAge demo_cfg) r)
      (pdb_projects (demo_projects False 0))"
    by (simp add: demo_projects_def lock_free_def demo_project_def)
  have e: "releaseByProjectDigest (demo_projects False 0) ''p1'' (demo_digest CHR ''a'') = Some (demo_release ''x1'' CHR ''a'' True)"
    by (simp add: releaseByProjectDigest_def demo_projects_def demo_release_def)
  have n: "rel_Commit (demo_release ''x1'' CHR ''a'' True) \<noteq> demo_commit CHR ''b''"
    by (simp add: demo_release_def demo_commit_def)
  show ?thesis
    by (rule mismatched_digest_deploys_then_panics [OF p _ c d l e n _ _ _ demo_clock])
       (simp_all add: demo_deps_def demo_cfg_def trim_space_def trim_func_def trim_left_def trim_right_def is_space_def split: prod.split)
qed

theorem failed_undeploy_keeps_the_project:
  assumes "fetchProject db i = Inr p" "trim_space i \<noteq> []" "hasReleases db i"
    "list_ex (\<lambda>r. row_id r = i \<and> lock_free (dep_Now dep w - pc_StaleDeployAge cfg) r) (pdb_projects db)"
    "snd (dep_Undeploy dep (proj_Slug p) (routeHostname p) w) = Some e" "\<not> isAbsentAppError e"
  shows "\<exists>w' db'. DeleteWithTeardown cfg dep db i teardown w = Some (w', db', Returns ((), Some (wrap2 ErrUndeployFailed e)))
    \<and> pdb_releases db' = pdb_releases db \<and> (\<exists>q. fetchProject db' i = Inr q \<and> proj_Slug q = proj_Slug p)"
proof -
  have i: "proj_ID p = i" using fetchProject_Inr [OF assms(1)] by simp
  obtain db1 q where l: "beginDeployFlag db (dep_Now dep w) (pc_StaleDeployAge cfg) i = (db1, None)" "fetchProject db1 i = Inr q"
    "q = p\<lparr>proj_Deploying := proj_Deploying q\<rparr>" "pdb_releases db1 = pdb_releases db"
    using locked_fetch [OF assms(4,1)] by metis
  have h: "hasReleases db1 (proj_ID p)" using assms(3) l(4) i by (simp add: hasReleases_def)
  obtain w2 where u: "undeployIfActive dep db1 p w = (w2, Some (wrap2 ErrUndeployFailed e))"
    using assms(5,6) h by (cases "dep_Undeploy dep (proj_Slug p) (routeHostname p) w") (simp add: undeployIfActive_def)
  have d: "DeleteWithTeardown cfg dep db i teardown w = Some (w2, endDeployFlag db1 i, Returns ((), Some (wrap2 ErrUndeployFailed e)))"
    by (simp add: DeleteWithTeardown_def assms(1,2) i withDeployLock_def l(1) u)
  have "List.find (\<lambda>r. row_id r = i) (update_where (\<lambda>r. row_id r = i) (set_deploying False 0) rows) =
     map_option (set_deploying False 0) (List.find (\<lambda>r. row_id r = i) rows)" for rows
    by (induction rows) (auto simp: update_where_def set_deploying_def)
  then have "fetchProject (endDeployFlag db1 i) i = Inr (q\<lparr>proj_Deploying := False\<rparr>)"
    using l(2) by (auto simp: fetchProject_def endDeployFlag_def set_deploying_def split: option.splits)
  moreover have "proj_Slug q = proj_Slug p" using l(3) by (metis Project.select_convs(2) Project.surjective Project.update_convs(11))
  ultimately show ?thesis using d l(4) by auto
qed

lemma blank_demo_ids [simp]: "trim_space ''p1'' \<noteq> []"
  by (simp add: trim_space_def trim_func_def trim_left_def trim_right_def is_space_def)

theorem failed_undeploy_keeps_the_project_witness:
  "\<exists>w' db'. DeleteWithTeardown demo_cfg ((demo_deps True)\<lparr>dep_Undeploy := \<lambda>a h w. (w, Some (errorf ''connection refused''))\<rparr>)
       (demo_projects False 0) ''p1'' None (0, 0, []) = Some (w', db', Returns ((), Some (wrap2 ErrUndeployFailed (errorf ''connection refused''))))
    \<and> pdb_releases db' = [demo_release ''x1'' CHR ''a'' True] \<and> (\<exists>q. fetchProject db' ''p1'' = Inr q \<and> proj_Slug q = ''blog'')"
proof -
  let ?dep = "(demo_deps True)\<lparr>dep_Undeploy := \<lambda>a h w. (w, Some (errorf ''connection refused''))\<rparr>"
  have a: "\<not> isAbsentAppError (errorf ''connection refused'')" by code_simp
  have l: "list_ex (\<lambda>r. row_id r = ''p1'' \<and> lock_free (dep_Now ?dep (0, 0, []) - pc_StaleDeployAge demo_cfg) r)
      (pdb_projects (demo_projects False 0))"
    by (simp add: demo_projects_def lock_free_def demo_project_def)
  have h: "hasReleases (demo_projects False 0) ''p1''" by (simp add: hasReleases_def demo_projects_def demo_release_def)
  have u: "snd (dep_Undeploy ?dep (proj_Slug (demo_project\<lparr>proj_Deploying := False\<rparr>))
      (routeHostname (demo_project\<lparr>proj_Deploying := False\<rparr>)) (0, 0, [])) = Some (errorf ''connection refused'')" by simp
  from failed_undeploy_keeps_the_project [OF demo_fetch _ h l u a, of None] show ?thesis
    by (simp add: demo_projects_def demo_project_def)
qed

theorem issued_token_is_the_accepted_one:
  assumes "projects_ok db" "IssueReleaseToken hash db now random i = (db', Inr tok)"
  shows "snd (VerifyReleaseToken hash now' i presented db') = None \<longleftrightarrow>
      trim_space presented \<noteq> [] \<and> hash (trim_space presented) = hash tok"
  using IssueReleaseToken_stored [OF assms(2) projects_okD(8) [OF assms(1)]] VerifyReleaseToken_verdict by metis

theorem issued_token_is_the_accepted_one_witness:
  "snd (VerifyReleaseToken id 9 ''p1'' '' token '' (fst (IssueReleaseToken id (demo_projects False 0) 5 ''token'' ''p1''))) = None
   \<and> snd (VerifyReleaseToken id 9 ''p1'' ''tokem'' (fst (IssueReleaseToken id (demo_projects False 0) 5 ''token'' ''p1''))) \<noteq> None"
proof -
  have i: "IssueReleaseToken id (demo_projects False 0) 5 ''token'' ''p1'' =
      (fst (IssueReleaseToken id (demo_projects False 0) 5 ''token'' ''p1''), Inr ''token'')"
    by (simp add: IssueReleaseToken_def demo_fetch)
  have t: "trim_space '' token '' = ''token''" "trim_space ''tokem'' = ''tokem''" by code_simp+
  show ?thesis using issued_token_is_the_accepted_one [OF demo_projects_ok i, of 9 "'' token ''"]
      issued_token_is_the_accepted_one [OF demo_projects_ok i, of 9 "''tokem''"] by (simp add: t)
qed

theorem derived_slug_exists_iff_alphanumeric:
  "(if list_ex (\<lambda>c. is_alnum (lower_char c)) name then (\<exists>s. DeriveSlug name = Inr s \<and> ValidSlug s)
    else DeriveSlug name = Inl (invalidf ''slug'' ''must not be empty''))"
proof (cases "list_ex (\<lambda>c. is_alnum (lower_char c)) name")
  case True
  then obtain c where "c \<in> set name" "is_alnum (lower_char c)" by (auto simp: list_ex_iff)
  then show ?thesis using DeriveSlug_ok True by simp
next
  case False
  then show ?thesis using DeriveSlug_none [of name] by (auto simp: list_ex_iff)
qed

end
