(* ===== verification/Events.thy ===== *)
theory Events
  imports Domain GoTime "HOL-Library.Product_Lexorder"
begin

text \<open>
  internal/events: the event inbox (service.go, migrations.go) and the filter of the ntfy sink
  (ntfy.go).  Data is a JSON value; an object is the list of its pairs in iteration order, and
  None is the nil map.  A stored row keeps the value whose text json.Marshal wrote, which
  json.Unmarshal reads back.  A subscriber is a numbered buffer of the events sent and not yet
  received.  Errors of the database are not modelled; strings are valid UTF-8 without line
  separators.
\<close>

section \<open>Types and severities\<close>

definition allowedTypes :: "string list" where
  "allowedTypes = [''app.installed'', ''app.install_failed'', ''app.started'', ''app.start_failed'', ''app.stopped'',
     ''app.stop_failed'', ''app.updated'', ''app.update_failed'', ''app.rolled_back'', ''app.rollback_failed'',
     ''app.uninstalled'', ''app.uninstall_failed'', ''backup.failed'', ''backup.restored'', ''backup.created'',
     ''host.disk_low'', ''service.healthy'', ''service.unhealthy'', ''service.update_available'', ''ci.failed'',
     ''ci.review_skipped_untrusted'', ''ci.review_failed'', ''deployment.completed'', ''agent.awaiting_approval'',
     ''syncthing.conflict'', ''syncthing.device_stale'', ''email.received'', ''email.quarantined'', ''health.degraded'',
     ''health.unhealthy'', ''identity.recovery'', ''applications.catalog_missing'', ''setup.step_failed'',
     ''setup.reconciled'', ''scm.pull_request'', ''scm.push'', ''environment.changed'', ''companion.revoked'',
     ''workspace.created'', ''workspace.active'', ''workspace.stopped'', ''workspace.deleted'', ''workspace.failed'',
     ''workspace.pending'', ''bundle.disabled'', ''bundle.applied'', ''bundle.apply_failed'']"

definition allowed_prefixes :: "string list" where
  "allowed_prefixes = [''app.'', ''service.'', ''deployment.'', ''scm.'', ''knowledge.'', ''provider.'', ''backups.'',
     ''backup.'', ''exposure.'', ''gateway.'', ''environments.'', ''bootstrap.'', ''syncthing.'', ''project.'', ''workspace.'']"

definition isAllowedType :: "string \<Rightarrow> bool" where
  "isAllowedType t \<longleftrightarrow> List.member allowedTypes t \<or> list_ex (has_prefix t) allowed_prefixes"

definition allowedSeverities :: "string list" where
  "allowedSeverities = [''info'', ''warning'', ''warn'', ''error'', ''success'', ''critical'', ''security'']"

definition routineTypes :: "string list" where
  "routineTypes = [''app.started'', ''app.stopped'', ''service.healthy'']"

section \<open>Data\<close>

datatype json = JNull | JBool bool | JNum string | JStr string | JArr "json list" | JObj "(string \<times> json) list"

type_synonym data = "(string \<times> json) list"

definition hex_digit :: "nat \<Rightarrow> char" where
  "hex_digit n = (if n < 10 then char_of (48 + n) else char_of (87 + n))"

text \<open>encoding/json: the escapes of a string; angle brackets and ampersands are escaped too.\<close>

definition json_char :: "char \<Rightarrow> string" where
  "json_char c = (let n = (of_char c :: nat) in
     if n = 34 \<or> n = 92 then [char_of (92 :: nat), c]
     else if n = 8 then [char_of (92 :: nat), CHR ''b'']
     else if n = 12 then [char_of (92 :: nat), CHR ''f'']
     else if n = 10 then [char_of (92 :: nat), CHR ''n'']
     else if n = 13 then [char_of (92 :: nat), CHR ''r'']
     else if n = 9 then [char_of (92 :: nat), CHR ''t'']
     else if n < 32 \<or> n = 60 \<or> n = 62 \<or> n = 38
       then [char_of (92 :: nat)] @ ''u00'' @ [hex_digit (n div 16), hex_digit (n mod 16)]
     else [c])"

definition json_string :: "string \<Rightarrow> string" where
  "json_string s = [char_of (34 :: nat)] @ concat (map json_char s) @ [char_of (34 :: nat)]"

text \<open>json.Marshal: the pairs of an object in the order of their keys.\<close>

primrec json_text :: "json \<Rightarrow> string" where
  "json_text JNull = ''null''"
| "json_text (JBool b) = (if b then ''true'' else ''false'')"
| "json_text (JNum n) = n"
| "json_text (JStr s) = json_string s"
| "json_text (JArr xs) = ''['' @ join '','' (map json_text xs) @ '']''"
| "json_text (JObj kvs) = ''{'' @ join '','' (map (\<lambda>(k, t). json_string k @ '':'' @ t)
     (sort_key fst (map (map_prod id json_text) kvs))) @ ''}''"

definition sensitiveKeys :: "string list" where
  "sensitiveKeys = [''token'', ''secret'', ''password'', ''passwd'', ''credential'', ''auth'', ''private'', ''key'', ''hmac'', ''signature'']"

definition sensitive :: "string \<Rightarrow> bool" where
  "sensitive k \<longleftrightarrow> list_ex (contains_str (to_lower k)) sensitiveKeys"

definition redacted :: json where "redacted = JStr ''[REDACTED]''"

definition shorten :: "string \<Rightarrow> string" where
  "shorten s = (if length s > 500 then take 500 s @ ''...[TRUNCATED]'' else s)"

primrec redact_value :: "json \<Rightarrow> json" where
  "redact_value JNull = JNull"
| "redact_value (JBool b) = JBool b"
| "redact_value (JNum n) = JNum n"
| "redact_value (JStr s) = JStr (shorten s)"
| "redact_value (JArr xs) = JArr xs"
| "redact_value (JObj kvs) = JObj (map (\<lambda>(k, v). (k, if sensitive k then redacted else v))
     (map (map_prod id redact_value) kvs))"

definition redactData :: "data \<Rightarrow> data" where
  "redactData d = map (\<lambda>(k, v). (k, if sensitive k then redacted else redact_value v)) d"

definition data_size :: "data \<Rightarrow> nat" where
  "data_size d = length (json_text (JObj d))"

fun drop_largest :: "nat \<Rightarrow> string list \<Rightarrow> data \<Rightarrow> data" where
  "drop_largest limit [] d = d"
| "drop_largest limit (k # ks) d =
     (if data_size d > limit then drop_largest limit ks (filter (\<lambda>kv. fst kv \<noteq> k) d) else d)"

definition truncateData :: "data \<Rightarrow> nat \<Rightarrow> data" where
  "truncateData d limit =
     (let ks = map fst (rev (sort_key (\<lambda>kv. length (json_text (snd kv))) (rev d)));
          d1 = drop_largest limit ks d in
      if data_size d1 > limit then [(''_truncated'', JStr ''[DATA TRUNCATED]'')] else d1)"

definition maxMessageLen :: nat where "maxMessageLen = 2000"
definition maxDataBytes :: nat where "maxDataBytes = 16384"
definition maxSubscribers :: nat where "maxSubscribers = 64"
definition subscriberBuf :: nat where "subscriberBuf = 32"

section \<open>The inbox\<close>

record InboxEvent =
  ie_ID :: id
  ie_Type :: string
  ie_Severity :: string
  ie_ResourceID :: id
  ie_Message :: string
  ie_Data :: "data option"
  ie_ReadAt :: "time option"
  ie_CreatedAt :: time

record EventRow =
  er_Event :: InboxEvent
  er_Key :: "string option"

record Inbox =
  ib_rows :: "EventRow list"
  ib_subs :: "(nat \<times> InboxEvent list) list"
  ib_next :: nat

definition empty_inbox :: Inbox where
  "empty_inbox = \<lparr>ib_rows = [], ib_subs = [], ib_next = 0\<rparr>"

abbreviation er_ID :: "EventRow \<Rightarrow> id" where "er_ID r \<equiv> ie_ID (er_Event r)"

text \<open>Reading a row redacts its data again; the empty object is read as nil.\<close>

definition scanEvent :: "EventRow \<Rightarrow> InboxEvent" where
  "scanEvent r = (er_Event r)\<lparr>ie_Data := (case ie_Data (er_Event r) of
      None \<Rightarrow> None | Some d \<Rightarrow> if d = [] then None else Some (redactData d))\<rparr>"

record PublishInput =
  pi_Type :: string
  pi_Severity :: string
  pi_ResourceID :: string
  pi_Message :: string
  pi_Data :: "data option"
  pi_IdempotencyKey :: string

definition getByIdempotency :: "Inbox \<Rightarrow> string \<Rightarrow> InboxEvent option" where
  "getByIdempotency ib key = (if key = [] then None
     else map_option scanEvent (List.find (\<lambda>r. er_Key r = Some key) (ib_rows ib)))"

text \<open>A full buffer drops the event.\<close>

definition send :: "InboxEvent \<Rightarrow> InboxEvent list \<Rightarrow> InboxEvent list" where
  "send e buf = (if length buf < subscriberBuf then buf @ [e] else buf)"

definition broadcast :: "Inbox \<Rightarrow> InboxEvent \<Rightarrow> Inbox" where
  "broadcast ib e = ib\<lparr>ib_subs := map (\<lambda>(k, buf). (k, send e buf)) (ib_subs ib)\<rparr>"

definition publish_data :: "data option \<Rightarrow> data option" where
  "publish_data d = map_option (\<lambda>d. let r = redactData d in
     if data_size r > maxDataBytes then truncateData r maxDataBytes else r) d"

definition publish_check :: "PublishInput \<Rightarrow> (string \<times> string \<times> string) result" where
  "publish_check inp = (let t = trim_space (pi_Type inp); sev0 = trim_space (pi_Severity inp); msg = trim_space (pi_Message inp);
       sev = (if sev0 = [] then ''info'' else sev0) in
     if t = [] then Inl (Validation ''event type is required'')
     else if \<not> isAllowedType t then Inl (Validation (''unknown event type '' @ quote t))
     else if \<not> List.member allowedSeverities sev then Inl (Validation (''unknown severity '' @ quote sev))
     else if msg = [] then Inl (Validation ''event message is required'')
     else Inr (t, sev, if length msg > maxMessageLen then take maxMessageLen msg else msg))"

definition new_event :: "PublishInput \<Rightarrow> string \<Rightarrow> string \<Rightarrow> string \<Rightarrow> id \<Rightarrow> time \<Rightarrow> InboxEvent" where
  "new_event inp t sev msg fresh now = \<lparr>ie_ID = fresh, ie_Type = t, ie_Severity = sev, ie_ResourceID = trim_space (pi_ResourceID inp),
     ie_Message = msg, ie_Data = publish_data (pi_Data inp),
     ie_ReadAt = (if List.member routineTypes t then Some now else None), ie_CreatedAt = now\<rparr>"

text \<open>The insert does nothing when the identifier is taken.\<close>

definition insertEvent :: "Inbox \<Rightarrow> InboxEvent \<Rightarrow> string \<Rightarrow> Inbox" where
  "insertEvent ib e key = (if list_ex (\<lambda>r. er_ID r = ie_ID e) (ib_rows ib) then ib
     else ib\<lparr>ib_rows := ib_rows ib @ [\<lparr>er_Event = e, er_Key = (if key = [] then None else Some key)\<rparr>]\<rparr>)"

definition Publish :: "Inbox \<Rightarrow> id \<Rightarrow> time \<Rightarrow> PublishInput \<Rightarrow> Inbox \<times> InboxEvent result" where
  "Publish ib fresh now inp = (case publish_check inp of
      Inl e \<Rightarrow> (ib, Inl e)
    | Inr (t, sev, msg) \<Rightarrow>
        (let key = trim_space (pi_IdempotencyKey inp) in
         case getByIdempotency ib key of
           Some ev \<Rightarrow> (ib, Inr ev)
         | None \<Rightarrow> (let e = new_event inp t sev msg fresh now in (broadcast (insertEvent ib e key) e, Inr e))))"

definition Emit :: "Inbox \<Rightarrow> id \<Rightarrow> time \<Rightarrow> InboxEvent \<Rightarrow> Inbox \<times> goerror option" where
  "Emit ib fresh now ev =
     (case Publish ib fresh now \<lparr>pi_Type = ie_Type ev, pi_Severity = ie_Severity ev, pi_ResourceID = ie_ResourceID ev,
         pi_Message = ie_Message ev, pi_Data = ie_Data ev, pi_IdempotencyKey = []\<rparr> of
        (ib1, Inl e) \<Rightarrow> (ib1, Some e)
      | (ib1, Inr _) \<Rightarrow> (ib1, None))"

section \<open>Reading\<close>

definition event_Get :: "Inbox \<Rightarrow> id \<Rightarrow> InboxEvent result" where
  "event_Get ib i = (if trim_space i = [] then Inl (Validation ''event id is required'')
     else case List.find (\<lambda>r. er_ID r = i) (ib_rows ib) of
       None \<Rightarrow> Inl (NotFound ''event not found'') | Some r \<Rightarrow> Inr (scanEvent r))"

record ListFilter =
  lf_Type :: string
  lf_Severity :: string
  lf_Unread :: "bool option"

definition isNotFound :: "goerror \<Rightarrow> bool" where
  "isNotFound e \<longleftrightarrow> errors_is e ErrNotFound \<or> contains_str (to_lower (err_msg e)) ''not found''"

definition filter_check :: "ListFilter \<Rightarrow> goerror option" where
  "filter_check f =
     (if lf_Type f \<noteq> [] \<and> \<not> isAllowedType (lf_Type f) then Some (Validation (''unknown event type '' @ quote (lf_Type f)))
      else if lf_Severity f \<noteq> [] \<and> \<not> List.member allowedSeverities (lf_Severity f)
        then Some (Validation (''unknown severity '' @ quote (lf_Severity f)))
      else None)"

definition is_unread :: "InboxEvent \<Rightarrow> bool" where
  "is_unread e \<longleftrightarrow> (case ie_ReadAt e of None \<Rightarrow> True | Some _ \<Rightarrow> False)"

definition filter_match :: "ListFilter \<Rightarrow> EventRow \<Rightarrow> bool" where
  "filter_match f r \<longleftrightarrow>
     (lf_Type f = [] \<or> ie_Type (er_Event r) = lf_Type f) \<and>
     (lf_Severity f = [] \<or> ie_Severity (er_Event r) = lf_Severity f) \<and>
     (case lf_Unread f of None \<Rightarrow> True | Some b \<Rightarrow> is_unread (er_Event r) = b)"

text \<open>The order of a listing: the text of created_at, then the identifier.\<close>

definition row_key :: "EventRow \<Rightarrow> string \<times> string" where
  "row_key r = (FormatTime (ie_CreatedAt (er_Event r)), er_ID r)"

definition clamp_limit :: "int \<Rightarrow> nat" where
  "clamp_limit l = (if l \<le> 0 then 50 else if l > 100 then 100 else nat l)"

definition after_cursor :: "(string \<times> string) option \<Rightarrow> EventRow \<Rightarrow> bool" where
  "after_cursor c r \<longleftrightarrow> (case c of None \<Rightarrow> True
     | Some (t, i) \<Rightarrow> fst (row_key r) > t \<or> (fst (row_key r) = t \<and> er_ID r > i))"

definition cursor_key :: "Inbox \<Rightarrow> string \<Rightarrow> (string \<times> string) option result" where
  "cursor_key ib cursor = (if cursor = [] then Inr None
     else case event_Get ib cursor of
       Inl e \<Rightarrow> if isNotFound e then Inr None else Inl e
     | Inr ev \<Rightarrow> Inr (Some (FormatTime (ie_CreatedAt ev), ie_ID ev)))"

definition event_List :: "Inbox \<Rightarrow> string \<Rightarrow> int \<Rightarrow> ListFilter \<Rightarrow> (InboxEvent list \<times> string) result" where
  "event_List ib cursor lim f = (let limit = clamp_limit lim in
     case cursor_key ib cursor of
       Inl e \<Rightarrow> Inl e
     | Inr c \<Rightarrow> (case filter_check f of
         Some e \<Rightarrow> Inl e
       | None \<Rightarrow>
           (let out = take (limit + 1) (map scanEvent (sort_key row_key (filter (\<lambda>r. after_cursor c r \<and> filter_match f r) (ib_rows ib)))) in
            if length out > limit then Inr (take limit out, ie_ID (out ! (limit - 1)))
            else if out \<noteq> [] then Inr (out, ie_ID (last out))
            else Inr (out, []))))"

definition ListSimple :: "Inbox \<Rightarrow> int \<Rightarrow> int \<Rightarrow> ListFilter \<Rightarrow> InboxEvent list result" where
  "ListSimple ib lim off f = (case filter_check f of
      Some e \<Rightarrow> Inl e
    | None \<Rightarrow> Inr (take (clamp_limit lim) (drop (nat off)
        (map scanEvent (rev (sort_key row_key (filter (filter_match f) (ib_rows ib))))))))"

definition UnreadCount :: "Inbox \<Rightarrow> ListFilter \<Rightarrow> nat result" where
  "UnreadCount ib f =
     (if lf_Type f \<noteq> [] \<and> \<not> isAllowedType (lf_Type f) then Inl (Validation (''unknown event type '' @ quote (lf_Type f)))
      else Inr (length (filter (\<lambda>r. is_unread (er_Event r) \<and> (lf_Type f = [] \<or> ie_Type (er_Event r) = lf_Type f)
          \<and> (lf_Severity f = [] \<or> ie_Severity (er_Event r) = lf_Severity f)) (ib_rows ib))))"

section \<open>Acknowledging\<close>

definition mark_row :: "time \<Rightarrow> EventRow \<Rightarrow> EventRow" where
  "mark_row now r = r\<lparr>er_Event := (er_Event r)\<lparr>ie_ReadAt := Some (case ie_ReadAt (er_Event r) of None \<Rightarrow> now | Some t \<Rightarrow> t)\<rparr>\<rparr>"

definition mark_where :: "(EventRow \<Rightarrow> bool) \<Rightarrow> time \<Rightarrow> Inbox \<Rightarrow> Inbox" where
  "mark_where P now ib = ib\<lparr>ib_rows := update_where P (mark_row now) (ib_rows ib)\<rparr>"

definition MarkRead :: "Inbox \<Rightarrow> time \<Rightarrow> id \<Rightarrow> Inbox \<times> InboxEvent result" where
  "MarkRead ib now i =
     (if trim_space i = [] then (ib, Inl (Validation ''event id is required''))
      else if \<not> list_ex (\<lambda>r. er_ID r = i) (ib_rows ib) then (ib, Inl (NotFound (''event '' @ quote i @ '' not found'')))
      else (let ib1 = mark_where (\<lambda>r. er_ID r = i) now ib in (ib1, event_Get ib1 i)))"

definition MarkAllRead :: "Inbox \<Rightarrow> time \<Rightarrow> Inbox" where
  "MarkAllRead ib now = mark_where (\<lambda>r. is_unread (er_Event r)) now ib"

definition MarkAllReadByType :: "Inbox \<Rightarrow> time \<Rightarrow> string \<Rightarrow> Inbox \<times> goerror option" where
  "MarkAllReadByType ib now eventType = (let t = trim_space eventType in
     if t = [] then (ib, Some (Validation ''event type is required''))
     else if \<not> isAllowedType t then (ib, Some (Validation (''unknown event type '' @ quote t)))
     else (mark_where (\<lambda>r. is_unread (er_Event r) \<and> ie_Type (er_Event r) = t) now ib, None))"

section \<open>Subscribing\<close>

text \<open>The catch-up of a subscription, page by page; n bounds the number of pages.  A context that
  is cancelled ends it after any page, which a smaller bound shows.\<close>

fun catch_up :: "nat \<Rightarrow> Inbox \<Rightarrow> string \<Rightarrow> InboxEvent list \<Rightarrow> InboxEvent list" where
  "catch_up 0 ib cursor buf = buf"
| "catch_up (Suc n) ib cursor buf =
     (case event_List ib cursor 100 \<lparr>lf_Type = [], lf_Severity = [], lf_Unread = None\<rparr> of
        Inl e \<Rightarrow> buf
      | Inr (evs, nxt) \<Rightarrow>
          if evs = [] then buf
          else (let buf1 = fold send evs buf in
                if nxt = [] \<or> nxt = cursor \<or> length evs < 100 then buf1 else catch_up n ib nxt buf1))"

text \<open>Registering comes after the catch-up; at the bound some subscriber (here the first of the
  map's iteration order) is closed.\<close>

definition register :: "Inbox \<Rightarrow> InboxEvent list \<Rightarrow> Inbox" where
  "register ib buf = (let subs = (if length (ib_subs ib) \<ge> maxSubscribers then tl (ib_subs ib) else ib_subs ib) in
     ib\<lparr>ib_subs := subs @ [(ib_next ib, buf)], ib_next := ib_next ib + 1\<rparr>)"

definition unsubscribe :: "Inbox \<Rightarrow> nat \<Rightarrow> Inbox" where
  "unsubscribe ib k = ib\<lparr>ib_subs := filter (\<lambda>s. fst s \<noteq> k) (ib_subs ib)\<rparr>"

section \<open>The ntfy sink\<close>

definition ShouldNotify :: "string \<Rightarrow> bool" where
  "ShouldNotify severity \<longleftrightarrow> List.member [''warning'', ''warn'', ''error'', ''critical'', ''security''] (to_lower (trim_space severity))"

record NtfyRequest =
  nr_URL :: string
  nr_Body :: string
  nr_Title :: string
  nr_Tags :: string
  nr_Priority :: string

definition ntfy_request :: "string \<Rightarrow> string \<Rightarrow> InboxEvent \<Rightarrow> NtfyRequest" where
  "ntfy_request base topic ev = \<lparr>nr_URL = base @ ''/'' @ topic,
     nr_Body = (if ie_Message ev = [] then ie_Type ev else ie_Message ev), nr_Title = ie_Type ev,
     nr_Tags = map (\<lambda>c. if c = CHR ''.'' then CHR '','' else c) (ie_Type ev),
     nr_Priority = (if equal_fold (ie_Severity ev) ''error'' \<or> equal_fold (ie_Severity ev) ''critical'' \<or> equal_fold (ie_Severity ev) ''security''
       then ''high'' else ''default'')\<rparr>"

text \<open>reveal is the lookup of the secret with the topic, post sends a request and returns the
  status of the response or an error.\<close>

definition Notify :: "('w \<Rightarrow> string result) option \<Rightarrow> (NtfyRequest \<Rightarrow> 'w \<Rightarrow> 'w \<times> nat result) \<Rightarrow> string \<Rightarrow> InboxEvent \<Rightarrow> 'w \<Rightarrow>
    'w \<times> goerror option" where
  "Notify reveal post base ev w =
     (if \<not> ShouldNotify (ie_Severity ev) then (w, None)
      else case reveal of None \<Rightarrow> (w, None)
      | Some rv \<Rightarrow> (case rv w of
          Inl _ \<Rightarrow> (w, None)
        | Inr topic0 \<Rightarrow> (let topic = trim_space topic0 in
            if topic = [] then (w, None)
            else if contains_str topic ''/'' \<or> contains_str topic ''..'' then (w, Some (errorf ''invalid ntfy topic''))
            else (case post (ntfy_request base topic ev) w of
                (w1, Inl e) \<Rightarrow> (w1, Some e)
              | (w1, Inr st) \<Rightarrow> if st \<ge> 300 then (w1, Some (errorf (''ntfy post '' @ itoa (int st)))) else (w1, None)))))"

end
