(* ===== verification/EventsLemmas.thy ===== *)
theory EventsLemmas
  imports Events Tables
begin

text \<open>
  internal/events: the lemmas behind the properties of the inbox: its invariant, the order of a
  listing, and what a page holds.
\<close>

section \<open>Redaction and size\<close>

text \<open>No sensitive key holds anything but the marker, in the object and the objects nested in it
  as values; arrays are not looked into, as the code does not.\<close>

primrec clean_value :: "json \<Rightarrow> bool" where
  "clean_value JNull = True"
| "clean_value (JBool b) = True"
| "clean_value (JNum n) = True"
| "clean_value (JStr s) = True"
| "clean_value (JArr xs) = True"
| "clean_value (JObj kvs) = (list_all (\<lambda>(k, v). sensitive k \<longrightarrow> v = redacted) kvs \<and>
     list_all snd (map (map_prod id clean_value) kvs))"

definition clean_data :: "data \<Rightarrow> bool" where
  "clean_data d \<longleftrightarrow> (\<forall>(k, v) \<in> set d. (sensitive k \<longrightarrow> v = redacted) \<and> clean_value v)"

lemma clean_redacted [simp]: "clean_value redacted"
  by (simp add: redacted_def)

lemma redact_value_clean: "clean_value (redact_value v)"
  by (induction v) (auto simp: list_all_iff)

lemma redactData_clean: "clean_data (redactData d)"
  by (auto simp: clean_data_def redactData_def redact_value_clean split: if_splits)

lemma drop_largest_sub: "set (drop_largest limit ks d) \<subseteq> set d"
proof (induction ks arbitrary: d)
  case (Cons k ks)
  then show ?case using Cons.IH [of "filter (\<lambda>kv. fst kv \<noteq> k) d"] by auto
qed simp

lemma truncateData_clean: "clean_data d \<Longrightarrow> clean_data (truncateData d limit)"
  using drop_largest_sub [of limit _ d]
  by (auto simp: truncateData_def Let_def clean_data_def sensitive_def sensitiveKeys_def to_lower_def lower_char_def is_upper_def
      has_prefix_def)

lemma marker_size: "data_size [(''_truncated'', JStr ''[DATA TRUNCATED]'')] \<le> maxDataBytes"
  by code_simp

lemma truncateData_size: "data_size (truncateData d maxDataBytes) \<le> maxDataBytes"
  using marker_size by (simp add: truncateData_def Let_def)

lemma publish_data_ok:
  "publish_data d0 = Some d \<Longrightarrow> clean_data d \<and> data_size d \<le> maxDataBytes"
  by (auto simp: publish_data_def Let_def redactData_clean truncateData_clean truncateData_size)

section \<open>The invariant of the inbox\<close>

definition event_ok :: "InboxEvent \<Rightarrow> bool" where
  "event_ok e \<longleftrightarrow> isAllowedType (ie_Type e) \<and> List.member allowedSeverities (ie_Severity e) \<and>
     ie_Message e \<noteq> [] \<and> length (ie_Message e) \<le> maxMessageLen \<and>
     (case ie_Data e of None \<Rightarrow> True | Some d \<Rightarrow> clean_data d \<and> data_size d \<le> maxDataBytes)"

definition buf_ok :: "InboxEvent list \<Rightarrow> bool" where
  "buf_ok buf \<longleftrightarrow> length buf \<le> subscriberBuf \<and> (\<forall>e \<in> set buf. clean_data (case ie_Data e of None \<Rightarrow> [] | Some d \<Rightarrow> d))"

definition keys_unique :: "EventRow list \<Rightarrow> bool" where
  "keys_unique rs \<longleftrightarrow> (\<forall>r \<in> set rs. \<forall>s \<in> set rs. er_Key r \<noteq> None \<and> er_Key r = er_Key s \<longrightarrow> er_ID r = er_ID s)"

definition inbox_ok :: "Inbox \<Rightarrow> bool" where
  "inbox_ok ib \<longleftrightarrow> distinct (map er_ID (ib_rows ib)) \<and>
     (\<forall>r \<in> set (ib_rows ib). event_ok (er_Event r)) \<and> keys_unique (ib_rows ib) \<and> (\<forall>s \<in> set (ib_subs ib). buf_ok (snd s))"

lemma inbox_okI:
  assumes "distinct (map er_ID (ib_rows ib))" "\<And>r. r \<in> set (ib_rows ib) \<Longrightarrow> event_ok (er_Event r)"
    "keys_unique (ib_rows ib)" "\<And>s. s \<in> set (ib_subs ib) \<Longrightarrow> buf_ok (snd s)"
  shows "inbox_ok ib"
  using assms by (simp add: inbox_ok_def)

lemma inbox_okD:
  assumes "inbox_ok ib"
  shows "distinct (map er_ID (ib_rows ib))" "\<And>r. r \<in> set (ib_rows ib) \<Longrightarrow> event_ok (er_Event r)"
    "keys_unique (ib_rows ib)" "\<And>s. s \<in> set (ib_subs ib) \<Longrightarrow> buf_ok (snd s)"
  using assms by (simp_all add: inbox_ok_def)

lemma keys_unique_transfer:
  assumes "keys_unique rs" "\<And>x. x \<in> set ys \<Longrightarrow> \<exists>r \<in> set rs. er_ID r = er_ID x \<and> er_Key r = er_Key x"
  shows "keys_unique ys"
  unfolding keys_unique_def
proof (intro ballI impI)
  fix x y assume a: "x \<in> set ys" "y \<in> set ys" "er_Key x \<noteq> None \<and> er_Key x = er_Key y"
  from assms(2) [OF a(1)] assms(2) [OF a(2)] obtain r s where
    "r \<in> set rs" "er_ID r = er_ID x" "er_Key r = er_Key x" "s \<in> set rs" "er_ID s = er_ID y" "er_Key s = er_Key y" by blast
  with assms(1) a(3) show "er_ID x = er_ID y" unfolding keys_unique_def by metis
qed

lemma keys_unique_snoc:
  "keys_unique rs \<Longrightarrow> (\<And>x. x \<in> set rs \<Longrightarrow> er_Key r \<noteq> None \<Longrightarrow> er_Key x \<noteq> er_Key r) \<Longrightarrow> keys_unique (rs @ [r])"
  unfolding keys_unique_def by (metis Un_iff empty_iff insert_iff list.set(1,2) set_append)

inductive event_step :: "Inbox \<Rightarrow> Inbox \<Rightarrow> bool" where
  es_publish: "Publish ib fresh now inp = (ib', r) \<Longrightarrow> event_step ib ib'"
| es_emit: "Emit ib fresh now ev = (ib', r) \<Longrightarrow> event_step ib ib'"
| es_mark: "MarkRead ib now i = (ib', r) \<Longrightarrow> event_step ib ib'"
| es_mark_all: "event_step ib (MarkAllRead ib now)"
| es_mark_type: "MarkAllReadByType ib now t = (ib', r) \<Longrightarrow> event_step ib ib'"
| es_register: "event_step ib (register ib (catch_up n old since []))"
| es_unsubscribe: "event_step ib (unsubscribe ib k)"
| es_receive: "event_step ib (ib\<lparr>ib_subs := map (\<lambda>(k, buf). (k, if k = j then tl buf else buf)) (ib_subs ib)\<rparr>)"

lemma publish_check_ok:
  "publish_check inp = Inr (t, sev, msg) \<Longrightarrow>
   isAllowedType t \<and> List.member allowedSeverities sev \<and> msg \<noteq> [] \<and> length msg \<le> maxMessageLen"
  by (auto simp: publish_check_def Let_def maxMessageLen_def split: if_splits)

lemma new_event_ok: "publish_check inp = Inr (t, sev, msg) \<Longrightarrow> event_ok (new_event inp t sev msg fresh now)"
  using publish_check_ok [of inp t sev msg] publish_data_ok [of "pi_Data inp"]
  by (auto simp: event_ok_def new_event_def split: option.split)

lemma getByIdempotency_None:
  "getByIdempotency ib key = None \<Longrightarrow> key \<noteq> [] \<Longrightarrow> r \<in> set (ib_rows ib) \<Longrightarrow> er_Key r \<noteq> Some key"
  by (auto simp: getByIdempotency_def find_None_iff)

lemma send_ok: "buf_ok buf \<Longrightarrow> clean_data (case ie_Data e of None \<Rightarrow> [] | Some d \<Rightarrow> d) \<Longrightarrow> buf_ok (send e buf)"
  by (auto simp: send_def buf_ok_def)

lemma event_ok_clean: "event_ok e \<Longrightarrow> clean_data (case ie_Data e of None \<Rightarrow> [] | Some d \<Rightarrow> d)"
  by (auto simp: event_ok_def clean_data_def split: option.splits)

lemma Publish_inbox_ok:
  assumes ok: "inbox_ok ib" and run: "Publish ib fresh now inp = (ib', r)"
  shows "inbox_ok ib'"
proof (cases "publish_check inp")
  case (Inl e) then show ?thesis using assms by (simp add: Publish_def)
next
  case (Inr tsm)
  obtain t sev msg where p: "publish_check inp = Inr (t, sev, msg)" using Inr by (cases tsm) auto
  let ?key = "trim_space (pi_IdempotencyKey inp)"
  let ?e = "new_event inp t sev msg fresh now"
  have e: "event_ok ?e" by (rule new_event_ok [OF p])
  show ?thesis
  proof (cases "getByIdempotency ib ?key")
    case (Some ev) then show ?thesis using assms p by (simp add: Publish_def Let_def)
  next
    case None
    have ib': "ib' = broadcast (insertEvent ib ?e ?key) ?e" using run p None by (simp add: Publish_def Let_def)
    have ins: "inbox_ok (insertEvent ib ?e ?key)"
    proof (cases "list_ex (\<lambda>r. er_ID r = ie_ID ?e) (ib_rows ib)")
      case True then show ?thesis using ok by (simp add: insertEvent_def)
    next
      case False
      let ?r = "\<lparr>er_Event = ?e, er_Key = (if ?key = [] then None else Some ?key)\<rparr>"
      have u: "keys_unique (ib_rows ib @ [?r])"
        by (rule keys_unique_snoc [OF inbox_okD(3) [OF ok]]) (use getByIdempotency_None [OF None] in \<open>auto split: if_splits\<close>)
      have i: "insertEvent ib ?e ?key = ib\<lparr>ib_rows := ib_rows ib @ [?r]\<rparr>" using False by (simp add: insertEvent_def)
      show ?thesis unfolding i
      proof (rule inbox_okI, goal_cases)
        case 1 show ?case using inbox_okD(1) [OF ok] False by (auto simp: list_ex_iff)
      next
        case (2 r) then show ?case using inbox_okD(2) [OF ok] e by auto
      next
        case 3 show ?case using u by simp
      next
        case (4 s) then show ?case using inbox_okD(4) [OF ok] by simp
      qed
    qed
    show ?thesis unfolding ib' broadcast_def
      by (rule inbox_okI) (use inbox_okD [OF ins] send_ok event_ok_clean [OF e] in \<open>auto simp: split_beta\<close>)
  qed
qed

lemma mark_where_inbox_ok: "inbox_ok ib \<Longrightarrow> inbox_ok (mark_where P now ib)"
proof -
  assume ok: "inbox_ok ib"
  have k: "er_ID (mark_row now r) = er_ID r" "er_Key (mark_row now r) = er_Key r"
    "event_ok (er_Event (mark_row now r)) = event_ok (er_Event r)" for r
    by (simp_all add: mark_row_def event_ok_def)
  show ?thesis unfolding mark_where_def
  proof (rule inbox_okI, goal_cases)
    case 1 show ?case using inbox_okD(1) [OF ok] by (simp add: map_update_where_key k)
  next
    case (2 r) then show ?case using inbox_okD(2) [OF ok] k(3) by (auto simp: set_update_where)
  next
    case 3 show ?case
      by (rule keys_unique_transfer [OF inbox_okD(3) [OF ok]]) (use k(1,2) in \<open>auto simp: set_update_where\<close>)
  next
    case (4 s) then show ?case using inbox_okD(4) [OF ok] by simp
  qed
qed

lemma catch_up_ok: "buf_ok buf \<Longrightarrow> buf_ok (catch_up n ib cursor buf)"
proof (induction n arbitrary: cursor buf)
  case (Suc n)
  have scan: "clean_data (case ie_Data (scanEvent r) of None \<Rightarrow> [] | Some d \<Rightarrow> d)" for r
    using redactData_clean by (auto simp: scanEvent_def clean_data_def [of "[]"] split: option.splits)
  have evs: "e \<in> scanEvent ` UNIV" if "event_List ib cursor 100 f = Inr (evs, nxt)" "e \<in> set evs" for evs nxt e f
    using that by (auto simp: event_List_def Let_def split: sum.splits option.splits if_splits dest!: in_set_takeD)
  have snd: "buf_ok (fold send evs b)" if "\<forall>e \<in> set evs. e \<in> scanEvent ` UNIV" "buf_ok b" for evs b
    using that by (induction evs arbitrary: b) (auto intro!: send_ok scan)
  show ?case using Suc.prems Suc.IH snd evs by (auto simp: Let_def split: sum.splits prod.splits)
qed simp

lemma in_set_tlD: "x \<in> set (tl xs) \<Longrightarrow> x \<in> set xs"
  by (cases xs) auto

lemma event_step_ok: "event_step ib ib' \<Longrightarrow> inbox_ok ib \<Longrightarrow> inbox_ok ib'"
proof (induction rule: event_step.induct)
  case (es_publish ib fresh now inp ib' r) then show ?case by (rule Publish_inbox_ok [rotated])
next
  case (es_emit ib fresh now ev ib' r)
  then show ?case using Publish_inbox_ok by (auto simp: Emit_def split: prod.splits sum.splits)
next
  case (es_mark ib now i ib' r)
  then show ?case by (auto simp: MarkRead_def Let_def mark_where_inbox_ok split: if_splits)
next
  case (es_mark_all ib now) then show ?case by (simp add: MarkAllRead_def mark_where_inbox_ok)
next
  case (es_mark_type ib now t ib' r)
  then show ?case by (auto simp: MarkAllReadByType_def Let_def mark_where_inbox_ok split: if_splits)
next
  case (es_register ib n old since)
  have "buf_ok (catch_up n old since [])" by (rule catch_up_ok) (simp add: buf_ok_def)
  then show ?case
    by (intro inbox_okI) (use inbox_okD [OF es_register] in \<open>auto simp: register_def Let_def dest: in_set_tlD split: if_splits\<close>)
next
  case (es_unsubscribe ib k) then show ?case by (auto simp: inbox_ok_def unsubscribe_def)
next
  case (es_receive ib j)
  have tl: "buf_ok (tl b)" if "buf_ok b" for b using that by (auto simp: buf_ok_def dest: in_set_tlD)
  show ?case by (rule inbox_okI) (use inbox_okD [OF es_receive] tl in auto)
qed

lemma empty_inbox_ok: "inbox_ok empty_inbox"
  by (simp add: inbox_ok_def empty_inbox_def keys_unique_def)

interpretation inbox: statement_tables event_step inbox_ok empty_inbox
  by (unfold_locales, rule empty_inbox_ok, erule (1) event_step_ok)

lemma event_steps_ok: "event_step\<^sup>*\<^sup>* ib ib' \<Longrightarrow> inbox_ok ib \<Longrightarrow> inbox_ok ib'"
  by (rule inbox.steps_ok)

end
