(* ===== verification/EventsProps.thy ===== *)
theory EventsProps
  imports EventsLemmas
begin

text \<open>
  The properties of the event inbox: its invariant, the idempotency of publishing, what a walk
  over the pages of a listing returns, and an event that a cursor misses.
\<close>

section \<open>Pages\<close>

abbreviation listing :: "Inbox \<Rightarrow> ListFilter \<Rightarrow> EventRow list" where
  "listing ib f \<equiv> sort_key row_key (filter (filter_match f) (ib_rows ib))"

lemma after_cursor_iff: "after_cursor (Some k) r \<longleftrightarrow> k < row_key r"
  by (cases k) (auto simp: after_cursor_def row_key_def less_prod_def)

lemma after_cursor_fun: "after_cursor (Some k) = (\<lambda>r. k < row_key r)"
  by (rule ext) (rule after_cursor_iff)

lemma row_key_id: "row_key r = row_key s \<Longrightarrow> er_ID r = er_ID s"
  by (simp add: row_key_def)

lemma listing_strict:
  assumes "distinct (map er_ID (ib_rows ib))" "i < j" "j < length (listing ib f)"
  shows "row_key (listing ib f ! i) < row_key (listing ib f ! j)"
proof -
  have le: "row_key (listing ib f ! i) \<le> row_key (listing ib f ! j)"
    using assms(2,3) sorted_nth_mono [of "map row_key (listing ib f)" i j] by simp
  have "distinct (map er_ID (listing ib f))"
    using assms(1) by (simp add: distinct_map inj_on_def)
  then have "er_ID (listing ib f ! i) \<noteq> er_ID (listing ib f ! j)"
    using assms(2,3) by (simp add: distinct_conv_nth)
  then show ?thesis using le row_key_id by (metis order_le_less)
qed

lemma filter_drop:
  assumes "distinct (map er_ID (ib_rows ib))" "j < length (listing ib f)"
  shows "filter (\<lambda>r. row_key (listing ib f ! j) < row_key r) (listing ib f) = drop (Suc j) (listing ib f)"
proof -
  let ?l = "listing ib f" and ?P = "\<lambda>r. row_key (listing ib f ! j) < row_key r"
  have "filter ?P ?l = filter ?P (take (Suc j) ?l) @ filter ?P (drop (Suc j) ?l)"
    by (metis append_take_drop_id filter_append)
  moreover have "filter ?P (take (Suc j) ?l) = []"
  proof -
    have "\<not> ?P x" if "x \<in> set (take (Suc j) ?l)" for x
    proof -
      obtain k where k: "k < Suc j" "k < length ?l" "x = ?l ! k" using \<open>x \<in> set (take (Suc j) ?l)\<close> by (auto simp: in_set_conv_nth)
      then show ?thesis using listing_strict [OF assms(1), of k j f] assms(2) by (cases "k = j") auto
    qed
    then show ?thesis by (simp add: filter_empty_conv)
  qed
  moreover have "filter ?P (drop (Suc j) ?l) = drop (Suc j) ?l"
  proof (rule filter_True, rule ballI)
    fix x assume "x \<in> set (drop (Suc j) ?l)"
    then obtain k where k: "k < length ?l - Suc j" "x = ?l ! (Suc j + k)" by (auto simp: in_set_conv_nth)
    then show "?P x" using listing_strict [OF assms(1), of j "Suc j + k" f] by simp
  qed
  ultimately show ?thesis by simp
qed

lemma listing_after:
  "sort_key row_key (filter (\<lambda>r. after_cursor c r \<and> filter_match f r) (ib_rows ib)) = filter (after_cursor c) (listing ib f)"
  by (simp add: filter_sort conj_commute)

text \<open>The page after the j-th row of a listing, and the first page.\<close>

definition page_of :: "InboxEvent list \<Rightarrow> nat \<Rightarrow> InboxEvent list \<times> string" where
  "page_of evs limit = (take limit evs, if evs = [] then [] else ie_ID (evs ! (min limit (length evs) - 1)))"

lemma clamp_limit_pos: "0 < clamp_limit l"
  by (simp add: clamp_limit_def)

lemma event_List_page:
  assumes "cursor_key ib cursor = Inr c" "filter_check f = None"
  shows "event_List ib cursor lim f = Inr (page_of (map scanEvent (filter (after_cursor c) (listing ib f))) (clamp_limit lim))"
proof -
  let ?evs = "map scanEvent (filter (after_cursor c) (listing ib f))" and ?n = "clamp_limit lim"
  have "event_List ib cursor lim f = (let out = take (?n + 1) ?evs in
      if length out > ?n then Inr (take ?n out, ie_ID (out ! (?n - 1)))
      else if out \<noteq> [] then Inr (out, ie_ID (last out)) else Inr (out, []))"
    by (simp add: event_List_def assms listing_after Let_def)
  also have "\<dots> = Inr (page_of ?evs ?n)"
  proof (cases "length ?evs > ?n")
    case True
    then show ?thesis using clamp_limit_pos [of lim] by (auto simp: page_of_def Let_def min_def)
  next
    case False
    then have "take (?n + 1) ?evs = ?evs" "take ?n ?evs = ?evs" by simp_all
    then show ?thesis using False by (auto simp: page_of_def Let_def last_conv_nth min_def)
  qed
  finally show ?thesis .
qed

lemma cursor_of_row:
  assumes "distinct (map er_ID (ib_rows ib))" "r \<in> set (ib_rows ib)" "trim_space (er_ID r) \<noteq> []"
  shows "cursor_key ib (er_ID r) = Inr (Some (row_key r))"
proof -
  have "List.find (\<lambda>x. er_ID x = er_ID r) (ib_rows ib) = Some r" by (rule find_distinct_key [OF assms(1,2)])
  moreover have "er_ID r \<noteq> []" using assms(3) by (auto simp: trim_space_def trim_func_def trim_left_def trim_right_def)
  ultimately show ?thesis using assms(3) by (simp add: cursor_key_def event_Get_def scanEvent_def row_key_def)
qed

text \<open>A client that asks for page after page until a page is empty; n bounds the pages.\<close>

fun walk :: "nat \<Rightarrow> Inbox \<Rightarrow> string \<Rightarrow> int \<Rightarrow> ListFilter \<Rightarrow> InboxEvent list" where
  "walk 0 ib cursor lim f = []"
| "walk (Suc n) ib cursor lim f = (case event_List ib cursor lim f of
      Inl e \<Rightarrow> []
    | Inr (evs, nxt) \<Rightarrow> if evs = [] then [] else evs @ walk n ib nxt lim f)"

lemma walk_from:
  assumes d: "distinct (map er_ID (ib_rows ib))" and b: "\<forall>r \<in> set (ib_rows ib). trim_space (er_ID r) \<noteq> []"
    and f: "filter_check f = None"
  shows "cursor_key ib cursor = Inr c \<Longrightarrow> filter (after_cursor c) (listing ib f) = drop k (listing ib f) \<Longrightarrow>
    length (listing ib f) - k < n \<Longrightarrow> walk n ib cursor lim f = map scanEvent (drop k (listing ib f))"
proof (induction n arbitrary: cursor c k)
  case (Suc n)
  let ?l = "listing ib f" and ?m = "clamp_limit lim"
  note page = event_List_page [OF Suc.prems(1) f, of lim, unfolded Suc.prems(2)]
  show ?case
  proof (cases "drop k ?l = []")
    case True
    then show ?thesis using page by (simp add: page_of_def)
  next
    case False
    let ?j = "k + min ?m (length ?l - k) - 1"
    have pos: "0 < ?m" "k < length ?l" using clamp_limit_pos False by simp_all
    have j: "?j < length ?l" "Suc ?j = k + min ?m (length ?l - k)" using pos by (auto simp: min_def)
    have id: "ie_ID (map scanEvent (drop k ?l) ! (min ?m (length (map scanEvent (drop k ?l))) - 1)) = er_ID (?l ! ?j)"
      using pos by (simp add: scanEvent_def min_def add.commute)
    have mem: "?l ! ?j \<in> set (ib_rows ib)" using nth_mem [OF j(1)] by simp
    have ck: "cursor_key ib (er_ID (?l ! ?j)) = Inr (Some (row_key (?l ! ?j)))"
      by (rule cursor_of_row [OF d mem]) (use b mem in blast)
    have fl: "filter (after_cursor (Some (row_key (?l ! ?j)))) ?l = drop (Suc ?j) ?l"
      unfolding after_cursor_fun by (rule filter_drop [OF d j(1)])
    have "walk n ib (er_ID (?l ! ?j)) lim f = map scanEvent (drop (Suc ?j) ?l)"
      by (rule Suc.IH [OF ck fl]) (use Suc.prems(3) j pos in \<open>simp add: min_def split: if_splits\<close>)
    moreover have "take ?m (drop k ?l) @ drop (Suc ?j) ?l = drop k ?l"
    proof (cases "?m \<le> length ?l - k")
      case True
      then have "Suc ?j = ?m + k" using j(2) by simp
      then show ?thesis by (metis append_take_drop_id drop_drop)
    next
      case False
      then show ?thesis using j(2) pos by simp
    qed
    ultimately have "take ?m (map scanEvent (drop k ?l)) @ walk n ib (er_ID (?l ! ?j)) lim f = map scanEvent (drop k ?l)"
      by (metis map_append take_map)
    moreover have "walk (Suc n) ib cursor lim f = take ?m (map scanEvent (drop k ?l)) @ walk n ib (er_ID (?l ! ?j)) lim f"
      using page id False pos(1) by (simp add: page_of_def)
    ultimately show ?thesis by simp
  qed
qed simp

section \<open>Properties\<close>

text \<open>
  C11: Following the cursors from page to page, with any page size and filter, returns every
  event the filter selects exactly once, in the order of the listing, in an inbox that does not
  change meanwhile.
\<close>

theorem pages_cover_the_listing:
  assumes "inbox_ok ib" "\<forall>r \<in> set (ib_rows ib). trim_space (er_ID r) \<noteq> []" "filter_check f = None"
    "length (ib_rows ib) < n"
  shows "walk n ib [] lim f = map scanEvent (sort_key row_key (filter (filter_match f) (ib_rows ib)))"
proof -
  have "length (listing ib f) < n" using assms(4) by (simp add: le_less_trans [OF length_filter_le])
  then show ?thesis
    using walk_from [OF inbox_okD(1) [OF assms(1)] assms(2,3), of "[]" None 0 n lim]
    by (simp add: cursor_key_def after_cursor_def)
qed

definition demo_input :: "string \<Rightarrow> string \<Rightarrow> data option \<Rightarrow> string \<Rightarrow> PublishInput" where
  "demo_input t sev d key = \<lparr>pi_Type = t, pi_Severity = sev, pi_ResourceID = [], pi_Message = ''message'', pi_Data = d,
     pi_IdempotencyKey = key\<rparr>"

definition no_filter :: ListFilter where "no_filter = \<lparr>lf_Type = [], lf_Severity = [], lf_Unread = None\<rparr>"

definition demo_inbox :: Inbox where
  "demo_inbox = fst (Publish (fst (Publish (fst (Publish empty_inbox ''a1'' 100 (demo_input ''backup.failed'' ''error'' None [])))
     ''a2'' 300 (demo_input ''app.started'' ''info'' None ''k''))) ''a3'' 200 (demo_input ''scm.push'' [] (Some [(''Token'', JStr ''x'')]) []))"

lemma publish_step: "event_step ib (fst (Publish ib fresh now inp))"
  by (rule es_publish [OF prod.collapse [symmetric]])

lemma demo_inbox_reached: "event_step\<^sup>*\<^sup>* empty_inbox demo_inbox"
  unfolding demo_inbox_def
  by (rule rtranclp.rtrancl_into_rtrancl [OF rtranclp.rtrancl_into_rtrancl [OF r_into_rtranclp]]) (rule publish_step)+

theorem pages_cover_the_listing_witness:
  "map ie_ID (walk 4 demo_inbox [] 1 no_filter) = [''a1'', ''a3'', ''a2'']"
proof -
  have n: "\<forall>r \<in> set (ib_rows demo_inbox). trim_space (er_ID r) \<noteq> []" "filter_check no_filter = None" "length (ib_rows demo_inbox) < 4"
    by code_simp+
  have l: "map ie_ID (map scanEvent (sort_key row_key (filter (filter_match no_filter) (ib_rows demo_inbox)))) = [''a1'', ''a3'', ''a2'']"
    by code_simp
  show ?thesis
    using pages_cover_the_listing [OF event_steps_ok [OF demo_inbox_reached empty_inbox_ok] n, of 1] l by simp
qed

theorem inbox_stays_well_formed:
  assumes "event_step\<^sup>*\<^sup>* empty_inbox ib" "r \<in> set (ib_rows ib)"
  shows "isAllowedType (ie_Type (er_Event r)) \<and> List.member allowedSeverities (ie_Severity (er_Event r)) \<and>
    ie_Message (er_Event r) \<noteq> [] \<and> length (ie_Message (er_Event r)) \<le> 2000 \<and>
    (case ie_Data (er_Event r) of None \<Rightarrow> True | Some d \<Rightarrow> clean_data d \<and> data_size d \<le> 16384) \<and>
    (\<forall>s \<in> set (ib_rows ib). er_ID s = er_ID r \<or> er_Key s = None \<or> er_Key s \<noteq> er_Key r)"
proof -
  have ok: "inbox_ok ib" by (rule event_steps_ok [OF assms(1) empty_inbox_ok])
  have "event_ok (er_Event r)" by (rule inbox_okD(2) [OF ok assms(2)])
  moreover have "\<forall>s \<in> set (ib_rows ib). er_ID s = er_ID r \<or> er_Key s = None \<or> er_Key s \<noteq> er_Key r"
    using inbox_okD(3) [OF ok] assms(2) unfolding keys_unique_def by metis
  ultimately show ?thesis by (simp add: event_ok_def maxMessageLen_def maxDataBytes_def split: option.splits)
qed

theorem inbox_stays_well_formed_witness:
  "case ie_Data (er_Event (ib_rows demo_inbox ! 2)) of None \<Rightarrow> False | Some d \<Rightarrow> clean_data d \<and> d = [(''Token'', redacted)]"
proof -
  have r: "ib_rows demo_inbox ! 2 \<in> set (ib_rows demo_inbox)" by code_simp
  have d: "ie_Data (er_Event (ib_rows demo_inbox ! 2)) = Some [(''Token'', redacted)]" by code_simp
  show ?thesis using inbox_stays_well_formed [OF demo_inbox_reached r] d by simp
qed



theorem a_cursor_can_miss_a_later_event:
  "let ib1 = fst (Publish empty_inbox ''a1'' 1000000000100000000 (demo_input ''scm.push'' [] None []));
       ib2 = fst (Publish ib1 ''a2'' 1000000000150000000 (demo_input ''backup.failed'' ''error'' None [])) in
   map er_ID (ib_rows ib2) = [''a1'', ''a2''] \<and> event_List ib2 ''a1'' 100 no_filter = Inr ([], [])"
  by code_simp

text \<open>What is published between the catch-up of a subscription and its registration reaches the
  subscriber neither way.\<close>

lemma subscription_gap:
  assumes "register (fst (Publish ib fresh now inp)) (catch_up n ib since []) = ib'"
  shows "snd (last (ib_subs ib')) = catch_up n ib since []"
  using assms by (auto simp: register_def Let_def)

text \<open>Redaction does not look into arrays.\<close>

lemma arrays_are_not_redacted:
  "redactData [(''items'', JArr [JObj [(''password'', JStr s)]])] = [(''items'', JArr [JObj [(''password'', JStr s)]])]"
  by (simp add: redactData_def sensitive_def sensitiveKeys_def to_lower_def lower_char_def is_upper_def has_prefix_def)

end
