(* ===== verification/GoPath.thy ===== *)
theory GoPath
  imports Prelude
begin

text \<open>
  Go's path/filepath on Unix: the functions the sources call on file names.
\<close>

section \<open>Paths\<close>

text \<open>filepath.Clean on Unix: the components without the empty ones and the dots, and with every
  double dot applied to the component before it.\<close>

fun clean_parts :: "bool \<Rightarrow> string list \<Rightarrow> string list \<Rightarrow> string list" where
  "clean_parts rooted acc [] = rev acc"
| "clean_parts rooted acc (p # ps) =
     (if p = [] \<or> p = ''.'' then clean_parts rooted acc ps
      else if p = ''..'' then
        (case acc of
           [] \<Rightarrow> if rooted then clean_parts rooted [] ps else clean_parts rooted [''..''] ps
         | q # acc' \<Rightarrow> if q = ''..'' then clean_parts rooted (''..'' # acc) ps else clean_parts rooted acc' ps)
      else clean_parts rooted (p # acc) ps)"

definition is_abs :: "string \<Rightarrow> bool" where "is_abs p \<longleftrightarrow> has_prefix p ''/''"

definition path_clean :: "string \<Rightarrow> string" where
  "path_clean p = (let s = join ''/'' (clean_parts (is_abs p) [] (split_on CHR ''/'' p)) in
     if is_abs p then CHR ''/'' # s else if s = [] then ''.'' else s)"

text \<open>filepath.Dir.\<close>

definition path_dir :: "string \<Rightarrow> string" where
  "path_dir p = path_clean (rev (dropWhile (\<lambda>c. c \<noteq> CHR ''/'') (rev p)))"

definition path_join :: "string \<Rightarrow> string \<Rightarrow> string" where
  "path_join a b = (if a = [] \<and> b = [] then [] else if a = [] then path_clean b else if b = [] then path_clean a
     else path_clean (a @ ''/'' @ b))"

end
