(* ===== verification/BackupsTypes.thy ===== *)
theory BackupsTypes
  imports ProjectsValidate GoPath
begin

text \<open>
  internal/backups: the vocabulary (models.go, errors.go, events.go), the configuration and the
  text helpers (backups.go), the checks of a repository location (service.go) and the retention
  policy (retention.go).  url.Parse is an argument: the scheme, the host and the opaque part.
\<close>

section \<open>Vocabulary\<close>

definition BErrNotFound :: sentinel where "BErrNotFound = ErrSentinel ''backups: not found''"
definition ErrInvalid :: sentinel where "ErrInvalid = ErrSentinel ''backups: invalid request''"
definition BErrConflict :: sentinel where "BErrConflict = ErrSentinel ''backups: conflict''"
definition ErrOperationInProgress :: sentinel where
  "ErrOperationInProgress = ErrSentinel ''backups: another backup operation is already active''"
definition ErrNoRepository :: sentinel where "ErrNoRepository = ErrSentinel ''backups: no backup repository configured''"
definition ErrNoSnapshot :: sentinel where "ErrNoSnapshot = ErrSentinel ''backups: no snapshot available''"

datatype run_kind = KindBackup | KindVerify | KindRestore
datatype run_status = StatusRunning | StatusCompleted | StatusFailed
datatype verification_status = VerificationRunning | VerificationPassed | VerificationFailed

definition kind_text :: "run_kind \<Rightarrow> string" where
  "kind_text k = (case k of KindBackup \<Rightarrow> ''backup'' | KindVerify \<Rightarrow> ''verify'' | KindRestore \<Rightarrow> ''restore'')"

definition TriggerManual :: string where "TriggerManual = ''manual''"
definition StagePrepare :: string where "StagePrepare = ''prepare''"
definition StageCredentials :: string where "StageCredentials = ''credentials''"
definition StageSnapshot :: string where "StageSnapshot = ''snapshot''"
definition StageRestore :: string where "StageRestore = ''restore''"
definition StageVerify :: string where "StageVerify = ''verify''"
definition StageCompleted :: string where "StageCompleted = ''completed''"

record SecretRef =
  sr_ID :: string
  sr_Version :: int

record Repository =
  repo_ID :: id
  repo_Label :: string
  repo_Location :: string
  repo_SecretRef :: SecretRef
  repo_Attached :: bool
  repo_CreatedAt :: time
  repo_UpdatedAt :: time

record Credentials =
  cr_Password :: string
  cr_Username :: string
  cr_AccessKey :: string

record Run =
  run_ID :: id
  run_Kind :: run_kind
  run_RepositoryID :: id
  run_Status :: run_status
  run_Trigger :: string
  run_Stage :: string
  run_SnapshotID :: string
  run_Stats :: "(int \<times> int) option"
  run_Error :: string
  run_StartedAt :: time
  run_FinishedAt :: "time option"

record Snapshot =
  snap_ID :: id
  snap_RepositoryID :: id
  snap_RunID :: id
  snap_CreatedAt :: time
  snap_Paths :: "string list"
  snap_SizeBytes :: int
  snap_FileCount :: int
  snap_VerifiedAt :: "time option"

record VerificationDepth =
  dep_ManifestFound :: bool
  dep_SQLiteChecked :: int
  dep_SQLiteOK :: int
  dep_PGChecked :: int
  dep_PGOK :: int
  dep_CheckedAt :: time

record Verification =
  ver_ID :: id
  ver_RunID :: id
  ver_RepositoryID :: id
  ver_SnapshotID :: id
  ver_Status :: verification_status
  ver_Target :: string
  ver_FilesRestored :: int
  ver_BytesRestored :: int
  ver_StartedAt :: time
  ver_FinishedAt :: "time option"
  ver_CleanedAt :: "time option"
  ver_Error :: string
  ver_CleanupError :: string
  ver_Depth :: "VerificationDepth option"

section \<open>Text helpers\<close>

definition maxErrorLength :: nat where "maxErrorLength = 2000"
definition defaultListingLimit :: int where "defaultListingLimit = 50"
definition maxListingLimit :: int where "maxListingLimit = 500"

definition nonEmpty :: "string \<Rightarrow> string \<Rightarrow> string" where
  "nonEmpty s fallback = (if trim_space s = [] then fallback else trim_space s)"

definition truncate_text :: "string \<Rightarrow> nat \<Rightarrow> string" where
  "truncate_text s n = (if length s \<le> n then s else take n s @ ''...(truncated)'')"

definition redact_one :: "string \<Rightarrow> string \<Rightarrow> string" where
  "redact_one s v = (if v = [] then s else replace_all v ''[redacted]'' s)"

definition redact :: "string \<Rightarrow> string list \<Rightarrow> string" where
  "redact s secrets = fold (\<lambda>v s. redact_one s v) secrets s"

definition redact_creds :: "string \<Rightarrow> Credentials \<Rightarrow> string" where
  "redact_creds s c = redact s [cr_Password c, cr_AccessKey c]"

section \<open>Locations\<close>

definition unsupported_location :: "string \<Rightarrow> goerror" where
  "unsupported_location loc = wrapf ErrInvalid (''unsupported location '' @ quote loc @
     '' (use sftp://, s3:, rest:, rclone:, b2:, azure:, gs:, or an absolute local path)'')"

definition validateLocation :: "(string \<Rightarrow> (string \<times> string \<times> string) option) \<Rightarrow> string \<Rightarrow> goerror option" where
  "validateLocation url_parse loc =
     (if is_abs loc then None
      else (case url_parse loc of
          None \<Rightarrow> Some (unsupported_location loc)
        | Some (scheme, host, opaque) \<Rightarrow>
            if scheme = [] then Some (unsupported_location loc)
            else if to_lower scheme = ''sftp'' then
              (if has_prefix (to_lower loc) ''sftp://'' then
                 (if host = [] then Some (wrapf ErrInvalid (''invalid sftp location '' @ quote loc @ '': host is required'')) else None)
               else if trim_space opaque = [] then Some (wrapf ErrInvalid (''invalid sftp location '' @ quote loc))
               else None)
            else if List.member [''s3'', ''rest'', ''rclone'', ''b2'', ''azure'', ''gs''] (to_lower scheme) then
              (if trim_space (drop (length scheme + 1) loc) = []
               then Some (wrapf ErrInvalid (''invalid location '' @ quote loc @ '': repository path is required'')) else None)
            else Some (unsupported_location loc)))"

definition rejectSandboxedRepoPath :: "string \<Rightarrow> goerror option" where
  "rejectSandboxedRepoPath loc =
     (if \<not> is_abs loc then None
      else if list_ex (\<lambda>hidden. path_clean loc = hidden \<or> has_prefix (path_clean loc) (hidden @ ''/'')) [''/tmp'', ''/var/tmp'']
        then Some (wrapf ErrInvalid (''local repository path '' @ quote loc @
          '' is invisible to the backup service (PrivateTmp hides /tmp and /var/tmp); use a persistent location such as /srv/omahab/backups/repos''))
      else None)"

text \<open>The probe errors that mean an uninitialised repository.\<close>

definition isMissingRepository :: "goerror \<Rightarrow> bool" where
  "isMissingRepository e \<longleftrightarrow> list_ex (contains_str (to_lower (err_msg e)))
     [''repository does not exist'', ''unable to open config file'', ''no such file or directory'',
      ''repository not open'', ''config file cannot be loaded'']"

definition already_initialized :: "goerror \<Rightarrow> bool" where
  "already_initialized e \<longleftrightarrow> contains_str (to_lower (err_msg e)) ''already initialized'' \<or> contains_str (err_msg e) ''already exists''"

definition localRepoPath :: "string \<Rightarrow> string" where
  "localRepoPath loc = (let t = trim_space loc in
     if t = [] then []
     else if list_ex (has_prefix t) [''sftp:'', ''rclone:'', ''rest:'', ''s3:'', ''b2:'', ''azure:'', ''gs:''] then []
     else if has_prefix t ''/'' then t else [])"

definition snapshotTags :: "string list \<Rightarrow> string list" where
  "snapshotTags scopes = snd (fold (\<lambda>s0 (seen, tags). let s = trim_space s0 in
       if s = [] \<or> List.member seen s then (seen, tags) else (s # seen, tags @ [''scope:'' @ s]))
     scopes ([''omahab''], [''omahab'']))"

section \<open>Configuration and retention policy\<close>

record RetentionPolicy =
  KeepDaily :: int
  KeepWeekly :: int
  KeepMonthly :: int
  KeepYearly :: int

definition DefaultRetentionPolicy :: RetentionPolicy where
  "DefaultRetentionPolicy = \<lparr>KeepDaily = 7, KeepWeekly = 4, KeepMonthly = 12, KeepYearly = 2\<rparr>"

definition RetentionPolicy_withDefaults :: "RetentionPolicy \<Rightarrow> RetentionPolicy" where
  "RetentionPolicy_withDefaults p = \<lparr>
     KeepDaily = (if KeepDaily p \<le> 0 then 7 else KeepDaily p), KeepWeekly = (if KeepWeekly p \<le> 0 then 4 else KeepWeekly p),
     KeepMonthly = (if KeepMonthly p \<le> 0 then 12 else KeepMonthly p), KeepYearly = (if KeepYearly p \<le> 0 then 2 else KeepYearly p)\<rparr>"

definition forgetArgs :: "RetentionPolicy \<Rightarrow> bool \<Rightarrow> string list" where
  "forgetArgs p dryRun = [''forget'', ''--group-by'', ''tags'', ''--keep-daily'', itoa (KeepDaily p),
     ''--keep-weekly'', itoa (KeepWeekly p), ''--keep-monthly'', itoa (KeepMonthly p), ''--keep-yearly'', itoa (KeepYearly p)] @
     (if dryRun then [''--dry-run'', ''--json''] else [])"

definition hours :: "int \<Rightarrow> int" where "hours n = n * 3600000000000"

definition retentionMinInterval :: int where "retentionMinInterval = hours (7 * 24)"
definition localRepoFreeBytesWarn :: int where "localRepoFreeBytesWarn = 5 * 1073741824"

record BackupConfig =
  bc_Host :: string
  bc_VerifyRoot :: string
  bc_CacheDir :: string
  bc_RPO :: int
  bc_RTO :: int
  bc_VerifyInterval :: int
  bc_Retention :: RetentionPolicy

definition BackupConfig_withDefaults :: "BackupConfig \<Rightarrow> BackupConfig" where
  "BackupConfig_withDefaults c = c\<lparr>
     bc_VerifyRoot := (if bc_VerifyRoot c = [] then ''/var/lib/omahab/backups/verify'' else bc_VerifyRoot c),
     bc_CacheDir := (if bc_CacheDir c = [] then ''/var/lib/omahab/backups/cache'' else bc_CacheDir c),
     bc_RPO := (if bc_RPO c \<le> 0 then hours 24 else bc_RPO c),
     bc_RTO := (if bc_RTO c \<le> 0 then hours 4 else bc_RTO c),
     bc_VerifyInterval := (if bc_VerifyInterval c \<le> 0 then hours (7 * 24) else bc_VerifyInterval c),
     bc_Retention := RetentionPolicy_withDefaults (bc_Retention c)\<rparr>"

definition severityForHealth :: "health \<Rightarrow> string" where
  "severityForHealth h = (if h = HealthHealthy then ''info'' else if h = HealthDegraded then ''warning'' else ''error'')"

end
