(* ===== verification/BackupsDb.thy ===== *)
theory BackupsDb
  imports BackupsTypes "HOL-Library.Product_Lexorder"
begin

text \<open>
  internal/backups/store.go and migrate.go: the tables of the backup controller and the
  statements over them.  Rows are in insertion order, and rows a query orders alike stay in it.
  Timestamps are stored in a layout of fixed width, so the order of their text is the order of
  time.  A statement fails only by a constraint of the schema: a unique column, the single
  active run, a foreign key.
\<close>

section \<open>Rows\<close>

record RetentionRow =
  rr_RepositoryID :: id
  rr_Policy :: RetentionPolicy
  rr_AppliedAt :: time
  rr_Removed :: int
  rr_RepoSizeBytes :: int
  rr_SnapshotCount :: int

record HealthRow =
  hw_Health :: health
  hw_LastBackupAt :: "time option"
  hw_LastVerifiedAt :: "time option"
  hw_EvaluatedAt :: time

record backup_db =
  bdb_repositories :: "Repository list"
  bdb_runs :: "Run list"
  bdb_snapshots :: "Snapshot list"
  bdb_verifications :: "Verification list"
  bdb_depths :: "(id \<times> VerificationDepth) list"
  bdb_retention :: "RetentionRow list"
  bdb_health :: "HealthRow option"

definition empty_backup_db :: backup_db where
  "empty_backup_db = \<lparr>bdb_repositories = [], bdb_runs = [], bdb_snapshots = [], bdb_verifications = [], bdb_depths = [],
     bdb_retention = [], bdb_health = None\<rparr>"

section \<open>Constraint errors\<close>

definition unique_error :: "string \<Rightarrow> goerror" where
  "unique_error col = errorf (''constraint failed: UNIQUE constraint failed: '' @ col)"

definition fk_error :: goerror where
  "fk_error = errorf ''constraint failed: FOREIGN KEY constraint failed''"

definition mapConflict :: "goerror \<Rightarrow> string \<Rightarrow> goerror" where
  "mapConflict e msg = (if contains_str (err_msg e) ''UNIQUE constraint failed'' then wrapf BErrConflict msg else e)"

definition isSingleActiveViolation :: "goerror \<Rightarrow> bool" where
  "isSingleActiveViolation e \<longleftrightarrow>
     contains_str (err_msg e) ''UNIQUE constraint failed'' \<and> contains_str (err_msg e) ''backup_runs''"

section \<open>Repositories\<close>

definition listRepositories :: "backup_db \<Rightarrow> Repository list" where
  "listRepositories db = sort_key (\<lambda>r. (repo_CreatedAt r, repo_ID r)) (bdb_repositories db)"

definition getRepository :: "backup_db \<Rightarrow> id \<Rightarrow> Repository result" where
  "getRepository db i = (case List.find (\<lambda>r. repo_ID r = i) (bdb_repositories db) of
      None \<Rightarrow> Inl (wrapf BErrNotFound (''repository '' @ quote i)) | Some r \<Rightarrow> Inr r)"

definition insert_repository_row :: "backup_db \<Rightarrow> Repository \<Rightarrow> backup_db result" where
  "insert_repository_row db r =
     (if list_ex (\<lambda>x. repo_ID x = repo_ID r) (bdb_repositories db) then Inl (unique_error ''backup_repositories.id'')
      else if list_ex (\<lambda>x. repo_Location x = repo_Location r) (bdb_repositories db)
        then Inl (unique_error ''backup_repositories.location'')
      else Inr (db\<lparr>bdb_repositories := bdb_repositories db @ [r]\<rparr>))"

definition insertRepository :: "backup_db \<Rightarrow> Repository \<Rightarrow> backup_db result" where
  "insertRepository db r = (case insert_repository_row db r of
      Inl e \<Rightarrow> Inl (mapConflict e ''a repository already exists for this location'') | Inr db1 \<Rightarrow> Inr db1)"

definition repository_columns :: "Repository \<Rightarrow> Repository \<Rightarrow> Repository" where
  "repository_columns r x = x\<lparr>repo_Label := repo_Label r, repo_Location := repo_Location r, repo_SecretRef := repo_SecretRef r,
     repo_Attached := repo_Attached r, repo_UpdatedAt := repo_UpdatedAt r\<rparr>"

definition updateRepository :: "backup_db \<Rightarrow> Repository \<Rightarrow> backup_db result" where
  "updateRepository db r =
     (if list_ex (\<lambda>x. repo_ID x = repo_ID r) (bdb_repositories db) \<and>
         list_ex (\<lambda>x. repo_ID x \<noteq> repo_ID r \<and> repo_Location x = repo_Location r) (bdb_repositories db)
        then Inl (mapConflict (unique_error ''backup_repositories.location'') ''a repository already exists for this location'')
      else Inr (db\<lparr>bdb_repositories := update_where (\<lambda>x. repo_ID x = repo_ID r) (repository_columns r) (bdb_repositories db)\<rparr>))"

text \<open>Runs, snapshots and verifications refer to a repository; its retention state goes with it.\<close>

definition deleteRepository :: "backup_db \<Rightarrow> id \<Rightarrow> backup_db result" where
  "deleteRepository db i =
     (if list_ex (\<lambda>r. run_RepositoryID r = i) (bdb_runs db) \<or> list_ex (\<lambda>s. snap_RepositoryID s = i) (bdb_snapshots db)
         \<or> list_ex (\<lambda>v. ver_RepositoryID v = i) (bdb_verifications db) then Inl fk_error
      else Inr (db\<lparr>bdb_repositories := filter (\<lambda>r. repo_ID r \<noteq> i) (bdb_repositories db),
        bdb_retention := filter (\<lambda>r. rr_RepositoryID r \<noteq> i) (bdb_retention db)\<rparr>))"

abbreviation has_repository :: "backup_db \<Rightarrow> id \<Rightarrow> bool" where
  "has_repository db i \<equiv> list_ex (\<lambda>r. repo_ID r = i) (bdb_repositories db)"

abbreviation has_run :: "backup_db \<Rightarrow> id \<Rightarrow> bool" where
  "has_run db i \<equiv> list_ex (\<lambda>r. run_ID r = i) (bdb_runs db)"

section \<open>Runs\<close>

definition insert_run_row :: "backup_db \<Rightarrow> Run \<Rightarrow> backup_db result" where
  "insert_run_row db r =
     (if has_run db (run_ID r) then Inl (unique_error ''backup_runs.id'')
      else if run_Status r = StatusRunning \<and> list_ex (\<lambda>x. run_Status x = StatusRunning) (bdb_runs db)
        then Inl (unique_error ''backup_runs.status'')
      else if \<not> has_repository db (run_RepositoryID r) then Inl fk_error
      else Inr (db\<lparr>bdb_runs := bdb_runs db @ [r]\<rparr>))"

definition insertRun :: "backup_db \<Rightarrow> Run \<Rightarrow> backup_db result" where
  "insertRun db r = (case insert_run_row db r of
      Inl e \<Rightarrow> Inl (if isSingleActiveViolation e then bare ErrOperationInProgress else e) | Inr db1 \<Rightarrow> Inr db1)"

definition run_columns :: "Run \<Rightarrow> Run \<Rightarrow> Run" where
  "run_columns r x = x\<lparr>run_Status := run_Status r, run_Trigger := run_Trigger r, run_Stage := run_Stage r,
     run_SnapshotID := run_SnapshotID r, run_Stats := run_Stats r, run_Error := run_Error r,
     run_StartedAt := run_StartedAt r, run_FinishedAt := run_FinishedAt r\<rparr>"

definition updateRun :: "backup_db \<Rightarrow> Run \<Rightarrow> backup_db result" where
  "updateRun db r =
     (if has_run db (run_ID r) \<and> run_Status r = StatusRunning \<and>
         list_ex (\<lambda>x. run_ID x \<noteq> run_ID r \<and> run_Status x = StatusRunning) (bdb_runs db)
        then Inl (unique_error ''backup_runs.status'')
      else Inr (db\<lparr>bdb_runs := update_where (\<lambda>x. run_ID x = run_ID r) (run_columns r) (bdb_runs db)\<rparr>))"

definition getRun :: "backup_db \<Rightarrow> id \<Rightarrow> Run result" where
  "getRun db i = (case List.find (\<lambda>r. run_ID r = i) (bdb_runs db) of
      None \<Rightarrow> Inl (wrapf BErrNotFound (''run '' @ quote i)) | Some r \<Rightarrow> Inr r)"

record RunFilter =
  rf_RepositoryID :: id
  rf_Kind :: "run_kind option"
  rf_Status :: "run_status option"
  rf_Limit :: int

definition listing_limit :: "int \<Rightarrow> nat" where
  "listing_limit n = nat (if n \<le> 0 then defaultListingLimit else if n > maxListingLimit then maxListingLimit else n)"

definition listRuns :: "backup_db \<Rightarrow> RunFilter \<Rightarrow> Run list" where
  "listRuns db f = take (listing_limit (rf_Limit f)) (sort_key (\<lambda>r. - run_StartedAt r) (filter (\<lambda>r.
     (rf_RepositoryID f = [] \<or> run_RepositoryID r = rf_RepositoryID f) \<and>
     (rf_Kind f = None \<or> rf_Kind f = Some (run_Kind r)) \<and>
     (rf_Status f = None \<or> rf_Status f = Some (run_Status r))) (bdb_runs db)))"

definition activeRun :: "backup_db \<Rightarrow> Run option" where
  "activeRun db = (case listRuns db \<lparr>rf_RepositoryID = [], rf_Kind = None, rf_Status = Some StatusRunning, rf_Limit = 1\<rparr> of
      [] \<Rightarrow> None | r # _ \<Rightarrow> Some r)"

definition countRunsForRepository :: "backup_db \<Rightarrow> id \<Rightarrow> nat" where
  "countRunsForRepository db i = length (filter (\<lambda>r. run_RepositoryID r = i) (bdb_runs db))"

section \<open>Snapshots\<close>

abbreviation snap_key :: "Snapshot \<Rightarrow> id \<times> id" where "snap_key s \<equiv> (snap_RepositoryID s, snap_ID s)"

text \<open>A snapshot that is stored again keeps its proof.\<close>

definition snapshot_columns :: "Snapshot \<Rightarrow> Snapshot \<Rightarrow> Snapshot" where
  "snapshot_columns s x = x\<lparr>snap_RunID := snap_RunID s, snap_CreatedAt := snap_CreatedAt s, snap_Paths := snap_Paths s,
     snap_SizeBytes := snap_SizeBytes s, snap_FileCount := snap_FileCount s\<rparr>"

definition upsertSnapshot :: "backup_db \<Rightarrow> Snapshot \<Rightarrow> backup_db result" where
  "upsertSnapshot db s =
     (if \<not> has_repository db (snap_RepositoryID s) \<or> \<not> has_run db (snap_RunID s) then Inl fk_error
      else if list_ex (\<lambda>x. snap_key x = snap_key s) (bdb_snapshots db)
        then Inr (db\<lparr>bdb_snapshots := update_where (\<lambda>x. snap_key x = snap_key s) (snapshot_columns s) (bdb_snapshots db)\<rparr>)
      else Inr (db\<lparr>bdb_snapshots := bdb_snapshots db @ [s]\<rparr>))"

definition findSnapshot :: "backup_db \<Rightarrow> id \<Rightarrow> Snapshot result" where
  "findSnapshot db i = (case List.find (\<lambda>s. snap_ID s = i) (bdb_snapshots db) of
      None \<Rightarrow> Inl (wrapf BErrNotFound (''snapshot '' @ quote i)) | Some s \<Rightarrow> Inr s)"

definition latestSnapshot :: "backup_db \<Rightarrow> id \<Rightarrow> Snapshot result" where
  "latestSnapshot db i = (case sort_key (\<lambda>s. - snap_CreatedAt s) (filter (\<lambda>s. snap_RepositoryID s = i) (bdb_snapshots db)) of
      [] \<Rightarrow> Inl (wrapf ErrNoSnapshot (''repository '' @ quote i @ '' has no snapshots'')) | s # _ \<Rightarrow> Inr s)"

definition listSnapshots :: "backup_db \<Rightarrow> id \<Rightarrow> Snapshot list" where
  "listSnapshots db i = take (nat maxListingLimit) (sort_key (\<lambda>s. - snap_CreatedAt s)
     (filter (\<lambda>s. i = [] \<or> snap_RepositoryID s = i) (bdb_snapshots db)))"

definition markSnapshotVerified :: "backup_db \<Rightarrow> id \<Rightarrow> id \<Rightarrow> time \<Rightarrow> backup_db result" where
  "markSnapshotVerified db ri si at =
     (if list_ex (\<lambda>s. snap_key s = (ri, si)) (bdb_snapshots db)
      then Inr (db\<lparr>bdb_snapshots := update_where (\<lambda>s. snap_key s = (ri, si)) (\<lambda>s. s\<lparr>snap_VerifiedAt := Some at\<rparr>) (bdb_snapshots db)\<rparr>)
      else Inl (wrapf BErrNotFound (''snapshot '' @ quote si)))"

definition verified_key :: "Snapshot \<Rightarrow> int" where
  "verified_key s = (case snap_VerifiedAt s of None \<Rightarrow> 0 | Some t \<Rightarrow> - t)"

definition newestVerifiedSnapshot :: "backup_db \<Rightarrow> id \<Rightarrow> string" where
  "newestVerifiedSnapshot db i = (case sort_key verified_key
       (filter (\<lambda>s. snap_RepositoryID s = i \<and> (case snap_VerifiedAt s of None \<Rightarrow> False | Some _ \<Rightarrow> True)) (bdb_snapshots db)) of
      [] \<Rightarrow> [] | s # _ \<Rightarrow> snap_ID s)"

definition deleteSnapshot :: "backup_db \<Rightarrow> id \<Rightarrow> id \<Rightarrow> backup_db" where
  "deleteSnapshot db ri si = db\<lparr>bdb_snapshots := filter (\<lambda>s. snap_key s \<noteq> (ri, si)) (bdb_snapshots db)\<rparr>"

section \<open>Retention state\<close>

definition lastRetentionAt :: "backup_db \<Rightarrow> id \<Rightarrow> time option" where
  "lastRetentionAt db i = map_option rr_AppliedAt (List.find (\<lambda>r. rr_RepositoryID r = i) (bdb_retention db))"

definition saveRetentionRow :: "backup_db \<Rightarrow> RetentionRow \<Rightarrow> backup_db result" where
  "saveRetentionRow db r =
     (if \<not> has_repository db (rr_RepositoryID r) then Inl fk_error
      else if list_ex (\<lambda>x. rr_RepositoryID x = rr_RepositoryID r) (bdb_retention db)
        then Inr (db\<lparr>bdb_retention := update_where (\<lambda>x. rr_RepositoryID x = rr_RepositoryID r) (\<lambda>_. r) (bdb_retention db)\<rparr>)
      else Inr (db\<lparr>bdb_retention := bdb_retention db @ [r]\<rparr>))"

definition getRetentionState :: "backup_db \<Rightarrow> RetentionRow option" where
  "getRetentionState db = (case sort_key (\<lambda>r. - rr_AppliedAt r) (bdb_retention db) of [] \<Rightarrow> None | r # _ \<Rightarrow> Some r)"

section \<open>Verifications\<close>

definition insertVerification :: "backup_db \<Rightarrow> Verification \<Rightarrow> backup_db result" where
  "insertVerification db v =
     (if list_ex (\<lambda>x. ver_ID x = ver_ID v) (bdb_verifications db) then Inl (unique_error ''backup_verifications.id'')
      else if \<not> has_run db (ver_RunID v) \<or> \<not> has_repository db (ver_RepositoryID v) then Inl fk_error
      else Inr (db\<lparr>bdb_verifications := bdb_verifications db @ [v\<lparr>ver_Depth := None\<rparr>]\<rparr>))"

definition verification_columns :: "Verification \<Rightarrow> Verification \<Rightarrow> Verification" where
  "verification_columns v x = x\<lparr>ver_Status := ver_Status v, ver_FilesRestored := ver_FilesRestored v,
     ver_BytesRestored := ver_BytesRestored v, ver_FinishedAt := ver_FinishedAt v, ver_CleanedAt := ver_CleanedAt v,
     ver_Error := ver_Error v, ver_CleanupError := ver_CleanupError v\<rparr>"

definition updateVerification :: "backup_db \<Rightarrow> Verification \<Rightarrow> backup_db" where
  "updateVerification db v =
     db\<lparr>bdb_verifications := update_where (\<lambda>x. ver_ID x = ver_ID v) (verification_columns v) (bdb_verifications db)\<rparr>"

definition getVerificationByRun :: "backup_db \<Rightarrow> id \<Rightarrow> Verification result" where
  "getVerificationByRun db i = (case List.find (\<lambda>v. ver_RunID v = i) (bdb_verifications db) of
      None \<Rightarrow> Inl (wrapf BErrNotFound (''verification for run '' @ quote i)) | Some v \<Rightarrow> Inr v)"

definition listVerificationsByStatus :: "backup_db \<Rightarrow> verification_status \<Rightarrow> Verification list" where
  "listVerificationsByStatus db st = sort_key ver_StartedAt (filter (\<lambda>v. ver_Status v = st) (bdb_verifications db))"

definition listVerifications :: "backup_db \<Rightarrow> int \<Rightarrow> Verification list" where
  "listVerifications db n = take (listing_limit n) (sort_key (\<lambda>v. - ver_StartedAt v) (bdb_verifications db))"

definition saveVerificationDepth :: "backup_db \<Rightarrow> id \<Rightarrow> VerificationDepth \<Rightarrow> backup_db result" where
  "saveVerificationDepth db i d =
     (if list_ex (\<lambda>x. fst x = i) (bdb_depths db) then Inl (unique_error ''verification_depth.verification_id'')
      else if \<not> list_ex (\<lambda>v. ver_ID v = i) (bdb_verifications db) then Inl fk_error
      else Inr (db\<lparr>bdb_depths := bdb_depths db @ [(i, d)]\<rparr>))"

section \<open>Health state and aggregates\<close>

definition getHealthState :: "backup_db \<Rightarrow> health option" where
  "getHealthState db = map_option hw_Health (bdb_health db)"

definition saveHealthState :: "backup_db \<Rightarrow> HealthRow \<Rightarrow> backup_db" where
  "saveHealthState db h = db\<lparr>bdb_health := Some h\<rparr>"

definition newest :: "time list \<Rightarrow> time option" where
  "newest ts = (case ts of [] \<Rightarrow> None | t # r \<Rightarrow> Some (fold max r t))"

definition finished_runs :: "run_kind \<Rightarrow> backup_db \<Rightarrow> time list" where
  "finished_runs k db = List.map_filter (\<lambda>r. if run_Kind r = k \<and> run_Status r = StatusCompleted then run_FinishedAt r else None)
     (bdb_runs db)"

definition lastCompletedBackupAt :: "backup_db \<Rightarrow> time option" where
  "lastCompletedBackupAt db = newest (finished_runs KindBackup db)"

definition lastRestoreTestedAt :: "backup_db \<Rightarrow> time option" where
  "lastRestoreTestedAt db = newest (finished_runs KindRestore db)"

definition lastVerifiedRestoreAt :: "backup_db \<Rightarrow> time option" where
  "lastVerifiedRestoreAt db = newest (List.map_filter (\<lambda>v. if ver_Status v = VerificationPassed then ver_FinishedAt v else None)
     (bdb_verifications db))"

lemma newest_iff: "newest ts = Some t \<longleftrightarrow> t \<in> set ts \<and> (\<forall>u \<in> set ts. u \<le> t)"
proof (cases ts)
  case (Cons a r)
  have "fold max r a = Max (set ts)" unfolding Cons by (rule Max.set_eq_fold [symmetric])
  then have n: "newest ts = Some (Max (set ts))" using Cons by (simp add: newest_def)
  have "Max (set ts) = t \<longleftrightarrow> t \<in> set ts \<and> (\<forall>u \<in> set ts. u \<le> t)"
    using Max_eq_iff [of "set ts" t] Cons by simp
  then show ?thesis using n by simp
qed (simp add: newest_def)

lemma newest_None: "newest ts = None \<longleftrightarrow> ts = []"
  by (cases ts) (auto simp: newest_def)

end
