(* ===== verification/BackupsService.thy ===== *)
theory BackupsService
  imports BackupsDb Events
begin

text \<open>
  internal/backups: the controller's operations on repositories and runs (service.go, attach.go,
  run.go, verify.go, events.go).  The restic runner, the secrets, the event sink, the file
  system, the clock and the random identifiers are a record of functions over an opaque world.
  A run is a sequence of statements around calls of the runner; each operation returns the
  tables as its last statement left them.
\<close>

section \<open>Collaborators\<close>

record BackupRequest =
  br_Paths :: "string list"
  br_Host :: string
  br_Tags :: "string list"
  br_Excludes :: "string list"

record ForgetRequest =
  fr_Policy :: RetentionPolicy
  fr_DryRun :: bool
  fr_Remove :: "string list"
  fr_Prune :: bool

record ForgetResultGroup =
  fg_Tags :: "string list"
  fg_Keep :: int
  fg_Remove :: "string list"

record RepoStats =
  rs_TotalSize :: int
  rs_Snapshots :: int

text \<open>What ValidateStaging reports of a restored tree.\<close>

record StagingReport =
  sg_Files :: int
  sg_Bytes :: int
  sg_SQLiteChecked :: int
  sg_SQLiteOK :: int
  sg_PGChecked :: int
  sg_PGOK :: int

record 'w BackupDeps =
  bd_Init :: "Repository \<Rightarrow> Credentials \<Rightarrow> 'w \<Rightarrow> 'w \<times> goerror option"
  bd_Backup :: "Repository \<Rightarrow> Credentials \<Rightarrow> BackupRequest \<Rightarrow> 'w \<Rightarrow> 'w \<times> Snapshot result"
  bd_Restore :: "Repository \<Rightarrow> Credentials \<Rightarrow> string \<Rightarrow> string \<Rightarrow> 'w \<Rightarrow> 'w \<times> goerror option"
  bd_Snapshots :: "Repository \<Rightarrow> Credentials \<Rightarrow> nat \<Rightarrow> 'w \<Rightarrow> 'w \<times> string list result"
  bd_Check :: "Repository \<Rightarrow> Credentials \<Rightarrow> 'w \<Rightarrow> 'w \<times> goerror option"
  bd_Forget :: "Repository \<Rightarrow> Credentials \<Rightarrow> ForgetRequest \<Rightarrow> 'w \<Rightarrow> 'w \<times> ForgetResultGroup list result"
  bd_Stats :: "Repository \<Rightarrow> Credentials \<Rightarrow> 'w \<Rightarrow> 'w \<times> RepoStats result"
  bd_Resolve :: "SecretRef \<Rightarrow> 'w \<Rightarrow> 'w \<times> Credentials result"
  bd_Events :: "(InboxEvent \<Rightarrow> 'w \<Rightarrow> 'w) option"
  bd_InstanceID :: "('w \<Rightarrow> string) option"
  bd_Now :: "'w \<Rightarrow> time"
  bd_NewID :: "'w \<Rightarrow> 'w \<times> id"
  bd_MkdirAll :: "string \<Rightarrow> 'w \<Rightarrow> 'w \<times> goerror option"
  bd_Mkdir :: "string \<Rightarrow> 'w \<Rightarrow> 'w \<times> goerror option"
  bd_RemoveAll :: "string \<Rightarrow> 'w \<Rightarrow> 'w \<times> goerror option"
  bd_IsDir :: "string \<Rightarrow> 'w \<Rightarrow> bool result"
  bd_ValidateStaging :: "string \<Rightarrow> 'w \<Rightarrow> 'w \<times> StagingReport result"
  bd_FreeBytes :: "string \<Rightarrow> 'w \<Rightarrow> int result"

definition backup_emit :: "'w BackupDeps \<Rightarrow> string \<Rightarrow> string \<Rightarrow> id \<Rightarrow> string \<Rightarrow> data option \<Rightarrow> 'w \<Rightarrow> 'w" where
  "backup_emit dep typ sev rid msg d w = (case bd_Events dep of
      None \<Rightarrow> w
    | Some publish \<Rightarrow> (case bd_NewID dep w of (w1, i) \<Rightarrow>
        publish \<lparr>ie_ID = i, ie_Type = typ, ie_Severity = sev, ie_ResourceID = rid, ie_Message = msg, ie_Data = d,
          ie_ReadAt = None, ie_CreatedAt = bd_Now dep w1\<rparr> w1))"

text \<open>Every installation has its own folder in a shared destination.\<close>

definition scoped_location :: "string \<Rightarrow> string \<Rightarrow> string" where
  "scoped_location i loc =
     (if i = [] \<or> contains_any i [CHR ''/'', char_of (92 :: nat)] \<or> has_suffix loc (CHR ''/'' # i) then loc
      else trim_right (\<lambda>c. c = CHR ''/'') loc @ CHR ''/'' # i)"

definition scopedRepository :: "'w BackupDeps \<Rightarrow> Repository \<Rightarrow> 'w \<Rightarrow> Repository" where
  "scopedRepository dep repo w =
     (if repo_Attached repo then repo
      else case bd_InstanceID dep of
        None \<Rightarrow> repo
      | Some f \<Rightarrow> repo\<lparr>repo_Location := scoped_location (trim_space (f w)) (repo_Location repo)\<rparr>)"

section \<open>Repositories\<close>

record ConfigureRequest =
  cq_ID :: id
  cq_Label :: string
  cq_Location :: string
  cq_SecretRef :: SecretRef

definition check_request :: "(string \<Rightarrow> (string \<times> string \<times> string) option) \<Rightarrow> ConfigureRequest \<Rightarrow> goerror option" where
  "check_request url_parse req = (let loc = trim_space (cq_Location req) in
     if loc = [] then Some (wrapf ErrInvalid ''location is required'')
     else case validateLocation url_parse loc of
       Some e \<Rightarrow> Some e
     | None \<Rightarrow>
         if sr_ID (cq_SecretRef req) = [] then Some (wrapf ErrInvalid ''secret_ref.id is required'')
         else if sr_Version (cq_SecretRef req) < 1 then Some (wrapf ErrInvalid ''secret_ref.version must be at least 1'')
         else None)"

definition init_pending :: "'w BackupDeps \<Rightarrow> Repository \<Rightarrow> string \<Rightarrow> 'w \<Rightarrow> 'w" where
  "init_pending dep repo why w = backup_emit dep ''backup.init_pending'' ''warning'' (repo_ID repo)
     (''backup '' @ quote (repo_Label repo) @ why) (Some [(''repository_id'', JStr (repo_ID repo))]) w"

definition ensureInitialized :: "'w BackupDeps \<Rightarrow> Repository \<Rightarrow> 'w \<Rightarrow> 'w" where
  "ensureInitialized dep repo w =
     (if repo_Attached repo then w
      else case bd_Resolve dep (repo_SecretRef repo) w of
        (w1, Inl e) \<Rightarrow> init_pending dep repo '' configured but initialization is pending: credential resolution failed'' w1
      | (w1, Inr creds) \<Rightarrow> (case bd_Init dep (scopedRepository dep repo w1) creds w1 of
          (w2, None) \<Rightarrow> w2
        | (w2, Some e) \<Rightarrow> if already_initialized e then w2
            else init_pending dep repo ('' configured but initialization is pending: '' @ redact_creds (err_msg e) creds) w2))"

definition Configure ::
  "(string \<Rightarrow> (string \<times> string \<times> string) option) \<Rightarrow> 'w BackupDeps \<Rightarrow> backup_db \<Rightarrow> ConfigureRequest \<Rightarrow> 'w \<Rightarrow>
     'w \<times> backup_db \<times> Repository result" where
  "Configure url_parse dep db req w = (case check_request url_parse req of
      Some e \<Rightarrow> (w, db, Inl e)
    | None \<Rightarrow>
        (let loc = trim_space (cq_Location req); lab = nonEmpty (cq_Label req) ''primary''; now = bd_Now dep w in
         if cq_ID req \<noteq> [] then
           (case getRepository db (cq_ID req) of
              Inl e \<Rightarrow> (w, db, Inl e)
            | Inr existing \<Rightarrow>
                (let changed = (repo_Location existing \<noteq> loc);
                     r = existing\<lparr>repo_Label := lab, repo_Location := loc, repo_SecretRef := cq_SecretRef req, repo_UpdatedAt := now\<rparr> in
                 case (if changed then rejectSandboxedRepoPath loc else None) of
                   Some e \<Rightarrow> (w, db, Inl e)
                 | None \<Rightarrow> (case updateRepository db r of
                     Inl e \<Rightarrow> (w, db, Inl e)
                   | Inr db1 \<Rightarrow> (if changed then ensureInitialized dep r w else w, db1, Inr r))))
         else
           (case rejectSandboxedRepoPath loc of
              Some e \<Rightarrow> (w, db, Inl e)
            | None \<Rightarrow> (case bd_NewID dep w of (w1, i) \<Rightarrow>
                (let r = \<lparr>repo_ID = i, repo_Label = lab, repo_Location = loc, repo_SecretRef = cq_SecretRef req,
                       repo_Attached = False, repo_CreatedAt = now, repo_UpdatedAt = now\<rparr> in
                 case insertRepository db r of
                   Inl e \<Rightarrow> (w1, db, Inl e)
                 | Inr db1 \<Rightarrow> (ensureInitialized dep r w1, db1, Inr r))))))"

text \<open>The row of an attached repository goes again when the source cannot be read.\<close>

definition drop_repository :: "backup_db \<Rightarrow> id \<Rightarrow> backup_db" where
  "drop_repository db i = (case deleteRepository db i of Inl _ \<Rightarrow> db | Inr db1 \<Rightarrow> db1)"

definition attach_probe ::
  "'w BackupDeps \<Rightarrow> backup_db \<Rightarrow> Repository \<Rightarrow> 'w \<Rightarrow> 'w \<times> backup_db \<times> Repository result" where
  "attach_probe dep db repo w = (case bd_Resolve dep (repo_SecretRef repo) w of
      (w1, Inl e) \<Rightarrow> (w1, drop_repository db (repo_ID repo),
        Inl (errorf (''attach '' @ quote (repo_Label repo) @ '': credential resolution failed'')))
    | (w1, Inr creds) \<Rightarrow> (case bd_Snapshots dep repo creds 1 w1 of
        (w2, Inl e) \<Rightarrow> (init_pending dep repo '' attach failed: source unreadable'' w2, drop_repository db (repo_ID repo),
          Inl (errorf (''attach '' @ quote (repo_Label repo) @ '': source repository unreadable: '' @ err_msg e)))
      | (w2, Inr entries) \<Rightarrow>
          if entries = [] then (w2, drop_repository db (repo_ID repo),
            Inl (wrapf ErrInvalid (''attach '' @ quote (repo_Label repo) @ '': source repository has no snapshots'')))
          else (w2, db, Inr repo)))"

definition AttachRepository ::
  "(string \<Rightarrow> (string \<times> string \<times> string) option) \<Rightarrow> 'w BackupDeps \<Rightarrow> backup_db \<Rightarrow> ConfigureRequest \<Rightarrow> 'w \<Rightarrow>
     'w \<times> backup_db \<times> Repository result" where
  "AttachRepository url_parse dep db req w = (case check_request url_parse req of
      Some e \<Rightarrow> (w, db, Inl e)
    | None \<Rightarrow> (case bd_NewID dep w of (w1, i) \<Rightarrow>
        (let repo = \<lparr>repo_ID = i, repo_Label = nonEmpty (cq_Label req) ''attached'', repo_Location = trim_space (cq_Location req),
               repo_SecretRef = cq_SecretRef req, repo_Attached = True, repo_CreatedAt = bd_Now dep w, repo_UpdatedAt = bd_Now dep w\<rparr> in
         case insertRepository db repo of
           Inl e \<Rightarrow> (w1, db, Inl e)
         | Inr db1 \<Rightarrow> attach_probe dep db1 repo w1)))"

definition DeleteRepository :: "backup_db \<Rightarrow> id \<Rightarrow> backup_db \<times> goerror option" where
  "DeleteRepository db i = (case getRepository db i of
      Inl e \<Rightarrow> (db, Some e)
    | Inr _ \<Rightarrow> (let n = countRunsForRepository db i in
        if n > 0 then (db, Some (wrapf BErrConflict (''repository '' @ quote i @ '' has '' @ itoa (int n) @
          '' recorded runs; backup history is retained'')))
        else (case deleteRepository db i of Inl e \<Rightarrow> (db, Some e) | Inr db1 \<Rightarrow> (db1, None))))"

definition resolveRepository :: "backup_db \<Rightarrow> id \<Rightarrow> Repository result" where
  "resolveRepository db i =
     (if i \<noteq> [] then getRepository db i
      else (case listRepositories db of
          [] \<Rightarrow> Inl (bare ErrNoRepository)
        | [r] \<Rightarrow> Inr r
        | _ \<Rightarrow> Inl (wrapf ErrInvalid ''repository_id is required when multiple repositories are configured'')))"

definition PreflightRepository ::
  "'w BackupDeps \<Rightarrow> backup_db \<Rightarrow> id \<Rightarrow> 'w \<Rightarrow> 'w \<times> (Repository \<times> Credentials) result" where
  "PreflightRepository dep db i w = (case resolveRepository db i of
      Inl e \<Rightarrow> (w, Inl e)
    | Inr repo \<Rightarrow> (case bd_Resolve dep (repo_SecretRef repo) w of
        (w1, Inl e) \<Rightarrow> (w1, Inl (wrapctx (''backups: backup repository '' @ quote (repo_Label repo) @ '' credential resolution failed'') e))
      | (w1, Inr creds) \<Rightarrow>
          (let scoped = scopedRepository dep repo w1;
               name = ''backup repository '' @ quote (repo_Label repo) @ '' at '' @ quote (repo_Location scoped) in
           case bd_Snapshots dep scoped creds 1 w1 of
             (w2, Inr _) \<Rightarrow> (w2, Inr (scoped, creds))
           | (w2, Inl e) \<Rightarrow>
               if \<not> isMissingRepository e then (w2, Inl (wrapctx (''backups: '' @ name @ '' unreachable'') e))
               else if repo_Attached repo then (w2, Inl (errorf (''backups: attached '' @ name @ '' is missing (source disappeared or wrong mount); refusing to initialize over it '' @
                 map char_of [226, 128, 148 :: nat] @ '' re-attach the correct source instead of creating an empty repository'')))
               else (case bd_Init dep scoped creds w2 of (w3, ie) \<Rightarrow>
                 (case (case ie of None \<Rightarrow> None | Some x \<Rightarrow> if already_initialized x then None else Some x) of
                    Some x \<Rightarrow> (w3, Inl (errorf (''backups: '' @ name @ '' is not initialized and automatic init failed: '' @
                      redact_creds (err_msg x) creds @ ''; reconfigure the repository or run `restic init` there'')))
                  | None \<Rightarrow> (case bd_Snapshots dep scoped creds 1 w3 of
                      (w4, Inl x) \<Rightarrow> (w4, Inl (wrapctx (''backups: '' @ name @ '' unreachable after init'') x))
                    | (w4, Inr _) \<Rightarrow> (w4, Inr (scoped, creds))))))))"

section \<open>Runs\<close>

definition start_run :: "'w BackupDeps \<Rightarrow> run_kind \<Rightarrow> id \<Rightarrow> string \<Rightarrow> 'w \<Rightarrow> 'w \<times> Run" where
  "start_run dep k ri trigger w = (case bd_NewID dep w of (w1, i) \<Rightarrow>
     (w1, \<lparr>run_ID = i, run_Kind = k, run_RepositoryID = ri, run_Status = StatusRunning, run_Trigger = nonEmpty trigger TriggerManual,
        run_Stage = StageCredentials, run_SnapshotID = [], run_Stats = None, run_Error = [], run_StartedAt = bd_Now dep w1,
        run_FinishedAt = None\<rparr>))"

definition failRun ::
  "'w BackupDeps \<Rightarrow> backup_db \<Rightarrow> Run \<Rightarrow> string \<Rightarrow> goerror \<Rightarrow> string list \<Rightarrow> 'w \<Rightarrow> 'w \<times> backup_db \<times> Run" where
  "failRun dep db run stage e reds w =
     (let r = run\<lparr>run_Status := StatusFailed, run_Stage := stage, run_Error := truncate_text (redact (err_msg e) reds) maxErrorLength,
            run_FinishedAt := Some (bd_Now dep w)\<rparr>;
          (w1, db1) = (case updateRun db r of
              Inl u \<Rightarrow> (backup_emit dep ''backup.failed'' ''error'' (run_ID r) (''additionally, persisting failed run '' @ run_ID r @
                '' did not succeed: '' @ err_msg u) None w, db)
            | Inr d \<Rightarrow> (w, d)) in
      (backup_emit dep ''backup.failed'' ''error'' (run_ID r)
         (kind_text (run_Kind r) @ '' run '' @ run_ID r @ '' failed at stage '' @ quote stage @ '': '' @ run_Error r)
         (Some [(''run_id'', JStr (run_ID r)), (''kind'', JStr (kind_text (run_Kind r))), (''repository_id'', JStr (run_RepositoryID r)),
           (''stage'', JStr stage), (''error'', JStr (run_Error r))]) w1, db1, r))"

abbreviation secrets_of :: "Credentials \<Rightarrow> string list" where
  "secrets_of c \<equiv> [cr_Password c, cr_AccessKey c]"

definition advanceRun ::
  "'w BackupDeps \<Rightarrow> backup_db \<Rightarrow> Run \<Rightarrow> string \<Rightarrow> Credentials \<Rightarrow> 'w \<Rightarrow> 'w \<times> backup_db \<times> Run \<times> goerror option" where
  "advanceRun dep db run stage creds w = (let r = run\<lparr>run_Stage := stage\<rparr> in
     case updateRun db r of
       Inr db1 \<Rightarrow> (w, db1, r, None)
     | Inl e \<Rightarrow> (case failRun dep db r stage e (secrets_of creds) w of (w1, db1, r1) \<Rightarrow> (w1, db1, r1, Some e)))"

record RunRequest =
  rq_RepositoryID :: id
  rq_Trigger :: string
  rq_Scopes :: "string list"
  rq_Paths :: "string list"
  rq_Excludes :: "string list"

definition run_failed :: "run_kind \<Rightarrow> Run \<Rightarrow> goerror \<Rightarrow> goerror" where
  "run_failed k run e = wrapctx (''backups: '' @ (case k of KindBackup \<Rightarrow> ''backup'' | KindVerify \<Rightarrow> ''verification'' | KindRestore \<Rightarrow> ''restore'') @
     '' run '' @ run_ID run @ '' failed'') e"

definition fail_backup ::
  "'w BackupDeps \<Rightarrow> backup_db \<Rightarrow> Run \<Rightarrow> goerror \<Rightarrow> goerror \<Rightarrow> Credentials \<Rightarrow> 'w \<Rightarrow> 'w \<times> backup_db \<times> Run option \<times> goerror option" where
  "fail_backup dep db run stored e creds w = (case failRun dep db run StageSnapshot stored (secrets_of creds) w of
     (w1, db1, r) \<Rightarrow> (w1, db1, Some r, Some (run_failed KindBackup run e)))"

definition finish_backup ::
  "'w BackupDeps \<Rightarrow> backup_db \<Rightarrow> Run \<Rightarrow> id \<Rightarrow> Credentials \<Rightarrow> Snapshot \<Rightarrow> 'w \<Rightarrow> 'w \<times> backup_db \<times> Run option \<times> goerror option" where
  "finish_backup dep db run ri creds snap w =
     (let now = bd_Now dep w;
          rec = \<lparr>snap_ID = snap_ID snap, snap_RepositoryID = ri, snap_RunID = run_ID run, snap_CreatedAt = now, snap_Paths = snap_Paths snap,
            snap_SizeBytes = snap_SizeBytes snap, snap_FileCount = snap_FileCount snap, snap_VerifiedAt = None\<rparr> in
      case upsertSnapshot db rec of
        Inl e \<Rightarrow> fail_backup dep db run e e creds w
      | Inr db1 \<Rightarrow>
          (let r = run\<lparr>run_Status := StatusCompleted, run_Stage := StageCompleted, run_SnapshotID := snap_ID snap,
                 run_Stats := Some (snap_FileCount snap, snap_SizeBytes snap), run_FinishedAt := Some now\<rparr> in
           case updateRun db1 r of
             Inl e \<Rightarrow> (w, db1, Some r, Some (wrapctx (''backups: persist completed backup run '' @ run_ID r) e))
           | Inr db2 \<Rightarrow> (backup_emit dep ''backup.completed'' ''info'' (run_ID r)
               (''backup run '' @ run_ID r @ '' created snapshot '' @ snap_ID snap)
               (Some [(''run_id'', JStr (run_ID r)), (''repository_id'', JStr ri), (''snapshot_id'', JStr (snap_ID snap)),
                 (''files'', JNum (itoa (snap_FileCount snap))), (''bytes'', JNum (itoa (snap_SizeBytes snap)))]) w, db2, Some r, None)))"

definition backup_run ::
  "BackupConfig \<Rightarrow> 'w BackupDeps \<Rightarrow> backup_db \<Rightarrow> RunRequest \<Rightarrow> Repository \<Rightarrow> Credentials \<Rightarrow> Run \<Rightarrow> 'w \<Rightarrow>
     'w \<times> backup_db \<times> Run option \<times> goerror option" where
  "backup_run cfg dep db req repo creds run w = (case advanceRun dep db run StageSnapshot creds w of
      (w3, db2, r, Some e) \<Rightarrow> (w3, db2, Some r, Some (run_failed KindBackup r e))
    | (w3, db2, r, None) \<Rightarrow>
        if rq_Paths req = [] then fail_backup dep db2 r (wrapf ErrInvalid (''backup run '' @ run_ID r @ '': no capture paths'')) (bare ErrInvalid) creds w3
        else if rq_Scopes req = [] then fail_backup dep db2 r (wrapf ErrInvalid (''backup run '' @ run_ID r @ '': no capture scopes'')) (bare ErrInvalid) creds w3
        else (case bd_Backup dep repo creds \<lparr>br_Paths = rq_Paths req, br_Host = bc_Host cfg, br_Tags = snapshotTags (rq_Scopes req),
                br_Excludes = rq_Excludes req\<rparr> w3 of
            (w4, Inl e) \<Rightarrow> fail_backup dep db2 r e e creds w4
          | (w4, Inr snap) \<Rightarrow> finish_backup dep db2 r (repo_ID repo) creds snap w4))"

definition RunBackup ::
  "BackupConfig \<Rightarrow> 'w BackupDeps \<Rightarrow> backup_db \<Rightarrow> RunRequest \<Rightarrow> 'w \<Rightarrow> 'w \<times> backup_db \<times> Run option \<times> goerror option" where
  "RunBackup cfg dep db req w = (case PreflightRepository dep db (rq_RepositoryID req) w of
      (w1, Inl e) \<Rightarrow> (w1, db, None, Some e)
    | (w1, Inr (repo, creds)) \<Rightarrow> (case start_run dep KindBackup (repo_ID repo) (rq_Trigger req) w1 of (w2, run) \<Rightarrow>
        (case insertRun db run of
           Inl e \<Rightarrow> (w2, db, None, Some e)
         | Inr db1 \<Rightarrow> backup_run cfg dep db1 req repo creds run w2)))"

section \<open>Reading\<close>

record RunDetail =
  rd_Run :: Run
  rd_Snapshot :: "Snapshot option"
  rd_Verification :: "Verification option"

definition GetRun :: "backup_db \<Rightarrow> id \<Rightarrow> RunDetail result" where
  "GetRun db i = (case getRun db i of
      Inl e \<Rightarrow> Inl e
    | Inr r \<Rightarrow> Inr \<lparr>rd_Run = r,
        rd_Snapshot = (if run_SnapshotID r = [] then None else case findSnapshot db (run_SnapshotID r) of Inl _ \<Rightarrow> None | Inr s \<Rightarrow> Some s),
        rd_Verification = (case getVerificationByRun db i of Inl _ \<Rightarrow> None | Inr v \<Rightarrow> Some v)\<rparr>)"

end
