(* ===== verification/BackupsVerify.thy ===== *)
theory BackupsVerify
  imports BackupsService
begin

text \<open>
  internal/backups: demonstrating restorability (verify.go), restoring, and closing what a restart
  interrupted (service.go).  A verification restores into a directory of its own below the
  verification root, checks the repository and the restored tree, and only then marks the
  snapshot verified.
\<close>

section \<open>Choosing a snapshot\<close>

record VerifyRequest =
  vq_RepositoryID :: id
  vq_SnapshotID :: id
  vq_Trigger :: string

record RestoreRequest =
  sq_SnapshotID :: id
  sq_TargetDir :: string
  sq_RepositoryID :: id
  sq_Trigger :: string

definition wrong_repository :: "Snapshot \<Rightarrow> id \<Rightarrow> goerror" where
  "wrong_repository s ri = wrapf ErrInvalid (''snapshot '' @ snap_ID s @ '' belongs to repository '' @ snap_RepositoryID s @ '', not '' @ ri)"

definition selectSnapshot :: "backup_db \<Rightarrow> VerifyRequest \<Rightarrow> Snapshot result" where
  "selectSnapshot db req =
     (if vq_SnapshotID req \<noteq> [] then
        (case findSnapshot db (vq_SnapshotID req) of
           Inl e \<Rightarrow> Inl e
         | Inr s \<Rightarrow> if vq_RepositoryID req \<noteq> [] \<and> vq_RepositoryID req \<noteq> snap_RepositoryID s
             then Inl (wrong_repository s (vq_RepositoryID req)) else Inr s)
      else (case resolveRepository db (vq_RepositoryID req) of Inl e \<Rightarrow> Inl e | Inr repo \<Rightarrow> latestSnapshot db (repo_ID repo)))"

section \<open>Cleaning up\<close>

definition inside_root :: "string \<Rightarrow> string \<Rightarrow> bool" where
  "inside_root root target \<longleftrightarrow> path_clean target = path_clean root \<or> has_prefix (path_clean target) (path_clean root @ ''/'')"

definition cleanupVerification ::
  "BackupConfig \<Rightarrow> 'w BackupDeps \<Rightarrow> backup_db \<Rightarrow> Verification \<Rightarrow> 'w \<Rightarrow> 'w \<times> backup_db \<times> Verification" where
  "cleanupVerification cfg dep db ver w =
     (if ver_Target ver = [] then (w, db, ver)
      else if \<not> inside_root (bc_VerifyRoot cfg) (ver_Target ver) then
        (let v = ver\<lparr>ver_CleanupError := ''verification target is outside the verification root; not removed automatically''\<rparr> in
         (w, updateVerification db v, v))
      else (case bd_RemoveAll dep (path_clean (ver_Target ver)) w of
          (w1, Some e) \<Rightarrow> (let v = ver\<lparr>ver_CleanupError := truncate_text (err_msg e) maxErrorLength\<rparr> in (w1, updateVerification db v, v))
        | (w1, None) \<Rightarrow> (let v = ver\<lparr>ver_CleanedAt := Some (bd_Now dep w1)\<rparr> in (w1, updateVerification db v, v))))"

section \<open>Verify\<close>

type_synonym 'w verify_result = "'w \<times> backup_db \<times> Run option \<times> Verification option \<times> goerror option"

definition fail_verify_run ::
  "'w BackupDeps \<Rightarrow> backup_db \<Rightarrow> Run \<Rightarrow> string \<Rightarrow> goerror \<Rightarrow> goerror \<Rightarrow> string list \<Rightarrow> 'w \<Rightarrow> 'w verify_result" where
  "fail_verify_run dep db run stage stored e reds w = (case failRun dep db run stage stored reds w of
     (w1, db1, r) \<Rightarrow> (w1, db1, Some r, None, Some (run_failed KindVerify run e)))"

text \<open>failVer: the verification is closed as failed, its target removed, and its run failed.\<close>

definition fail_ver ::
  "BackupConfig \<Rightarrow> 'w BackupDeps \<Rightarrow> backup_db \<Rightarrow> Run \<Rightarrow> Verification \<Rightarrow> string \<Rightarrow> goerror \<Rightarrow> Credentials \<Rightarrow> 'w \<Rightarrow> 'w verify_result" where
  "fail_ver cfg dep db run ver stage e creds w =
     (let v = ver\<lparr>ver_Status := VerificationFailed, ver_Error := truncate_text (redact_creds (err_msg e) creds) maxErrorLength,
            ver_FinishedAt := Some (bd_Now dep w)\<rparr> in
      case cleanupVerification cfg dep (updateVerification db v) v w of (w1, db1, v1) \<Rightarrow>
      (case failRun dep db1 run stage e (secrets_of creds) w1 of (w2, db2, r) \<Rightarrow>
        (backup_emit dep ''backup.verification_failed'' ''error'' (ver_ID v1)
           (''restore verification of snapshot '' @ ver_SnapshotID v1 @ '' failed: '' @ ver_Error v1)
           (Some [(''verification_id'', JStr (ver_ID v1)), (''run_id'', JStr (run_ID r)), (''snapshot_id'', JStr (ver_SnapshotID v1)),
             (''repository_id'', JStr (ver_RepositoryID v1)), (''error'', JStr (ver_Error v1))]) w2,
         db2, Some r, Some v1, Some (run_failed KindVerify run e))))"

text \<open>The last part of Verify, once the restored tree was found sound.\<close>

definition pass_verification ::
  "BackupConfig \<Rightarrow> 'w BackupDeps \<Rightarrow> backup_db \<Rightarrow> Run \<Rightarrow> Verification \<Rightarrow> StagingReport \<Rightarrow> Credentials \<Rightarrow> 'w \<Rightarrow> 'w verify_result" where
  "pass_verification cfg dep db run ver rep creds w =
     (let depth = \<lparr>dep_ManifestFound = True, dep_SQLiteChecked = sg_SQLiteChecked rep, dep_SQLiteOK = sg_SQLiteOK rep,
            dep_PGChecked = sg_PGChecked rep, dep_PGOK = sg_PGOK rep, dep_CheckedAt = bd_Now dep w\<rparr> in
      case saveVerificationDepth db (ver_ID ver) depth of
        Inl e \<Rightarrow> fail_ver cfg dep db run ver StageVerify e creds w
      | Inr db1 \<Rightarrow>
          (let now = bd_Now dep w;
               v = ver\<lparr>ver_Depth := Some depth, ver_Status := VerificationPassed, ver_FilesRestored := sg_Files rep,
                 ver_BytesRestored := sg_Bytes rep, ver_FinishedAt := Some now\<rparr>;
               db2 = updateVerification db1 v in
           case markSnapshotVerified db2 (ver_RepositoryID v) (ver_SnapshotID v) now of
             Inl e \<Rightarrow> fail_ver cfg dep db2 run v StageVerify e creds w
           | Inr db3 \<Rightarrow> (case cleanupVerification cfg dep db3 v w of (w1, db4, v1) \<Rightarrow>
               (let r = run\<lparr>run_SnapshotID := ver_SnapshotID v, run_Status := StatusCompleted, run_Stage := StageCompleted,
                      run_FinishedAt := Some (bd_Now dep w1)\<rparr> in
                case updateRun db4 r of
                  Inl e \<Rightarrow> (w1, db4, Some r, Some v1, Some (wrapctx (''backups: persist completed verification run '' @ run_ID r) e))
                | Inr db5 \<Rightarrow> (backup_emit dep ''backup.verified'' ''info'' (run_ID r)
                    (''restore verification of snapshot '' @ ver_SnapshotID v1 @ '' passed'')
                    (Some [(''run_id'', JStr (run_ID r)), (''verification_id'', JStr (ver_ID v1)), (''snapshot_id'', JStr (ver_SnapshotID v1)),
                      (''repository_id'', JStr (ver_RepositoryID v1)), (''files_restored'', JNum (itoa (sg_Files rep))),
                      (''bytes_restored'', JNum (itoa (sg_Bytes rep)))]) w1, db5, Some r, Some v1, None)))))"

text \<open>The middle part: restore, check the repository, validate the restored tree.\<close>

definition prove_restorable ::
  "BackupConfig \<Rightarrow> 'w BackupDeps \<Rightarrow> backup_db \<Rightarrow> Repository \<Rightarrow> Run \<Rightarrow> Verification \<Rightarrow> Credentials \<Rightarrow> 'w \<Rightarrow> 'w verify_result" where
  "prove_restorable cfg dep db repo run ver creds w =
     (case bd_Restore dep (scopedRepository dep repo w) creds (ver_SnapshotID ver) (ver_Target ver) w of
        (w1, Some e) \<Rightarrow> fail_ver cfg dep db run ver StageRestore e creds w1
      | (w1, None) \<Rightarrow> (case advanceRun dep db run StageVerify creds w1 of
          (w2, db1, r, Some e) \<Rightarrow> fail_ver cfg dep db1 r ver StageVerify e creds w2
        | (w2, db1, r, None) \<Rightarrow> (case bd_Check dep (scopedRepository dep repo w2) creds w2 of
            (w3, Some e) \<Rightarrow> fail_ver cfg dep db1 r ver StageVerify (wrapctx ''restic check'' e) creds w3
          | (w3, None) \<Rightarrow> (case bd_ValidateStaging dep (ver_Target ver) w3 of
              (w4, Inl e) \<Rightarrow> fail_ver cfg dep db1 r ver StageVerify e creds w4
            | (w4, Inr rep) \<Rightarrow> pass_verification cfg dep db1 r ver rep creds w4))))"

definition secret_error :: "Repository \<Rightarrow> goerror \<Rightarrow> goerror" where
  "secret_error repo e = wrapctx (''resolve credentials for secret '' @ sr_ID (repo_SecretRef repo) @ '' version '' @
     itoa (sr_Version (repo_SecretRef repo))) e"

definition prepare_target ::
  "BackupConfig \<Rightarrow> 'w BackupDeps \<Rightarrow> string \<Rightarrow> 'w \<Rightarrow> 'w \<times> goerror option" where
  "prepare_target cfg dep target w = (case bd_MkdirAll dep (bc_VerifyRoot cfg) w of
      (w1, Some e) \<Rightarrow> (w1, Some e) | (w1, None) \<Rightarrow> bd_Mkdir dep target w1)"

text \<open>A verification run once its row is inserted.\<close>

definition verify_run ::
  "BackupConfig \<Rightarrow> 'w BackupDeps \<Rightarrow> backup_db \<Rightarrow> Repository \<Rightarrow> Snapshot \<Rightarrow> Run \<Rightarrow> 'w \<Rightarrow> 'w verify_result" where
  "verify_run cfg dep db repo snap run w = (case bd_Resolve dep (repo_SecretRef repo) w of
      (w2, Inl e) \<Rightarrow> fail_verify_run dep db run StageCredentials (secret_error repo e) e [] w2
    | (w2, Inr creds) \<Rightarrow> (case advanceRun dep db run StageRestore creds w2 of
        (w3, db2, r, Some e) \<Rightarrow> (w3, db2, Some r, None, Some (run_failed KindVerify r e))
      | (w3, db2, r, None) \<Rightarrow> (let target = path_join (bc_VerifyRoot cfg) (run_ID r) in
          case prepare_target cfg dep target w3 of
            (w4, Some e) \<Rightarrow> fail_verify_run dep db2 r StagePrepare e e (secrets_of creds) w4
          | (w4, None) \<Rightarrow> (case bd_NewID dep w4 of (w5, vi) \<Rightarrow>
              (let ver = \<lparr>ver_ID = vi, ver_RunID = run_ID r, ver_RepositoryID = repo_ID repo, ver_SnapshotID = snap_ID snap,
                     ver_Status = VerificationRunning, ver_Target = target, ver_FilesRestored = 0, ver_BytesRestored = 0,
                     ver_StartedAt = bd_Now dep w5, ver_FinishedAt = None, ver_CleanedAt = None, ver_Error = [],
                     ver_CleanupError = [], ver_Depth = None\<rparr> in
               case insertVerification db2 ver of
                 Inl e \<Rightarrow> fail_verify_run dep db2 r StagePrepare e e (secrets_of creds) w5
               | Inr db3 \<Rightarrow> prove_restorable cfg dep db3 repo r ver creds w5)))))"

definition Verify :: "BackupConfig \<Rightarrow> 'w BackupDeps \<Rightarrow> backup_db \<Rightarrow> VerifyRequest \<Rightarrow> 'w \<Rightarrow> 'w verify_result" where
  "Verify cfg dep db req w = (case selectSnapshot db req of
      Inl e \<Rightarrow> (w, db, None, None, Some e)
    | Inr snap \<Rightarrow> (case getRepository db (snap_RepositoryID snap) of
        Inl e \<Rightarrow> (w, db, None, None, Some e)
      | Inr repo \<Rightarrow> (case start_run dep KindVerify (repo_ID repo) (vq_Trigger req) w of (w1, run) \<Rightarrow>
          (case insertRun db run of
             Inl e \<Rightarrow> (w1, db, None, None, Some e)
           | Inr db1 \<Rightarrow> verify_run cfg dep db1 repo snap run w1))))"

section \<open>Restore\<close>

definition fail_restore ::
  "'w BackupDeps \<Rightarrow> backup_db \<Rightarrow> Run \<Rightarrow> string \<Rightarrow> goerror \<Rightarrow> goerror \<Rightarrow> string list \<Rightarrow> 'w \<Rightarrow> 'w \<times> backup_db \<times> Run option \<times> goerror option" where
  "fail_restore dep db run stage stored e reds w = (case failRun dep db run stage stored reds w of
     (w1, db1, r) \<Rightarrow> (w1, db1, Some r, Some (run_failed KindRestore run e)))"

definition restore_check :: "'w BackupDeps \<Rightarrow> backup_db \<Rightarrow> RestoreRequest \<Rightarrow> 'w \<Rightarrow> (Snapshot \<times> Repository \<times> string) result" where
  "restore_check dep db req w = (let target = path_clean (sq_TargetDir req) in
     if sq_SnapshotID req = [] then Inl (wrapf ErrInvalid ''snapshot_id is required'')
     else if \<not> is_abs target \<or> target = ''/''
       then Inl (wrapf ErrInvalid (''target_dir must be an absolute directory path other than '' @ quote ''/''))
     else (case findSnapshot db (sq_SnapshotID req) of
         Inl e \<Rightarrow> Inl e
       | Inr snap \<Rightarrow>
           if sq_RepositoryID req \<noteq> [] \<and> sq_RepositoryID req \<noteq> snap_RepositoryID snap then Inl (wrong_repository snap (sq_RepositoryID req))
           else (case getRepository db (snap_RepositoryID snap) of
               Inl e \<Rightarrow> Inl e
             | Inr repo \<Rightarrow> (case bd_IsDir dep target w of
                 Inl e \<Rightarrow> Inl (wrapf ErrInvalid (''target_dir '' @ target @ '': '' @ err_msg e))
               | Inr False \<Rightarrow> Inl (wrapf ErrInvalid (''target_dir '' @ target @ '' is not a directory''))
               | Inr True \<Rightarrow> Inr (snap, repo, target)))))"

definition finish_restore ::
  "'w BackupDeps \<Rightarrow> backup_db \<Rightarrow> Run \<Rightarrow> Snapshot \<Rightarrow> Repository \<Rightarrow> string \<Rightarrow> Credentials \<Rightarrow> 'w \<Rightarrow> 'w \<times> backup_db \<times> Run option \<times> goerror option" where
  "finish_restore dep db run snap repo target creds w = (let now = bd_Now dep w in
     case markSnapshotVerified db (repo_ID repo) (snap_ID snap) now of
       Inl e \<Rightarrow> fail_restore dep db run StageVerify e e (secrets_of creds) w
     | Inr db1 \<Rightarrow>
         (let r = run\<lparr>run_Status := StatusCompleted, run_Stage := StageCompleted, run_SnapshotID := snap_ID snap, run_FinishedAt := Some now\<rparr> in
          case updateRun db1 r of
            Inl e \<Rightarrow> (w, db1, Some r, Some (wrapctx (''backups: persist completed restore run '' @ run_ID r) e))
          | Inr db2 \<Rightarrow> (backup_emit dep ''backup.restored'' ''info'' (run_ID r)
              (''snapshot '' @ snap_ID snap @ '' restored to '' @ target)
              (Some [(''run_id'', JStr (run_ID r)), (''snapshot_id'', JStr (snap_ID snap)), (''repository_id'', JStr (repo_ID repo)),
                (''target'', JStr target)]) w, db2, Some r, None)))"

definition restore_run ::
  "'w BackupDeps \<Rightarrow> backup_db \<Rightarrow> Run \<Rightarrow> Snapshot \<Rightarrow> Repository \<Rightarrow> string \<Rightarrow> 'w \<Rightarrow> 'w \<times> backup_db \<times> Run option \<times> goerror option" where
  "restore_run dep db run snap repo target w = (case bd_Resolve dep (repo_SecretRef repo) w of
      (w2, Inl e) \<Rightarrow> fail_restore dep db run StageCredentials (secret_error repo e) e [] w2
    | (w2, Inr creds) \<Rightarrow> (case advanceRun dep db run StageRestore creds w2 of
        (w3, db2, r, Some e) \<Rightarrow> (w3, db2, Some r, Some (run_failed KindRestore r e))
      | (w3, db2, r, None) \<Rightarrow> (case bd_Restore dep (scopedRepository dep repo w3) creds (snap_ID snap) target w3 of
          (w4, Some e) \<Rightarrow> fail_restore dep db2 r StageRestore e e (secrets_of creds) w4
        | (w4, None) \<Rightarrow> finish_restore dep db2 r snap repo target creds w4)))"

definition Restore ::
  "'w BackupDeps \<Rightarrow> backup_db \<Rightarrow> RestoreRequest \<Rightarrow> 'w \<Rightarrow> 'w \<times> backup_db \<times> Run option \<times> goerror option" where
  "Restore dep db req w = (case restore_check dep db req w of
      Inl e \<Rightarrow> (w, db, None, Some e)
    | Inr (snap, repo, target) \<Rightarrow> (case start_run dep KindRestore (repo_ID repo) (sq_Trigger req) w of (w1, run) \<Rightarrow>
        (case insertRun db run of
           Inl e \<Rightarrow> (w1, db, None, Some e)
         | Inr db1 \<Rightarrow> restore_run dep db1 run snap repo target w1)))"

section \<open>After a restart\<close>

definition interrupted :: goerror where "interrupted = errorf ''operation interrupted before completion''"

fun close_runs :: "'w BackupDeps \<Rightarrow> backup_db \<Rightarrow> Run list \<Rightarrow> 'w \<Rightarrow> 'w \<times> backup_db" where
  "close_runs dep db [] w = (w, db)"
| "close_runs dep db (r # rs) w =
     (case failRun dep db r (if run_Stage r = [] then StagePrepare else run_Stage r) interrupted [] w of
        (w1, db1, _) \<Rightarrow> close_runs dep db1 rs w1)"

fun close_verifications :: "BackupConfig \<Rightarrow> 'w BackupDeps \<Rightarrow> backup_db \<Rightarrow> Verification list \<Rightarrow> 'w \<Rightarrow> 'w \<times> backup_db" where
  "close_verifications cfg dep db [] w = (w, db)"
| "close_verifications cfg dep db (v # vs) w =
     (let v1 = v\<lparr>ver_Status := VerificationFailed, ver_Error := err_msg interrupted, ver_FinishedAt := Some (bd_Now dep w)\<rparr> in
      case cleanupVerification cfg dep (updateVerification db v1) v1 w of (w1, db1, _) \<Rightarrow> close_verifications cfg dep db1 vs w1)"

definition ReconcileInterrupted :: "BackupConfig \<Rightarrow> 'w BackupDeps \<Rightarrow> backup_db \<Rightarrow> 'w \<Rightarrow> 'w \<times> backup_db \<times> nat" where
  "ReconcileInterrupted cfg dep db w =
     (let runs = listRuns db \<lparr>rf_RepositoryID = [], rf_Kind = None, rf_Status = Some StatusRunning, rf_Limit = maxListingLimit\<rparr> in
      case close_runs dep db runs w of (w1, db1) \<Rightarrow>
      (case close_verifications cfg dep db1 (listVerificationsByStatus db1 VerificationRunning) w1 of (w2, db2) \<Rightarrow>
        (w2, db2, length runs)))"

end
