(* ===== verification/BackupsHealth.thy ===== *)
theory BackupsHealth
  imports BackupsService
begin

text \<open>
  internal/backups: retention (retention.go) and the health of the backups (status.go).  A
  retention pass asks restic for a plan, takes the most recently verified snapshot out of it and
  forgets the rest by identifier.
\<close>

section \<open>Texts\<close>

text \<open>time.Duration.String and the verb .1f of a number of bytes in GiB.\<close>

definition fraction :: "nat \<Rightarrow> int \<Rightarrow> string" where
  "fraction n v = (if v = 0 then [] else CHR ''.'' # trim_right (\<lambda>c. c = CHR ''0'') (pad n v))"

definition duration_text :: "int \<Rightarrow> string" where
  "duration_text d0 = (let d = \<bar>d0\<bar>; s = d div 1000000000; h = s div 3600; m = s div 60 mod 60;
       secs = itoa (s mod 60) @ fraction 9 (d mod 1000000000) @ ''s'';
       t = (if d = 0 then ''0s''
            else if d < 1000 then itoa d @ ''ns''
            else if d < 1000000 then itoa (d div 1000) @ fraction 3 (d mod 1000) @ [char_of (194 :: nat), char_of (181 :: nat)] @ ''s''
            else if d < 1000000000 then itoa (d div 1000000) @ fraction 6 (d mod 1000000) @ ''ms''
            else if h > 0 then itoa h @ ''h'' @ itoa m @ ''m'' @ secs
            else if m > 0 then itoa m @ ''m'' @ secs else secs) in
     if d0 < 0 then CHR ''-'' # t else t)"

definition gib_text :: "int \<Rightarrow> string" where
  "gib_text free = (let n = free * 10; q = n div 1073741824; r = n mod 1073741824;
       t = (if r > 536870912 \<or> (r = 536870912 \<and> q mod 2 = 1) then q + 1 else q) in
     itoa (t div 10) @ ''.'' @ itoa (t mod 10))"

section \<open>Retention\<close>

record RetentionGroup =
  rg_Tags :: "string list"
  rg_Keep :: int
  rg_Remove :: nat

record RetentionResult =
  rt_RepositoryID :: id
  rt_Policy :: RetentionPolicy
  rt_Removed :: nat
  rt_Groups :: "RetentionGroup list"
  rt_Protected :: "string list"
  rt_RepoSizeBytes :: int
  rt_RepoSnapshotCount :: int
  rt_Skipped :: string

definition protectVerified :: "backup_db \<Rightarrow> ForgetResultGroup list \<Rightarrow> id \<Rightarrow> string list" where
  "protectVerified db plan ri = (let verified = newestVerifiedSnapshot db ri in
     if verified \<noteq> [] \<and> list_ex (\<lambda>g. List.member (fg_Remove g) verified) plan then [verified] else [])"

definition group_removals :: "string list \<Rightarrow> ForgetResultGroup \<Rightarrow> string list" where
  "group_removals protected g = filter (\<lambda>i. \<not> List.member protected i) (fg_Remove g)"

definition removals :: "string list \<Rightarrow> ForgetResultGroup list \<Rightarrow> string list" where
  "removals protected plan = concat (map (group_removals protected) plan)"

definition retention_groups :: "string list \<Rightarrow> ForgetResultGroup list \<Rightarrow> RetentionGroup list" where
  "retention_groups protected plan = map (\<lambda>g. \<lparr>rg_Tags = fg_Tags g, rg_Keep = fg_Keep g,
     rg_Remove = length (group_removals protected g)\<rparr>) plan"

definition emitRetentionFailure :: "'w BackupDeps \<Rightarrow> Repository \<Rightarrow> goerror \<Rightarrow> Credentials \<Rightarrow> 'w \<Rightarrow> 'w" where
  "emitRetentionFailure dep repo e creds w = (let msg = truncate_text (redact_creds (err_msg e) creds) maxErrorLength in
     backup_emit dep ''backup.retention_failed'' ''warning'' (repo_ID repo)
       (''retention for repository '' @ quote (repo_Label repo) @ '' failed: '' @ msg)
       (Some [(''repository_id'', JStr (repo_ID repo)), (''error'', JStr msg)]) w)"

definition checkLocalRepoFreeSpace :: "'w BackupDeps \<Rightarrow> Repository \<Rightarrow> 'w \<Rightarrow> 'w" where
  "checkLocalRepoFreeSpace dep repo w = (let path = localRepoPath (repo_Location (scopedRepository dep repo w)) in
     if path = [] then w
     else case bd_FreeBytes dep path w of
       Inl _ \<Rightarrow> w
     | Inr free \<Rightarrow>
         if free \<ge> localRepoFreeBytesWarn then w
         else backup_emit dep ''backup.repo_space_low'' ''warning'' (repo_ID repo)
           (''local backup repository filesystem has only '' @ gib_text free @ '' GiB free ('' @ path @ '')'')
           (Some [(''repository_id'', JStr (repo_ID repo)), (''path'', JStr path), (''free_bytes'', JNum (itoa free))]) w)"

definition saveRetentionState :: "'w BackupDeps \<Rightarrow> backup_db \<Rightarrow> RetentionResult \<Rightarrow> 'w \<Rightarrow> 'w \<times> backup_db" where
  "saveRetentionState dep db res w =
     (case saveRetentionRow db \<lparr>rr_RepositoryID = rt_RepositoryID res, rr_Policy = rt_Policy res, rr_AppliedAt = bd_Now dep w,
         rr_Removed = int (rt_Removed res), rr_RepoSizeBytes = rt_RepoSizeBytes res, rr_SnapshotCount = rt_RepoSnapshotCount res\<rparr> of
        Inr db1 \<Rightarrow> (w, db1)
      | Inl e \<Rightarrow> (backup_emit dep ''backup.retention_failed'' ''warning'' (rt_RepositoryID res)
          (''persist retention state for repository '' @ rt_RepositoryID res @ '': '' @ err_msg e) None w, db))"

definition delete_snapshots :: "backup_db \<Rightarrow> id \<Rightarrow> string list \<Rightarrow> backup_db" where
  "delete_snapshots db ri ids = fold (\<lambda>i d. deleteSnapshot d ri i) ids db"

text \<open>What a pass does once restic has forgotten the snapshots.\<close>

definition record_retention ::
  "'w BackupDeps \<Rightarrow> backup_db \<Rightarrow> Repository \<Rightarrow> Repository \<Rightarrow> Credentials \<Rightarrow> RetentionResult \<Rightarrow> string list \<Rightarrow> 'w \<Rightarrow>
     'w \<times> backup_db \<times> RetentionResult option \<times> goerror option" where
  "record_retention dep db repo scoped creds res0 ids w =
     (let db1 = delete_snapshots db (repo_ID repo) ids; res1 = res0\<lparr>rt_Removed := length ids\<rparr> in
      case bd_Stats dep scoped creds w of (w1, st) \<Rightarrow>
        (let res = (case st of Inl _ \<Rightarrow> res1
               | Inr s \<Rightarrow> res1\<lparr>rt_RepoSizeBytes := rs_TotalSize s, rt_RepoSnapshotCount := rs_Snapshots s\<rparr>) in
         case saveRetentionState dep db1 res w1 of (w2, db2) \<Rightarrow>
           (backup_emit dep ''backup.retention_applied'' ''info'' (repo_ID repo)
              (''retention removed '' @ itoa (int (rt_Removed res)) @ '' snapshots ('' @ itoa (int (length (rt_Protected res))) @
                '' protected as newest verified)'')
              (Some [(''repository_id'', JStr (repo_ID repo)), (''removed'', JNum (itoa (int (rt_Removed res)))),
                (''protected'', if rt_Protected res = [] then JNull else JArr (map JStr (rt_Protected res))),
                (''repo_size_bytes'', JNum (itoa (rt_RepoSizeBytes res)))])
              (checkLocalRepoFreeSpace dep repo w2), db2, Some res, None)))"

definition apply_plan ::
  "'w BackupDeps \<Rightarrow> backup_db \<Rightarrow> Repository \<Rightarrow> Repository \<Rightarrow> Credentials \<Rightarrow> RetentionResult \<Rightarrow> ForgetResultGroup list \<Rightarrow> 'w \<Rightarrow>
     'w \<times> backup_db \<times> RetentionResult option \<times> goerror option" where
  "apply_plan dep db repo scoped creds res0 plan w =
     (let protected = protectVerified db plan (repo_ID repo); ids = removals protected plan;
          res = res0\<lparr>rt_Protected := protected, rt_Groups := retention_groups protected plan\<rparr> in
      if ids = [] then record_retention dep db repo scoped creds res ids w
      else (case bd_Forget dep scoped creds \<lparr>fr_Policy = rt_Policy res, fr_DryRun = False, fr_Remove = ids, fr_Prune = True\<rparr> w of
          (w1, Inl e) \<Rightarrow> (emitRetentionFailure dep repo (wrapctx ''apply retention'' e) creds w1, db, Some res,
            Some (wrapctx (''backups: apply retention for repository '' @ repo_ID repo) e))
        | (w1, Inr _) \<Rightarrow> record_retention dep db repo scoped creds res ids w1))"

definition ApplyRetention ::
  "BackupConfig \<Rightarrow> 'w BackupDeps \<Rightarrow> backup_db \<Rightarrow> id \<Rightarrow> bool \<Rightarrow> 'w \<Rightarrow> 'w \<times> backup_db \<times> RetentionResult option \<times> goerror option" where
  "ApplyRetention cfg dep db i force w = (case PreflightRepository dep db i w of
      (w1, Inl e) \<Rightarrow> (w1, db, None, Some e)
    | (w1, Inr (repo, creds)) \<Rightarrow>
        (let scoped = scopedRepository dep repo w1; policy = RetentionPolicy_withDefaults (bc_Retention cfg);
             res = \<lparr>rt_RepositoryID = repo_ID repo, rt_Policy = policy, rt_Removed = 0, rt_Groups = [], rt_Protected = [],
               rt_RepoSizeBytes = 0, rt_RepoSnapshotCount = 0, rt_Skipped = []\<rparr> in
         if \<not> force \<and> (case lastRetentionAt db (repo_ID repo) of None \<Rightarrow> False | Some applied \<Rightarrow> bd_Now dep w1 - applied < retentionMinInterval)
         then (w1, db, Some (res\<lparr>rt_Skipped := ''last retention ran less than a week ago''\<rparr>), None)
         else (case bd_Forget dep scoped creds \<lparr>fr_Policy = policy, fr_DryRun = True, fr_Remove = [], fr_Prune = False\<rparr> w1 of
             (w2, Inl e) \<Rightarrow> (emitRetentionFailure dep repo (wrapctx ''plan retention'' e) creds w2, db, Some res,
               Some (wrapctx (''backups: plan retention for repository '' @ repo_ID repo) e))
           | (w2, Inr plan) \<Rightarrow> apply_plan dep db repo scoped creds res plan w2)))"

definition MaybeApplyRetention :: "BackupConfig \<Rightarrow> 'w BackupDeps \<Rightarrow> backup_db \<Rightarrow> id \<Rightarrow> 'w \<Rightarrow> 'w \<times> backup_db" where
  "MaybeApplyRetention cfg dep db i w = (case ApplyRetention cfg dep db i False w of (w1, db1, _) \<Rightarrow> (w1, db1))"

record RetentionStatus =
  rx_Policy :: RetentionPolicy
  rx_LastAppliedAt :: "time option"
  rx_LastRemoved :: int
  rx_LastRepoSize :: int
  rx_LastSnapshotCount :: int

definition Retention :: "BackupConfig \<Rightarrow> backup_db \<Rightarrow> RetentionStatus" where
  "Retention cfg db = (let policy = RetentionPolicy_withDefaults (bc_Retention cfg) in
     case getRetentionState db of
       None \<Rightarrow> \<lparr>rx_Policy = policy, rx_LastAppliedAt = None, rx_LastRemoved = 0, rx_LastRepoSize = 0, rx_LastSnapshotCount = 0\<rparr>
     | Some st \<Rightarrow> \<lparr>rx_Policy = policy, rx_LastAppliedAt = Some (rr_AppliedAt st), rx_LastRemoved = rr_Removed st,
         rx_LastRepoSize = rr_RepoSizeBytes st, rx_LastSnapshotCount = rr_SnapshotCount st\<rparr>)"

section \<open>Health\<close>

record StatusReport =
  sp_Health :: health
  sp_Reason :: string
  sp_LastBackupAt :: "time option"
  sp_LastVerifiedAt :: "time option"
  sp_LastRestoreTestedAt :: "time option"
  sp_RPOLimit :: int
  sp_RPOExceeded :: bool
  sp_RTOLimit :: int
  sp_VerifyInterval :: int
  sp_VerificationOverdue :: bool
  sp_ActiveRun :: "Run option"
  sp_Retention :: RetentionStatus
  sp_Repositories :: "Repository list"

text \<open>The rules: the health, the reason, whether the recovery point objective is exceeded, and
  whether a verification is overdue.\<close>

definition health_rules :: "BackupConfig \<Rightarrow> time \<Rightarrow> time option \<Rightarrow> time option \<Rightarrow> health \<times> string \<times> bool \<times> bool" where
  "health_rules cfg now lastBackup lastVerified = (case lastBackup of
      None \<Rightarrow> (HealthUnhealthy, ''no completed backup'', True, False)
    | Some b \<Rightarrow>
        if now - b > bc_RPO cfg
        then (HealthUnhealthy, ''last backup is older than the '' @ duration_text (bc_RPO cfg) @ '' recovery point objective'', True, False)
        else (case lastVerified of
            None \<Rightarrow> (HealthDegraded, ''no successful verified restore'', False, False)
          | Some v \<Rightarrow>
              if now - v > bc_VerifyInterval cfg
              then (HealthDegraded, ''last verified restore is older than the '' @ duration_text (bc_VerifyInterval cfg) @
                '' verification interval'', False, True)
              else (HealthHealthy, ''recent backup with a verified restore'', False, False)))"

definition health_report :: "BackupConfig \<Rightarrow> backup_db \<Rightarrow> time \<Rightarrow> StatusReport" where
  "health_report cfg db now = (case health_rules cfg now (lastCompletedBackupAt db) (lastVerifiedRestoreAt db) of (h, why, exceeded, overdue) \<Rightarrow>
     \<lparr>sp_Health = h, sp_Reason = why, sp_LastBackupAt = lastCompletedBackupAt db, sp_LastVerifiedAt = lastVerifiedRestoreAt db,
       sp_LastRestoreTestedAt = lastRestoreTestedAt db, sp_RPOLimit = bc_RPO cfg, sp_RPOExceeded = exceeded, sp_RTOLimit = bc_RTO cfg,
       sp_VerifyInterval = bc_VerifyInterval cfg, sp_VerificationOverdue = overdue, sp_ActiveRun = activeRun db,
       sp_Retention = Retention cfg db, sp_Repositories = listRepositories db\<rparr>)"

text \<open>The timestamp layout of the package has nine digits of fraction.\<close>

definition backup_time :: "time \<Rightarrow> string" where
  "backup_time t = take 19 (FormatTime t) @ ''.'' @ pad 9 (t mod 1000000000) @ ''Z''"

definition formatOptionalTime :: "time option \<Rightarrow> string" where
  "formatOptionalTime t = (case t of None \<Rightarrow> [] | Some x \<Rightarrow> backup_time x)"

definition announces :: "health option \<Rightarrow> health \<Rightarrow> bool" where
  "announces previous h \<longleftrightarrow> (let p = (case previous of None \<Rightarrow> HealthUnknown | Some x \<Rightarrow> x) in
     (previous = None \<or> p \<noteq> h) \<and> \<not> (p = HealthUnknown \<and> h = HealthHealthy))"

definition health_changed :: "'w BackupDeps \<Rightarrow> health \<Rightarrow> StatusReport \<Rightarrow> 'w \<Rightarrow> 'w" where
  "health_changed dep p rep w = backup_emit dep ''backup.health_changed'' (severityForHealth (sp_Health rep)) []
     (''backup health changed from '' @ p @ '' to '' @ sp_Health rep @ '': '' @ sp_Reason rep)
     (Some [(''from'', JStr p), (''to'', JStr (sp_Health rep)), (''reason'', JStr (sp_Reason rep)),
       (''last_backup_at'', JStr (formatOptionalTime (sp_LastBackupAt rep))),
       (''last_verified_at'', JStr (formatOptionalTime (sp_LastVerifiedAt rep))),
       (''rpo_exceeded'', JBool (sp_RPOExceeded rep)), (''verification_overdue'', JBool (sp_VerificationOverdue rep))]) w"

definition evaluateHealth :: "BackupConfig \<Rightarrow> 'w BackupDeps \<Rightarrow> backup_db \<Rightarrow> bool \<Rightarrow> 'w \<Rightarrow> 'w \<times> backup_db \<times> StatusReport" where
  "evaluateHealth cfg dep db persist w = (let rep = health_report cfg db (bd_Now dep w) in
     if \<not> persist then (w, db, rep)
     else (let previous = getHealthState db;
               db1 = saveHealthState db \<lparr>hw_Health = sp_Health rep, hw_LastBackupAt = sp_LastBackupAt rep,
                 hw_LastVerifiedAt = sp_LastVerifiedAt rep, hw_EvaluatedAt = bd_Now dep w\<rparr> in
           (if announces previous (sp_Health rep)
            then health_changed dep (case previous of None \<Rightarrow> HealthUnknown | Some x \<Rightarrow> x) rep w else w, db1, rep)))"

definition Backup_Status :: "BackupConfig \<Rightarrow> 'w BackupDeps \<Rightarrow> backup_db \<Rightarrow> 'w \<Rightarrow> StatusReport" where
  "Backup_Status cfg dep db w = (case evaluateHealth cfg dep db False w of (_, _, rep) \<Rightarrow> rep)"

definition EvaluateHealth :: "BackupConfig \<Rightarrow> 'w BackupDeps \<Rightarrow> backup_db \<Rightarrow> 'w \<Rightarrow> 'w \<times> backup_db \<times> StatusReport" where
  "EvaluateHealth cfg dep db w = evaluateHealth cfg dep db True w"

end
