(* ===== verification/BackupsStates.thy ===== *)
theory BackupsStates
  imports BackupsVerify BackupsHealth Tables
begin

text \<open>
  internal/backups: the statements that change the tables as a step relation, in which any
  interleaving of operations is a sequence; what the schema (migrate.go) promises of every
  reachable state; and that the operations are sequences of statements.
\<close>

section \<open>Statement steps\<close>

inductive backup_step :: "backup_db \<Rightarrow> backup_db \<Rightarrow> bool" where
  bs_insert_repository: "insertRepository db r = Inr db' \<Longrightarrow> backup_step db db'"
| bs_update_repository: "updateRepository db r = Inr db' \<Longrightarrow> backup_step db db'"
| bs_delete_repository: "deleteRepository db i = Inr db' \<Longrightarrow> backup_step db db'"
| bs_insert_run: "insertRun db x = Inr db' \<Longrightarrow> backup_step db db'"
| bs_update_run: "updateRun db x = Inr db' \<Longrightarrow> backup_step db db'"
| bs_upsert_snapshot: "upsertSnapshot db s = Inr db' \<Longrightarrow> backup_step db db'"
| bs_mark_snapshot: "markSnapshotVerified db i j at = Inr db' \<Longrightarrow> backup_step db db'"
| bs_delete_snapshot: "backup_step db (deleteSnapshot db i j)"
| bs_save_retention: "saveRetentionRow db q = Inr db' \<Longrightarrow> backup_step db db'"
| bs_insert_verification: "insertVerification db v = Inr db' \<Longrightarrow> backup_step db db'"
| bs_update_verification: "backup_step db (updateVerification db v)"
| bs_save_depth: "saveVerificationDepth db i d = Inr db' \<Longrightarrow> backup_step db db'"
| bs_save_health: "backup_step db (saveHealthState db h)"

section \<open>Well-formed tables\<close>

definition one_running :: "Run list \<Rightarrow> bool" where
  "one_running rs \<longleftrightarrow> (\<forall>r \<in> set rs. \<forall>s \<in> set rs. run_Status r = StatusRunning \<and> run_Status s = StatusRunning \<longrightarrow> run_ID r = run_ID s)"

abbreviation repo_ids :: "backup_db \<Rightarrow> id set" where "repo_ids db \<equiv> repo_ID ` set (bdb_repositories db)"
abbreviation run_ids :: "backup_db \<Rightarrow> id set" where "run_ids db \<equiv> run_ID ` set (bdb_runs db)"

definition repositories_ok :: "Repository list \<Rightarrow> bool" where
  "repositories_ok rs \<longleftrightarrow> distinct (map repo_ID rs) \<and> distinct (map repo_Location rs)"

definition runs_ok :: "id set \<Rightarrow> Run list \<Rightarrow> bool" where
  "runs_ok R rs \<longleftrightarrow> distinct (map run_ID rs) \<and> one_running rs \<and> run_RepositoryID ` set rs \<subseteq> R"

definition snapshots_ok :: "id set \<Rightarrow> id set \<Rightarrow> Snapshot list \<Rightarrow> bool" where
  "snapshots_ok R U ss \<longleftrightarrow> distinct (map snap_key ss) \<and> snap_RepositoryID ` set ss \<subseteq> R \<and> snap_RunID ` set ss \<subseteq> U"

definition verifications_ok :: "id set \<Rightarrow> id set \<Rightarrow> Verification list \<Rightarrow> bool" where
  "verifications_ok R U vs \<longleftrightarrow> distinct (map ver_ID vs) \<and> ver_RepositoryID ` set vs \<subseteq> R \<and> ver_RunID ` set vs \<subseteq> U"

definition depths_ok :: "id set \<Rightarrow> (id \<times> VerificationDepth) list \<Rightarrow> bool" where
  "depths_ok V ds \<longleftrightarrow> distinct (map fst ds) \<and> fst ` set ds \<subseteq> V"

definition retention_ok :: "id set \<Rightarrow> RetentionRow list \<Rightarrow> bool" where
  "retention_ok R qs \<longleftrightarrow> distinct (map rr_RepositoryID qs) \<and> rr_RepositoryID ` set qs \<subseteq> R"

definition backups_ok :: "backup_db \<Rightarrow> bool" where
  "backups_ok db \<longleftrightarrow> repositories_ok (bdb_repositories db) \<and> runs_ok (repo_ids db) (bdb_runs db) \<and>
     snapshots_ok (repo_ids db) (run_ids db) (bdb_snapshots db) \<and>
     verifications_ok (repo_ids db) (run_ids db) (bdb_verifications db) \<and>
     depths_ok (ver_ID ` set (bdb_verifications db)) (bdb_depths db) \<and> retention_ok (repo_ids db) (bdb_retention db)"

lemmas table_defs = repositories_ok_def runs_ok_def snapshots_ok_def verifications_ok_def depths_ok_def retention_ok_def

lemma tables_grow:
  "runs_ok R rs \<Longrightarrow> runs_ok (insert i R) rs" "snapshots_ok R U ss \<Longrightarrow> snapshots_ok (insert i R) U ss"
  "snapshots_ok R U ss \<Longrightarrow> snapshots_ok R (insert i U) ss" "verifications_ok R U vs \<Longrightarrow> verifications_ok (insert i R) U vs"
  "verifications_ok R U vs \<Longrightarrow> verifications_ok R (insert i U) vs" "depths_ok V ds \<Longrightarrow> depths_ok (insert i V) ds"
  "retention_ok R qs \<Longrightarrow> retention_ok (insert i R) qs"
  unfolding table_defs by blast+

lemma tables_shrink:
  "runs_ok R rs \<Longrightarrow> i \<notin> run_RepositoryID ` set rs \<Longrightarrow> runs_ok (R - {i}) rs"
  "snapshots_ok R U ss \<Longrightarrow> i \<notin> snap_RepositoryID ` set ss \<Longrightarrow> snapshots_ok (R - {i}) U ss"
  "verifications_ok R U vs \<Longrightarrow> i \<notin> ver_RepositoryID ` set vs \<Longrightarrow> verifications_ok (R - {i}) U vs"
  unfolding table_defs by blast+

lemma filtered_tables:
  "repositories_ok rs \<Longrightarrow> repositories_ok (filter P rs)"
  "retention_ok R qs \<Longrightarrow> retention_ok (R - {i}) (filter (\<lambda>q. rr_RepositoryID q \<noteq> i) qs)"
  by (auto simp: table_defs filter_distinct_map)

lemma update_absent: "\<forall>x \<in> set xs. \<not> P x \<Longrightarrow> update_where P f xs = xs"
  by (auto simp: update_where_def intro!: map_idI)

lemma empty_backups_ok: "backups_ok empty_backup_db"
  by (simp add: backups_ok_def table_defs empty_backup_db_def one_running_def)

text \<open>The columns an update keeps.\<close>

lemma kept_columns [simp]:
  "repo_ID (repository_columns r x) = repo_ID x" "repo_Location (repository_columns r x) = repo_Location r"
  "run_ID (run_columns q y) = run_ID y" "run_RepositoryID (run_columns q y) = run_RepositoryID y"
  "run_Status (run_columns q y) = run_Status q" "run_Kind (run_columns q y) = run_Kind y"
  "snap_ID (snapshot_columns s z) = snap_ID z" "snap_RepositoryID (snapshot_columns s z) = snap_RepositoryID z"
  "snap_RunID (snapshot_columns s z) = snap_RunID s" "snap_VerifiedAt (snapshot_columns s z) = snap_VerifiedAt z"
  "ver_ID (verification_columns v u) = ver_ID u" "ver_RunID (verification_columns v u) = ver_RunID u"
  "ver_RepositoryID (verification_columns v u) = ver_RepositoryID u" "ver_Status (verification_columns v u) = ver_Status v"
  by (simp_all add: repository_columns_def run_columns_def snapshot_columns_def verification_columns_def)

lemma distinct_location_update:
  assumes "distinct (map repo_ID xs)" "distinct (map repo_Location xs)"
    "\<forall>x \<in> set xs. repo_ID x \<noteq> repo_ID r \<longrightarrow> repo_Location x \<noteq> repo_Location r"
  shows "distinct (map repo_Location (update_where (\<lambda>x. repo_ID x = repo_ID r) (repository_columns r) xs))"
  using assms by (induction xs) (auto simp: update_where_def image_iff)

lemma one_running_update:
  assumes "one_running rs" "run_Status q = StatusRunning \<Longrightarrow> \<forall>x \<in> set rs. run_ID x \<noteq> run_ID q \<longrightarrow> run_Status x \<noteq> StatusRunning"
  shows "one_running (update_where (\<lambda>x. run_ID x = run_ID q) (run_columns q) rs)"
  unfolding one_running_def
proof (intro ballI impI, elim conjE)
  fix x y assume xy: "x \<in> set (update_where (\<lambda>x. run_ID x = run_ID q) (run_columns q) rs)"
    "y \<in> set (update_where (\<lambda>x. run_ID x = run_ID q) (run_columns q) rs)" "run_Status x = StatusRunning" "run_Status y = StatusRunning"
  have part: "run_ID z = run_ID q \<and> run_Status q = StatusRunning \<or> run_ID z \<noteq> run_ID q \<and> z \<in> set rs"
    if "z \<in> set (update_where (\<lambda>x. run_ID x = run_ID q) (run_columns q) rs)" "run_Status z = StatusRunning" for z
    using that by (auto simp: set_update_where)
  show "run_ID x = run_ID y"
    using part [OF xy(1,3)] part [OF xy(2,4)] assms xy(3,4) unfolding one_running_def by metis
qed

lemma one_running_append:
  assumes "one_running rs" "run_Status x = StatusRunning \<Longrightarrow> \<forall>y \<in> set rs. run_Status y \<noteq> StatusRunning"
  shows "one_running (rs @ [x])"
proof (cases "run_Status x = StatusRunning")
  case True
  then have "\<forall>y \<in> set rs. run_Status y \<noteq> StatusRunning" by (rule assms(2))
  then show ?thesis by (simp add: one_running_def)
next
  case False
  then show ?thesis using assms(1) unfolding one_running_def set_append list.set by blast
qed

section \<open>Every statement keeps the tables well-formed\<close>

lemma insertRepository_Inr:
  assumes "insertRepository db r = Inr db'"
  shows "repo_ID r \<notin> repo_ids db" "repo_Location r \<notin> repo_Location ` set (bdb_repositories db)"
    "db' = db\<lparr>bdb_repositories := bdb_repositories db @ [r]\<rparr>"
  using assms by (simp_all add: insertRepository_def insert_repository_row_def list_ex_key split: sum.splits if_splits)

lemma updateRepository_Inr:
  assumes "updateRepository db r = Inr db'"
  shows "db' = db\<lparr>bdb_repositories := update_where (\<lambda>x. repo_ID x = repo_ID r) (repository_columns r) (bdb_repositories db)\<rparr>"
    "repo_ID r \<in> repo_ids db \<Longrightarrow> \<forall>x \<in> set (bdb_repositories db). repo_ID x \<noteq> repo_ID r \<longrightarrow> repo_Location x \<noteq> repo_Location r"
  using assms by (auto simp: updateRepository_def list_ex_key list_ex_iff split: if_splits)

lemma deleteRepository_Inr:
  assumes "deleteRepository db i = Inr db'"
  shows "i \<notin> run_RepositoryID ` set (bdb_runs db)" "i \<notin> snap_RepositoryID ` set (bdb_snapshots db)"
    "i \<notin> ver_RepositoryID ` set (bdb_verifications db)"
    "db' = db\<lparr>bdb_repositories := filter (\<lambda>r. repo_ID r \<noteq> i) (bdb_repositories db),
        bdb_retention := filter (\<lambda>r. rr_RepositoryID r \<noteq> i) (bdb_retention db)\<rparr>"
  using assms by (simp_all add: deleteRepository_def list_ex_key split: if_splits)

lemma insertRun_Inr:
  assumes "insertRun db r = Inr db'"
  shows "run_ID r \<notin> run_ids db" "run_RepositoryID r \<in> repo_ids db" "db' = db\<lparr>bdb_runs := bdb_runs db @ [r]\<rparr>"
    "run_Status r = StatusRunning \<Longrightarrow> \<forall>x \<in> set (bdb_runs db). run_Status x \<noteq> StatusRunning"
  using assms by (simp_all add: insertRun_def insert_run_row_def list_ex_key split: sum.splits if_splits) (auto simp: image_iff)

lemma updateRun_Inr:
  assumes "updateRun db r = Inr db'"
  shows "db' = db\<lparr>bdb_runs := update_where (\<lambda>y. run_ID y = run_ID r) (run_columns r) (bdb_runs db)\<rparr>"
    "run_ID r \<in> run_ids db \<Longrightarrow> run_Status r = StatusRunning \<Longrightarrow> \<forall>y \<in> set (bdb_runs db). run_ID y \<noteq> run_ID r \<longrightarrow> run_Status y \<noteq> StatusRunning"
  using assms by (auto simp: updateRun_def list_ex_key list_ex_iff split: if_splits)

lemma step_repositories:
  assumes "backups_ok db"
  shows "insertRepository db r = Inr db' \<Longrightarrow> backups_ok db'" "updateRepository db r = Inr db' \<Longrightarrow> backups_ok db'"
    "deleteRepository db i = Inr db' \<Longrightarrow> backups_ok db'"
proof -
  show "backups_ok db'" if "insertRepository db r = Inr db'"
  proof -
    have "repositories_ok (bdb_repositories db @ [r])"
      using assms insertRepository_Inr(1,2) [OF that] by (simp add: backups_ok_def repositories_ok_def)
    then show ?thesis using assms unfolding insertRepository_Inr(3) [OF that] by (simp add: backups_ok_def tables_grow)
  qed
  show "backups_ok db'" if u: "updateRepository db r = Inr db'"
  proof (cases "repo_ID r \<in> repo_ids db")
    case True
    have "repositories_ok (update_where (\<lambda>x. repo_ID x = repo_ID r) (repository_columns r) (bdb_repositories db))"
      using assms distinct_location_update [OF _ _ updateRepository_Inr(2) [OF u True]]
      by (simp add: backups_ok_def repositories_ok_def map_update_where_key)
    then show ?thesis using updateRepository_Inr(1) [OF u] assms by (simp add: backups_ok_def image_update_where_key)
  next
    case False
    then have "update_where (\<lambda>x. repo_ID x = repo_ID r) (repository_columns r) (bdb_repositories db) = bdb_repositories db"
      by (intro update_absent) (metis imageI)
    then show ?thesis using updateRepository_Inr(1) [OF u] assms by simp
  qed
  show "backups_ok db'" if "deleteRepository db i = Inr db'"
  proof -
    have im: "repo_ID ` {x \<in> set (bdb_repositories db). repo_ID x \<noteq> i} = repo_ids db - {i}" by auto
    show ?thesis using assms deleteRepository_Inr(1-3) [OF that] unfolding deleteRepository_Inr(4) [OF that] backups_ok_def
      by (simp add: im tables_shrink filtered_tables)
  qed
qed

lemma step_runs:
  assumes "backups_ok db"
  shows "insertRun db x = Inr db' \<Longrightarrow> backups_ok db'" "updateRun db x = Inr db' \<Longrightarrow> backups_ok db'"
proof -
  show "backups_ok db'" if "insertRun db x = Inr db'"
  proof -
    have "runs_ok (repo_ids db) (bdb_runs db @ [x])"
      using assms insertRun_Inr(1,2) [OF that] one_running_append [OF _ insertRun_Inr(4) [OF that]]
      by (simp add: backups_ok_def runs_ok_def)
    then show ?thesis using assms insertRun_Inr(3) [OF that] by (simp add: backups_ok_def tables_grow)
  qed
  show "backups_ok db'" if u: "updateRun db x = Inr db'"
  proof -
    have o: "one_running (bdb_runs db)" using assms by (simp add: backups_ok_def runs_ok_def)
    have "one_running (update_where (\<lambda>y. run_ID y = run_ID x) (run_columns x) (bdb_runs db))"
    proof (cases "run_ID x \<in> run_ids db")
      case True
      then show ?thesis using one_running_update [OF o] updateRun_Inr(2) [OF u] by blast
    next
      case False
      then have "update_where (\<lambda>y. run_ID y = run_ID x) (run_columns x) (bdb_runs db) = bdb_runs db"
        by (intro update_absent) (metis imageI)
      then show ?thesis using o by simp
    qed
    then show ?thesis using updateRun_Inr(1) [OF u] assms
      by (simp add: backups_ok_def runs_ok_def map_update_where_key image_update_where_key)
  qed
qed

lemma snapshot_run_update:
  assumes "snap_RunID ` set ss \<subseteq> U" "snap_RunID s \<in> U"
  shows "snap_RunID ` set (update_where P (snapshot_columns s) ss) \<subseteq> U"
  using assms by (auto simp: set_update_where)

lemma step_snapshots:
  assumes "backups_ok db"
  shows "upsertSnapshot db s = Inr db' \<Longrightarrow> backups_ok db'" "markSnapshotVerified db i j at = Inr db' \<Longrightarrow> backups_ok db'"
    "backups_ok (deleteSnapshot db i j)"
proof -
  have s: "snapshots_ok (repo_ids db) (run_ids db) (bdb_snapshots db)" using assms by (simp add: backups_ok_def)
  show "backups_ok db'" if u: "upsertSnapshot db s = Inr db'"
  proof -
    have fk: "snap_RepositoryID s \<in> repo_ids db" "snap_RunID s \<in> run_ids db"
      using u by (simp_all add: upsertSnapshot_def list_ex_key split: if_splits)
    show ?thesis
    proof (cases "snap_key s \<in> snap_key ` set (bdb_snapshots db)")
      case True
      then have "db' = db\<lparr>bdb_snapshots := update_where (\<lambda>x. snap_key x = snap_key s) (snapshot_columns s) (bdb_snapshots db)\<rparr>"
        using u fk unfolding upsertSnapshot_def list_ex_key by simp
      moreover have "snapshots_ok (repo_ids db) (run_ids db) (update_where (\<lambda>x. snap_key x = snap_key s) (snapshot_columns s) (bdb_snapshots db))"
        using s fk(2) snapshot_run_update by (simp add: snapshots_ok_def map_update_where_key image_update_where_key)
      ultimately show ?thesis using assms by (simp add: backups_ok_def)
    next
      case False
      then have "db' = db\<lparr>bdb_snapshots := bdb_snapshots db @ [s]\<rparr>"
        using u fk unfolding upsertSnapshot_def list_ex_key by simp
      then show ?thesis using assms s fk False by (simp add: backups_ok_def snapshots_ok_def)
    qed
  qed
  show "backups_ok db'" if "markSnapshotVerified db i j at = Inr db'"
  proof -
    have "db' = db\<lparr>bdb_snapshots := update_where (\<lambda>s. snap_key s = (i, j)) (\<lambda>s. s\<lparr>snap_VerifiedAt := Some at\<rparr>) (bdb_snapshots db)\<rparr>"
      using that by (simp add: markSnapshotVerified_def split: if_splits)
    then show ?thesis using assms s by (simp add: backups_ok_def snapshots_ok_def map_update_where_key image_update_where_key)
  qed
  show "backups_ok (deleteSnapshot db i j)"
  proof -
    have "snapshots_ok (repo_ids db) (run_ids db) (filter (\<lambda>s. snap_key s \<noteq> (i, j)) (bdb_snapshots db))"
      using s unfolding snapshots_ok_def by (auto simp: filter_distinct_map)
    then show ?thesis using assms by (simp add: backups_ok_def deleteSnapshot_def)
  qed
qed

lemma step_records:
  assumes "backups_ok db"
  shows "saveRetentionRow db q = Inr db' \<Longrightarrow> backups_ok db'" "insertVerification db v = Inr db' \<Longrightarrow> backups_ok db'"
    "backups_ok (updateVerification db v)" "saveVerificationDepth db i d = Inr db' \<Longrightarrow> backups_ok db'" "backups_ok (saveHealthState db h)"
proof -
  show "backups_ok db'" if r: "saveRetentionRow db q = Inr db'"
  proof -
    have "retention_ok (repo_ids db) (bdb_retention db')"
    proof (cases "rr_RepositoryID q \<in> rr_RepositoryID ` set (bdb_retention db)")
      case True
      then have "bdb_retention db' = update_where (\<lambda>x. rr_RepositoryID x = rr_RepositoryID q) (\<lambda>_. q) (bdb_retention db)"
        using r by (auto simp: saveRetentionRow_def list_ex_key split: if_splits)
      moreover have "map rr_RepositoryID (update_where (\<lambda>x. rr_RepositoryID x = rr_RepositoryID q) (\<lambda>_. q) (bdb_retention db)) =
          map rr_RepositoryID (bdb_retention db)" by (rule map_update_where_key) simp
      ultimately show ?thesis using assms unfolding backups_ok_def retention_ok_def by (metis list.set_map)
    next
      case False
      then have "rr_RepositoryID q \<in> repo_ids db" "bdb_retention db' = bdb_retention db @ [q]"
        using r by (simp_all add: saveRetentionRow_def list_ex_key split: if_splits) auto
      then show ?thesis using assms False by (simp add: backups_ok_def retention_ok_def)
    qed
    moreover obtain qs where "db' = db\<lparr>bdb_retention := qs\<rparr>"
      using r by (auto simp: saveRetentionRow_def split: if_splits)
    ultimately show ?thesis using assms by (simp add: backups_ok_def)
  qed
  show "backups_ok db'" if "insertVerification db v = Inr db'"
  proof -
    have "ver_ID v \<notin> ver_ID ` set (bdb_verifications db)" "ver_RunID v \<in> run_ids db" "ver_RepositoryID v \<in> repo_ids db"
      "db' = db\<lparr>bdb_verifications := bdb_verifications db @ [v\<lparr>ver_Depth := None\<rparr>]\<rparr>"
      using that by (simp_all add: insertVerification_def list_ex_key split: if_splits)
    then show ?thesis using assms by (simp add: backups_ok_def tables_grow) (simp add: verifications_ok_def)
  qed
  show "backups_ok (updateVerification db v)"
    using assms unfolding backups_ok_def updateVerification_def
    by (simp add: verifications_ok_def map_update_where_key image_update_where_key)
  show "backups_ok db'" if "saveVerificationDepth db i d = Inr db'"
  proof -
    have "i \<notin> fst ` set (bdb_depths db)" "i \<in> ver_ID ` set (bdb_verifications db)" "db' = db\<lparr>bdb_depths := bdb_depths db @ [(i, d)]\<rparr>"
      using that by (simp_all add: saveVerificationDepth_def list_ex_key split: if_splits)
    then show ?thesis using assms by (simp add: backups_ok_def depths_ok_def)
  qed
  show "backups_ok (saveHealthState db h)" using assms by (simp add: backups_ok_def saveHealthState_def)
qed

lemma backup_step_ok: "backup_step db db' \<Longrightarrow> backups_ok db \<Longrightarrow> backups_ok db'"
  by (induction rule: backup_step.induct)
    (blast intro: step_repositories step_runs step_snapshots step_records)+

interpretation backup: statement_tables backup_step backups_ok empty_backup_db
  by (unfold_locales, rule empty_backups_ok, erule (1) backup_step_ok)

lemma backup_steps_ok: "backup_step\<^sup>*\<^sup>* db db' \<Longrightarrow> backups_ok db \<Longrightarrow> backups_ok db'"
  by (rule backup.steps_ok)

end
