(* ===== verification/BackupsSteps.thy ===== *)
theory BackupsSteps
  imports BackupsStates
begin

text \<open>
  internal/backups: the operations are sequences of statements.
\<close>

section \<open>Operations are sequences of statements\<close>

abbreviation reach :: "backup_db \<Rightarrow> backup_db \<Rightarrow> bool" where "reach \<equiv> backup_step\<^sup>*\<^sup>*"

named_theorems reach_intros

lemma reach_statements [reach_intros]:
  "insertRepository db r = Inr db' \<Longrightarrow> reach db0 db \<Longrightarrow> reach db0 db'"
  "updateRepository db r = Inr db' \<Longrightarrow> reach db0 db \<Longrightarrow> reach db0 db'"
  "deleteRepository db i = Inr db' \<Longrightarrow> reach db0 db \<Longrightarrow> reach db0 db'"
  "insertRun db x = Inr db' \<Longrightarrow> reach db0 db \<Longrightarrow> reach db0 db'"
  "updateRun db x = Inr db' \<Longrightarrow> reach db0 db \<Longrightarrow> reach db0 db'"
  "upsertSnapshot db s = Inr db' \<Longrightarrow> reach db0 db \<Longrightarrow> reach db0 db'"
  "markSnapshotVerified db i j at = Inr db' \<Longrightarrow> reach db0 db \<Longrightarrow> reach db0 db'"
  "saveRetentionRow db q = Inr db' \<Longrightarrow> reach db0 db \<Longrightarrow> reach db0 db'"
  "insertVerification db v = Inr db' \<Longrightarrow> reach db0 db \<Longrightarrow> reach db0 db'"
  "saveVerificationDepth db i d = Inr db' \<Longrightarrow> reach db0 db \<Longrightarrow> reach db0 db'"
  by (blast intro: rtranclp.rtrancl_into_rtrancl backup_step.intros)+

lemma reach_plain:
  "reach db0 db \<Longrightarrow> reach db0 (updateVerification db v)"
  "reach db0 db \<Longrightarrow> reach db0 (deleteSnapshot db i j)"
  "reach db0 db \<Longrightarrow> reach db0 (saveHealthState db h)"
  by (blast intro: rtranclp.rtrancl_into_rtrancl backup_step.intros)+

lemma failRun_reach [reach_intros]: "failRun dep db run stage e reds w = (w', db', r) \<Longrightarrow> reach db0 db \<Longrightarrow> reach db0 db'"
  by (auto simp: failRun_def Let_def split: sum.splits) (assumption | erule reach_intros | rule reach_plain)+

lemma advanceRun_reach [reach_intros]:
  "advanceRun dep db run stage creds w = (w', db', r, e) \<Longrightarrow> reach db0 db \<Longrightarrow> reach db0 db'"
  by (auto simp: advanceRun_def Let_def split: sum.splits prod.splits) (assumption | erule reach_intros | rule reach_plain)+

lemma backup_parts_reach [reach_intros]:
  "fail_backup dep db run stored e creds w = (w', db', r, x) \<Longrightarrow> reach db0 db \<Longrightarrow> reach db0 db'"
  by (auto simp: fail_backup_def split: prod.splits) (assumption | erule reach_intros | rule reach_plain)+

lemma finish_backup_reach [reach_intros]:
  "finish_backup dep db run ri creds snap w = (w', db', r, x) \<Longrightarrow> reach db0 db \<Longrightarrow> reach db0 db'"
  by (auto simp: finish_backup_def Let_def split: sum.splits) (assumption | erule reach_intros | rule reach_plain)+

lemma backup_run_reach [reach_intros]:
  "backup_run cfg dep db req repo creds run w = (w', db', r, x) \<Longrightarrow> reach db0 db \<Longrightarrow> reach db0 db'"
  by (auto simp: backup_run_def split: sum.splits prod.splits option.splits if_splits) (assumption | erule reach_intros | rule reach_plain)+

lemma RunBackup_reach [reach_intros]:
  "RunBackup cfg dep db req w = (w', db', r, x) \<Longrightarrow> reach db0 db \<Longrightarrow> reach db0 db'"
  by (auto simp: RunBackup_def Let_def split: sum.splits prod.splits option.splits if_splits) (assumption | erule reach_intros | rule reach_plain)+

lemma Configure_reach [reach_intros]:
  "Configure url_parse dep db req w = (w', db', x) \<Longrightarrow> reach db0 db \<Longrightarrow> reach db0 db'"
  by (auto simp: Configure_def Let_def split: sum.splits prod.splits option.splits if_splits) (assumption | erule reach_intros | rule reach_plain)+

lemma drop_repository_reach [reach_intros]: "reach db0 db \<Longrightarrow> reach db0 (drop_repository db i)"
  by (simp add: drop_repository_def split: sum.split) (blast intro: reach_intros)

lemma attach_probe_reach [reach_intros]:
  "attach_probe dep db repo w = (w', db', x) \<Longrightarrow> reach db0 db \<Longrightarrow> reach db0 db'"
  by (auto simp: attach_probe_def split: sum.splits prod.splits if_splits) (assumption | erule reach_intros | rule reach_plain)+

lemma AttachRepository_reach [reach_intros]:
  "AttachRepository url_parse dep db req w = (w', db', x) \<Longrightarrow> reach db0 db \<Longrightarrow> reach db0 db'"
  by (auto simp: AttachRepository_def Let_def split: sum.splits prod.splits option.splits) (assumption | erule reach_intros | rule reach_plain)+

lemma DeleteRepository_reach [reach_intros]:
  "DeleteRepository db i = (db', x) \<Longrightarrow> reach db0 db \<Longrightarrow> reach db0 db'"
  by (auto simp: DeleteRepository_def Let_def split: sum.splits if_splits) (assumption | erule reach_intros | rule reach_plain)+

lemma cleanup_reach [reach_intros]:
  "cleanupVerification cfg dep db ver w = (w', db', v) \<Longrightarrow> reach db0 db \<Longrightarrow> reach db0 db'"
  by (auto simp: cleanupVerification_def Let_def split: option.splits prod.splits if_splits) (assumption | erule reach_intros | rule reach_plain)+

lemma verify_fails_reach [reach_intros]:
  "fail_verify_run dep db run stage stored e reds w = (w', db', r, v, x) \<Longrightarrow> reach db0 db \<Longrightarrow> reach db0 db'"
  "fail_ver cfg dep db run ver stage e creds w = (w', db', r, v, x) \<Longrightarrow> reach db0 db \<Longrightarrow> reach db0 db'"
  by (auto simp: fail_verify_run_def fail_ver_def Let_def split: prod.splits) (assumption | erule reach_intros | rule reach_plain)+

lemma pass_verification_reach [reach_intros]:
  "pass_verification cfg dep db run ver rep creds w = (w', db', r, v, x) \<Longrightarrow> reach db0 db \<Longrightarrow> reach db0 db'"
  by (auto simp: pass_verification_def Let_def split: sum.splits prod.splits) (assumption | erule reach_intros | rule reach_plain)+

lemma prove_restorable_reach [reach_intros]:
  "prove_restorable cfg dep db repo run ver creds w = (w', db', r, v, x) \<Longrightarrow> reach db0 db \<Longrightarrow> reach db0 db'"
  by (auto simp: prove_restorable_def split: sum.splits prod.splits option.splits) (assumption | erule reach_intros | rule reach_plain)+

lemma verify_run_reach [reach_intros]:
  "verify_run cfg dep db repo snap run w = (w', db', r, v, x) \<Longrightarrow> reach db0 db \<Longrightarrow> reach db0 db'"
  by (auto simp: verify_run_def Let_def split: sum.splits prod.splits option.splits) (assumption | erule reach_intros | rule reach_plain)+

lemma Verify_reach [reach_intros]:
  "Verify cfg dep db req w = (w', db', r, v, x) \<Longrightarrow> reach db0 db \<Longrightarrow> reach db0 db'"
  by (auto simp: Verify_def Let_def split: sum.splits prod.splits option.splits) (assumption | erule reach_intros | rule reach_plain)+

lemma restore_parts_reach [reach_intros]:
  "fail_restore dep db run stage stored e reds w = (w', db', r, x) \<Longrightarrow> reach db0 db \<Longrightarrow> reach db0 db'"
  by (auto simp: fail_restore_def split: prod.splits) (assumption | erule reach_intros | rule reach_plain)+

lemma finish_restore_reach [reach_intros]:
  "finish_restore dep db run snap repo target creds w = (w', db', r, x) \<Longrightarrow> reach db0 db \<Longrightarrow> reach db0 db'"
  by (auto simp: finish_restore_def Let_def split: sum.splits) (assumption | erule reach_intros | rule reach_plain)+

lemma restore_run_reach [reach_intros]:
  "restore_run dep db run snap repo target w = (w', db', r, x) \<Longrightarrow> reach db0 db \<Longrightarrow> reach db0 db'"
  by (auto simp: restore_run_def split: sum.splits prod.splits option.splits) (assumption | erule reach_intros | rule reach_plain)+

lemma Restore_reach [reach_intros]:
  "Restore dep db req w = (w', db', r, x) \<Longrightarrow> reach db0 db \<Longrightarrow> reach db0 db'"
  by (auto simp: Restore_def split: sum.splits prod.splits option.splits) (assumption | erule reach_intros | rule reach_plain)+

lemma close_runs_reach [reach_intros]: "close_runs dep db rs w = (w', db') \<Longrightarrow> reach db0 db \<Longrightarrow> reach db0 db'"
proof (induction rs arbitrary: db w)
  case (Cons r rs)
  then show ?case by (auto split: prod.splits) (metis failRun_reach)
qed simp

lemma close_verifications_reach [reach_intros]:
  "close_verifications cfg dep db vs w = (w', db') \<Longrightarrow> reach db0 db \<Longrightarrow> reach db0 db'"
proof (induction vs arbitrary: db w)
  case (Cons v vs)
  then show ?case by (auto simp: Let_def split: prod.splits) (metis cleanup_reach reach_plain(1))
qed simp

lemma ReconcileInterrupted_reach [reach_intros]:
  "ReconcileInterrupted cfg dep db w = (w', db', n) \<Longrightarrow> reach db0 db \<Longrightarrow> reach db0 db'"
  by (auto simp: ReconcileInterrupted_def Let_def split: prod.splits) (assumption | erule reach_intros | rule reach_plain)+

lemma delete_snapshots_reach [reach_intros]: "reach db0 db \<Longrightarrow> reach db0 (delete_snapshots db i js)"
  unfolding delete_snapshots_def
proof (induction js arbitrary: db)
  case (Cons j js)
  show ?case using Cons.IH [OF reach_plain(2) [OF Cons.prems]] by simp
qed simp

lemma saveRetentionState_reach [reach_intros]:
  "saveRetentionState dep db res w = (w', db') \<Longrightarrow> reach db0 db \<Longrightarrow> reach db0 db'"
  by (auto simp: saveRetentionState_def split: sum.splits) (assumption | erule reach_intros | rule reach_plain)+

lemma record_retention_reach [reach_intros]:
  "record_retention dep db repo scoped creds res ids w = (w', db', r, x) \<Longrightarrow> reach db0 db \<Longrightarrow> reach db0 db'"
  by (auto simp: record_retention_def Let_def split: prod.splits) (assumption | erule reach_intros | rule reach_plain)+

lemma ApplyRetention_reach [reach_intros]:
  "ApplyRetention cfg dep db i force w = (w', db', r, x) \<Longrightarrow> reach db0 db \<Longrightarrow> reach db0 db'"
  by (auto simp: ApplyRetention_def apply_plan_def Let_def split: sum.splits prod.splits if_splits) (assumption | erule reach_intros | rule reach_plain)+

lemma evaluateHealth_reach [reach_intros]:
  "evaluateHealth cfg dep db persist w = (w', db', r) \<Longrightarrow> reach db0 db \<Longrightarrow> reach db0 db'"
  by (auto simp: evaluateHealth_def Let_def split: if_splits) (assumption | erule reach_intros | rule reach_plain)+

end
