(* ===== verification/BackupsOutcome.thy ===== *)
theory BackupsOutcome
  imports BackupsSteps
begin

text \<open>
  internal/backups: how the operations end.  A failed run is always closed, so that the slot of
  the single active run is given back; a verification marks its snapshot only when it succeeds.
\<close>

section \<open>The slot of the active run\<close>

definition idle :: "backup_db \<Rightarrow> bool" where
  "idle db \<longleftrightarrow> (\<forall>r \<in> set (bdb_runs db). run_Status r \<noteq> StatusRunning)"

definition idle_but :: "id \<Rightarrow> backup_db \<Rightarrow> bool" where
  "idle_but i db \<longleftrightarrow> (\<forall>r \<in> set (bdb_runs db). run_ID r \<noteq> i \<longrightarrow> run_Status r \<noteq> StatusRunning)"

definition put_run :: "Run \<Rightarrow> backup_db \<Rightarrow> backup_db" where
  "put_run r db = db\<lparr>bdb_runs := update_where (\<lambda>x. run_ID x = run_ID r) (run_columns r) (bdb_runs db)\<rparr>"

lemma put_run_simps [simp]:
  "bdb_snapshots (put_run r db) = bdb_snapshots db" "bdb_verifications (put_run r db) = bdb_verifications db"
  "bdb_repositories (put_run r db) = bdb_repositories db"
  by (simp_all add: put_run_def)

lemma updateRun_closed [simp]: "run_Status r \<noteq> StatusRunning \<Longrightarrow> updateRun db r = Inr (put_run r db)"
  by (simp add: updateRun_def put_run_def)

lemma updateRun_idle_but: "idle_but (run_ID r) db \<Longrightarrow> updateRun db r = Inr (put_run r db)"
  by (auto simp: updateRun_def put_run_def idle_but_def list_ex_iff)

lemma idle_weaken: "idle db \<Longrightarrow> idle_but i db"
  by (simp add: idle_def idle_but_def)

lemma idle_same_runs: "bdb_runs db' = bdb_runs db \<Longrightarrow> idle_but i db \<Longrightarrow> idle_but i db'"
  by (simp add: idle_but_def)

named_theorems slot_intros

lemma slot_put [slot_intros]:
  "idle_but (run_ID r) db \<Longrightarrow> run_Status r \<noteq> StatusRunning \<Longrightarrow> idle (put_run r db)"
  by (auto simp: idle_def idle_but_def put_run_def set_update_where)

lemma slot_kept: "run_ID r = i \<Longrightarrow> idle_but i db \<Longrightarrow> idle_but i (put_run r db)"
  by (auto simp: idle_but_def put_run_def set_update_where)

lemma insertRun_slot:
  assumes "insertRun db r = Inr db'" "run_Status r = StatusRunning"
  shows "idle_but (run_ID r) db'"
  using insertRun_Inr(3,4) [OF assms(1)] assms(2) by (simp add: idle_but_def)

section \<open>Failing and advancing\<close>

lemma start_run_simps: "start_run dep k ri trigger w = (w', r) \<Longrightarrow> run_Status r = StatusRunning \<and> run_Kind r = k \<and> run_RepositoryID r = ri"
  by (auto simp: start_run_def split: prod.splits)

definition failed_run :: "'w BackupDeps \<Rightarrow> Run \<Rightarrow> string \<Rightarrow> goerror \<Rightarrow> string list \<Rightarrow> 'w \<Rightarrow> Run" where
  "failed_run dep run stage e reds w = run\<lparr>run_Status := StatusFailed, run_Stage := stage,
     run_Error := truncate_text (redact (err_msg e) reds) maxErrorLength, run_FinishedAt := Some (bd_Now dep w)\<rparr>"

lemma failRun_eq:
  assumes "failRun dep db run stage e reds w = (w', db', r)"
  shows "r = failed_run dep run stage e reds w" "db' = put_run r db" "run_ID r = run_ID run" "run_Status r = StatusFailed"
  using assms by (auto simp: failRun_def Let_def failed_run_def)

lemma failRun_slot [slot_intros]:
  "failRun dep db run stage e reds w = (w', db', r) \<Longrightarrow> idle_but (run_ID run) db \<Longrightarrow> idle db'"
  using failRun_eq [of dep db run stage e reds w w' db' r] slot_put [of r db] by simp

lemma advanceRun_eq:
  "idle_but (run_ID run) db \<Longrightarrow>
     advanceRun dep db run stage creds w = (w, put_run (run\<lparr>run_Stage := stage\<rparr>) db, run\<lparr>run_Stage := stage\<rparr>, None)"
  using updateRun_idle_but [of "run\<lparr>run_Stage := stage\<rparr>" db] by (simp add: advanceRun_def Let_def)

section \<open>Backups\<close>

lemma fail_backup_slot [slot_intros]:
  "fail_backup dep db run stored e creds w = (w', db', ro, x) \<Longrightarrow> idle_but (run_ID run) db \<Longrightarrow> idle db'"
  by (auto simp: fail_backup_def split: prod.splits intro: slot_intros)

lemma upsert_runs: "upsertSnapshot db s = Inr db' \<Longrightarrow> bdb_runs db' = bdb_runs db"
  by (auto simp: upsertSnapshot_def split: if_splits)

lemma finish_backup_slot [slot_intros]:
  "finish_backup dep db run ri creds snap w = (w', db', ro, x) \<Longrightarrow> idle_but (run_ID run) db \<Longrightarrow> idle db'"
  by (auto simp: finish_backup_def Let_def split: sum.splits intro!: slot_put dest: upsert_runs intro: slot_intros idle_same_runs)

lemma backup_run_slot [slot_intros]:
  assumes "backup_run cfg dep db req repo creds run w = (w', db', ro, x)" "idle_but (run_ID run) db"
  shows "idle db'"
proof -
  let ?run = "run\<lparr>run_Stage := StageSnapshot\<rparr>"
  have ib: "idle_but (run_ID ?run) (put_run ?run db)" using slot_kept [OF _ assms(2), of ?run] by simp
  show ?thesis
    using assms(1) advanceRun_eq [OF assms(2), of dep StageSnapshot creds w]
    by (simp add: backup_run_def split: prod.splits sum.splits if_splits)
      (erule fail_backup_slot [OF _ ib] finish_backup_slot [OF _ ib])+
qed

text \<open>An operation that begins its run on an idle controller leaves it idle, however it ends.\<close>

lemma started_slot:
  assumes "start_run dep k ri trigger w = (w1, run)" "insertRun db run = Inr db1"
  shows "idle_but (run_ID run) db1"
  using insertRun_slot [OF assms(2)] start_run_simps [OF assms(1)] by blast

lemma RunBackup_idle:
  assumes "RunBackup cfg dep db req w = (w', db', ro, x)" "idle db"
  shows "idle db'"
  using assms by (auto simp: RunBackup_def split: prod.splits sum.splits dest: backup_run_slot [OF _ started_slot])

section \<open>Verification\<close>

lemma record_runs:
  "insertVerification db v = Inr db' \<Longrightarrow> bdb_runs db' = bdb_runs db" "saveVerificationDepth db i d = Inr db' \<Longrightarrow> bdb_runs db' = bdb_runs db"
  "markSnapshotVerified db j k at = Inr db' \<Longrightarrow> bdb_runs db' = bdb_runs db" "bdb_runs (updateVerification db v) = bdb_runs db"
  by (auto simp: insertVerification_def saveVerificationDepth_def markSnapshotVerified_def updateVerification_def split: if_splits)

lemma record_snapshots:
  "insertVerification db v = Inr db' \<Longrightarrow> bdb_snapshots db' = bdb_snapshots db"
  "saveVerificationDepth db i d = Inr db' \<Longrightarrow> bdb_snapshots db' = bdb_snapshots db"
  "insertRun db r = Inr db' \<Longrightarrow> bdb_snapshots db' = bdb_snapshots db" "bdb_snapshots (updateVerification db v) = bdb_snapshots db"
  by (auto simp: insertVerification_def saveVerificationDepth_def updateVerification_def insertRun_def insert_run_row_def
      split: if_splits sum.splits)

lemma cleanup_db:
  assumes "cleanupVerification cfg dep db ver w = (w', db', v)"
  shows "bdb_runs db' = bdb_runs db" "bdb_snapshots db' = bdb_snapshots db" "ver_Status v = ver_Status ver"
    "ver_SnapshotID v = ver_SnapshotID ver" "ver_RepositoryID v = ver_RepositoryID ver"
  using assms by (auto simp: cleanupVerification_def Let_def record_runs record_snapshots split: if_splits option.splits prod.splits)

lemma fail_verify_run_ends:
  assumes "fail_verify_run dep db run stage stored e reds w = (w', db', ro, vo, x)" "idle_but (run_ID run) db"
  shows "idle db'" "bdb_snapshots db' = bdb_snapshots db" "x \<noteq> None"
  using assms failRun_eq(2) by (auto simp: fail_verify_run_def split: prod.splits dest: failRun_eq(2) intro: slot_intros)

lemma fail_ver_ends:
  assumes "fail_ver cfg dep db run ver stage e creds w = (w', db', ro, vo, x)" "idle_but (run_ID run) db"
  shows "idle db'" "bdb_snapshots db' = bdb_snapshots db" "x \<noteq> None"
proof -
  let ?v = "ver\<lparr>ver_Status := VerificationFailed, ver_Error := truncate_text (redact_creds (err_msg e) creds) maxErrorLength,
            ver_FinishedAt := Some (bd_Now dep w)\<rparr>"
  obtain w1 db1 v1 where c: "cleanupVerification cfg dep (updateVerification db ?v) ?v w = (w1, db1, v1)" using prod_cases3 by blast
  obtain w2 db2 r where f: "failRun dep db1 run stage e (secrets_of creds) w1 = (w2, db2, r)" using prod_cases3 by blast
  have "db' = db2" "x \<noteq> None" using assms(1) c f by (auto simp: fail_ver_def Let_def)
  moreover have "idle_but (run_ID run) db1"
    by (rule idle_same_runs [OF _ assms(2)]) (simp add: cleanup_db(1) [OF c] record_runs)
  ultimately show "idle db'" "bdb_snapshots db' = bdb_snapshots db" "x \<noteq> None"
    using failRun_slot [OF f] failRun_eq(2) [OF f] cleanup_db(2) [OF c] by (simp_all add: record_snapshots)
qed

definition marked :: "id \<Rightarrow> id \<Rightarrow> time \<Rightarrow> Snapshot list \<Rightarrow> Snapshot list" where
  "marked ri si at ss = update_where (\<lambda>s. snap_key s = (ri, si)) (\<lambda>s. s\<lparr>snap_VerifiedAt := Some at\<rparr>) ss"

lemma mark_Inr: "markSnapshotVerified db ri si at = Inr db' \<Longrightarrow> bdb_snapshots db' = marked ri si at (bdb_snapshots db)"
  by (auto simp: markSnapshotVerified_def marked_def split: if_splits)

lemma pass_verification_ends:
  assumes "pass_verification cfg dep db run ver rep creds w = (w', db', ro, vo, x)" "idle_but (run_ID run) db"
  shows "idle db' \<and> (case x of
      Some e \<Rightarrow> bdb_snapshots db' = bdb_snapshots db
    | None \<Rightarrow> bdb_snapshots db' = marked (ver_RepositoryID ver) (ver_SnapshotID ver) (bd_Now dep w) (bdb_snapshots db))"
proof -
  let ?d = "\<lparr>dep_ManifestFound = True, dep_SQLiteChecked = sg_SQLiteChecked rep, dep_SQLiteOK = sg_SQLiteOK rep,
            dep_PGChecked = sg_PGChecked rep, dep_PGOK = sg_PGOK rep, dep_CheckedAt = bd_Now dep w\<rparr>"
  let ?v = "ver\<lparr>ver_Depth := Some ?d, ver_Status := VerificationPassed, ver_FilesRestored := sg_Files rep,
                 ver_BytesRestored := sg_Bytes rep, ver_FinishedAt := Some (bd_Now dep w)\<rparr>"
  show ?thesis
  proof (cases "saveVerificationDepth db (ver_ID ver) ?d")
    case (Inl e)
    then have "fail_ver cfg dep db run ver StageVerify e creds w = (w', db', ro, vo, x)"
      using assms(1) by (simp add: pass_verification_def Let_def)
    from fail_ver_ends [OF this assms(2)] show ?thesis by (auto split: option.splits)
  next
    case s: (Inr db1)
    let ?db2 = "updateVerification db1 ?v"
    have ib: "idle_but (run_ID run) ?db2" by (rule idle_same_runs [OF _ assms(2)]) (simp add: record_runs(4) record_runs(2) [OF s])
    show ?thesis
    proof (cases "markSnapshotVerified ?db2 (ver_RepositoryID ver) (ver_SnapshotID ver) (bd_Now dep w)")
      case (Inl e)
      then have "fail_ver cfg dep ?db2 run ?v StageVerify e creds w = (w', db', ro, vo, x)"
        using assms(1) s by (simp add: pass_verification_def Let_def)
      from fail_ver_ends [OF this ib] show ?thesis by (auto simp: record_snapshots(4) record_snapshots(2) [OF s] split: option.splits)
    next
      case m: (Inr db3)
      obtain w1 db4 v1 where c: "cleanupVerification cfg dep db3 ?v w = (w1, db4, v1)" using prod_cases3 by blast
      let ?r = "run\<lparr>run_SnapshotID := ver_SnapshotID ver, run_Status := StatusCompleted, run_Stage := StageCompleted,
                      run_FinishedAt := Some (bd_Now dep w1)\<rparr>"
      have "db' = put_run ?r db4" "x = None" using assms(1) s m c by (simp_all add: pass_verification_def Let_def)
      moreover have "idle_but (run_ID run) db4"
        by (rule idle_same_runs [OF _ ib]) (simp add: cleanup_db(1) [OF c] record_runs(3) [OF m])
      ultimately show ?thesis using slot_put [of ?r db4]
        by (simp add: cleanup_db(2) [OF c] mark_Inr [OF m] record_snapshots(4) record_snapshots(2) [OF s])
    qed
  qed
qed

text \<open>The evidence behind a proof: the snapshot was restored, the repository checked and the
  restored tree validated, one after the other and each without an error.\<close>

definition proven :: "'w BackupDeps \<Rightarrow> Repository \<Rightarrow> Credentials \<Rightarrow> id \<Rightarrow> string \<Rightarrow> 'w \<Rightarrow> bool" where
  "proven dep repo creds si target w \<longleftrightarrow> (case bd_Restore dep (scopedRepository dep repo w) creds si target w of
      (w1, None) \<Rightarrow> (case bd_Check dep (scopedRepository dep repo w1) creds w1 of
          (w2, None) \<Rightarrow> (case bd_ValidateStaging dep target w2 of (w3, Inr rep) \<Rightarrow> True | _ \<Rightarrow> False) | _ \<Rightarrow> False)
    | _ \<Rightarrow> False)"

lemma prove_restorable_ends:
  assumes "prove_restorable cfg dep db repo run ver creds w = (w', db', ro, vo, x)" "idle_but (run_ID run) db"
  shows "idle db' \<and> (case x of
      Some e \<Rightarrow> bdb_snapshots db' = bdb_snapshots db
    | None \<Rightarrow> proven dep repo creds (ver_SnapshotID ver) (ver_Target ver) w \<and>
        (\<exists>at. bdb_snapshots db' = marked (ver_RepositoryID ver) (ver_SnapshotID ver) at (bdb_snapshots db)))"
proof -
  obtain w1 e1 where r: "bd_Restore dep (scopedRepository dep repo w) creds (ver_SnapshotID ver) (ver_Target ver) w = (w1, e1)" by fastforce
  show ?thesis
  proof (cases e1)
    case (Some e)
    then have "fail_ver cfg dep db run ver StageRestore e creds w1 = (w', db', ro, vo, x)"
      using assms(1) r by (simp add: prove_restorable_def)
    from fail_ver_ends [OF this assms(2)] show ?thesis by (auto split: option.splits)
  next
    case None
    let ?r = "run\<lparr>run_Stage := StageVerify\<rparr>" and ?db = "put_run (run\<lparr>run_Stage := StageVerify\<rparr>) db"
    have ib: "idle_but (run_ID ?r) ?db" using slot_kept [OF _ assms(2), of ?r] by simp
    note adv = advanceRun_eq [OF assms(2), of dep StageVerify creds w1]
    obtain w2 e2 where c: "bd_Check dep (scopedRepository dep repo w1) creds w1 = (w2, e2)" by fastforce
    show ?thesis
    proof (cases e2)
      case (Some e)
      then have "fail_ver cfg dep ?db ?r ver StageVerify (wrapctx ''restic check'' e) creds w2 = (w', db', ro, vo, x)"
        using assms(1) r None adv c by (simp add: prove_restorable_def)
      from fail_ver_ends [OF this ib] show ?thesis by (auto split: option.splits)
    next
      case c0: None
      obtain w3 p where v: "bd_ValidateStaging dep (ver_Target ver) w2 = (w3, p)" by fastforce
      show ?thesis
      proof (cases p)
        case (Inl e)
        then have "fail_ver cfg dep ?db ?r ver StageVerify e creds w3 = (w', db', ro, vo, x)"
          using assms(1) r None adv c c0 v by (simp add: prove_restorable_def)
        from fail_ver_ends [OF this ib] show ?thesis by (auto split: option.splits)
      next
        case (Inr rep)
        then have "pass_verification cfg dep ?db ?r ver rep creds w3 = (w', db', ro, vo, x)"
          using assms(1) r None adv c c0 v by (simp add: prove_restorable_def)
        from pass_verification_ends [OF this ib] show ?thesis using r None c c0 v Inr
          by (auto simp: proven_def split: option.splits)
      qed
    qed
  qed
qed

lemma verify_run_ends:
  assumes "verify_run cfg dep db repo snap run w = (w', db', ro, vo, x)" "idle_but (run_ID run) db"
  shows "idle db' \<and> (case x of
      Some e \<Rightarrow> bdb_snapshots db' = bdb_snapshots db
    | None \<Rightarrow> \<exists>creds target w0 at. proven dep repo creds (snap_ID snap) target w0 \<and>
        bdb_snapshots db' = marked (repo_ID repo) (snap_ID snap) at (bdb_snapshots db))"
proof -
  let ?r = "run\<lparr>run_Stage := StageRestore\<rparr>" and ?db = "put_run (run\<lparr>run_Stage := StageRestore\<rparr>) db"
  have ib: "idle_but (run_ID ?r) ?db" using slot_kept [OF _ assms(2), of ?r] by simp
  obtain w2 p where cr: "bd_Resolve dep (repo_SecretRef repo) w = (w2, p)" by fastforce
  show ?thesis
  proof (cases p)
    case (Inl e)
    then have "fail_verify_run dep db run StageCredentials (secret_error repo e) e [] w2 = (w', db', ro, vo, x)"
      using assms cr by (simp add: verify_run_def)
    from fail_verify_run_ends [OF this assms(2)] show ?thesis by (auto split: option.splits)
  next
    case (Inr creds)
    note adv = advanceRun_eq [OF assms(2), of dep StageRestore creds w2]
    let ?t = "path_join (bc_VerifyRoot cfg) (run_ID run)"
    obtain w4 pt where t: "prepare_target cfg dep ?t w2 = (w4, pt)" by fastforce
    obtain w5 vi where vi: "bd_NewID dep w4 = (w5, vi)" by fastforce
    let ?v = "\<lparr>ver_ID = vi, ver_RunID = run_ID run, ver_RepositoryID = repo_ID repo, ver_SnapshotID = snap_ID snap,
        ver_Status = VerificationRunning, ver_Target = ?t, ver_FilesRestored = 0, ver_BytesRestored = 0,
        ver_StartedAt = bd_Now dep w5, ver_FinishedAt = None, ver_CleanedAt = None, ver_Error = [],
        ver_CleanupError = [], ver_Depth = None\<rparr>"
    consider e w6 where "fail_verify_run dep ?db ?r StagePrepare e e (secrets_of creds) w6 = (w', db', ro, vo, x)"
      | db3 where "insertVerification ?db ?v = Inr db3" "prove_restorable cfg dep db3 repo ?r ?v creds w5 = (w', db', ro, vo, x)"
      using assms(1) cr Inr adv t vi by (auto simp: verify_run_def Let_def split: option.splits sum.splits)
    then show ?thesis
    proof cases
      case 1
      from fail_verify_run_ends [OF 1 ib] show ?thesis by (auto split: option.splits)
    next
      case 2
      have "idle_but (run_ID ?r) db3" by (rule idle_same_runs [OF record_runs(1) [OF 2(1)] ib])
      from prove_restorable_ends [OF 2(2) this] show ?thesis by (auto simp: record_snapshots(1) [OF 2(1)] split: option.splits)
    qed
  qed
qed

lemma Verify_ends:
  assumes "Verify cfg dep db req w = (w', db', ro, vo, x)"
  shows "(idle db \<longrightarrow> idle db') \<and> (case x of
      Some e \<Rightarrow> bdb_snapshots db' = bdb_snapshots db
    | None \<Rightarrow> \<exists>snap repo creds target w0 at. selectSnapshot db req = Inr snap \<and> getRepository db (snap_RepositoryID snap) = Inr repo \<and>
        proven dep repo creds (snap_ID snap) target w0 \<and>
        bdb_snapshots db' = marked (repo_ID repo) (snap_ID snap) at (bdb_snapshots db))"
proof -
  consider "db' = db" "x \<noteq> None"
    | snap repo w1 run db1 where "selectSnapshot db req = Inr snap" "getRepository db (snap_RepositoryID snap) = Inr repo"
      "start_run dep KindVerify (repo_ID repo) (vq_Trigger req) w = (w1, run)" "insertRun db run = Inr db1"
      "verify_run cfg dep db1 repo snap run w1 = (w', db', ro, vo, x)"
    using assms by (auto simp: Verify_def split: sum.splits prod.splits)
  then show ?thesis
  proof cases
    case 2
    from verify_run_ends [OF 2(5) started_slot [OF 2(3,4)]] show ?thesis
      using 2(1,2) by (auto simp: record_snapshots(3) [OF 2(4)] split: option.splits)
  qed (auto split: option.splits)
qed

section \<open>Restoring and reconciling\<close>

lemma fail_restore_slot [slot_intros]:
  "fail_restore dep db run stage stored e reds w = (w', db', ro, x) \<Longrightarrow> idle_but (run_ID run) db \<Longrightarrow> idle db'"
  by (auto simp: fail_restore_def split: prod.splits intro: slot_intros)

lemma finish_restore_slot [slot_intros]:
  "finish_restore dep db run snap repo target creds w = (w', db', ro, x) \<Longrightarrow> idle_but (run_ID run) db \<Longrightarrow> idle db'"
  by (auto simp: finish_restore_def Let_def split: sum.splits intro!: slot_put dest: record_runs(3) intro: slot_intros idle_same_runs)

lemma restore_run_slot [slot_intros]:
  assumes "restore_run dep db run snap repo target w = (w', db', ro, x)" "idle_but (run_ID run) db"
  shows "idle db'"
proof -
  let ?run = "run\<lparr>run_Stage := StageRestore\<rparr>"
  have ib: "idle_but (run_ID ?run) (put_run ?run db)" using slot_kept [OF _ assms(2), of ?run] by simp
  show ?thesis
    using assms(1) advanceRun_eq [OF assms(2), of dep StageRestore]
    by (simp add: restore_run_def split: prod.splits sum.splits option.splits)
      (erule fail_restore_slot [OF _ ib] finish_restore_slot [OF _ ib] fail_restore_slot [OF _ assms(2)])+
qed

lemma Restore_idle:
  assumes "Restore dep db req w = (w', db', ro, x)" "idle db"
  shows "idle db'"
  using assms by (auto simp: Restore_def split: prod.splits sum.splits dest: restore_run_slot [OF _ started_slot])

lemma close_runs_runs:
  "close_runs dep db rs w = (w', db') \<Longrightarrow>
     \<forall>r \<in> set (bdb_runs db'). run_Status r = StatusRunning \<longrightarrow> r \<in> set (bdb_runs db) \<and> run_ID r \<notin> run_ID ` set rs"
proof (induction rs arbitrary: db w)
  case (Cons q rs)
  obtain w1 db1 r1 where f: "failRun dep db q (if run_Stage q = [] then StagePrepare else run_Stage q) interrupted [] w = (w1, db1, r1)"
    using prod_cases3 by blast
  have "\<forall>r \<in> set (bdb_runs db1). run_Status r = StatusRunning \<longrightarrow> r \<in> set (bdb_runs db) \<and> run_ID r \<noteq> run_ID q"
    using failRun_eq(3,4) [OF f] unfolding failRun_eq(2) [OF f] put_run_def by (auto simp: set_update_where)
  moreover have "\<forall>r \<in> set (bdb_runs db'). run_Status r = StatusRunning \<longrightarrow> r \<in> set (bdb_runs db1) \<and> run_ID r \<notin> run_ID ` set rs"
    by (rule Cons.IH) (use Cons.prems f in simp)
  ultimately show ?case by auto
qed simp

lemma close_verifications_runs:
  "close_verifications cfg dep db vs w = (w', db') \<Longrightarrow> bdb_runs db' = bdb_runs db \<and> bdb_snapshots db' = bdb_snapshots db"
proof (induction vs arbitrary: db w)
  case (Cons v vs)
  let ?v = "v\<lparr>ver_Status := VerificationFailed, ver_Error := err_msg interrupted, ver_FinishedAt := Some (bd_Now dep w)\<rparr>"
  obtain w1 db1 v1 where c: "cleanupVerification cfg dep (updateVerification db ?v) ?v w = (w1, db1, v1)" using prod_cases3 by blast
  then have "close_verifications cfg dep db1 vs w1 = (w', db')" using Cons.prems by (simp add: Let_def)
  from Cons.IH [OF this] show ?case by (simp add: cleanup_db(1,2) [OF c] record_runs(4) record_snapshots(4))
qed simp

text \<open>At most one run is running, so the listing of the running runs is complete.\<close>

lemma running_listed:
  assumes "runs_ok R (bdb_runs db)" "r \<in> set (bdb_runs db)" "run_Status r = StatusRunning"
  shows "listRuns db \<lparr>rf_RepositoryID = [], rf_Kind = None, rf_Status = Some StatusRunning, rf_Limit = maxListingLimit\<rparr> = [r]"
proof -
  let ?rs = "filter (\<lambda>x. run_Status x = StatusRunning) (bdb_runs db)"
  have d: "distinct (map run_ID ?rs)" using assms(1) by (simp add: runs_ok_def filter_distinct_map)
  have all: "run_ID x = run_ID r" if "x \<in> set ?rs" for x
  proof -
    have "x \<in> set (bdb_runs db)" "run_Status x = StatusRunning" using that by simp_all
    then show ?thesis using assms unfolding runs_ok_def one_running_def by blast
  qed
  have mem: "r \<in> set ?rs" using assms(2,3) by simp
  have "length ?rs = card (run_ID ` set ?rs)" using distinct_card [OF d] by simp
  moreover have "run_ID ` set ?rs = {run_ID r}" using all mem by blast
  ultimately have "length ?rs = 1" by simp
  then have "?rs = [r]" using mem by (cases ?rs) (auto simp: length_Suc_conv)
  moreover have "filter (\<lambda>x. Some StatusRunning = Some (run_Status x)) (bdb_runs db) = ?rs" by (rule filter_cong) auto
  ultimately show ?thesis by (simp add: listRuns_def listing_limit_def maxListingLimit_def eq_commute [of StatusRunning])
qed

lemma one_running_length:
  assumes "distinct (map run_ID rs)" "one_running rs"
  shows "length (filter (\<lambda>r. run_Status r = StatusRunning) rs) \<le> 1"
proof -
  let ?rs = "filter (\<lambda>r. run_Status r = StatusRunning) rs"
  have "length ?rs = card (run_ID ` set ?rs)" using distinct_card [OF filter_distinct_map [OF assms(1)]] by simp
  moreover have "card (run_ID ` set ?rs) \<le> 1"
  proof (rule card_le_Suc0_iff_eq [THEN iffD2, simplified One_nat_def [symmetric]])
    show "\<forall>x \<in> run_ID ` set ?rs. \<forall>y \<in> run_ID ` set ?rs. x = y"
      using assms(2) unfolding one_running_def by auto
  qed simp
  ultimately show ?thesis by simp
qed

lemma ReconcileInterrupted_idle:
  assumes "ReconcileInterrupted cfg dep db w = (w', db', n)" "backups_ok db"
  shows "idle db'"
proof -
  let ?rs = "listRuns db \<lparr>rf_RepositoryID = [], rf_Kind = None, rf_Status = Some StatusRunning, rf_Limit = maxListingLimit\<rparr>"
  obtain w1 db1 where c: "close_runs dep db ?rs w = (w1, db1)" by fastforce
  have "bdb_runs db' = bdb_runs db1"
    using assms(1) c by (auto simp: ReconcileInterrupted_def Let_def dest: close_verifications_runs split: prod.splits)
  moreover have "run_Status r \<noteq> StatusRunning" if r: "r \<in> set (bdb_runs db1)" for r
  proof
    assume run: "run_Status r = StatusRunning"
    have o: "r \<in> set (bdb_runs db)" "run_ID r \<notin> run_ID ` set ?rs" using close_runs_runs [OF c] r run by auto
    have "?rs = [r]" using running_listed [OF _ o(1) run] assms(2) unfolding backups_ok_def by blast
    then show False using o(2) by simp
  qed
  ultimately show ?thesis by (simp add: idle_def)
qed

section \<open>A held slot\<close>

lemma insertRun_held:
  assumes "\<not> idle db" "run_Status r = StatusRunning"
  shows "insertRun db r = Inl (bare ErrOperationInProgress)"
proof -
  have "isSingleActiveViolation (unique_error ''backup_runs.id'')" "isSingleActiveViolation (unique_error ''backup_runs.status'')"
    by code_simp+
  then show ?thesis using assms by (auto simp: insertRun_def insert_run_row_def idle_def list_ex_iff)
qed

lemma held_start:
  assumes "\<not> idle db" "start_run dep k ri trigger w = (w1, run)"
  shows "insertRun db run = Inl (bare ErrOperationInProgress) \<and> w1 = fst (bd_NewID dep w)"
  using insertRun_held [OF assms(1)] start_run_simps [OF assms(2)] assms(2) by (auto simp: start_run_def split: prod.splits)

end
