(* ===== verification/BackupsProps.thy ===== *)
theory BackupsProps
  imports BackupsOutcome
begin

text \<open>
  internal/backups: the properties of the backup controller: its tables in every reachable state,
  the slot of the active run, what a verified snapshot rests on, the health rules, and what
  retention keeps.  The witnesses run the controller over a world that is a counter.
\<close>

section \<open>A deployment to evaluate\<close>

text \<open>The world is the clock and the source of identifiers; restic succeeds at everything and
  plans the given removals.\<close>

definition demo_deps :: "ForgetResultGroup list \<Rightarrow> int BackupDeps" where
  "demo_deps plan = \<lparr>bd_Init = (\<lambda>r c w. (w, None)),
     bd_Backup = (\<lambda>r c q w. (w + 1, Inr \<lparr>snap_ID = CHR ''s'' # itoa w, snap_RepositoryID = [], snap_RunID = [], snap_CreatedAt = 0,
        snap_Paths = br_Paths q, snap_SizeBytes = 10, snap_FileCount = 1, snap_VerifiedAt = None\<rparr>)),
     bd_Restore = (\<lambda>r c i t w. (w + 1, None)), bd_Snapshots = (\<lambda>r c n w. (w, Inr [''s''])),
     bd_Check = (\<lambda>r c w. (w + 1, None)), bd_Forget = (\<lambda>r c q w. (w + 1, Inr (if fr_DryRun q then plan else []))),
     bd_Stats = (\<lambda>r c w. (w, Inr \<lparr>rs_TotalSize = 10, rs_Snapshots = 1\<rparr>)),
     bd_Resolve = (\<lambda>s w. (w, Inr \<lparr>cr_Password = ''pw'', cr_Username = [], cr_AccessKey = []\<rparr>)),
     bd_Events = None, bd_InstanceID = Some (\<lambda>w. ''inst''), bd_Now = (\<lambda>w. w), bd_NewID = (\<lambda>w. (w + 1, CHR ''i'' # itoa w)),
     bd_MkdirAll = (\<lambda>p w. (w, None)), bd_Mkdir = (\<lambda>p w. (w, None)), bd_RemoveAll = (\<lambda>p w. (w, None)),
     bd_IsDir = (\<lambda>p w. Inr True),
     bd_ValidateStaging = (\<lambda>t w. (w + 1, Inr \<lparr>sg_Files = 1, sg_Bytes = 10, sg_SQLiteChecked = 1, sg_SQLiteOK = 1, sg_PGChecked = 0, sg_PGOK = 0\<rparr>)),
     bd_FreeBytes = (\<lambda>p w. Inr 0)\<rparr>"

definition demo_config :: BackupConfig where
  "demo_config = BackupConfig_withDefaults \<lparr>bc_Host = [], bc_VerifyRoot = [], bc_CacheDir = [], bc_RPO = 0, bc_RTO = 0, bc_VerifyInterval = 0,
     bc_Retention = \<lparr>KeepDaily = 0, KeepWeekly = 0, KeepMonthly = 0, KeepYearly = 0\<rparr>\<rparr>"

definition demo_run :: RunRequest where
  "demo_run = \<lparr>rq_RepositoryID = [], rq_Trigger = [], rq_Scopes = [''server-config''], rq_Paths = [''/srv/data''], rq_Excludes = []\<rparr>"

definition demo_verify :: "id \<Rightarrow> VerifyRequest" where
  "demo_verify i = \<lparr>vq_RepositoryID = [], vq_SnapshotID = i, vq_Trigger = []\<rparr>"

text \<open>A configured repository, two backups, the second snapshot verified, then the first.\<close>

definition demo_repository :: "int \<times> backup_db" where
  "demo_repository = (case Configure (\<lambda>_. None) (demo_deps []) empty_backup_db
     \<lparr>cq_ID = [], cq_Label = [], cq_Location = ''/srv/repo'', cq_SecretRef = \<lparr>sr_ID = ''k'', sr_Version = 1\<rparr>\<rparr> 1 of (w, db, _) \<Rightarrow> (w, db))"

definition demo_backup :: "int \<times> backup_db \<Rightarrow> int \<times> backup_db" where
  "demo_backup s = (case RunBackup demo_config (demo_deps []) (snd s) demo_run (fst s) of (w, db, _) \<Rightarrow> (w, db))"

definition demo_verified :: "id \<Rightarrow> int \<times> backup_db \<Rightarrow> int \<times> backup_db" where
  "demo_verified i s = (case Verify demo_config (demo_deps []) (snd s) (demo_verify i) (fst s) of (w, db, _) \<Rightarrow> (w, db))"

definition demo_two :: "int \<times> backup_db" where "demo_two = demo_backup (demo_backup demo_repository)"

definition demo_history :: "int \<times> backup_db" where
  "demo_history = demo_verified (snap_ID (bdb_snapshots (snd demo_two) ! 0)) (demo_verified (snap_ID (bdb_snapshots (snd demo_two) ! 1)) demo_two)"

text \<open>The tables after this history.\<close>

definition demo_end :: backup_db where
  "demo_end = \<lparr>bdb_repositories = [\<lparr>repo_ID = ''i1'', repo_Label = ''primary'', repo_Location = ''/srv/repo'', repo_SecretRef =
     \<lparr>sr_ID = ''k'', sr_Version = 1\<rparr>, repo_Attached = False, repo_CreatedAt = 1, repo_UpdatedAt = 1\<rparr>], bdb_runs =
     [\<lparr>run_ID = ''i2'', run_Kind = KindBackup, run_RepositoryID = ''i1'', run_Status = StatusCompleted, run_Trigger =
     ''manual'', run_Stage = ''completed'', run_SnapshotID = ''s3'', run_Stats = Some (1, 10), run_Error = [], run_StartedAt = 3,
     run_FinishedAt = Some 4\<rparr>, \<lparr>run_ID = ''i4'', run_Kind = KindBackup, run_RepositoryID = ''i1'', run_Status =
     StatusCompleted, run_Trigger = ''manual'', run_Stage = ''completed'', run_SnapshotID = ''s5'', run_Stats = Some (1, 10), run_Error
     = [], run_StartedAt = 5, run_FinishedAt = Some 6\<rparr>, \<lparr>run_ID = ''i6'', run_Kind = KindVerify, run_RepositoryID =
     ''i1'', run_Status = StatusCompleted, run_Trigger = ''manual'', run_Stage = ''completed'', run_SnapshotID = ''s5'', run_Stats =
     None, run_Error = [], run_StartedAt = 7, run_FinishedAt = Some 11\<rparr>, \<lparr>run_ID = ''i11'', run_Kind = KindVerify,
     run_RepositoryID = ''i1'', run_Status = StatusCompleted, run_Trigger = ''manual'', run_Stage = ''completed'', run_SnapshotID =
     ''s3'', run_Stats = None, run_Error = [], run_StartedAt = 12, run_FinishedAt = Some 16\<rparr>], bdb_snapshots = [\<lparr>snap_ID
     = ''s3'', snap_RepositoryID = ''i1'', snap_RunID = ''i2'', snap_CreatedAt = 4, snap_Paths = [''/srv/data''], snap_SizeBytes = 10,
     snap_FileCount = 1, snap_VerifiedAt = Some 16\<rparr>, \<lparr>snap_ID = ''s5'', snap_RepositoryID = ''i1'', snap_RunID = ''i4'',
     snap_CreatedAt = 6, snap_Paths = [''/srv/data''], snap_SizeBytes = 10, snap_FileCount = 1, snap_VerifiedAt = Some 11\<rparr>],
     bdb_verifications = [\<lparr>ver_ID = ''i7'', ver_RunID = ''i6'', ver_RepositoryID = ''i1'', ver_SnapshotID = ''s5'', ver_Status =
     VerificationPassed, ver_Target = ''/var/lib/omahab/backups/verify/i6'', ver_FilesRestored = 1, ver_BytesRestored = 10,
     ver_StartedAt = 8, ver_FinishedAt = Some 11, ver_CleanedAt = Some 11, ver_Error = [], ver_CleanupError = [], ver_Depth =
     None\<rparr>, \<lparr>ver_ID = ''i12'', ver_RunID = ''i11'', ver_RepositoryID = ''i1'', ver_SnapshotID = ''s3'', ver_Status =
     VerificationPassed, ver_Target = ''/var/lib/omahab/backups/verify/i11'', ver_FilesRestored = 1, ver_BytesRestored = 10,
     ver_StartedAt = 13, ver_FinishedAt = Some 16, ver_CleanedAt = Some 16, ver_Error = [], ver_CleanupError = [], ver_Depth =
     None\<rparr>], bdb_depths = [(''i7'', \<lparr>dep_ManifestFound = True, dep_SQLiteChecked = 1, dep_SQLiteOK = 1, dep_PGChecked =
     0, dep_PGOK = 0, dep_CheckedAt = 11\<rparr>), (''i12'', \<lparr>dep_ManifestFound = True, dep_SQLiteChecked = 1, dep_SQLiteOK = 1,
     dep_PGChecked = 0, dep_PGOK = 0, dep_CheckedAt = 16\<rparr>)], bdb_retention = [], bdb_health = None\<rparr>"

lemma demo_history_eq: "demo_history = (16, demo_end)"
  by code_simp

lemma demo_backup_reach: "reach (snd s) (snd (demo_backup s))"
  by (auto simp: demo_backup_def split: prod.splits intro: RunBackup_reach)

lemma demo_verified_reach: "reach (snd s) (snd (demo_verified i s))"
  by (auto simp: demo_verified_def split: prod.splits intro: Verify_reach)

lemma demo_repository_reach: "reach empty_backup_db (snd demo_repository)"
  by (auto simp: demo_repository_def split: prod.splits intro: Configure_reach)

lemma demo_history_reach: "reach empty_backup_db (snd demo_history)"
  unfolding demo_history_def demo_two_def
  by (rule rtranclp_trans [OF demo_repository_reach rtranclp_trans [OF demo_backup_reach rtranclp_trans [OF demo_backup_reach
        rtranclp_trans [OF demo_verified_reach demo_verified_reach]]]])

section \<open>The tables\<close>



section \<open>The slot of the active run\<close>

theorem held_slot_refuses_operations:
  assumes "\<exists>r \<in> set (bdb_runs db). run_Status r = StatusRunning"
  shows "(case RunBackup cfg dep db req w of (w', db', r, e) \<Rightarrow> db' = db \<and> r = None \<and>
      (case PreflightRepository dep db (rq_RepositoryID req) w of
         (w1, Inl x) \<Rightarrow> e = Some x \<and> w' = w1
       | (w1, Inr _) \<Rightarrow> e = Some (bare ErrOperationInProgress) \<and> w' = fst (bd_NewID dep w1))) \<and>
    (case Verify cfg dep db vreq w of (w', db', r, v, e) \<Rightarrow> db' = db \<and> r = None \<and> v = None \<and>
      (e \<noteq> None \<and> w' = w \<or> e = Some (bare ErrOperationInProgress) \<and> w' = fst (bd_NewID dep w))) \<and>
    (case Restore dep db rreq w of (w', db', r, e) \<Rightarrow> db' = db \<and> r = None \<and>
      (e \<noteq> None \<and> w' = w \<or> e = Some (bare ErrOperationInProgress) \<and> w' = fst (bd_NewID dep w)))"
proof -
  have ni: "\<not> idle db" using assms by (simp add: idle_def)
  note h = held_start [OF ni]
  show ?thesis
  proof (intro conjI)
    show "case RunBackup cfg dep db req w of (w', db', r, e) \<Rightarrow> db' = db \<and> r = None \<and>
      (case PreflightRepository dep db (rq_RepositoryID req) w of
         (w1, Inl x) \<Rightarrow> e = Some x \<and> w' = w1
       | (w1, Inr _) \<Rightarrow> e = Some (bare ErrOperationInProgress) \<and> w' = fst (bd_NewID dep w1))"
      unfolding RunBackup_def by (auto split: prod.split sum.split dest: h)
    show "case Verify cfg dep db vreq w of (w', db', r, v, e) \<Rightarrow> db' = db \<and> r = None \<and> v = None \<and>
      (e \<noteq> None \<and> w' = w \<or> e = Some (bare ErrOperationInProgress) \<and> w' = fst (bd_NewID dep w))"
      unfolding Verify_def by (auto split: prod.split sum.split dest: h)
    show "case Restore dep db rreq w of (w', db', r, e) \<Rightarrow> db' = db \<and> r = None \<and>
      (e \<noteq> None \<and> w' = w \<or> e = Some (bare ErrOperationInProgress) \<and> w' = fst (bd_NewID dep w))"
      unfolding Restore_def by (auto split: prod.split sum.split dest: h)
  qed
qed

definition demo_busy :: backup_db where
  "demo_busy = (snd demo_two)\<lparr>bdb_runs := map (\<lambda>r. r\<lparr>run_Status := StatusRunning\<rparr>) (take 1 (bdb_runs (snd demo_two)))\<rparr>"

theorem held_slot_refuses_operations_witness:
  "fst (snd (RunBackup demo_config (demo_deps []) demo_busy demo_run 9)) = demo_busy"
proof -
  have b: "\<exists>r \<in> set (bdb_runs demo_busy). run_Status r = StatusRunning" by code_simp
  show ?thesis
    using held_slot_refuses_operations [OF b, where cfg = demo_config and dep = "demo_deps []" and req = demo_run and w = 9, THEN conjunct1]
    by (auto split: prod.splits)
qed



section \<open>Verification\<close>

text \<open>
  C15: When a verification changes a snapshot row, it succeeded, the row is that of the
  selected snapshot, and the restore of that snapshot, the check of its repository and the
  validation of the restored tree succeeded one after the other; a verification that reports an
  error marks nothing.
\<close>

theorem a_verified_snapshot_was_proven:
  assumes "Verify cfg dep db req w = (w', db', ro, vo, x)" "s \<in> set (bdb_snapshots db')" "s \<notin> set (bdb_snapshots db)"
  shows "x = None \<and> (\<exists>snap repo creds target w0 w1 w2 w3 rep. selectSnapshot db req = Inr snap \<and>
    snap_ID s = snap_ID snap \<and> snap_RepositoryID s = repo_ID repo \<and> getRepository db (snap_RepositoryID snap) = Inr repo \<and>
    bd_Restore dep (scopedRepository dep repo w0) creds (snap_ID snap) target w0 = (w1, None) \<and>
    bd_Check dep (scopedRepository dep repo w1) creds w1 = (w2, None) \<and>
    bd_ValidateStaging dep target w2 = (w3, Inr rep))"
proof (cases x)
  case (Some e)
  then show ?thesis using Verify_ends [OF assms(1)] assms(2,3) by simp
next
  case None
  then obtain snap repo creds target w0 at where v: "selectSnapshot db req = Inr snap" "getRepository db (snap_RepositoryID snap) = Inr repo"
    "proven dep repo creds (snap_ID snap) target w0" "bdb_snapshots db' = marked (repo_ID repo) (snap_ID snap) at (bdb_snapshots db)"
    using Verify_ends [OF assms(1)] by auto
  have "snap_key s = (repo_ID repo, snap_ID snap)"
    using assms(2,3) unfolding v(4) marked_def by (auto simp: set_update_where)
  moreover obtain w1 w2 w3 rep where "bd_Restore dep (scopedRepository dep repo w0) creds (snap_ID snap) target w0 = (w1, None)"
    "bd_Check dep (scopedRepository dep repo w1) creds w1 = (w2, None)" "bd_ValidateStaging dep target w2 = (w3, Inr rep)"
    using v(3) by (auto simp: proven_def split: prod.splits option.splits sum.splits)
  ultimately show ?thesis using None v(1,2) by blast
qed

theorem a_verified_snapshot_was_proven_witness:
  "\<exists>s. s \<in> set (bdb_snapshots (snd (demo_verified ''s3'' demo_two))) \<and> s \<notin> set (bdb_snapshots (snd demo_two)) \<and>
     snd (snd (snd (snd (Verify demo_config (demo_deps []) (snd demo_two) (demo_verify ''s3'') (fst demo_two))))) = None"
proof -
  let ?db = "fst (snd (Verify demo_config (demo_deps []) (snd demo_two) (demo_verify ''s3'') (fst demo_two)))"
  have s: "bdb_snapshots ?db ! 0 \<in> set (bdb_snapshots ?db)" "bdb_snapshots ?db ! 0 \<notin> set (bdb_snapshots (snd demo_two))" by code_simp+
  have "snd (demo_verified ''s3'' demo_two) = ?db" by (simp add: demo_verified_def split: prod.splits)
  moreover have "Verify demo_config (demo_deps []) (snd demo_two) (demo_verify ''s3'') (fst demo_two) =
      (fst (Verify demo_config (demo_deps []) (snd demo_two) (demo_verify ''s3'') (fst demo_two)), ?db,
       fst (snd (snd (Verify demo_config (demo_deps []) (snd demo_two) (demo_verify ''s3'') (fst demo_two)))),
       fst (snd (snd (snd (Verify demo_config (demo_deps []) (snd demo_two) (demo_verify ''s3'') (fst demo_two))))),
       snd (snd (snd (snd (Verify demo_config (demo_deps []) (snd demo_two) (demo_verify ''s3'') (fst demo_two))))))" by simp
  ultimately show ?thesis using a_verified_snapshot_was_proven [OF _ s] s by metis
qed

section \<open>Health\<close>

lemma health_distinct: "HealthHealthy \<noteq> HealthUnhealthy" "HealthHealthy \<noteq> HealthDegraded" "HealthDegraded \<noteq> HealthUnhealthy"
  by (simp_all add: HealthHealthy_def HealthUnhealthy_def HealthDegraded_def)

lemma newest_within:
  "(case newest ts of None \<Rightarrow> False | Some t \<Rightarrow> now - t \<le> d) \<longleftrightarrow> (\<exists>t \<in> set ts. now - t \<le> d)"
proof (cases "newest ts")
  case (Some t)
  then have t: "t \<in> set ts" "\<And>u. u \<in> set ts \<Longrightarrow> u \<le> t" by (auto simp: newest_iff)
  then show ?thesis using Some by force
next
  case None
  then have "ts = []" by (simp add: newest_None)
  then show ?thesis by (simp add: newest_def)
qed

lemma set_finished: "t \<in> set (List.map_filter (\<lambda>r. if P r then f r else None) xs) \<longleftrightarrow> (\<exists>r \<in> set xs. P r \<and> f r = Some t)"
  by (induction xs) (auto simp: List.map_filter_simps split: if_splits option.splits)

text \<open>
  C16: The backups are healthy exactly when a completed backup run finished within the recovery
  point objective and a passed verification finished within the verification interval, and
  unhealthy exactly when there is no such backup run.
\<close>

theorem healthy_means_backed_up_and_verified:
  "(sp_Health (Backup_Status cfg dep db w) = HealthHealthy \<longleftrightarrow>
     (\<exists>r \<in> set (bdb_runs db). \<exists>t. run_Kind r = KindBackup \<and> run_Status r = StatusCompleted \<and> run_FinishedAt r = Some t \<and>
        bd_Now dep w - t \<le> bc_RPO cfg) \<and>
     (\<exists>v \<in> set (bdb_verifications db). \<exists>t. ver_Status v = VerificationPassed \<and> ver_FinishedAt v = Some t \<and>
        bd_Now dep w - t \<le> bc_VerifyInterval cfg)) \<and>
   (sp_Health (Backup_Status cfg dep db w) = HealthUnhealthy \<longleftrightarrow>
     \<not> (\<exists>r \<in> set (bdb_runs db). \<exists>t. run_Kind r = KindBackup \<and> run_Status r = StatusCompleted \<and> run_FinishedAt r = Some t \<and>
        bd_Now dep w - t \<le> bc_RPO cfg))"
proof -
  let ?now = "bd_Now dep w"
  have b: "(case lastCompletedBackupAt db of None \<Rightarrow> False | Some t \<Rightarrow> ?now - t \<le> bc_RPO cfg) \<longleftrightarrow>
      (\<exists>r \<in> set (bdb_runs db). \<exists>t. run_Kind r = KindBackup \<and> run_Status r = StatusCompleted \<and> run_FinishedAt r = Some t \<and> ?now - t \<le> bc_RPO cfg)"
    unfolding lastCompletedBackupAt_def newest_within finished_runs_def set_finished Bex_def by blast
  have v: "(case lastVerifiedRestoreAt db of None \<Rightarrow> False | Some t \<Rightarrow> ?now - t \<le> bc_VerifyInterval cfg) \<longleftrightarrow>
      (\<exists>v \<in> set (bdb_verifications db). \<exists>t. ver_Status v = VerificationPassed \<and> ver_FinishedAt v = Some t \<and> ?now - t \<le> bc_VerifyInterval cfg)"
    unfolding lastVerifiedRestoreAt_def newest_within set_finished Bex_def by blast
  show ?thesis unfolding b [symmetric] v [symmetric]
    using health_distinct by (auto simp: Backup_Status_def evaluateHealth_def health_report_def health_rules_def Let_def
        split: option.splits if_splits)
qed

section \<open>Retention\<close>

lemma removals_spare_protected: "i \<in> set protected \<Longrightarrow> i \<notin> set (removals protected plan)"
  by (simp add: removals_def group_removals_def)

lemma newest_verified_spared:
  assumes "newestVerifiedSnapshot db ri \<noteq> []"
  shows "newestVerifiedSnapshot db ri \<notin> set (removals (protectVerified db plan ri) plan)"
proof (cases "list_ex (\<lambda>g. List.member (fg_Remove g) (newestVerifiedSnapshot db ri)) plan")
  case True
  then show ?thesis using assms by (intro removals_spare_protected) (simp add: protectVerified_def Let_def)
next
  case False
  then show ?thesis by (auto simp: removals_def group_removals_def list_ex_iff)
qed

lemma delete_snapshots_eq:
  "bdb_snapshots (delete_snapshots db ri ids) = filter (\<lambda>s. \<not> (snap_RepositoryID s = ri \<and> snap_ID s \<in> set ids)) (bdb_snapshots db)"
proof (induction ids arbitrary: db)
  case (Cons i ids)
  have "delete_snapshots db ri (i # ids) = delete_snapshots (deleteSnapshot db ri i) ri ids" by (simp add: delete_snapshots_def)
  then show ?case by (simp add: Cons.IH deleteSnapshot_def) (rule filter_cong, auto)
qed (simp add: delete_snapshots_def)

lemma record_retention_snapshots:
  "record_retention dep db repo scoped creds res ids w = (w', db', r, x) \<Longrightarrow>
     bdb_snapshots db' = bdb_snapshots (delete_snapshots db (repo_ID repo) ids)"
  by (auto simp: record_retention_def saveRetentionState_def saveRetentionRow_def Let_def split: prod.splits sum.splits if_splits)

definition spared :: "backup_db \<Rightarrow> Snapshot \<Rightarrow> bool" where
  "spared db s \<longleftrightarrow> snap_ID s \<noteq> [] \<and> snap_ID s = newestVerifiedSnapshot db (snap_RepositoryID s)"

lemma apply_plan_snapshots:
  assumes "apply_plan dep db repo scoped creds res0 plan w = (w', db', r, x)"
  shows "filter (spared db) (bdb_snapshots db') = filter (spared db) (bdb_snapshots db)"
proof -
  let ?ids = "removals (protectVerified db plan (repo_ID repo)) plan"
  have "bdb_snapshots db' = bdb_snapshots db \<or> bdb_snapshots db' = bdb_snapshots (delete_snapshots db (repo_ID repo) ?ids)"
    using assms by (auto simp: apply_plan_def Let_def split: if_splits prod.splits sum.splits dest: record_retention_snapshots)
  moreover have "spared db s \<Longrightarrow> \<not> (snap_RepositoryID s = repo_ID repo \<and> snap_ID s \<in> set ?ids)" for s
    using newest_verified_spared [of db "repo_ID repo" plan] by (auto simp: spared_def)
  then have "filter (spared db) (filter (\<lambda>s. \<not> (snap_RepositoryID s = repo_ID repo \<and> snap_ID s \<in> set ?ids)) xs) = filter (spared db) xs" for xs
    by (simp only: filter_filter) (rule filter_cong, auto)
  ultimately show ?thesis unfolding delete_snapshots_eq by metis
qed

theorem retention_keeps_the_latest_proof:
  assumes "ApplyRetention cfg dep db i force w = (w', db', r, x)" "s \<in> set (bdb_snapshots db)" "snap_ID s \<noteq> []"
    "snap_ID s = newestVerifiedSnapshot db (snap_RepositoryID s)"
  shows "s \<in> set (bdb_snapshots db') \<and> snap_ID s \<notin> set (removals (protectVerified db plan (snap_RepositoryID s)) plan)"
proof
  have "filter (spared db) (bdb_snapshots db') = filter (spared db) (bdb_snapshots db)"
    using assms(1) by (auto simp: ApplyRetention_def Let_def split: prod.splits sum.splits if_splits dest: apply_plan_snapshots)
  moreover have "s \<in> set (filter (spared db) (bdb_snapshots db))" using assms(2-4) by (simp add: spared_def)
  ultimately show "s \<in> set (bdb_snapshots db')" by (metis filter_is_subset subsetD)
  show "snap_ID s \<notin> set (removals (protectVerified db plan (snap_RepositoryID s)) plan)"
    using newest_verified_spared [of db "snap_RepositoryID s" plan] assms(3,4) by simp
qed

definition demo_plan :: "ForgetResultGroup list" where
  "demo_plan = [\<lparr>fg_Tags = [''omahab''], fg_Keep = 0, fg_Remove = [''s3'', ''s5'']\<rparr>]"

theorem retention_keeps_the_latest_proof_witness:
  "bdb_snapshots demo_end ! 0 \<in> set (bdb_snapshots (fst (snd (ApplyRetention demo_config (demo_deps demo_plan) demo_end [] True 16))))"
proof -
  have s: "bdb_snapshots demo_end ! 0 \<in> set (bdb_snapshots demo_end)" "snap_ID (bdb_snapshots demo_end ! 0) \<noteq> []"
    "snap_ID (bdb_snapshots demo_end ! 0) = newestVerifiedSnapshot demo_end (snap_RepositoryID (bdb_snapshots demo_end ! 0))"
    by code_simp+
  obtain w' db' r x where a: "ApplyRetention demo_config (demo_deps demo_plan) demo_end [] True 16 = (w', db', r, x)"
    using prod_cases4 by blast
  show ?thesis using retention_keeps_the_latest_proof [OF a s] a by simp
qed

text \<open>The two snapshots of the history are both verified, the older one last.  A plan that
  forgets both loses the newer.\<close>

theorem retention_can_forget_the_newest_verified_snapshot:
  "case ApplyRetention demo_config (demo_deps demo_plan) (snd demo_history) [] True (fst demo_history) of (w', db', r, e) \<Rightarrow>
     map (\<lambda>s. (snap_ID s, snap_CreatedAt s, snap_VerifiedAt s)) (bdb_snapshots (snd demo_history)) =
       [(''s3'', 4, Some 16), (''s5'', 6, Some 11)] \<and>
     map snap_ID (bdb_snapshots db') = [''s3''] \<and> e = None"
  unfolding demo_history_eq by code_simp

text \<open>Redacting the password first can leave a part of an access key that contains it.\<close>

lemma redaction_leaves_a_part:
  "redact_creds ''key abcd1234'' \<lparr>cr_Password = ''abcd'', cr_Username = [], cr_AccessKey = ''abcd1234''\<rparr> = ''key [redacted]1234''"
  by code_simp

end
