(* ===== verification/Workspaces.thy ===== *)
theory Workspaces
  imports ProjectsValidate GoTime
begin

text \<open>
  internal/workspaces (service.go, migrations.go): workspaces, their lifecycle and their one-time
  capabilities.  The DevPod runner, the forge, the key issuer, the project and domain look-ups, the
  clock and the random values are a record of functions over an opaque world; url.Parse (host and
  path) and SHA-256 are arguments.  Timestamps are compared as the text they are stored in.
\<close>

section \<open>Vocabulary\<close>

definition WErrNotFound :: sentinel where "WErrNotFound = ErrSentinel ''workspace not found''"
definition ErrAlreadyExists :: sentinel where "ErrAlreadyExists = ErrSentinel ''workspace already exists''"
definition WErrValidation :: sentinel where "WErrValidation = ErrSentinel ''validation error''"
definition ErrCapabilityInvalid :: sentinel where "ErrCapabilityInvalid = ErrSentinel ''invalid capability''"
definition ErrCapabilityExpired :: sentinel where "ErrCapabilityExpired = ErrSentinel ''capability expired''"
definition ErrCapabilityConsumed :: sentinel where "ErrCapabilityConsumed = ErrSentinel ''capability already consumed''"
definition ErrProvisionFailed :: sentinel where "ErrProvisionFailed = ErrSentinel ''workspace provisioning failed''"

definition WStatusPending :: string where "WStatusPending = ''pending''"
definition WStatusRunning :: string where "WStatusRunning = ''running''"
definition WStatusStopped :: string where "WStatusStopped = ''stopped''"
definition WStatusExpired :: string where "WStatusExpired = ''expired''"

lemmas status_defs = WStatusPending_def WStatusRunning_def WStatusStopped_def WStatusExpired_def

definition DefaultIdleTimeout :: int where "DefaultIdleTimeout = 30 * 60 * 1000000000"
definition DefaultCapabilityTTL :: int where "DefaultCapabilityTTL = 5 * 60 * 1000000000"
definition hour :: int where "hour = 3600 * 1000000000"

definition allowedAgents :: "string list" where "allowedAgents = [''omp'', []]"

definition sensitiveWaitingTokens :: "string list" where
  "sensitiveWaitingTokens = [''token'', ''secret'', ''password'', ''key'', ''auth'', ''credential'', ''private'', ''hmac'', ''bearer'']"

definition redactWaitingLine :: "string \<Rightarrow> string" where
  "redactWaitingLine s = (if s = [] then s
     else if list_ex (contains_str (to_lower s)) sensitiveWaitingTokens then ''[REDACTED]''
     else take 200 s)"

record Workspace =
  ws_ID :: id
  ws_ProjectID :: id
  ws_Branch :: string
  ws_Title :: string
  ws_Instructions :: string
  ws_Agent :: string
  ws_Status :: string
  ws_LastActiveAt :: time
  ws_CreatedAt :: time
  ws_GatewayKeyID :: "id option"
  ws_WaitingLine :: string

record WorkspaceRow =
  wr_Workspace :: Workspace
  wr_Source :: string
  wr_UpdatedAt :: time
  wr_TokenName :: "string option"

record CapabilityRow =
  cap_ID :: id
  cap_WorkspaceID :: id
  cap_Hash :: string
  cap_ExpiresAt :: time
  cap_ConsumedAt :: "time option"
  cap_CreatedAt :: time

text \<open>The columns of a row are the fields of its workspace (no waiting line is stored) and three more;
  reading a row back drops an empty key identifier.\<close>

definition scanWorkspace :: "WorkspaceRow \<Rightarrow> Workspace" where
  "scanWorkspace r = (wr_Workspace r)\<lparr>ws_GatewayKeyID :=
     (case ws_GatewayKeyID (wr_Workspace r) of None \<Rightarrow> None | Some k \<Rightarrow> if k = [] then None else Some k)\<rparr>"

record workspaces_db =
  wdb_workspaces :: "WorkspaceRow list"
  wdb_capabilities :: "CapabilityRow list"

definition empty_workspaces_db :: workspaces_db where
  "empty_workspaces_db = \<lparr>wdb_workspaces = [], wdb_capabilities = []\<rparr>"

abbreviation wr_ID :: "WorkspaceRow \<Rightarrow> id" where "wr_ID r \<equiv> ws_ID (wr_Workspace r)"
abbreviation wr_Status :: "WorkspaceRow \<Rightarrow> string" where "wr_Status r \<equiv> ws_Status (wr_Workspace r)"

section \<open>Collaborators\<close>

record RepoRef =
  rf_Owner :: string
  rf_Name :: string

record RunnerOpts =
  ro_DevcontainerSource :: string
  ro_WorkspaceEnv :: "(string \<times> string) list"
  ro_Source :: string
  ro_ForgejoHost :: string
  ro_ForgejoToken :: string
  ro_ForgejoOwner :: string
  ro_ForgejoName :: string
  ro_Instructions :: string
  ro_Name :: string
  ro_DevcontainerContent :: string

record 'w Forge =
  fo_CreateAccessToken :: "string \<Rightarrow> RepoRef \<Rightarrow> 'w \<Rightarrow> 'w \<times> string result"
  fo_DeleteAccessToken :: "string \<Rightarrow> 'w \<Rightarrow> 'w"
  fo_GetFile :: "RepoRef \<Rightarrow> string \<Rightarrow> string \<Rightarrow> 'w \<Rightarrow> string result"
  fo_DefaultBranch :: "RepoRef \<Rightarrow> 'w \<Rightarrow> string result"

text \<open>A virtual key is its identifier and its token.\<close>

record 'w KeyIssuer =
  ki_Issue :: "string \<Rightarrow> id \<Rightarrow> 'w \<Rightarrow> 'w \<times> (id \<times> string) result"
  ki_Revoke :: "id \<Rightarrow> 'w \<Rightarrow> 'w"
  ki_Delete :: "id \<Rightarrow> 'w \<Rightarrow> 'w"

record 'w WorkspaceDeps =
  wd_Up :: "id \<Rightarrow> id \<Rightarrow> string \<Rightarrow> string \<Rightarrow> RunnerOpts \<Rightarrow> 'w \<Rightarrow> 'w \<times> goerror option"
  wd_Stop :: "id \<Rightarrow> 'w \<Rightarrow> 'w \<times> goerror option"
  wd_Delete :: "id \<Rightarrow> 'w \<Rightarrow> 'w \<times> goerror option"
  wd_Attach :: "id \<Rightarrow> 'w \<Rightarrow> 'w \<times> goerror option"
  wd_SSHProxy :: "id \<Rightarrow> 'w \<Rightarrow> 'w \<times> goerror option"
  wd_Send :: "id \<Rightarrow> string \<Rightarrow> 'w \<Rightarrow> 'w \<times> goerror option"
  wd_RunPrint :: "id \<Rightarrow> string \<Rightarrow> 'w \<Rightarrow> 'w \<times> string result"
  wd_CapturePane :: "id \<Rightarrow> 'w \<Rightarrow> string result"
  wd_CreateBranch :: "(RepoRef \<Rightarrow> string \<Rightarrow> string \<Rightarrow> 'w \<Rightarrow> 'w \<times> goerror option) option"
  wd_Forgejo :: "'w Forge option"
  wd_Providers :: "'w KeyIssuer option"
  wd_CloneURL :: "(id \<Rightarrow> 'w \<Rightarrow> string result) option"
  wd_Domain :: "('w \<Rightarrow> string result) option"
  wd_Now :: "'w \<Rightarrow> time"
  wd_Rand :: "nat \<Rightarrow> 'w \<Rightarrow> 'w \<times> string"

text \<open>Random bytes (wd_Rand yields as many as asked) in hexadecimal.\<close>

definition rand_hex :: "nat \<Rightarrow> 'w WorkspaceDeps \<Rightarrow> 'w \<Rightarrow> 'w \<times> string" where
  "rand_hex n dep w = (case wd_Rand dep n w of (w1, b) \<Rightarrow> (w1, hex_encode b))"

definition newShortID :: "'w WorkspaceDeps \<Rightarrow> 'w \<Rightarrow> 'w \<times> string" where "newShortID = rand_hex 2"
definition newID :: "'w WorkspaceDeps \<Rightarrow> 'w \<Rightarrow> 'w \<times> id" where "newID = rand_hex 16"
definition newToken :: "'w WorkspaceDeps \<Rightarrow> 'w \<Rightarrow> 'w \<times> string" where "newToken = rand_hex 32"

section \<open>Names\<close>

fun slug_chars :: "bool \<Rightarrow> string \<Rightarrow> string" where
  "slug_chars dashed [] = []"
| "slug_chars dashed (c # s) =
     (if is_lower c \<or> is_digit c then c # slug_chars False s
      else if dashed then slug_chars True s else CHR ''-'' # slug_chars True s)"

definition slugify :: "string \<Rightarrow> string" where
  "slugify title = (let s = to_lower (trim_space title); slug = trim_func (\<lambda>c. c = CHR ''-'') (slug_chars False s) in
     if length slug > 40 then trim_right (\<lambda>c. c = CHR ''-'') (take 40 slug) else slug)"

definition branch_char :: "char \<Rightarrow> bool" where
  "branch_char c \<longleftrightarrow> is_upper c \<or> is_lower c \<or> is_digit c \<or> List.member ''._/-'' c"

definition branchRe :: "string \<Rightarrow> bool" where
  "branchRe s \<longleftrightarrow> (case s of [] \<Rightarrow> False | c # r \<Rightarrow> (is_upper c \<or> is_lower c \<or> is_digit c) \<and> list_all branch_char r)"

text \<open>The host without its port, owner and name of a clone URL.\<close>

definition parseRepoRef :: "(string \<Rightarrow> string + (string \<times> string)) \<Rightarrow> string \<Rightarrow> (RepoRef \<times> string) result" where
  "parseRepoRef url_parse cloneURL = (case url_parse (trim_space cloneURL) of
      Inl m \<Rightarrow> Inl (errorf (''parse clone url: '' @ m))
    | Inr (host0, path0) \<Rightarrow>
        (let host = takeWhile (\<lambda>c. c \<noteq> CHR '':'') host0;
             parts = split_on CHR ''/'' (trim_suffix (trim_func (\<lambda>c. c = CHR ''/'') path0) ''.git'');
             bad = errorf (''invalid clone url path '' @ quote path0) in
         if length parts < 2 then Inl bad
         else (let owner = parts ! (length parts - 2); name = parts ! (length parts - 1) in
           if owner = [] \<or> name = [] then Inl bad else Inr (\<lparr>rf_Owner = owner, rf_Name = name\<rparr>, host))))"

section \<open>Statements\<close>

definition getWorkspaceRow :: "workspaces_db \<Rightarrow> id \<Rightarrow> WorkspaceRow result" where
  "getWorkspaceRow db i = (case List.find (\<lambda>r. wr_ID r = i) (wdb_workspaces db) of
      None \<Rightarrow> Inl (bare WErrNotFound) | Some r \<Rightarrow> Inr r)"

definition same_branch :: "id \<Rightarrow> string \<Rightarrow> WorkspaceRow \<Rightarrow> bool" where
  "same_branch p b r \<longleftrightarrow> ws_ProjectID (wr_Workspace r) = p \<and> ws_Branch (wr_Workspace r) = b"

definition live :: "WorkspaceRow \<Rightarrow> bool" where
  "live r \<longleftrightarrow> wr_Status r = WStatusPending \<or> wr_Status r = WStatusRunning"

definition insertWorkspace :: "workspaces_db \<Rightarrow> WorkspaceRow \<Rightarrow> workspaces_db result" where
  "insertWorkspace db r =
     (if list_ex (\<lambda>x. wr_ID x = wr_ID r \<or> same_branch (ws_ProjectID (wr_Workspace r)) (ws_Branch (wr_Workspace r)) x) (wdb_workspaces db)
      then Inl (bare ErrAlreadyExists) else Inr (db\<lparr>wdb_workspaces := wdb_workspaces db @ [r]\<rparr>))"

definition update_workspace :: "(WorkspaceRow \<Rightarrow> WorkspaceRow) \<Rightarrow> id \<Rightarrow> workspaces_db \<Rightarrow> workspaces_db" where
  "update_workspace f i db = db\<lparr>wdb_workspaces := update_where (\<lambda>r. wr_ID r = i) f (wdb_workspaces db)\<rparr>"

definition setStatus :: "string \<Rightarrow> time \<Rightarrow> id \<Rightarrow> workspaces_db \<Rightarrow> workspaces_db" where
  "setStatus st now i db = update_workspace (\<lambda>r. r\<lparr>wr_Workspace := (wr_Workspace r)\<lparr>ws_Status := st\<rparr>, wr_UpdatedAt := now\<rparr>) i db"

definition touch :: "time \<Rightarrow> id \<Rightarrow> workspaces_db \<Rightarrow> workspaces_db" where
  "touch now i db = update_workspace (\<lambda>r. r\<lparr>wr_Workspace := (wr_Workspace r)\<lparr>ws_LastActiveAt := now\<rparr>, wr_UpdatedAt := now\<rparr>) i db"

text \<open>Renaming the branch is refused, and the refusal ignored, when the pair is taken.\<close>

definition setBranch :: "string \<Rightarrow> time \<Rightarrow> id \<Rightarrow> workspaces_db \<Rightarrow> workspaces_db" where
  "setBranch b now i db = (case getWorkspaceRow db i of
      Inl _ \<Rightarrow> db
    | Inr r \<Rightarrow>
        if list_ex (\<lambda>x. wr_ID x \<noteq> i \<and> same_branch (ws_ProjectID (wr_Workspace r)) b x) (wdb_workspaces db) then db
        else update_workspace (\<lambda>x. x\<lparr>wr_Workspace := (wr_Workspace x)\<lparr>ws_Branch := b\<rparr>, wr_UpdatedAt := now\<rparr>) i db)"

definition setGatewayKey :: "id \<Rightarrow> time \<Rightarrow> id \<Rightarrow> workspaces_db \<Rightarrow> workspaces_db" where
  "setGatewayKey k now i db =
     update_workspace (\<lambda>r. r\<lparr>wr_Workspace := (wr_Workspace r)\<lparr>ws_GatewayKeyID := Some k\<rparr>, wr_UpdatedAt := now\<rparr>) i db"

definition setTokenName :: "string \<Rightarrow> time \<Rightarrow> id \<Rightarrow> workspaces_db \<Rightarrow> workspaces_db" where
  "setTokenName n now i db = update_workspace (\<lambda>r. r\<lparr>wr_TokenName := Some n, wr_UpdatedAt := now\<rparr>) i db"

definition deleteWorkspaceRows :: "id \<Rightarrow> workspaces_db \<Rightarrow> workspaces_db" where
  "deleteWorkspaceRows i db = \<lparr>wdb_workspaces = filter (\<lambda>r. wr_ID r \<noteq> i) (wdb_workspaces db),
     wdb_capabilities = filter (\<lambda>c. cap_WorkspaceID c \<noteq> i) (wdb_capabilities db)\<rparr>"

definition insertCapability :: "workspaces_db \<Rightarrow> CapabilityRow \<Rightarrow> workspaces_db result" where
  "insertCapability db c =
     (if list_ex (\<lambda>x. cap_ID x = cap_ID c) (wdb_capabilities db)
        then Inl (errorf ''constraint failed: UNIQUE constraint failed: workspace_capabilities.id'')
      else if \<not> list_ex (\<lambda>r. wr_ID r = cap_WorkspaceID c) (wdb_workspaces db)
        then Inl (errorf ''constraint failed: FOREIGN KEY constraint failed'')
      else Inr (db\<lparr>wdb_capabilities := wdb_capabilities db @ [c]\<rparr>))"

text \<open>Consuming touches only a row that is not consumed; the flag tells whether there was one.\<close>

definition consumeCapability :: "time \<Rightarrow> id \<Rightarrow> workspaces_db \<Rightarrow> workspaces_db \<times> bool" where
  "consumeCapability now i db = (let P = (\<lambda>c. cap_ID c = i \<and> (case cap_ConsumedAt c of None \<Rightarrow> True | Some _ \<Rightarrow> False)) in
     (db\<lparr>wdb_capabilities := update_where P (\<lambda>c. c\<lparr>cap_ConsumedAt := Some now\<rparr>) (wdb_capabilities db)\<rparr>, list_ex P (wdb_capabilities db)))"

section \<open>Reading\<close>

definition populateWaitingLine :: "'w WorkspaceDeps \<Rightarrow> 'w \<Rightarrow> Workspace \<Rightarrow> Workspace" where
  "populateWaitingLine dep w ws =
     (if ws_Status ws \<noteq> WStatusRunning then ws
      else case wd_CapturePane dep (ws_ID ws) w of
        Inl _ \<Rightarrow> ws
      | Inr raw \<Rightarrow> if trim_space raw = [] then ws
          else ws\<lparr>ws_WaitingLine := redactWaitingLine (take 200 (trim_space raw))\<rparr>)"

definition workspace_Get :: "'w WorkspaceDeps \<Rightarrow> workspaces_db \<Rightarrow> id \<Rightarrow> 'w \<Rightarrow> Workspace result" where
  "workspace_Get dep db i w = (case getWorkspaceRow db i of
      Inl e \<Rightarrow> Inl e | Inr r \<Rightarrow> Inr (populateWaitingLine dep w (scanWorkspace r)))"

definition by_created :: "WorkspaceRow list \<Rightarrow> WorkspaceRow list" where
  "by_created rs = sort_key (\<lambda>r. FormatTime (ws_CreatedAt (wr_Workspace r))) rs"

definition workspace_List :: "'w WorkspaceDeps \<Rightarrow> workspaces_db \<Rightarrow> 'w \<Rightarrow> Workspace list" where
  "workspace_List dep db w = map (populateWaitingLine dep w \<circ> scanWorkspace) (by_created (wdb_workspaces db))"

definition ListByProject :: "workspaces_db \<Rightarrow> id \<Rightarrow> Workspace list" where
  "ListByProject db p = map scanWorkspace (by_created (filter (\<lambda>r. ws_ProjectID (wr_Workspace r) = p) (wdb_workspaces db)))"

section \<open>Creating\<close>

record CreateInput =
  ci_ProjectID :: id
  ci_Title :: string
  ci_Instructions :: string
  ci_Agent :: string
  ci_DevcontainerSource :: string
  ci_SkipBranchCreate :: bool
  ci_Branch :: string

text \<open>Title, slug, agent and devcontainer source.\<close>

definition create_check :: "CreateInput \<Rightarrow> (string \<times> string \<times> string \<times> string) result" where
  "create_check inp =
     (let title = trim_space (ci_Title inp); slug = slugify title;
          agent = (if trim_space (ci_Agent inp) = [] then ''omp'' else trim_space (ci_Agent inp));
          src = (if trim_space (ci_DevcontainerSource inp) = [] then ''default'' else trim_space (ci_DevcontainerSource inp)) in
      if title = [] then Inl (wrapf WErrValidation ''title is required'')
      else if slug = [] then Inl (wrapf WErrValidation ''title must contain alphanumeric characters'')
      else if trim_space (ci_ProjectID inp) = [] then Inl (wrapf WErrValidation ''project_id is required'')
      else if \<not> List.member allowedAgents agent then Inl (wrapf WErrValidation (''unsupported agent '' @ quote agent))
      else if src \<noteq> ''default'' \<and> src \<noteq> ''devcontainer''
        then Inl (wrapf WErrValidation (''devcontainer source must be '' @ [char_of (39 :: nat)] @ ''default'' @ [char_of (39 :: nat)] @
          '' or '' @ [char_of (39 :: nat)] @ ''devcontainer'' @ [char_of (39 :: nat)]))
      else Inr (title, slug, agent, src))"

definition generated_branch :: "string \<Rightarrow> string \<Rightarrow> string" where
  "generated_branch slug short = ''ws/'' @ slug @ ''-'' @ short"

definition choose_branch :: "CreateInput \<Rightarrow> string \<Rightarrow> string \<Rightarrow> string result" where
  "choose_branch inp slug short =
     (let b = (if ci_SkipBranchCreate inp \<and> trim_space (ci_Branch inp) \<noteq> [] then trim_space (ci_Branch inp) else generated_branch slug short) in
      if b = ''.'' \<or> b = ''..'' \<or> contains_str b ''..'' then Inl (wrapf WErrValidation ''branch contains path traversal'')
      else if \<not> branchRe b then Inl (wrapf WErrValidation ''invalid branch name'')
      else Inr b)"

definition rollbackCreate :: "'w WorkspaceDeps \<Rightarrow> workspaces_db \<Rightarrow> id \<Rightarrow> id \<Rightarrow> string \<Rightarrow> 'w \<Rightarrow> 'w \<times> workspaces_db" where
  "rollbackCreate dep db i keyID tokenName w =
     (let w1 = (case wd_Providers dep of None \<Rightarrow> w | Some p \<Rightarrow> if trim_space keyID \<noteq> [] then ki_Delete p keyID w else w);
          w2 = (case wd_Forgejo dep of None \<Rightarrow> w1 | Some f \<Rightarrow> if trim_space tokenName \<noteq> [] then fo_DeleteAccessToken f tokenName w1 else w1) in
      (w2, deleteWorkspaceRows i db))"

text \<open>The clone URL, the repository (an empty owner when it is not known) and its host, and the
  branch new branches start from.\<close>

definition resolve_repo ::
  "(string \<Rightarrow> string + (string \<times> string)) \<Rightarrow> 'w WorkspaceDeps \<Rightarrow> id \<Rightarrow> 'w \<Rightarrow> string \<times> RepoRef \<times> string \<times> string" where
  "resolve_repo url_parse dep p w =
     (let url = (case wd_CloneURL dep of None \<Rightarrow> [] | Some f \<Rightarrow> (case f p w of Inl _ \<Rightarrow> [] | Inr u \<Rightarrow> u));
          (ref, host) = (if url = [] then (\<lparr>rf_Owner = [], rf_Name = []\<rparr>, [])
            else case parseRepoRef url_parse url of Inl _ \<Rightarrow> (\<lparr>rf_Owner = [], rf_Name = []\<rparr>, []) | Inr rh \<Rightarrow> rh);
          base = (case wd_Forgejo dep of None \<Rightarrow> ''main''
            | Some f \<Rightarrow> if rf_Owner ref = [] then ''main''
                else (case fo_DefaultBranch f ref w of Inl _ \<Rightarrow> ''main'' | Inr b \<Rightarrow> if b = [] then ''main'' else b)) in
      (url, ref, host, base))"

definition scm_conflict :: "sentinel" where "scm_conflict = ErrSentinel ''conflict''"

definition branch_taken :: "goerror \<Rightarrow> bool" where
  "branch_taken e \<longleftrightarrow> errors_is e scm_conflict \<or> contains_str (to_lower (err_msg e)) ''already exists'' \<or> errors_is e ErrAlreadyExists"

definition provision_failed :: "string \<Rightarrow> goerror \<Rightarrow> goerror" where
  "provision_failed m e = GoErr (ErrProvisionFailed # err_chain e) (sentinel_text ErrProvisionFailed @ '': '' @ m @ '': '' @ err_msg e)"

text \<open>The branch that was made, after one retry under another name, or the error.\<close>

definition make_branch ::
  "'w WorkspaceDeps \<Rightarrow> workspaces_db \<Rightarrow> CreateInput \<Rightarrow> id \<Rightarrow> string \<Rightarrow> string \<Rightarrow> RepoRef \<Rightarrow> string \<Rightarrow> time \<Rightarrow> 'w \<Rightarrow>
     'w \<times> workspaces_db \<times> string result" where
  "make_branch dep db inp i slug branch ref base now w =
     (case wd_CreateBranch dep of
        None \<Rightarrow> (w, db, Inr branch)
      | Some create \<Rightarrow>
          if ci_SkipBranchCreate inp \<or> rf_Owner ref = [] then (w, db, Inr branch)
          else (case create ref branch base w of
              (w1, None) \<Rightarrow> (w1, db, Inr branch)
            | (w1, Some e) \<Rightarrow>
                if \<not> branch_taken e then (w1, db, Inl (provision_failed (''create branch '' @ quote branch) e))
                else (case newShortID dep w1 of (w2, short2) \<Rightarrow>
                  (let branch2 = generated_branch slug short2; db1 = setBranch branch2 now i db in
                   case create ref branch2 base w2 of
                     (w3, None) \<Rightarrow> (w3, db1, Inr branch2)
                   | (w3, Some e2) \<Rightarrow> (w3, db1, Inl (provision_failed (''create branch '' @ quote branch2) e2))))))"

text \<open>The identifier and the token of the key, when one was issued.\<close>

definition issue_key :: "'w WorkspaceDeps \<Rightarrow> workspaces_db \<Rightarrow> id \<Rightarrow> time \<Rightarrow> 'w \<Rightarrow> 'w \<times> workspaces_db \<times> (id \<times> string) option" where
  "issue_key dep db i now w = (case wd_Providers dep of
      None \<Rightarrow> (w, db, None)
    | Some p \<Rightarrow> (case ki_Issue p (''workspace-'' @ i) i w of
        (w1, Inl _) \<Rightarrow> (w1, db, None)
      | (w1, Inr (k, tok)) \<Rightarrow> (w1, setGatewayKey k now i db, Some (k, tok))))"

text \<open>The name and the text of the access token, both empty when there is none.\<close>

definition issue_token ::
  "'w WorkspaceDeps \<Rightarrow> workspaces_db \<Rightarrow> id \<Rightarrow> RepoRef \<Rightarrow> time \<Rightarrow> 'w \<Rightarrow> 'w \<times> workspaces_db \<times> string \<times> string" where
  "issue_token dep db i ref now w = (case wd_Forgejo dep of
      None \<Rightarrow> (w, db, [], [])
    | Some f \<Rightarrow> if rf_Owner ref = [] then (w, db, [], [])
        else (case fo_CreateAccessToken f (''ws-'' @ i) ref w of
            (w1, Inl _) \<Rightarrow> (w1, db, [], [])
          | (w1, Inr tok) \<Rightarrow> (w1, setTokenName (''ws-'' @ i) now i db, ''ws-'' @ i, tok)))"

definition workspace_env :: "string \<Rightarrow> string \<Rightarrow> id \<Rightarrow> (string \<times> string) list" where
  "workspace_env dm key i =
     (let base = ''https://models.'' @ (if dm = [] then ''example.com'' else dm) in
      [(''OPENAI_BASE_URL'', base @ ''/v1''), (''ANTHROPIC_BASE_URL'', base)] @
      (if key = [] then [] else [(''OPENAI_API_KEY'', key), (''ANTHROPIC_API_KEY'', key)]) @
      [(''OMAHAB_WORKSPACE_ID'', i), (''GIT_AUTHOR_NAME'', ''omahab''), (''GIT_AUTHOR_EMAIL'', ''omahab@localhost''),
       (''GIT_COMMITTER_NAME'', ''omahab''), (''GIT_COMMITTER_EMAIL'', ''omahab@localhost'')])"

definition source_url :: "string \<Rightarrow> id \<Rightarrow> string \<Rightarrow> string" where
  "source_url cloneURL p branch =
     (let s = (if cloneURL = [] then ''https://forgejo.local/'' @ p @ ''.git'' else cloneURL) in
      if branch \<noteq> [] \<and> \<not> List.member s CHR ''@'' then s @ ''@'' @ branch else s)"

definition runner_opts ::
  "'w WorkspaceDeps \<Rightarrow> CreateInput \<Rightarrow> id \<Rightarrow> string \<Rightarrow> string \<Rightarrow> string \<times> RepoRef \<times> string \<times> string \<Rightarrow> string \<Rightarrow> string \<Rightarrow> 'w \<Rightarrow> RunnerOpts" where
  "runner_opts dep inp i src branch repo key token w = (case repo of (url, ref, host, base) \<Rightarrow>
     (let dm = (case wd_Domain dep of None \<Rightarrow> [] | Some f \<Rightarrow> (case f w of Inl _ \<Rightarrow> [] | Inr d \<Rightarrow> trim_space d));
          content = (case wd_Forgejo dep of None \<Rightarrow> []
            | Some f \<Rightarrow> if src = ''devcontainer'' \<and> rf_Owner ref \<noteq> []
                then (case fo_GetFile f ref ''.devcontainer/devcontainer.json'' branch w of Inl _ \<Rightarrow> [] | Inr d \<Rightarrow> d) else []) in
      \<lparr>ro_DevcontainerSource = src, ro_WorkspaceEnv = workspace_env dm key i, ro_Source = source_url url (ci_ProjectID inp) branch,
        ro_ForgejoHost = host, ro_ForgejoToken = token, ro_ForgejoOwner = rf_Owner ref, ro_ForgejoName = rf_Name ref,
        ro_Instructions = ci_Instructions inp, ro_Name = replace_char CHR ''/'' ''-'' branch, ro_DevcontainerContent = content\<rparr>))"

text \<open>What follows the branch: the credentials, the start of the backend, the status.\<close>

definition provision ::
  "'w WorkspaceDeps \<Rightarrow> workspaces_db \<Rightarrow> CreateInput \<Rightarrow> Workspace \<Rightarrow> string \<Rightarrow> string \<times> RepoRef \<times> string \<times> string \<Rightarrow> time \<Rightarrow> 'w \<Rightarrow>
     'w \<times> workspaces_db \<times> Workspace result" where
  "provision dep db inp ws src repo now w =
     (case issue_key dep db (ws_ID ws) now w of (w1, db1, vk) \<Rightarrow>
     (case issue_token dep db1 (ws_ID ws) (fst (snd repo)) now w1 of (w2, db2, tname, token) \<Rightarrow>
     (case wd_Up dep (ws_ID ws) (ci_ProjectID inp) (ws_Branch ws) (ws_Agent ws)
         (runner_opts dep inp (ws_ID ws) src (ws_Branch ws) repo (case vk of None \<Rightarrow> [] | Some (_, key) \<Rightarrow> key) token w2) w2 of
        (w3, Some e) \<Rightarrow> (case rollbackCreate dep db2 (ws_ID ws) (case vk of None \<Rightarrow> [] | Some (k, _) \<Rightarrow> k) tname w3 of (w4, db3) \<Rightarrow>
          (w4, db3, Inl (provision_failed ''start workspace backend'' e)))
      | (w3, None) \<Rightarrow> (w3, setStatus WStatusRunning now (ws_ID ws) db2,
          Inr (ws\<lparr>ws_Status := WStatusRunning, ws_GatewayKeyID := map_option fst vk\<rparr>)))))"

definition workspace_Create ::
  "(string \<Rightarrow> string + (string \<times> string)) \<Rightarrow> 'w WorkspaceDeps \<Rightarrow> workspaces_db \<Rightarrow> CreateInput \<Rightarrow> 'w \<Rightarrow>
     'w \<times> workspaces_db \<times> Workspace result" where
  "workspace_Create url_parse dep db inp w = (case create_check inp of
      Inl e \<Rightarrow> (w, db, Inl e)
    | Inr (title, slug, agent, src) \<Rightarrow> (case newShortID dep w of (w1, short) \<Rightarrow>
        (case choose_branch inp slug short of
           Inl e \<Rightarrow> (w1, db, Inl e)
         | Inr branch \<Rightarrow>
             if list_ex (\<lambda>r. same_branch (ci_ProjectID inp) branch r \<and> live r) (wdb_workspaces db) then (w1, db, Inl (bare ErrAlreadyExists))
             else (case newID dep w1 of (w2, i) \<Rightarrow>
               (let now = wd_Now dep w2;
                    ws = \<lparr>ws_ID = i, ws_ProjectID = ci_ProjectID inp, ws_Branch = branch, ws_Title = title, ws_Instructions = ci_Instructions inp,
                      ws_Agent = agent, ws_Status = WStatusPending, ws_LastActiveAt = now, ws_CreatedAt = now, ws_GatewayKeyID = None,
                      ws_WaitingLine = []\<rparr> in
                case insertWorkspace db \<lparr>wr_Workspace = ws, wr_Source = src, wr_UpdatedAt = now, wr_TokenName = None\<rparr> of
                  Inl e \<Rightarrow> (w2, db, Inl e)
                | Inr db1 \<Rightarrow> (case resolve_repo url_parse dep (ci_ProjectID inp) w2 of (url, ref, host, base) \<Rightarrow>
                    (case make_branch dep db1 inp i slug branch ref base now w2 of
                       (w3, db2, Inl e) \<Rightarrow> (case rollbackCreate dep db2 i [] [] w3 of (w4, db3) \<Rightarrow> (w4, db3, Inl e))
                     | (w3, db2, Inr b) \<Rightarrow> provision dep db2 inp (ws\<lparr>ws_Branch := b\<rparr>) src (url, ref, host, base) now w3)))))))"

end
