(* ===== verification/WorkspacesLife.thy ===== *)
theory WorkspacesLife
  imports Workspaces
begin

text \<open>
  internal/workspaces (service.go): stopping, deleting, attaching, idle expiry and capabilities.
  SHA-256 is an argument.  Timestamps are stored, and by idle expiry compared, as text.
\<close>

section \<open>Lifecycle\<close>

definition ended :: "Workspace \<Rightarrow> bool" where
  "ended ws \<longleftrightarrow> ws_Status ws = WStatusStopped \<or> ws_Status ws = WStatusExpired"

definition not_usable :: "Workspace \<Rightarrow> goerror" where
  "not_usable ws = wrapf WErrValidation (''workspace is '' @ ws_Status ws)"

definition workspace_Stop :: "'w WorkspaceDeps \<Rightarrow> workspaces_db \<Rightarrow> id \<Rightarrow> 'w \<Rightarrow> 'w \<times> workspaces_db \<times> goerror option" where
  "workspace_Stop dep db i w = (case workspace_Get dep db i w of
      Inl e \<Rightarrow> (w, db, Some e)
    | Inr ws \<Rightarrow> if ended ws then (w, db, None)
        else (case wd_Stop dep i w of
            (w1, Some e) \<Rightarrow> (w1, db, Some (wrapctx ''runner stop'' e))
          | (w1, None) \<Rightarrow> (w1, setStatus WStatusStopped (wd_Now dep w1) i db, None)))"

definition token_name :: "WorkspaceRow \<Rightarrow> string" where
  "token_name r = (case wr_TokenName r of None \<Rightarrow> ''ws-'' @ wr_ID r | Some n \<Rightarrow> if n = [] then ''ws-'' @ wr_ID r else n)"

definition revoke_access :: "'w WorkspaceDeps \<Rightarrow> id option \<Rightarrow> WorkspaceRow \<Rightarrow> 'w \<Rightarrow> 'w" where
  "revoke_access dep key r w =
     (let w1 = (case key of None \<Rightarrow> w
            | Some k \<Rightarrow> (case wd_Providers dep of None \<Rightarrow> w | Some p \<Rightarrow> ki_Revoke p k w)) in
      case wd_Forgejo dep of None \<Rightarrow> w1 | Some f \<Rightarrow> fo_DeleteAccessToken f (token_name r) w1)"

definition workspace_Delete :: "'w WorkspaceDeps \<Rightarrow> workspaces_db \<Rightarrow> id \<Rightarrow> 'w \<Rightarrow> 'w \<times> workspaces_db \<times> goerror option" where
  "workspace_Delete dep db i w = (case getWorkspaceRow db i of
      Inl e \<Rightarrow> (w, db, Some e)
    | Inr r \<Rightarrow> (case wd_Delete dep i (revoke_access dep (ws_GatewayKeyID (scanWorkspace r)) r w) of
        (w1, Some e) \<Rightarrow> (w1, db, Some (wrapctx ''runner delete'' e))
      | (w1, None) \<Rightarrow> (w1, deleteWorkspaceRows i db, None)))"

text \<open>Attach, SSHProxy, Send and RunPrint: only on a workspace that has not ended; a success of all
  but SSHProxy counts as activity.\<close>

definition on_usable ::
  "'w WorkspaceDeps \<Rightarrow> workspaces_db \<Rightarrow> id \<Rightarrow> ('w \<Rightarrow> goerror option) \<Rightarrow> ('w \<Rightarrow> 'w \<times> 'a result) \<Rightarrow> string \<Rightarrow> bool \<Rightarrow> 'w \<Rightarrow>
     'w \<times> workspaces_db \<times> 'a result" where
  "on_usable dep db i check act what touches w = (case workspace_Get dep db i w of
      Inl e \<Rightarrow> (w, db, Inl e)
    | Inr ws \<Rightarrow> if ended ws then (w, db, Inl (not_usable ws))
        else (case check w of
            Some e \<Rightarrow> (w, db, Inl e)
          | None \<Rightarrow> (case act w of
              (w1, Inl e) \<Rightarrow> (w1, db, Inl (wrapctx (''runner '' @ what) e))
            | (w1, Inr x) \<Rightarrow> (w1, if touches then touch (wd_Now dep w1) i db else db, Inr x))))"

definition as_result :: "'w \<times> goerror option \<Rightarrow> 'w \<times> unit result" where
  "as_result p = (case p of (w, None) \<Rightarrow> (w, Inr ()) | (w, Some e) \<Rightarrow> (w, Inl e))"

definition workspace_Attach :: "'w WorkspaceDeps \<Rightarrow> workspaces_db \<Rightarrow> id \<Rightarrow> 'w \<Rightarrow> 'w \<times> workspaces_db \<times> unit result" where
  "workspace_Attach dep db i w = on_usable dep db i (\<lambda>_. None) (\<lambda>w. as_result (wd_Attach dep i w)) ''attach'' True w"

definition workspace_SSHProxy :: "'w WorkspaceDeps \<Rightarrow> workspaces_db \<Rightarrow> id \<Rightarrow> 'w \<Rightarrow> 'w \<times> workspaces_db \<times> unit result" where
  "workspace_SSHProxy dep db i w = on_usable dep db i (\<lambda>_. None) (\<lambda>w. as_result (wd_SSHProxy dep i w)) ''ssh-proxy'' False w"

definition workspace_Send :: "'w WorkspaceDeps \<Rightarrow> workspaces_db \<Rightarrow> id \<Rightarrow> string \<Rightarrow> 'w \<Rightarrow> 'w \<times> workspaces_db \<times> unit result" where
  "workspace_Send dep db i msg w = on_usable dep db i
     (\<lambda>_. if trim_space msg = [] then Some (wrapf WErrValidation ''message is required'') else None)
     (\<lambda>w. as_result (wd_Send dep i msg w)) ''send'' True w"

definition workspace_RunPrint :: "'w WorkspaceDeps \<Rightarrow> workspaces_db \<Rightarrow> id \<Rightarrow> string \<Rightarrow> 'w \<Rightarrow> 'w \<times> workspaces_db \<times> string result" where
  "workspace_RunPrint dep db i prompt w = on_usable dep db i
     (\<lambda>_. if trim_space prompt = [] then Some (wrapf WErrValidation ''prompt is required'') else None)
     (wd_RunPrint dep i prompt) ''runprint'' True w"

definition workspace_Touch :: "'w WorkspaceDeps \<Rightarrow> workspaces_db \<Rightarrow> id \<Rightarrow> 'w \<Rightarrow> workspaces_db \<times> goerror option" where
  "workspace_Touch dep db i w = (case workspace_Get dep db i w of
      Inl e \<Rightarrow> (db, Some e)
    | Inr ws \<Rightarrow> if ended ws then (db, Some (not_usable ws)) else (touch (wd_Now dep w) i db, None))"

section \<open>Idle expiry\<close>

definition idle_rows :: "workspaces_db \<Rightarrow> time \<Rightarrow> WorkspaceRow list" where
  "idle_rows db cutoff = filter (\<lambda>r. live r \<and> FormatTime (ws_LastActiveAt (wr_Workspace r)) < FormatTime cutoff) (wdb_workspaces db)"

fun expire_rows :: "'w WorkspaceDeps \<Rightarrow> workspaces_db \<Rightarrow> WorkspaceRow list \<Rightarrow> 'w \<Rightarrow> 'w \<times> workspaces_db" where
  "expire_rows dep db [] w = (w, db)"
| "expire_rows dep db (r # rs) w = (case wd_Stop dep (wr_ID r) w of (w1, _) \<Rightarrow>
     (let w2 = revoke_access dep (ws_GatewayKeyID (wr_Workspace r)) r w1 in
      expire_rows dep (setStatus WStatusExpired (wd_Now dep w2) (wr_ID r) db) rs w2))"

definition ExpireIdle :: "'w WorkspaceDeps \<Rightarrow> workspaces_db \<Rightarrow> int \<Rightarrow> 'w \<Rightarrow> 'w \<times> workspaces_db \<times> nat" where
  "ExpireIdle dep db idleTimeout w =
     (let t = (if idleTimeout \<le> 0 then DefaultIdleTimeout else idleTimeout); rs = idle_rows db (wd_Now dep w - t) in
      case expire_rows dep db rs w of (w1, db1) \<Rightarrow> (w1, db1, length rs))"

section \<open>Capabilities\<close>

definition hashToken :: "(string \<Rightarrow> string) \<Rightarrow> string \<Rightarrow> string" where
  "hashToken sha token = (if token = [] then [] else sha token)"

definition IssueCapability ::
  "(string \<Rightarrow> string) \<Rightarrow> 'w WorkspaceDeps \<Rightarrow> workspaces_db \<Rightarrow> id \<Rightarrow> int \<Rightarrow> 'w \<Rightarrow> 'w \<times> workspaces_db \<times> (string \<times> time) result" where
  "IssueCapability sha dep db i ttl w = (case workspace_Get dep db i w of
      Inl e \<Rightarrow> (w, db, Inl e)
    | Inr _ \<Rightarrow>
        (let t0 = (if ttl \<le> 0 then DefaultCapabilityTTL else ttl); t = (if t0 > hour then hour else t0) in
         case newToken dep w of (w1, token) \<Rightarrow> (case newID dep w1 of (w2, ci) \<Rightarrow>
           (let expires = wd_Now dep w1 + t in
            case insertCapability db \<lparr>cap_ID = ci, cap_WorkspaceID = i, cap_Hash = hashToken sha token, cap_ExpiresAt = expires,
                cap_ConsumedAt = None, cap_CreatedAt = wd_Now dep w2\<rparr> of
              Inl e \<Rightarrow> (w2, db, Inl (wrapctx ''insert capability'' e))
            | Inr db1 \<Rightarrow> (w2, db1, Inr (token, expires))))))"

definition ValidateCapability :: "(string \<Rightarrow> string) \<Rightarrow> time \<Rightarrow> workspaces_db \<Rightarrow> id \<Rightarrow> string \<Rightarrow> workspaces_db \<times> goerror option" where
  "ValidateCapability sha now db i token =
     (let h = hashToken sha (trim_space token) in
      if h = [] \<or> trim_space token = [] then (db, Some (bare ErrCapabilityInvalid))
      else (case List.find (\<lambda>c. cap_WorkspaceID c = i \<and> cap_Hash c = h) (wdb_capabilities db) of
          None \<Rightarrow> (db, Some (bare ErrCapabilityInvalid))
        | Some c \<Rightarrow>
            if (case cap_ConsumedAt c of None \<Rightarrow> False | Some _ \<Rightarrow> True) then (db, Some (bare ErrCapabilityConsumed))
            else if now > cap_ExpiresAt c then (db, Some (bare ErrCapabilityExpired))
            else (case consumeCapability now (cap_ID c) db of
                (db1, False) \<Rightarrow> (db1, Some (bare ErrCapabilityConsumed))
              | (db1, True) \<Rightarrow> (touch now i db1, None))))"

end
