(* ===== verification/WorkspacesStates.thy ===== *)
theory WorkspacesStates
  imports WorkspacesLife Tables
begin

text \<open>
  internal/workspaces: the statements as a step relation, in which any interleaving of operations is
  a sequence; what every reachable state satisfies; and that the operations are such sequences.
\<close>

section \<open>Statement steps\<close>

definition branch_ok :: "string \<Rightarrow> bool" where
  "branch_ok b \<longleftrightarrow> branchRe b \<and> \<not> contains_str b ''..''"

definition row_ok :: "WorkspaceRow \<Rightarrow> bool" where
  "row_ok r \<longleftrightarrow> branch_ok (ws_Branch (wr_Workspace r)) \<and> ws_Agent (wr_Workspace r) = ''omp'' \<and>
     (wr_Source r = ''default'' \<or> wr_Source r = ''devcontainer'') \<and> slugify (ws_Title (wr_Workspace r)) \<noteq> [] \<and>
     List.member [WStatusPending, WStatusRunning, WStatusStopped, WStatusExpired] (wr_Status r)"

inductive ws_step :: "workspaces_db \<Rightarrow> workspaces_db \<Rightarrow> bool" where
  ws_insert: "insertWorkspace db r = Inr db' \<Longrightarrow> wr_Status r = WStatusPending \<Longrightarrow> row_ok r \<Longrightarrow> ws_step db db'"
| ws_status: "List.member [WStatusRunning, WStatusStopped, WStatusExpired] st \<Longrightarrow> ws_step db (setStatus st now i db)"
| ws_touch: "ws_step db (touch now i db)"
| ws_branch: "branch_ok b \<Longrightarrow> ws_step db (setBranch b now i db)"
| ws_key: "ws_step db (setGatewayKey k now i db)"
| ws_token: "ws_step db (setTokenName n now i db)"
| ws_delete: "ws_step db (deleteWorkspaceRows i db)"
| ws_capability: "insertCapability db c = Inr db' \<Longrightarrow> ws_step db db'"
| ws_consume: "ws_step db (fst (consumeCapability now i db))"

section \<open>Well-formed tables\<close>

definition pair_of :: "WorkspaceRow \<Rightarrow> id \<times> string" where
  "pair_of r = (ws_ProjectID (wr_Workspace r), ws_Branch (wr_Workspace r))"

abbreviation ws_ids :: "workspaces_db \<Rightarrow> id set" where "ws_ids db \<equiv> wr_ID ` set (wdb_workspaces db)"

definition rows_ok :: "WorkspaceRow list \<Rightarrow> bool" where
  "rows_ok rs \<longleftrightarrow> distinct (map wr_ID rs) \<and> distinct (map pair_of rs) \<and> list_all row_ok rs"

definition caps_ok :: "id set \<Rightarrow> CapabilityRow list \<Rightarrow> bool" where
  "caps_ok W cs \<longleftrightarrow> distinct (map cap_ID cs) \<and> cap_WorkspaceID ` set cs \<subseteq> W"

definition workspaces_ok :: "workspaces_db \<Rightarrow> bool" where
  "workspaces_ok db \<longleftrightarrow> rows_ok (wdb_workspaces db) \<and> caps_ok (ws_ids db) (wdb_capabilities db)"

lemma same_branch_pair: "same_branch p b r \<longleftrightarrow> pair_of r = (p, b)"
  by (auto simp: same_branch_def pair_of_def)

lemma insertWorkspace_Inr:
  assumes "insertWorkspace db r = Inr db'"
  shows "wr_ID r \<notin> ws_ids db" "pair_of r \<notin> pair_of ` set (wdb_workspaces db)"
    "db' = db\<lparr>wdb_workspaces := wdb_workspaces db @ [r]\<rparr>"
  using assms by (auto simp: insertWorkspace_def list_ex_iff same_branch_pair pair_of_def split: if_splits)

lemma insertCapability_Inr:
  assumes "insertCapability db c = Inr db'"
  shows "cap_ID c \<notin> cap_ID ` set (wdb_capabilities db)" "cap_WorkspaceID c \<in> ws_ids db"
    "db' = db\<lparr>wdb_capabilities := wdb_capabilities db @ [c]\<rparr>"
  using assms by (auto simp: insertCapability_def list_ex_key split: if_splits)

text \<open>An update that keeps the identifier, the pair and the form of the rows.\<close>

lemma update_workspace_ok:
  assumes "workspaces_ok db" and keep: "\<And>r. wr_ID (f r) = wr_ID r" "\<And>r. pair_of (f r) = pair_of r" "\<And>r. row_ok r \<Longrightarrow> row_ok (f r)"
  shows "workspaces_ok (update_workspace f i db)"
  using assms unfolding workspaces_ok_def update_workspace_def rows_ok_def
  by (simp add: map_update_where_key image_update_where_key) (auto simp: list_all_iff set_update_where)

lemma updates_ok:
  assumes "workspaces_ok db"
  shows "List.member [WStatusRunning, WStatusStopped, WStatusExpired] st \<Longrightarrow> workspaces_ok (setStatus st now i db)"
    "workspaces_ok (touch now i db)" "workspaces_ok (setGatewayKey k now i db)" "workspaces_ok (setTokenName n now i db)"
  unfolding setStatus_def touch_def setGatewayKey_def setTokenName_def
  by (rule update_workspace_ok [OF assms]; simp add: pair_of_def row_ok_def; fail)+

lemma distinct_pair_update:
  assumes "distinct (map wr_ID rs)" "distinct (map pair_of rs)" "\<forall>x \<in> set rs. wr_ID x \<noteq> i \<longrightarrow> pair_of x \<noteq> q"
    "\<And>x. x \<in> set rs \<Longrightarrow> wr_ID x = i \<Longrightarrow> pair_of (f x) = q"
  shows "distinct (map pair_of (update_where (\<lambda>x. wr_ID x = i) f rs))"
  using assms by (induction rs) (auto simp: update_where_def image_iff)

lemma getWorkspaceRow_Inr:
  assumes "getWorkspaceRow db i = Inr r" shows "r \<in> set (wdb_workspaces db)" "wr_ID r = i"
  using assms find_Some_in [of "\<lambda>r. wr_ID r = i" "wdb_workspaces db" r] by (auto simp: getWorkspaceRow_def split: option.splits)

lemma setBranch_ok:
  assumes "workspaces_ok db" "branch_ok b" shows "workspaces_ok (setBranch b now i db)"
proof (cases "getWorkspaceRow db i")
  case (Inr r)
  note r = getWorkspaceRow_Inr [OF Inr]
  let ?f = "\<lambda>x. x\<lparr>wr_Workspace := (wr_Workspace x)\<lparr>ws_Branch := b\<rparr>, wr_UpdatedAt := now\<rparr>"
  let ?q = "(ws_ProjectID (wr_Workspace r), b)"
  let ?rs = "wdb_workspaces db"
  have ok: "distinct (map wr_ID ?rs)" "distinct (map pair_of ?rs)" "list_all row_ok ?rs" "caps_ok (ws_ids db) (wdb_capabilities db)"
    using assms(1) by (simp_all add: workspaces_ok_def rows_ok_def)
  show ?thesis
  proof (cases "list_ex (\<lambda>x. wr_ID x \<noteq> i \<and> same_branch (ws_ProjectID (wr_Workspace r)) b x) ?rs")
    case False
    have one: "x = r" if "x \<in> set ?rs" "wr_ID x = i" for x
      using that r ok(1) by (metis distinct_map inj_on_def)
    have "distinct (map pair_of (update_where (\<lambda>x. wr_ID x = i) ?f ?rs))"
      using False one by (intro distinct_pair_update [OF ok(1,2), of i ?q]) (auto simp: list_ex_iff same_branch_pair pair_of_def)
    then have "rows_ok (update_where (\<lambda>x. wr_ID x = i) ?f ?rs)"
      using ok assms(2) by (auto simp: rows_ok_def map_update_where_key list_all_iff set_update_where row_ok_def)
    then show ?thesis using Inr False ok(4) by (simp add: setBranch_def update_workspace_def workspaces_ok_def image_update_where_key)
  qed (simp add: setBranch_def Inr assms(1))
qed (simp add: setBranch_def assms(1))

lemma deleteWorkspaceRows_ok:
  assumes "workspaces_ok db" shows "workspaces_ok (deleteWorkspaceRows i db)"
  using assms unfolding workspaces_ok_def deleteWorkspaceRows_def rows_ok_def caps_ok_def
  by (auto simp: filter_distinct_map list_all_iff)

lemma ws_step_ok: "ws_step db db' \<Longrightarrow> workspaces_ok db \<Longrightarrow> workspaces_ok db'"
proof (induction rule: ws_step.induct)
  case (ws_insert db r db')
  then show ?case using insertWorkspace_Inr [OF ws_insert.hyps(1)]
    by (auto simp: workspaces_ok_def rows_ok_def caps_ok_def)
next
  case (ws_capability db c db')
  then show ?case using insertCapability_Inr [OF ws_capability.hyps]
    by (auto simp: workspaces_ok_def caps_ok_def)
next
  case (ws_consume db now i)
  then show ?case
    by (simp add: workspaces_ok_def caps_ok_def consumeCapability_def Let_def map_update_where_key image_update_where_key)
qed (auto intro: updates_ok setBranch_ok deleteWorkspaceRows_ok)

interpretation ws: statement_tables ws_step workspaces_ok empty_workspaces_db
  by (unfold_locales, simp add: workspaces_ok_def rows_ok_def caps_ok_def empty_workspaces_db_def, erule (1) ws_step_ok)

section \<open>Generated branches\<close>

definition slug_char :: "char \<Rightarrow> bool" where
  "slug_char c \<longleftrightarrow> is_lower c \<or> is_digit c \<or> c = CHR ''-''"

lemma set_slug_chars: "c \<in> set (slug_chars d s) \<Longrightarrow> slug_char c"
  by (induction d s rule: slug_chars.induct) (auto simp: slug_char_def split: if_splits)

lemma set_trim: "c \<in> set (trim_func P s) \<Longrightarrow> c \<in> set s" "c \<in> set (trim_right P s) \<Longrightarrow> c \<in> set s"
  by (metis set_dropWhileD set_rev trim_func_def trim_left_def trim_right_def)+

lemma set_slugify: "c \<in> set (slugify t) \<Longrightarrow> slug_char c"
  by (auto simp: slugify_def Let_def split: if_splits dest!: set_trim in_set_takeD set_slug_chars)

lemma hex_digit_slug: "n < 16 \<Longrightarrow> slug_char (hex_digit n)"
  by (simp add: slug_char_def hex_digit_def is_digit_def is_lower_def)

lemma set_hex_encode: "c \<in> set (hex_encode s) \<Longrightarrow> slug_char c"
  by (auto simp: hex_encode_def less_mult_imp_div_less intro!: hex_digit_slug)

lemma newShortID_slug: "newShortID dep w = (w', s) \<Longrightarrow> c \<in> set s \<Longrightarrow> slug_char c"
  by (auto simp: newShortID_def rand_hex_def set_hex_encode split: prod.splits)

lemma dots_absent: "CHR ''.'' \<notin> set b \<Longrightarrow> \<not> contains_str b ''..''"
  by (auto simp: contains_str_iff)

lemma slug_char_branch: "slug_char c \<Longrightarrow> branch_char c" "slug_char c \<Longrightarrow> c \<noteq> CHR ''.''"
  by (auto simp: slug_char_def branch_char_def is_lower_def is_digit_def)

lemma generated_branch_ok:
  assumes "\<And>c. c \<in> set s \<Longrightarrow> slug_char c" shows "branch_ok (generated_branch (slugify t) s)"
proof -
  have "list_all slug_char (slugify t @ ''-'' @ s)"
    using set_slugify assms by (auto simp: list_all_iff) (simp add: slug_char_def)
  then have "list_all branch_char (slugify t @ ''-'' @ s)" "CHR ''.'' \<notin> set (slugify t @ ''-'' @ s)"
    by (auto simp: list_all_iff slug_char_branch(1)) (use slug_char_branch(2) in blast)+
  then show ?thesis
    by (simp add: branch_ok_def generated_branch_def branchRe_def dots_absent has_prefix_def is_lower_def branch_char_def)
qed

section \<open>Operations are sequences of statements\<close>

abbreviation reach :: "workspaces_db \<Rightarrow> workspaces_db \<Rightarrow> bool" where "reach \<equiv> ws_step\<^sup>*\<^sup>*"

named_theorems reach_intros

lemma reach_step: "ws_step db db' \<Longrightarrow> reach db0 db \<Longrightarrow> reach db0 db'"
  by (rule rtranclp.rtrancl_into_rtrancl)

lemma ws_reach_statements [reach_intros]:
  "insertCapability db c = Inr db' \<Longrightarrow> reach db0 db \<Longrightarrow> reach db0 db'"
  "List.member [WStatusRunning, WStatusStopped, WStatusExpired] st \<Longrightarrow> reach db0 db \<Longrightarrow> reach db0 (setStatus st now i db)"
  "reach db0 db \<Longrightarrow> reach db0 (touch now i db)"
  "branch_ok b \<Longrightarrow> reach db0 db \<Longrightarrow> reach db0 (setBranch b now i db)"
  "reach db0 db \<Longrightarrow> reach db0 (setGatewayKey k now i db)"
  "reach db0 db \<Longrightarrow> reach db0 (setTokenName n now i db)"
  "reach db0 db \<Longrightarrow> reach db0 (deleteWorkspaceRows i db)"
  by (blast intro: reach_step ws_step.intros)+

lemma consume_reach [reach_intros]: "consumeCapability now i db = (db', f) \<Longrightarrow> reach db0 db \<Longrightarrow> reach db0 db'"
  by (metis fst_conv reach_step ws_consume)

lemma status_members [simp]:
  "List.member [WStatusRunning, WStatusStopped, WStatusExpired] WStatusRunning"
  "List.member [WStatusRunning, WStatusStopped, WStatusExpired] WStatusStopped"
  "List.member [WStatusRunning, WStatusStopped, WStatusExpired] WStatusExpired"
  by (simp_all add: status_defs)

lemma rollbackCreate_reach [reach_intros]: "rollbackCreate dep db i k t w = (w', db') \<Longrightarrow> reach db0 db \<Longrightarrow> reach db0 db'"
  by (auto simp: rollbackCreate_def Let_def intro: reach_intros)

lemma issue_reach [reach_intros]:
  "issue_key dep db i now w = (w', db', x) \<Longrightarrow> reach db0 db \<Longrightarrow> reach db0 db'"
  "issue_token dep db i ref now w = (w', db', y) \<Longrightarrow> reach db0 db \<Longrightarrow> reach db0 db'"
  by (auto simp: issue_key_def issue_token_def split: option.splits sum.splits prod.splits if_splits intro: reach_intros)

lemma make_branch_reach [reach_intros]:
  "make_branch dep db inp i (slugify t) b ref base now w = (w', db', x) \<Longrightarrow> reach db0 db \<Longrightarrow> reach db0 db'"
  by (auto simp: make_branch_def Let_def split: option.splits prod.splits if_splits)
    (assumption | rule ws_reach_statements(4) generated_branch_ok | erule (1) newShortID_slug)+

lemma provision_reach [reach_intros]:
  "provision dep db inp ws src repo now w = (w', db', x) \<Longrightarrow> reach db0 db \<Longrightarrow> reach db0 db'"
  by (auto simp: provision_def split: option.splits prod.splits) (assumption | erule reach_intros | rule ws_reach_statements status_members)+

lemma create_check_Inr:
  assumes "create_check inp = Inr (title, slug, agent, src)"
  shows "slug = slugify title" "slugify title \<noteq> []" "agent = ''omp''" "src = ''default'' \<or> src = ''devcontainer''"
  using assms by (auto simp: create_check_def Let_def allowedAgents_def split: if_splits)

lemma choose_branch_Inr: "choose_branch inp slug short = Inr b \<Longrightarrow> branch_ok b"
  by (auto simp: choose_branch_def branch_ok_def Let_def split: if_splits)

lemma insert_reach:
  "insertWorkspace db r = Inr db' \<Longrightarrow> wr_Status r = WStatusPending \<Longrightarrow> row_ok r \<Longrightarrow> reach db0 db \<Longrightarrow> reach db0 db'"
  by (blast intro: rtranclp.rtrancl_into_rtrancl ws_insert)

text \<open>Create inserts the row of a checked input, or leaves the tables as they are; everything after the
  insertion is a sequence of statements on that row.\<close>

definition created_row :: "CreateInput \<Rightarrow> id \<Rightarrow> string \<Rightarrow> string \<Rightarrow> string \<Rightarrow> string \<Rightarrow> time \<Rightarrow> WorkspaceRow" where
  "created_row inp i b title agent src now = \<lparr>wr_Workspace = \<lparr>ws_ID = i, ws_ProjectID = ci_ProjectID inp, ws_Branch = b, ws_Title = title,
     ws_Instructions = ci_Instructions inp, ws_Agent = agent, ws_Status = WStatusPending, ws_LastActiveAt = now, ws_CreatedAt = now,
     ws_GatewayKeyID = None, ws_WaitingLine = []\<rparr>, wr_Source = src, wr_UpdatedAt = now, wr_TokenName = None\<rparr>"

lemma Create_cases:
  assumes "workspace_Create url_parse dep db inp w = (w', db', x)"
  obtains (refused) e where "x = Inl e" "db' = db"
  | (branch) title slug agent src b i db1 ref base now w2 db2 e w3 where
      "create_check inp = Inr (title, slug, agent, src)" "branch_ok b"
      "insertWorkspace db (created_row inp i b title agent src now) = Inr db1"
      "make_branch dep db1 inp i slug b ref base now w2 = (w3, db2, Inl e)" "rollbackCreate dep db2 i [] [] w3 = (w', db')" "x = Inl e"
  | (provision) title slug agent src b i db1 url ref host base now w2 db2 b' w3 where
      "create_check inp = Inr (title, slug, agent, src)" "branch_ok b"
      "insertWorkspace db (created_row inp i b title agent src now) = Inr db1"
      "make_branch dep db1 inp i slug b ref base now w2 = (w3, db2, Inr b')"
      "provision dep db2 inp ((wr_Workspace (created_row inp i b title agent src now))\<lparr>ws_Branch := b'\<rparr>) src (url, ref, host, base) now w3 = (w', db', x)"
  using assms unfolding workspace_Create_def Let_def
  by (auto simp: created_row_def dest: choose_branch_Inr split: sum.splits prod.splits if_splits)

lemma created_row_ok:
  assumes "create_check inp = Inr (title, slug, agent, src)" "branch_ok b"
  shows "row_ok (created_row inp i b title agent src now)"
  using assms create_check_Inr [OF assms(1)] by (auto simp: row_ok_def created_row_def status_defs)

lemma Create_reach [reach_intros]:
  assumes "workspace_Create url_parse dep db inp w = (w', db', x)" "reach db0 db" shows "reach db0 db'"
  using assms(1)
proof (cases rule: Create_cases)
  case (branch title slug agent src b i db1 ref base now w2 db2 e w3)
  have "reach db0 db1" using branch assms(2) by (intro insert_reach [OF branch(3)] created_row_ok) (simp_all add: created_row_def)
  then have "reach db0 db2" by (rule make_branch_reach [OF branch(4) [unfolded create_check_Inr(1) [OF branch(1)]]])
  then show ?thesis by (rule rollbackCreate_reach [OF branch(5)])
next
  case (provision title slug agent src b i db1 url ref host base now w2 db2 b' w3)
  have "reach db0 db1" using provision assms(2) by (intro insert_reach [OF provision(3)] created_row_ok) (simp_all add: created_row_def)
  then have "reach db0 db2" by (rule make_branch_reach [OF provision(4) [unfolded create_check_Inr(1) [OF provision(1)]]])
  then show ?thesis by (rule provision_reach [OF provision(5)])
qed (use assms(2) in simp)

lemma Stop_Delete_reach [reach_intros]:
  "workspace_Stop dep db i w = (w', db', x) \<Longrightarrow> reach db0 db \<Longrightarrow> reach db0 db'"
  "workspace_Delete dep db i w = (w', db', x) \<Longrightarrow> reach db0 db \<Longrightarrow> reach db0 db'"
  by (auto simp: workspace_Stop_def workspace_Delete_def split: sum.splits option.splits prod.splits if_splits
      intro: ws_reach_statements status_members)

lemma on_usable_reach [reach_intros]:
  "on_usable dep db i check act what touches w = (w', db', x) \<Longrightarrow> reach db0 db \<Longrightarrow> reach db0 db'"
  by (auto simp: on_usable_def split: sum.splits option.splits prod.splits if_splits intro: ws_reach_statements)

lemma Touch_reach [reach_intros]: "workspace_Touch dep db i w = (db', x) \<Longrightarrow> reach db0 db \<Longrightarrow> reach db0 db'"
  by (auto simp: workspace_Touch_def split: sum.splits if_splits intro: ws_reach_statements)

lemma expire_rows_reach: "expire_rows dep db rs w = (w', db') \<Longrightarrow> reach db0 db \<Longrightarrow> reach db0 db'"
proof (induction rs arbitrary: db w)
  case (Cons r rs)
  then show ?case using ws_reach_statements(2) [OF status_members(3)] by (auto simp: Let_def split: prod.splits)
qed simp

lemma ExpireIdle_reach [reach_intros]: "ExpireIdle dep db t w = (w', db', n) \<Longrightarrow> reach db0 db \<Longrightarrow> reach db0 db'"
  by (auto simp: ExpireIdle_def Let_def split: prod.splits elim: expire_rows_reach)

lemma capability_reach [reach_intros]:
  "IssueCapability sha dep db i ttl w = (w', db', x) \<Longrightarrow> reach db0 db \<Longrightarrow> reach db0 db'"
  "ValidateCapability sha now db i token = (db', y) \<Longrightarrow> reach db0 db \<Longrightarrow> reach db0 db'"
  by (auto simp: IssueCapability_def Let_def split: sum.splits prod.splits intro: ws_reach_statements)
    (auto simp: ValidateCapability_def Let_def split: option.splits prod.splits bool.splits if_splits intro: ws_reach_statements(3) consume_reach)

end
