(* ===== verification/WorkspacesSafety.thy ===== *)
theory WorkspacesSafety
  imports WorkspacesStates
begin

text \<open>
  internal/workspaces: what a creation that fails, or succeeds, leaves in the tables, and what
  becomes of a capability along any interleaving of operations.
\<close>

section \<open>Creation is atomic\<close>

text \<open>Statements on one workspace are undone by deleting its rows.\<close>

lemma delete_update [simp]:
  "(\<And>r. wr_ID (f r) = wr_ID r) \<Longrightarrow> deleteWorkspaceRows i (update_workspace f i db) = deleteWorkspaceRows i db"
  by (auto simp: deleteWorkspaceRows_def update_workspace_def update_where_def filter_map o_def intro!: map_idI)

lemma delete_statements [simp]:
  "deleteWorkspaceRows i (setGatewayKey k now i db) = deleteWorkspaceRows i db"
  "deleteWorkspaceRows i (setTokenName n now i db) = deleteWorkspaceRows i db"
  "deleteWorkspaceRows i (setBranch b now i db) = deleteWorkspaceRows i db"
  "deleteWorkspaceRows i (deleteWorkspaceRows i db) = deleteWorkspaceRows i db"
  by (simp_all add: setGatewayKey_def setTokenName_def setBranch_def split: sum.split)
    (simp add: deleteWorkspaceRows_def)

lemma delete_inserted:
  assumes "workspaces_ok db" "insertWorkspace db r = Inr db1" shows "deleteWorkspaceRows (wr_ID r) db1 = db"
proof -
  have new: "wr_ID r \<notin> ws_ids db" by (rule insertWorkspace_Inr(1) [OF assms(2)])
  have "\<forall>x \<in> set (wdb_workspaces db). wr_ID x \<noteq> wr_ID r" using new by (metis imageI)
  moreover have "\<forall>c \<in> set (wdb_capabilities db). cap_WorkspaceID c \<noteq> wr_ID r"
    using new assms(1) unfolding workspaces_ok_def caps_ok_def by (metis imageI subsetD)
  ultimately show ?thesis using insertWorkspace_Inr(3) [OF assms(2)] by (simp add: deleteWorkspaceRows_def filter_True)
qed

lemma rollbackCreate_tables: "rollbackCreate dep db i k t w = (w', db') \<Longrightarrow> db' = deleteWorkspaceRows i db"
  by (auto simp: rollbackCreate_def Let_def)

lemma make_branch_tables: "make_branch dep db inp i slug b ref base now w = (w', db', x) \<Longrightarrow> deleteWorkspaceRows i db' = deleteWorkspaceRows i db"
  by (auto simp: make_branch_def Let_def split: option.splits prod.splits if_splits)

lemma issue_tables:
  "issue_key dep db i now w = (w', db', x) \<Longrightarrow> deleteWorkspaceRows i db' = deleteWorkspaceRows i db"
  "issue_token dep db i ref now w = (w', db', y) \<Longrightarrow> deleteWorkspaceRows i db' = deleteWorkspaceRows i db"
  by (auto simp: issue_key_def issue_token_def split: option.splits sum.splits prod.splits if_splits)

lemma provision_Inl:
  "provision dep db inp ws src repo now w = (w', db', Inl e) \<Longrightarrow> db' = deleteWorkspaceRows (ws_ID ws) db"
  by (auto simp: provision_def dest!: rollbackCreate_tables issue_tables split: option.splits prod.splits)

lemma created_row_sel [simp]: "wr_ID (created_row inp i b title agent src now) = i"
  by (simp add: created_row_def)

lemma Create_Inl:
  assumes "workspaces_ok db" "workspace_Create url_parse dep db inp w = (w', db', Inl e)" shows "db' = db"
  using assms(2)
proof (cases rule: Create_cases)
  case (branch title slug agent src b i db1 ref base now w2 db2 e' w3)
  then show ?thesis using delete_inserted [OF assms(1) branch(3)] make_branch_tables [OF branch(4)] rollbackCreate_tables [OF branch(5)] by simp
next
  case (provision title slug agent src b i db1 url ref host base now w2 db2 b' w3)
  then show ?thesis
    using delete_inserted [OF assms(1) provision(3)] make_branch_tables [OF provision(4)] provision_Inl [OF provision(5)] by simp
qed

text \<open>On success the tables have one row more, which is running.\<close>

definition appended :: "workspaces_db \<Rightarrow> id \<Rightarrow> workspaces_db \<Rightarrow> bool" where
  "appended db i db' \<longleftrightarrow> (\<exists>r. wdb_workspaces db' = wdb_workspaces db @ [r] \<and> wr_ID r = i) \<and> wdb_capabilities db' = wdb_capabilities db"

lemma update_appended:
  assumes "i \<notin> ws_ids db" "appended db i db'" "\<And>r. wr_ID (f r) = wr_ID r"
  obtains r where "wdb_workspaces (update_workspace f i db') = wdb_workspaces db @ [f r]" "wr_ID r = i"
    "wdb_capabilities (update_workspace f i db') = wdb_capabilities db"
proof -
  obtain r where r: "wdb_workspaces db' = wdb_workspaces db @ [r]" "wr_ID r = i" "wdb_capabilities db' = wdb_capabilities db"
    using assms(2) by (auto simp: appended_def)
  have "map (\<lambda>x. if wr_ID x = i then f x else x) (wdb_workspaces db) = wdb_workspaces db"
    using assms(1) by (intro map_idI) (metis imageI)
  then show thesis using that r by (simp add: update_workspace_def update_where_def)
qed

lemma appended_statements:
  assumes "i \<notin> ws_ids db" "appended db i db'"
  shows "appended db i (setGatewayKey k now i db')" "appended db i (setTokenName n now i db')" "appended db i (setBranch b now i db')"
proof -
  have u: "appended db i (update_workspace f i db')" if "\<And>r. wr_ID (f r) = wr_ID r" for f
    using update_appended [OF assms that] that unfolding appended_def by metis
  show "appended db i (setGatewayKey k now i db')" "appended db i (setTokenName n now i db')" "appended db i (setBranch b now i db')"
    using assms(2) by (auto simp: setGatewayKey_def setTokenName_def setBranch_def intro!: u split: sum.split)
qed

lemma make_branch_appended:
  "make_branch dep db1 inp i slug b ref base now w = (w', db2, x) \<Longrightarrow> i \<notin> ws_ids db \<Longrightarrow> appended db i db1 \<Longrightarrow> appended db i db2"
  by (auto simp: make_branch_def Let_def appended_statements split: option.splits prod.splits if_splits)

lemma issue_appended:
  "issue_key dep db1 i now w = (w', db2, x) \<Longrightarrow> i \<notin> ws_ids db \<Longrightarrow> appended db i db1 \<Longrightarrow> appended db i db2"
  "issue_token dep db1 i ref now w = (w', db2, y) \<Longrightarrow> i \<notin> ws_ids db \<Longrightarrow> appended db i db1 \<Longrightarrow> appended db i db2"
  by (auto simp: issue_key_def issue_token_def appended_statements split: option.splits sum.splits prod.splits if_splits)

lemma provision_Inr:
  assumes "provision dep db1 inp ws src repo now w = (w', db', Inr ws')" "ws_ID ws \<notin> ws_ids db" "appended db (ws_ID ws) db1"
  shows "\<exists>r. wdb_workspaces db' = wdb_workspaces db @ [r] \<and> wr_ID r = ws_ID ws \<and> wr_Status r = WStatusRunning"
    "wdb_capabilities db' = wdb_capabilities db" "ws_ID ws' = ws_ID ws" "ws_Status ws' = WStatusRunning"
proof -
  obtain db2 where d: "appended db (ws_ID ws) db2" "db' = setStatus WStatusRunning now (ws_ID ws) db2"
    using assms by (auto simp: provision_def split: option.splits prod.splits dest!: issue_appended)
  let ?f = "\<lambda>r. r\<lparr>wr_Workspace := (wr_Workspace r)\<lparr>ws_Status := WStatusRunning\<rparr>, wr_UpdatedAt := now\<rparr>"
  obtain r where r: "wdb_workspaces (update_workspace ?f (ws_ID ws) db2) = wdb_workspaces db @ [?f r]" "wr_ID r = ws_ID ws"
      "wdb_capabilities (update_workspace ?f (ws_ID ws) db2) = wdb_capabilities db"
    by (rule update_appended [OF assms(2) d(1), of ?f]) simp_all
  show "\<exists>r. wdb_workspaces db' = wdb_workspaces db @ [r] \<and> wr_ID r = ws_ID ws \<and> wr_Status r = WStatusRunning"
    "wdb_capabilities db' = wdb_capabilities db"
    using r by (auto simp: d(2) setStatus_def)
  show "ws_ID ws' = ws_ID ws" "ws_Status ws' = WStatusRunning"
    using assms(1) by (auto simp: provision_def split: option.splits prod.splits)
qed

lemma Create_Inr:
  assumes "workspace_Create url_parse dep db inp w = (w', db', Inr ws)"
  shows "\<exists>r. wdb_workspaces db' = wdb_workspaces db @ [r] \<and> wr_ID r = ws_ID ws \<and> wr_Status r = WStatusRunning"
    "wdb_capabilities db' = wdb_capabilities db" "ws_ID ws \<notin> ws_ids db" "ws_Status ws = WStatusRunning"
proof -
  obtain title slug agent src b i db1 url ref host base now w2 db2 b' w3 where
    p: "insertWorkspace db (created_row inp i b title agent src now) = Inr db1"
      "make_branch dep db1 inp i slug b ref base now w2 = (w3, db2, Inr b')"
      "provision dep db2 inp ((wr_Workspace (created_row inp i b title agent src now))\<lparr>ws_Branch := b'\<rparr>) src (url, ref, host, base) now w3 = (w', db', Inr ws)"
    using assms by (cases rule: Create_cases) auto
  let ?ws = "(wr_Workspace (created_row inp i b title agent src now))\<lparr>ws_Branch := b'\<rparr>"
  have i: "ws_ID ?ws \<notin> ws_ids db" "ws_ID ?ws = i" using insertWorkspace_Inr(1) [OF p(1)] by simp_all
  have "appended db i db1" using insertWorkspace_Inr(3) [OF p(1)] by (simp add: appended_def)
  then have a: "appended db (ws_ID ?ws) db2" using make_branch_appended [OF p(2)] i by simp
  note r = provision_Inr [OF p(3) i(1) a]
  show "\<exists>r. wdb_workspaces db' = wdb_workspaces db @ [r] \<and> wr_ID r = ws_ID ws \<and> wr_Status r = WStatusRunning"
    "wdb_capabilities db' = wdb_capabilities db" "ws_ID ws \<notin> ws_ids db" "ws_Status ws = WStatusRunning"
    using r i by auto
qed

section \<open>Capabilities\<close>

definition cap_match :: "id \<Rightarrow> string \<Rightarrow> CapabilityRow \<Rightarrow> bool" where
  "cap_match i h c \<longleftrightarrow> cap_WorkspaceID c = i \<and> cap_Hash c = h"

text \<open>The capability a presented token selects was redeemed.\<close>

definition redeemed :: "id \<Rightarrow> string \<Rightarrow> workspaces_db \<Rightarrow> bool" where
  "redeemed i h db \<longleftrightarrow> (case List.find (cap_match i h) (wdb_capabilities db) of None \<Rightarrow> False | Some c \<Rightarrow> cap_ConsumedAt c \<noteq> None)"

lemma find_consume:
  "List.find (cap_match i h) (update_where (\<lambda>c. cap_ID c = j \<and> (case cap_ConsumedAt c of None \<Rightarrow> True | Some _ \<Rightarrow> False))
      (\<lambda>c. c\<lparr>cap_ConsumedAt := Some now\<rparr>) cs) =
   map_option (\<lambda>c. if cap_ID c = j \<and> cap_ConsumedAt c = None then c\<lparr>cap_ConsumedAt := Some now\<rparr> else c) (List.find (cap_match i h) cs)"
  by (induction cs) (auto simp: update_where_def cap_match_def split: option.splits)

lemma redeemed_step:
  assumes "ws_step db db'" "i \<in> ws_ids db'" "workspaces_ok db" "redeemed i h db"
  shows "redeemed i h db'"
  using assms
proof (induction rule: ws_step.induct)
  case (ws_insert db r db')
  then show ?case using insertWorkspace_Inr(3) [OF ws_insert.hyps(1)] by (simp add: redeemed_def)
next
  case (ws_capability db c db')
  then show ?case using insertCapability_Inr(3) [OF ws_capability.hyps(1)] by (auto simp: redeemed_def find_append split: option.splits)
next
  case (ws_consume db now j)
  then show ?case by (auto simp: redeemed_def consumeCapability_def Let_def find_consume split: option.splits)
next
  case (ws_delete db j)
  then have "j \<noteq> i" by (auto simp: deleteWorkspaceRows_def)
  then have "List.find (cap_match i h) (filter (\<lambda>c. cap_WorkspaceID c \<noteq> j) (wdb_capabilities db)) = List.find (cap_match i h) (wdb_capabilities db)"
    by (intro find_filter_other) (simp add: cap_match_def)
  then show ?case using ws_delete by (simp add: redeemed_def deleteWorkspaceRows_def)
qed (auto simp: redeemed_def setStatus_def touch_def setBranch_def setGatewayKey_def setTokenName_def update_workspace_def split: sum.splits)

lemma consume_tables:
  "consumeCapability now j db = (db', f) \<Longrightarrow> wdb_workspaces db' = wdb_workspaces db \<and>
     List.find (cap_match i h) (wdb_capabilities db') =
       map_option (\<lambda>c. if cap_ID c = j \<and> cap_ConsumedAt c = None then c\<lparr>cap_ConsumedAt := Some now\<rparr> else c) (List.find (cap_match i h) (wdb_capabilities db))"
  by (auto simp: consumeCapability_def Let_def find_consume)

lemma Validate_None:
  assumes "ValidateCapability sha now db i token = (db', None)"
  obtains c db1 where "List.find (cap_match i (hashToken sha (trim_space token))) (wdb_capabilities db) = Some c"
    "cap_ConsumedAt c = None" "now \<le> cap_ExpiresAt c" "consumeCapability now (cap_ID c) db = (db1, True)" "db' = touch now i db1"
  using assms by (auto simp: ValidateCapability_def Let_def cap_match_def [abs_def] split: option.splits prod.splits bool.splits if_splits)

lemma Validate_success:
  assumes "ValidateCapability sha now db i token = (db', None)"
  shows "redeemed i (hashToken sha (trim_space token)) db'" "ws_ids db' = ws_ids db"
proof -
  obtain c db1 where c: "List.find (cap_match i (hashToken sha (trim_space token))) (wdb_capabilities db) = Some c"
      "cap_ConsumedAt c = None" "consumeCapability now (cap_ID c) db = (db1, True)" and db': "db' = touch now i db1"
    using Validate_None [OF assms] by metis
  have "redeemed i (hashToken sha (trim_space token)) db1" "wdb_workspaces db1 = wdb_workspaces db"
    using consume_tables [OF c(3)] c(1,2) by (simp_all add: redeemed_def)
  then show "redeemed i (hashToken sha (trim_space token)) db'" "ws_ids db' = ws_ids db"
    by (simp_all add: db' redeemed_def touch_def update_workspace_def image_update_where_key)
qed

lemma Validate_redeemed:
  assumes "redeemed i (hashToken sha (trim_space token)) db" "trim_space token \<noteq> []" "hashToken sha (trim_space token) \<noteq> []"
  shows "ValidateCapability sha now db i token = (db, Some (bare ErrCapabilityConsumed))"
  using assms by (auto simp: ValidateCapability_def redeemed_def Let_def cap_match_def [abs_def] split: option.splits)

text \<open>A token that was issued and not presented yet.\<close>

definition open_cap :: "id \<Rightarrow> string \<Rightarrow> time \<Rightarrow> workspaces_db \<Rightarrow> bool" where
  "open_cap i h e db \<longleftrightarrow> (case List.find (cap_match i h) (wdb_capabilities db) of None \<Rightarrow> False | Some c \<Rightarrow> cap_ConsumedAt c = None \<and> cap_ExpiresAt c = e)"

lemma open_cap_step:
  assumes "ws_step db db'" "i \<in> ws_ids db'" "open_cap i h e db"
  shows "open_cap i h e db' \<or> redeemed i h db'"
  using assms
proof (induction rule: ws_step.induct)
  case (ws_insert db r db')
  then show ?case using insertWorkspace_Inr(3) [OF ws_insert.hyps(1)] by (simp add: open_cap_def)
next
  case (ws_capability db c db')
  then show ?case using insertCapability_Inr(3) [OF ws_capability.hyps(1)] by (auto simp: open_cap_def find_append split: option.splits)
next
  case (ws_consume db now j)
  then show ?case by (auto simp: open_cap_def redeemed_def consumeCapability_def Let_def find_consume split: option.splits)
next
  case (ws_delete db j)
  then have "j \<noteq> i" by (auto simp: deleteWorkspaceRows_def)
  then have "List.find (cap_match i h) (filter (\<lambda>c. cap_WorkspaceID c \<noteq> j) (wdb_capabilities db)) = List.find (cap_match i h) (wdb_capabilities db)"
    by (intro find_filter_other) (simp add: cap_match_def)
  then show ?case using ws_delete by (simp add: open_cap_def deleteWorkspaceRows_def)
qed (auto simp: open_cap_def setStatus_def touch_def setBranch_def setGatewayKey_def setTokenName_def update_workspace_def split: sum.splits)

lemma Validate_open:
  assumes "workspaces_ok db" "open_cap i (hashToken sha (trim_space t)) e db" "trim_space t \<noteq> []" "hashToken sha (trim_space t) \<noteq> []" "now \<le> e"
  shows "snd (ValidateCapability sha now db i t) = None"
proof -
  obtain c where c: "List.find (cap_match i (hashToken sha (trim_space t))) (wdb_capabilities db) = Some c" "cap_ConsumedAt c = None"
      "cap_ExpiresAt c = e" using assms(2) by (auto simp: open_cap_def split: option.splits)
  have "snd (consumeCapability now (cap_ID c) db)"
    using find_Some_in [OF c(1)] c(2) by (auto simp: consumeCapability_def Let_def list_ex_iff)
  then show ?thesis using c assms(3-5) by (cases "consumeCapability now (cap_ID c) db") (simp add: ValidateCapability_def Let_def cap_match_def [abs_def])
qed

lemma Issue_open:
  assumes "IssueCapability sha dep db i ttl w = (w', db1, Inr (token, e))" "\<forall>c \<in> set (wdb_capabilities db). cap_Hash c \<noteq> hashToken sha token"
  shows "open_cap i (hashToken sha token) e db1" "i \<in> ws_ids db1"
proof -
  obtain c where c: "insertCapability db c = Inr db1" "cap_WorkspaceID c = i" "cap_Hash c = hashToken sha token"
      "cap_ConsumedAt c = None" "cap_ExpiresAt c = e"
    using assms(1) by (auto simp: IssueCapability_def Let_def split: sum.splits prod.splits)
  note d = insertCapability_Inr [OF c(1)]
  have "List.find (cap_match i (hashToken sha token)) (wdb_capabilities db) = None"
    using assms(2) by (simp add: find_None_iff cap_match_def)
  then show "open_cap i (hashToken sha token) e db1" "i \<in> ws_ids db1"
    using c d by (simp_all add: open_cap_def find_append cap_match_def)
qed

end
