(* ===== verification/WorkspacesRunner.thy ===== *)
theory WorkspacesRunner
  imports WorkspacesLife GoPath
begin

text \<open>
  internal/workspaces/runner.go: the DevPod runner.  The state is the pair of the two environment
  variables of the process and an opaque world; running a command, creating a directory and writing
  a file are a record of functions (a command sees the environment it runs in).  Go iterates over the
  workspace environment in any order; here it is a list in that order.
\<close>

section \<open>The process environment\<close>

record Env =
  en_DevPodHome :: "string option"
  en_Home :: "string option"

definition getenv :: "string option \<Rightarrow> string" where
  "getenv v = (case v of None \<Rightarrow> [] | Some x \<Rightarrow> x)"

definition restore :: "string \<Rightarrow> string option" where
  "restore prev = (if prev = [] then None else Some prev)"

definition env_enter :: "string \<Rightarrow> Env \<Rightarrow> (string \<times> string) \<times> Env" where
  "env_enter home e = ((getenv (en_DevPodHome e), getenv (en_Home e)), \<lparr>en_DevPodHome = Some home, en_Home = Some home\<rparr>)"

definition env_leave :: "string \<times> string \<Rightarrow> Env" where
  "env_leave prev = \<lparr>en_DevPodHome = restore (fst prev), en_Home = restore (snd prev)\<rparr>"

definition withDevPodEnv :: "string \<Rightarrow> (Env \<Rightarrow> 'w \<Rightarrow> 'w \<times> 'a) \<Rightarrow> Env \<times> 'w \<Rightarrow> (Env \<times> 'w) \<times> 'a" where
  "withDevPodEnv home fn s = (case env_enter home (fst s) of (prev, e1) \<Rightarrow>
     (case fn e1 (snd s) of (w1, x) \<Rightarrow> ((env_leave prev, w1), x)))"

section \<open>Configuration\<close>

record 'w Host =
  ho_Run :: "Env \<Rightarrow> string list \<Rightarrow> 'w \<Rightarrow> 'w \<times> goerror option"
  ho_Output :: "Env \<Rightarrow> string list \<Rightarrow> 'w \<Rightarrow> 'w \<times> string result"
  ho_MkdirAll :: "string \<Rightarrow> 'w \<Rightarrow> 'w \<times> goerror option"
  ho_WriteFile :: "string \<Rightarrow> string \<Rightarrow> 'w \<Rightarrow> 'w \<times> goerror option"

record 'w DevPodRunner =
  ru_Bin :: string
  ru_Provider :: string
  ru_WorkspacesDir :: string
  ru_DevPodHome :: string
  ru_Resolver :: "(id \<Rightarrow> 'w \<Rightarrow> string result) option"

definition or_default :: "string \<Rightarrow> string \<Rightarrow> string" where
  "or_default d s = (if trim_space s = [] then d else trim_space s)"

definition NewDevPodRunner :: "'w DevPodRunner \<Rightarrow> 'w DevPodRunner" where
  "NewDevPodRunner cfg = \<lparr>ru_Bin = or_default ''devpod'' (ru_Bin cfg), ru_Provider = or_default ''docker'' (ru_Provider cfg),
     ru_WorkspacesDir = or_default ''/srv/omahab/workspaces'' (ru_WorkspacesDir cfg),
     ru_DevPodHome = or_default ''/var/lib/omahab/devpod'' (ru_DevPodHome cfg), ru_Resolver = ru_Resolver cfg\<rparr>"

definition resolveRepo :: "'w DevPodRunner \<Rightarrow> id \<Rightarrow> 'w \<Rightarrow> string" where
  "resolveRepo r p w = (let synthetic = ''https://forgejo.local/'' @ p @ ''.git'' in
     case ru_Resolver r of None \<Rightarrow> synthetic
     | Some f \<Rightarrow> (case f p w of Inl _ \<Rightarrow> synthetic | Inr u \<Rightarrow> if trim_space u = [] then synthetic else trim_space u))"

section \<open>Texts\<close>

abbreviation dq :: char where "dq \<equiv> CHR 0x22"
abbreviation sq :: char where "sq \<equiv> CHR 0x27"
abbreviation bs :: char where "bs \<equiv> CHR 0x5C"

definition container_name :: "string \<Rightarrow> string" where
  "container_name name = (if trim_space name = [] then ''omahab-workspace''
     else if has_prefix name ''omahab-'' then name else ''omahab-'' @ name)"

definition in_dq :: "string \<Rightarrow> string" where "in_dq s = [dq] @ s @ [dq]"

definition defaultDevcontainerJSON :: "string \<Rightarrow> string" where
  "defaultDevcontainerJSON name = ''{'' @ in_dq ''name'' @ '':'' @ quote (container_name name) @ '','' @
     in_dq ''image'' @ '':'' @ in_dq ''mcr.microsoft.com/devcontainers/base:ubuntu'' @ '','' @
     in_dq ''features'' @ '':{'' @ in_dq ''ghcr.io/devcontainers/features/node:1'' @ '':{}},'' @
     in_dq ''postCreateCommand'' @ '':'' @
     in_dq ''npm install -g @oh-my-pi/pi-coding-agent && git config --global credential.helper store'' @ ''}''"

definition shellQuote :: "string \<Rightarrow> string" where
  "shellQuote s = [sq] @ replace_char sq [sq, bs, sq, sq] s @ [sq]"

definition sessionName :: "string \<Rightarrow> string" where
  "sessionName i = replace_char CHR ''/'' ''-'' (replace_char CHR '':'' ''-'' (replace_char CHR ''.'' ''-'' (take 64 (''omahab-'' @ i))))"

definition b64_digit :: "nat \<Rightarrow> char" where
  "b64_digit n = (if n < 26 then char_of (65 + n) else if n < 52 then char_of (71 + n) else if n < 62 then char_of (n - 4)
     else if n = 62 then CHR ''+'' else CHR ''/'')"

fun base64 :: "string \<Rightarrow> string" where
  "base64 [] = []"
| "base64 [a] = (let x = of_char a in [b64_digit (x div 4), b64_digit (x mod 4 * 16), CHR ''='', CHR ''=''])"
| "base64 [a, b] = (let x = of_char a; y = of_char b in
     [b64_digit (x div 4), b64_digit (x mod 4 * 16 + y div 16), b64_digit (y mod 16 * 4), CHR ''=''])"
| "base64 (a # b # c # s) = (let x = of_char a; y = of_char b; z = of_char c in
     [b64_digit (x div 4), b64_digit (x mod 4 * 16 + y div 16), b64_digit (y mod 16 * 4 + z div 64), b64_digit (z mod 64)] @ base64 s)"

section \<open>Commands\<close>

definition ErrRunnerUnavailable :: sentinel where "ErrRunnerUnavailable = ErrSentinel ''workspace runner unavailable''"
definition exec_ErrNotFound :: sentinel where "exec_ErrNotFound = ErrSentinel ''executable file not found in $PATH''"

definition runner_error :: "string \<Rightarrow> goerror \<Rightarrow> goerror" where
  "runner_error name e = (if errors_is e exec_ErrNotFound then wrapf ErrRunnerUnavailable (name @ '' not found: '' @ err_msg e) else e)"

definition run_cmd :: "'w Host \<Rightarrow> 'w DevPodRunner \<Rightarrow> string list \<Rightarrow> Env \<times> 'w \<Rightarrow> (Env \<times> 'w) \<times> goerror option" where
  "run_cmd h r args s = (case withDevPodEnv (ru_DevPodHome r) (\<lambda>e. ho_Run h e args) s of
     (s1, err) \<Rightarrow> (s1, map_option (runner_error (hd args)) err))"

definition output_cmd :: "'w Host \<Rightarrow> 'w DevPodRunner \<Rightarrow> string list \<Rightarrow> Env \<times> 'w \<Rightarrow> (Env \<times> 'w) \<times> string result" where
  "output_cmd h r args s = (case withDevPodEnv (ru_DevPodHome r) (\<lambda>e. ho_Output h e args) s of
     (s1, Inl e) \<Rightarrow> (s1, Inl (runner_error (hd args) e)) | (s1, Inr out) \<Rightarrow> (s1, Inr out))"

definition ssh_args :: "'w DevPodRunner \<Rightarrow> id \<Rightarrow> string \<Rightarrow> string list" where
  "ssh_args r i cmd = [ru_Bin r, ''ssh'', i, ''--command'', cmd]"

text \<open>One fallible step after another; the first failure, under its name, ends the sequence.\<close>

definition and_then :: "string \<Rightarrow> 's \<times> goerror option \<Rightarrow> ('s \<Rightarrow> 's \<times> goerror option) \<Rightarrow> 's \<times> goerror option" where
  "and_then what p k = (case p of (s, Some e) \<Rightarrow> (s, Some (wrapctx what e)) | (s, None) \<Rightarrow> k s)"

definition on_world :: "('w \<Rightarrow> 'w \<times> 'a) \<Rightarrow> Env \<times> 'w \<Rightarrow> (Env \<times> 'w) \<times> 'a" where
  "on_world f s = (case f (snd s) of (w1, x) \<Rightarrow> ((fst s, w1), x))"

definition id_required :: goerror where "id_required = wrapf WErrValidation ''workspace id is required''"

section \<open>Up\<close>

definition sock :: string where "sock = ''docker.sock''"

text \<open>The devcontainer file, unless it would mount the docker socket; the context of a failed write.\<close>

definition devcontainer_file :: "string \<Rightarrow> RunnerOpts \<Rightarrow> goerror + string \<times> string" where
  "devcontainer_file branch opts =
     (let name = (if trim_space (ro_Name opts) = [] then replace_char CHR ''/'' ''-'' branch else ro_Name opts);
          generated = defaultDevcontainerJSON name in
      if ro_DevcontainerContent opts \<noteq> [] then
        (if contains_str (ro_DevcontainerContent opts) sock then Inl (errorf ''provided devcontainer must not mount docker socket'')
         else Inr (ro_DevcontainerContent opts, ''write devcontainer''))
      else if ro_DevcontainerSource opts = [] \<or> ro_DevcontainerSource opts = ''default'' then
        (if contains_str generated sock then Inl (errorf ''generated devcontainer must not mount docker socket'')
         else Inr (generated, ''write devcontainer''))
      else Inr (generated, ''write devcontainer fallback''))"

definition up_args :: "'w DevPodRunner \<Rightarrow> id \<Rightarrow> string \<Rightarrow> (string \<times> string) list \<Rightarrow> string \<Rightarrow> string list" where
  "up_args r i source env path = [''up'', i, ''--provider'', ru_Provider r, ''--source'', source, ''--ide'', ''none''] @
     concat (map (\<lambda>(k, v). [''--workspace-env'', k @ ''='' @ v]) env) @ [''--devcontainer-path'', path]"

fun check_args :: "string list \<Rightarrow> goerror option" where
  "check_args [] = None"
| "check_args (a # args) =
     (if contains_str (to_lower a) sock then Some (errorf ''devpod args must not mount docker socket'')
      else if contains_str (to_lower a) ''secret'' \<and> \<not> contains_str a ''--workspace-env'' then Some (errorf ''devpod args must not contain secrets'')
      else check_args args)"

definition credential_url :: "RunnerOpts \<Rightarrow> string" where
  "credential_url opts = ''https://omahab:'' @ ro_ForgejoToken opts @ ''@'' @ ro_ForgejoHost opts @
     (if trim_space (ro_ForgejoOwner opts) \<noteq> [] \<and> trim_space (ro_ForgejoName opts) \<noteq> []
      then ''/'' @ ro_ForgejoOwner opts @ ''/'' @ ro_ForgejoName opts else [])"

definition credential_command :: "RunnerOpts \<Rightarrow> string" where
  "credential_command opts = ''printf '' @ [sq] @ ''%s'' @ [bs] @ ''n'' @ [sq] @ '' '' @ shellQuote (credential_url opts) @
     '' > ~/.git-credentials && chmod 600 ~/.git-credentials''"

definition first_workspace :: string where "first_workspace = ''$(ls -d /workspaces/* 2>/dev/null | head -n 1)''"

definition task_dir_command :: string where "task_dir_command = ''mkdir -p '' @ first_workspace @ ''/.omahab''"

definition task_command :: "string \<Rightarrow> string" where
  "task_command instructions = ''echo '' @ shellQuote (base64 instructions) @ '' | base64 -d > '' @ first_workspace @ ''/.omahab/TASK.md''"

definition tmux_command :: string where "tmux_command = ''tmux new-session -d -s omp '' @ in_dq ''omp''"

definition task_send_command :: string where
  "task_send_command = ''tmux send-keys -t omp '' @ in_dq (''$(cat '' @ first_workspace @ ''/.omahab/TASK.md)'') @ '' Enter''"

text \<open>What Up runs inside the workspace once devpod has started it.\<close>

definition up_credentials :: "'w Host \<Rightarrow> 'w DevPodRunner \<Rightarrow> id \<Rightarrow> RunnerOpts \<Rightarrow> Env \<times> 'w \<Rightarrow> (Env \<times> 'w) \<times> goerror option" where
  "up_credentials h r i opts s = (if trim_space (ro_ForgejoToken opts) \<noteq> [] \<and> trim_space (ro_ForgejoHost opts) \<noteq> []
     then run_cmd h r (ssh_args r i (credential_command opts)) s else (s, None))"

definition up_task :: "'w Host \<Rightarrow> 'w DevPodRunner \<Rightarrow> id \<Rightarrow> RunnerOpts \<Rightarrow> Env \<times> 'w \<Rightarrow> (Env \<times> 'w) \<times> goerror option" where
  "up_task h r i opts s = (if trim_space (ro_Instructions opts) \<noteq> []
     then run_cmd h r (ssh_args r i (task_command (ro_Instructions opts))) (fst (run_cmd h r (ssh_args r i task_dir_command) s)) else (s, None))"

definition up_session :: "'w Host \<Rightarrow> 'w DevPodRunner \<Rightarrow> id \<Rightarrow> RunnerOpts \<Rightarrow> Env \<times> 'w \<Rightarrow> (Env \<times> 'w) \<times> goerror option" where
  "up_session h r i opts s = and_then ''start tmux'' (run_cmd h r (ssh_args r i tmux_command) s)
     (\<lambda>s. (if trim_space (ro_Instructions opts) \<noteq> [] then fst (run_cmd h r (ssh_args r i task_send_command) s) else s, None))"

definition up_source :: "'w DevPodRunner \<Rightarrow> id \<Rightarrow> string \<Rightarrow> RunnerOpts \<Rightarrow> 'w \<Rightarrow> string" where
  "up_source r p branch opts w = (let s = (if trim_space (ro_Source opts) \<noteq> [] then trim_space (ro_Source opts) else trim_space (resolveRepo r p w)) in
     if s \<noteq> [] \<and> branch \<noteq> [] \<and> \<not> List.member s CHR ''@'' then s @ ''@'' @ branch else s)"

definition runner_Up :: "'w Host \<Rightarrow> 'w DevPodRunner \<Rightarrow> id \<Rightarrow> id \<Rightarrow> string \<Rightarrow> string \<Rightarrow> RunnerOpts \<Rightarrow> Env \<times> 'w \<Rightarrow> (Env \<times> 'w) \<times> goerror option" where
  "runner_Up h r i p branch0 agent opts s =
     (let branch = (if branch0 = [] then ''main'' else branch0); source = up_source r p branch opts (snd s);
          dir = path_join (ru_WorkspacesDir r) i; path = path_join dir ''devcontainer.json'' in
      if trim_space i = [] then (s, Some id_required)
      else if agent \<noteq> [] \<and> \<not> List.member allowedAgents agent then (s, Some (wrapf WErrValidation (''unsupported agent '' @ quote agent)))
      else and_then ''create workspace dir'' (on_world (ho_MkdirAll h dir) s) (\<lambda>s.
        if source = [] then (s, Some (wrapf WErrValidation ''repository url is required''))
        else (case devcontainer_file branch opts of
            Inl e \<Rightarrow> (s, Some e)
          | Inr (content, what) \<Rightarrow> and_then what (on_world (ho_WriteFile h path content) s) (\<lambda>s.
              (let args = up_args r i source (ro_WorkspaceEnv opts) path in
               case check_args args of
                 Some e \<Rightarrow> (s, Some e)
               | None \<Rightarrow> and_then ''devpod up'' (run_cmd h r (ru_Bin r # args) s)
                  (\<lambda>s. and_then ''write git credentials'' (up_credentials h r i opts s)
                  (\<lambda>s. and_then ''write TASK.md'' (up_task h r i opts s)
                  (\<lambda>s. up_session h r i opts s))))))))"

section \<open>The other operations\<close>

definition with_id :: "id \<Rightarrow> (Env \<times> 'w \<Rightarrow> (Env \<times> 'w) \<times> goerror option) \<Rightarrow> Env \<times> 'w \<Rightarrow> (Env \<times> 'w) \<times> goerror option" where
  "with_id i act s = (if trim_space i = [] then (s, Some id_required) else act s)"

definition runner_Stop :: "'w Host \<Rightarrow> 'w DevPodRunner \<Rightarrow> id \<Rightarrow> Env \<times> 'w \<Rightarrow> (Env \<times> 'w) \<times> goerror option" where
  "runner_Stop h r i = with_id i (run_cmd h r [ru_Bin r, ''stop'', i])"

definition runner_Delete :: "'w Host \<Rightarrow> 'w DevPodRunner \<Rightarrow> id \<Rightarrow> Env \<times> 'w \<Rightarrow> (Env \<times> 'w) \<times> goerror option" where
  "runner_Delete h r i = with_id i (run_cmd h r [ru_Bin r, ''delete'', i, ''--force''])"

definition runner_Attach :: "'w Host \<Rightarrow> 'w DevPodRunner \<Rightarrow> id \<Rightarrow> Env \<times> 'w \<Rightarrow> (Env \<times> 'w) \<times> goerror option" where
  "runner_Attach h r i = with_id i (run_cmd h r [''tmux'', ''new-session'', ''-A'', ''-s'', sessionName i, ru_Bin r, ''ssh'', i, ''--tty''])"

text \<open>SSHProxy runs the command itself: a missing binary is not translated.\<close>

definition runner_SSHProxy :: "'w Host \<Rightarrow> 'w DevPodRunner \<Rightarrow> id \<Rightarrow> Env \<times> 'w \<Rightarrow> (Env \<times> 'w) \<times> goerror option" where
  "runner_SSHProxy h r i = with_id i (withDevPodEnv (ru_DevPodHome r) (\<lambda>e. ho_Run h e [ru_Bin r, ''ssh'', i, ''--stdio'']))"

definition send_command :: "string \<Rightarrow> string" where
  "send_command m = ''tmux send-keys -t omp '' @ shellQuote m @ '' Enter''"

definition runner_Send :: "'w Host \<Rightarrow> 'w DevPodRunner \<Rightarrow> id \<Rightarrow> string \<Rightarrow> Env \<times> 'w \<Rightarrow> (Env \<times> 'w) \<times> goerror option" where
  "runner_Send h r i m = with_id i (\<lambda>s.
     if trim_space m = [] then (s, Some (wrapf WErrValidation ''message is required'')) else run_cmd h r (ssh_args r i (send_command m)) s)"

definition print_command :: "string \<Rightarrow> string" where
  "print_command prompt = ''omp -p --mode json '' @ shellQuote prompt"

definition runner_RunPrint :: "'w Host \<Rightarrow> 'w DevPodRunner \<Rightarrow> id \<Rightarrow> string \<Rightarrow> Env \<times> 'w \<Rightarrow> (Env \<times> 'w) \<times> string result" where
  "runner_RunPrint h r i prompt s =
     (if trim_space i = [] then (s, Inl id_required)
      else if trim_space prompt = [] then (s, Inl (wrapf WErrValidation ''prompt is required''))
      else output_cmd h r (ssh_args r i (''cd '' @ first_workspace @ '' && '' @ print_command prompt)) s)"

definition last_line :: "string \<Rightarrow> string" where
  "last_line text = (let lines = split_on CHR 0x0A text in
     case List.find (\<lambda>l. l \<noteq> []) (map trim_space (rev lines)) of Some l \<Rightarrow> l | None \<Rightarrow> trim_space (last lines))"

definition capture_command :: string where
  "capture_command = ''tmux capture-pane -p -t omp 2>/dev/null || tmux capture-pane -p 2>/dev/null || echo '' @ in_dq []"

definition runner_CapturePane :: "'w Host \<Rightarrow> 'w DevPodRunner \<Rightarrow> id \<Rightarrow> Env \<times> 'w \<Rightarrow> (Env \<times> 'w) \<times> string result" where
  "runner_CapturePane h r i s =
     (if trim_space i = [] then (s, Inl id_required)
      else (case output_cmd h r (ssh_args r i capture_command) s of
          (s1, Inl _) \<Rightarrow> (s1, Inr [])
        | (s1, Inr out) \<Rightarrow> (s1, Inr (if trim_space out = [] then [] else last_line (trim_space out)))))"

definition runner_IsRunning :: "'w Host \<Rightarrow> 'w DevPodRunner \<Rightarrow> id \<Rightarrow> Env \<times> 'w \<Rightarrow> (Env \<times> 'w) \<times> bool result" where
  "runner_IsRunning h r i s =
     (if trim_space i = [] then (s, Inl id_required)
      else (case output_cmd h r [ru_Bin r, ''status'', i, ''--output'', ''json''] s of
          (s1, Inl _) \<Rightarrow> (s1, Inr False)
        | (s1, Inr out) \<Rightarrow> (s1, Inr (contains_str (to_lower out) ''running''))))"

text \<open>The collaborators of the service with this runner; capturing a pane does not change the world.\<close>

definition devpod_deps :: "'w Host \<Rightarrow> 'w DevPodRunner \<Rightarrow> (Env \<times> 'w) WorkspaceDeps \<Rightarrow> (Env \<times> 'w) WorkspaceDeps" where
  "devpod_deps h r dep = dep\<lparr>wd_Up := runner_Up h r, wd_Stop := runner_Stop h r, wd_Delete := runner_Delete h r,
     wd_Attach := runner_Attach h r, wd_SSHProxy := runner_SSHProxy h r, wd_Send := runner_Send h r,
     wd_RunPrint := runner_RunPrint h r, wd_CapturePane := (\<lambda>i s. snd (runner_CapturePane h r i s))\<rparr>"

section \<open>The environment is restored\<close>

definition env_normal :: "Env \<Rightarrow> bool" where
  "env_normal e \<longleftrightarrow> en_DevPodHome e \<noteq> Some [] \<and> en_Home e \<noteq> Some []"

lemma restore_getenv [simp]: "v \<noteq> Some [] \<Longrightarrow> restore (getenv v) = v"
  by (auto simp: restore_def getenv_def split: option.splits)

lemma withDevPodEnv_env: "env_normal (fst s) \<Longrightarrow> withDevPodEnv home fn s = (s', x) \<Longrightarrow> fst s' = fst s"
  by (auto simp: withDevPodEnv_def env_enter_def env_leave_def env_normal_def split: prod.splits)

lemma commands_env:
  "env_normal (fst s) \<Longrightarrow> run_cmd h r args s = (s', x) \<Longrightarrow> fst s' = fst s"
  "env_normal (fst s) \<Longrightarrow> output_cmd h r args s = (s', y) \<Longrightarrow> fst s' = fst s"
  by (auto simp: run_cmd_def output_cmd_def dest: withDevPodEnv_env split: prod.splits sum.splits)

section \<open>Words of a shell command\<close>

text \<open>The words a POSIX shell reads from a simple command: blanks separate, a backslash takes the next
  character, single quotes everything up to the next; other special characters give no result.
  The word read so far is None between words.\<close>

definition plain_char :: "char \<Rightarrow> bool" where
  "plain_char c \<longleftrightarrow> is_upper c \<or> is_lower c \<or> is_digit c \<or> List.member ''-_./:@%+=,'' c"

definition add_char :: "char \<Rightarrow> string option \<Rightarrow> string option" where
  "add_char c cur = Some (getenv cur @ [c])"

fun sh_words :: "bool \<Rightarrow> string option \<Rightarrow> string \<Rightarrow> string list option" where
  "sh_words True cur [] = None"
| "sh_words False None [] = Some []"
| "sh_words False (Some w) [] = Some [w]"
| "sh_words True cur (c # s) = (if c = sq then sh_words False (Some (getenv cur)) s else sh_words True (add_char c cur) s)"
| "sh_words False cur (c # s) =
     (if c = CHR '' '' then (case cur of None \<Rightarrow> sh_words False None s | Some w \<Rightarrow> map_option ((#) w) (sh_words False None s))
      else if c = sq then sh_words True (Some (getenv cur)) s
      else if c = bs then (case s of [] \<Rightarrow> None | d # s' \<Rightarrow> sh_words False (add_char d cur) s')
      else if plain_char c then sh_words False (add_char c cur) s
      else None)"

lemma sh_words_quoted:
  "sh_words True (Some w) (replace_char sq [sq, bs, sq, sq] m @ sq # s) = sh_words False (Some (w @ m)) s"
proof (induction m arbitrary: w)
  case (Cons c m)
  show ?case using Cons.IH [of "w @ [c]"]
    by (cases "c = sq") (simp_all add: replace_char_def add_char_def getenv_def)
qed (simp add: replace_char_def getenv_def)

lemma sh_words_shellQuote: "sh_words False cur (shellQuote m @ s) = sh_words False (Some (getenv cur @ m)) s"
  by (simp add: shellQuote_def sh_words_quoted)

end
