(* ===== verification/WorkspacesProps.thy ===== *)
theory WorkspacesProps
  imports WorkspacesSafety WorkspacesRunner
begin

text \<open>
  internal/workspaces: the properties of the workspace service and of its runner.  The witnesses run
  the service over a world that is a counter, with the DevPod runner of a host on which every command
  succeeds.
\<close>

section \<open>A deployment to evaluate\<close>

definition demo_host :: "int Host" where
  "demo_host = \<lparr>ho_Run = (\<lambda>e args w. (w + 1, None)), ho_Output = (\<lambda>e args w. (w + 1, Inr [])),
     ho_MkdirAll = (\<lambda>p w. (w, None)), ho_WriteFile = (\<lambda>p c w. (w, None))\<rparr>"

definition demo_runner :: "int DevPodRunner" where
  "demo_runner = NewDevPodRunner \<lparr>ru_Bin = [], ru_Provider = [], ru_WorkspacesDir = [], ru_DevPodHome = [], ru_Resolver = None\<rparr>"

text \<open>The world counts; the random bytes are its value.\<close>

definition demo_deps :: "(Env \<times> int) WorkspaceDeps" where
  "demo_deps = devpod_deps demo_host demo_runner \<lparr>wd_Up = (\<lambda>i p b a opts s. (s, None)), wd_Stop = (\<lambda>i s. (s, None)), wd_Delete = (\<lambda>i s. (s, None)),
     wd_Attach = (\<lambda>i s. (s, None)), wd_SSHProxy = (\<lambda>i s. (s, None)), wd_Send = (\<lambda>i m s. (s, None)), wd_RunPrint = (\<lambda>i m s. (s, Inr [])),
     wd_CapturePane = (\<lambda>i s. Inr []), wd_CreateBranch = None, wd_Forgejo = None, wd_Providers = None, wd_CloneURL = None, wd_Domain = None,
     wd_Now = snd, wd_Rand = (\<lambda>n s. ((fst s, snd s + 1), replicate n (char_of (nat (snd s)))))\<rparr>"

definition demo_env :: Env where "demo_env = \<lparr>en_DevPodHome = None, en_Home = Some ''/root''\<rparr>"

definition no_parse :: "string \<Rightarrow> string + (string \<times> string)" where "no_parse u = Inl ''not a URL''"

definition demo_input :: "string \<Rightarrow> CreateInput" where
  "demo_input title = \<lparr>ci_ProjectID = ''p1'', ci_Title = title, ci_Instructions = [], ci_Agent = [], ci_DevcontainerSource = [],
     ci_SkipBranchCreate = False, ci_Branch = []\<rparr>"

definition demo_created :: "((Env \<times> int) \<times> workspaces_db \<times> Workspace result)" where
  "demo_created = workspace_Create no_parse demo_deps empty_workspaces_db (demo_input ''Fix the login'') (demo_env, 1)"

abbreviation demo_db :: workspaces_db where "demo_db \<equiv> fst (snd demo_created)"

definition demo_id :: id where "demo_id = ''02020202020202020202020202020202''"

lemma demo_reach: "ws_step\<^sup>*\<^sup>* empty_workspaces_db demo_db"
  by (cases "workspace_Create no_parse demo_deps empty_workspaces_db (demo_input ''Fix the login'') (demo_env, 1)")
    (auto simp: demo_created_def intro: Create_reach)

section \<open>The tables\<close>





section \<open>Capabilities\<close>

text \<open>
  C19: After a token was issued for a workspace (one whose hash no stored capability has),
  presenting it, with any white space around it, before it expires is accepted; along every
  interleaving of statements, while the workspace exists, it is accepted or refused as already
  consumed; and after it was accepted once it is refused as already consumed for as long as the
  workspace exists.
\<close>

theorem capability_is_accepted_exactly_once:
  assumes "ws_step\<^sup>*\<^sup>* empty_workspaces_db db" "IssueCapability sha dep db i ttl w = (w', db1, Inr (token, expires))"
    "\<forall>c \<in> set (wdb_capabilities db). cap_Hash c \<noteq> hashToken sha token" "token \<noteq> []" "sha token \<noteq> []"
    "trim_space t = token" "now \<le> expires"
  shows "snd (ValidateCapability sha now db1 i t) = None \<and>
    (\<forall>db2. (\<lambda>a b. ws_step a b \<and> i \<in> wr_ID ` set (wdb_workspaces b))\<^sup>*\<^sup>* db1 db2 \<longrightarrow>
      snd (ValidateCapability sha now db2 i t) \<in> {None, Some (bare ErrCapabilityConsumed)} \<and>
      (\<forall>db3 later. snd (ValidateCapability sha now db2 i t) = None \<and>
         (\<lambda>a b. ws_step a b \<and> i \<in> wr_ID ` set (wdb_workspaces b))\<^sup>*\<^sup>* (fst (ValidateCapability sha now db2 i t)) db3 \<longrightarrow>
         snd (ValidateCapability sha later db3 i t) = Some (bare ErrCapabilityConsumed)))"
proof -
  let ?h = "hashToken sha (trim_space t)"
  have h: "trim_space t \<noteq> []" "?h \<noteq> []" "hashToken sha token = ?h" using assms(4-6) by (auto simp: hashToken_def)
  have ok: "workspaces_ok db1" "open_cap i ?h expires db1"
    using ws.steps_ok [OF capability_reach(1) [OF assms(2) rtranclp.rtrancl_refl] ws.reached_ok [OF assms(1)]]
      Issue_open(1) [OF assms(2,3)] by (simp_all add: h(3))
  have first: "snd (ValidateCapability sha now d i t) = None" if "workspaces_ok d" "open_cap i ?h expires d" for d
    using Validate_open [OF that h(1,2) assms(7)] .
  have then_consumed: "snd (ValidateCapability sha m d i t) = Some (bare ErrCapabilityConsumed)" if "redeemed i ?h d" for m d
    using Validate_redeemed [OF that h(1,2)] by simp
  have path: "workspaces_ok d \<and> (open_cap i ?h expires d \<or> redeemed i ?h d)"
    if "(\<lambda>a b. ws_step a b \<and> i \<in> ws_ids b)\<^sup>*\<^sup>* db1 d" for d
    using ws.lasts [OF that ok(1), where P = "\<lambda>d. open_cap i ?h expires d \<or> redeemed i ?h d"] ok(2) open_cap_step redeemed_step by blast
  have stays: "redeemed i ?h d'" if "(\<lambda>a b. ws_step a b \<and> i \<in> ws_ids b)\<^sup>*\<^sup>* d d'" "workspaces_ok d" "redeemed i ?h d" for d d'
    using ws.lasts [where P = "redeemed i ?h" and C = "\<lambda>b. i \<in> ws_ids b", OF that] redeemed_step by blast
  have used: "workspaces_ok (fst (ValidateCapability sha now d i t)) \<and> redeemed i ?h (fst (ValidateCapability sha now d i t))"
    if "workspaces_ok d" "snd (ValidateCapability sha now d i t) = None" for d
    using that Validate_success(1) ws.steps_ok [OF capability_reach(2)]
    by (cases "ValidateCapability sha now d i t") (metis fst_conv rtranclp.rtrancl_refl snd_conv)
  show ?thesis
  proof (intro conjI allI impI)
    show "snd (ValidateCapability sha now db1 i t) = None" by (rule first [OF ok])
  next
    fix db2 assume "(\<lambda>a b. ws_step a b \<and> i \<in> ws_ids b)\<^sup>*\<^sup>* db1 db2"
    from path [OF this] show "snd (ValidateCapability sha now db2 i t) \<in> {None, Some (bare ErrCapabilityConsumed)}"
      using first then_consumed by blast
  next
    fix db2 db3 later
    assume p: "(\<lambda>a b. ws_step a b \<and> i \<in> ws_ids b)\<^sup>*\<^sup>* db1 db2"
      and a: "snd (ValidateCapability sha now db2 i t) = None \<and>
        (\<lambda>a b. ws_step a b \<and> i \<in> ws_ids b)\<^sup>*\<^sup>* (fst (ValidateCapability sha now db2 i t)) db3"
    note u = used [OF conjunct1 [OF path [OF p]] conjunct1 [OF a]]
    show "snd (ValidateCapability sha later db3 i t) = Some (bare ErrCapabilityConsumed)"
      by (rule then_consumed [OF stays [OF conjunct2 [OF a] conjunct1 [OF u] conjunct2 [OF u]]])
  qed
qed

definition demo_sha :: "string \<Rightarrow> string" where "demo_sha s = CHR ''h'' # s"

definition demo_issue :: "(Env \<times> int) \<times> workspaces_db \<times> (string \<times> time) result" where
  "demo_issue = IssueCapability demo_sha demo_deps demo_db demo_id 0 (demo_env, 10)"

lemma capability_is_accepted_exactly_once_witness:
  "snd (ValidateCapability demo_sha 11 (fst (snd demo_issue)) demo_id '' 0a0a0a0a0a0a0a0a0a0a0a0a0a0a0a0a0a0a0a0a0a0a0a0a0a0a0a0a0a0a0a0a '') = None"
proof -
  let ?t = "'' 0a0a0a0a0a0a0a0a0a0a0a0a0a0a0a0a0a0a0a0a0a0a0a0a0a0a0a0a0a0a0a0a ''"
  let ?token = "''0a0a0a0a0a0a0a0a0a0a0a0a0a0a0a0a0a0a0a0a0a0a0a0a0a0a0a0a0a0a0a0a''"
  have "snd (snd demo_issue) = Inr (?token, 300000000011)" by code_simp
  then have i: "IssueCapability demo_sha demo_deps demo_db demo_id 0 (demo_env, 10) = (fst demo_issue, fst (snd demo_issue), Inr (?token, 300000000011))"
    by (metis demo_issue_def prod.collapse)
  have c: "\<forall>c \<in> set (wdb_capabilities demo_db). cap_Hash c \<noteq> hashToken demo_sha ?token" by code_simp
  have t: "trim_space ?t = ?token" by code_simp
  show ?thesis
    using capability_is_accepted_exactly_once [OF demo_reach i c _ _ t, of 11] by (simp add: demo_sha_def)
qed

section \<open>Commands in the workspace\<close>



datatype env_event = Enter nat | Leave nat

fun env_trace :: "string \<Rightarrow> env_event list \<Rightarrow> (nat \<Rightarrow> string \<times> string) \<Rightarrow> Env \<Rightarrow> Env" where
  "env_trace home [] saved e = e"
| "env_trace home (Enter k # es) saved e = (case env_enter home e of (prev, e1) \<Rightarrow> env_trace home es (saved(k := prev)) e1)"
| "env_trace home (Leave k # es) saved e = env_trace home es saved (env_leave (saved k))"

theorem overlapping_commands_keep_the_devpod_home:
  assumes "home \<noteq> []" "en_Home e \<noteq> Some []" "en_DevPodHome e \<noteq> Some []"
  shows "env_trace home [Enter 0, Leave 0, Enter 1, Leave 1] saved e = e \<and>
    env_trace home [Enter 0, Enter 1, Leave 0] saved e = e \<and>
    env_trace home [Enter 0, Enter 1, Leave 0, Leave 1] saved e = \<lparr>en_DevPodHome = Some home, en_Home = Some home\<rparr>"
  using assms restore_getenv [of "Some home"] by (cases e) (simp add: env_enter_def env_leave_def)

lemma overlapping_commands_keep_the_devpod_home_witness:
  "en_Home (env_trace ''/var/lib/omahab/devpod'' [Enter 0, Enter 1, Leave 0, Leave 1] (\<lambda>_. ([], [])) demo_env) = Some ''/var/lib/omahab/devpod''"
  using overlapping_commands_keep_the_devpod_home [of "''/var/lib/omahab/devpod''" demo_env] by (simp add: demo_env_def)

lemma and_then_Some: "(\<And>s. \<exists>e. snd (k s) = Some e) \<Longrightarrow> \<exists>e. snd (and_then what p k) = Some e"
  by (auto simp: and_then_def split: prod.splits option.splits)

theorem secret_in_the_source_is_never_provisioned:
  assumes "contains_str (to_lower (up_source r p (if branch = [] then ''main'' else branch) opts (snd s))) ''secret''"
    "\<not> contains_str (up_source r p (if branch = [] then ''main'' else branch) opts (snd s)) ''--workspace-env''"
  shows "snd (runner_Up h r i p branch agent opts s) \<noteq> None"
proof -
  define branch1 where "branch1 = (if branch = [] then ''main'' else branch)"
  define src where "src = up_source r p branch1 opts (snd s)"
  have src: "contains_str (to_lower src) ''secret''" "\<not> contains_str src ''--workspace-env''"
    using assms by (simp_all only: src_def branch1_def not_False_eq_True)
  have "check_args (xs @ src # ys) \<noteq> None" for xs ys
    using src by (induction xs) auto
  from this [of "[''up'', i, ''--provider'', ru_Provider r, ''--source'']"]
  have guard: "check_args (up_args r i src env path) \<noteq> None" for env path by (simp add: up_args_def)
  have inner: "\<exists>e. snd (and_then what q (\<lambda>s. case check_args (up_args r i src env path) of Some e \<Rightarrow> (s, Some e) | None \<Rightarrow> k s)) = Some e"
    for what env path k and q :: "(Env \<times> 'a) \<times> goerror option"
    by (intro and_then_Some) (use guard [of env path] in \<open>auto split: option.splits\<close>)
  show ?thesis unfolding runner_Up_def Let_def branch1_def [symmetric] src_def [symmetric]
    by (auto intro!: and_then_Some inner split: sum.splits)
qed

lemma secret_in_the_source_is_never_provisioned_witness:
  "snd (runner_Up demo_host demo_runner ''i'' ''p1'' ''ws/rotate-secrets-0101'' ''omp''
      \<lparr>ro_DevcontainerSource = ''default'', ro_WorkspaceEnv = [], ro_Source = ''https://git.example.com/o/r.git'', ro_ForgejoHost = [],
       ro_ForgejoToken = [], ro_ForgejoOwner = [], ro_ForgejoName = [], ro_Instructions = [], ro_Name = ''ws-rotate-secrets-0101'',
       ro_DevcontainerContent = []\<rparr> (demo_env, 0)) \<noteq> None"
  by (rule secret_in_the_source_is_never_provisioned; code_simp)

end
