(* ===== verification/Secrets.thy ===== *)
theory Secrets
  imports ProjectsValidate GoTime
begin

text \<open>
  internal/secrets (secrets.go, migrations.go): the broker of encrypted secrets.  AES-256-GCM under
  the master key, the random bytes and the clock are a record of functions: sealing a text with a
  nonce, and opening, which gives nothing when the authentication fails.  A secret is stored under its
  trimmed scope and name, as a nonce, a ciphertext and a version.
\<close>

section \<open>Vocabulary and tables\<close>

record Secret =
  sec_ID :: id
  sec_Scope :: string
  sec_Name :: string
  sec_Version :: int
  sec_CreatedAt :: time
  sec_UpdatedAt :: time

record SecretRow =
  se_Secret :: Secret
  se_Nonce :: string
  se_Ciphertext :: string

type_synonym secrets_db = "SecretRow list"

record 'w Vault =
  va_Seal :: "string \<Rightarrow> string \<Rightarrow> string"
  va_Open :: "string \<Rightarrow> string \<Rightarrow> string option"
  va_Now :: "'w \<Rightarrow> time"
  va_Rand :: "nat \<Rightarrow> 'w \<Rightarrow> 'w \<times> string"

definition key_of :: "SecretRow \<Rightarrow> string \<times> string" where
  "key_of r = (sec_Scope (se_Secret r), sec_Name (se_Secret r))"

abbreviation se_ID :: "SecretRow \<Rightarrow> id" where "se_ID r \<equiv> sec_ID (se_Secret r)"

section \<open>Validation\<close>

definition allowedScopes :: "string list" where
  "allowedScopes = [''provider'', ''platform-app'', ''project'', ''user'', ''environment'']"

definition alnum :: "char \<Rightarrow> bool" where "alnum c \<longleftrightarrow> is_upper c \<or> is_lower c \<or> is_digit c"

definition nameRe :: "string \<Rightarrow> bool" where
  "nameRe s \<longleftrightarrow> (case s of [] \<Rightarrow> False | c # r \<Rightarrow> (alnum c \<or> c = CHR ''_'') \<and> list_all (\<lambda>c. alnum c \<or> List.member ''._-'' c) r)"

definition hex_char :: "char \<Rightarrow> bool" where
  "hex_char c \<longleftrightarrow> is_digit c \<or> List.member ''abcdefABCDEF'' c"

definition cloudflareAccountIDRe :: "string \<Rightarrow> bool" where
  "cloudflareAccountIDRe s \<longleftrightarrow> length s = 32 \<and> list_all hex_char s"

definition dash :: string where "dash = map char_of [226, 128, 148 :: nat]"

definition ValidateCloudflareAccountID :: "string \<Rightarrow> goerror option" where
  "ValidateCloudflareAccountID v = (let t = trim_space v in
     if t = [] then Some (Validation ''cloudflare_account_id is required'')
     else if List.member t CHR ''@'' then Some (Validation (''cloudflare_account_id must be 32 hex characters from Cloudflare dashboard sidebar '' @ dash @
       '' open dash.cloudflare.com, sidebar shows Account ID (32 hex, not an email); got value containing '' @ [CHR 0x27] @ ''@'' @ [CHR 0x27]))
     else if \<not> cloudflareAccountIDRe t then Some (Validation (''cloudflare_account_id must be 32 hex characters (0-9, a-f, case-insensitive) from Cloudflare dashboard sidebar '' @
       dash @ '' open dash.cloudflare.com, sidebar shows Account ID; got invalid format''))
     else None)"

definition validateSecretValueForName :: "string \<Rightarrow> string \<Rightarrow> goerror option" where
  "validateSecretValueForName name val =
     (if trim_space name = ''cloudflare_account_id'' then ValidateCloudflareAccountID val else None)"

definition validateScope :: "string \<Rightarrow> goerror option" where
  "validateScope scope0 = (let scope = trim_space scope0 in
     if scope = [] then Some (Validation ''secret scope is required'')
     else if \<not> List.member allowedScopes scope then Some (Validation (''invalid secret scope '' @ quote scope @
       '': must be one of provider, platform-app, project, user, environment''))
     else None)"

definition secret_validateName :: "string \<Rightarrow> goerror option" where
  "secret_validateName name0 = (let name = trim_space name0 in
     if name = [] then Some (Validation ''secret name is required'')
     else if length name > 128 then Some (Validation ''secret name too long'')
     else if \<not> nameRe name then Some (Validation (''invalid secret name '' @ quote name))
     else None)"

definition validateValue :: "string \<Rightarrow> goerror option" where
  "validateValue v = (if v = [] then Some (Validation ''secret value is required'')
     else if length v > 64 * 1024 then Some (Validation ''secret value too large'') else None)"

text \<open>The first failing check of a sequence.\<close>

definition checked :: "goerror option \<Rightarrow> goerror option \<Rightarrow> goerror option" where
  "checked a b = (case a of Some e \<Rightarrow> Some e | None \<Rightarrow> b)"

section \<open>Encryption\<close>

definition nonce_size :: nat where "nonce_size = 12"

definition encrypt :: "'w Vault \<Rightarrow> string \<Rightarrow> 'w \<Rightarrow> 'w \<times> string \<times> string" where
  "encrypt v plaintext w = (case va_Rand v nonce_size w of (w1, nonce) \<Rightarrow> (w1, nonce, va_Seal v nonce plaintext))"

definition decrypt :: "'w Vault \<Rightarrow> string \<Rightarrow> string \<Rightarrow> string result" where
  "decrypt v nonce ct = (if length nonce \<noteq> nonce_size then Inl (errorf ''invalid nonce size'')
     else case va_Open v nonce ct of None \<Rightarrow> Inl (Validation ''decrypt failed: authentication error'') | Some p \<Rightarrow> Inr p)"

definition store_NewID :: "'w Vault \<Rightarrow> 'w \<Rightarrow> 'w \<times> id" where
  "store_NewID v w = (case va_Rand v 16 w of (w1, b) \<Rightarrow> (w1, hex_encode b))"

section \<open>Reading\<close>

definition by_key :: "secrets_db \<Rightarrow> string \<Rightarrow> string \<Rightarrow> SecretRow option" where
  "by_key db scope name = List.find (\<lambda>r. key_of r = (trim_space scope, trim_space name)) db"

definition by_id :: "secrets_db \<Rightarrow> id \<Rightarrow> SecretRow option" where
  "by_id db i = List.find (\<lambda>r. se_ID r = i) db"

definition id_not_found :: "id \<Rightarrow> goerror" where
  "id_not_found i = NotFound (''secret '' @ i @ '' not found'')"

definition name_not_found :: "string \<Rightarrow> string \<Rightarrow> goerror" where
  "name_not_found scope name = NotFound (''secret '' @ scope @ ''/'' @ name @ '' not found'')"

definition check_id :: "id \<Rightarrow> goerror option" where
  "check_id i = (if trim_space i = [] then Some (Validation ''secret id is required'') else None)"

definition secret_Get :: "secrets_db \<Rightarrow> id \<Rightarrow> Secret result" where
  "secret_Get db i = (case check_id i of Some e \<Rightarrow> Inl e
     | None \<Rightarrow> (case by_id db i of None \<Rightarrow> Inl (id_not_found i) | Some r \<Rightarrow> Inr (se_Secret r)))"

definition GetByName :: "secrets_db \<Rightarrow> string \<Rightarrow> string \<Rightarrow> Secret result" where
  "GetByName db scope name = (case checked (validateScope scope) (secret_validateName name) of Some e \<Rightarrow> Inl e
     | None \<Rightarrow> (case by_key db scope name of None \<Rightarrow> Inl (name_not_found scope name) | Some r \<Rightarrow> Inr (se_Secret r)))"

definition secret_List :: "secrets_db \<Rightarrow> Secret list" where
  "secret_List db = sort_key sec_Scope (sort_key sec_Name (map se_Secret db))"

definition Reveal :: "'w Vault \<Rightarrow> secrets_db \<Rightarrow> id \<Rightarrow> string result" where
  "Reveal v db i = (case check_id i of Some e \<Rightarrow> Inl e
     | None \<Rightarrow> (case by_id db i of None \<Rightarrow> Inl (id_not_found i) | Some r \<Rightarrow> decrypt v (se_Nonce r) (se_Ciphertext r)))"

definition RevealByName :: "'w Vault \<Rightarrow> secrets_db \<Rightarrow> string \<Rightarrow> string \<Rightarrow> string result" where
  "RevealByName v db scope name = (case checked (validateScope scope) (secret_validateName name) of Some e \<Rightarrow> Inl e
     | None \<Rightarrow> (case by_key db scope name of None \<Rightarrow> Inl (name_not_found scope name) | Some r \<Rightarrow> decrypt v (se_Nonce r) (se_Ciphertext r)))"

section \<open>Writing\<close>

text \<open>INSERT ... ON CONFLICT(scope, name) DO UPDATE: only the conflict of the pair becomes an update.\<close>

definition overwrite :: "SecretRow \<Rightarrow> SecretRow \<Rightarrow> SecretRow" where
  "overwrite new r = r\<lparr>se_Nonce := se_Nonce new, se_Ciphertext := se_Ciphertext new,
     se_Secret := (se_Secret r)\<lparr>sec_Version := sec_Version (se_Secret r) + 1, sec_UpdatedAt := sec_UpdatedAt (se_Secret new)\<rparr>\<rparr>"

definition upsertSecret :: "secrets_db \<Rightarrow> SecretRow \<Rightarrow> secrets_db result" where
  "upsertSecret db r =
     (if list_ex (\<lambda>x. se_ID x = se_ID r) db then Inl (errorf ''constraint failed: UNIQUE constraint failed: secrets.id'')
      else if list_ex (\<lambda>x. key_of x = key_of r) db then Inr (update_where (\<lambda>x. key_of x = key_of r) (overwrite r) db)
      else Inr (db @ [r]))"

definition new_row :: "id \<Rightarrow> string \<Rightarrow> string \<Rightarrow> time \<Rightarrow> string \<Rightarrow> string \<Rightarrow> SecretRow" where
  "new_row i scope name now nonce ct = \<lparr>se_Secret = \<lparr>sec_ID = i, sec_Scope = scope, sec_Name = name, sec_Version = 1,
     sec_CreatedAt = now, sec_UpdatedAt = now\<rparr>, se_Nonce = nonce, se_Ciphertext = ct\<rparr>"

definition put_checks :: "string \<Rightarrow> string \<Rightarrow> string \<Rightarrow> goerror option" where
  "put_checks scope name val =
     checked (validateScope scope) (checked (secret_validateName name) (checked (validateValue val) (validateSecretValueForName name val)))"

definition secret_Put :: "'w Vault \<Rightarrow> secrets_db \<Rightarrow> string \<Rightarrow> string \<Rightarrow> string \<Rightarrow> 'w \<Rightarrow> 'w \<times> secrets_db \<times> Secret result" where
  "secret_Put v db scope name val w = (case put_checks scope name val of
      Some e \<Rightarrow> (w, db, Inl e)
    | None \<Rightarrow> (case encrypt v val w of (w1, nonce, ct) \<Rightarrow> (case store_NewID v w1 of (w2, i) \<Rightarrow>
        (case upsertSecret db (new_row i (trim_space scope) (trim_space name) (va_Now v w2) nonce ct) of
           Inl e \<Rightarrow> (w2, db, Inl (wrapctx ''put secret'' e))
         | Inr db1 \<Rightarrow> (case GetByName db1 (trim_space scope) (trim_space name) of
             Inl e \<Rightarrow> (w2, db1, Inl (wrapctx ''put secret fetch'' e))
           | Inr s \<Rightarrow> (w2, db1, Inr s))))))"

text \<open>The row of a secret with a new version, nonce and ciphertext.\<close>

definition rotated :: "int \<Rightarrow> time \<Rightarrow> string \<Rightarrow> string \<Rightarrow> SecretRow \<Rightarrow> SecretRow" where
  "rotated n now nonce ct x = \<lparr>se_Secret = (se_Secret x)\<lparr>sec_Version := n, sec_UpdatedAt := now\<rparr>, se_Nonce = nonce, se_Ciphertext = ct\<rparr>"

definition Rotate :: "'w Vault \<Rightarrow> secrets_db \<Rightarrow> id \<Rightarrow> string \<Rightarrow> 'w \<Rightarrow> 'w \<times> secrets_db \<times> Secret result" where
  "Rotate v db i val w = (case checked (check_id i) (validateValue val) of
      Some e \<Rightarrow> (w, db, Inl e)
    | None \<Rightarrow> (case by_id db i of
        None \<Rightarrow> (w, db, Inl (id_not_found i))
      | Some r \<Rightarrow> (case validateSecretValueForName (sec_Name (se_Secret r)) val of
          Some e \<Rightarrow> (w, db, Inl e)
        | None \<Rightarrow> (case encrypt v val w of (w1, nonce, ct) \<Rightarrow>
            (let n = sec_Version (se_Secret r) + 1; now = va_Now v w in
             (w1, update_where (\<lambda>x. se_ID x = i) (rotated n now nonce ct) db,
               Inr ((se_Secret r)\<lparr>sec_ID := i, sec_Version := n, sec_UpdatedAt := now\<rparr>)))))))"

definition RotateByName :: "'w Vault \<Rightarrow> secrets_db \<Rightarrow> string \<Rightarrow> string \<Rightarrow> string \<Rightarrow> 'w \<Rightarrow> 'w \<times> secrets_db \<times> Secret result" where
  "RotateByName v db scope name val w = (case GetByName db scope name of
      Inl e \<Rightarrow> (w, db, Inl e) | Inr s \<Rightarrow> Rotate v db (sec_ID s) val w)"

definition secret_Delete :: "secrets_db \<Rightarrow> id \<Rightarrow> secrets_db \<times> goerror option" where
  "secret_Delete db i = (case check_id i of Some e \<Rightarrow> (db, Some e)
     | None \<Rightarrow> if list_ex (\<lambda>r. se_ID r = i) db then (filter (\<lambda>r. se_ID r \<noteq> i) db, None) else (db, Some (id_not_found i)))"

definition DeleteByName :: "secrets_db \<Rightarrow> string \<Rightarrow> string \<Rightarrow> secrets_db \<times> goerror option" where
  "DeleteByName db scope name = (case checked (validateScope scope) (secret_validateName name) of Some e \<Rightarrow> (db, Some e)
     | None \<Rightarrow> (let k = (trim_space scope, trim_space name) in
         if list_ex (\<lambda>r. key_of r = k) db then (filter (\<lambda>r. key_of r \<noteq> k) db, None) else (db, Some (name_not_found scope name))))"

end
