(* ===== verification/GoFiles.thy ===== *)
theory GoFiles
  imports Errors GoPath
begin

text \<open>
  The part of Go's package os the sources use on single files: a file system is a map from paths to a
  mode and a content, and a schedule of faults, one for each call from now on: a call whose fault is
  set fails and leaves the files as they are, except that a failed write may leave any prefix, here
  the empty one.  Directories are not represented; making one only can fail.
\<close>

record FS =
  fs_Files :: "string \<Rightarrow> (nat \<times> string) option"
  fs_Faults :: "bool list"
  fs_Next :: int

definition io_error :: goerror where "io_error = errorf ''input/output error''"

definition faulty :: "FS \<Rightarrow> bool \<times> FS" where
  "faulty fs = (case fs_Faults fs of [] \<Rightarrow> (False, fs) | b # bs \<Rightarrow> (b, fs\<lparr>fs_Faults := bs\<rparr>))"

text \<open>A call that changes the files, unless it cannot or the fault is set.\<close>

type_synonym file_map = "string \<Rightarrow> (nat \<times> string) option"

definition fs_call :: "(file_map \<Rightarrow> file_map option) \<Rightarrow> FS \<Rightarrow> FS \<times> goerror option" where
  "fs_call f fs = (case faulty fs of (True, fs1) \<Rightarrow> (fs1, Some io_error)
     | (False, fs1) \<Rightarrow> (case f (fs_Files fs1) of None \<Rightarrow> (fs1, Some io_error) | Some m \<Rightarrow> (fs1\<lparr>fs_Files := m\<rparr>, None)))"

datatype stat_result = NotExist | StatFailed goerror | FileInfo nat string

definition fs_Stat :: "string \<Rightarrow> FS \<Rightarrow> FS \<times> stat_result" where
  "fs_Stat p fs = (case faulty fs of (True, fs1) \<Rightarrow> (fs1, StatFailed io_error)
     | (False, fs1) \<Rightarrow> (fs1, case fs_Files fs1 p of None \<Rightarrow> NotExist | Some (m, c) \<Rightarrow> FileInfo m c))"

definition fs_ReadFile :: "string \<Rightarrow> FS \<Rightarrow> FS \<times> string result" where
  "fs_ReadFile p fs = (case faulty fs of (True, fs1) \<Rightarrow> (fs1, Inl io_error)
     | (False, fs1) \<Rightarrow> (fs1, case fs_Files fs1 p of None \<Rightarrow> Inl (errorf ''file does not exist'') | Some (m, c) \<Rightarrow> Inr c))"

definition fs_MkdirAll :: "string \<Rightarrow> FS \<Rightarrow> FS \<times> goerror option" where
  "fs_MkdirAll d = fs_call Some"

text \<open>CreateTemp draws a name that does not exist, and fails when it finds none; its mode is 0600.\<close>

definition fs_CreateTemp :: "string \<Rightarrow> string \<Rightarrow> FS \<Rightarrow> FS \<times> string result" where
  "fs_CreateTemp dir prefix fs = (case faulty fs of (True, fs1) \<Rightarrow> (fs1, Inl io_error)
     | (False, fs1) \<Rightarrow> (let p = dir @ ''/'' @ prefix @ itoa (fs_Next fs1) in
         if fs_Files fs1 p \<noteq> None then (fs1, Inl io_error)
         else (fs1\<lparr>fs_Files := (fs_Files fs1)(p \<mapsto> (384, [])), fs_Next := fs_Next fs1 + 1\<rparr>, Inr p)))"

definition fs_Chmod :: "string \<Rightarrow> nat \<Rightarrow> FS \<Rightarrow> FS \<times> goerror option" where
  "fs_Chmod p mode = fs_call (\<lambda>m. case m p of None \<Rightarrow> None | Some (_, c) \<Rightarrow> Some (m(p \<mapsto> (mode, c))))"

definition fs_Write :: "string \<Rightarrow> string \<Rightarrow> FS \<Rightarrow> FS \<times> goerror option" where
  "fs_Write p content = fs_call (\<lambda>m. case m p of None \<Rightarrow> None | Some (mode, c) \<Rightarrow> Some (m(p \<mapsto> (mode, c @ content))))"

definition fs_Close :: "FS \<Rightarrow> FS \<times> goerror option" where
  "fs_Close = fs_call Some"

definition fs_Rename :: "string \<Rightarrow> string \<Rightarrow> FS \<Rightarrow> FS \<times> goerror option" where
  "fs_Rename a b = fs_call (\<lambda>m. case m a of None \<Rightarrow> None | Some f \<Rightarrow> Some ((m(a := None))(b \<mapsto> f)))"

definition fs_Remove :: "string \<Rightarrow> FS \<Rightarrow> FS \<times> goerror option" where
  "fs_Remove p = fs_call (\<lambda>m. if m p = None then None else Some (m(p := None)))"

lemma faulty_files [simp]: "faulty fs = (b, fs1) \<Longrightarrow> fs_Files fs1 = fs_Files fs"
  by (auto simp: faulty_def split: list.splits)

text \<open>What a call leaves.\<close>

lemma fs_call_None: "fs_call f fs = (fs', None) \<Longrightarrow> f (fs_Files fs) = Some (fs_Files fs')"
  by (auto simp: fs_call_def split: prod.splits bool.splits option.splits)

lemma fs_call_Some: "fs_call f fs = (fs', Some e) \<Longrightarrow> fs_Files fs' = fs_Files fs"
  by (auto simp: fs_call_def split: prod.splits bool.splits option.splits)

lemma fs_Remove_files: "q \<noteq> p \<Longrightarrow> fs_Files (fst (fs_Remove p fs)) q = fs_Files fs q"
  by (auto simp: fs_Remove_def fs_call_def split: prod.splits bool.splits)

lemma fs_Close_files [simp]: "fs_Files (fst (fs_Close fs)) = fs_Files fs"
  by (auto simp: fs_Close_def fs_call_def split: prod.splits bool.splits)

lemma fs_MkdirAll_files: "fs_MkdirAll d fs = (fs', r) \<Longrightarrow> fs_Files fs' = fs_Files fs"
  by (auto simp: fs_MkdirAll_def fs_call_def split: prod.splits bool.splits)

lemma fs_Stat_files: "fs_Stat p fs = (fs', r) \<Longrightarrow> fs_Files fs' = fs_Files fs"
  by (auto simp: fs_Stat_def split: prod.splits bool.splits)

lemma fs_ReadFile_files: "fs_ReadFile p fs = (fs', r) \<Longrightarrow> fs_Files fs' = fs_Files fs"
  by (auto simp: fs_ReadFile_def split: prod.splits bool.splits)

lemma fs_ReadFile_Inr: "fs_ReadFile p fs = (fs', Inr data) \<Longrightarrow> \<exists>m. fs_Files fs p = Some (m, data)"
  by (auto simp: fs_ReadFile_def dest: faulty_files split: prod.splits bool.splits option.splits)

lemma fs_ReadFile_missing: "fs_ReadFile p fs = (fs', Inl (errorf ''file does not exist'')) \<Longrightarrow> fs_Files fs p = None"
  by (auto simp: fs_ReadFile_def io_error_def errorf_def dest: faulty_files split: prod.splits bool.splits option.splits)

end
