(* ===== verification/SecretsKeys.thy ===== *)
theory SecretsKeys
  imports Secrets GoFiles
begin

text \<open>
  internal/secrets (key.go, recovery.go): the file of the master key and the recovery key that wraps it.
  The sealer, HKDF, AES-256-GCM and the BIP-39 word list are functions; the files are explicit, with a
  schedule of faults.  A key is a text of 32 bytes.
\<close>

section \<open>The master key file\<close>

definition KErrUnauthorized :: sentinel where "KErrUnauthorized = ErrSentinel ''unauthorized: root required''"
definition ErrInvalidMasterKey :: sentinel where "ErrInvalidMasterKey = ErrSentinel ''invalid master key''"

definition masterKeySize :: nat where "masterKeySize = 32"
definition masterKeyPerm :: nat where "masterKeyPerm = 6 * 64"

record Sealer =
  sl_Seal :: "string \<Rightarrow> string result"
  sl_Unseal :: "string \<Rightarrow> string result"

record Loader =
  ld_Path :: string
  ld_Sealer :: "Sealer option"
  ld_IsRoot :: bool

definition octal4 :: "nat \<Rightarrow> string" where
  "octal4 n = map (\<lambda>d. char_of (48 + n div d mod 8)) [512, 64, 8, 1 :: nat]"

definition invalid_key :: "string \<Rightarrow> goerror" where "invalid_key m = wrapf ErrInvalidMasterKey m"

text \<open>Two errors in one chain.\<close>

definition invalid_key_by :: "string \<Rightarrow> goerror \<Rightarrow> goerror" where
  "invalid_key_by m e = GoErr (ErrInvalidMasterKey # err_chain e) (sentinel_text ErrInvalidMasterKey @ '': '' @ m @ '': '' @ err_msg e)"

definition key_of_raw :: "string \<Rightarrow> string result" where
  "key_of_raw raw = (if length raw \<noteq> masterKeySize
     then Inl (invalid_key (''master key has invalid length '' @ itoa (int (length raw)) @ '', expected 32'')) else Inr raw)"

definition Load :: "Loader \<Rightarrow> FS \<Rightarrow> FS \<times> string result" where
  "Load l fs =
     (if ld_Path l = [] then (fs, Inl (invalid_key ''master key path is required''))
      else (case fs_Stat (ld_Path l) fs of
          (fs1, NotExist) \<Rightarrow> (fs1, Inl (invalid_key (''master key not found at '' @ ld_Path l)))
        | (fs1, StatFailed e) \<Rightarrow> (fs1, Inl (invalid_key_by ''stat master key'' e))
        | (fs1, FileInfo mode _) \<Rightarrow>
            if mode \<noteq> masterKeyPerm then (fs1, Inl (invalid_key (''master key at '' @ ld_Path l @ '' has permissions '' @ octal4 mode @ '', expected 0600'')))
            else (case fs_ReadFile (ld_Path l) fs1 of
                (fs2, Inl e) \<Rightarrow> (fs2, Inl (invalid_key_by ''read master key'' e))
              | (fs2, Inr raw) \<Rightarrow> (case ld_Sealer l of
                  None \<Rightarrow> (fs2, key_of_raw raw)
                | Some s \<Rightarrow> (case sl_Unseal s raw of Inl e \<Rightarrow> (fs2, Inl (invalid_key_by ''unseal master key'' e))
                    | Inr plain \<Rightarrow> (fs2, key_of_raw plain))))))"

definition ensureParentDir :: "string \<Rightarrow> FS \<Rightarrow> FS \<times> goerror option" where
  "ensureParentDir p fs = (if path_dir p = [] \<or> path_dir p = ''.'' then (fs, None)
     else (case fs_MkdirAll (path_dir p) fs of (fs1, Some e) \<Rightarrow> (fs1, Some (wrapctx ''create master key dir'' e)) | (fs1, None) \<Rightarrow> (fs1, None)))"

text \<open>One step on the temporary file; when it fails the file is closed, where it is open, and removed.\<close>

definition tmp_step :: "string \<Rightarrow> bool \<Rightarrow> string \<Rightarrow> FS \<times> goerror option \<Rightarrow> (FS \<Rightarrow> FS \<times> goerror option) \<Rightarrow> FS \<times> goerror option" where
  "tmp_step what is_open tmp p k = (case p of (fs, None) \<Rightarrow> k fs
     | (fs, Some e) \<Rightarrow> (fst (fs_Remove tmp (if is_open then fst (fs_Close fs) else fs)), Some (wrapctx what e)))"

text \<open>A file written to a temporary one beside it, which takes its place when it is complete.\<close>

definition write_atomically :: "string \<Rightarrow> string \<Rightarrow> FS \<Rightarrow> FS \<times> goerror option" where
  "write_atomically path content fs = (case fs_CreateTemp (path_dir path) ''.master.key.'' fs of
      (fs1, Inl e) \<Rightarrow> (fs1, Some (wrapctx ''create temp master key'' e))
    | (fs1, Inr tmp) \<Rightarrow> tmp_step ''chmod master key'' True tmp (fs_Chmod tmp masterKeyPerm fs1) (\<lambda>fs2.
        tmp_step ''write master key'' True tmp (fs_Write tmp content fs2) (\<lambda>fs3.
        tmp_step ''close master key'' False tmp (fs_Close fs3) (\<lambda>fs4.
        tmp_step ''persist master key'' False tmp (fs_Rename tmp path fs4) (\<lambda>fs5.
        (fst (fs_Chmod path masterKeyPerm fs5), None))))))"

definition SaveMasterKey :: "string \<Rightarrow> string \<Rightarrow> FS \<Rightarrow> FS \<times> goerror option" where
  "SaveMasterKey path key fs = (case ensureParentDir path fs of
      (fs1, Some e) \<Rightarrow> (fs1, Some e)
    | (fs1, None) \<Rightarrow> (case fs_Stat path fs1 of
        (fs2, FileInfo _ _) \<Rightarrow> (fs2, Some (invalid_key (''master key already exists at '' @ path)))
      | (fs2, _) \<Rightarrow> write_atomically path key fs2))"

text \<open>What is stored for a new key.\<close>

definition seal_key :: "Loader \<Rightarrow> string \<Rightarrow> string result" where
  "seal_key l k = (case ld_Sealer l of None \<Rightarrow> Inr k
     | Some s \<Rightarrow> (case sl_Seal s k of Inl e \<Rightarrow> Inl (wrapctx ''seal master key'' e)
         | Inr c \<Rightarrow> if c = [] then Inl (invalid_key ''sealer returned empty ciphertext'') else Inr c))"

definition create_key :: "Loader \<Rightarrow> string \<Rightarrow> FS \<Rightarrow> FS \<times> string result" where
  "create_key l k fs =
     (if \<not> ld_IsRoot l then (fs, Inl (wrapf KErrUnauthorized ''master key creation requires root''))
      else (case seal_key l k of
          Inl e \<Rightarrow> (fs, Inl e)
        | Inr c \<Rightarrow> (case ensureParentDir (ld_Path l) fs of
            (fs1, Some e) \<Rightarrow> (fs1, Inl e)
          | (fs1, None) \<Rightarrow> (case write_atomically (ld_Path l) c fs1 of (fs2, Some e) \<Rightarrow> (fs2, Inl e) | (fs2, None) \<Rightarrow> (fs2, Inr k)))))"

text \<open>The key that would be generated is an argument.\<close>

definition Ensure :: "Loader \<Rightarrow> string \<Rightarrow> FS \<Rightarrow> FS \<times> string result" where
  "Ensure l fresh fs =
     (if ld_Path l = [] then (fs, Inl (invalid_key ''master key path is required''))
      else (case fs_Stat (ld_Path l) fs of
          (fs1, FileInfo _ content) \<Rightarrow> if content = [] then create_key l fresh fs1 else Load l fs1
        | (fs1, StatFailed e) \<Rightarrow> (fs1, Inl (invalid_key_by ''stat master key'' e))
        | (fs1, NotExist) \<Rightarrow> create_key l fresh fs1))"

section \<open>The recovery key\<close>

record RecoveryCrypto =
  rc_HKDF :: "string \<Rightarrow> string \<Rightarrow> string \<Rightarrow> string"
  rc_Seal :: "string \<Rightarrow> string \<Rightarrow> string \<Rightarrow> string"
  rc_Open :: "string \<Rightarrow> string \<Rightarrow> string \<Rightarrow> string option"
  rc_MnemonicValid :: "string \<Rightarrow> bool"
  rc_Entropy :: "string \<Rightarrow> string result"
  rc_Mnemonic :: "string \<Rightarrow> string result"

definition DeriveRecoveryKey :: "RecoveryCrypto \<Rightarrow> string \<Rightarrow> string" where
  "DeriveRecoveryKey c seed = rc_HKDF c seed ''omahab-recovery-v1'' ''master-wrap''"

definition DeriveResticPassword :: "RecoveryCrypto \<Rightarrow> string \<Rightarrow> string" where
  "DeriveResticPassword c seed = hex_encode (rc_HKDF c seed ''omahab-recovery-v1'' ''restic-password'')"

definition GenerateRecoveryPhrase :: "RecoveryCrypto \<Rightarrow> string \<Rightarrow> (string list \<times> string) result" where
  "GenerateRecoveryPhrase c entropy = (case rc_Mnemonic c entropy of
      Inl e \<Rightarrow> Inl (wrapctx ''generate mnemonic'' e)
    | Inr m \<Rightarrow> (let words = split_on CHR '' '' m in
        if length words \<noteq> 24 then Inl (errorf (''unexpected mnemonic word count '' @ itoa (int (length words)))) else Inr (words, entropy)))"

definition WrapMasterKey :: "RecoveryCrypto \<Rightarrow> string \<Rightarrow> string \<Rightarrow> string \<Rightarrow> string" where
  "WrapMasterKey c nonce master recoveryKey = nonce @ rc_Seal c recoveryKey nonce master"

definition UnwrapMasterKey :: "RecoveryCrypto \<Rightarrow> string \<Rightarrow> string \<Rightarrow> string result" where
  "UnwrapMasterKey c blob recoveryKey =
     (if length blob < nonce_size then Inl (errorf ''invalid wrapped key: too short'')
      else (case rc_Open c recoveryKey (take nonce_size blob) (drop nonce_size blob) of
          None \<Rightarrow> Inl (errorf ''unwrap failed: cipher: message authentication failed'')
        | Some plain \<Rightarrow> if length plain \<noteq> 32 then Inl (errorf (''invalid unwrapped length '' @ itoa (int (length plain)))) else Inr plain))"

definition clean_word :: "string \<Rightarrow> string" where "clean_word w = trim_space (to_lower w)"

definition PhraseToSeed :: "RecoveryCrypto \<Rightarrow> string list \<Rightarrow> string result" where
  "PhraseToSeed c words =
     (if length words \<noteq> 24 then Inl (errorf (''recovery phrase must have 24 words, got '' @ itoa (int (length words))))
      else if list_ex (\<lambda>w. clean_word w = []) words then Inl (errorf ''empty word in phrase'')
      else (let m = join '' '' (map clean_word words) in
        if \<not> rc_MnemonicValid c m then Inl (errorf ''invalid recovery phrase checksum'')
        else (case rc_Entropy c m of
            Inl e \<Rightarrow> Inl (wrapctx ''entropy from mnemonic'' e)
          | Inr ent \<Rightarrow> if length ent \<noteq> 32 then Inl (errorf (''unexpected entropy length '' @ itoa (int (length ent)))) else Inr ent)))"

section \<open>Projecting a secret to a file\<close>

definition tmp_secret :: "string \<Rightarrow> string \<Rightarrow> FS \<Rightarrow> FS \<times> string result" where
  "tmp_secret plain dir fs = (case fs_CreateTemp dir ''omahab-secret-'' fs of
      (fs1, Inl e) \<Rightarrow> (fs1, Inl (wrapctx ''create secret file'' e))
    | (fs1, Inr p) \<Rightarrow>
        (case tmp_step ''chmod secret file'' True p (fs_Chmod p masterKeyPerm fs1) (\<lambda>fs2.
           tmp_step ''write secret file'' True p (fs_Write p plain fs2) (\<lambda>fs3.
           tmp_step ''close secret file'' False p (fs_Close fs3) (\<lambda>fs4. (fs4, None)))) of
           (fs5, Some e) \<Rightarrow> (fs5, Inl e)
         | (fs5, None) \<Rightarrow> (fs5, Inr p)))"

text \<open>The directory of temporary files, used when none is given, is an argument.\<close>

definition writeProtectedFile :: "string \<Rightarrow> string \<Rightarrow> string \<Rightarrow> FS \<Rightarrow> FS \<times> string result" where
  "writeProtectedFile tempdir plain dir0 fs = (let dir = (if dir0 = [] then tempdir else dir0) in
     case fs_MkdirAll dir fs of
       (fs1, Some e) \<Rightarrow> (fs1, Inl (wrapctx ''create project dir'' e))
     | (fs1, None) \<Rightarrow> tmp_secret plain dir fs1)"

text \<open>The file a secret is projected to; the cleanup removes it.\<close>

definition secret_Project :: "'w Vault \<Rightarrow> secrets_db \<Rightarrow> string \<Rightarrow> id \<Rightarrow> string \<Rightarrow> FS \<Rightarrow> FS \<times> string result" where
  "secret_Project v db tempdir i dir fs = (case Reveal v db i of Inl e \<Rightarrow> (fs, Inl e) | Inr plain \<Rightarrow> writeProtectedFile tempdir plain dir fs)"

end
