(* ===== verification/SecretsMap.thy ===== *)
theory SecretsMap
  imports Secrets Tables
begin

text \<open>
  internal/secrets: the broker's operations as a step relation with its invariant, the abstract
  specification (a finite map from scope and name to a text) and that the broker refines it.  The
  witnesses run a toy cipher that satisfies the one law the broker relies on: opening what was sealed.
\<close>

section \<open>Operations as steps\<close>

inductive secret_step :: "'w Vault \<Rightarrow> secrets_db \<Rightarrow> secrets_db \<Rightarrow> bool" for v where
  ss_put: "secret_Put v db scope name val w = (w', db', x) \<Longrightarrow> secret_step v db db'"
| ss_rotate: "Rotate v db i val w = (w', db', x) \<Longrightarrow> secret_step v db db'"
| ss_delete: "secret_Delete db i = (db', e) \<Longrightarrow> secret_step v db db'"
| ss_delete_name: "DeleteByName db scope name = (db', e) \<Longrightarrow> secret_step v db db'"

definition secrets_ok :: "secrets_db \<Rightarrow> bool" where
  "secrets_ok db \<longleftrightarrow> distinct (map se_ID db) \<and> distinct (map key_of db) \<and>
     list_all (\<lambda>r. validateScope (fst (key_of r)) = None \<and> secret_validateName (snd (key_of r)) = None \<and> 1 \<le> sec_Version (se_Secret r)) db"

lemma upsert_cases:
  assumes "upsertSecret db r = Inr db'"
  shows "se_ID r \<notin> se_ID ` set db"
    "db' = (if key_of r \<in> key_of ` set db then update_where (\<lambda>x. key_of x = key_of r) (overwrite r) db else db @ [r])"
  using assms by (auto simp: upsertSecret_def list_ex_key split: if_splits)

lemma overwrite_keeps [simp]: "se_ID (overwrite r x) = se_ID x" "key_of (overwrite r x) = key_of x"
  "sec_Version (se_Secret (overwrite r x)) = sec_Version (se_Secret x) + 1"
  by (simp_all add: overwrite_def key_of_def)

lemma new_row_sel [simp]: "se_ID (new_row i s n t a b) = i" "key_of (new_row i s n t a b) = (s, n)"
  "sec_Version (se_Secret (new_row i s n t a b)) = 1" "se_Nonce (new_row i s n t a b) = a" "se_Ciphertext (new_row i s n t a b) = b"
  by (simp_all add: new_row_def key_of_def)

lemma Put_cases:
  assumes "secret_Put v db scope name val w = (w', db', x)"
  obtains (refused) e where "x = Inl e" "db' = db"
  | (stored) i now nonce w1 where "put_checks scope name val = None" "va_Rand v nonce_size w = (w1, nonce)"
      "upsertSecret db (new_row i (trim_space scope) (trim_space name) now nonce (va_Seal v nonce val)) = Inr db'"
      "\<forall>s. GetByName db' (trim_space scope) (trim_space name) = Inr s \<longrightarrow> x = Inr s"
  using assms unfolding secret_Put_def encrypt_def
  by (auto split: option.splits prod.splits sum.splits)

lemma valid_trim [simp]: "validateScope (trim_space s) = validateScope s" "secret_validateName (trim_space s) = secret_validateName s"
  by (simp_all add: validateScope_def secret_validateName_def)

lemma put_checks_None:
  assumes "put_checks scope name val = None" shows "validateScope scope = None" "secret_validateName name = None"
  using assms by (auto simp: put_checks_def checked_def split: option.splits)

lemma rotated_keeps [simp]: "se_ID (rotated n t a b x) = se_ID x" "key_of (rotated n t a b x) = key_of x"
  "sec_Version (se_Secret (rotated n t a b x)) = n" "se_Nonce (rotated n t a b x) = a" "se_Ciphertext (rotated n t a b x) = b"
  by (simp_all add: rotated_def key_of_def)

lemma Rotate_cases:
  assumes "Rotate v db i val w = (w', db', x)"
  obtains (refused) e where "x = Inl e" "db' = db"
  | (stored) r now nonce where "by_id db i = Some r" "va_Rand v nonce_size w = (w', nonce)"
      "db' = update_where (\<lambda>x. se_ID x = i) (rotated (sec_Version (se_Secret r) + 1) now nonce (va_Seal v nonce val)) db"
      "x = Inr ((se_Secret r)\<lparr>sec_ID := i, sec_Version := sec_Version (se_Secret r) + 1, sec_UpdatedAt := now\<rparr>)"
proof (cases "checked (check_id i) (validateValue val)")
  case None
  show thesis
  proof (cases "by_id db i")
    case (Some r)
    show thesis
    proof (cases "validateSecretValueForName (sec_Name (se_Secret r)) val")
      case n: None
      obtain w1 nonce where e: "va_Rand v nonce_size w = (w1, nonce)" by fastforce
      show thesis
        by (rule stored [OF Some, of nonce "va_Now v w"]) (use assms None Some n e in \<open>simp_all add: Rotate_def encrypt_def Let_def\<close>)
    next
      case (Some e)
      then have "x = Inl e" "db' = db" using assms None \<open>by_id db i = Some r\<close> by (simp_all add: Rotate_def)
      then show thesis by (rule refused)
    qed
  next
    case n: None
    then have "x = Inl (id_not_found i)" "db' = db" using assms None by (simp_all add: Rotate_def)
    then show thesis by (rule refused)
  qed
next
  case (Some e)
  then have "x = Inl e" "db' = db" using assms by (simp_all add: Rotate_def)
  then show thesis by (rule refused)
qed

lemma update_rows_ok:
  assumes "secrets_ok db" and keep: "\<And>r. se_ID (f r) = se_ID r" "\<And>r. key_of (f r) = key_of r"
    and v: "\<And>r. r \<in> set db \<Longrightarrow> P r \<Longrightarrow> 1 \<le> sec_Version (se_Secret (f r))"
  shows "secrets_ok (update_where P f db)"
  using assms unfolding secrets_ok_def by (auto simp: map_update_where_key list_all_iff set_update_where)

lemma secret_step_ok: "secret_step v db db' \<Longrightarrow> secrets_ok db \<Longrightarrow> secrets_ok db'"
proof (induction rule: secret_step.induct)
  case (ss_put db scope name val w w' db' x)
  from ss_put.hyps show ?case
  proof (cases rule: Put_cases)
    case (stored i now nonce w1)
    note u = upsert_cases [OF stored(3)] and c = put_checks_None [OF stored(1)]
    show ?thesis
    proof (cases "(trim_space scope, trim_space name) \<in> key_of ` set db")
      case True
      let ?r = "new_row i (trim_space scope) (trim_space name) now nonce (va_Seal v nonce val)"
      have "db' = update_where (\<lambda>x. key_of x = key_of ?r) (overwrite ?r) db" using u(2) True by simp
      moreover have "1 \<le> sec_Version (se_Secret (overwrite ?r x))" if "x \<in> set db" for x
        using ss_put.prems that by (fastforce simp: secrets_ok_def list_all_iff)
      ultimately show ?thesis by (simp add: update_rows_ok [OF ss_put.prems] del: overwrite_keeps(3))
    qed (use u c ss_put.prems in \<open>simp add: secrets_ok_def\<close>)
  qed (use ss_put.prems in simp)
next
  case (ss_rotate db i val w w' db' x)
  from ss_rotate.hyps show ?case
  proof (cases rule: Rotate_cases)
    case (stored r now nonce)
    have "r \<in> set db" using find_Some_in stored(1) unfolding by_id_def by fast
    then have "1 \<le> sec_Version (se_Secret r)" using ss_rotate.prems by (simp add: secrets_ok_def list_all_iff)
    then show ?thesis unfolding stored(3) by (intro update_rows_ok [OF ss_rotate.prems]) simp_all
  qed (use ss_rotate.prems in simp)
next
  case (ss_delete db i db' e)
  then show ?case by (auto simp: secret_Delete_def secrets_ok_def filter_distinct_map list_all_iff split: option.splits if_splits)
next
  case (ss_delete_name db scope name db' e)
  then show ?case by (auto simp: DeleteByName_def Let_def secrets_ok_def filter_distinct_map list_all_iff split: option.splits if_splits)
qed

interpretation broker: statement_tables "secret_step v" secrets_ok "[]" for v
  by (unfold_locales, simp add: secrets_ok_def, erule (1) secret_step_ok)

section \<open>The abstract map\<close>

definition revealed :: "'w Vault \<Rightarrow> SecretRow \<Rightarrow> string option" where
  "revealed v r = (case decrypt v (se_Nonce r) (se_Ciphertext r) of Inl _ \<Rightarrow> None | Inr p \<Rightarrow> Some p)"

definition abs_secrets :: "'w Vault \<Rightarrow> secrets_db \<Rightarrow> string \<times> string \<Rightarrow> string option" where
  "abs_secrets v db k = (case List.find (\<lambda>r. key_of r = k) db of None \<Rightarrow> None | Some r \<Rightarrow> revealed v r)"

text \<open>What the broker relies on: opening undoes sealing, and random bytes are as many as asked.\<close>

definition vault_ok :: "'w Vault \<Rightarrow> bool" where
  "vault_ok v \<longleftrightarrow> (\<forall>n p. length n = nonce_size \<longrightarrow> va_Open v n (va_Seal v n p) = Some p) \<and>
     (\<forall>n w. length (snd (va_Rand v n w)) = n)"

lemma decrypt_sealed: "vault_ok v \<Longrightarrow> va_Rand v nonce_size w = (w1, nonce) \<Longrightarrow> decrypt v nonce (va_Seal v nonce p) = Inr p"
proof -
  assume v: "vault_ok v" and r: "va_Rand v nonce_size w = (w1, nonce)"
  have "length nonce = nonce_size" using v r unfolding vault_ok_def by (metis snd_conv)
  then show ?thesis using v by (simp add: decrypt_def vault_ok_def)
qed

lemma abs_update:
  assumes "distinct (map key_of db)" "\<And>r. key_of (f r) = key_of r" "x \<in> set db" "P = (\<lambda>r. key_of r = key_of x)"
  shows "abs_secrets v (update_where P f db) = (abs_secrets v db)(key_of x := revealed v (f x))"
proof
  fix k
  have "List.find (\<lambda>r. key_of r = k) (update_where P f db) =
      (if key_of x = k then map_option f (List.find (\<lambda>r. key_of r = k) db) else List.find (\<lambda>r. key_of r = k) db)"
    unfolding assms(4) by (rule find_update_where_key) (simp add: assms(2))
  then show "abs_secrets v (update_where P f db) k = ((abs_secrets v db)(key_of x := revealed v (f x))) k"
    using find_distinct_key [OF assms(1,3)] by (auto simp: abs_secrets_def)
qed

lemma Put_abs:
  assumes "vault_ok v" "secrets_ok db" "secret_Put v db scope name val w = (w', db', x)"
  shows "case x of Inl e \<Rightarrow> db' = db
    | Inr s \<Rightarrow> abs_secrets v db' = (abs_secrets v db)((trim_space scope, trim_space name) \<mapsto> val)"
  using assms(3)
proof (cases rule: Put_cases)
  case (stored i now nonce w1)
  let ?k = "(trim_space scope, trim_space name)"
  let ?r = "new_row i (trim_space scope) (trim_space name) now nonce (va_Seal v nonce val)"
  note u = upsert_cases [OF stored(3)]
  have d: "decrypt v nonce (va_Seal v nonce val) = Inr val" by (rule decrypt_sealed [OF assms(1) stored(2)])
  have k: "distinct (map key_of db)" using assms(2) by (simp add: secrets_ok_def)
  have a: "abs_secrets v db' = (abs_secrets v db)(?k \<mapsto> val)"
  proof (cases "?k \<in> key_of ` set db")
    case True
    then obtain x where x: "x \<in> set db" "key_of x = ?k" by auto
    have "abs_secrets v (update_where (\<lambda>x. key_of x = key_of ?r) (overwrite ?r) db) = (abs_secrets v db)(key_of x := revealed v (overwrite ?r x))"
      by (rule abs_update [OF k _ x(1)]) (simp_all add: x(2))
    then show ?thesis using u(2) True x(2) d by (simp add: revealed_def overwrite_def)
  next
    case False
    then have n: "List.find (\<lambda>r. key_of r = ?k) db = None" by (metis (mono_tags, lifting) find_None_iff imageI)
    show ?thesis using u(2) False n d by (auto simp: abs_secrets_def find_append revealed_def fun_eq_iff split: option.split)
  qed
  obtain r where "by_key db' scope name = Some r"
    using a by (auto simp: abs_secrets_def by_key_def fun_eq_iff split: option.splits) (metis option.distinct(1))
  then have "by_key db' (trim_space scope) (trim_space name) = Some r" by (simp add: by_key_def)
  then have "x = Inr (se_Secret r)" using stored(4) put_checks_None [OF stored(1)] by (simp add: GetByName_def checked_def)
  then show ?thesis using a by simp
qed simp

lemma Rotate_abs:
  assumes "vault_ok v" "secrets_ok db" "Rotate v db i val w = (w', db', x)"
  shows "case x of Inl e \<Rightarrow> db' = db
    | Inr s \<Rightarrow> abs_secrets v db' = (abs_secrets v db)((sec_Scope s, sec_Name s) \<mapsto> val) \<and>
        (\<exists>r \<in> set db. se_ID r = i \<and> sec_Version s = sec_Version (se_Secret r) + 1 \<and> key_of r = (sec_Scope s, sec_Name s))"
  using assms(3)
proof (cases rule: Rotate_cases)
  case (stored r now nonce)
  have r: "r \<in> set db" "se_ID r = i" using find_Some_in [of "\<lambda>r. se_ID r = i" db r] stored(1) by (auto simp: by_id_def)
  have d: "distinct (map se_ID db)" "distinct (map key_of db)" using assms(2) by (simp_all add: secrets_ok_def)
  have eq: "update_where (\<lambda>x. se_ID x = i) f db = update_where (\<lambda>x. key_of x = key_of r) f db" for f
    using two_keys_agree [OF d r(1)] r(2) by (intro update_where_cong) simp
  have "db' = update_where (\<lambda>x. key_of x = key_of r) (rotated (sec_Version (se_Secret r) + 1) now nonce (va_Seal v nonce val)) db"
    unfolding stored(3) by (rule eq)
  then have a: "abs_secrets v db' = (abs_secrets v db)(key_of r \<mapsto> val)"
    using abs_update [OF d(2) _ r(1) refl, of "rotated (sec_Version (se_Secret r) + 1) now nonce (va_Seal v nonce val)" v]
      decrypt_sealed [OF assms(1) stored(2)] by (simp add: revealed_def)
  have k: "key_of r = (sec_Scope (se_Secret r), sec_Name (se_Secret r))" by (simp add: key_of_def)
  show ?thesis using a [unfolded k] r k by (simp add: stored(4)) (rule bexI [of _ r], simp_all)
qed simp

lemma abs_filter:
  "abs_secrets v (filter (\<lambda>r. key_of r \<noteq> k) db) = (abs_secrets v db)(k := None)"
  by (auto simp: abs_secrets_def find_filter_key fun_eq_iff)

lemma Delete_abs:
  assumes "secrets_ok db" "secret_Delete db i = (db', e)"
  shows "case e of Some _ \<Rightarrow> db' = db
    | None \<Rightarrow> (\<exists>r \<in> set db. se_ID r = i \<and> abs_secrets v db' = (abs_secrets v db)(key_of r := None))"
proof (cases e)
  case None
  then obtain r where r: "r \<in> set db" "se_ID r = i" and f: "db' = filter (\<lambda>x. se_ID x \<noteq> i) db"
    using assms(2) by (auto simp: secret_Delete_def list_ex_iff split: option.splits if_splits)
  have d: "distinct (map se_ID db)" "distinct (map key_of db)" using assms(1) by (simp_all add: secrets_ok_def)
  have "filter (\<lambda>x. se_ID x \<noteq> i) db = filter (\<lambda>x. key_of x \<noteq> key_of r) db"
    using two_keys_agree [OF d r(1)] r(2) by (intro filter_cong) auto
  then show ?thesis using None r f by (auto simp: abs_filter intro!: bexI [of _ r])
qed (use assms(2) in \<open>auto simp: secret_Delete_def split: option.splits if_splits\<close>)

lemma DeleteByName_abs:
  assumes "DeleteByName db scope name = (db', e)"
  shows "case e of Some _ \<Rightarrow> db' = db | None \<Rightarrow> abs_secrets v db' = (abs_secrets v db)((trim_space scope, trim_space name) := None)"
  using assms abs_filter by (auto simp: DeleteByName_def Let_def split: option.splits if_splits)

lemma Reveal_abs:
  "RevealByName v db scope name = Inr p \<longleftrightarrow>
     validateScope scope = None \<and> secret_validateName name = None \<and> abs_secrets v db (trim_space scope, trim_space name) = Some p"
  by (auto simp: RevealByName_def checked_def abs_secrets_def by_key_def revealed_def split: option.splits sum.splits)

end
