(* ===== verification/SecretsProps.thy ===== *)
theory SecretsProps
  imports SecretsKeys SecretsMap
begin

text \<open>
  internal/secrets: what creating the master key leaves on disk under every schedule of faults, and
  the properties of the broker and of its keys.
\<close>

section \<open>Files\<close>

lemma tmp_step_cases:
  assumes "tmp_step what is_open tmp p k = (fs', r)"
  obtains (ok) fs where "p = (fs, None)" "k fs = (fs', r)"
  | (failed) fs e where "p = (fs, Some e)" "r = Some (wrapctx what e)" "\<And>q. q \<noteq> tmp \<Longrightarrow> fs_Files fs' q = fs_Files fs q"
  using assms by (auto simp: tmp_step_def fs_Remove_files split: prod.splits option.splits if_splits)

text \<open>Writing a file through a temporary one changes it completely or not at all.\<close>

definition is_temp_of :: "string \<Rightarrow> bool" where
  "is_temp_of path \<longleftrightarrow> (\<exists>n. path = path_dir path @ ''/'' @ ''.master.key.'' @ itoa n)"

lemma write_atomically_files:
  assumes "write_atomically path content fs = (fs', r)" "\<not> is_temp_of path"
  shows "case r of None \<Rightarrow> fs_Files fs' path = Some (masterKeyPerm, content) | Some _ \<Rightarrow> fs_Files fs' path = fs_Files fs path"
proof -
  obtain fs1 c where t: "fs_CreateTemp (path_dir path) ''.master.key.'' fs = (fs1, c)" by fastforce
  show ?thesis
  proof (cases c)
    case (Inl e)
    then show ?thesis using t assms(1)
      by (auto simp: write_atomically_def fs_CreateTemp_def Let_def split: prod.splits bool.splits if_splits)
  next
    case (Inr tmp)
    then have new: "path \<noteq> tmp" "fs_Files fs1 tmp = Some (384, [])" "fs_Files fs1 path = fs_Files fs path"
      using t assms(2) by (auto simp: fs_CreateTemp_def Let_def is_temp_of_def split: prod.splits bool.splits if_splits)
    have "tmp_step ''chmod master key'' True tmp (fs_Chmod tmp masterKeyPerm fs1) (\<lambda>fs2.
        tmp_step ''write master key'' True tmp (fs_Write tmp content fs2) (\<lambda>fs3.
        tmp_step ''close master key'' False tmp (fs_Close fs3) (\<lambda>fs4.
        tmp_step ''persist master key'' False tmp (fs_Rename tmp path fs4) (\<lambda>fs5.
        (fst (fs_Chmod path masterKeyPerm fs5), None))))) = (fs', r)"
      using assms(1) t Inr by (simp add: write_atomically_def)
    then show ?thesis
    proof (cases rule: tmp_step_cases)
      case chm: (ok fs2)
      have f2: "fs_Files fs2 = (fs_Files fs1)(tmp \<mapsto> (masterKeyPerm, []))"
        using fs_call_None [OF chm(1) [unfolded fs_Chmod_def]] new(2) by simp
      from chm(2) show ?thesis
      proof (cases rule: tmp_step_cases)
        case wr: (ok fs3)
        have f3: "fs_Files fs3 = (fs_Files fs2)(tmp \<mapsto> (masterKeyPerm, content))"
          using fs_call_None [OF wr(1) [unfolded fs_Write_def]] f2 by simp
        from wr(2) show ?thesis
        proof (cases rule: tmp_step_cases)
          case cl: (ok fs4)
          have f4: "fs_Files fs4 = fs_Files fs3" using fs_call_None [OF cl(1) [unfolded fs_Close_def]] by simp
          from cl(2) show ?thesis
          proof (cases rule: tmp_step_cases)
            case rn: (ok fs5)
            have f5: "fs_Files fs5 path = Some (masterKeyPerm, content)"
              using fs_call_None [OF rn(1) [unfolded fs_Rename_def]] f4 f3 by (auto dest!: fun_cong [of _ _ path])
            have "fs_Files (fst (fs_Chmod path masterKeyPerm fs5)) path = Some (masterKeyPerm, content)"
              using f5 by (auto simp: fs_Chmod_def fs_call_def split: prod.splits bool.splits)
            then show ?thesis using rn(2) by auto
          next
            case (failed fs5 e)
            then show ?thesis using new f2 f3 f4 fs_call_Some [OF failed(1) [unfolded fs_Rename_def]] by simp
          qed
        next
          case (failed fs4 e)
          then show ?thesis using new f2 f3 fs_call_Some [OF failed(1) [unfolded fs_Close_def]] by simp
        qed
      next
        case (failed fs3 e)
        then show ?thesis using new f2 fs_call_Some [OF failed(1) [unfolded fs_Write_def]] by simp
      qed
    next
      case (failed fs2 e)
      then show ?thesis using new fs_call_Some [OF failed(1) [unfolded fs_Chmod_def]] by simp
    qed
  qed
qed

lemma ensureParentDir_files: "ensureParentDir p fs = (fs', r) \<Longrightarrow> fs_Files fs' = fs_Files fs"
  by (auto simp: ensureParentDir_def dest: fs_MkdirAll_files split: if_splits prod.splits option.splits)

lemma create_key_files:
  assumes "create_key l k fs = (fs', r)" "\<not> is_temp_of (ld_Path l)"
  shows "case r of Inl _ \<Rightarrow> fs_Files fs' (ld_Path l) = fs_Files fs (ld_Path l)
    | Inr k' \<Rightarrow> k' = k \<and> (\<exists>c. seal_key l k = Inr c \<and> fs_Files fs' (ld_Path l) = Some (masterKeyPerm, c))"
  using assms(1)
  by (auto simp: create_key_def split: if_splits sum.splits prod.splits option.splits
      dest!: ensureParentDir_files write_atomically_files [OF _ assms(2)])

lemma Load_files: "Load l fs = (fs', r) \<Longrightarrow> fs_Files fs' = fs_Files fs"
  by (auto simp: Load_def dest!: fs_Stat_files fs_ReadFile_files split: if_splits prod.splits stat_result.splits sum.splits option.splits)

text \<open>Loading without faults depends on the file only.\<close>

definition load_pure :: "Loader \<Rightarrow> (nat \<times> string) option \<Rightarrow> string option" where
  "load_pure l f = (case f of None \<Rightarrow> None | Some (m, c) \<Rightarrow> if m \<noteq> masterKeyPerm then None
     else case ld_Sealer l of None \<Rightarrow> (if length c = masterKeySize then Some c else None)
       | Some s \<Rightarrow> (case sl_Unseal s c of Inl _ \<Rightarrow> None | Inr p \<Rightarrow> if length p = masterKeySize then Some p else None))"

lemma Load_no_faults:
  "ld_Path l \<noteq> [] \<Longrightarrow> fs_Faults fs = [] \<Longrightarrow>
   (case snd (Load l fs) of Inl _ \<Rightarrow> None | Inr k \<Rightarrow> Some k) = load_pure l (fs_Files fs (ld_Path l))"
  by (auto simp: Load_def fs_Stat_def fs_ReadFile_def faulty_def load_pure_def key_of_raw_def
      split: prod.splits option.splits sum.splits)

lemma Load_Inr: "Load l fs = (fs', Inr k) \<Longrightarrow> load_pure l (fs_Files fs (ld_Path l)) = Some k"
  by (auto simp: Load_def fs_Stat_def fs_ReadFile_def load_pure_def key_of_raw_def
      split: prod.splits option.splits sum.splits bool.splits if_splits)

section \<open>Properties\<close>

text \<open>
  C21: The broker refines a map from trimmed scope and name to the text, in every reachable
  state and for every cipher that opens what it sealed: Put and Rotate set one entry (Rotate
  with the next version), the two deletions remove one, an operation that reports an error
  changes nothing, and revealing by name gives exactly the entry of the map, for a valid scope
  and name.
\<close>

theorem secrets_refine_a_map:
  assumes "vault_ok v" "(secret_step v)\<^sup>*\<^sup>* [] db"
  shows "(case secret_Put v db scope name val w of (w', db', x) \<Rightarrow> case x of Inl e \<Rightarrow> db' = db
      | Inr s \<Rightarrow> abs_secrets v db' = (abs_secrets v db)((trim_space scope, trim_space name) \<mapsto> val)) \<and>
    (case Rotate v db i val w of (w', db', x) \<Rightarrow> case x of Inl e \<Rightarrow> db' = db
      | Inr s \<Rightarrow> abs_secrets v db' = (abs_secrets v db)((sec_Scope s, sec_Name s) \<mapsto> val) \<and>
          (\<exists>r \<in> set db. sec_ID (se_Secret r) = i \<and> sec_Version s = sec_Version (se_Secret r) + 1)) \<and>
    (case secret_Delete db i of (db', e) \<Rightarrow> case e of Some _ \<Rightarrow> db' = db
      | None \<Rightarrow> (\<exists>r \<in> set db. sec_ID (se_Secret r) = i \<and>
          abs_secrets v db' = (abs_secrets v db)((sec_Scope (se_Secret r), sec_Name (se_Secret r)) := None))) \<and>
    (case DeleteByName db scope name of (db', e) \<Rightarrow> case e of Some _ \<Rightarrow> db' = db
      | None \<Rightarrow> abs_secrets v db' = (abs_secrets v db)((trim_space scope, trim_space name) := None)) \<and>
    (\<forall>p. RevealByName v db scope name = Inr p \<longleftrightarrow> validateScope scope = None \<and> secret_validateName name = None \<and>
      abs_secrets v db (trim_space scope, trim_space name) = Some p)"
proof -
  have ok: "secrets_ok db" by (rule broker.reached_ok [OF assms(2)])
  obtain w1 db1 x1 where p: "secret_Put v db scope name val w = (w1, db1, x1)" by (metis prod_cases3)
  obtain w2 db2 x2 where r: "Rotate v db i val w = (w2, db2, x2)" by (metis prod_cases3)
  obtain db3 e3 where d: "secret_Delete db i = (db3, e3)" by fastforce
  obtain db4 e4 where n: "DeleteByName db scope name = (db4, e4)" by fastforce
  show ?thesis
    using Put_abs [OF assms(1) ok p] Rotate_abs [OF assms(1) ok r] Delete_abs [OF ok d] DeleteByName_abs [OF n] Reveal_abs [of v db scope name]
    unfolding p r d n prod.case by (auto simp: key_of_def split: sum.splits option.splits)
qed

definition toy_vault :: "int Vault" where
  "toy_vault = \<lparr>va_Seal = (\<lambda>n p. n @ rev p), va_Open = (\<lambda>n c. if take (length n) c = n then Some (rev (drop (length n) c)) else None),
     va_Now = (\<lambda>w. w), va_Rand = (\<lambda>n w. (w + 1, replicate n (char_of (nat w))))\<rparr>"

lemma toy_vault_ok: "vault_ok toy_vault"
  by (simp add: vault_ok_def toy_vault_def)

theorem secrets_refine_a_map_witness:
  "RevealByName toy_vault (fst (snd (secret_Put toy_vault [] ''project'' ''db_url'' ''pg'' 7))) '' project '' ''db_url'' = Inr ''pg''"
proof -
  let ?db = "fst (snd (secret_Put toy_vault [] ''project'' ''db_url'' ''pg'' 7))"
  have "secret_step toy_vault [] ?db" by (cases "secret_Put toy_vault [] ''project'' ''db_url'' ''pg'' 7") (auto intro: ss_put)
  then have r: "(secret_step toy_vault)\<^sup>*\<^sup>* [] ?db" by blast
  have "abs_secrets toy_vault ?db (trim_space '' project '', trim_space ''db_url'') = Some ''pg''"
    "validateScope '' project '' = None" "secret_validateName ''db_url'' = None" by code_simp+
  then show ?thesis using secrets_refine_a_map [OF toy_vault_ok r, of "'' project ''" "''db_url''"] by blast
qed

text \<open>
  C22: Whatever calls of the file system fail, Ensure leaves the file of the master key as it
  was, or puts the new key there whole and returns it, and the latter only when the file was
  missing or empty: a key that protects secrets is never overwritten. Whenever Ensure returns a
  key, loading the file afterwards gives the same key, for a sealer that unseals what it
  sealed.
\<close>

theorem master_key_is_written_whole_or_not:
  assumes "Ensure l fresh fs = (fs', r)" "\<not> is_temp_of (ld_Path l)" "length fresh = masterKeySize"
    "\<And>s c. ld_Sealer l = Some s \<Longrightarrow> sl_Seal s fresh = Inr c \<Longrightarrow> sl_Unseal s c = Inr fresh"
  shows "(fs_Files fs' (ld_Path l) = fs_Files fs (ld_Path l) \<or>
      (r = Inr fresh \<and> (\<exists>c. fs_Files fs' (ld_Path l) = Some (masterKeyPerm, c)) \<and>
        (fs_Files fs (ld_Path l) = None \<or> (\<exists>m. fs_Files fs (ld_Path l) = Some (m, []))))) \<and>
    (\<forall>k. r = Inr k \<longrightarrow> snd (Load l (fs'\<lparr>fs_Faults := []\<rparr>)) = Inr k)"
proof (cases "ld_Path l = []")
  case False
  obtain fs1 st where st: "fs_Stat (ld_Path l) fs = (fs1, st)" by fastforce
  note f1 = fs_Stat_files [OF st]
  have load: "snd (Load l (fs'\<lparr>fs_Faults := []\<rparr>)) = Inr k" if "load_pure l (fs_Files fs' (ld_Path l)) = Some k" for k
    using Load_no_faults [OF False, of "fs'\<lparr>fs_Faults := []\<rparr>"] that by (auto split: sum.splits)
  consider (create) "create_key l fresh fs1 = (fs', r)" "fs_Files fs (ld_Path l) = None \<or> (\<exists>m. fs_Files fs (ld_Path l) = Some (m, []))"
    | (existing) "Load l fs1 = (fs', r)" | (error) e where "r = Inl e" "fs' = fs1"
    using assms(1) st False by (auto simp: Ensure_def fs_Stat_def split: stat_result.splits prod.splits bool.splits option.splits if_splits)
  then show ?thesis
  proof cases
    case create
    show ?thesis
    proof (cases r)
      case (Inl e)
      then show ?thesis using create_key_files [OF create(1) assms(2)] f1 by simp
    next
      case (Inr k)
      then obtain c where c: "k = fresh" "seal_key l fresh = Inr c" "fs_Files fs' (ld_Path l) = Some (masterKeyPerm, c)"
        using create_key_files [OF create(1) assms(2)] by auto
      have "load_pure l (Some (masterKeyPerm, c)) = Some fresh"
        using c(2) assms(3,4) by (auto simp: load_pure_def seal_key_def split: option.splits sum.splits if_splits)
      then show ?thesis using load [of fresh] c Inr create(2) by auto
    qed
  next
    case existing
    have "load_pure l (fs_Files fs' (ld_Path l)) = Some k" if "r = Inr k" for k
      using Load_Inr [of l fs1 fs' k] existing that Load_files [OF existing] by simp
    then show ?thesis using Load_files [OF existing] f1 load by simp
  next
    case error
    then show ?thesis using f1 by simp
  qed
qed (use assms(1) in \<open>auto simp: Ensure_def\<close>)

text \<open>A new key, with the write of the temporary file failing, then without faults.\<close>

definition demo_loader :: Loader where
  "demo_loader = \<lparr>ld_Path = ''/etc/omahab/master.key'', ld_Sealer = None, ld_IsRoot = True\<rparr>"

definition demo_fs :: "bool list \<Rightarrow> FS" where
  "demo_fs faults = \<lparr>fs_Files = (\<lambda>_. None), fs_Faults = faults, fs_Next = 0\<rparr>"

definition demo_key :: string where "demo_key = replicate 32 CHR ''k''"

lemma master_key_is_written_whole_or_not_witness:
  "fs_Files (fst (Ensure demo_loader demo_key (demo_fs [False, False, False, False, True]))) ''/etc/omahab/master.key'' = None \<and>
   snd (Load demo_loader ((fst (Ensure demo_loader demo_key (demo_fs [])))\<lparr>fs_Faults := []\<rparr>)) = Inr demo_key"
proof -
  have t: "\<not> is_temp_of (ld_Path demo_loader)"
  proof -
    have "path_dir ''/etc/omahab/master.key'' = ''/etc/omahab''" by code_simp
    then show ?thesis by (simp add: is_temp_of_def demo_loader_def)
  qed
  have k: "length demo_key = masterKeySize" by code_simp
  have s: "ld_Sealer demo_loader = Some x \<Longrightarrow> sl_Seal x demo_key = Inr c \<Longrightarrow> sl_Unseal x c = Inr demo_key" for x c
    by (simp add: demo_loader_def)
  have a: "isl (snd (Ensure demo_loader demo_key (demo_fs [False, False, False, False, True])))"
    "snd (Ensure demo_loader demo_key (demo_fs [])) = Inr demo_key" by code_simp+
  have f: "fs_Files (demo_fs [False, False, False, False, True]) ''/etc/omahab/master.key'' = None" by (simp add: demo_fs_def)
  have p: "ld_Path demo_loader = ''/etc/omahab/master.key''" by (simp add: demo_loader_def)
  show ?thesis
    using master_key_is_written_whole_or_not [OF prod.collapse [symmetric] t k s, of "demo_fs [False, False, False, False, True]"]
      master_key_is_written_whole_or_not [OF prod.collapse [symmetric] t k s, of "demo_fs []"] a f
    unfolding p by (cases "snd (Ensure demo_loader demo_key (demo_fs [False, False, False, False, True]))") simp_all
qed


definition toy_crypto :: RecoveryCrypto where
  "toy_crypto = \<lparr>rc_HKDF = (\<lambda>secret salt info. take 32 (secret @ salt @ info)), rc_Seal = (\<lambda>k n p. rev p @ n),
     rc_Open = (\<lambda>k n c. if drop 32 c = n then Some (rev (take 32 c)) else None),
     rc_MnemonicValid = (\<lambda>m. length m = 47), rc_Entropy = (\<lambda>m. Inr (take 32 m)),
     rc_Mnemonic = (\<lambda>e. Inr (join '' '' (replicate 24 ''a'')))\<rparr>"


end
