(* ===== verification/AppsCatalog.thy ===== *)
theory AppsCatalog
  imports ProjectsValidate
begin

text \<open>
  internal/apps (catalog.go, errors.go): the catalog of curated bundles and its contract.  Decoding the
  JSON documents is left out; parsing of durations and of absolute URLs are arguments.
\<close>

section \<open>Vocabulary\<close>

definition AErrNotFound :: sentinel where "AErrNotFound = ErrSentinel ''app not found''"
definition AErrAlreadyExists :: sentinel where "AErrAlreadyExists = ErrSentinel ''app already exists''"
definition AErrConflict :: sentinel where "AErrConflict = ErrSentinel ''app state conflicts with request''"
definition AErrInvalid :: sentinel where "AErrInvalid = ErrSentinel ''invalid request or catalog entry''"
definition AErrRunner :: sentinel where "AErrRunner = ErrSentinel ''runner operation failed''"

text \<open>A ValidationError wraps ErrInvalid and lists its problems.\<close>

definition problems_error :: "string list \<Rightarrow> goerror" where
  "problems_error ps = GoErr [AErrInvalid] (''invalid: '' @ join ''; '' ps)"

definition app_invalid :: "string \<Rightarrow> goerror" where "app_invalid m = problems_error [m]"

definition CheckNone :: string where "CheckNone = ''none''"
definition CheckHTTP :: string where "CheckHTTP = ''http''"
definition CheckCommand :: string where "CheckCommand = ''command''"

record DataVolume =
  dv_Name :: string
  dv_Path :: string

record BackupHooks =
  bh_QuiesceUnits :: "string list"
  bh_Databases :: "string list"

record OIDCConfig =
  oc_Supported :: bool
  oc_Mode :: string
  oc_Provider :: string

record HealthCheck =
  hc_Kind :: string
  hc_Path :: string
  hc_Port :: int
  hc_Service :: string
  hc_Command :: "string list"
  hc_Interval :: string
  hc_Timeout :: string

record Bundle =
  bu_ID :: string
  bu_Name :: string
  bu_Port :: int
  bu_DefaultExposure :: exposure
  bu_MaxExposure :: exposure
  bu_HealthCheck :: HealthCheck
  bu_StartupGraceSeconds :: int
  bu_Data :: "DataVolume list"
  bu_Backup :: BackupHooks
  bu_OIDC :: OIDCConfig
  bu_MemoryMB :: int
  bu_Default :: bool
  bu_Route :: string
  bu_AppPath :: string
  bu_Dependencies :: "string list"
  bu_SecretSources :: "string list"
  bu_PipelineImage :: string
  bu_Units :: "string list"
  bu_Groups :: "string list"

section \<open>Patterns\<close>

text \<open>A first and a last character, with anything of the middle between them.\<close>

definition framed :: "(char \<Rightarrow> bool) \<Rightarrow> (char \<Rightarrow> bool) \<Rightarrow> (char \<Rightarrow> bool) \<Rightarrow> string \<Rightarrow> bool" where
  "framed first mid final s \<longleftrightarrow> (case s of [] \<Rightarrow> False
     | c # r \<Rightarrow> first c \<and> (r = [] \<or> list_all mid (butlast r) \<and> final (last r)))"

definition slug_mid :: "char \<Rightarrow> bool" where "slug_mid c \<longleftrightarrow> is_alnum c \<or> c = CHR ''-''"

definition slugRe :: "string \<Rightarrow> bool" where "slugRe = framed is_lower slug_mid is_alnum"

definition hostnameRe :: "string \<Rightarrow> bool" where
  "hostnameRe s \<longleftrightarrow> list_all (framed is_alnum slug_mid is_alnum) (split_on CHR ''.'' s)"

definition volumeName :: "string \<Rightarrow> bool" where
  "volumeName = framed is_alnum (\<lambda>c. slug_mid c \<or> c = CHR ''_'') is_alnum"

definition routeRe :: "string \<Rightarrow> bool" where "routeRe = list_all slug_mid"

definition pipelineRe :: "string \<Rightarrow> bool" where
  "pipelineRe s \<longleftrightarrow> (case split_on CHR ''@'' s of [repo, digest] \<Rightarrow> repo \<noteq> [] \<and> digestPattern digest | _ \<Rightarrow> False)"

definition validSlug :: "string \<Rightarrow> bool" where "validSlug s \<longleftrightarrow> length s \<le> 63 \<and> slugRe s"

definition exposureRank :: "exposure \<Rightarrow> int" where
  "exposureRank e = (if e = [] \<or> e = ExposurePrivate then 0 else if e = ExposureShared then 1 else if e = ExposurePublic then 2 else -1)"

definition validateAppPath :: "string \<Rightarrow> string \<Rightarrow> string" where
  "validateAppPath p route =
     (if p = [] then []
      else if \<not> has_prefix p ''/'' \<or> has_prefix p ''//'' then ''app_path '' @ quote p @ '' must begin with one '' @ quote ''/''
      else if List.member p (char_of (92 :: nat)) then ''app_path '' @ quote p @ '' must not contain a backslash''
      else if contains_any p ''?#:'' then ''app_path '' @ quote p @ '' must not contain a URL authority, scheme, query, or fragment''
      else if contains_str p ''//'' then ''app_path '' @ quote p @ '' must not contain '' @ quote ''//''
      else (case (if p = ''/'' then None else List.find (\<lambda>s. s = [] \<or> s = ''.'' \<or> s = ''..'') (split_on CHR ''/'' (trim_prefix p ''/''))) of
          Some s \<Rightarrow> if s = [] then ''app_path '' @ quote p @ '' must not contain empty segments''
            else ''app_path '' @ quote p @ '' must not contain '' @ quote s @ '' segments''
        | None \<Rightarrow> if trim_space route = [] then ''app_path '' @ quote p @ '' requires a nonempty route'' else []))"

section \<open>Validation of a bundle\<close>

text \<open>A loop over a list that reports the problems of each item and every repeated key.\<close>

fun check_items :: "('a \<Rightarrow> string) \<Rightarrow> ('a \<Rightarrow> string list) \<Rightarrow> (string \<Rightarrow> string) \<Rightarrow> string list \<Rightarrow> 'a list \<Rightarrow> string list" where
  "check_items key probs dup seen [] = []"
| "check_items key probs dup seen (x # xs) =
     probs x @ (if List.member seen (key x) then [dup (key x)] else []) @ check_items key probs dup (key x # seen) xs"

text \<open>A problem, unless the condition holds.\<close>

definition unless :: "bool \<Rightarrow> string \<Rightarrow> string list" where "unless b m = (if b then [] else [m])"

record Parsers =
  ps_Duration :: "string \<Rightarrow> int option"
  ps_IsAbs :: "string \<Rightarrow> bool"

definition health_duration_problems :: "Parsers \<Rightarrow> HealthCheck \<Rightarrow> string list" where
  "health_duration_problems ps h =
     unless (hc_Interval h = [] \<or> ps_Duration ps (hc_Interval h) \<noteq> None) (''health check interval '' @ quote (hc_Interval h) @ '' is not a duration'') @
     unless (hc_Timeout h = [] \<or> ps_Duration ps (hc_Timeout h) \<noteq> None) (''health check timeout '' @ quote (hc_Timeout h) @ '' is not a duration'')"

definition validateHealthCheck :: "Parsers \<Rightarrow> HealthCheck \<Rightarrow> int \<Rightarrow> HealthCheck \<times> string list" where
  "validateHealthCheck ps h0 bundlePort =
     (let (h, problems) =
        (if hc_Kind h0 = [] \<or> hc_Kind h0 = CheckNone then (h0\<lparr>hc_Kind := CheckNone\<rparr>, [])
         else if hc_Kind h0 = CheckHTTP then
           (let h1 = (if hc_Path h0 = [] then h0\<lparr>hc_Path := ''/''\<rparr> else h0) in
            if ps_IsAbs ps (hc_Path h1) then (h1, [])
            else (let h2 = (if hc_Port h1 = 0 then h1\<lparr>hc_Port := bundlePort\<rparr> else h1) in
              (h2, unless (has_prefix (hc_Path h1) ''/'') (''health check path '' @ quote (hc_Path h1) @ '' must start with /'') @
                   unless (0 < hc_Port h2 \<and> hc_Port h2 \<le> 65535) ''health check kind http requires a port (check port or bundle port)'')))
         else if hc_Kind h0 = CheckCommand then
           (h0, unless (hc_Service h0 \<noteq> [] \<and> hc_Command h0 \<noteq> []) ''health check kind command requires service and command'')
         else (h0, [''health check kind '' @ quote (hc_Kind h0) @ '' must be none, http, or command'']))
      in (h, problems @ health_duration_problems ps h))"

definition unit_name :: "string \<Rightarrow> bool" where
  "unit_name u \<longleftrightarrow> has_suffix u ''.service'' \<or> has_suffix u ''.socket'' \<or> has_suffix u ''.timer''"

definition bundle_id_ok :: "string \<Rightarrow> bool" where "bundle_id_ok s \<longleftrightarrow> validSlug s \<and> 2 \<le> length s"

definition id_rule :: string where
  "id_rule = '' must be 2-63 chars of [a-z0-9-], starting with a letter and ending alphanumeric''"

text \<open>The text before the first occurrence of a pattern: strings.Split(s, p)[0].\<close>

fun before :: "string \<Rightarrow> string \<Rightarrow> string" where
  "before p [] = []"
| "before p (c # s) = (if has_prefix (c # s) p then [] else c # before p s)"

definition route_problems :: "string \<Rightarrow> string list" where
  "route_problems r =
     (if contains_str r ''{{'' then
        (if \<not> contains_str r ''{{.Domain}}'' then [''route '' @ quote r @ '' must contain {{.Domain}} when templated'']
         else (let prefix = trim_suffix (before ''{{'' r) ''.'' in
           unless (prefix = [] \<or> routeRe prefix) (''route '' @ quote r @ '' prefix '' @ quote prefix @ '' must match ^[a-z0-9-]*$'')))
      else unless (routeRe r) (''route '' @ quote r @ '' must match ^[a-z0-9-]*$'')) @
     unless (length r \<le> 63) (''route '' @ quote r @ '' must be at most 63 chars'')"

definition volume_problems :: "DataVolume \<Rightarrow> string list" where
  "volume_problems v =
     unless (volumeName (dv_Name v)) (''data volume name '' @ quote (dv_Name v) @ '' must be [a-z0-9_-]'') @
     unless (has_prefix (dv_Path v) ''/'') (''data volume '' @ quote (dv_Name v) @ '' path '' @ quote (dv_Path v) @ '' must be absolute'')"

definition dep_problems :: "string \<Rightarrow> string \<Rightarrow> string list" where
  "dep_problems i d =
     unless (bundle_id_ok d) (''dependency '' @ quote d @ id_rule) @
     unless (d \<noteq> i) (''dependency '' @ quote d @ '' cannot be self'')"

definition exposure_problems :: "exposure \<Rightarrow> exposure \<Rightarrow> string list" where
  "exposure_problems d m =
     unless (0 \<le> exposureRank d) (''default_exposure '' @ quote d @ '' is not private, shared, or public'') @
     unless (0 \<le> exposureRank m) (''max_exposure '' @ quote m @ '' is not private, shared, or public'') @
     unless (exposureRank d \<le> exposureRank m) (''default_exposure '' @ quote d @ '' exceeds max_exposure '' @ quote m)"

definition list_problems :: "Bundle \<Rightarrow> string list" where
  "list_problems b =
     check_items dv_Name volume_problems (\<lambda>n. ''data volume '' @ quote n @ '' declared twice'') [] (bu_Data b) @
     check_items id (\<lambda>u. unless (unit_name u) (''quiesce unit '' @ quote u @ '' must name a .service/.socket/.timer unit''))
       (\<lambda>u. ''quiesce unit '' @ quote u @ '' listed twice'') [] (bh_QuiesceUnits (bu_Backup b)) @
     check_items id (\<lambda>d. unless (validSlug d \<or> volumeName d) (''database '' @ quote d @ '' must be [a-z0-9_-]''))
       (\<lambda>d. ''database '' @ quote d @ '' listed twice'') [] (bh_Databases (bu_Backup b)) @
     unless (0 \<le> bu_MemoryMB b) ''resources.memory_mb must not be negative'' @
     route_problems (bu_Route b) @
     (let m = validateAppPath (bu_AppPath b) (bu_Route b) in unless (m = []) m) @
     check_items id (dep_problems (bu_ID b)) (\<lambda>d. ''dependency '' @ quote d @ '' listed twice'') [] (bu_Dependencies b) @
     check_items id (\<lambda>s. unless (trim_space s \<noteq> []) ''secret source must not be empty'')
       (\<lambda>s. ''secret source '' @ quote s @ '' listed twice'') [] (bu_SecretSources b) @
     unless (trim_space (bu_PipelineImage b) = [] \<or> pipelineRe (trim_space (bu_PipelineImage b)))
       (''pipeline_image '' @ quote (bu_PipelineImage b) @ '' must be repository@sha256:<64 lowercase hex>'') @
     unless (bu_Units b \<noteq> []) ''units is required for every bundle'' @
     check_items id (\<lambda>u. unless (unit_name u) (''unit '' @ quote u @ '' must name a .service/.socket/.timer unit''))
       (\<lambda>u. ''unit '' @ quote u @ '' listed twice'') [] (bu_Units b) @
     concat (map (\<lambda>g. unless (g = ''members'' \<or> g = ''admins'') (''group '' @ quote g @ '' must be members or admins'')) (bu_Groups b))"

text \<open>The copy with its defaults filled in, and the problems found on the way.\<close>

definition normalized :: "Parsers \<Rightarrow> Bundle \<Rightarrow> Bundle" where
  "normalized ps b = b\<lparr>bu_Name := trim_space (bu_Name b),
     bu_DefaultExposure := (if bu_DefaultExposure b = [] then ExposurePrivate else bu_DefaultExposure b),
     bu_MaxExposure := (if bu_MaxExposure b = [] then ExposurePrivate else bu_MaxExposure b),
     bu_HealthCheck := fst (validateHealthCheck ps (bu_HealthCheck b) (bu_Port b))\<rparr>"

definition bundle_problems :: "Parsers \<Rightarrow> Bundle \<Rightarrow> string list" where
  "bundle_problems ps b0 = (let b = normalized ps b0 in
     unless (bundle_id_ok (bu_ID b)) (''id '' @ quote (bu_ID b) @ id_rule) @
     unless (bu_Name b \<noteq> []) ''name is required'' @
     unless (0 \<le> bu_Port b \<and> bu_Port b \<le> 65535) (''port '' @ itoa (bu_Port b) @ '' out of range'') @
     exposure_problems (bu_DefaultExposure b) (bu_MaxExposure b) @
     snd (validateHealthCheck ps (bu_HealthCheck b0) (bu_Port b0)) @
     unless (0 \<le> bu_StartupGraceSeconds b) (''startup_grace_seconds '' @ itoa (bu_StartupGraceSeconds b) @ '' must not be negative'') @
     list_problems b)"

definition Bundle_validate :: "Parsers \<Rightarrow> Bundle \<Rightarrow> Bundle result" where
  "Bundle_validate ps b = (let p = bundle_problems ps b in if p \<noteq> [] then Inl (problems_error p) else Inr (normalized ps b))"

definition installed_volume_problems :: "DataVolume \<Rightarrow> string list" where
  "installed_volume_problems v =
     unless (\<not> (dv_Path v = ''/data'' \<or> dv_Path v = ''/config'' \<or> has_prefix (dv_Path v) ''/app/'' \<or> has_prefix (dv_Path v) ''/var/lib/postgresql''))
       (''data volume '' @ quote (dv_Name v) @ '' path '' @ quote (dv_Path v) @ '' is a container-era path; use native host path'') @
     unless (\<not> has_prefix (dv_Path v) ''/mnt/'')
       (''data volume '' @ quote (dv_Name v) @ '' path '' @ quote (dv_Path v) @ '' must be canonical, not disk-specific'')"

definition installed_problems :: "Bundle \<Rightarrow> string list" where
  "installed_problems b = unless (bu_Units b \<noteq> []) ''units is required in installed catalog'' @ concat (map installed_volume_problems (bu_Data b))"

definition ValidateInstalled :: "Bundle \<Rightarrow> goerror option" where
  "ValidateInstalled b = (let p = installed_problems b in if p \<noteq> [] then Some (problems_error p) else None)"

section \<open>The catalog\<close>

record Catalog =
  cat_byID :: "(string \<times> Bundle) list"
  cat_order :: "string list"

fun index_bundles :: "Parsers \<Rightarrow> Catalog \<Rightarrow> Bundle list \<Rightarrow> Catalog result" where
  "index_bundles ps c [] = Inr c"
| "index_bundles ps c (b # bs) = (case Bundle_validate ps b of
      Inl e \<Rightarrow> Inl (wrapctx (''bundle '' @ quote (bu_ID b)) e)
    | Inr nb \<Rightarrow> if map_of (cat_byID c) (bu_ID nb) \<noteq> None then Inl (app_invalid (''duplicate bundle id '' @ quote (bu_ID nb)))
        else index_bundles ps \<lparr>cat_byID = (bu_ID nb, nb) # cat_byID c, cat_order = cat_order c @ [bu_ID nb]\<rparr> bs)"

text \<open>The last loop ranges over a Go map, in any order; here it is the catalog order, which decides only
  which of several unknown dependencies is reported.\<close>

definition unknown_dep :: "Catalog \<Rightarrow> (string \<times> string) option" where
  "unknown_dep c = List.find (\<lambda>(i, d). map_of (cat_byID c) d = None)
     (concat (map (\<lambda>(i, b). map (\<lambda>d. (i, d)) (bu_Dependencies b)) (rev (cat_byID c))))"

definition NewCatalog :: "Parsers \<Rightarrow> Bundle list \<Rightarrow> Catalog result" where
  "NewCatalog ps bs = (case index_bundles ps \<lparr>cat_byID = [], cat_order = []\<rparr> bs of
      Inl e \<Rightarrow> Inl e
    | Inr c \<Rightarrow> (case unknown_dep c of
        Some (i, d) \<Rightarrow> Inl (app_invalid (''bundle '' @ quote i @ '' depends on unknown bundle '' @ quote d))
      | None \<Rightarrow> Inr c))"

definition catalog_Get :: "Catalog \<Rightarrow> string \<Rightarrow> Bundle option" where "catalog_Get c i = map_of (cat_byID c) i"

definition catalog_IDs :: "Catalog \<Rightarrow> string list" where "catalog_IDs c = cat_order c"

definition catalog_Bundles :: "Catalog \<Rightarrow> Bundle list" where
  "catalog_Bundles c = map (\<lambda>i. the (map_of (cat_byID c) i)) (cat_order c)"

text \<open>LoadInstalledCatalogFile, after the file was read: every problem with the bundle it belongs to.\<close>

definition installed_catalog :: "Catalog \<Rightarrow> Catalog result" where
  "installed_catalog c = (let p = concat (map (\<lambda>b. map (\<lambda>m. ''bundle '' @ quote (bu_ID b) @ '': '' @ m) (installed_problems b)) (catalog_Bundles c)) in
     if p \<noteq> [] then Inl (problems_error p) else Inr c)"

section \<open>What a catalog guarantees\<close>

lemma unless_Nil [simp]: "unless b m = [] \<longleftrightarrow> b"
  by (simp add: unless_def)

lemma check_items_Nil:
  "check_items key probs dup seen xs = [] \<longleftrightarrow> (\<forall>x \<in> set xs. probs x = []) \<and> distinct (map key xs) \<and> key ` set xs \<inter> set seen = {}"
  by (induction xs arbitrary: seen) auto

definition catalog_ok :: "Catalog \<Rightarrow> bool" where
  "catalog_ok c \<longleftrightarrow> distinct (cat_order c) \<and> cat_order c = rev (map fst (cat_byID c)) \<and>
     list_all (\<lambda>(i, b). bu_ID b = i \<and> bundle_id_ok i \<and> bu_Units b \<noteq> [] \<and> distinct (bu_Dependencies b) \<and> \<not> List.member (bu_Dependencies b) i) (cat_byID c)"

lemma Bundle_validate_Inr:
  assumes "Bundle_validate ps b = Inr nb"
  shows "nb = normalized ps b" "bu_ID nb = bu_ID b" "bundle_id_ok (bu_ID nb)" "bu_Units nb \<noteq> []" "distinct (bu_Dependencies nb)" "bu_ID nb \<notin> set (bu_Dependencies nb)"
  using assms by (auto simp: Bundle_validate_def Let_def bundle_problems_def list_problems_def check_items_Nil dep_problems_def normalized_def split: if_splits)

lemma index_bundles_ok: "index_bundles ps c bs = Inr c' \<Longrightarrow> catalog_ok c \<Longrightarrow> catalog_ok c'"
proof (induction bs arbitrary: c)
  case (Cons b bs)
  then obtain nb where nb: "Bundle_validate ps b = Inr nb" "map_of (cat_byID c) (bu_ID nb) = None"
    "index_bundles ps \<lparr>cat_byID = (bu_ID nb, nb) # cat_byID c, cat_order = cat_order c @ [bu_ID nb]\<rparr> bs = Inr c'"
    by (auto split: sum.splits if_splits)
  have "catalog_ok \<lparr>cat_byID = (bu_ID nb, nb) # cat_byID c, cat_order = cat_order c @ [bu_ID nb]\<rparr>"
    using Cons.prems(2) nb(2) Bundle_validate_Inr [OF nb(1)] by (auto simp: catalog_ok_def map_of_eq_None_iff)
  then show ?case using Cons.IH nb(3) by blast
qed simp

lemma unknown_dep_None:
  "unknown_dep c = None \<longleftrightarrow> (\<forall>p \<in> set (cat_byID c). \<forall>d \<in> set (bu_Dependencies (snd p)). map_of (cat_byID c) d \<noteq> None)"
  unfolding unknown_dep_def find_None_iff by (auto simp: split_beta)

lemma NewCatalog_ok:
  assumes "NewCatalog ps bs = Inr c"
  shows "catalog_ok c" "catalog_Get c i = Some b \<Longrightarrow> d \<in> set (bu_Dependencies b) \<Longrightarrow> catalog_Get c d \<noteq> None"
proof -
  have i: "index_bundles ps \<lparr>cat_byID = [], cat_order = []\<rparr> bs = Inr c" and u: "unknown_dep c = None"
    using assms by (auto simp: NewCatalog_def split: sum.splits option.splits)
  show "catalog_ok c" by (rule index_bundles_ok [OF i]) (simp add: catalog_ok_def)
  show "catalog_Get c i = Some b \<Longrightarrow> d \<in> set (bu_Dependencies b) \<Longrightarrow> catalog_Get c d \<noteq> None"
    using u map_of_SomeD [of "cat_byID c" i b] unfolding unknown_dep_None catalog_Get_def by (metis snd_conv)
qed

lemma catalog_Bundles_rev:
  assumes "catalog_ok c" shows "catalog_Bundles c = rev (map snd (cat_byID c))"
proof -
  have d: "distinct (map fst (cat_byID c))" and o: "cat_order c = rev (map fst (cat_byID c))" using assms by (auto simp: catalog_ok_def)
  have "map (\<lambda>i. the (map_of (cat_byID c) i)) (map fst (cat_byID c)) = map snd (cat_byID c)"
    using d by (auto simp: list_eq_iff_nth_eq) (metis map_of_is_SomeI nth_mem option.sel prod.collapse)
  then show ?thesis by (simp add: catalog_Bundles_def o rev_map)
qed

lemma catalog_Bundles_ids: "catalog_ok c \<Longrightarrow> map bu_ID (catalog_Bundles c) = cat_order c"
  by (fastforce simp: catalog_Bundles_rev catalog_ok_def list_all_iff rev_map)

end
