(* ===== verification/AppsDb.thy ===== *)
theory AppsDb
  imports AppsCatalog GoTime
begin

text \<open>
  internal/apps (store.go, migrations.go, maintenance.go, events.go, runner.go): the tables of installed
  applications, their releases and their maintenance pauses, with the statements on them.
\<close>

section \<open>Rows\<close>

definition DesiredRunning :: string where "DesiredRunning = ''running''"
definition DesiredStopped :: string where "DesiredStopped = ''stopped''"

definition ObservedAbsent :: string where "ObservedAbsent = ''absent''"
definition ObservedProvisioning :: string where "ObservedProvisioning = ''provisioning''"
definition ObservedRunning :: string where "ObservedRunning = ''running''"
definition ObservedStopped :: string where "ObservedStopped = ''stopped''"
definition ObservedFailed :: string where "ObservedFailed = ''failed''"

lemmas observed_defs = ObservedAbsent_def ObservedProvisioning_def ObservedRunning_def ObservedStopped_def ObservedFailed_def
lemmas desired_defs = DesiredRunning_def DesiredStopped_def

record Application =
  app_ID :: id
  app_Name :: string
  app_BundleID :: string
  app_Image :: string
  app_Digest :: string
  app_Hostname :: string
  app_Exposure :: exposure
  app_Health :: health
  app_DesiredState :: string
  app_ObservedState :: string
  app_InstalledAt :: "time option"
  app_UpdatedAt :: time
  app_LaunchURL :: string

record appRecord =
  ar_ID :: id
  ar_Name :: string
  ar_BundleID :: string
  ar_Image :: string
  ar_Digest :: string
  ar_Hostname :: string
  ar_Exposure :: exposure
  ar_Health :: health
  ar_DesiredState :: string
  ar_ObservedState :: string
  ar_CurrentReleaseID :: id
  ar_PreviousReleaseID :: id
  ar_InstalledAt :: "time option"
  ar_UpdatedAt :: time
  ar_LastError :: string

definition application :: "appRecord \<Rightarrow> Application" where
  "application r = \<lparr>app_ID = ar_ID r, app_Name = ar_Name r, app_BundleID = ar_BundleID r, app_Image = ar_Image r, app_Digest = ar_Digest r,
     app_Hostname = ar_Hostname r, app_Exposure = ar_Exposure r, app_Health = ar_Health r, app_DesiredState = ar_DesiredState r,
     app_ObservedState = ar_ObservedState r, app_InstalledAt = ar_InstalledAt r, app_UpdatedAt = ar_UpdatedAt r, app_LaunchURL = []\<rparr>"

record releaseRecord =
  rr_ID :: id
  rr_AppID :: id
  rr_Digest :: string
  rr_Compose :: string
  rr_CreatedAt :: time

record Maintenance =
  mn_BundleID :: string
  mn_Reason :: string
  mn_OperationID :: string
  mn_CreatedAt :: string

record apps_db =
  adb_apps :: "appRecord list"
  adb_releases :: "releaseRecord list"
  adb_maintenance :: "Maintenance list"

definition empty_apps_db :: apps_db where
  "empty_apps_db = \<lparr>adb_apps = [], adb_releases = [], adb_maintenance = []\<rparr>"

section \<open>Applications and releases\<close>

definition getApp :: "apps_db \<Rightarrow> id \<Rightarrow> appRecord result" where
  "getApp db i = (case List.find (\<lambda>r. ar_ID r = i) (adb_apps db) of
      None \<Rightarrow> Inl (wrapf AErrNotFound (''app '' @ i)) | Some r \<Rightarrow> Inr r)"

definition getAppByName :: "apps_db \<Rightarrow> string \<Rightarrow> appRecord result" where
  "getAppByName db n = (case List.find (\<lambda>r. ar_Name r = n) (adb_apps db) of
      None \<Rightarrow> Inl (wrapf AErrNotFound (''app '' @ quote n)) | Some r \<Rightarrow> Inr r)"

definition listApps :: "apps_db \<Rightarrow> appRecord list" where
  "listApps db = sort_key ar_Name (adb_apps db)"

definition app_getRelease :: "apps_db \<Rightarrow> id \<Rightarrow> releaseRecord result" where
  "app_getRelease db i = (case List.find (\<lambda>r. rr_ID r = i) (adb_releases db) of
      None \<Rightarrow> Inl (wrapf AErrNotFound (''release '' @ i)) | Some r \<Rightarrow> Inr r)"

text \<open>One transaction: the row of the application, with no previous release and no error, and its release.\<close>

definition createAppWithRelease :: "apps_db \<Rightarrow> appRecord \<Rightarrow> releaseRecord \<Rightarrow> apps_db result" where
  "createAppWithRelease db r rel =
     (if list_ex (\<lambda>x. ar_ID x = ar_ID r \<or> ar_Name x = ar_Name r) (adb_apps db) then Inl (wrapf AErrAlreadyExists (''app '' @ quote (ar_Name r)))
      else if list_ex (\<lambda>x. rr_ID x = rr_ID rel) (adb_releases db) then Inl (errorf ''constraint failed: UNIQUE constraint failed: app_releases.id'')
      else if rr_AppID rel \<noteq> ar_ID r \<and> \<not> list_ex (\<lambda>x. ar_ID x = rr_AppID rel) (adb_apps db) then Inl (errorf ''constraint failed: FOREIGN KEY constraint failed'')
      else Inr (db\<lparr>adb_apps := adb_apps db @ [r\<lparr>ar_PreviousReleaseID := [], ar_LastError := []\<rparr>], adb_releases := adb_releases db @ [rel]\<rparr>))"

text \<open>An UPDATE of one row by its identifier, which must exist.\<close>

definition update_app :: "(appRecord \<Rightarrow> appRecord) \<Rightarrow> apps_db \<Rightarrow> id \<Rightarrow> apps_db result" where
  "update_app f db i = (if list_ex (\<lambda>r. ar_ID r = i) (adb_apps db)
     then Inr (db\<lparr>adb_apps := update_where (\<lambda>r. ar_ID r = i) f (adb_apps db)\<rparr>)
     else Inl (wrapf AErrNotFound (''app '' @ i)))"

definition setDesired :: "apps_db \<Rightarrow> id \<Rightarrow> string \<Rightarrow> time \<Rightarrow> apps_db result" where
  "setDesired db i desired ts = update_app (\<lambda>r. r\<lparr>ar_DesiredState := desired, ar_UpdatedAt := ts\<rparr>) db i"

definition setObserved :: "apps_db \<Rightarrow> id \<Rightarrow> string \<Rightarrow> health \<Rightarrow> string \<Rightarrow> time \<Rightarrow> apps_db result" where
  "setObserved db i observed h lastErr ts =
     update_app (\<lambda>r. r\<lparr>ar_ObservedState := observed, ar_Health := h, ar_LastError := lastErr, ar_UpdatedAt := ts\<rparr>) db i"

definition app_setHealth :: "apps_db \<Rightarrow> id \<Rightarrow> health \<Rightarrow> time \<Rightarrow> apps_db result" where
  "app_setHealth db i h ts = update_app (\<lambda>r. r\<lparr>ar_Health := h, ar_UpdatedAt := ts\<rparr>) db i"

definition app_activateRelease :: "apps_db \<Rightarrow> id \<Rightarrow> id \<Rightarrow> id \<Rightarrow> string \<Rightarrow> string \<Rightarrow> health \<Rightarrow> string \<Rightarrow> time \<Rightarrow> apps_db result" where
  "app_activateRelease db i current previous digest observed h lastErr ts =
     (case update_app (\<lambda>r. r\<lparr>ar_CurrentReleaseID := current, ar_PreviousReleaseID := previous, ar_Digest := digest,
         ar_ObservedState := observed, ar_Health := h, ar_LastError := lastErr, ar_UpdatedAt := ts\<rparr>) db i of
       Inl e \<Rightarrow> Inl e
     | Inr db1 \<Rightarrow> Inr (db1\<lparr>adb_releases := filter (\<lambda>r. rr_AppID r \<noteq> i \<or> rr_ID r = current \<or> rr_ID r = previous) (adb_releases db1)\<rparr>))"

definition deleteApp :: "apps_db \<Rightarrow> id \<Rightarrow> apps_db result" where
  "deleteApp db i = (if list_ex (\<lambda>r. ar_ID r = i) (adb_apps db)
     then Inr (db\<lparr>adb_apps := filter (\<lambda>r. ar_ID r \<noteq> i) (adb_apps db), adb_releases := filter (\<lambda>r. rr_AppID r \<noteq> i) (adb_releases db)\<rparr>)
     else Inl (wrapf AErrNotFound (''app '' @ i)))"

section \<open>Maintenance\<close>

definition MaintenanceImport :: string where "MaintenanceImport = ''import''"
definition MaintenanceRestore :: string where "MaintenanceRestore = ''restore''"
definition MaintenanceStorage :: string where "MaintenanceStorage = ''storage''"

lemmas reason_defs = MaintenanceImport_def MaintenanceRestore_def MaintenanceStorage_def

definition ErrMaintained :: sentinel where "ErrMaintained = ErrSentinel ''app is in maintenance''"

definition MaintenanceError :: "Maintenance \<Rightarrow> goerror" where
  "MaintenanceError m = GoErr [ErrMaintained] (''app '' @ quote (mn_BundleID m) @ '' is in maintenance ('' @ mn_Reason m @
     (if mn_OperationID m \<noteq> [] then '', operation '' @ mn_OperationID m else []) @ '')'')"

definition validReason :: "string \<Rightarrow> bool" where
  "validReason r \<longleftrightarrow> r = MaintenanceImport \<or> r = MaintenanceRestore \<or> r = MaintenanceStorage"

definition GetMaintenance :: "apps_db \<Rightarrow> string \<Rightarrow> Maintenance result" where
  "GetMaintenance db b = (case List.find (\<lambda>m. mn_BundleID m = b) (adb_maintenance db) of None \<Rightarrow> Inl (bare AErrNotFound) | Some m \<Rightarrow> Inr m)"

definition ListMaintenance :: "apps_db \<Rightarrow> Maintenance list" where
  "ListMaintenance db = sort_key mn_BundleID (adb_maintenance db)"

definition bad_reason :: "string \<Rightarrow> goerror" where
  "bad_reason r = wrapf AErrInvalid (''reason '' @ quote r @ '' must be import|restore|storage'')"

definition setMaintenance :: "apps_db \<Rightarrow> Maintenance \<Rightarrow> time \<Rightarrow> apps_db result" where
  "setMaintenance db m0 now = (if \<not> validReason (mn_Reason m0) then Inl (bad_reason (mn_Reason m0))
     else (let m = (if mn_CreatedAt m0 = [] then m0\<lparr>mn_CreatedAt := FormatTime now\<rparr> else m0) in
       Inr (db\<lparr>adb_maintenance := (if list_ex (\<lambda>x. mn_BundleID x = mn_BundleID m) (adb_maintenance db)
         then update_where (\<lambda>x. mn_BundleID x = mn_BundleID m) (\<lambda>x. m) (adb_maintenance db) else adb_maintenance db @ [m])\<rparr>)))"

definition deleteMaintenance :: "apps_db \<Rightarrow> string \<Rightarrow> apps_db" where
  "deleteMaintenance db b = db\<lparr>adb_maintenance := filter (\<lambda>m. mn_BundleID m \<noteq> b) (adb_maintenance db)\<rparr>"

definition clearMaintenance :: "apps_db \<Rightarrow> string \<Rightarrow> bool \<Rightarrow> apps_db \<times> goerror option" where
  "clearMaintenance db b generic =
     (if generic then (case GetMaintenance db b of
          Inl e \<Rightarrow> (db, None)
        | Inr m \<Rightarrow> if mn_Reason m = MaintenanceRestore \<or> mn_Reason m = MaintenanceStorage
            then (db, Some (wrapf AErrConflict (''maintenance for '' @ quote b @ '' is owned by '' @ mn_Reason m @ '' and cannot be cleared by generic resume'')))
            else (deleteMaintenance db b, None))
      else (deleteMaintenance db b, None))"

definition PauseForMaintenance :: "Catalog \<Rightarrow> apps_db \<Rightarrow> string \<Rightarrow> string \<Rightarrow> string \<Rightarrow> time \<Rightarrow> apps_db \<times> Maintenance result" where
  "PauseForMaintenance c db b reason op now = (case catalog_Get c b of
      None \<Rightarrow> (db, Inl (wrapf AErrNotFound (''unknown bundle '' @ quote b)))
    | Some _ \<Rightarrow> if \<not> validReason reason then (db, Inl (bad_reason reason))
        else (let m = \<lparr>mn_BundleID = b, mn_Reason = reason, mn_OperationID = op, mn_CreatedAt = FormatTime now\<rparr> in
          case setMaintenance db m now of Inl e \<Rightarrow> (db, Inl e) | Inr db1 \<Rightarrow> (db1, Inr m)))"

definition ResumeFromMaintenance :: "apps_db \<Rightarrow> string \<Rightarrow> apps_db \<times> goerror option" where
  "ResumeFromMaintenance db b = clearMaintenance db b True"

definition requireNotMaintained :: "apps_db \<Rightarrow> string \<Rightarrow> goerror option" where
  "requireNotMaintained db b = (case GetMaintenance db b of Inl e \<Rightarrow> None | Inr m \<Rightarrow> Some (MaintenanceError m))"

section \<open>Collaborators\<close>

record DeploySpec =
  sp_Env :: "string list"
  sp_Health :: HealthCheck

record AppEvent =
  ae_ID :: id
  ae_Type :: string
  ae_Severity :: string
  ae_ResourceID :: id
  ae_Message :: string
  ae_Data :: "(string \<times> string) list"
  ae_CreatedAt :: time

record 'w AppDeps =
  ap_Deploy :: "Application \<Rightarrow> DeploySpec \<Rightarrow> 'w \<Rightarrow> 'w \<times> goerror option"
  ap_Start :: "Application \<Rightarrow> DeploySpec \<Rightarrow> 'w \<Rightarrow> 'w \<times> goerror option"
  ap_Stop :: "Application \<Rightarrow> DeploySpec \<Rightarrow> 'w \<Rightarrow> 'w \<times> goerror option"
  ap_Remove :: "Application \<Rightarrow> DeploySpec \<Rightarrow> 'w \<Rightarrow> 'w \<times> goerror option"
  ap_Check :: "Application \<Rightarrow> DeploySpec \<Rightarrow> 'w \<Rightarrow> 'w \<times> health result"
  ap_Env :: "(Application \<Rightarrow> 'w \<Rightarrow> 'w \<times> string list result) option"
  ap_Emit :: "AppEvent \<Rightarrow> 'w \<Rightarrow> 'w"
  ap_Now :: "'w \<Rightarrow> time"
  ap_NewID :: "string \<Rightarrow> 'w \<Rightarrow> 'w \<times> id"

text \<open>A name and a value around the first equals sign.\<close>

definition cut_eq :: "string \<Rightarrow> string \<times> string" where
  "cut_eq kv = (takeWhile (\<lambda>c. c \<noteq> CHR ''='') kv, drop 1 (dropWhile (\<lambda>c. c \<noteq> CHR ''='') kv))"

text \<open>The secret values, longest first, replaced by the name with a dollar sign; sort.Slice leaves the order
  of values of one length open, here it is the given one.\<close>

definition app_redact :: "string \<Rightarrow> string list \<Rightarrow> string" where
  "app_redact msg env = fold (\<lambda>(n, v) s. replace_all v (CHR ''$'' # n) s)
     (sort_key (\<lambda>(n, v). - int (length v)) (filter (\<lambda>(n, v). n \<noteq> [] \<and> v \<noteq> []) (map cut_eq (filter (\<lambda>kv. List.member kv CHR ''='') env)))) msg"

definition app_emit :: "'w AppDeps \<Rightarrow> string \<Rightarrow> string \<Rightarrow> id \<Rightarrow> string \<Rightarrow> (string \<times> string) list \<Rightarrow> 'w \<Rightarrow> 'w" where
  "app_emit dep typ severity i msg dat w = (case ap_NewID dep ''evt'' w of (w1, e) \<Rightarrow>
     ap_Emit dep \<lparr>ae_ID = e, ae_Type = typ, ae_Severity = severity, ae_ResourceID = i, ae_Message = msg, ae_Data = dat, ae_CreatedAt = ap_Now dep w1\<rparr> w1)"

end
