(* ===== verification/ControlErrors.thy ===== *)
theory ControlErrors
  imports AppsDb BackupsTypes WorkspacesRunner
begin

text \<open>
  internal/controlplane (translateError of backend.go) and internal/apitypes/errors.go: the error of a
  controller as the error of the API.  Sentinels of packages that are not modelled appear by their text.
\<close>

definition ApiNotFound :: sentinel where "ApiNotFound = ErrApi ''not found''"
definition ApiAlreadyExists :: sentinel where "ApiAlreadyExists = ErrApi ''already exists''"
definition ApiValidation :: sentinel where "ApiValidation = ErrApi ''validation failed''"
definition ApiUnauthorized :: sentinel where "ApiUnauthorized = ErrApi ''unauthorized''"
definition ApiForbidden :: sentinel where "ApiForbidden = ErrApi ''forbidden''"
definition ApiConflict :: sentinel where "ApiConflict = ErrApi ''conflict''"
definition ApiServiceUnavailable :: sentinel where "ApiServiceUnavailable = ErrApi ''service unavailable''"

lemmas api_defs = ApiNotFound_def ApiAlreadyExists_def ApiValidation_def ApiUnauthorized_def ApiForbidden_def ApiConflict_def ApiServiceUnavailable_def

definition api_sentinels :: "sentinel list" where
  "api_sentinels = [ApiNotFound, ApiAlreadyExists, ApiValidation, ApiUnauthorized, ApiForbidden, ApiConflict, ApiServiceUnavailable]"

definition ErrNotConfigured :: sentinel where "ErrNotConfigured = ErrSentinel ''not configured''"
definition ErrRecoveryPhraseRequired :: sentinel where "ErrRecoveryPhraseRequired = ErrSentinel ''recovery_phrase_required''"
definition ErrRecoveryPhraseMismatch :: sentinel where "ErrRecoveryPhraseMismatch = ErrSentinel ''recovery_phrase_mismatch''"

text \<open>The tests, in their order; secrets.ErrNotFound and ErrConflict are those of the store.\<close>

definition error_table :: "(sentinel list \<times> sentinel) list" where
  "error_table =
    [([ErrNotFound], ApiNotFound), ([ErrValidation], ApiValidation), ([ErrConflict], ApiAlreadyExists),
     ([PErrNotFound], ApiNotFound), ([ErrSlugTaken], ApiAlreadyExists), ([PErrValidation], ApiValidation),
     ([ErrDeployInProgress], ApiConflict), ([ErrNoRollbackTarget], ApiConflict), ([ErrDeployFailed, ErrUndeployFailed], ApiConflict),
     ([ErrReleaseMismatch], ApiConflict), ([PErrUnauthorized], ApiUnauthorized),
     ([AErrNotFound], ApiNotFound), ([AErrAlreadyExists], ApiAlreadyExists), ([AErrInvalid], ApiValidation), ([ErrMaintained, AErrConflict], ApiConflict),
     ([ErrRecoveryPhraseRequired], ApiValidation), ([ErrRecoveryPhraseMismatch], ApiForbidden),
     ([BErrNotFound], ApiNotFound), ([ErrNoRepository, ErrNoSnapshot, ErrInvalid], ApiValidation), ([ErrOperationInProgress, BErrConflict], ApiConflict),
     ([ErrNotFound], ApiNotFound), ([ErrConflict], ApiAlreadyExists),
     ([ErrSentinel ''environments: not found''], ApiNotFound),
     ([ErrSentinel ''environments: validation failed'', ErrSentinel ''environments: reserved name'', ErrSentinel ''environments: invalid name'',
       ErrSentinel ''environments: invalid value''], ApiValidation),
     ([ErrSentinel ''environments: conflict'', ErrSentinel ''environments: already consumed''], ApiAlreadyExists),
     ([ErrSentinel ''environments: expired''], ApiValidation), ([ErrSentinel ''environments: revoked''], ApiForbidden),
     ([ErrNotConfigured], ApiValidation), ([ErrSentinel ''provider: not found''], ApiNotFound), ([ErrSentinel ''provider: validation failed''], ApiValidation),
     ([ErrRunnerUnavailable], ApiServiceUnavailable), ([ErrSentinel ''integration not found''], ApiNotFound),
     ([ErrSentinel ''validation error'', ErrSentinel ''home assistant validation failed''], ApiValidation),
     ([ErrSentinel ''validation error'', ErrSentinel ''path traversal rejected'', ErrSentinel ''active .git sync rejected''], ApiValidation)]"

text \<open>What is left is sorted by the words of the message.\<close>

definition by_message :: "goerror \<Rightarrow> goerror" where
  "by_message e = (let msg = to_lower (err_msg e) in
     if contains_str msg ''not found'' then wrapf ApiNotFound (err_msg e)
     else if contains_str msg ''validation'' \<or> contains_str msg ''invalid'' then wrapf ApiValidation (err_msg e)
     else if contains_str msg ''conflict'' \<or> contains_str msg ''already exists'' \<or> contains_str msg ''already in use'' then wrapf ApiAlreadyExists (err_msg e)
     else e)"

definition translateError :: "goerror \<Rightarrow> goerror" where
  "translateError e =
     (if list_ex (errors_is e) api_sentinels then e
      else (case List.find (\<lambda>(ss, t). list_ex (errors_is e) ss) error_table of
          Some (ss, t) \<Rightarrow> wrapf t (err_msg e)
        | None \<Rightarrow> by_message e))"

lemma by_message_cases: "by_message e = e \<or> (\<exists>t \<in> set api_sentinels. by_message e = wrapf t (err_msg e))"
  by (simp add: by_message_def Let_def api_sentinels_def)

lemma error_table_targets: "(ss, t) \<in> set error_table \<Longrightarrow> t \<in> set api_sentinels"
  by (auto simp: error_table_def api_sentinels_def)

lemma translateError_cases:
  obtains (kept) "translateError e = e" | (named) t where "t \<in> set api_sentinels" "translateError e = wrapf t (err_msg e)"
proof (cases "list_ex (errors_is e) api_sentinels")
  case False
  show ?thesis
  proof (cases "List.find (\<lambda>(ss, t). list_ex (errors_is e) ss) error_table")
    case None
    then have "translateError e = by_message e" using False by (simp add: translateError_def)
    then show ?thesis using by_message_cases [of e] that by metis
  next
    case (Some p)
    then have "p \<in> set error_table" using find_Some_in by metis
    then show ?thesis using that(2) [of "snd p"] error_table_targets [of "fst p" "snd p"] False Some by (simp add: translateError_def split_beta)
  qed
qed (simp add: translateError_def that(1))

text \<open>Translating twice is translating once: an error that got a name of the API keeps it.\<close>

lemma translateError_idem: "translateError (translateError e) = translateError e"
proof (cases rule: translateError_cases [of e])
  case (named t)
  have "errors_is (wrapf t (err_msg e)) t" by simp
  then have "list_ex (errors_is (wrapf t (err_msg e))) api_sentinels" using named(1) by (auto simp: list_ex_iff)
  then show ?thesis using named(2) by (simp add: translateError_def)
qed simp

text \<open>A failure of the runner has no name of the API; its words decide.\<close>

lemma runner_failure_becomes_not_found:
  "errors_is (translateError (wrapf AErrRunner ''Unit web.service not found.'')) ApiNotFound"
  "errors_is (translateError (wrapf AErrRunner ''exit status 1'')) AErrRunner"
  by code_simp+

end
