(* ===== verification/AppsService.thy ===== *)
theory AppsService
  imports AppsDb
begin

text \<open>
  internal/apps (service.go): the lifecycle of an application.  The locks make the operations on one
  application, and the installations under one name, exclude each other: an operation is a function of
  the tables.  The catalog in use is an argument.
\<close>

section \<open>Views\<close>

record AppStatus =
  st_Application :: Application
  st_BundleID :: string
  st_PreviousDigest :: string
  st_RollbackAvailable :: bool
  st_Error :: string
  st_Maintenance :: "Maintenance option"

definition app_view :: "apps_db \<Rightarrow> appRecord \<Rightarrow> AppStatus result" where
  "app_view db r =
     (let st = \<lparr>st_Application = application r, st_BundleID = ar_BundleID r, st_PreviousDigest = [], st_RollbackAvailable = False,
           st_Error = ar_LastError r, st_Maintenance = (case GetMaintenance db (ar_BundleID r) of Inl _ \<Rightarrow> None | Inr m \<Rightarrow> Some m)\<rparr> in
      if ar_PreviousReleaseID r = [] then Inr st
      else (case app_getRelease db (ar_PreviousReleaseID r) of
          Inl e \<Rightarrow> if errors_is e AErrNotFound then Inr st else Inl e
        | Inr prev \<Rightarrow> Inr (st\<lparr>st_PreviousDigest := rr_Digest prev, st_RollbackAvailable := True\<rparr>)))"

definition app_Status :: "apps_db \<Rightarrow> id \<Rightarrow> AppStatus result" where
  "app_Status db i = (case getApp db i of Inl e \<Rightarrow> Inl e | Inr r \<Rightarrow> app_view db r)"

fun view_all :: "apps_db \<Rightarrow> appRecord list \<Rightarrow> AppStatus list result" where
  "view_all db [] = Inr []"
| "view_all db (r # rs) = (case app_view db r of Inl e \<Rightarrow> Inl e
     | Inr v \<Rightarrow> (case view_all db rs of Inl e \<Rightarrow> Inl e | Inr vs \<Rightarrow> Inr (v # vs)))"

definition app_List :: "apps_db \<Rightarrow> AppStatus list result" where "app_List db = view_all db (listApps db)"

section \<open>Specifications and errors\<close>

definition envFor :: "'w AppDeps \<Rightarrow> appRecord \<Rightarrow> 'w \<Rightarrow> 'w \<times> string list result" where
  "envFor dep r w = (case ap_Env dep of
      None \<Rightarrow> (w, Inr [])
    | Some src \<Rightarrow> (case src (application r) w of
        (w1, Inl e) \<Rightarrow> (w1, Inl (wrapctx ''env source'' e))
      | (w1, Inr env) \<Rightarrow> (case List.find (\<lambda>kv. \<not> List.member kv CHR ''='') env of
          Some kv \<Rightarrow> (w1, Inl (app_invalid (''env entry '' @ quote kv @ '' must be NAME=VALUE'')))
        | None \<Rightarrow> (w1, Inr env))))"

definition no_check :: HealthCheck where
  "no_check = \<lparr>hc_Kind = CheckNone, hc_Path = [], hc_Port = 0, hc_Service = [], hc_Command = [], hc_Interval = [], hc_Timeout = []\<rparr>"

definition healthCheckFor :: "Catalog \<Rightarrow> string \<Rightarrow> HealthCheck" where
  "healthCheckFor c b = (case catalog_Get c b of Some bd \<Rightarrow> bu_HealthCheck bd | None \<Rightarrow> no_check)"

definition specFor :: "Catalog \<Rightarrow> 'w AppDeps \<Rightarrow> appRecord \<Rightarrow> 'w \<Rightarrow> 'w \<times> DeploySpec result" where
  "specFor c dep r w = (case envFor dep r w of (w1, Inl e) \<Rightarrow> (w1, Inl e)
     | (w1, Inr env) \<Rightarrow> (w1, Inr \<lparr>sp_Env = env, sp_Health = healthCheckFor c (ar_BundleID r)\<rparr>))"

definition provisioning_error :: "id \<Rightarrow> goerror" where
  "provisioning_error i = wrapf AErrConflict (''app '' @ i @ '' is provisioning'')"

text \<open>What follows a call of the runner: the failure is recorded, redacted, and reported; a success sets
  the observed state, with the health unknown.\<close>

type_synonym 'w op_result = "'w \<times> apps_db \<times> AppStatus result"

definition runner_failed ::
  "'w AppDeps \<Rightarrow> apps_db \<Rightarrow> appRecord \<Rightarrow> string \<Rightarrow> string list \<Rightarrow> goerror \<Rightarrow> string \<Rightarrow> string \<Rightarrow> 'w \<Rightarrow> 'w op_result" where
  "runner_failed dep db r observed env e typ text w = (let msg = app_redact (err_msg e) env in
     case setObserved db (ar_ID r) observed (ar_Health r) msg (ap_Now dep w) of
       Inl se \<Rightarrow> (w, db, Inl se)
     | Inr db1 \<Rightarrow> (app_emit dep typ ''error'' (ar_ID r) text [(''digest'', ar_Digest r), (''error'', msg)] w, db1, Inl (wrapf AErrRunner msg)))"

definition runner_done :: "'w AppDeps \<Rightarrow> apps_db \<Rightarrow> appRecord \<Rightarrow> string \<Rightarrow> string \<Rightarrow> string \<Rightarrow> 'w \<Rightarrow> 'w op_result" where
  "runner_done dep db r observed typ text w = (case setObserved db (ar_ID r) observed HealthUnknown [] (ap_Now dep w) of
       Inl se \<Rightarrow> (w, db, Inl se)
     | Inr db1 \<Rightarrow> (app_emit dep typ ''info'' (ar_ID r) text [(''digest'', ar_Digest r)] w, db1, app_Status db1 (ar_ID r)))"

section \<open>Installing\<close>

record InstallRequest =
  ir_BundleID :: string
  ir_Name :: string
  ir_Hostname :: string
  ir_Exposure :: exposure

text \<open>The checks, in their order; the result is the name and the exposure.\<close>

definition install_name :: "Bundle \<Rightarrow> InstallRequest \<Rightarrow> string" where
  "install_name b req = (if ir_Name req = [] then bu_ID b else ir_Name req)"

definition install_check :: "apps_db \<Rightarrow> Bundle \<Rightarrow> InstallRequest \<Rightarrow> (string \<times> exposure) result" where
  "install_check db b req = (case requireNotMaintained db (bu_ID b) of
      Some e \<Rightarrow> Inl e
    | None \<Rightarrow> (let name = install_name b req; exposure = (if ir_Exposure req = [] then bu_DefaultExposure b else ir_Exposure req) in
        if \<not> validSlug name then Inl (app_invalid (''name '' @ quote name @ '' must be 1-63 chars of [a-z0-9-], starting with a letter''))
        else if exposureRank exposure < 0 then Inl (app_invalid (''exposure '' @ quote exposure @ '' is not private, shared, or public''))
        else if exposureRank exposure > exposureRank (bu_MaxExposure b)
          then Inl (app_invalid (''bundle '' @ quote (bu_ID b) @ '' supports at most '' @ quote (bu_MaxExposure b) @ '' exposure''))
        else if ir_Hostname req = [] \<and> exposureRank exposure > 0
          then Inl (app_invalid (''hostname is required for '' @ quote exposure @ '' exposure''))
        else if ir_Hostname req \<noteq> [] \<and> \<not> hostnameRe (ir_Hostname req)
          then Inl (app_invalid (''hostname '' @ quote (ir_Hostname req) @ '' is not a valid lowercase hostname''))
        else (case getAppByName db name of
            Inr _ \<Rightarrow> Inl (wrapf AErrAlreadyExists (''app '' @ quote name))
          | Inl e \<Rightarrow> if errors_is e AErrNotFound then Inr (name, exposure) else Inl e)))"

definition install_row :: "Bundle \<Rightarrow> string \<Rightarrow> exposure \<Rightarrow> string \<Rightarrow> id \<Rightarrow> id \<Rightarrow> time \<Rightarrow> appRecord" where
  "install_row b name exposure hostname i rel ts =
     \<lparr>ar_ID = i, ar_Name = name, ar_BundleID = bu_ID b, ar_Image = [], ar_Digest = [], ar_Hostname = hostname, ar_Exposure = exposure,
      ar_Health = HealthUnknown, ar_DesiredState = DesiredRunning, ar_ObservedState = ObservedProvisioning, ar_CurrentReleaseID = rel,
      ar_PreviousReleaseID = [], ar_InstalledAt = Some ts, ar_UpdatedAt = ts, ar_LastError = []\<rparr>"

text \<open>The deployment under the environment of the application, when that is known.\<close>

definition deploy_with :: "'w AppDeps \<Rightarrow> appRecord \<Rightarrow> HealthCheck \<Rightarrow> string list result \<Rightarrow> 'w \<Rightarrow> 'w \<times> goerror option" where
  "deploy_with dep r hc env w = (case env of Inl e \<Rightarrow> (w, Some e) | Inr kvs \<Rightarrow> ap_Deploy dep (application r) \<lparr>sp_Env = kvs, sp_Health = hc\<rparr> w)"

definition env_of :: "string list result \<Rightarrow> string list" where "env_of x = (case x of Inl _ \<Rightarrow> [] | Inr env \<Rightarrow> env)"

definition install_failed :: "'w AppDeps \<Rightarrow> apps_db \<Rightarrow> appRecord \<Rightarrow> DeploySpec \<Rightarrow> goerror \<Rightarrow> 'w \<Rightarrow> 'w op_result" where
  "install_failed dep db r spec e w = (let msg = app_redact (err_msg e) (sp_Env spec) in
     case ap_Remove dep (application r) spec w of (w1, _) \<Rightarrow>
       (case setObserved db (ar_ID r) ObservedFailed HealthUnknown msg (ap_Now dep w1) of
          Inl se \<Rightarrow> (w1, db, Inl se)
        | Inr db1 \<Rightarrow> (app_emit dep ''app.install_failed'' ''error'' (ar_ID r) (''install of '' @ ar_Name r @ '' failed'')
              [(''bundle_id'', ar_BundleID r), (''error'', msg)] w1, db1, Inl (wrapf AErrRunner msg))))"

definition probe_health :: "'w AppDeps \<Rightarrow> appRecord \<Rightarrow> DeploySpec \<Rightarrow> 'w \<Rightarrow> 'w \<times> health" where
  "probe_health dep r spec w = (case ap_Check dep (application r) spec w of (w1, Inl _) \<Rightarrow> (w1, HealthUnknown) | (w1, Inr h) \<Rightarrow> (w1, h))"

definition install_done :: "'w AppDeps \<Rightarrow> apps_db \<Rightarrow> appRecord \<Rightarrow> DeploySpec \<Rightarrow> 'w \<Rightarrow> 'w op_result" where
  "install_done dep db r spec w = (case probe_health dep r spec w of (w1, h) \<Rightarrow>
     (case setObserved db (ar_ID r) ObservedRunning h [] (ap_Now dep w1) of
        Inl se \<Rightarrow> (w1, db, Inl se)
      | Inr db1 \<Rightarrow> (app_emit dep ''app.installed'' ''info'' (ar_ID r) (ar_Name r @ '' installed'')
            [(''bundle_id'', ar_BundleID r), (''exposure'', ar_Exposure r)] w1, db1, app_Status db1 (ar_ID r))))"

definition install_deploy :: "'w AppDeps \<Rightarrow> apps_db \<Rightarrow> Bundle \<Rightarrow> appRecord \<Rightarrow> 'w \<Rightarrow> 'w op_result" where
  "install_deploy dep db b r w = (case envFor dep r w of (w1, env) \<Rightarrow>
     (let spec = \<lparr>sp_Env = env_of env, sp_Health = bu_HealthCheck b\<rparr> in
      case deploy_with dep r (bu_HealthCheck b) env w1 of
        (w2, Some e) \<Rightarrow> install_failed dep db r spec e w2
      | (w2, None) \<Rightarrow> install_done dep db r spec w2))"

definition app_Install :: "Catalog \<Rightarrow> 'w AppDeps \<Rightarrow> apps_db \<Rightarrow> InstallRequest \<Rightarrow> 'w \<Rightarrow> 'w op_result" where
  "app_Install c dep db req w = (case catalog_Get c (ir_BundleID req) of
      None \<Rightarrow> (w, db, Inl (app_invalid (''unknown bundle '' @ quote (ir_BundleID req))))
    | Some b \<Rightarrow> (case install_check db b req of
        Inl e \<Rightarrow> (w, db, Inl e)
      | Inr (name, exposure) \<Rightarrow> (case ap_NewID dep ''app'' w of (w1, i) \<Rightarrow> (case ap_NewID dep ''rel'' w1 of (w2, rel) \<Rightarrow>
          (let ts = ap_Now dep w; r = install_row b name exposure (ir_Hostname req) i rel ts in
           case createAppWithRelease db r \<lparr>rr_ID = rel, rr_AppID = i, rr_Digest = [], rr_Compose = [], rr_CreatedAt = ts\<rparr> of
             Inl e \<Rightarrow> (w2, db, Inl e)
           | Inr db1 \<Rightarrow> install_deploy dep db1 b r w2)))))"

section \<open>Starting and stopping\<close>

definition app_Start :: "Catalog \<Rightarrow> 'w AppDeps \<Rightarrow> apps_db \<Rightarrow> id \<Rightarrow> 'w \<Rightarrow> 'w op_result" where
  "app_Start c dep db i w = (case getApp db i of
      Inl e \<Rightarrow> (w, db, Inl e)
    | Inr r \<Rightarrow>
        if ar_ObservedState r = ObservedProvisioning then (w, db, Inl (provisioning_error i))
        else (case requireNotMaintained db (ar_BundleID r) of
            Some e \<Rightarrow> (w, db, Inl e)
          | None \<Rightarrow> if ar_DesiredState r = DesiredRunning \<and> ar_ObservedState r = ObservedRunning then (w, db, app_Status db i)
              else (case setDesired db i DesiredRunning (ap_Now dep w) of
                  Inl e \<Rightarrow> (w, db, Inl e)
                | Inr db1 \<Rightarrow> (case specFor c dep r w of
                    (w1, Inl e) \<Rightarrow> (w1, db1, Inl e)
                  | (w1, Inr spec) \<Rightarrow> (case ap_Start dep (application r) spec w1 of
                      (w2, Some e) \<Rightarrow> runner_failed dep db1 r (ar_ObservedState r) (sp_Env spec) e ''app.start_failed'' (ar_Name r @ '' failed to start'') w2
                    | (w2, None) \<Rightarrow> runner_done dep db1 r ObservedRunning ''app.started'' (ar_Name r @ '' started'') w2)))))"

text \<open>Stopping through the runner, for Stop and Quiesce.\<close>

definition stop_with :: "Catalog \<Rightarrow> 'w AppDeps \<Rightarrow> apps_db \<Rightarrow> appRecord \<Rightarrow> string \<Rightarrow> string \<Rightarrow> 'w \<Rightarrow> 'w op_result" where
  "stop_with c dep db r failed stopped w = (case specFor c dep r w of
      (w1, Inl e) \<Rightarrow> (w1, db, Inl e)
    | (w1, Inr spec) \<Rightarrow> (case ap_Stop dep (application r) spec w1 of
        (w2, Some e) \<Rightarrow> runner_failed dep db r (ar_ObservedState r) (sp_Env spec) e ''app.stop_failed'' (ar_Name r @ failed) w2
      | (w2, None) \<Rightarrow> runner_done dep db r ObservedStopped ''app.stopped'' (ar_Name r @ stopped) w2))"

definition app_Stop :: "Catalog \<Rightarrow> 'w AppDeps \<Rightarrow> apps_db \<Rightarrow> id \<Rightarrow> 'w \<Rightarrow> 'w op_result" where
  "app_Stop c dep db i w = (case getApp db i of
      Inl e \<Rightarrow> (w, db, Inl e)
    | Inr r \<Rightarrow>
        if ar_ObservedState r = ObservedProvisioning then (w, db, Inl (provisioning_error i))
        else if ar_ObservedState r = ObservedStopped then
          (if ar_DesiredState r \<noteq> DesiredStopped then
             (case setDesired db i DesiredStopped (ap_Now dep w) of Inl e \<Rightarrow> (w, db, Inl e) | Inr db1 \<Rightarrow> (w, db1, app_Status db1 i))
           else (w, db, app_Status db i))
        else if ar_ObservedState r = ObservedAbsent then (w, db, Inl (wrapf AErrConflict (''app '' @ i @ '' is '' @ ar_ObservedState r)))
        else (case setDesired db i DesiredStopped (ap_Now dep w) of
            Inl e \<Rightarrow> (w, db, Inl e)
          | Inr db1 \<Rightarrow> stop_with c dep db1 r '' failed to stop'' '' stopped'' w))"

definition app_Quiesce :: "Catalog \<Rightarrow> 'w AppDeps \<Rightarrow> apps_db \<Rightarrow> id \<Rightarrow> 'w \<Rightarrow> 'w op_result" where
  "app_Quiesce c dep db i w = (case getApp db i of
      Inl e \<Rightarrow> (w, db, Inl e)
    | Inr r \<Rightarrow>
        if ar_ObservedState r = ObservedProvisioning then (w, db, Inl (provisioning_error i))
        else if ar_ObservedState r = ObservedStopped \<or> ar_ObservedState r = ObservedAbsent then (w, db, app_Status db i)
        else stop_with c dep db r '' failed to quiesce'' '' quiesced for maintenance'' w)"

definition app_Update :: "Catalog \<Rightarrow> apps_db \<Rightarrow> id \<Rightarrow> string \<Rightarrow> AppStatus result" where
  "app_Update c db i digest = (case getApp db i of
      Inl e \<Rightarrow> Inl e
    | Inr r \<Rightarrow>
        if ar_ObservedState r = ObservedProvisioning then Inl (provisioning_error i)
        else (case requireNotMaintained db (ar_BundleID r) of
            Some e \<Rightarrow> Inl e
          | None \<Rightarrow> (case catalog_Get c (ar_BundleID r) of
              None \<Rightarrow> Inl (wrapf AErrConflict (''bundle '' @ quote (ar_BundleID r) @ '' missing from catalog''))
            | Some b \<Rightarrow> Inl (app_invalid (''bundle '' @ quote (bu_ID b) @
                '' is a native system service managed by the system image; updates come from the nixpkgs pin'')))))"

section \<open>Rolling back\<close>

definition redeployCurrent :: "Catalog \<Rightarrow> 'w AppDeps \<Rightarrow> appRecord \<Rightarrow> 'w \<Rightarrow> 'w \<times> goerror option" where
  "redeployCurrent c dep r w = (case specFor c dep r w of
      (w1, Inl e) \<Rightarrow> (w1, Some e)
    | (w1, Inr spec) \<Rightarrow> (case ap_Deploy dep (application r) spec w1 of
        (w2, Some e) \<Rightarrow> (w2, Some e)
      | (w2, None) \<Rightarrow> if ar_DesiredState r = DesiredStopped then ap_Stop dep (application r) spec w2 else (w2, None)))"

definition reconcileStoppedDesired :: "'w AppDeps \<Rightarrow> apps_db \<Rightarrow> appRecord \<Rightarrow> DeploySpec \<Rightarrow> 'w \<Rightarrow> 'w \<times> apps_db \<times> string result" where
  "reconcileStoppedDesired dep db r spec w = (if ar_DesiredState r \<noteq> DesiredStopped then (w, db, Inr ObservedRunning)
     else (case ap_Stop dep (application r) spec w of
         (w1, Some e) \<Rightarrow> (case setObserved db (ar_ID r) ObservedRunning HealthUnknown (app_redact (err_msg e) (sp_Env spec)) (ap_Now dep w1) of
             Inl se \<Rightarrow> (w1, db, Inl se)
           | Inr db1 \<Rightarrow> (w1, db1, Inl (wrapf AErrRunner (''deployed but stop failed: '' @ app_redact (err_msg e) (sp_Env spec)))))
       | (w1, None) \<Rightarrow> (w1, db, Inr ObservedStopped)))"

definition rollback_failed :: "Catalog \<Rightarrow> 'w AppDeps \<Rightarrow> apps_db \<Rightarrow> appRecord \<Rightarrow> releaseRecord \<Rightarrow> string list \<Rightarrow> goerror \<Rightarrow> 'w \<Rightarrow> 'w op_result" where
  "rollback_failed c dep db r prev env e w = (let msg = app_redact (err_msg e) env in
     case redeployCurrent c dep r w of
       (w1, Some re) \<Rightarrow> (let combined = msg @ ''; restoring current release also failed: '' @ app_redact (err_msg re) env in
         case setObserved db (ar_ID r) ObservedFailed HealthUnknown combined (ap_Now dep w1) of
           Inl se \<Rightarrow> (w1, db, Inl se)
         | Inr db1 \<Rightarrow> (app_emit dep ''app.rollback_failed'' ''error'' (ar_ID r) (''rollback of '' @ ar_Name r @ '' failed and restore failed'')
               [(''digest'', rr_Digest prev), (''error'', combined)] w1, db1, Inl (wrapf AErrRunner combined)))
     | (w1, None) \<Rightarrow>
         (case setObserved db (ar_ID r) (if ar_DesiredState r = DesiredStopped then ObservedStopped else ObservedRunning) HealthUnknown msg (ap_Now dep w1) of
           Inl se \<Rightarrow> (w1, db, Inl se)
         | Inr db1 \<Rightarrow> (app_emit dep ''app.rollback_failed'' ''error'' (ar_ID r) (''rollback of '' @ ar_Name r @ '' failed; current release restored'')
               [(''digest'', rr_Digest prev), (''error'', msg)] w1, db1, Inl (wrapf AErrRunner msg))))"

definition rollback_done :: "'w AppDeps \<Rightarrow> apps_db \<Rightarrow> appRecord \<Rightarrow> releaseRecord \<Rightarrow> DeploySpec \<Rightarrow> 'w \<Rightarrow> 'w op_result" where
  "rollback_done dep db r prev spec w = (case reconcileStoppedDesired dep db r spec w of
      (w1, db1, Inl e) \<Rightarrow> (w1, db1, Inl e)
    | (w1, db1, Inr observed) \<Rightarrow>
        (case app_activateRelease db1 (ar_ID r) (rr_ID prev) (ar_CurrentReleaseID r) (rr_Digest prev) observed HealthUnknown [] (ap_Now dep w1) of
           Inl e \<Rightarrow> (w1, db1, Inl e)
         | Inr db2 \<Rightarrow> (app_emit dep ''app.rolled_back'' ''info'' (ar_ID r) (ar_Name r @ '' rolled back'')
               [(''digest'', rr_Digest prev), (''from_digest'', ar_Digest r)] w1, db2, app_Status db2 (ar_ID r))))"

definition app_Rollback :: "Catalog \<Rightarrow> 'w AppDeps \<Rightarrow> apps_db \<Rightarrow> id \<Rightarrow> 'w \<Rightarrow> 'w op_result" where
  "app_Rollback c dep db i w = (case getApp db i of
      Inl e \<Rightarrow> (w, db, Inl e)
    | Inr r \<Rightarrow>
        if ar_ObservedState r = ObservedProvisioning then (w, db, Inl (provisioning_error i))
        else (case requireNotMaintained db (ar_BundleID r) of
            Some e \<Rightarrow> (w, db, Inl e)
          | None \<Rightarrow> if ar_PreviousReleaseID r = [] then (w, db, Inl (wrapf AErrConflict (''app '' @ i @ '' has no previous release to roll back to'')))
              else (case app_getRelease db (ar_PreviousReleaseID r) of
                  Inl e \<Rightarrow> (w, db, Inl e)
                | Inr prev \<Rightarrow> (case setObserved db (ar_ID r) ObservedProvisioning HealthUnknown [] (ap_Now dep w) of
                    Inl e \<Rightarrow> (w, db, Inl e)
                  | Inr db1 \<Rightarrow> (case envFor dep r w of (w1, env) \<Rightarrow>
                      (let hc = healthCheckFor c (ar_BundleID r) in
                       case deploy_with dep r hc env w1 of
                         (w2, Some e) \<Rightarrow> rollback_failed c dep db1 r prev (env_of env) e w2
                       | (w2, None) \<Rightarrow> rollback_done dep db1 r prev \<lparr>sp_Env = env_of env, sp_Health = hc\<rparr> w2))))))"

section \<open>Uninstalling\<close>

definition native :: "Catalog \<Rightarrow> string \<Rightarrow> bool" where
  "native c b = (case catalog_Get c b of None \<Rightarrow> False | Some bd \<Rightarrow> bu_Units bd \<noteq> [] \<and> \<not> contains_str (bu_ID bd) ''non-native'')"

definition app_Uninstall :: "Catalog \<Rightarrow> 'w AppDeps \<Rightarrow> apps_db \<Rightarrow> id \<Rightarrow> 'w \<Rightarrow> 'w \<times> apps_db \<times> goerror option" where
  "app_Uninstall c dep db i w = (case getApp db i of
      Inl e \<Rightarrow> (w, db, Some e)
    | Inr r \<Rightarrow>
        if native c (ar_BundleID r) then (w, db, Some (app_invalid (''bundle '' @ quote (ar_BundleID r) @
            '' is a native system service defined by the system closure; it cannot be uninstalled'')))
        else (case specFor c dep r w of
            (w1, Inl e) \<Rightarrow> (w1, db, Some e)
          | (w1, Inr spec) \<Rightarrow> (case ap_Remove dep (application r) spec w1 of
              (w2, Some e) \<Rightarrow> (case runner_failed dep db r ObservedFailed (sp_Env spec) e ''app.uninstall_failed''
                  (''uninstall of '' @ ar_Name r @ '' failed'') w2 of (w3, db1, x) \<Rightarrow> (w3, db1, (case x of Inl e \<Rightarrow> Some e | Inr _ \<Rightarrow> None)))
            | (w2, None) \<Rightarrow> (case deleteApp db i of
                Inl e \<Rightarrow> (w2, db, Some e)
              | Inr db1 \<Rightarrow> (app_emit dep ''app.uninstalled'' ''info'' i (ar_Name r @ '' uninstalled'') [(''digest'', ar_Digest r)] w2, db1, None)))))"

section \<open>Observing health\<close>

definition health_events :: "'w AppDeps \<Rightarrow> appRecord \<Rightarrow> health \<Rightarrow> 'w \<Rightarrow> 'w" where
  "health_events dep r h w =
     (if h = HealthUnhealthy then app_emit dep ''service.unhealthy'' ''warning'' (ar_ID r) (ar_Name r @ '' is unhealthy'') [(''digest'', ar_Digest r)] w
      else if h = HealthHealthy \<and> ar_Health r = HealthUnhealthy
        then app_emit dep ''service.healthy'' ''info'' (ar_ID r) (ar_Name r @ '' recovered'') [(''digest'', ar_Digest r)] w
      else w)"

definition CheckHealth :: "Catalog \<Rightarrow> 'w AppDeps \<Rightarrow> apps_db \<Rightarrow> id \<Rightarrow> 'w \<Rightarrow> 'w op_result" where
  "CheckHealth c dep db i w = (case getApp db i of
      Inl e \<Rightarrow> (w, db, Inl e)
    | Inr r \<Rightarrow> (case GetMaintenance db (ar_BundleID r) of
        Inr _ \<Rightarrow> (w, db, Inl (wrapf ErrMaintained (''app '' @ quote (ar_BundleID r) @ '' is paused for maintenance'')))
      | Inl me \<Rightarrow> if \<not> errors_is me AErrNotFound then (w, db, Inl me)
          else if ar_ObservedState r \<noteq> ObservedRunning
            then (w, db, Inl (wrapf AErrConflict (''health check requires a running app, '' @ i @ '' is '' @ quote (ar_ObservedState r))))
          else (case specFor c dep r w of
              (w1, Inl e) \<Rightarrow> (w1, db, Inl e)
            | (w1, Inr spec) \<Rightarrow> (case ap_Check dep (application r) spec w1 of
                (w2, Inl e) \<Rightarrow> (w2, db, Inl (wrapf AErrRunner (err_msg e)))
              | (w2, Inr h) \<Rightarrow> if h = ar_Health r then (w2, db, app_Status db i)
                  else (case app_setHealth db i h (ap_Now dep w2) of
                      Inl e \<Rightarrow> (w2, db, Inl e)
                    | Inr db1 \<Rightarrow> (health_events dep r h w2, db1, app_Status db1 i))))))"

text \<open>RefreshHealth checks up to four applications at a time; one after the other in the order of the list
  is one of its schedules.  Conflicts, pauses and rows that are gone are skipped.\<close>

definition refresh_targets :: "apps_db \<Rightarrow> id list" where
  "refresh_targets db = map ar_ID (filter (\<lambda>r. ar_ObservedState r = ObservedRunning \<and> requireNotMaintained db (ar_BundleID r) = None) (listApps db))"

fun refresh_all :: "Catalog \<Rightarrow> 'w AppDeps \<Rightarrow> apps_db \<Rightarrow> id list \<Rightarrow> 'w \<Rightarrow> 'w \<times> apps_db \<times> goerror list" where
  "refresh_all c dep db [] w = (w, db, [])"
| "refresh_all c dep db (i # is) w = (case CheckHealth c dep db i w of (w1, db1, x) \<Rightarrow>
     (case refresh_all c dep db1 is w1 of (w2, db2, errs) \<Rightarrow>
       (w2, db2, (case x of
          Inl e \<Rightarrow> if errors_is e ErrMaintained \<or> errors_is e AErrConflict \<or> errors_is e AErrNotFound then errs
            else wrapctx (''health refresh '' @ i) e # errs
        | Inr _ \<Rightarrow> errs))))"

definition errors_join :: "goerror list \<Rightarrow> goerror option" where
  "errors_join es = (if es = [] then None else Some (GoErr (concat (map err_chain es)) (join [CHR 0x0A] (map err_msg es))))"

definition RefreshHealth :: "Catalog \<Rightarrow> 'w AppDeps \<Rightarrow> apps_db \<Rightarrow> 'w \<Rightarrow> 'w \<times> apps_db \<times> goerror option" where
  "RefreshHealth c dep db w = (case refresh_all c dep db (refresh_targets db) w of (w1, db1, es) \<Rightarrow> (w1, db1, errors_join es))"

end
