(* ===== verification/AppsStates.thy ===== *)
theory AppsStates
  imports AppsService Tables
begin

text \<open>
  internal/apps: the statements as a step relation, in which any interleaving of operations is a
  sequence; what every reachable state satisfies; and that the operations are such sequences.
\<close>

section \<open>Statement steps\<close>

definition settled_states :: "string list" where "settled_states = [ObservedRunning, ObservedStopped, ObservedFailed]"
definition observed_states :: "string list" where "observed_states = ObservedProvisioning # settled_states"
definition desired_states :: "string list" where "desired_states = [DesiredRunning, DesiredStopped]"

text \<open>What the checks of an installation leave of a row.\<close>

definition app_row_ok :: "appRecord \<Rightarrow> bool" where
  "app_row_ok r \<longleftrightarrow> validSlug (ar_Name r) \<and> 0 \<le> exposureRank (ar_Exposure r) \<and> (ar_Hostname r = [] \<or> hostnameRe (ar_Hostname r)) \<and>
     (ar_Hostname r = [] \<longrightarrow> exposureRank (ar_Exposure r) = 0) \<and> ar_DesiredState r \<in> set desired_states \<and>
     ar_ObservedState r \<in> set observed_states"

text \<open>Rollback is the only operation that goes back to provisioning or swaps releases; it needs a previous
  release.\<close>

definition has_previous :: "apps_db \<Rightarrow> id \<Rightarrow> bool" where
  "has_previous db i \<longleftrightarrow> list_ex (\<lambda>r. ar_ID r = i \<and> ar_PreviousReleaseID r \<noteq> []) (adb_apps db)"

inductive app_step :: "apps_db \<Rightarrow> apps_db \<Rightarrow> bool" where
  as_create: "createAppWithRelease db r rel = Inr db' \<Longrightarrow> app_row_ok r \<Longrightarrow> rr_AppID rel = ar_ID r \<Longrightarrow> rr_ID rel = ar_CurrentReleaseID r \<Longrightarrow> app_step db db'"
| as_desired: "setDesired db i d ts = Inr db' \<Longrightarrow> d \<in> set desired_states \<Longrightarrow> app_step db db'"
| as_observed: "setObserved db i st h err ts = Inr db' \<Longrightarrow> st \<in> set settled_states \<Longrightarrow> app_step db db'"
| as_provision: "setObserved db i ObservedProvisioning h err ts = Inr db' \<Longrightarrow> has_previous db i \<Longrightarrow> app_step db db'"
| as_health: "app_setHealth db i h ts = Inr db' \<Longrightarrow> app_step db db'"
| as_activate: "app_activateRelease db i cur prev digest st h err ts = Inr db' \<Longrightarrow> has_previous db i \<Longrightarrow> app_step db db'"
| as_delete: "deleteApp db i = Inr db' \<Longrightarrow> app_step db db'"
| as_maintain: "setMaintenance db m ts = Inr db' \<Longrightarrow> app_step db db'"
| as_resume: "app_step db (deleteMaintenance db b)"

section \<open>Well-formed tables\<close>

definition release_key :: "releaseRecord \<Rightarrow> id \<times> id" where "release_key r = (rr_AppID r, rr_ID r)"
definition current_key :: "appRecord \<Rightarrow> id \<times> id" where "current_key r = (ar_ID r, ar_CurrentReleaseID r)"

definition apps_ok :: "apps_db \<Rightarrow> bool" where
  "apps_ok db \<longleftrightarrow> distinct (map ar_ID (adb_apps db)) \<and> distinct (map ar_Name (adb_apps db)) \<and> list_all app_row_ok (adb_apps db) \<and>
     list_all (\<lambda>r. ar_PreviousReleaseID r = []) (adb_apps db) \<and>
     distinct (map rr_ID (adb_releases db)) \<and> map release_key (adb_releases db) = map current_key (adb_apps db) \<and>
     distinct (map mn_BundleID (adb_maintenance db)) \<and> list_all (\<lambda>m. validReason (mn_Reason m)) (adb_maintenance db)"

lemma apps_ok_no_previous [simp]: "apps_ok db \<Longrightarrow> \<not> has_previous db i"
  by (auto simp: apps_ok_def has_previous_def list_ex_iff list_all_iff)

lemma getApp_Inr:
  assumes "getApp db i = Inr r" shows "r \<in> set (adb_apps db)" "ar_ID r = i"
  using assms find_Some_in [of "\<lambda>r. ar_ID r = i" "adb_apps db" r] by (auto simp: getApp_def split: option.splits)

lemma getApp_ok:
  assumes "apps_ok db" "getApp db i = Inr r"
  shows "ar_PreviousReleaseID r = []" "ar_ObservedState r \<in> set observed_states" "ar_DesiredState r \<in> set desired_states"
  using assms(1) getApp_Inr(1) [OF assms(2)] by (auto simp: apps_ok_def list_all_iff app_row_ok_def)

lemma update_app_Inr: "update_app f db i = Inr db' \<longleftrightarrow> i \<in> ar_ID ` set (adb_apps db) \<and> db' = db\<lparr>adb_apps := update_where (\<lambda>r. ar_ID r = i) f (adb_apps db)\<rparr>"
  by (auto simp: update_app_def list_ex_key)

text \<open>An update that keeps the keys and the form of the rows.\<close>

lemma update_app_ok:
  assumes "update_app f db i = Inr db'" "apps_ok db"
    and keep: "\<And>r. ar_ID (f r) = ar_ID r" "\<And>r. ar_Name (f r) = ar_Name r" "\<And>r. current_key (f r) = current_key r"
      "\<And>r. ar_PreviousReleaseID (f r) = ar_PreviousReleaseID r" "\<And>r. app_row_ok r \<Longrightarrow> app_row_ok (f r)"
  shows "apps_ok db'"
  using assms by (auto simp: apps_ok_def update_app_Inr map_update_where_key list_all_iff set_update_where)

lemma members [simp]:
  "DesiredRunning \<in> set desired_states" "DesiredStopped \<in> set desired_states"
  "ObservedRunning \<in> set settled_states" "ObservedStopped \<in> set settled_states" "ObservedFailed \<in> set settled_states"
  "ObservedProvisioning \<in> set observed_states"
  by (simp_all add: desired_states_def settled_states_def observed_states_def)

lemma settled_observed: "st \<in> set settled_states \<Longrightarrow> st \<in> set observed_states"
  by (simp add: observed_states_def)

lemma createApp_Inr:
  assumes "createAppWithRelease db r rel = Inr db'"
  shows "ar_ID r \<notin> ar_ID ` set (adb_apps db)" "ar_Name r \<notin> ar_Name ` set (adb_apps db)" "rr_ID rel \<notin> rr_ID ` set (adb_releases db)"
    "db' = db\<lparr>adb_apps := adb_apps db @ [r\<lparr>ar_PreviousReleaseID := [], ar_LastError := []\<rparr>], adb_releases := adb_releases db @ [rel]\<rparr>"
  using assms by (auto simp: createAppWithRelease_def list_ex_iff split: if_splits)

lemma filter_keys:
  assumes "map release_key rs = map current_key xs"
  shows "map release_key (filter (\<lambda>r. rr_AppID r \<noteq> i) rs) = map current_key (filter (\<lambda>r. ar_ID r \<noteq> i) xs)"
  using assms by (induction rs arbitrary: xs) (auto simp: release_key_def current_key_def Cons_eq_map_conv)

lemma setMaintenance_Inr:
  assumes "setMaintenance db m ts = Inr db'"
  obtains m' where "mn_BundleID m' = mn_BundleID m" "mn_Reason m' = mn_Reason m" "mn_OperationID m' = mn_OperationID m" "validReason (mn_Reason m)"
    "db' = db\<lparr>adb_maintenance := (if mn_BundleID m' \<in> mn_BundleID ` set (adb_maintenance db)
       then update_where (\<lambda>x. mn_BundleID x = mn_BundleID m') (\<lambda>x. m') (adb_maintenance db) else adb_maintenance db @ [m'])\<rparr>"
proof (rule that [of "if mn_CreatedAt m = [] then m\<lparr>mn_CreatedAt := FormatTime ts\<rparr> else m"])
  show "validReason (mn_Reason m)" using assms by (simp add: setMaintenance_def split: if_splits)
qed (use assms in \<open>auto simp: setMaintenance_def Let_def list_ex_key split: if_splits\<close>)

lemma app_step_ok: "app_step db db' \<Longrightarrow> apps_ok db \<Longrightarrow> apps_ok db'"
proof (induction rule: app_step.induct)
  case (as_create db r rel db')
  note c = createApp_Inr [OF as_create.hyps(1)]
  have "app_row_ok (r\<lparr>ar_PreviousReleaseID := [], ar_LastError := []\<rparr>)" using as_create.hyps(2) by (simp add: app_row_ok_def)
  then show ?case using as_create.prems c as_create.hyps(3,4) by (auto simp: apps_ok_def release_key_def current_key_def)
next
  case (as_desired db i d ts db')
  show ?case using as_desired.hyps by (intro update_app_ok [OF as_desired.hyps(1) [unfolded setDesired_def] as_desired.prems]) (auto simp: app_row_ok_def current_key_def)
next
  case (as_observed db i st h err ts db')
  show ?case using settled_observed [OF as_observed.hyps(2)]
    by (intro update_app_ok [OF as_observed.hyps(1) [unfolded setObserved_def] as_observed.prems]) (auto simp: app_row_ok_def current_key_def)
next
  case (as_health db i h ts db')
  show ?case by (intro update_app_ok [OF as_health.hyps(1) [unfolded app_setHealth_def] as_health.prems]) (auto simp: app_row_ok_def current_key_def)
next
  case (as_delete db i db')
  have "db' = db\<lparr>adb_apps := filter (\<lambda>r. ar_ID r \<noteq> i) (adb_apps db), adb_releases := filter (\<lambda>r. rr_AppID r \<noteq> i) (adb_releases db)\<rparr>"
    using as_delete.hyps by (auto simp: deleteApp_def split: if_splits)
  then show ?case using as_delete.prems by (auto simp: apps_ok_def filter_distinct_map list_all_iff filter_keys)
next
  case (as_maintain db m ts db')
  from as_maintain.hyps obtain m' where m: "mn_Reason m' = mn_Reason m" "validReason (mn_Reason m)"
    "db' = db\<lparr>adb_maintenance := (if mn_BundleID m' \<in> mn_BundleID ` set (adb_maintenance db)
       then update_where (\<lambda>x. mn_BundleID x = mn_BundleID m') (\<lambda>x. m') (adb_maintenance db) else adb_maintenance db @ [m'])\<rparr>"
    by (rule setMaintenance_Inr)
  have "map mn_BundleID (update_where (\<lambda>x. mn_BundleID x = mn_BundleID m') (\<lambda>x. m') (adb_maintenance db)) = map mn_BundleID (adb_maintenance db)"
    by (rule map_update_where_key) simp
  then show ?case using as_maintain.prems m by (auto simp: apps_ok_def list_all_iff set_update_where)
next
  case (as_resume db b)
  then show ?case by (auto simp: apps_ok_def deleteMaintenance_def filter_distinct_map list_all_iff)
qed simp_all

interpretation app: statement_tables app_step apps_ok empty_apps_db
  by (unfold_locales, simp add: apps_ok_def empty_apps_db_def, erule (1) app_step_ok)

section \<open>Operations are sequences of statements\<close>

abbreviation app_reach :: "apps_db \<Rightarrow> apps_db \<Rightarrow> bool" where "app_reach \<equiv> app_step\<^sup>*\<^sup>*"

lemma app_reach_statements:
  "setDesired db i d ts = Inr db' \<Longrightarrow> d \<in> set desired_states \<Longrightarrow> app_reach db0 db \<Longrightarrow> app_reach db0 db'"
  "setObserved db i st h err ts = Inr db' \<Longrightarrow> st \<in> set settled_states \<Longrightarrow> app_reach db0 db \<Longrightarrow> app_reach db0 db'"
  "app_setHealth db i h ts = Inr db' \<Longrightarrow> app_reach db0 db \<Longrightarrow> app_reach db0 db'"
  "deleteApp db i = Inr db' \<Longrightarrow> app_reach db0 db \<Longrightarrow> app_reach db0 db'"
  "setMaintenance db m ts = Inr db' \<Longrightarrow> app_reach db0 db \<Longrightarrow> app_reach db0 db'"
  "app_reach db0 db \<Longrightarrow> app_reach db0 (deleteMaintenance db b)"
  by (blast intro: rtranclp.rtrancl_into_rtrancl app_step.intros)+

lemma not_provisioning_settled:
  assumes "apps_ok db" "getApp db i = Inr r" "ar_ObservedState r \<noteq> ObservedProvisioning" shows "ar_ObservedState r \<in> set settled_states"
  using getApp_ok(2) [OF assms(1,2)] assms(3) by (simp add: observed_states_def)

lemma runner_reach:
  "runner_failed dep db r st env e typ text w = (w', db', x) \<Longrightarrow> st \<in> set settled_states \<Longrightarrow> app_reach db0 db \<Longrightarrow> app_reach db0 db'"
  "runner_done dep db r st typ text w = (w', db', x) \<Longrightarrow> st \<in> set settled_states \<Longrightarrow> app_reach db0 db \<Longrightarrow> app_reach db0 db'"
  by (auto simp: runner_failed_def runner_done_def Let_def split: sum.splits intro: app_reach_statements)

lemma stop_with_reach:
  "stop_with c dep db r failed stopped w = (w', db', x) \<Longrightarrow> ar_ObservedState r \<in> set settled_states \<Longrightarrow> app_reach db0 db \<Longrightarrow> app_reach db0 db'"
  by (auto simp: stop_with_def split: prod.splits sum.splits option.splits intro: runner_reach)

lemma install_check_Inr:
  assumes "install_check db b req = Inr (name, exposure)"
  shows "requireNotMaintained db (bu_ID b) = None" "name = install_name b req" "validSlug name" "0 \<le> exposureRank exposure"
    "exposureRank exposure \<le> exposureRank (bu_MaxExposure b)"
    "ir_Hostname req = [] \<Longrightarrow> exposureRank exposure = 0" "ir_Hostname req = [] \<or> hostnameRe (ir_Hostname req)"
  using assms by (auto simp: install_check_def Let_def split: option.splits sum.splits if_splits)

lemma install_deploy_reach:
  assumes "install_deploy dep db b r w = (w', db', x)" "app_reach db0 db" shows "app_reach db0 db'"
  using assms by (auto simp: install_deploy_def install_failed_def install_done_def Let_def split: prod.splits sum.splits option.splits
      intro: app_reach_statements(2))

text \<open>Install inserts the row of a checked request and deploys it, or leaves the tables as they are.\<close>

lemma Install_cases:
  assumes "app_Install c dep db req w = (w', db', x)"
  obtains (refused) e where "x = Inl e" "db' = db"
  | (inserted) b name exposure i rel ts db1 w2 where
      "catalog_Get c (ir_BundleID req) = Some b" "install_check db b req = Inr (name, exposure)"
      "createAppWithRelease db (install_row b name exposure (ir_Hostname req) i rel ts)
         \<lparr>rr_ID = rel, rr_AppID = i, rr_Digest = [], rr_Compose = [], rr_CreatedAt = ts\<rparr> = Inr db1"
      "install_deploy dep db1 b (install_row b name exposure (ir_Hostname req) i rel ts) w2 = (w', db', x)"
  using assms unfolding app_Install_def Let_def by (auto split: option.splits sum.splits prod.splits)

lemma install_row_ok:
  assumes "install_check db b req = Inr (name, exposure)" shows "app_row_ok (install_row b name exposure (ir_Hostname req) i rel ts)"
  using install_check_Inr [OF assms] by (auto simp: app_row_ok_def install_row_def)

lemma Install_reach:
  assumes "app_Install c dep db req w = (w', db', x)" "app_reach db0 db" shows "app_reach db0 db'"
  using assms(1)
proof (cases rule: Install_cases)
  case (inserted b name exposure i rel ts db1 w2)
  have "app_step db db1" by (rule as_create [OF inserted(3) install_row_ok [OF inserted(2)]]) (simp_all add: install_row_def)
  then show ?thesis using install_deploy_reach [OF inserted(4)] assms(2) by (meson rtranclp.rtrancl_into_rtrancl)
qed (use assms(2) in simp)

lemma app_operations_reach:
  assumes "apps_ok db"
  shows "app_Install c dep db req w = (w', db', x) \<Longrightarrow> app_reach db db'"
    "app_Start c dep db i w = (w', db', x) \<Longrightarrow> app_reach db db'"
    "app_Stop c dep db i w = (w', db', x) \<Longrightarrow> app_reach db db'"
    "app_Quiesce c dep db i w = (w', db', x) \<Longrightarrow> app_reach db db'"
    "app_Rollback c dep db i w = (w', db', x) \<Longrightarrow> db' = db"
    "app_Uninstall c dep db i w = (w', db', y) \<Longrightarrow> app_reach db db'"
    "CheckHealth c dep db i w = (w', db', x) \<Longrightarrow> app_reach db db'"
proof -
  note settled = not_provisioning_settled [OF assms]
  show "app_Install c dep db req w = (w', db', x) \<Longrightarrow> app_reach db db'" by (erule Install_reach) simp
  show "app_Start c dep db i w = (w', db', x) \<Longrightarrow> app_reach db db'"
    by (auto simp: app_Start_def split: sum.splits option.splits prod.splits if_splits
        intro: app_reach_statements(1))
      (meson runner_reach settled app_reach_statements(1) members rtranclp.rtrancl_refl)+
  show "app_Stop c dep db i w = (w', db', x) \<Longrightarrow> app_reach db db'"
    by (auto simp: app_Stop_def split: sum.splits if_splits intro: settled app_reach_statements(1) stop_with_reach)
      (meson stop_with_reach settled app_reach_statements(1) members rtranclp.rtrancl_refl)
  show "app_Quiesce c dep db i w = (w', db', x) \<Longrightarrow> app_reach db db'"
    by (auto simp: app_Quiesce_def split: sum.splits if_splits intro: settled stop_with_reach)
  show "app_Rollback c dep db i w = (w', db', x) \<Longrightarrow> db' = db"
    using getApp_ok(1) [OF assms] by (auto simp: app_Rollback_def split: sum.splits option.splits if_splits)
  show "app_Uninstall c dep db i w = (w', db', y) \<Longrightarrow> app_reach db db'"
    by (auto simp: app_Uninstall_def split: sum.splits option.splits prod.splits if_splits intro: runner_reach app_reach_statements(4))
  show "CheckHealth c dep db i w = (w', db', x) \<Longrightarrow> app_reach db db'"
    by (auto simp: CheckHealth_def split: sum.splits option.splits prod.splits if_splits intro: app_reach_statements(3))
qed

lemma refresh_all_reach:
  "refresh_all c dep db js w = (w', db', es) \<Longrightarrow> apps_ok db \<Longrightarrow> app_reach db db'"
proof (induction js arbitrary: db w es)
  case (Cons i js)
  obtain w1 db1 x where c: "CheckHealth c dep db i w = (w1, db1, x)" by (metis prod_cases3)
  obtain w2 db2 es2 where r: "refresh_all c dep db1 js w1 = (w2, db2, es2)" by (metis prod_cases3)
  note s = app_operations_reach(7) [OF Cons.prems(2) c]
  have r': "w2 = w'" "db2 = db'" using Cons.prems(1) c r by auto
  show ?case using Cons.IH [OF r [unfolded r'] app.steps_ok [OF s Cons.prems(2)]] s by simp
qed simp

lemma RefreshHealth_reach: "RefreshHealth c dep db w = (w', db', x) \<Longrightarrow> apps_ok db \<Longrightarrow> app_reach db db'"
  by (auto simp: RefreshHealth_def split: prod.splits elim: refresh_all_reach)

end
