(* ===== verification/AppsLife.thy ===== *)
theory AppsLife
  imports AppsStates
begin

text \<open>
  internal/apps: the abstract life of an application, its desired and its observed state, and what every
  operation does to it.
\<close>

definition lifecycle :: "apps_db \<Rightarrow> id \<Rightarrow> (string \<times> string) option" where
  "lifecycle db i = (case getApp db i of Inl _ \<Rightarrow> None | Inr r \<Rightarrow> Some (ar_DesiredState r, ar_ObservedState r))"

definition app_observed :: "apps_db \<Rightarrow> id \<Rightarrow> string option" where "app_observed db i = map_option snd (lifecycle db i)"

lemma lifecycle_find: "lifecycle db i = map_option (\<lambda>r. (ar_DesiredState r, ar_ObservedState r)) (List.find (\<lambda>r. ar_ID r = i) (adb_apps db))"
  by (auto simp: lifecycle_def getApp_def split: option.splits)

lemma getApp_life: "getApp db i = Inr r \<Longrightarrow> lifecycle db i = Some (ar_DesiredState r, ar_ObservedState r)"
  by (simp add: lifecycle_def)

lemma update_app_life:
  assumes "update_app f db i = Inr db'" "\<And>r. ar_ID (f r) = ar_ID r"
    "\<And>r. (ar_DesiredState (f r), ar_ObservedState (f r)) = g (ar_DesiredState r, ar_ObservedState r)"
  shows "lifecycle db' = (lifecycle db)(i := map_option g (lifecycle db i))"
proof
  fix j
  have "List.find (\<lambda>r. ar_ID r = j) (update_where (\<lambda>r. ar_ID r = i) f (adb_apps db)) =
      (if i = j then map_option f (List.find (\<lambda>r. ar_ID r = j) (adb_apps db)) else List.find (\<lambda>r. ar_ID r = j) (adb_apps db))"
    by (rule find_update_where_key) (simp add: assms(2))
  then show "lifecycle db' j = ((lifecycle db)(i := map_option g (lifecycle db i))) j"
    using assms by (auto simp: lifecycle_find update_app_Inr option.map_comp comp_def)
qed

lemma setDesired_life: "setDesired db i d ts = Inr db' \<Longrightarrow> lifecycle db' = (lifecycle db)(i := map_option (\<lambda>(_, b). (d, b)) (lifecycle db i))"
  unfolding setDesired_def by (erule update_app_life) simp_all

lemma setObserved_life: "setObserved db i st h e ts = Inr db' \<Longrightarrow> lifecycle db' = (lifecycle db)(i := map_option (\<lambda>(a, _). (a, st)) (lifecycle db i))"
  unfolding setObserved_def by (erule update_app_life) simp_all

lemma setHealth_life: "app_setHealth db i h ts = Inr db' \<Longrightarrow> lifecycle db' = lifecycle db"
  unfolding app_setHealth_def by (drule update_app_life [where g = id]) (simp_all add: option.map_id fun_eq_iff)

lemma getApp_member: "i \<in> ar_ID ` set (adb_apps db) \<longleftrightarrow> (\<exists>r. getApp db i = Inr r)"
  by (auto simp: getApp_def find_None_iff split: option.splits dest: find_Some_in)

lemma update_app_total: "getApp db i = Inr r \<Longrightarrow> \<exists>db'. update_app f db i = Inr db'"
  by (auto simp: update_app_def list_ex_key getApp_member)

lemma statements_total:
  assumes "getApp db i = Inr r"
  shows "\<exists>db'. setDesired db i d ts = Inr db'" "\<exists>db'. setObserved db i st h e ts = Inr db'" "\<exists>db'. app_setHealth db i h ts = Inr db'"
  unfolding setDesired_def setObserved_def app_setHealth_def by (rule update_app_total [OF assms])+

lemma life_getApp: "lifecycle db i = Some p \<Longrightarrow> \<exists>r. getApp db i = Inr r"
  by (auto simp: lifecycle_def split: sum.splits)

lemma app_Status_ok: "apps_ok db \<Longrightarrow> getApp db i = Inr r \<Longrightarrow> \<exists>st. app_Status db i = Inr st \<and> st_Application st = application r"
  using getApp_ok(1) by (auto simp: app_Status_def app_view_def Let_def)

lemma Status_life: "app_Status db i = Inr st \<Longrightarrow> app_ID (st_Application st) = i"
  by (auto simp: app_Status_def app_view_def Let_def application_def dest: getApp_Inr split: sum.splits if_splits)

section \<open>Calls of the runner\<close>

lemma runner_failed_life:
  assumes "lifecycle db (ar_ID r) = Some (d, b)"
  shows "\<exists>w' db' e'. runner_failed dep db r st env e typ text w = (w', db', Inl e') \<and> lifecycle db' = (lifecycle db)(ar_ID r \<mapsto> (d, st))"
proof -
  obtain db1 where s: "setObserved db (ar_ID r) st (ar_Health r) (app_redact (err_msg e) env) (ap_Now dep w) = Inr db1"
    using statements_total(2) life_getApp [OF assms] by blast
  show ?thesis using setObserved_life [OF s] assms by (simp add: runner_failed_def s Let_def)
qed

lemma runner_done_life:
  assumes "apps_ok db" "lifecycle db (ar_ID r) = Some (d, b)" "st \<in> set settled_states"
  shows "\<exists>w' db' s. runner_done dep db r st typ text w = (w', db', Inr s) \<and> lifecycle db' = (lifecycle db)(ar_ID r \<mapsto> (d, st)) \<and>
    app_ID (st_Application s) = ar_ID r"
proof -
  obtain db1 where s: "setObserved db (ar_ID r) st HealthUnknown [] (ap_Now dep w) = Inr db1"
    using statements_total(2) life_getApp [OF assms(2)] by blast
  have l: "lifecycle db1 = (lifecycle db)(ar_ID r \<mapsto> (d, st))" using setObserved_life [OF s] assms(2) by simp
  have "apps_ok db1" using app_step_ok [OF as_observed [OF s assms(3)] assms(1)] .
  moreover have "\<exists>r'. getApp db1 (ar_ID r) = Inr r'" using l life_getApp [of db1 "ar_ID r"] by simp
  ultimately obtain v where v: "app_Status db1 (ar_ID r) = Inr v" using app_Status_ok by blast
  show ?thesis using l Status_life [OF v] by (simp add: runner_done_def s v)
qed

section \<open>Operations\<close>

lemma Start_life:
  assumes ok: "apps_ok db" and op: "app_Start c dep db i w = (w', db', x)"
  shows "case x of
      Inr st \<Rightarrow> lifecycle db' = (lifecycle db)(i \<mapsto> (DesiredRunning, ObservedRunning)) \<and>
        (db' = db \<or> (\<exists>a spec w1 w2. ap_Start dep a spec w1 = (w2, None)))
    | Inl e \<Rightarrow> lifecycle db' = lifecycle db \<or> (\<exists>d b. lifecycle db i = Some (d, b) \<and> lifecycle db' = (lifecycle db)(i \<mapsto> (DesiredRunning, b)))"
proof (cases "getApp db i")
  case (Inr r)
  note g = getApp_Inr(2) [OF Inr] getApp_life [OF Inr]
  show ?thesis
  proof (cases "ar_ObservedState r = ObservedProvisioning \<or> requireNotMaintained db (ar_BundleID r) \<noteq> None \<or>
      (ar_DesiredState r = DesiredRunning \<and> ar_ObservedState r = ObservedRunning)")
    case True
    then show ?thesis using op Inr g by (auto simp: app_Start_def split: option.splits sum.splits if_splits)
  next
    case False
    obtain db1 where d: "setDesired db i DesiredRunning (ap_Now dep w) = Inr db1" using statements_total(1) [OF Inr] by blast
    have l: "lifecycle db1 = (lifecycle db)(i \<mapsto> (DesiredRunning, ar_ObservedState r))" using setDesired_life [OF d] g by simp
    then have l1: "lifecycle db1 (ar_ID r) = Some (DesiredRunning, ar_ObservedState r)" using g by simp
    have ok1: "apps_ok db1" using app_step_ok [OF as_desired [OF d] ok] by simp
    obtain w1 s where sp: "specFor c dep r w = (w1, s)" by fastforce
    note start = op [unfolded app_Start_def Inr sum.case]
    show ?thesis
    proof (cases s)
      case (Inl e)
      then show ?thesis using start False d sp l g by auto
    next
      case (Inr spec)
      obtain w2 e where st: "ap_Start dep (application r) spec w1 = (w2, e)" by fastforce
      show ?thesis
      proof (cases e)
        case None
        obtain w3 db3 v where "runner_done dep db1 r ObservedRunning ''app.started'' (ar_Name r @ '' started'') w2 = (w3, db3, Inr v)"
          "lifecycle db3 = (lifecycle db1)(ar_ID r \<mapsto> (DesiredRunning, ObservedRunning))"
          using runner_done_life [OF ok1 l1 members(3), of dep "''app.started''" "ar_Name r @ '' started''" w2] by blast
        then show ?thesis using start False d sp l g Inr st None by auto
      next
        case (Some e1)
        obtain w3 db3 e2 where "runner_failed dep db1 r (ar_ObservedState r) (sp_Env spec) e1 ''app.start_failed'' (ar_Name r @ '' failed to start'') w2 = (w3, db3, Inl e2)"
          "lifecycle db3 = (lifecycle db1)(ar_ID r \<mapsto> (DesiredRunning, ar_ObservedState r))"
          using runner_failed_life [OF l1, of dep "ar_ObservedState r" "sp_Env spec" e1 "''app.start_failed''" "ar_Name r @ '' failed to start''" w2] by blast
        then show ?thesis using start False d sp l g Inr st Some by auto
      qed
    qed
  qed
qed (use op in \<open>auto simp: app_Start_def\<close>)

lemma stop_with_life:
  assumes op: "stop_with c dep db r failed stopped w = (w', db', x)" and ok: "apps_ok db" and l: "lifecycle db (ar_ID r) = Some (d, ar_ObservedState r)"
  shows "case x of
      Inr st \<Rightarrow> lifecycle db' = (lifecycle db)(ar_ID r \<mapsto> (d, ObservedStopped)) \<and> (\<exists>a spec w1 w2. ap_Stop dep a spec w1 = (w2, None))
    | Inl e \<Rightarrow> lifecycle db' = lifecycle db"
proof -
  obtain w1 s where sp: "specFor c dep r w = (w1, s)" by fastforce
  show ?thesis
  proof (cases s)
    case (Inr spec)
    obtain w2 e where st: "ap_Stop dep (application r) spec w1 = (w2, e)" by fastforce
    show ?thesis
    proof (cases e)
      case None
      obtain w3 db3 v where "runner_done dep db r ObservedStopped ''app.stopped'' (ar_Name r @ stopped) w2 = (w3, db3, Inr v)"
        "lifecycle db3 = (lifecycle db)(ar_ID r \<mapsto> (d, ObservedStopped))"
        using runner_done_life [OF ok l members(4), of dep "''app.stopped''" "ar_Name r @ stopped" w2] by blast
      then show ?thesis using op sp Inr st None by (auto simp: stop_with_def) blast
    next
      case (Some e1)
      obtain w3 db3 e2 where "runner_failed dep db r (ar_ObservedState r) (sp_Env spec) e1 ''app.stop_failed'' (ar_Name r @ failed) w2 = (w3, db3, Inl e2)"
        "lifecycle db3 = (lifecycle db)(ar_ID r \<mapsto> (d, ar_ObservedState r))"
        using runner_failed_life [OF l, of dep "ar_ObservedState r" "sp_Env spec" e1 "''app.stop_failed''" "ar_Name r @ failed" w2] by blast
      then show ?thesis using op sp Inr st Some l by (auto simp: stop_with_def fun_upd_idem)
    qed
  qed (use op sp in \<open>auto simp: stop_with_def\<close>)
qed

lemma Stop_life:
  assumes ok: "apps_ok db" and op: "app_Stop c dep db i w = (w', db', x)"
  shows "case x of
      Inr st \<Rightarrow> lifecycle db' = (lifecycle db)(i \<mapsto> (DesiredStopped, ObservedStopped)) \<and>
        (app_observed db i = Some ObservedStopped \<or> (\<exists>a spec w1 w2. ap_Stop dep a spec w1 = (w2, None)))
    | Inl e \<Rightarrow> lifecycle db' = lifecycle db \<or> (\<exists>d b. lifecycle db i = Some (d, b) \<and> lifecycle db' = (lifecycle db)(i \<mapsto> (DesiredStopped, b)))"
proof (cases "getApp db i")
  case (Inr r)
  note g = getApp_Inr(2) [OF Inr] getApp_life [OF Inr]
  obtain db1 where d: "setDesired db i DesiredStopped (ap_Now dep w) = Inr db1" using statements_total(1) [OF Inr] by blast
  have l: "lifecycle db1 = (lifecycle db)(i \<mapsto> (DesiredStopped, ar_ObservedState r))" using setDesired_life [OF d] g by simp
  have ok1: "apps_ok db1" using app_step_ok [OF as_desired [OF d] ok] by simp
  have l1: "lifecycle db1 (ar_ID r) = Some (DesiredStopped, ar_ObservedState r)" using l g by simp
  note stop = op [unfolded app_Stop_def Inr sum.case]
  have eq: "ObservedStopped \<noteq> ObservedProvisioning" "ObservedStopped \<noteq> ObservedAbsent" by (simp_all add: observed_defs)
  show ?thesis
  proof (cases "List.member [ObservedProvisioning, ObservedStopped, ObservedAbsent] (ar_ObservedState r)")
    case True
    then show ?thesis using stop d l g eq by (auto simp: app_observed_def split: sum.splits if_splits)
  next
    case False
    then have "stop_with c dep db1 r '' failed to stop'' '' stopped'' w = (w', db', x)" using stop d by auto
    from stop_with_life [OF this ok1 l1] show ?thesis using l g by (auto split: sum.splits)
  qed
qed (use op in \<open>auto simp: app_Stop_def\<close>)

lemma Quiesce_life:
  assumes ok: "apps_ok db" and op: "app_Quiesce c dep db i w = (w', db', x)"
  shows "case x of
      Inr st \<Rightarrow> (\<exists>d b. lifecycle db i = Some (d, b) \<and> lifecycle db' = (lifecycle db)(i \<mapsto> (d, ObservedStopped)))
    | Inl e \<Rightarrow> lifecycle db' = lifecycle db"
proof (cases "getApp db i")
  case (Inr r)
  note g = getApp_Inr(2) [OF Inr] getApp_life [OF Inr]
  note q = op [unfolded app_Quiesce_def Inr sum.case]
  have na: "ar_ObservedState r \<noteq> ObservedAbsent"
    using getApp_ok(2) [OF ok Inr] by (auto simp: observed_states_def settled_states_def observed_defs)
  show ?thesis
  proof (cases "ar_ObservedState r = ObservedProvisioning \<or> ar_ObservedState r = ObservedStopped")
    case True
    then show ?thesis using q g na by (auto simp: fun_upd_idem observed_defs split: sum.splits if_splits)
  next
    case False
    then have "stop_with c dep db r '' failed to quiesce'' '' quiesced for maintenance'' w = (w', db', x)" using q na by simp
    from stop_with_life [OF this ok] g show ?thesis by (auto split: sum.splits)
  qed
qed (use op in \<open>auto simp: app_Quiesce_def\<close>)

lemma CheckHealth_life: "CheckHealth c dep db i w = (w', db', x) \<Longrightarrow> lifecycle db' = lifecycle db"
  by (auto simp: CheckHealth_def dest!: setHealth_life split: sum.splits option.splits prod.splits if_splits)

lemma refresh_all_life: "refresh_all c dep db js w = (w', db', es) \<Longrightarrow> lifecycle db' = lifecycle db"
proof (induction js arbitrary: db w es)
  case (Cons i js)
  obtain w1 db1 x where c: "CheckHealth c dep db i w = (w1, db1, x)" by (metis prod_cases3)
  obtain w2 db2 es2 where r: "refresh_all c dep db1 js w1 = (w2, db2, es2)" by (metis prod_cases3)
  have r': "w2 = w'" "db2 = db'" using Cons.prems c r by auto
  show ?case using Cons.IH [OF r [unfolded r']] CheckHealth_life [OF c] by simp
qed simp

lemma Uninstall_life:
  assumes ok: "apps_ok db" and op: "app_Uninstall c dep db i w = (w', db', x)"
  shows "case x of None \<Rightarrow> lifecycle db' = (lifecycle db)(i := None) \<and> \<not> native c (the (map_option ar_BundleID (List.find (\<lambda>r. ar_ID r = i) (adb_apps db))))
    | Some e \<Rightarrow> lifecycle db' = lifecycle db \<or> (\<exists>d b. lifecycle db i = Some (d, b) \<and> lifecycle db' = (lifecycle db)(i \<mapsto> (d, ObservedFailed)))"
proof (cases "getApp db i")
  case (Inr r)
  note g = getApp_Inr(2) [OF Inr] getApp_life [OF Inr]
  have f: "List.find (\<lambda>r. ar_ID r = i) (adb_apps db) = Some r" using Inr by (auto simp: getApp_def split: option.splits)
  note u = op [unfolded app_Uninstall_def Inr sum.case]
  obtain w1 s where sp: "specFor c dep r w = (w1, s)" by fastforce
  show ?thesis
  proof (cases "native c (ar_BundleID r)")
    case False
    show ?thesis
    proof (cases s)
      case (Inr spec)
      obtain w2 e where rm: "ap_Remove dep (application r) spec w1 = (w2, e)" by fastforce
      show ?thesis
      proof (cases e)
        case None
        have del: "deleteApp db i = Inr (db\<lparr>adb_apps := filter (\<lambda>r. ar_ID r \<noteq> i) (adb_apps db), adb_releases := filter (\<lambda>r. rr_AppID r \<noteq> i) (adb_releases db)\<rparr>)"
          using getApp_Inr(1) [OF \<open>getApp db i = Inr r\<close>] g by (auto simp: deleteApp_def list_ex_iff)
        have fd: "List.find (\<lambda>r. ar_ID r = j) (filter (\<lambda>r. ar_ID r \<noteq> i) xs) = (if j = i then None else List.find (\<lambda>r. ar_ID r = j) xs)" for j xs
          by (induction xs) auto
        have "lifecycle (db\<lparr>adb_apps := filter (\<lambda>r. ar_ID r \<noteq> i) (adb_apps db), adb_releases := filter (\<lambda>r. rr_AppID r \<noteq> i) (adb_releases db)\<rparr>) = (lifecycle db)(i := None)"
          by (rule ext) (simp add: lifecycle_find fd)
        then show ?thesis using u False sp Inr rm None del f by auto
      next
        case (Some e1)
        obtain w3 db3 e2 where "runner_failed dep db r ObservedFailed (sp_Env spec) e1 ''app.uninstall_failed'' (''uninstall of '' @ ar_Name r @ '' failed'') w2 = (w3, db3, Inl e2)"
          "lifecycle db3 = (lifecycle db)(ar_ID r \<mapsto> (ar_DesiredState r, ObservedFailed))"
          using runner_failed_life [of db r "ar_DesiredState r" "ar_ObservedState r" dep ObservedFailed "sp_Env spec" e1 "''app.uninstall_failed''" "''uninstall of '' @ ar_Name r @ '' failed''" w2] g by auto
        then show ?thesis using u False sp Inr rm Some g by auto
      qed
    qed (use u False sp in auto)
  qed (use u in auto)
qed (use op in \<open>auto simp: app_Uninstall_def\<close>)

text \<open>A new application: provisioning, then what the deployment made of it.\<close>

lemma created_life:
  assumes "createAppWithRelease db r rel = Inr db1"
  shows "lifecycle db (ar_ID r) = None" "lifecycle db1 = (lifecycle db)(ar_ID r \<mapsto> (ar_DesiredState r, ar_ObservedState r))"
proof -
  note c = createApp_Inr [OF assms]
  show "lifecycle db (ar_ID r) = None" using c(1) by (simp add: lifecycle_find find_None_iff image_iff) metis
  show "lifecycle db1 = (lifecycle db)(ar_ID r \<mapsto> (ar_DesiredState r, ar_ObservedState r))"
    using c(1) find_snoc_key [of ar_ID "r\<lparr>ar_PreviousReleaseID := [], ar_LastError := []\<rparr>" "adb_apps db"]
    by (intro ext) (simp add: c(4) lifecycle_find list_ex_key)
qed

lemma install_deploy_life:
  assumes ok: "apps_ok db" and l: "lifecycle db (ar_ID r) = Some (d, b)" and op: "install_deploy dep db bd r w = (w', db', x)"
  shows "case x of
      Inr st \<Rightarrow> app_ID (st_Application st) = ar_ID r \<and> lifecycle db' = (lifecycle db)(ar_ID r \<mapsto> (d, ObservedRunning)) \<and>
        (\<exists>a spec w1 w2. ap_Deploy dep a spec w1 = (w2, None))
    | Inl e \<Rightarrow> lifecycle db' = (lifecycle db)(ar_ID r \<mapsto> (d, ObservedFailed))"
proof -
  obtain w1 env where env: "envFor dep r w = (w1, env)" by fastforce
  let ?spec = "\<lparr>sp_Env = env_of env, sp_Health = bu_HealthCheck bd\<rparr>"
  obtain w2 e where dw: "deploy_with dep r (bu_HealthCheck bd) env w1 = (w2, e)" by fastforce
  obtain r0 where r0: "getApp db (ar_ID r) = Inr r0" using life_getApp [OF l] by blast
  show ?thesis
  proof (cases e)
    case None
    obtain w3 h where p: "probe_health dep r ?spec w2 = (w3, h)" by fastforce
    obtain db1 where s: "setObserved db (ar_ID r) ObservedRunning h [] (ap_Now dep w3) = Inr db1" using statements_total(2) [OF r0] by blast
    have l1: "lifecycle db1 = (lifecycle db)(ar_ID r \<mapsto> (d, ObservedRunning))" using setObserved_life [OF s] l by simp
    have "apps_ok db1" using app_step_ok [OF as_observed [OF s] ok] by simp
    moreover have "\<exists>r'. getApp db1 (ar_ID r) = Inr r'" using l1 life_getApp [of db1 "ar_ID r"] by simp
    ultimately obtain v where v: "app_Status db1 (ar_ID r) = Inr v" using app_Status_ok by blast
    have "\<exists>a spec w1 w2. ap_Deploy dep a spec w1 = (w2, None)" using dw None by (auto simp: deploy_with_def split: sum.splits)
    moreover have "x = Inr v" "db' = db1" using op env dw None p s v by (auto simp: install_deploy_def install_done_def Let_def)
    ultimately show ?thesis using l1 Status_life [OF v] by simp
  next
    case (Some e1)
    obtain w3 x3 where rm: "ap_Remove dep (application r) ?spec w2 = (w3, x3)" by fastforce
    obtain db1 where s: "setObserved db (ar_ID r) ObservedFailed HealthUnknown (app_redact (err_msg e1) (sp_Env ?spec)) (ap_Now dep w3) = Inr db1"
      using statements_total(2) [OF r0] by blast
    have "lifecycle db1 = (lifecycle db)(ar_ID r \<mapsto> (d, ObservedFailed))" using setObserved_life [OF s] l by simp
    then show ?thesis using op env dw Some rm s by (auto simp: install_deploy_def install_failed_def Let_def)
  qed
qed

lemma Install_life:
  assumes ok: "apps_ok db" and op: "app_Install c dep db req w = (w', db', x)"
  shows "case x of
      Inr st \<Rightarrow> lifecycle db (app_ID (st_Application st)) = None \<and>
        lifecycle db' = (lifecycle db)(app_ID (st_Application st) \<mapsto> (DesiredRunning, ObservedRunning)) \<and>
        (\<exists>a spec w1 w2. ap_Deploy dep a spec w1 = (w2, None))
    | Inl e \<Rightarrow> db' = db \<or> (\<exists>i. lifecycle db i = None \<and> lifecycle db' = (lifecycle db)(i \<mapsto> (DesiredRunning, ObservedFailed)))"
  using op
proof (cases rule: Install_cases)
  case (inserted b name exposure i rel ts db1 w2)
  let ?r = "install_row b name exposure (ir_Hostname req) i rel ts"
  have i: "ar_ID ?r = i" "ar_DesiredState ?r = DesiredRunning" by (simp_all add: install_row_def)
  note c = created_life [OF inserted(3), unfolded i]
  have "app_step db db1" by (rule as_create [OF inserted(3) install_row_ok [OF inserted(2)]]) (simp_all add: install_row_def)
  then have ok1: "apps_ok db1" using app_step_ok ok by blast
  have l: "lifecycle db1 (ar_ID ?r) = Some (DesiredRunning, ar_ObservedState ?r)" using c(2) i by simp
  show ?thesis using install_deploy_life [OF ok1 l inserted(4)] c i by (auto split: sum.splits)
qed (auto split: sum.splits)

end
