(* ===== verification/BundleOrder.thy ===== *)
theory BundleOrder
  imports AppsCatalog
begin

text \<open>
  internal/controlplane: the dependency order of bundles (topoSortBundles of setup_phases.go) and the
  bundles a pause affects (affectedBundles of maintenance.go).
\<close>

section \<open>The order of dependencies\<close>

definition known :: "Bundle list \<Rightarrow> string \<Rightarrow> bool" where "known bs i \<longleftrightarrow> list_ex (\<lambda>b. bu_ID b = i) bs"

definition byID :: "Bundle list \<Rightarrow> string \<Rightarrow> Bundle option" where "byID bs i = List.find (\<lambda>b. bu_ID b = i) (rev bs)"

text \<open>The bundles that list a dependency, once for each time they list it.\<close>

definition adj :: "Bundle list \<Rightarrow> string \<Rightarrow> string list" where
  "adj bs d = (if known bs d then concat (map (\<lambda>b. map (\<lambda>_. bu_ID b) (filter (\<lambda>x. x = d) (bu_Dependencies b))) bs) else [])"

definition inDegree :: "Bundle list \<Rightarrow> string \<Rightarrow> int" where
  "inDegree bs i = sum_list (map (\<lambda>b. if bu_ID b = i then int (length (filter (known bs) (bu_Dependencies b))) else 0) bs)"

text \<open>The inner loop: a decrement for each neighbour, which joins the queue when nothing is left.\<close>

fun relax :: "(string \<Rightarrow> int) \<Rightarrow> string list \<Rightarrow> string list \<Rightarrow> (string \<Rightarrow> int) \<times> string list" where
  "relax deg q [] = (deg, q)"
| "relax deg q (n # ns) = (let d = deg n - 1 in relax (deg(n := d)) (if d = 0 then q @ [n] else q) ns)"

definition waiting :: "Bundle list \<Rightarrow> (string \<Rightarrow> int) \<Rightarrow> string set" where
  "waiting bs deg = {i \<in> bu_ID ` set bs. 0 < deg i}"

lemma relax_measure:
  "set ns \<subseteq> bu_ID ` set bs \<Longrightarrow> relax deg q ns = (deg', q') \<Longrightarrow> length q' + card (waiting bs deg') \<le> length q + card (waiting bs deg)"
proof (induction ns arbitrary: deg q)
  case (Cons n ns)
  let ?d = "deg(n := deg n - 1)"
  have n: "n \<in> bu_ID ` set bs" using Cons.prems(1) by simp
  have fin: "finite (waiting bs deg)" "finite (waiting bs ?d)" by (simp_all add: waiting_def)
  have le: "waiting bs ?d \<subseteq> waiting bs deg" by (auto simp: waiting_def split: if_splits)
  have "length (if deg n - 1 = 0 then q @ [n] else q) + card (waiting bs ?d) \<le> length q + card (waiting bs deg)"
  proof (cases "deg n = 1")
    case True
    then have "waiting bs ?d \<subset> waiting bs deg" using le n by (auto simp: waiting_def)
    then have "card (waiting bs ?d) < card (waiting bs deg)" using fin psubset_card_mono by blast
    then show ?thesis using True by simp
  next
    case False
    then show ?thesis using card_mono [OF fin(1) le] by simp
  qed
  moreover have "length q' + card (waiting bs deg') \<le> length (if deg n - 1 = 0 then q @ [n] else q) + card (waiting bs ?d)"
    by (rule Cons.IH) (use Cons.prems in \<open>simp_all only: relax.simps Let_def set_simps insert_subset\<close>)
  ultimately show ?case by linarith
qed simp

lemma set_adj: "set (adj bs d) \<subseteq> bu_ID ` set bs"
  by (auto simp: adj_def)

function kahn :: "Bundle list \<Rightarrow> (string \<Rightarrow> int) \<Rightarrow> string list \<Rightarrow> Bundle list \<Rightarrow> Bundle list" where
  "kahn bs deg [] out = out"
| "kahn bs deg (i # q) out = (let r = relax deg q (adj bs i) in
     kahn bs (fst r) (sort (snd r)) (case byID bs i of None \<Rightarrow> out | Some b \<Rightarrow> out @ [b]))"
  by pat_completeness auto
termination
proof (relation "measure (\<lambda>(bs, deg, q, out). length q + card (waiting bs deg))")
  fix bs deg i q out r
  assume r: "r = relax deg q (adj bs i)"
  have "length (snd r) + card (waiting bs (fst r)) \<le> length q + card (waiting bs deg)"
    by (rule relax_measure [OF set_adj]) (simp add: r)
  then show "((bs, fst r, sort (snd r), case byID bs i of None \<Rightarrow> out | Some b \<Rightarrow> out @ [b]), bs, deg, i # q, out)
      \<in> measure (\<lambda>(bs, deg, q, out). length q + card (waiting bs deg))" by simp
qed simp

definition topoSortBundles :: "Bundle list \<Rightarrow> Bundle list result" where
  "topoSortBundles bs =
     (let ids = remdups (map bu_ID bs);
          order = kahn bs (inDegree bs) (sort (filter (\<lambda>i. inDegree bs i = 0) ids)) [] in
      if length order \<noteq> length ids then Inl (errorf ''circular dependency detected'') else Inr order)"

section \<open>The bundles affected by a pause\<close>

definition affect_one :: "Bundle \<Rightarrow> string list \<Rightarrow> string list" where
  "affect_one b s = (if List.member s (bu_ID b) then s else if list_ex (List.member s) (bu_Dependencies b) then bu_ID b # s else s)"

definition affect_pass :: "Bundle list \<Rightarrow> string list \<Rightarrow> string list" where
  "affect_pass order s = fold affect_one order s"

lemma affect_pass_simps [simp]: "affect_pass [] s = s" "affect_pass (b # bs) s = affect_pass bs (affect_one b s)"
  by (simp_all add: affect_pass_def)

lemma affect_pass_grows: "set s \<subseteq> set (affect_pass bs s) \<and> length s \<le> length (affect_pass bs s) \<and>
    (affect_pass bs s \<noteq> s \<longrightarrow> (\<exists>x \<in> bu_ID ` set bs. x \<in> set (affect_pass bs s) \<and> x \<notin> set s))"
proof (induction bs arbitrary: s)
  case (Cons b bs)
  show ?case
  proof (cases "affect_one b s = s")
    case True
    then show ?thesis using Cons.IH [of s] by auto
  next
    case False
    then have o: "affect_one b s = bu_ID b # s" "bu_ID b \<notin> set s" by (auto simp: affect_one_def split: if_splits)
    show ?thesis using Cons.IH [of "bu_ID b # s"] o by auto
  qed
qed simp

function affect_closure :: "Bundle list \<Rightarrow> string list \<Rightarrow> string list" where
  "affect_closure order s = (let s' = affect_pass order s in if s' = s then s else affect_closure order s')"
  by pat_completeness auto
termination
proof (relation "measure (\<lambda>(bs, s). card (bu_ID ` set bs - set s))")
  fix order s s'
  assume s': "s' = affect_pass order s" "s' \<noteq> s"
  then obtain x where "x \<in> bu_ID ` set order" "x \<in> set s'" "x \<notin> set s" "set s \<subseteq> set s'" using affect_pass_grows [of s order] by auto
  then have "bu_ID ` set order - set s' \<subset> bu_ID ` set order - set s" by auto
  then show "((order, s'), order, s) \<in> measure (\<lambda>(bs, s). card (bu_ID ` set bs - set s))" by (simp add: psubset_card_mono)
qed simp

declare affect_closure.simps [simp del]

definition affectedBundles :: "Bundle list \<Rightarrow> string \<Rightarrow> Bundle list result" where
  "affectedBundles bs target = (case topoSortBundles bs of Inl e \<Rightarrow> Inl e
     | Inr order \<Rightarrow> Inr (filter (\<lambda>b. List.member (affect_closure order [target]) (bu_ID b)) order))"

section \<open>Correctness of the order\<close>

definition depends :: "Bundle list \<Rightarrow> (string \<times> string) set" where
  "depends bs = {(d, bu_ID b) | d b. b \<in> set bs \<and> d \<in> set (bu_Dependencies b) \<and> d \<in> bu_ID ` set bs}"

definition open_deps :: "Bundle list \<Rightarrow> string set \<Rightarrow> string \<Rightarrow> int" where
  "open_deps bs D i = sum_list (map (\<lambda>b. if bu_ID b = i then int (length (filter (\<lambda>d. known bs d \<and> d \<notin> D) (bu_Dependencies b))) else 0) bs)"

lemma relax_spec:
  assumes "\<And>i. int (count_list ns i) \<le> deg i" "relax deg q ns = (deg', q')"
  shows "deg' = (\<lambda>i. deg i - int (count_list ns i))"
    "\<exists>new. q' = q @ new \<and> distinct new \<and> set new = {i \<in> set ns. deg i = int (count_list ns i)}"
proof -
  have "deg' = (\<lambda>i. deg i - int (count_list ns i)) \<and> (\<exists>new. q' = q @ new \<and> distinct new \<and> set new = {i \<in> set ns. deg i = int (count_list ns i)})"
    using assms
  proof (induction ns arbitrary: deg q)
    case (Cons n ns)
    let ?d = "deg(n := deg n - 1)" and ?q = "if deg n - 1 = 0 then q @ [n] else q"
    have pre: "int (count_list ns i) \<le> ?d i" for i using Cons.prems(1) [of i] by (auto split: if_splits)
    have run: "relax ?d ?q ns = (deg', q')" using Cons.prems(2) by (simp add: Let_def)
    obtain new where new: "q' = ?q @ new" "distinct new" "set new = {i \<in> set ns. ?d i = int (count_list ns i)}"
      using Cons.IH [OF pre run] by blast
    have d: "deg' = (\<lambda>i. ?d i - int (count_list ns i))" using Cons.IH [OF pre run] by blast
    have pos: "int (count_list ns n) \<le> deg n - 1" using pre [of n] by simp
    show ?case
    proof (cases "deg n = 1")
      case True
      then have "count_list ns n = 0" using pos by simp
      then have n: "n \<notin> set ns" by (simp add: count_list_0_iff)
      have "set new = {i \<in> set ns. deg i = int (count_list ns i)}" using new(3) n by auto
      then have "set (n # new) = {i \<in> set (n # ns). deg i = int (count_list (n # ns) i)}"
        using True \<open>count_list ns n = 0\<close> n by auto
      moreover have "q' = q @ (n # new)" "distinct (n # new)" using new True n by auto
      ultimately show ?thesis using d by fastforce
    next
      case False
      have "set new = {i \<in> set (n # ns). deg i = int (count_list (n # ns) i)}"
      proof -
        have "(n \<in> set ns \<and> deg n - 1 = int (count_list ns n)) = (deg n = int (count_list (n # ns) n))"
          using False by (cases "n \<in> set ns") (auto simp: count_list_0_iff)
        then show ?thesis using new(3) by auto
      qed
      moreover have "q' = q @ new" using new(1) False by simp
      ultimately show ?thesis using d new(2) by fastforce
    qed
  qed simp
  then show "deg' = (\<lambda>i. deg i - int (count_list ns i))"
    "\<exists>new. q' = q @ new \<and> distinct new \<and> set new = {i \<in> set ns. deg i = int (count_list ns i)}" by blast+
qed

lemma known_eq: "known bs = (\<lambda>i. i \<in> bu_ID ` set bs)"
  by (auto simp: known_def list_ex_iff fun_eq_iff)

lemma inDegree_open: "inDegree bs = open_deps bs {}"
  unfolding inDegree_def open_deps_def by (simp cong: if_cong)

lemma filter_count: "int (length (filter (\<lambda>x. Q x \<and> x \<noteq> d) xs)) = int (length (filter Q xs)) - (if Q d then int (count_list xs d) else 0)"
  by (induction xs) auto

lemma open_deps_insert:
  assumes "d \<in> bu_ID ` set bs" "d \<notin> D"
  shows "open_deps bs (insert d D) i = open_deps bs D i - int (count_list (adj bs d) i)"
proof -
  let ?Q = "\<lambda>x. x \<in> bu_ID ` set bs \<and> x \<notin> D"
  have each: "int (length (filter (\<lambda>x. x \<in> bu_ID ` set bs \<and> x \<notin> insert d D) xs)) = int (length (filter ?Q xs)) - int (count_list xs d)" for xs
    using filter_count [of ?Q d xs] assms by (simp add: conj_commute conj_left_commute)
  have cnt: "count_list (map (\<lambda>_. j) (filter (\<lambda>x. x = d) xs)) i = (if j = i then count_list xs d else 0)" for j xs
    by (induction xs) auto
  have A: "int (count_list (concat (map (\<lambda>b. map (\<lambda>_. bu_ID b) (filter (\<lambda>x. x = d) (bu_Dependencies b))) bs0)) i) =
      sum_list (map (\<lambda>b. if bu_ID b = i then int (count_list (bu_Dependencies b) d) else 0) bs0)" for bs0
    by (induction bs0) (simp_all add: cnt)
  have B: "sum_list (map (\<lambda>b. if bu_ID b = i then int (length (filter (\<lambda>x. x \<in> bu_ID ` set bs \<and> x \<notin> insert d D) (bu_Dependencies b))) else 0) bs0) =
      sum_list (map (\<lambda>b. if bu_ID b = i then int (length (filter ?Q (bu_Dependencies b))) else 0) bs0) -
      sum_list (map (\<lambda>b. if bu_ID b = i then int (count_list (bu_Dependencies b) d) else 0) bs0)" for bs0
    unfolding each by (induction bs0) simp_all
  show ?thesis unfolding open_deps_def known_eq B A [symmetric] using assms(1) by (simp add: adj_def known_eq)
qed

lemma open_deps_nonneg: "0 \<le> open_deps bs D i"
  unfolding open_deps_def by (rule sum_list_nonneg) auto

lemma open_deps_zero: "open_deps bs D i = 0 \<longleftrightarrow> (\<forall>b \<in> set bs. bu_ID b = i \<longrightarrow> (\<forall>d \<in> set (bu_Dependencies b). d \<in> bu_ID ` set bs \<longrightarrow> d \<in> D))"
proof -
  have "sum_list (map (\<lambda>b. if bu_ID b = i then int (length (filter P (bu_Dependencies b))) else 0) bs0) = 0 \<longleftrightarrow>
      (\<forall>b \<in> set bs0. bu_ID b = i \<longrightarrow> (\<forall>d \<in> set (bu_Dependencies b). \<not> P d))" for P bs0
  proof (induction bs0)
    case (Cons b bs0)
    have "0 \<le> sum_list (map (\<lambda>b. if bu_ID b = i then int (length (filter P (bu_Dependencies b))) else 0) bs0)"
      by (rule sum_list_nonneg) auto
    then show ?case using Cons by (auto simp: add_nonneg_eq_0_iff filter_empty_conv)
  qed simp
  from this [of "\<lambda>d. d \<in> bu_ID ` set bs \<and> d \<notin> D" bs] show ?thesis unfolding open_deps_def known_eq by simp
qed

lemma byID_Some:
  assumes "i \<in> bu_ID ` set bs" obtains b where "byID bs i = Some b" "b \<in> set bs" "bu_ID b = i"
proof -
  have "byID bs i \<noteq> None" using assms unfolding byID_def find_None_iff by auto
  then obtain b where b: "byID bs i = Some b" by blast
  then show ?thesis using that find_Some_in [of "\<lambda>b. bu_ID b = i" "rev bs" b] by (simp add: byID_def)
qed

text \<open>Every known dependency of a bundle stands before it.\<close>

definition deps_first :: "Bundle list \<Rightarrow> Bundle list \<Rightarrow> bool" where
  "deps_first bs out \<longleftrightarrow> (\<forall>n < length out. set (bu_Dependencies (out ! n)) \<inter> bu_ID ` set bs \<subseteq> bu_ID ` set (take n out))"

definition kahn_ok :: "Bundle list \<Rightarrow> (string \<Rightarrow> int) \<Rightarrow> string list \<Rightarrow> Bundle list \<Rightarrow> bool" where
  "kahn_ok bs deg q out \<longleftrightarrow> (let D = bu_ID ` set out in
     distinct (map bu_ID out) \<and> set out \<subseteq> set bs \<and> deg = open_deps bs D \<and> distinct q \<and> set q \<inter> D = {} \<and>
     set q \<union> D = {i \<in> bu_ID ` set bs. open_deps bs D i = 0} \<and> deps_first bs out)"

lemma deps_first_snoc:
  "deps_first bs out \<Longrightarrow> set (bu_Dependencies b) \<inter> bu_ID ` set bs \<subseteq> bu_ID ` set out \<Longrightarrow> deps_first bs (out @ [b])"
  unfolding deps_first_def by (auto simp: nth_append less_Suc_eq)

lemma kahn_step:
  assumes ok: "kahn_ok bs deg (i # q) out" and r: "relax deg q (adj bs i) = (deg', q')" and b: "byID bs i = Some b" "b \<in> set bs" "bu_ID b = i"
  shows "kahn_ok bs deg' (sort q') (out @ [b])"
proof -
  let ?D = "bu_ID ` set out" and ?N = "\<lambda>j. int (count_list (adj bs i) j)"
  have o: "distinct (map bu_ID out)" "set out \<subseteq> set bs" "deg = open_deps bs ?D" "distinct (i # q)" "set (i # q) \<inter> ?D = {}"
    "set (i # q) \<union> ?D = {i \<in> bu_ID ` set bs. open_deps bs ?D i = 0}" "deps_first bs out" using ok by (simp_all add: kahn_ok_def Let_def)
  have i: "i \<in> bu_ID ` set bs" "i \<notin> ?D" "open_deps bs ?D i = 0" using o(5,6) by auto
  note ins = open_deps_insert [OF i(1,2)]
  have le: "?N j \<le> deg j" for j using open_deps_nonneg [of bs "insert i ?D" j] ins [of j] o(3) by simp
  obtain new where new: "q' = q @ new" "distinct new" "set new = {j \<in> set (adj bs i). deg j = ?N j}" and deg': "deg' = (\<lambda>j. deg j - ?N j)"
    using relax_spec [OF le r] by blast
  have d: "deg' = open_deps bs (insert i ?D)" using deg' ins o(3) by (simp add: fun_eq_iff)
  have fresh: "j \<notin> set (i # q) \<union> ?D" if "j \<in> set new" for j
  proof -
    have "count_list (adj bs i) j \<noteq> 0" "deg j = ?N j" using that new(3) by (auto simp: count_list_0_iff)
    then have "open_deps bs ?D j \<noteq> 0" using o(3) by simp
    then show ?thesis using o(6) by blast
  qed
  have all: "set (q @ new) \<union> insert i ?D = {j \<in> bu_ID ` set bs. open_deps bs (insert i ?D) j = 0}"
  proof (intro equalityI subsetI)
    fix j assume "j \<in> set (q @ new) \<union> insert i ?D"
    then consider "j \<in> set (i # q) \<union> ?D" | "j \<in> set new" by auto
    then show "j \<in> {j \<in> bu_ID ` set bs. open_deps bs (insert i ?D) j = 0}"
    proof cases
      case 1
      then have "j \<in> bu_ID ` set bs" "open_deps bs ?D j = 0" using o(6) by auto
      then show ?thesis using ins [of j] open_deps_nonneg [of bs "insert i ?D" j] by simp
    next
      case 2
      then have "j \<in> set (adj bs i)" "deg j = ?N j" using new(3) by auto
      then show ?thesis using set_adj [of bs i] ins [of j] o(3) by auto
    qed
  next
    fix j assume j: "j \<in> {j \<in> bu_ID ` set bs. open_deps bs (insert i ?D) j = 0}"
    show "j \<in> set (q @ new) \<union> insert i ?D"
    proof (cases "open_deps bs ?D j = 0")
      case True
      then show ?thesis using j o(6) by auto
    next
      case False
      then have "deg j = ?N j" "count_list (adj bs i) j \<noteq> 0" using j ins [of j] o(3) by auto
      then have "j \<in> set new" using new(3) by (auto simp: count_list_0_iff)
      then show ?thesis by simp
    qed
  qed
  have dis: "set new \<inter> (set (i # q) \<union> ?D) = {}" using fresh by blast
  have "deps_first bs (out @ [b])"
    using i(3) b(2,3) by (intro deps_first_snoc [OF o(7)]) (auto simp: open_deps_zero)
  then show ?thesis
    using o(1,2,4,5) b i(2) d new(1,2) dis all by (auto simp: kahn_ok_def Let_def)
qed

lemma kahn_result: "kahn_ok bs deg q out \<Longrightarrow> \<exists>deg'. kahn_ok bs deg' [] (kahn bs deg q out)"
proof (induction bs deg q out rule: kahn.induct)
  case (2 bs deg i q out)
  obtain deg' q' where r: "relax deg q (adj bs i) = (deg', q')" by fastforce
  have "i \<in> bu_ID ` set bs" using 2(2) by (auto simp: kahn_ok_def Let_def)
  then obtain b where b: "byID bs i = Some b" "b \<in> set bs" "bu_ID b = i" by (rule byID_Some)
  show ?case using 2(1) [OF refl] kahn_step [OF 2(2) r b] r b by (simp add: Let_def)
qed auto

lemma kahn_start:
  "kahn_ok bs (inDegree bs) (sort (filter (\<lambda>i. inDegree bs i = 0) (remdups (map bu_ID bs)))) []"
  by (auto simp: kahn_ok_def Let_def inDegree_open deps_first_def)

lemma deps_first_acyclic:
  assumes "deps_first bs out" "distinct (map bu_ID out)" "bu_ID ` set out = bu_ID ` set bs" "set out = set bs"
  shows "acyclic (depends bs)"
proof (rule acyclicI_order [where f = "\<lambda>i. - int (length (takeWhile (\<lambda>b. bu_ID b \<noteq> i) out))"])
  fix d i assume "(d, i) \<in> depends bs"
  then obtain b where b: "b \<in> set out" "bu_ID b = i" "d \<in> set (bu_Dependencies b)" "d \<in> bu_ID ` set bs" using assms(4) by (auto simp: depends_def)
  then obtain n where n: "n < length out" "out ! n = b" by (auto simp: in_set_conv_nth)
  then have d: "d \<in> bu_ID ` set (take n out)" using assms(1) b(3,4) by (auto simp: deps_first_def)
  have out: "out = take n out @ b # drop (Suc n) out" using n id_take_nth_drop by metis
  have "i \<notin> bu_ID ` set (take n out)"
    using assms(2) b(2) by (subst (asm) out) (auto simp: image_iff)
  then have "takeWhile (\<lambda>b. bu_ID b \<noteq> i) out = take n out" using b(2) by (subst out, subst takeWhile_append2) (auto, metis imageI)
  moreover have "length (takeWhile (\<lambda>b. bu_ID b \<noteq> d) out) < n"
  proof -
    obtain x xs ys where x: "take n out = xs @ x # ys" "bu_ID x = d" using d by (metis image_iff in_set_conv_decomp)
    have "length (takeWhile (\<lambda>b. bu_ID b \<noteq> d) (take n out)) \<le> length xs"
      unfolding x(1) using x(2) by (induction xs) auto
    moreover have "takeWhile (\<lambda>b. bu_ID b \<noteq> d) out = takeWhile (\<lambda>b. bu_ID b \<noteq> d) (take n out)"
      using x by (subst out, subst takeWhile_append1) auto
    moreover have "length xs < n" using x(1) n(1) by (metis add_Suc_right length_append length_Cons length_take less_add_Suc1 min.absorb4)
    ultimately show ?thesis by simp
  qed
  ultimately show "- int (length (takeWhile (\<lambda>b. bu_ID b \<noteq> i) out)) < - int (length (takeWhile (\<lambda>b. bu_ID b \<noteq> d) out))" using n by simp
qed

lemma stuck_cyclic:
  assumes D: "D \<subset> bu_ID ` set bs" and open': "\<And>i. i \<in> bu_ID ` set bs - D \<Longrightarrow> open_deps bs D i \<noteq> 0"
  shows "\<not> acyclic (depends bs)"
proof
  assume a: "acyclic (depends bs)"
  have "depends bs \<subseteq> bu_ID ` set bs \<times> bu_ID ` set bs" by (auto simp: depends_def)
  then have "finite (depends bs)" by (rule finite_subset) simp
  then have "wf (depends bs)" using a by (rule finite_acyclic_wf)
  moreover have "bu_ID ` set bs - D \<noteq> {}" using D by blast
  ultimately obtain z where z: "z \<in> bu_ID ` set bs - D" "\<And>y. (y, z) \<in> depends bs \<Longrightarrow> y \<notin> bu_ID ` set bs - D" by (metis wfE_min ex_in_conv)
  from open' [OF z(1)] obtain b d where "b \<in> set bs" "bu_ID b = z" "d \<in> set (bu_Dependencies b)" "d \<in> bu_ID ` set bs" "d \<notin> D" by (auto simp: open_deps_zero)
  then show False using z(2) [of d] by (auto simp: depends_def)
qed

lemma topoSort_correct:
  assumes "distinct (map bu_ID bs)"
  shows "case topoSortBundles bs of
      Inr out \<Rightarrow> mset out = mset bs \<and> deps_first bs out \<and> acyclic (depends bs)
    | Inl e \<Rightarrow> \<not> acyclic (depends bs)"
proof -
  let ?out = "kahn bs (inDegree bs) (sort (filter (\<lambda>i. inDegree bs i = 0) (remdups (map bu_ID bs)))) []"
  obtain deg where ok: "kahn_ok bs deg [] ?out" using kahn_result [OF kahn_start] by blast
  then have o: "distinct (map bu_ID ?out)" "set ?out \<subseteq> set bs" "deps_first bs ?out"
    "bu_ID ` set ?out = {i \<in> bu_ID ` set bs. open_deps bs (bu_ID ` set ?out) i = 0}" by (simp_all add: kahn_ok_def Let_def)
  have len: "remdups (map bu_ID bs) = map bu_ID bs" using assms by (simp add: distinct_remdups_id)
  show ?thesis
  proof (cases "length ?out = length bs")
    case True
    have ds: "distinct ?out" "distinct bs" using o(1) assms by (simp_all add: distinct_map)
    then have "card (set ?out) = card (set bs)" using True by (simp add: distinct_card)
    then have eq: "set ?out = set bs" using o(2) by (simp add: card_subset_eq)
    then have "mset ?out = mset bs" using ds by (simp add: set_eq_iff_mset_eq_distinct)
    moreover have "acyclic (depends bs)" using deps_first_acyclic [OF o(3,1)] eq by simp
    ultimately show ?thesis using o(3) True by (simp add: topoSortBundles_def len)
  next
    case False
    have "bu_ID ` set ?out \<noteq> bu_ID ` set bs"
    proof
      assume "bu_ID ` set ?out = bu_ID ` set bs"
      then have "length (map bu_ID ?out) = length (map bu_ID bs)" using o(1) assms by (metis distinct_card list.set_map)
      then show False using False by simp
    qed
    then have "bu_ID ` set ?out \<subset> bu_ID ` set bs" using o(2) by blast
    then have "\<not> acyclic (depends bs)" by (rule stuck_cyclic) (use o(4) in blast)
    then show ?thesis using False by (simp add: topoSortBundles_def len)
  qed
qed

section \<open>Correctness of the affected bundles\<close>

definition uses :: "Bundle list \<Rightarrow> (string \<times> string) set" where
  "uses bs = {(d, bu_ID b) | d b. b \<in> set bs \<and> d \<in> set (bu_Dependencies b)}"

lemma affect_pass_sound:
  assumes "set bs \<subseteq> set all" "set s \<subseteq> {i. (t, i) \<in> (uses all)\<^sup>*}" shows "set (affect_pass bs s) \<subseteq> {i. (t, i) \<in> (uses all)\<^sup>*}"
  using assms
proof (induction bs arbitrary: s)
  case (Cons b bs)
  have "set (affect_one b s) \<subseteq> {i. (t, i) \<in> (uses all)\<^sup>*}"
    using Cons.prems by (auto simp: affect_one_def list_ex_iff uses_def intro: rtrancl_into_rtrancl)
  then show ?case using Cons.IH [of "affect_one b s"] Cons.prems(1) by simp
qed simp

lemma affect_pass_fixed:
  assumes "affect_pass bs s = s" "b \<in> set bs" "d \<in> set (bu_Dependencies b)" "d \<in> set s" shows "bu_ID b \<in> set s"
proof -
  have "length (affect_one x s) = Suc (length s) \<or> affect_one x s = s" for x s by (simp add: affect_one_def)
  then have one: "affect_one x s = s" if "affect_pass (x # xs) s = s" for x xs s
    using that affect_pass_grows [of "affect_one x s" xs] by (metis Suc_n_not_le_n affect_pass_simps(2))
  have "affect_one b s = s"
    using assms(1,2)
  proof (induction bs)
    case (Cons x xs)
    then show ?case using one [OF Cons.prems(1)] by (metis affect_pass_simps(2) set_ConsD)
  qed simp
  then show ?thesis using assms(3,4) by (auto simp: affect_one_def list_ex_iff split: if_splits)
qed

lemma affect_closure_spec:
  "set s \<subseteq> {i. (t, i) \<in> (uses bs)\<^sup>*} \<Longrightarrow> t \<in> set s \<Longrightarrow> set (affect_closure bs s) = {i. (t, i) \<in> (uses bs)\<^sup>*}"
proof (induction bs s rule: affect_closure.induct)
  case (1 bs s)
  show ?case
  proof (cases "affect_pass bs s = s")
    case True
    have "i \<in> set s" if "(t, i) \<in> (uses bs)\<^sup>*" for i
      using that
    proof (induction rule: rtrancl_induct)
      case (step d i)
      then show ?case using affect_pass_fixed [OF True] by (auto simp: uses_def)
    qed (rule 1(3))
    then show ?thesis using True 1(2) by (subst affect_closure.simps) auto
  next
    case False
    have "set (affect_pass bs s) \<subseteq> {i. (t, i) \<in> (uses bs)\<^sup>*}" using affect_pass_sound [OF subset_refl 1(2)] .
    moreover have "t \<in> set (affect_pass bs s)" using 1(3) affect_pass_grows [of s bs] by blast
    ultimately show ?thesis using 1(1) [OF refl False] False by (subst affect_closure.simps) (simp add: Let_def)
  qed
qed

lemma deps_first_filter:
  assumes "deps_first bs out" "n < length (filter P out)" "d \<in> set (bu_Dependencies (filter P out ! n))" "d \<in> bu_ID ` set (filter P out)"
    "set out \<subseteq> set bs" "distinct (map bu_ID out)"
  shows "d \<in> bu_ID ` set (take n (filter P out))"
  using assms
proof (induction out arbitrary: n rule: rev_induct)
  case (snoc x out)
  have df: "deps_first bs out"
    unfolding deps_first_def
  proof (intro allI impI)
    fix k assume "k < length out"
    then show "set (bu_Dependencies (out ! k)) \<inter> bu_ID ` set bs \<subseteq> bu_ID ` set (take k out)"
      using snoc.prems(1) [unfolded deps_first_def, rule_format, of k] by (simp add: nth_append)
  qed
  show ?case
  proof (cases "n < length (filter P out)")
    case True
    have "d \<in> bu_ID ` set (filter P out)"
    proof (rule ccontr)
      assume "d \<notin> bu_ID ` set (filter P out)"
      then have dx: "d = bu_ID x" using snoc.prems(4) by (auto split: if_splits)
      have "filter P out ! n \<in> set out" "d \<in> set (bu_Dependencies (filter P out ! n))"
        using True snoc.prems(3) nth_mem [OF True] by (auto simp: nth_append)
      then obtain m where "m < length out" "out ! m = filter P out ! n" by (auto simp: in_set_conv_nth)
      then have "set (bu_Dependencies (filter P out ! n)) \<inter> bu_ID ` set bs \<subseteq> bu_ID ` set (take m out)"
        using df [unfolded deps_first_def, rule_format, of m] by simp
      then have "d \<in> bu_ID ` set (take m out)" using snoc.prems(5) dx \<open>d \<in> set (bu_Dependencies (filter P out ! n))\<close> by auto
      then show False using dx snoc.prems(6) by (auto dest: in_set_takeD)
    qed
    then show ?thesis using snoc.IH [OF df True] snoc.prems True by (auto simp: nth_append)
  next
    case False
    then have px: "P x" "n = length (filter P out)" using snoc.prems(2) by (auto split: if_splits)
    have "d \<noteq> bu_ID x"
    proof
      assume "d = bu_ID x"
      then have "bu_ID x \<in> bu_ID ` set (take (length out) (out @ [x]))"
        using snoc.prems(1,3,5) px unfolding deps_first_def by (force simp: nth_append)
      then show False using snoc.prems(6) by auto
    qed
    then show ?thesis using snoc.prems(4) px by auto
  qed
qed simp

lemma affectedBundles_correct:
  assumes "distinct (map bu_ID bs)" "affectedBundles bs target = Inr out"
  shows "distinct (map bu_ID out)" "set out = {b \<in> set bs. (target, bu_ID b) \<in> (uses bs)\<^sup>*}"
    "n < length out \<Longrightarrow> d \<in> set (bu_Dependencies (out ! n)) \<Longrightarrow> d \<in> bu_ID ` set out \<Longrightarrow> d \<in> bu_ID ` set (take n out)"
proof -
  obtain order where t: "topoSortBundles bs = Inr order" and out: "out = filter (\<lambda>b. bu_ID b \<in> set (affect_closure order [target])) order"
    using assms(2) by (auto simp: affectedBundles_def split: sum.splits)
  have c: "mset order = mset bs" "deps_first bs order" using topoSort_correct [OF assms(1)] t by auto
  have s: "set order = set bs" using c(1) mset_eq_setD by blast
  have d: "distinct (map bu_ID order)" using assms(1) c(1) by (metis distinct_count_atmost_1 mset_map mset_eq_setD)
  have "uses order = uses bs" using s by (simp add: uses_def)
  then have "set (affect_closure order [target]) = {i. (target, i) \<in> (uses bs)\<^sup>*}" using affect_closure_spec [of "[target]" target order] by simp
  then show "set out = {b \<in> set bs. (target, bu_ID b) \<in> (uses bs)\<^sup>*}" using out s by auto
  show "distinct (map bu_ID out)" using d out by (simp add: distinct_map_filter)
  show "n < length out \<Longrightarrow> d \<in> set (bu_Dependencies (out ! n)) \<Longrightarrow> d \<in> bu_ID ` set out \<Longrightarrow> d \<in> bu_ID ` set (take n out)"
    unfolding out by (rule deps_first_filter [OF c(2)]) (use d s in auto)
qed

end
