(* ===== verification/AppMaintenance.thy ===== *)
theory AppMaintenance
  imports ControlErrors AppsLife BundleOrder
begin

text \<open>
  internal/controlplane (maintenance.go, and of storage.go and restore_live.go what pauses and resumes
  applications): pauses for imports, storage migrations and live restores.  The state is the apps tables
  and the marker files, one for each paused bundle; the file system is part of the world.  The global
  lock makes these operations exclude each other.  The apps service is configured.  The journals of
  storage and restore operations are not modelled.
\<close>

section \<open>State and collaborators\<close>

record maint_state =
  ms_db :: apps_db
  ms_markers :: "string list"

text \<open>Writing a marker yields whether the file is there afterwards, and the error; removing it, whether it
  is gone.  A path yields whether it is a directory, or the error of stat.\<close>

record 'w MaintDeps =
  md_Apps :: "'w AppDeps"
  md_WriteMarker :: "string \<Rightarrow> 'w \<Rightarrow> 'w \<times> bool \<times> goerror option"
  md_RemoveMarker :: "string \<Rightarrow> 'w \<Rightarrow> 'w \<times> bool"
  md_OperationID :: "'w \<Rightarrow> 'w \<times> string"
  md_Stat :: "string \<Rightarrow> 'w \<Rightarrow> bool result"
  md_Open :: "string \<Rightarrow> 'w \<Rightarrow> goerror option"
  md_ReadDir :: "'w \<Rightarrow> goerror option"
  md_Lock :: "'w \<Rightarrow> 'w \<times> goerror option"

definition writeMarker :: "'w MaintDeps \<Rightarrow> maint_state \<Rightarrow> string \<Rightarrow> 'w \<Rightarrow> 'w \<times> maint_state \<times> goerror option" where
  "writeMarker dep st b w = (case md_WriteMarker dep b w of (w1, there, e) \<Rightarrow>
     (w1, (if there \<or> e = None then st\<lparr>ms_markers := List.insert b (ms_markers st)\<rparr> else st), e))"

definition removeMarker :: "'w MaintDeps \<Rightarrow> maint_state \<Rightarrow> string \<Rightarrow> 'w \<Rightarrow> 'w \<times> maint_state" where
  "removeMarker dep st b w = (case md_RemoveMarker dep b w of (w1, gone) \<Rightarrow>
     (w1, if gone then st\<lparr>ms_markers := removeAll b (ms_markers st)\<rparr> else st))"

abbreviation maint_now :: "'w MaintDeps \<Rightarrow> 'w \<Rightarrow> time" where "maint_now dep w \<equiv> ap_Now (md_Apps dep) w"

definition appsByBundle :: "apps_db \<Rightarrow> string \<Rightarrow> AppStatus list result" where
  "appsByBundle db b = (case app_List db of Inl e \<Rightarrow> Inl e | Inr l \<Rightarrow> Inr (filter (\<lambda>s. st_BundleID s = b) l))"

definition mustAppsByBundle :: "apps_db \<Rightarrow> string \<Rightarrow> AppStatus list" where
  "mustAppsByBundle db b = (case appsByBundle db b of Inl _ \<Rightarrow> [] | Inr l \<Rightarrow> l)"

abbreviation st_ID :: "AppStatus \<Rightarrow> id" where "st_ID s \<equiv> app_ID (st_Application s)"

definition withMaintenanceLock ::
  "'w MaintDeps \<Rightarrow> maint_state \<Rightarrow> ('w \<Rightarrow> 'w \<times> maint_state \<times> 'a result) \<Rightarrow> 'w \<Rightarrow> 'w \<times> maint_state \<times> 'a result" where
  "withMaintenanceLock dep st f w = (case md_Lock dep w of (w1, Some e) \<Rightarrow> (w1, st, Inl e) | (w1, None) \<Rightarrow> f w1)"

section \<open>Pausing\<close>

fun quiesce_apps :: "Catalog \<Rightarrow> 'w MaintDeps \<Rightarrow> apps_db \<Rightarrow> AppStatus list \<Rightarrow> 'w \<Rightarrow> 'w \<times> apps_db \<times> goerror option" where
  "quiesce_apps c dep db [] w = (w, db, None)"
| "quiesce_apps c dep db (a # others) w = (case app_Quiesce c (md_Apps dep) db (st_ID a) w of
      (w1, db1, Inl e) \<Rightarrow> (w1, db1, Some (translateError e))
    | (w1, db1, Inr _) \<Rightarrow> quiesce_apps c dep db1 others w1)"

fun stop_writers :: "Catalog \<Rightarrow> 'w MaintDeps \<Rightarrow> apps_db \<Rightarrow> string list \<Rightarrow> 'w \<Rightarrow> 'w \<times> apps_db \<times> goerror option" where
  "stop_writers c dep db [] w = (w, db, None)"
| "stop_writers c dep db (b # rest) w = (case quiesce_apps c dep db (mustAppsByBundle db b) w of
      (w1, db1, Some e) \<Rightarrow> (w1, db1, Some e)
    | (w1, db1, None) \<Rightarrow> stop_writers c dep db1 rest w1)"

text \<open>A record and a marker for a bundle.\<close>

definition pause_bundle ::
  "Catalog \<Rightarrow> 'w MaintDeps \<Rightarrow> (goerror \<Rightarrow> goerror) \<Rightarrow> maint_state \<Rightarrow> string \<Rightarrow> string \<Rightarrow> string \<Rightarrow> 'w \<Rightarrow> 'w \<times> maint_state \<times> Maintenance result" where
  "pause_bundle c dep tr st reason op b w = (case PauseForMaintenance c (ms_db st) b reason op (maint_now dep w) of
      (db1, Inl e) \<Rightarrow> (w, st\<lparr>ms_db := db1\<rparr>, Inl (tr e))
    | (db1, Inr m) \<Rightarrow> (case writeMarker dep (st\<lparr>ms_db := db1\<rparr>) b w of
        (w1, st1, Some e) \<Rightarrow> (w1, st1, Inl e) | (w1, st1, None) \<Rightarrow> (w1, st1, Inr m)))"

fun record_pauses ::
  "Catalog \<Rightarrow> 'w MaintDeps \<Rightarrow> maint_state \<Rightarrow> string \<Rightarrow> string \<Rightarrow> string \<Rightarrow> Maintenance option \<Rightarrow> string list \<Rightarrow> 'w \<Rightarrow>
     'w \<times> maint_state \<times> Maintenance option result" where
  "record_pauses c dep st reason op target found [] w = (w, st, Inr found)"
| "record_pauses c dep st reason op target found (b # rest) w = (case pause_bundle c dep translateError st reason op b w of
      (w1, st1, Inl e) \<Rightarrow> (w1, st1, Inl e)
    | (w1, st1, Inr m) \<Rightarrow> record_pauses c dep st1 reason op target (if b = target then Some m else found) rest w1)"

definition pauseAppLocked ::
  "Catalog \<Rightarrow> 'w MaintDeps \<Rightarrow> maint_state \<Rightarrow> id \<Rightarrow> string \<Rightarrow> 'w \<Rightarrow> 'w \<times> maint_state \<times> Maintenance result" where
  "pauseAppLocked c dep st i reason w = (case app_Status (ms_db st) i of
      Inl e \<Rightarrow> (w, st, Inl (translateError e))
    | Inr s \<Rightarrow> (case affectedBundles (catalog_Bundles c) (st_BundleID s) of
        Inl e \<Rightarrow> (w, st, Inl e)
      | Inr affected \<Rightarrow> (case stop_writers c dep (ms_db st) (rev (map bu_ID affected)) w of
          (w1, db1, Some e) \<Rightarrow> (w1, st\<lparr>ms_db := db1\<rparr>, Inl e)
        | (w1, db1, None) \<Rightarrow> (case md_OperationID dep w1 of (w2, op) \<Rightarrow>
            (case record_pauses c dep (st\<lparr>ms_db := db1\<rparr>) reason op (st_BundleID s) None (map bu_ID affected) w2 of
               (w3, st3, Inl e) \<Rightarrow> (w3, st3, Inl e)
             | (w3, st3, Inr (Some m)) \<Rightarrow> (w3, st3, Inr m)
             | (w3, st3, Inr None) \<Rightarrow> (w3, st3, Inr \<lparr>mn_BundleID = st_BundleID s, mn_Reason = reason, mn_OperationID = op, mn_CreatedAt = []\<rparr>))))))"

definition PauseAppForImport :: "Catalog \<Rightarrow> 'w MaintDeps \<Rightarrow> maint_state \<Rightarrow> id \<Rightarrow> 'w \<Rightarrow> 'w \<times> maint_state \<times> Maintenance result" where
  "PauseAppForImport c dep st i w = withMaintenanceLock dep st (pauseAppLocked c dep st i MaintenanceImport) w"

section \<open>Resuming after an import\<close>

definition path_problem :: "'w MaintDeps \<Rightarrow> string \<Rightarrow> DataVolume \<Rightarrow> 'w \<Rightarrow> goerror option" where
  "path_problem dep b v w = (if dv_Path v = [] then None
     else (let bad = (\<lambda>m. Some (wrapf ApiValidation (''bundle '' @ quote b @ '' path '' @ quote (dv_Path v) @ m))) in
       case md_Stat dep (dv_Path v) w of
         Inl e \<Rightarrow> bad ('': '' @ err_msg e)
       | Inr dir \<Rightarrow> if \<not> dir then bad '' is not a directory''
           else (case md_Open dep (dv_Path v) w of Some e \<Rightarrow> bad ('' not accessible: '' @ err_msg e) | None \<Rightarrow> None)))"

definition first_error :: "goerror option list \<Rightarrow> goerror option" where
  "first_error es = (case List.find (\<lambda>e. e \<noteq> None) es of None \<Rightarrow> None | Some e \<Rightarrow> e)"

definition validateResumePaths :: "'w MaintDeps \<Rightarrow> Bundle list \<Rightarrow> 'w \<Rightarrow> goerror option" where
  "validateResumePaths dep rest w = first_error (concat (map (\<lambda>b. map (\<lambda>v. path_problem dep (bu_ID b) v w) (bu_Data b)) rest))"

definition owned_error :: "string \<Rightarrow> Maintenance \<Rightarrow> goerror" where
  "owned_error b m = wrapf ApiConflict (''maintenance for '' @ quote b @ '' is owned by '' @ mn_Reason m)"

definition not_import :: "apps_db \<Rightarrow> string \<Rightarrow> goerror option" where
  "not_import db b = (case GetMaintenance db b of Inl _ \<Rightarrow> None
     | Inr m \<Rightarrow> if mn_Reason m \<noteq> MaintenanceImport then Some (owned_error b m) else None)"

fun clear_pauses :: "'w MaintDeps \<Rightarrow> maint_state \<Rightarrow> string list \<Rightarrow> 'w \<Rightarrow> 'w \<times> maint_state \<times> goerror option" where
  "clear_pauses dep st [] w = (w, st, None)"
| "clear_pauses dep st (b # rest) w = (case ResumeFromMaintenance (ms_db st) b of
      (db1, Some e) \<Rightarrow> (w, st\<lparr>ms_db := db1\<rparr>, Some (translateError e))
    | (db1, None) \<Rightarrow> (case removeMarker dep (st\<lparr>ms_db := db1\<rparr>) b w of (w1, st1) \<Rightarrow> clear_pauses dep st1 rest w1))"

text \<open>Starting the applications that want to run; the error of a start goes through a translation.\<close>

fun start_apps :: "Catalog \<Rightarrow> 'w MaintDeps \<Rightarrow> (goerror \<Rightarrow> goerror) \<Rightarrow> apps_db \<Rightarrow> AppStatus list \<Rightarrow> 'w \<Rightarrow> 'w \<times> apps_db \<times> goerror option" where
  "start_apps c dep tr db [] w = (w, db, None)"
| "start_apps c dep tr db (a # others) w = (case app_Status db (st_ID a) of
      Inl _ \<Rightarrow> start_apps c dep tr db others w
    | Inr cur \<Rightarrow> if app_DesiredState (st_Application cur) \<noteq> DesiredRunning then start_apps c dep tr db others w
        else (case app_Start c (md_Apps dep) db (st_ID a) w of
            (w1, db1, Inl e) \<Rightarrow> (w1, db1, Some (tr e))
          | (w1, db1, Inr _) \<Rightarrow> start_apps c dep tr db1 others w1))"

fun start_bundles :: "Catalog \<Rightarrow> 'w MaintDeps \<Rightarrow> (goerror \<Rightarrow> goerror) \<Rightarrow> apps_db \<Rightarrow> string list \<Rightarrow> 'w \<Rightarrow> 'w \<times> apps_db \<times> goerror option" where
  "start_bundles c dep tr db [] w = (w, db, None)"
| "start_bundles c dep tr db (b # rest) w = (case start_apps c dep tr db (mustAppsByBundle db b) w of
      (w1, db1, Some e) \<Rightarrow> (w1, db1, Some e) | (w1, db1, None) \<Rightarrow> start_bundles c dep tr db1 rest w1)"

fun check_resumed :: "Catalog \<Rightarrow> 'w MaintDeps \<Rightarrow> apps_db \<Rightarrow> AppStatus list \<Rightarrow> 'w \<Rightarrow> 'w \<times> apps_db \<times> goerror option" where
  "check_resumed c dep db [] w = (w, db, None)"
| "check_resumed c dep db (a # others) w = (case app_Status db (st_ID a) of
      Inl _ \<Rightarrow> check_resumed c dep db others w
    | Inr cur \<Rightarrow> if app_DesiredState (st_Application cur) \<noteq> DesiredRunning then check_resumed c dep db others w
        else (case CheckHealth c (md_Apps dep) db (st_ID a) w of
            (w1, db1, Inl e) \<Rightarrow> (w1, db1, Some (translateError e))
          | (w1, db1, Inr h) \<Rightarrow> if app_Health (st_Application h) = HealthUnhealthy
              then (w1, db1, Some (wrapf ApiConflict (''app '' @ quote (app_Name (st_Application a)) @ '' resumed but unhealthy'')))
              else check_resumed c dep db1 others w1))"

fun check_bundles :: "Catalog \<Rightarrow> 'w MaintDeps \<Rightarrow> apps_db \<Rightarrow> string list \<Rightarrow> 'w \<Rightarrow> 'w \<times> apps_db \<times> goerror option" where
  "check_bundles c dep db [] w = (w, db, None)"
| "check_bundles c dep db (b # rest) w = (case check_resumed c dep db (mustAppsByBundle db b) w of
      (w1, db1, Some e) \<Rightarrow> (w1, db1, Some e) | (w1, db1, None) \<Rightarrow> check_bundles c dep db1 rest w1)"

text \<open>The body of the resumption, under the lock.\<close>

definition resume_locked :: "Catalog \<Rightarrow> 'w MaintDeps \<Rightarrow> maint_state \<Rightarrow> string \<Rightarrow> 'w \<Rightarrow> 'w \<times> maint_state \<times> unit result" where
  "resume_locked c dep st target w = (case affectedBundles (catalog_Bundles c) target of
      Inl e \<Rightarrow> (w, st, Inl e)
    | Inr affected \<Rightarrow> (let ids = map bu_ID affected in
        case validateResumePaths dep affected w of
          Some e \<Rightarrow> (w, st, Inl e)
        | None \<Rightarrow> (case first_error (map (not_import (ms_db st)) ids) of
            Some e \<Rightarrow> (w, st, Inl e)
          | None \<Rightarrow> (case clear_pauses dep st ids w of
              (w1, st1, Some e) \<Rightarrow> (w1, st1, Inl e)
            | (w1, st1, None) \<Rightarrow> (case start_bundles c dep translateError (ms_db st1) ids w1 of
                (w2, db2, Some e) \<Rightarrow> (w2, st1\<lparr>ms_db := db2\<rparr>, Inl e)
              | (w2, db2, None) \<Rightarrow> (case check_bundles c dep db2 ids w2 of
                  (w3, db3, Some e) \<Rightarrow> (w3, st1\<lparr>ms_db := db3\<rparr>, Inl e)
                | (w3, db3, None) \<Rightarrow> (w3, st1\<lparr>ms_db := db3\<rparr>, Inr ())))))))"

definition ResumeAppFromImport :: "Catalog \<Rightarrow> 'w MaintDeps \<Rightarrow> maint_state \<Rightarrow> id \<Rightarrow> 'w \<Rightarrow> 'w \<times> maint_state \<times> unit result" where
  "ResumeAppFromImport c dep st i w = (case app_Status (ms_db st) i of
      Inl e \<Rightarrow> (w, st, Inl (translateError e))
    | Inr s \<Rightarrow> withMaintenanceLock dep st (resume_locked c dep st (st_BundleID s)) w)"

section \<open>Reconciling at startup\<close>

fun restore_markers :: "'w MaintDeps \<Rightarrow> maint_state \<Rightarrow> Maintenance list \<Rightarrow> 'w \<Rightarrow> 'w \<times> maint_state \<times> goerror option" where
  "restore_markers dep st [] w = (w, st, None)"
| "restore_markers dep st (m # ms) w = (if List.member (ms_markers st) (mn_BundleID m) then restore_markers dep st ms w
     else (case writeMarker dep st (mn_BundleID m) w of
         (w1, st1, Some e) \<Rightarrow> (w1, st1, Some e) | (w1, st1, None) \<Rightarrow> restore_markers dep st1 ms w1))"

fun adopt_markers :: "Catalog \<Rightarrow> 'w MaintDeps \<Rightarrow> Maintenance list \<Rightarrow> maint_state \<Rightarrow> string list \<Rightarrow> 'w \<Rightarrow> maint_state \<times> goerror option" where
  "adopt_markers c dep records st [] w = (st, None)"
| "adopt_markers c dep records st (i # others) w =
     (if list_ex (\<lambda>m. mn_BundleID m = i) records \<or> catalog_Get c i = None then adopt_markers c dep records st others w
      else (case PauseForMaintenance c (ms_db st) i MaintenanceImport ''reconcile'' (maint_now dep w) of
          (db1, Inl e) \<Rightarrow> (st\<lparr>ms_db := db1\<rparr>, Some e)
        | (db1, Inr _) \<Rightarrow> adopt_markers c dep records (st\<lparr>ms_db := db1\<rparr>) others w))"

definition ReconcileMaintenance :: "Catalog \<Rightarrow> 'w MaintDeps \<Rightarrow> maint_state \<Rightarrow> 'w \<Rightarrow> 'w \<times> maint_state \<times> goerror option" where
  "ReconcileMaintenance c dep st w = (let records = ListMaintenance (ms_db st) in
     case restore_markers dep st records w of
       (w1, st1, Some e) \<Rightarrow> (w1, st1, Some e)
     | (w1, st1, None) \<Rightarrow> (case md_ReadDir dep w1 of
         Some e \<Rightarrow> (w1, st1, Some e)
       | None \<Rightarrow> (case adopt_markers c dep records st1 (sort (ms_markers st1)) w1 of (st2, e) \<Rightarrow> (w1, st2, e))))"

section \<open>Storage migrations\<close>

text \<open>The bundles that own the volumes of a migration.\<close>

definition volume_owners :: "string \<Rightarrow> string list" where
  "volume_owners v = (if List.member v CHR '':'' then [before '':'' v]
     else if v = ''postgresql'' then [''forgejo'', ''woodpecker'', ''immich'', ''paperless-ngx'', ''litellm''] else [])"

definition owningBundles :: "string list \<Rightarrow> string list" where
  "owningBundles volumes = rev (fold List.insert (concat (map (volume_owners \<circ> trim_space) volumes)) [])"

text \<open>Entering maintenance for a list of bundles: one that is not installed is recorded, so that an
  installation cannot start over; of one that is, the first application is paused with its dependents.
  Migrations and live restores run the same loop.\<close>

definition enter_bundle ::
  "Catalog \<Rightarrow> 'w MaintDeps \<Rightarrow> maint_state \<Rightarrow> string \<Rightarrow> string \<Rightarrow> string \<Rightarrow> 'w \<Rightarrow> 'w \<times> maint_state \<times> goerror option" where
  "enter_bundle c dep st reason op b w = (case appsByBundle (ms_db st) b of
      Inl _ \<Rightarrow> (w, st, None)
    | Inr [] \<Rightarrow> (case pause_bundle c dep id st reason op b w of (w1, st1, Inl e) \<Rightarrow> (w1, st1, Some e) | (w1, st1, Inr _) \<Rightarrow> (w1, st1, None))
    | Inr (a # _) \<Rightarrow> (case pauseAppLocked c dep st (st_ID a) reason w of
        (w1, st1, Inl e) \<Rightarrow> (w1, st1, Some e) | (w1, st1, Inr _) \<Rightarrow> (w1, st1, None)))"

fun enter_bundles ::
  "Catalog \<Rightarrow> 'w MaintDeps \<Rightarrow> maint_state \<Rightarrow> string \<Rightarrow> string \<Rightarrow> string list \<Rightarrow> 'w \<Rightarrow> 'w \<times> maint_state \<times> goerror option" where
  "enter_bundles c dep st reason op [] w = (w, st, None)"
| "enter_bundles c dep st reason op (b # rest) w = (case enter_bundle c dep st reason op b w of
      (w1, st1, Some e) \<Rightarrow> (w1, st1, Some e) | (w1, st1, None) \<Rightarrow> enter_bundles c dep st1 reason op rest w1)"

definition enter_storage :: "Catalog \<Rightarrow> 'w MaintDeps \<Rightarrow> maint_state \<Rightarrow> string \<Rightarrow> string list \<Rightarrow> 'w \<Rightarrow> 'w \<times> maint_state \<times> goerror option" where
  "enter_storage c dep st op owners w = (case enter_bundles c dep st MaintenanceStorage op owners w of
      (w1, st1, e) \<Rightarrow> (w1, st1, map_option (\<lambda>e. errorf (err_msg e)) e))"

definition clearStorageMaintenance :: "apps_db \<Rightarrow> string \<Rightarrow> apps_db \<times> goerror option" where
  "clearStorageMaintenance db b = (case GetMaintenance db b of
      Inl _ \<Rightarrow> (db, None)
    | Inr m \<Rightarrow> if mn_Reason m \<noteq> MaintenanceStorage then (db, Some (owned_error b m)) else (deleteMaintenance db b, None))"

fun clear_storage :: "'w MaintDeps \<Rightarrow> maint_state \<Rightarrow> string list \<Rightarrow> 'w \<Rightarrow> 'w \<times> maint_state \<times> goerror option" where
  "clear_storage dep st [] w = (w, st, None)"
| "clear_storage dep st (b # rest) w = (case clearStorageMaintenance (ms_db st) b of
      (db1, Some e) \<Rightarrow> (w, st, Some e)
    | (db1, None) \<Rightarrow> (case removeMarker dep (st\<lparr>ms_db := db1\<rparr>) b w of (w1, st1) \<Rightarrow> clear_storage dep st1 rest w1))"

definition resumeStorageApps :: "Catalog \<Rightarrow> 'w MaintDeps \<Rightarrow> maint_state \<Rightarrow> string list \<Rightarrow> 'w \<Rightarrow> 'w \<times> maint_state \<times> goerror option" where
  "resumeStorageApps c dep st owners w = (case clear_storage dep st owners w of
      (w1, st1, Some e) \<Rightarrow> (w1, st1, Some e)
    | (w1, st1, None) \<Rightarrow> (case start_bundles c dep id (ms_db st1) owners w1 of (w2, db2, e) \<Rightarrow> (w2, st1\<lparr>ms_db := db2\<rparr>, e)))"

section \<open>Live restores\<close>

text \<open>What happens between the pause and the restart: the bundle definitions, the staged files, the
  databases, the secrets; and what a rollback puts back.  None of it touches the tables of applications.\<close>

record 'w RestoreDeps =
  rd_Bundles :: "'w \<Rightarrow> 'w \<times> goerror option"
  rd_Cancelled :: "'w \<Rightarrow> bool"
  rd_Promote :: "'w \<Rightarrow> 'w \<times> goerror option"
  rd_Databases :: "'w \<Rightarrow> 'w \<times> goerror option"
  rd_Secrets :: "'w \<Rightarrow> 'w \<times> goerror option"
  rd_Rollback :: "'w \<Rightarrow> 'w \<times> goerror option"

record livePlan =
  lp_Bundles :: "string list"
  lp_StopOrder :: "string list"
  lp_Started :: "string list"

text \<open>The selected bundles and their direct dependents, in catalog order; they stop in reverse order.\<close>

definition live_bundles :: "Bundle list \<Rightarrow> string list \<Rightarrow> string list" where
  "live_bundles rest want = map bu_ID (filter (\<lambda>b. List.member want (bu_ID b)) rest) @
     map bu_ID (filter (\<lambda>b. \<not> List.member want (bu_ID b) \<and> list_ex (List.member want) (bu_Dependencies b)) rest)"

definition live_plan :: "Bundle list \<Rightarrow> string list \<Rightarrow> livePlan" where
  "live_plan rest want = (let bundles = live_bundles rest want;
       stop0 = (case topoSortBundles rest of Inl _ \<Rightarrow> [] | Inr order \<Rightarrow> filter (List.member bundles) (rev (map bu_ID order)));
       stop = (if stop0 = [] then bundles else stop0) in
     \<lparr>lp_Bundles = bundles, lp_StopOrder = stop, lp_Started = rev stop\<rparr>)"

fun resumeRestoreApps :: "Catalog \<Rightarrow> 'w MaintDeps \<Rightarrow> apps_db \<Rightarrow> string list \<Rightarrow> 'w \<Rightarrow> 'w \<times> apps_db \<times> goerror option" where
  "resumeRestoreApps c dep db [] w = (w, db, None)"
| "resumeRestoreApps c dep db (b # rest) w = (case appsByBundle db b of
      Inl e \<Rightarrow> (w, db, Some e)
    | Inr rows \<Rightarrow> (case start_apps c dep translateError db rows w of
        (w1, db1, Some e) \<Rightarrow> (w1, db1, Some e) | (w1, db1, None) \<Rightarrow> resumeRestoreApps c dep db1 rest w1))"

fun check_restored :: "Catalog \<Rightarrow> 'w MaintDeps \<Rightarrow> apps_db \<Rightarrow> AppStatus list \<Rightarrow> 'w \<Rightarrow> 'w \<times> apps_db \<times> goerror option" where
  "check_restored c dep db [] w = (w, db, None)"
| "check_restored c dep db (a # others) w = (case CheckHealth c (md_Apps dep) db (st_ID a) w of
      (w1, db1, Inl e) \<Rightarrow> (w1, db1, Some (translateError e))
    | (w1, db1, Inr h) \<Rightarrow> if app_Health (st_Application h) = HealthUnhealthy
        then (w1, db1, Some (wrapf ApiConflict (''app '' @ quote (app_Name (st_Application a)) @ '' unhealthy after restore'')))
        else check_restored c dep db1 others w1)"

fun checkRestoredHealth :: "Catalog \<Rightarrow> 'w MaintDeps \<Rightarrow> apps_db \<Rightarrow> string list \<Rightarrow> 'w \<Rightarrow> 'w \<times> apps_db \<times> goerror option" where
  "checkRestoredHealth c dep db [] w = (w, db, None)"
| "checkRestoredHealth c dep db (b # rest) w = (case appsByBundle db b of
      Inl e \<Rightarrow> (w, db, Some e)
    | Inr rows \<Rightarrow> (case check_restored c dep db rows w of
        (w1, db1, Some e) \<Rightarrow> (w1, db1, Some e) | (w1, db1, None) \<Rightarrow> checkRestoredHealth c dep db1 rest w1))"

text \<open>The pauses a restore owns are dropped and the markers removed.\<close>

fun clear_restored :: "'w MaintDeps \<Rightarrow> maint_state \<Rightarrow> string list \<Rightarrow> 'w \<Rightarrow> 'w \<times> maint_state" where
  "clear_restored dep st [] w = (w, st)"
| "clear_restored dep st (b # rest) w =
     (let db1 = (ms_db st)\<lparr>adb_maintenance := filter (\<lambda>m. \<not> (mn_BundleID m = b \<and> mn_Reason m = MaintenanceRestore)) (adb_maintenance (ms_db st))\<rparr> in
      case removeMarker dep (st\<lparr>ms_db := db1\<rparr>) b w of (w1, st1) \<Rightarrow> clear_restored dep st1 rest w1)"

text \<open>The error of a rollback says that the applications stay paused.\<close>

definition rollback_error :: "string \<Rightarrow> string \<Rightarrow> goerror \<Rightarrow> goerror" where
  "rollback_error what op e = GoErr (err_chain e)
     (what @ err_msg e @ ''; maintenance stays paused, inspect journal '' @ op @ '' or use SSH'')"

definition rollbackLiveRestore :: "Catalog \<Rightarrow> 'w MaintDeps \<Rightarrow> 'w RestoreDeps \<Rightarrow> maint_state \<Rightarrow> livePlan \<Rightarrow> string \<Rightarrow> 'w \<Rightarrow> 'w \<times> maint_state \<times> goerror option" where
  "rollbackLiveRestore c dep rd st plan op w = (case rd_Rollback rd w of
      (w1, Some e) \<Rightarrow> (w1, st, Some e)
    | (w1, None) \<Rightarrow> (case resumeRestoreApps c dep (ms_db st) (lp_Started plan) w1 of
        (w2, db2, Some e) \<Rightarrow> (w2, st\<lparr>ms_db := db2\<rparr>, Some (rollback_error ''rollback resume failed: '' op e))
      | (w2, db2, None) \<Rightarrow> (case checkRestoredHealth c dep db2 (lp_Bundles plan) w2 of
          (w3, db3, Some e) \<Rightarrow> (w3, st\<lparr>ms_db := db3\<rparr>, Some (rollback_error ''rollback validation failed: '' op e))
        | (w3, db3, None) \<Rightarrow> (case clear_restored dep (st\<lparr>ms_db := db3\<rparr>) (lp_StopOrder plan) w3 of (w4, st4) \<Rightarrow> (w4, st4, None)))))"

text \<open>A stage that failed: what was changed is rolled back and the operation ends others failed.\<close>

definition fail_live_restore :: "Catalog \<Rightarrow> 'w MaintDeps \<Rightarrow> 'w RestoreDeps \<Rightarrow> maint_state \<Rightarrow> livePlan \<Rightarrow> string \<Rightarrow> string \<Rightarrow> 'w \<Rightarrow> 'w \<times> maint_state \<times> goerror option" where
  "fail_live_restore c dep rd st plan op msg w = (case rollbackLiveRestore c dep rd st plan op w of (w1, st1, _) \<Rightarrow> (w1, st1, Some (errorf msg)))"

definition restart_apps :: "Catalog \<Rightarrow> 'w MaintDeps \<Rightarrow> 'w RestoreDeps \<Rightarrow> maint_state \<Rightarrow> livePlan \<Rightarrow> string \<Rightarrow> 'w \<Rightarrow> 'w \<times> maint_state \<times> goerror option" where
  "restart_apps c dep rd st plan op w = (case resumeRestoreApps c dep (ms_db st) (lp_Started plan) w of
      (w1, db1, Some e) \<Rightarrow> fail_live_restore c dep rd (st\<lparr>ms_db := db1\<rparr>) plan op (''resume: '' @ err_msg e) w1
    | (w1, db1, None) \<Rightarrow> (case checkRestoredHealth c dep db1 (lp_Bundles plan) w1 of
        (w2, db2, Some e) \<Rightarrow> fail_live_restore c dep rd (st\<lparr>ms_db := db2\<rparr>) plan op (''health: '' @ err_msg e) w2
      | (w2, db2, None) \<Rightarrow> (case clear_restored dep (st\<lparr>ms_db := db2\<rparr>) (lp_StopOrder plan) w2 of (w3, st3) \<Rightarrow> (w3, st3, None))))"

text \<open>The stages between the pause and the restart, with the text before the error.\<close>

fun restore_stages :: "(string \<times> ('w \<Rightarrow> 'w \<times> goerror option)) list \<Rightarrow> 'w \<Rightarrow> 'w \<times> string option" where
  "restore_stages [] w = (w, None)"
| "restore_stages ((label, f) # fs) w = (case f w of (w1, Some e) \<Rightarrow> (w1, Some (label @ err_msg e)) | (w1, None) \<Rightarrow> restore_stages fs w1)"

definition runLiveRestoreStages ::
  "Catalog \<Rightarrow> 'w MaintDeps \<Rightarrow> 'w RestoreDeps \<Rightarrow> maint_state \<Rightarrow> livePlan \<Rightarrow> string \<Rightarrow> 'w \<Rightarrow> 'w \<times> maint_state \<times> goerror option" where
  "runLiveRestoreStages c dep rd st plan op w = (case enter_bundles c dep st MaintenanceRestore op (lp_StopOrder plan) w of
      (w1, st1, Some e) \<Rightarrow> fail_live_restore c dep rd st1 plan op (err_msg e) w1
    | (w1, st1, None) \<Rightarrow> (case rd_Bundles rd w1 of
        (w2, Some e) \<Rightarrow> if rd_Cancelled rd w2 then (w2, st1, Some (errorf ''context canceled''))
          else fail_live_restore c dep rd st1 plan op (''custom bundles: '' @ err_msg e) w2
      | (w2, None) \<Rightarrow> (case restore_stages [(''promote: '', rd_Promote rd), (''databases: '', rd_Databases rd), ([], rd_Secrets rd)] w2 of
          (w3, Some msg) \<Rightarrow> fail_live_restore c dep rd st1 plan op msg w3
        | (w3, None) \<Rightarrow> restart_apps c dep rd st1 plan op w3)))"

end
