(* ===== verification/AppPauses.thy ===== *)
theory AppPauses
  imports AppMaintenance
begin

text \<open>
  internal/controlplane (maintenance.go, storage.go, restore_live.go): what pausing, resuming, storage
  migrations and live restores do to the pauses and to the life of the applications.
\<close>

section \<open>What the operations of applications keep\<close>

definition app_layout :: "apps_db \<Rightarrow> (id \<times> string \<times> string) list \<times> Maintenance list" where
  "app_layout db = (map (\<lambda>r. (ar_ID r, ar_Name r, ar_BundleID r)) (adb_apps db), adb_maintenance db)"

definition apps_of :: "apps_db \<Rightarrow> string \<Rightarrow> id set" where
  "apps_of db b = ar_ID ` {r \<in> set (adb_apps db). ar_BundleID r = b}"

lemma layout_facts:
  assumes "app_layout db' = app_layout db"
  shows "GetMaintenance db' = GetMaintenance db" "apps_of db' = apps_of db" "adb_maintenance db' = adb_maintenance db"
proof -
  show m: "adb_maintenance db' = adb_maintenance db" using assms by (simp add: app_layout_def)
  then show "GetMaintenance db' = GetMaintenance db" by (simp add: GetMaintenance_def fun_eq_iff)
  have e: "apps_of d b = fst ` {p \<in> set (fst (app_layout d)). snd (snd p) = b}" for d b
    by (force simp: apps_of_def app_layout_def)
  show "apps_of db' = apps_of db" unfolding e assms by (rule refl)
qed

lemma update_app_layout:
  assumes "update_app f db i = Inr db'" "\<And>r. ar_ID (f r) = ar_ID r" "\<And>r. ar_Name (f r) = ar_Name r" "\<And>r. ar_BundleID (f r) = ar_BundleID r"
  shows "app_layout db' = app_layout db"
  using assms by (auto simp: update_app_Inr app_layout_def intro!: map_update_where_key)

lemma statement_layout:
  "setDesired db i d ts = Inr db' \<Longrightarrow> app_layout db' = app_layout db"
  "setObserved db i st h e ts = Inr db' \<Longrightarrow> app_layout db' = app_layout db"
  "app_setHealth db i h ts = Inr db' \<Longrightarrow> app_layout db' = app_layout db"
  unfolding setDesired_def setObserved_def app_setHealth_def by (erule update_app_layout; simp)+

lemma runner_layout:
  "runner_failed dep db r st env e typ text w = (w', db', x) \<Longrightarrow> app_layout db' = app_layout db"
  "runner_done dep db r st typ text w = (w', db', x) \<Longrightarrow> app_layout db' = app_layout db"
  by (auto simp: runner_failed_def runner_done_def Let_def split: sum.splits dest!: statement_layout(2))

lemma stop_with_layout: "stop_with c dep db r failed stopped w = (w', db', x) \<Longrightarrow> app_layout db' = app_layout db"
  by (auto simp: stop_with_def split: sum.splits prod.splits option.splits dest!: runner_layout)

lemma operation_layout:
  "app_Start c dep db i w = (w', db', x) \<Longrightarrow> app_layout db' = app_layout db"
  "app_Quiesce c dep db i w = (w', db', x) \<Longrightarrow> app_layout db' = app_layout db"
  "CheckHealth c dep db i w = (w', db', x) \<Longrightarrow> app_layout db' = app_layout db"
proof -
  show "app_Start c dep db i w = (w', db', x) \<Longrightarrow> app_layout db' = app_layout db"
    by (auto simp: app_Start_def split: sum.splits prod.splits option.splits if_splits dest!: runner_layout statement_layout)
  show "app_Quiesce c dep db i w = (w', db', x) \<Longrightarrow> app_layout db' = app_layout db"
    by (auto simp: app_Quiesce_def split: sum.splits if_splits dest!: stop_with_layout)
  show "CheckHealth c dep db i w = (w', db', x) \<Longrightarrow> app_layout db' = app_layout db"
    by (auto simp: CheckHealth_def split: sum.splits prod.splits option.splits if_splits dest!: statement_layout(3))
qed

lemma operation_ok:
  assumes "apps_ok db"
  shows "app_Start c dep db i w = (w', db', x) \<Longrightarrow> apps_ok db'"
    "app_Quiesce c dep db i w = (w', db', x) \<Longrightarrow> apps_ok db'"
    "CheckHealth c dep db i w = (w', db', x) \<Longrightarrow> apps_ok db'"
  by (rule app.steps_ok [OF app_operations_reach(2) [OF assms] assms] app.steps_ok [OF app_operations_reach(4) [OF assms] assms]
      app.steps_ok [OF app_operations_reach(7) [OF assms] assms]; assumption)+

lemma view_all_ok:
  "list_all (\<lambda>r. ar_PreviousReleaseID r = []) rs \<Longrightarrow> \<exists>vs. view_all db rs = Inr vs \<and>
     map (\<lambda>s. (st_ID s, st_BundleID s)) vs = map (\<lambda>r. (ar_ID r, ar_BundleID r)) rs"
  by (induction rs) (auto simp: app_view_def Let_def application_def)

lemma appsByBundle_ok:
  assumes "apps_ok db" shows "appsByBundle db b = Inr (mustAppsByBundle db b)" "st_ID ` set (mustAppsByBundle db b) = apps_of db b"
proof -
  have p: "list_all (\<lambda>r. ar_PreviousReleaseID r = []) (listApps db)"
    using assms by (simp add: apps_ok_def list_all_iff listApps_def)
  obtain vs where v: "app_List db = Inr vs" "map (\<lambda>s. (st_ID s, st_BundleID s)) vs = map (\<lambda>r. (ar_ID r, ar_BundleID r)) (listApps db)"
    using view_all_ok [OF p, of db] by (auto simp: app_List_def)
  have s: "(\<lambda>s. (st_ID s, st_BundleID s)) ` set vs = (\<lambda>r. (ar_ID r, ar_BundleID r)) ` set (adb_apps db)"
    using arg_cong [OF v(2), of set] by (simp add: listApps_def)
  show "appsByBundle db b = Inr (mustAppsByBundle db b)" by (simp add: appsByBundle_def mustAppsByBundle_def v(1))
  have "st_ID ` {x \<in> set vs. st_BundleID x = b} = fst ` {p \<in> (\<lambda>s. (st_ID s, st_BundleID s)) ` set vs. snd p = b}" by force
  also have "\<dots> = apps_of db b" unfolding s apps_of_def by force
  finally show "st_ID ` set (mustAppsByBundle db b) = apps_of db b" by (simp add: mustAppsByBundle_def appsByBundle_def v(1))
qed

section \<open>Stopping and starting\<close>

definition stop_life :: "(string \<times> string) \<Rightarrow> string \<times> string" where "stop_life p = (fst p, ObservedStopped)"

definition start_life :: "(string \<times> string) \<Rightarrow> string \<times> string" where
  "start_life p = (if fst p = DesiredRunning then (DesiredRunning, ObservedRunning) else p)"

lemma life_idem [simp]: "stop_life (stop_life p) = stop_life p" "start_life (start_life p) = start_life p"
  by (simp_all add: stop_life_def start_life_def)

text \<open>What happens to some of the applications while the others, and the pauses, stay.\<close>

definition moves :: "(string \<times> string \<Rightarrow> string \<times> string) \<Rightarrow> id set \<Rightarrow> apps_db \<Rightarrow> apps_db \<Rightarrow> bool" where
  "moves f I db db' \<longleftrightarrow> apps_ok db' \<and> app_layout db' = app_layout db \<and>
     lifecycle db' = (\<lambda>i. if i \<in> I then map_option f (lifecycle db i) else lifecycle db i)"

lemma moves_empty [simp]: "moves f {} db db \<longleftrightarrow> apps_ok db" by (simp add: moves_def)

lemma moves_trans:
  assumes "moves f I db db1" "moves f J db1 db2" "\<And>p. f (f p) = f p" shows "moves f (I \<union> J) db db2"
  using assms by (auto simp: moves_def fun_eq_iff option.map_comp comp_def)

lemma Quiesce_moves:
  assumes "apps_ok db" "app_Quiesce c dep db i w = (w', db', Inr x)" shows "moves stop_life {i} db db'"
  using Quiesce_life [OF assms] operation_layout(2) [OF assms(2)] operation_ok(2) [OF assms]
  by (auto simp: moves_def stop_life_def fun_eq_iff)

lemma quiesce_apps_moves:
  "quiesce_apps c dep db l w = (w', db', None) \<Longrightarrow> apps_ok db \<Longrightarrow> moves stop_life (st_ID ` set l) db db'"
proof (induction l arbitrary: db w)
  case (Cons a l)
  obtain w1 db1 x where q: "app_Quiesce c (md_Apps dep) db (st_ID a) w = (w1, db1, Inr x)" "quiesce_apps c dep db1 l w1 = (w', db', None)"
    using Cons.prems(1) by (auto split: prod.splits sum.splits)
  note m = Quiesce_moves [OF Cons.prems(2) q(1)]
  show ?case using moves_trans [OF m Cons.IH [OF q(2)]] m by (simp add: moves_def)
qed simp

lemma stop_writers_moves:
  "stop_writers c dep db l w = (w', db', None) \<Longrightarrow> apps_ok db \<Longrightarrow> moves stop_life (\<Union> (apps_of db ` set l)) db db'"
proof (induction l arbitrary: db w)
  case (Cons b l)
  obtain w1 db1 where q: "quiesce_apps c dep db (mustAppsByBundle db b) w = (w1, db1, None)" "stop_writers c dep db1 l w1 = (w', db', None)"
    using Cons.prems(1) by (auto split: prod.splits option.splits)
  note m = quiesce_apps_moves [OF q(1) Cons.prems(2), unfolded appsByBundle_ok(2) [OF Cons.prems(2)]]
  have l: "app_layout db1 = app_layout db" "apps_ok db1" using m by (simp_all add: moves_def)
  show ?case using moves_trans [OF m Cons.IH [OF q(2) l(2)]] by (simp add: layout_facts(2) [OF l(1)])
qed simp

lemma Status_lifecycle:
  assumes "apps_ok db"
  shows "(case app_Status db i of Inl _ \<Rightarrow> lifecycle db i = None
    | Inr s \<Rightarrow> lifecycle db i = Some (app_DesiredState (st_Application s), app_ObservedState (st_Application s)))"
proof (cases "getApp db i")
  case (Inr r)
  then show ?thesis using app_Status_ok [OF assms Inr] by (auto simp: lifecycle_def application_def)
qed (simp add: app_Status_def lifecycle_def)

lemma start_apps_moves:
  "start_apps c dep tr db l w = (w', db', None) \<Longrightarrow> apps_ok db \<Longrightarrow> moves start_life (st_ID ` set l) db db'"
proof (induction l arbitrary: db w)
  case (Cons a l)
  note st = Status_lifecycle [OF Cons.prems(2), of "st_ID a"]
  show ?case
  proof (cases "fst ` set_option (lifecycle db (st_ID a)) = {DesiredRunning}")
    case True
    then obtain b where l: "lifecycle db (st_ID a) = Some (DesiredRunning, b)" by (cases "lifecycle db (st_ID a)") auto
    then obtain w1 db1 x where q: "app_Start c (md_Apps dep) db (st_ID a) w = (w1, db1, Inr x)" "start_apps c dep tr db1 l w1 = (w', db', None)"
      using Cons.prems(1) st by (auto split: prod.splits sum.splits if_splits)
    have m: "moves start_life {st_ID a} db db1"
      using Start_life [OF Cons.prems(2) q(1)] operation_layout(1) [OF q(1)] operation_ok(1) [OF Cons.prems(2) q(1)] l
      by (auto simp: moves_def start_life_def fun_eq_iff)
    show ?thesis using moves_trans [OF m Cons.IH [OF q(2)]] m by (simp add: moves_def)
  next
    case False
    then have "start_apps c dep tr db l w = (w', db', None)" "map_option start_life (lifecycle db (st_ID a)) = lifecycle db (st_ID a)"
      using Cons.prems(1) st by (auto simp: start_life_def split: prod.splits sum.splits if_splits)
    then show ?thesis using Cons.IH [of db w] Cons.prems(2) by (auto simp: moves_def fun_eq_iff)
  qed
qed simp

lemma start_bundles_moves:
  "start_bundles c dep tr db l w = (w', db', None) \<Longrightarrow> apps_ok db \<Longrightarrow> moves start_life (\<Union> (apps_of db ` set l)) db db'"
proof (induction l arbitrary: db w)
  case (Cons b l)
  obtain w1 db1 where q: "start_apps c dep tr db (mustAppsByBundle db b) w = (w1, db1, None)" "start_bundles c dep tr db1 l w1 = (w', db', None)"
    using Cons.prems(1) by (auto split: prod.splits option.splits)
  note m = start_apps_moves [OF q(1) Cons.prems(2), unfolded appsByBundle_ok(2) [OF Cons.prems(2)]]
  have l: "app_layout db1 = app_layout db" "apps_ok db1" using m by (simp_all add: moves_def)
  show ?case using moves_trans [OF m Cons.IH [OF q(2) l(2)]] by (simp add: layout_facts(2) [OF l(1)])
qed simp

section \<open>Pauses\<close>

definition paused_for :: "string \<Rightarrow> apps_db \<Rightarrow> string \<Rightarrow> bool" where
  "paused_for reason db b \<longleftrightarrow> (\<exists>m. GetMaintenance db b = Inr m \<and> mn_Reason m = reason)"

lemma GetMaintenance_cong: "adb_maintenance db' = adb_maintenance db \<Longrightarrow> GetMaintenance db' = GetMaintenance db"
  by (simp add: GetMaintenance_def fun_eq_iff)

lemma apps_cong:
  assumes "adb_apps db' = adb_apps db"
  shows "lifecycle db' = lifecycle db" "apps_of db' = apps_of db"
  using assms by (auto simp: lifecycle_find apps_of_def)

text \<open>A pause replaces whatever pause the bundle had.\<close>

lemma PauseForMaintenance_Inr:
  assumes "PauseForMaintenance c db b reason op now = (db', Inr m)"
  shows "adb_apps db' = adb_apps db" "GetMaintenance db' b = Inr m" "mn_Reason m = reason" "mn_BundleID m = b" "mn_OperationID m = op"
    "x \<noteq> b \<Longrightarrow> GetMaintenance db' x = GetMaintenance db x" "apps_ok db \<Longrightarrow> apps_ok db'" "validReason reason"
proof -
  let ?m = "\<lparr>mn_BundleID = b, mn_Reason = reason, mn_OperationID = op, mn_CreatedAt = FormatTime now\<rparr>"
  have s: "setMaintenance db ?m now = Inr db'" "m = ?m"
    using assms by (auto simp: PauseForMaintenance_def Let_def split: option.splits if_splits sum.splits)
  show "validReason reason" using s(1) by (auto simp: setMaintenance_def split: if_splits)
  show "adb_apps db' = adb_apps db" "mn_Reason m = reason" "mn_BundleID m = b" "mn_OperationID m = op"
    using s by (auto simp: setMaintenance_def Let_def split: if_splits)
  have d: "adb_maintenance db' = (if b \<in> mn_BundleID ` set (adb_maintenance db)
      then update_where (\<lambda>x. mn_BundleID x = b) (\<lambda>x. m) (adb_maintenance db) else adb_maintenance db @ [m])"
    using s by (auto simp: setMaintenance_def Let_def list_ex_key split: if_splits)
  show "GetMaintenance db' b = Inr m"
    using d s(2) by (auto simp: GetMaintenance_def find_append find_update_where_key find_None_iff split: option.splits dest!: find_Some_in)
  show "GetMaintenance db' x = GetMaintenance db x" if "x \<noteq> b"
    using d s(2) that by (auto simp: GetMaintenance_def find_append find_update_where_key split: option.splits)
  show "apps_ok db'" if "apps_ok db" using app_step_ok [OF as_maintain [OF s(1)] that] .
qed

lemma pause_bundle_Inr:
  assumes "pause_bundle c dep tr st reason op b w = (w', st', Inr m)"
  shows "PauseForMaintenance c (ms_db st) b reason op (maint_now dep w) = (ms_db st', Inr m)" "set (ms_markers st') = insert b (set (ms_markers st))"
  using assms by (auto simp: pause_bundle_def writeMarker_def split: prod.splits sum.splits option.splits if_splits)

text \<open>Pauses and markers for a list of bundles, whatever pauses they had; the rest stays.\<close>

definition pauses :: "string \<Rightarrow> string set \<Rightarrow> maint_state \<Rightarrow> maint_state \<Rightarrow> bool" where
  "pauses reason B st st' \<longleftrightarrow> (\<forall>b \<in> B. paused_for reason (ms_db st') b \<and> b \<in> set (ms_markers st')) \<and>
     (\<forall>b. b \<notin> B \<longrightarrow> GetMaintenance (ms_db st') b = GetMaintenance (ms_db st) b) \<and> set (ms_markers st) \<subseteq> set (ms_markers st')"

lemma pauses_empty [simp]: "pauses reason {} st st" by (simp add: pauses_def)

lemma pauses_trans:
  assumes "pauses reason A st st1" "pauses reason B st1 st2" shows "pauses reason (A \<union> B) st st2"
proof -
  have "paused_for reason (ms_db st2) b \<and> b \<in> set (ms_markers st2)" if "b \<in> A \<union> B" for b
    using assms that by (cases "b \<in> B") (auto simp: pauses_def paused_for_def)
  then show ?thesis using assms by (auto simp: pauses_def)
qed

lemma pauses_cong:
  "app_layout db = app_layout (ms_db st) \<Longrightarrow> pauses reason B (st\<lparr>ms_db := db\<rparr>) st' = pauses reason B st st'"
  using layout_facts(1) [of db "ms_db st"] by (simp add: pauses_def)

lemma record_pauses_Inr:
  "record_pauses c dep st reason op target found l w = (w', st', Inr x) \<Longrightarrow> apps_ok (ms_db st) \<Longrightarrow>
   pauses reason (set l) st st' \<and> adb_apps (ms_db st') = adb_apps (ms_db st) \<and> apps_ok (ms_db st')"
proof (induction l arbitrary: st found w)
  case (Cons b l)
  obtain w1 st1 m where p: "pause_bundle c dep translateError st reason op b w = (w1, st1, Inr m)"
    "record_pauses c dep st1 reason op target (if b = target then Some m else found) l w1 = (w', st', Inr x)"
    using Cons.prems(1) by (auto split: prod.splits sum.splits)
  note f = PauseForMaintenance_Inr [OF pause_bundle_Inr(1) [OF p(1)]]
  have "pauses reason {b} st st1" using f(2,3,6) pause_bundle_Inr(2) [OF p(1)] by (auto simp: pauses_def paused_for_def)
  then show ?case using pauses_trans [of reason "{b}" st st1 "set l" st'] Cons.IH [OF p(2) f(7) [OF Cons.prems(2)]] f(1) by simp
qed auto

definition dependents :: "Catalog \<Rightarrow> string \<Rightarrow> string set" where
  "dependents c target = {b \<in> bu_ID ` set (catalog_Bundles c). (target, b) \<in> (uses (catalog_Bundles c))\<^sup>*}"

text \<open>A pause that succeeds: the target and everything that depends on it is recorded, marked and
  stopped; the desired states, the other applications and the other pauses are as before.\<close>

definition paused_whole :: "string \<Rightarrow> string set \<Rightarrow> maint_state \<Rightarrow> maint_state \<Rightarrow> bool" where
  "paused_whole reason B st st' \<longleftrightarrow> pauses reason B st st' \<and> apps_ok (ms_db st') \<and> apps_of (ms_db st') = apps_of (ms_db st) \<and>
     lifecycle (ms_db st') = (\<lambda>i. if i \<in> \<Union> (apps_of (ms_db st) ` B) then map_option stop_life (lifecycle (ms_db st) i) else lifecycle (ms_db st) i)"

lemma pauseAppLocked_pauses:
  assumes ok: "apps_ok (ms_db st)" and op: "pauseAppLocked c dep st i reason w = (w', st', Inr m)"
    and cat: "distinct (map bu_ID (catalog_Bundles c))"
  shows "\<exists>s. app_Status (ms_db st) i = Inr s \<and> paused_whole reason (dependents c (st_BundleID s)) st st'"
proof -
  obtain s affected w1 db1 w2 oid x where s: "app_Status (ms_db st) i = Inr s"
    and a: "affectedBundles (catalog_Bundles c) (st_BundleID s) = Inr affected"
    and q: "stop_writers c dep (ms_db st) (rev (map bu_ID affected)) w = (w1, db1, None)"
    and r: "record_pauses c dep (st\<lparr>ms_db := db1\<rparr>) reason oid (st_BundleID s) None (map bu_ID affected) w2 = (w', st', Inr x)"
    using op by (auto simp: pauseAppLocked_def split: sum.splits prod.splits option.splits)
  have d: "bu_ID ` set affected = dependents c (st_BundleID s)"
    using affectedBundles_correct(2) [OF cat a] by (auto simp: dependents_def)
  have mv: "moves stop_life (\<Union> (apps_of (ms_db st) ` dependents c (st_BundleID s))) (ms_db st) db1"
    using stop_writers_moves [OF q ok] d by simp
  then have l: "apps_ok db1" "app_layout db1 = app_layout (ms_db st)" by (simp_all add: moves_def)
  then have "apps_ok (ms_db (st\<lparr>ms_db := db1\<rparr>))" by simp
  note p = record_pauses_Inr [OF r this, unfolded pauses_cong [OF l(2)]]
  have "apps_of (ms_db st') = apps_of (ms_db st)" "lifecycle (ms_db st') = lifecycle db1"
    using apps_cong [of "ms_db st'" db1] p layout_facts(2) [OF l(2)] by simp_all
  then show ?thesis using s p mv d l by (auto simp: paused_whole_def moves_def)
qed

end
