(* ===== verification/AppResumes.thy ===== *)
theory AppResumes
  imports AppPauses
begin

text \<open>
  internal/controlplane (maintenance.go, storage.go, restore_live.go): what resuming an import, the end of a
  storage migration, a live restore and the reconciliation at startup leave.
\<close>

section \<open>Resuming after an import\<close>

lemma check_resumed_life:
  "check_resumed c dep db l w = (w', db', x) \<Longrightarrow> apps_ok db \<Longrightarrow> apps_ok db' \<and> app_layout db' = app_layout db \<and> lifecycle db' = lifecycle db"
proof (induction l arbitrary: db w)
  case (Cons a l)
  obtain w1 db1 y where h: "CheckHealth c (md_Apps dep) db (st_ID a) w = (w1, db1, y)" by (metis prod_cases3)
  note f = operation_ok(3) [OF Cons.prems(2) h] operation_layout(3) [OF h] CheckHealth_life [OF h]
  show ?case using Cons.prems Cons.IH [of db w] Cons.IH [of db1 w1] h f
    by (auto split: sum.splits if_splits)
qed simp

lemma check_bundles_life:
  "check_bundles c dep db l w = (w', db', x) \<Longrightarrow> apps_ok db \<Longrightarrow> apps_ok db' \<and> app_layout db' = app_layout db \<and> lifecycle db' = lifecycle db"
proof (induction l arbitrary: db w)
  case (Cons b l)
  obtain w1 db1 y where h: "check_resumed c dep db (mustAppsByBundle db b) w = (w1, db1, y)" by (metis prod_cases3)
  note f = check_resumed_life [OF h Cons.prems(2)]
  show ?case using Cons.prems Cons.IH [of db1 w1] h f by (auto split: option.splits)
qed simp

lemma deleteMaintenance_facts:
  "adb_apps (deleteMaintenance db b) = adb_apps db" "apps_ok db \<Longrightarrow> apps_ok (deleteMaintenance db b)"
  "GetMaintenance (deleteMaintenance db b) x = (if x = b then Inl (bare AErrNotFound) else GetMaintenance db x)"
proof -
  show "apps_ok db \<Longrightarrow> apps_ok (deleteMaintenance db b)" by (rule app_step_ok [OF as_resume])
  show "GetMaintenance (deleteMaintenance db b) x = (if x = b then Inl (bare AErrNotFound) else GetMaintenance db x)"
    by (simp add: GetMaintenance_def deleteMaintenance_def find_filter_key)
qed (simp add: deleteMaintenance_def)

text \<open>A pause that can be cleared is none or one for an import.\<close>

lemma Resume_None:
  assumes "ResumeFromMaintenance db b = (db', None)"
  shows "GetMaintenance db' x = (if x = b then Inl (bare AErrNotFound) else GetMaintenance db x)" "adb_apps db' = adb_apps db" "apps_ok db \<Longrightarrow> apps_ok db'"
  using assms deleteMaintenance_facts [of db b]
  by (auto simp: ResumeFromMaintenance_def clearMaintenance_def GetMaintenance_def split: sum.splits if_splits option.splits)

lemma removeMarker_db: "removeMarker dep st b w = (w', st') \<Longrightarrow> ms_db st' = ms_db st"
  by (auto simp: removeMarker_def split: prod.splits if_splits)

lemma clear_pauses_None:
  "clear_pauses dep st l w = (w', st', None) \<Longrightarrow> apps_ok (ms_db st) \<Longrightarrow> adb_apps (ms_db st') = adb_apps (ms_db st) \<and> apps_ok (ms_db st') \<and>
     (\<forall>b. GetMaintenance (ms_db st') b = (if b \<in> set l then Inl (bare AErrNotFound) else GetMaintenance (ms_db st) b))"
proof (induction l arbitrary: st w)
  case (Cons b l)
  obtain db1 w1 st1 where q: "ResumeFromMaintenance (ms_db st) b = (db1, None)" "removeMarker dep (st\<lparr>ms_db := db1\<rparr>) b w = (w1, st1)"
    "clear_pauses dep st1 l w1 = (w', st', None)"
    using Cons.prems(1) by (auto split: prod.splits option.splits)
  have d: "ms_db st1 = db1" using removeMarker_db [OF q(2)] by simp
  note r = Resume_None [OF q(1)]
  show ?case using Cons.IH [OF q(3)] r Cons.prems(2) by (auto simp: d)
qed simp

definition resumed_whole :: "string set \<Rightarrow> apps_db \<Rightarrow> apps_db \<Rightarrow> bool" where
  "resumed_whole B db db' \<longleftrightarrow> apps_ok db' \<and> apps_of db' = apps_of db \<and>
     (\<forall>b. GetMaintenance db' b = (if b \<in> B then Inl (bare AErrNotFound) else GetMaintenance db b)) \<and>
     lifecycle db' = (\<lambda>i. if i \<in> \<Union> (apps_of db ` B) then map_option start_life (lifecycle db i) else lifecycle db i)"

lemma first_error_None: "first_error es = None \<longleftrightarrow> (\<forall>e \<in> set es. e = None)"
  by (induction es) (auto simp: first_error_def)

lemma resume_locked_resumes:
  assumes ok: "apps_ok (ms_db st)" and op: "resume_locked c dep st target w = (w', st', Inr u)"
    and cat: "distinct (map bu_ID (catalog_Bundles c))"
  shows "resumed_whole (dependents c target) (ms_db st) (ms_db st') \<and>
    (\<forall>b \<in> dependents c target. \<forall>m. GetMaintenance (ms_db st) b = Inr m \<longrightarrow> mn_Reason m = MaintenanceImport)"
proof -
  obtain affected w1 st1 w2 db2 w3 db3 where a: "affectedBundles (catalog_Bundles c) target = Inr affected"
    and n: "first_error (map (not_import (ms_db st)) (map bu_ID affected)) = None"
    and q: "clear_pauses dep st (map bu_ID affected) w = (w1, st1, None)"
      "start_bundles c dep translateError (ms_db st1) (map bu_ID affected) w1 = (w2, db2, None)"
      "check_bundles c dep db2 (map bu_ID affected) w2 = (w3, db3, None)" and st': "ms_db st' = db3"
    using op by (auto simp: resume_locked_def Let_def split: sum.splits prod.splits option.splits)
  have d: "bu_ID ` set affected = dependents c target"
    using affectedBundles_correct(2) [OF cat a] by (auto simp: dependents_def)
  note cl = clear_pauses_None [OF q(1) ok, simplified d list.set_map]
  have st1: "lifecycle (ms_db st1) = lifecycle (ms_db st)" "apps_of (ms_db st1) = apps_of (ms_db st)"
    using apps_cong [of "ms_db st1" "ms_db st"] cl by simp_all
  have mv: "moves start_life (\<Union> (apps_of (ms_db st) ` dependents c target)) (ms_db st1) db2"
    using start_bundles_moves [OF q(2)] cl by (simp add: st1 d)
  then have l2: "apps_ok db2" "app_layout db2 = app_layout (ms_db st1)" by (simp_all add: moves_def)
  note ck = check_bundles_life [OF q(3) l2(1)]
  have l3: "app_layout db3 = app_layout (ms_db st1)" using ck l2 by simp
  have own: "\<forall>b \<in> dependents c target. \<forall>m. GetMaintenance (ms_db st) b = Inr m \<longrightarrow> mn_Reason m = MaintenanceImport"
    using n by (auto simp: first_error_None not_import_def d [symmetric] split: sum.splits if_splits)
  show ?thesis using mv ck cl st1 own layout_facts [OF l3] by (auto simp: resumed_whole_def moves_def st')
qed

section \<open>Storage migrations\<close>

lemma mustApps_Status:
  assumes "apps_ok db" "a \<in> set (mustAppsByBundle db b)" "app_Status db (st_ID a) = Inr s" shows "st_BundleID s = b"
proof -
  obtain r where g: "getApp db (st_ID a) = Inr r" "st_BundleID s = ar_BundleID r"
    using assms(3) by (auto simp: app_Status_def app_view_def Let_def split: sum.splits if_splits)
  have "st_ID a \<in> apps_of db b" using appsByBundle_ok(2) [OF assms(1)] assms(2) by blast
  then obtain r' where "r' \<in> set (adb_apps db)" "ar_ID r' = st_ID a" "ar_BundleID r' = b" by (auto simp: apps_of_def)
  moreover have "distinct (map ar_ID (adb_apps db))" using assms(1) by (simp add: apps_ok_def)
  ultimately have "r' = r" using getApp_Inr [OF g(1)] by (metis distinct_map inj_onD)
  then show ?thesis using g(2) \<open>ar_BundleID r' = b\<close> by simp
qed

text \<open>Every installed bundle of the list takes its dependents into maintenance.\<close>

definition entered :: "Catalog \<Rightarrow> string \<Rightarrow> string list \<Rightarrow> maint_state \<Rightarrow> maint_state \<Rightarrow> bool" where
  "entered c reason l st st' \<longleftrightarrow> apps_ok (ms_db st') \<and> apps_of (ms_db st') = apps_of (ms_db st) \<and>
     (\<forall>b. paused_for reason (ms_db st) b \<longrightarrow> paused_for reason (ms_db st') b) \<and>
     (\<forall>b \<in> set l. apps_of (ms_db st) b = {} \<longrightarrow> paused_for reason (ms_db st') b) \<and>
     (\<forall>b \<in> set l. apps_of (ms_db st) b \<noteq> {} \<longrightarrow> (\<forall>d \<in> dependents c b. paused_for reason (ms_db st') d))"

lemma entered_Nil [simp]: "entered c reason [] st st \<longleftrightarrow> apps_ok (ms_db st)" by (simp add: entered_def)

lemma entered_Cons: "entered c reason [b] st st1 \<Longrightarrow> entered c reason l st1 st2 \<Longrightarrow> entered c reason (b # l) st st2"
  by (auto simp: entered_def)

lemma pauses_mono: "pauses reason B st st' \<Longrightarrow> paused_for reason (ms_db st) b \<Longrightarrow> paused_for reason (ms_db st') b"
  by (cases "b \<in> B") (auto simp: pauses_def paused_for_def)

lemma enter_empty:
  assumes "apps_ok (ms_db st)" "appsByBundle (ms_db st) b = Inr []" "pause_bundle c dep tr st reason op b w = (w', st', Inr m)"
  shows "entered c reason [b] st st'"
proof -
  note f = PauseForMaintenance_Inr [OF pause_bundle_Inr(1) [OF assms(3)]]
  have "apps_of (ms_db st) b = {}" using appsByBundle_ok [OF assms(1), of b] assms(2) by auto
  moreover have "paused_for reason (ms_db st') x" if "paused_for reason (ms_db st) x" for x
    using that f(2,3,6) by (cases "x = b") (auto simp: paused_for_def)
  ultimately show ?thesis using f(2,3,7) assms(1) apps_cong(2) [OF f(1)] by (auto simp: entered_def paused_for_def)
qed

lemma enter_installed:
  assumes "apps_ok (ms_db st)" "distinct (map bu_ID (catalog_Bundles c))" "appsByBundle (ms_db st) b = Inr (a # others)"
    "pauseAppLocked c dep st (st_ID a) reason w = (w', st', Inr m)"
  shows "entered c reason [b] st st'"
proof -
  obtain s where s: "app_Status (ms_db st) (st_ID a) = Inr s" "paused_whole reason (dependents c (st_BundleID s)) st st'"
    using pauseAppLocked_pauses [OF assms(1,4,2)] by blast
  have l: "a \<in> set (mustAppsByBundle (ms_db st) b)" using assms(3) by (simp add: mustAppsByBundle_def)
  have "st_BundleID s = b" by (rule mustApps_Status [OF assms(1) l s(1)])
  moreover have "apps_of (ms_db st) b \<noteq> {}" using appsByBundle_ok(2) [OF assms(1), of b] l by blast
  ultimately show ?thesis using s(2) pauses_mono [of reason "dependents c b" st st']
    by (auto simp: entered_def paused_whole_def) (auto simp: pauses_def)
qed

lemma enter_bundle_entered:
  assumes "enter_bundle c dep st reason op b w = (w', st', None)" "apps_ok (ms_db st)" "distinct (map bu_ID (catalog_Bundles c))"
  shows "entered c reason [b] st st'"
proof (cases "mustAppsByBundle (ms_db st) b")
  case Nil
  note l = appsByBundle_ok(1) [OF assms(2), of b, unfolded Nil]
  obtain m where "pause_bundle c dep id st reason op b w = (w', st', Inr m)"
    using assms(1) l by (auto simp: enter_bundle_def split: prod.splits sum.splits)
  then show ?thesis by (rule enter_empty [OF assms(2) l])
next
  case (Cons a others)
  note l = appsByBundle_ok(1) [OF assms(2), of b, unfolded Cons]
  obtain m where "pauseAppLocked c dep st (st_ID a) reason w = (w', st', Inr m)"
    using assms(1) l by (auto simp: enter_bundle_def split: prod.splits sum.splits)
  then show ?thesis by (rule enter_installed [OF assms(2,3) l])
qed

lemma enter_bundles_entered:
  "enter_bundles c dep st reason op l w = (w', st', None) \<Longrightarrow> apps_ok (ms_db st) \<Longrightarrow> distinct (map bu_ID (catalog_Bundles c)) \<Longrightarrow>
   entered c reason l st st'"
proof (induction l arbitrary: st w)
  case (Cons b l)
  obtain w1 st1 where q: "enter_bundle c dep st reason op b w = (w1, st1, None)" "enter_bundles c dep st1 reason op l w1 = (w', st', None)"
    using Cons.prems(1) by (auto split: prod.splits option.splits)
  note e = enter_bundle_entered [OF q(1) Cons.prems(2,3)]
  have "apps_ok (ms_db st1)" using e by (simp add: entered_def)
  then show ?case by (rule entered_Cons [OF e Cons.IH [OF q(2) _ Cons.prems(3)]])
qed simp

text \<open>The end of a migration clears the pauses of the owners and of nobody else.\<close>

lemma start_apps_layout: "start_apps c dep tr db l w = (w', db', x) \<Longrightarrow> app_layout db' = app_layout db"
proof (induction l arbitrary: db w)
  case (Cons a l)
  obtain w1 db1 y where h: "app_Start c (md_Apps dep) db (st_ID a) w = (w1, db1, y)" by (metis prod_cases3)
  show ?case using Cons.prems Cons.IH [of db w] Cons.IH [of db1 w1] h operation_layout(1) [OF h]
    by (auto split: sum.splits if_splits)
qed simp

lemma start_bundles_layout: "start_bundles c dep tr db l w = (w', db', x) \<Longrightarrow> app_layout db' = app_layout db"
proof (induction l arbitrary: db w)
  case (Cons b l)
  obtain w1 db1 y where h: "start_apps c dep tr db (mustAppsByBundle db b) w = (w1, db1, y)" by (metis prod_cases3)
  show ?case using Cons.prems Cons.IH [of db1 w1] h start_apps_layout [OF h] by (auto split: option.splits)
qed simp

lemma clear_storage_others:
  "clear_storage dep st l w = (w', st', x) \<Longrightarrow> b \<notin> set l \<Longrightarrow> GetMaintenance (ms_db st') b = GetMaintenance (ms_db st) b"
proof (induction l arbitrary: st w)
  case (Cons a l)
  obtain db1 y where cl: "clearStorageMaintenance (ms_db st) a = (db1, y)" by fastforce
  have g: "GetMaintenance db1 b = GetMaintenance (ms_db st) b"
    using cl Cons.prems(2) by (auto simp: clearStorageMaintenance_def deleteMaintenance_facts(3) split: sum.splits if_splits)
  obtain w1 st1 where rm: "removeMarker dep (st\<lparr>ms_db := db1\<rparr>) a w = (w1, st1)" by fastforce
  show ?case using Cons.prems Cons.IH [of st1 w1] cl g rm removeMarker_db [OF rm] by (auto split: option.splits)
qed simp

lemma resumeStorageApps_others:
  assumes "resumeStorageApps c dep st l w = (w', st', x)" "b \<notin> set l" shows "GetMaintenance (ms_db st') b = GetMaintenance (ms_db st) b"
proof -
  obtain w1 st1 y where cl: "clear_storage dep st l w = (w1, st1, y)" by (metis prod_cases3)
  show ?thesis using assms(1) cl clear_storage_others [OF cl assms(2)]
    by (auto simp: resumeStorageApps_def split: option.splits prod.splits dest!: start_bundles_layout layout_facts(1))
qed

section \<open>Live restores\<close>

definition maintained :: "apps_db \<Rightarrow> string \<Rightarrow> bool" where "maintained db b \<longleftrightarrow> (\<exists>m. GetMaintenance db b = Inr m)"

lemma paused_maintained: "paused_for reason db b \<Longrightarrow> maintained db b" by (auto simp: paused_for_def maintained_def)

lemma apps_of_getApp:
  assumes "apps_ok db" "i \<in> apps_of db b" shows "\<exists>r. getApp db i = Inr r \<and> ar_BundleID r = b"
proof -
  obtain r where r: "r \<in> set (adb_apps db)" "ar_ID r = i" "ar_BundleID r = b" using assms(2) by (auto simp: apps_of_def)
  obtain r' where g: "getApp db i = Inr r'" using getApp_member [of i db] r by blast
  have "distinct (map ar_ID (adb_apps db))" using assms(1) by (simp add: apps_ok_def)
  then have "r' = r" using getApp_Inr [OF g] r by (metis distinct_map inj_onD)
  then show ?thesis using g r(3) by blast
qed

lemma maintained_refused:
  assumes "apps_ok db" "i \<in> apps_of db b" "maintained db b"
  shows "\<exists>e. app_Start c dep db i w = (w, db, Inl e)" "\<exists>e. CheckHealth c dep db i w = (w, db, Inl e)"
  using apps_of_getApp [OF assms(1,2)] assms(3)
  by (auto simp: app_Start_def CheckHealth_def maintained_def requireNotMaintained_def)

lemma start_apps_maintained:
  "apps_ok db \<Longrightarrow> st_ID ` set l \<subseteq> apps_of db b \<Longrightarrow> maintained db b \<Longrightarrow> \<exists>e. start_apps c dep tr db l w = (w, db, e)"
proof (induction l)
  case (Cons a l)
  obtain e where e: "app_Start c (md_Apps dep) db (st_ID a) w = (w, db, Inl e)"
    using maintained_refused(1) [of db "st_ID a" b c "md_Apps dep" w] Cons.prems by auto
  then show ?case using Cons by (auto split: sum.splits)
qed simp

lemma resumeRestoreApps_maintained:
  "apps_ok db \<Longrightarrow> \<forall>b \<in> set l. maintained db b \<Longrightarrow> \<exists>e. resumeRestoreApps c dep db l w = (w, db, e)"
proof (induction l)
  case (Cons b l)
  note a = appsByBundle_ok [OF Cons.prems(1), of b]
  obtain e where "start_apps c dep translateError db (mustAppsByBundle db b) w = (w, db, e)"
    using start_apps_maintained [OF Cons.prems(1), of "mustAppsByBundle db b" b c dep translateError w] a(2) Cons.prems(2) by auto
  then show ?case using a(1) Cons by (auto split: option.splits)
qed simp

lemma checkRestoredHealth_maintained:
  "apps_ok db \<Longrightarrow> \<forall>b \<in> set l. maintained db b \<Longrightarrow> b \<in> set l \<Longrightarrow> apps_of db b \<noteq> {} \<Longrightarrow>
   \<exists>e. checkRestoredHealth c dep db l w = (w, db, Some e)"
proof (induction l)
  case (Cons a l)
  note rows = appsByBundle_ok [OF Cons.prems(1), of a]
  show ?case
  proof (cases "mustAppsByBundle db a")
    case Nil
    then have "a \<noteq> b" using rows(2) Cons.prems(4) by auto
    then show ?thesis using Cons Nil rows(1) by simp
  next
    case (Cons x others)
    then have "st_ID x \<in> apps_of db a" using rows(2) by auto
    then obtain e where "CheckHealth c (md_Apps dep) db (st_ID x) w = (w, db, Inl e)"
      using maintained_refused(2) Cons.prems(1,2) by fastforce
    then show ?thesis using Cons rows(1) by simp
  qed
qed simp

text \<open>A rollback under the pauses of the restore changes no table; its last step is out of reach.\<close>

lemma rollback_maintained:
  assumes "apps_ok (ms_db st)" "\<forall>b \<in> set (lp_Bundles plan) \<union> set (lp_Started plan). maintained (ms_db st) b"
    "b \<in> set (lp_Bundles plan)" "apps_of (ms_db st) b \<noteq> {}"
  shows "\<exists>w' e. rollbackLiveRestore c dep rd st plan op w = (w', st, Some e)"
proof (cases "rd_Rollback rd w")
  case (Pair w1 x)
  have "\<forall>b \<in> set (lp_Started plan). maintained (ms_db st) b" using assms(2) by blast
  then obtain e1 where r: "resumeRestoreApps c dep (ms_db st) (lp_Started plan) w1 = (w1, ms_db st, e1)"
    using resumeRestoreApps_maintained [OF assms(1), of "lp_Started plan" c dep w1] by blast
  have "\<forall>b \<in> set (lp_Bundles plan). maintained (ms_db st) b" using assms(2) by blast
  then obtain e2 where h: "checkRestoredHealth c dep (ms_db st) (lp_Bundles plan) w1 = (w1, ms_db st, Some e2)"
    using checkRestoredHealth_maintained [OF assms(1) _ assms(3,4), of c dep w1] by blast
  show ?thesis using Pair r h by (cases x; cases e1; simp add: rollbackLiveRestore_def)
qed

lemma fail_live_restore_maintained:
  assumes "apps_ok (ms_db st)" "\<forall>b \<in> set (lp_Bundles plan) \<union> set (lp_Started plan). maintained (ms_db st) b"
    "b \<in> set (lp_Bundles plan)" "apps_of (ms_db st) b \<noteq> {}"
  shows "\<exists>w' e. fail_live_restore c dep rd st plan op msg w = (w', st, Some e)"
  using rollback_maintained [OF assms, of c dep rd op w] by (auto simp: fail_live_restore_def)

lemma restart_apps_maintained:
  assumes "apps_ok (ms_db st)" "\<forall>b \<in> set (lp_Bundles plan) \<union> set (lp_Started plan). maintained (ms_db st) b"
    "b \<in> set (lp_Bundles plan)" "apps_of (ms_db st) b \<noteq> {}"
  shows "\<exists>w' e. restart_apps c dep rd st plan op w = (w', st, Some e)"
proof -
  note f = fail_live_restore_maintained [OF assms, of c dep rd op]
  have "\<forall>b \<in> set (lp_Started plan). maintained (ms_db st) b" using assms(2) by blast
  then obtain e1 where r: "resumeRestoreApps c dep (ms_db st) (lp_Started plan) w = (w, ms_db st, e1)"
    using resumeRestoreApps_maintained [OF assms(1), of "lp_Started plan" c dep w] by blast
  have "\<forall>b \<in> set (lp_Bundles plan). maintained (ms_db st) b" using assms(2) by blast
  then obtain e2 where h: "checkRestoredHealth c dep (ms_db st) (lp_Bundles plan) w = (w, ms_db st, Some e2)"
    using checkRestoredHealth_maintained [OF assms(1) _ assms(3,4), of c dep w] by blast
  show ?thesis using f r h by (cases e1; simp add: restart_apps_def)
qed

lemma live_plan_sets:
  assumes "distinct (map bu_ID l)"
  shows "set (lp_StopOrder (live_plan l want)) = set (lp_Bundles (live_plan l want))" "lp_Started (live_plan l want) = rev (lp_StopOrder (live_plan l want))"
proof -
  let ?b = "live_bundles l want"
  have "set (filter (\<lambda>i. i \<in> set ?b) (rev (map bu_ID order))) = set ?b" if "topoSortBundles l = Inr order" for order
  proof -
    have "mset order = mset l" using topoSort_correct [OF assms] that by simp
    then have "set order = set l" by (rule mset_eq_setD)
    moreover have "set ?b \<subseteq> bu_ID ` set l" by (auto simp: live_bundles_def)
    ultimately show ?thesis by auto
  qed
  then show "set (lp_StopOrder (live_plan l want)) = set (lp_Bundles (live_plan l want))"
    by (auto simp: live_plan_def Let_def split: sum.splits)
qed (simp add: live_plan_def Let_def)

lemma runLiveRestoreStages_fails:
  assumes ok: "apps_ok (ms_db st)" and cat: "distinct (map bu_ID (catalog_Bundles c))"
    and plan: "plan = live_plan (catalog_Bundles c) want" and b: "b \<in> set (lp_Bundles plan)" "apps_of (ms_db st) b \<noteq> {}" "b \<in> bu_ID ` set (catalog_Bundles c)"
  shows "\<exists>w' st' e. runLiveRestoreStages c dep rd st plan op w = (w', st', Some e) \<and>
    (\<forall>w1 st1. enter_bundles c dep st MaintenanceRestore op (lp_StopOrder plan) w = (w1, st1, None) \<longrightarrow> st' = st1)"
proof -
  obtain w1 st1 x where p: "enter_bundles c dep st MaintenanceRestore op (lp_StopOrder plan) w = (w1, st1, x)" by (metis prod_cases3)
  show ?thesis
  proof (cases x)
    case (Some e)
    then show ?thesis using p by (auto simp: runLiveRestoreStages_def fail_live_restore_def split: prod.splits)
  next
    case None
    have en: "entered c MaintenanceRestore (lp_StopOrder plan) st st1" by (rule enter_bundles_entered [OF p [unfolded None] ok cat])
    have inb: "set (lp_Bundles plan) \<subseteq> bu_ID ` set (catalog_Bundles c)" by (auto simp: plan live_plan_def Let_def live_bundles_def)
    have "maintained (ms_db st1) y" if "y \<in> set (lp_Bundles plan)" for y
    proof -
      have "y \<in> set (lp_StopOrder plan)" using that live_plan_sets(1) [OF cat] plan by blast
      moreover have "y \<in> dependents c y" using inb that by (auto simp: dependents_def)
      ultimately have "paused_for MaintenanceRestore (ms_db st1) y" using en by (auto simp: entered_def)
      then show ?thesis by (rule paused_maintained)
    qed
    then have m: "\<forall>y \<in> set (lp_Bundles plan) \<union> set (lp_Started plan). maintained (ms_db st1) y"
      using live_plan_sets [OF cat, of want] plan by auto
    have ok1: "apps_ok (ms_db st1)" "apps_of (ms_db st1) b \<noteq> {}" using en b(2) by (simp_all add: entered_def)
    note f = fail_live_restore_maintained [OF ok1(1) m b(1) ok1(2), of c dep rd op] and r = restart_apps_maintained [OF ok1(1) m b(1) ok1(2), of c dep rd op]
    have stages: "\<exists>w' e. (case restore_stages fs w2 of (w3, Some msg) \<Rightarrow> fail_live_restore c dep rd st1 plan op msg w3
        | (w3, None) \<Rightarrow> restart_apps c dep rd st1 plan op w3) = (w', st1, Some e)" for fs w2
      using f r by (auto split: prod.splits option.splits)
    have "\<exists>w' e. runLiveRestoreStages c dep rd st plan op w = (w', st1, Some e)"
      using p None f r stages by (auto simp: runLiveRestoreStages_def simp del: restore_stages.simps split: prod.splits option.splits)
    then show ?thesis using p None by auto
  qed
qed

section \<open>Reconciling\<close>

lemma restore_markers_None:
  "restore_markers dep st l w = (w', st', None) \<Longrightarrow> ms_db st' = ms_db st \<and> set (ms_markers st') = set (ms_markers st) \<union> mn_BundleID ` set l"
proof (induction l arbitrary: st w)
  case (Cons m l)
  show ?case
  proof (cases "mn_BundleID m \<in> set (ms_markers st)")
    case True
    then show ?thesis using Cons.prems Cons.IH [of st w] by auto
  next
    case False
    then obtain w1 st1 where q: "writeMarker dep st (mn_BundleID m) w = (w1, st1, None)" "restore_markers dep st1 l w1 = (w', st', None)"
      using Cons.prems by (auto split: prod.splits option.splits)
    have "ms_db st1 = ms_db st" "set (ms_markers st1) = insert (mn_BundleID m) (set (ms_markers st))"
      using q(1) by (auto simp: writeMarker_def split: prod.splits if_splits)
    then show ?thesis using Cons.IH [OF q(2)] by auto
  qed
qed simp

lemma adopt_markers_None:
  "adopt_markers c dep recs st l w = (st', None) \<Longrightarrow> apps_ok (ms_db st) \<Longrightarrow>
   apps_ok (ms_db st') \<and> adb_apps (ms_db st') = adb_apps (ms_db st) \<and> ms_markers st' = ms_markers st \<and>
   (\<forall>b. GetMaintenance (ms_db st') b = GetMaintenance (ms_db st) b \<or> paused_for MaintenanceImport (ms_db st') b) \<and>
   (\<forall>b \<in> set l. catalog_Get c b \<noteq> None \<and> b \<notin> mn_BundleID ` set recs \<longrightarrow> paused_for MaintenanceImport (ms_db st') b) \<and>
   (\<forall>b \<in> mn_BundleID ` set recs. GetMaintenance (ms_db st') b = GetMaintenance (ms_db st) b)"
proof (induction l arbitrary: st)
  case (Cons i l)
  show ?case
  proof (cases "i \<in> mn_BundleID ` set recs \<or> catalog_Get c i = None")
    case True
    then have "adopt_markers c dep recs st l w = (st', None)" using Cons.prems(1) by (auto simp: list_ex_key split: if_splits)
    from Cons.IH [OF this Cons.prems(2)] show ?thesis using True by auto
  next
    case False
    then obtain db1 m where q: "PauseForMaintenance c (ms_db st) i MaintenanceImport ''reconcile'' (maint_now dep w) = (db1, Inr m)"
      "adopt_markers c dep recs (st\<lparr>ms_db := db1\<rparr>) l w = (st', None)"
      using Cons.prems(1) by (auto simp: list_ex_key split: prod.splits sum.splits if_splits)
    note f = PauseForMaintenance_Inr [OF q(1)]
    have "apps_ok (ms_db (st\<lparr>ms_db := db1\<rparr>))" using f(7) Cons.prems(2) by simp
    note IH = Cons.IH [OF q(2) this, unfolded maint_state.simps]
    have "GetMaintenance (ms_db st') i = GetMaintenance db1 i \<or> paused_for MaintenanceImport (ms_db st') i" using IH by simp
    then have "paused_for MaintenanceImport (ms_db st') i" using f(2,3) by (auto simp: paused_for_def)
    moreover have "GetMaintenance (ms_db st') b = GetMaintenance (ms_db st) b \<or> paused_for MaintenanceImport (ms_db st') b" for b
      using IH [THEN conjunct2, THEN conjunct2, THEN conjunct2, THEN conjunct1, rule_format, of b] f(6) [of b] calculation by (cases "b = i") auto
    moreover have "b \<noteq> i" if "b \<in> mn_BundleID ` set recs" for b using False that by blast
    ultimately show ?thesis using IH f(1,6) by auto
  qed
qed simp

end
