(* ===== verification/AppsProps.thy ===== *)
theory AppsProps
  imports AppResumes
begin

text \<open>
  internal/apps and the pauses of internal/controlplane: the properties.  The witnesses run the service
  over a catalog of two bundles, one depending on the other, and a runner whose calls succeed.
\<close>

section \<open>A deployment to evaluate\<close>

definition demo_bundle :: "string \<Rightarrow> string list \<Rightarrow> Bundle" where
  "demo_bundle i ds = \<lparr>bu_ID = i, bu_Name = i, bu_Port = 0, bu_DefaultExposure = ExposurePrivate, bu_MaxExposure = ExposurePrivate,
     bu_HealthCheck = \<lparr>hc_Kind = CheckNone, hc_Path = [], hc_Port = 0, hc_Service = [], hc_Command = [], hc_Interval = [], hc_Timeout = []\<rparr>,
     bu_StartupGraceSeconds = 0, bu_Data = [], bu_Backup = \<lparr>bh_QuiesceUnits = [], bh_Databases = []\<rparr>,
     bu_OIDC = \<lparr>oc_Supported = False, oc_Mode = [], oc_Provider = []\<rparr>, bu_MemoryMB = 0, bu_Default = True, bu_Route = [], bu_AppPath = [],
     bu_Dependencies = ds, bu_SecretSources = [], bu_PipelineImage = [], bu_Units = [i], bu_Groups = []\<rparr>"

definition demo_catalog :: Catalog where
  "demo_catalog = \<lparr>cat_byID = [(''web'', demo_bundle ''web'' [''pg'']), (''pg'', demo_bundle ''pg'' [])], cat_order = [''pg'', ''web'']\<rparr>"

definition demo_apps :: "int AppDeps" where
  "demo_apps = \<lparr>ap_Deploy = (\<lambda>a s w. (w, None)), ap_Start = (\<lambda>a s w. (w, None)), ap_Stop = (\<lambda>a s w. (w, None)), ap_Remove = (\<lambda>a s w. (w, None)),
     ap_Check = (\<lambda>a s w. (w, Inr HealthHealthy)), ap_Env = None, ap_Emit = (\<lambda>e w. w), ap_Now = (\<lambda>w. w),
     ap_NewID = (\<lambda>p w. (w + 1, p @ itoa w))\<rparr>"

definition demo_maint :: "int MaintDeps" where
  "demo_maint = \<lparr>md_Apps = demo_apps, md_WriteMarker = (\<lambda>b w. (w, True, None)), md_RemoveMarker = (\<lambda>b w. (w, True)),
     md_OperationID = (\<lambda>w. (w, ''maint-1'')), md_Stat = (\<lambda>p w. Inr True), md_Open = (\<lambda>p w. None), md_ReadDir = (\<lambda>w. None), md_Lock = (\<lambda>w. (w, None))\<rparr>"

definition demo_request :: "string \<Rightarrow> InstallRequest" where
  "demo_request b = \<lparr>ir_BundleID = b, ir_Name = [], ir_Hostname = [], ir_Exposure = []\<rparr>"

definition demo_pg :: apps_db where "demo_pg = fst (snd (app_Install demo_catalog demo_apps empty_apps_db (demo_request ''pg'') 1))"
definition demo_both :: apps_db where "demo_both = fst (snd (app_Install demo_catalog demo_apps demo_pg (demo_request ''web'') 10))"

lemma demo_both_reach: "app_reach empty_apps_db demo_both"
proof -
  have ok0: "apps_ok empty_apps_db" by (rule app.empty_ok)
  have r1: "app_reach empty_apps_db demo_pg"
    unfolding demo_pg_def
    by (cases "app_Install demo_catalog demo_apps empty_apps_db (demo_request ''pg'') 1") (simp add: app_operations_reach(1) [OF ok0])
  have "app_reach demo_pg demo_both"
    unfolding demo_both_def
    by (cases "app_Install demo_catalog demo_apps demo_pg (demo_request ''web'') 10")
      (simp add: app_operations_reach(1) [OF app.reached_ok [OF r1]])
  then show ?thesis using r1 by simp
qed

definition demo_state :: maint_state where "demo_state = \<lparr>ms_db = demo_both, ms_markers = []\<rparr>"

lemma demo_catalog_distinct: "distinct (map bu_ID (catalog_Bundles demo_catalog))" by code_simp

lemma demo_life: "lifecycle demo_both ''app1'' = Some (DesiredRunning, ObservedRunning)" "lifecycle demo_both ''app10'' = Some (DesiredRunning, ObservedRunning)"
  by code_simp+

lemma operation_result_ok: "(\<And>w' db' x. f = (w', db', x) \<Longrightarrow> app_reach db db') \<Longrightarrow> apps_ok db \<Longrightarrow> apps_ok (fst (snd f))"
  by (cases f) (auto intro: app.steps_ok)

lemma operations_ok:
  assumes "apps_ok db"
  shows "apps_ok (fst (snd (app_Install c dep db req w)))" "apps_ok (fst (snd (app_Start c dep db i w)))"
    "apps_ok (fst (snd (app_Stop c dep db i w)))" "apps_ok (fst (snd (app_Quiesce c dep db i w)))"
    "apps_ok (fst (snd (app_Uninstall c dep db i w)))" "apps_ok (fst (snd (CheckHealth c dep db i w)))"
    "apps_ok (fst (snd (app_Rollback c dep db i w)))" "apps_ok (fst (snd (RefreshHealth c dep db w)))"
proof -
  note r = app_operations_reach [OF assms]
  show "apps_ok (fst (snd (app_Rollback c dep db i w)))" using r(5) [of c dep i w] assms by (cases "app_Rollback c dep db i w") simp
qed (rule operation_result_ok [OF _ assms]; rule app_operations_reach [OF assms] RefreshHealth_reach [OF _ assms]; assumption)+

section \<open>The tables\<close>



section \<open>The life of an application\<close>

text \<open>The machine of the package comment, one application at a time, without the release swaps: an
  operation succeeds (True) or reports an error; only a deployment that failed and a failed removal
  leave an application failed.\<close>

datatype life_op = OInstall | OStart id | OStop id | OQuiesce id | OCheck | OUninstall id

inductive life_step :: "life_op \<Rightarrow> bool \<Rightarrow> (id \<Rightarrow> (string \<times> string) option) \<Rightarrow> (id \<Rightarrow> (string \<times> string) option) \<Rightarrow> bool" where
  refused: "life_step op False m m"
| checked: "life_step OCheck ok m m"
| installed: "m i = None \<Longrightarrow> life_step OInstall True m (m(i \<mapsto> (DesiredRunning, ObservedRunning)))"
| install_failed: "m i = None \<Longrightarrow> life_step OInstall False m (m(i \<mapsto> (DesiredRunning, ObservedFailed)))"
| started: "m i = Some (d, b) \<Longrightarrow> life_step (OStart i) True m (m(i \<mapsto> (DesiredRunning, ObservedRunning)))"
| start_failed: "m i = Some (d, b) \<Longrightarrow> life_step (OStart i) False m (m(i \<mapsto> (DesiredRunning, b)))"
| stopped: "m i = Some (d, b) \<Longrightarrow> life_step (OStop i) True m (m(i \<mapsto> (DesiredStopped, ObservedStopped)))"
| stop_failed: "m i = Some (d, b) \<Longrightarrow> life_step (OStop i) False m (m(i \<mapsto> (DesiredStopped, b)))"
| quiesced: "m i = Some (d, b) \<Longrightarrow> life_step (OQuiesce i) True m (m(i \<mapsto> (d, ObservedStopped)))"
| uninstalled: "m i = Some (d, b) \<Longrightarrow> life_step (OUninstall i) True m (m(i := None))"
| uninstall_failed: "m i = Some (d, b) \<Longrightarrow> life_step (OUninstall i) False m (m(i \<mapsto> (d, ObservedFailed)))"

definition succeeded :: "'a result \<Rightarrow> bool" where "succeeded x = (case x of Inl _ \<Rightarrow> False | Inr _ \<Rightarrow> True)"

lemma operation_known:
  "app_Start c dep db i w = (w', db', Inr x) \<Longrightarrow> \<exists>d b. lifecycle db i = Some (d, b)"
  "app_Stop c dep db i w = (w', db', Inr x) \<Longrightarrow> \<exists>d b. lifecycle db i = Some (d, b)"
  "app_Uninstall c dep db i w = (w', db', None) \<Longrightarrow> \<exists>d b. lifecycle db i = Some (d, b)"
  by (auto simp: app_Start_def app_Stop_def app_Uninstall_def lifecycle_def split: sum.splits)



section \<open>Provisioning\<close>

lemma provisioning_refused:
  assumes "getApp db i = Inr r" "ar_ObservedState r = ObservedProvisioning"
  shows "app_Start c dep db i w = (w, db, Inl (provisioning_error i))" "app_Stop c dep db i w = (w, db, Inl (provisioning_error i))"
    "app_Quiesce c dep db i w = (w, db, Inl (provisioning_error i))" "app_Rollback c dep db i w = (w, db, Inl (provisioning_error i))"
    "app_Update c db i digest = Inl (provisioning_error i)" "\<exists>e. CheckHealth c dep db i w = (w, db, Inl e)"
    "native c (ar_BundleID r) \<Longrightarrow> \<exists>e. app_Uninstall c dep db i w = (w, db, Some e)"
proof -
  have "ObservedProvisioning \<noteq> ObservedRunning" by (simp add: observed_defs)
  then show "\<exists>e. CheckHealth c dep db i w = (w, db, Inl e)" using assms by (auto simp: CheckHealth_def split: sum.splits)
qed (use assms in \<open>simp_all add: app_Start_def app_Stop_def app_Quiesce_def app_Rollback_def app_Update_def app_Uninstall_def\<close>)

theorem interrupted_install_is_stuck:
  assumes "createAppWithRelease db (install_row b name exposure hostname i rel ts) release = Inr db1" "native c (bu_ID b)"
  shows "app_Start c dep db1 i w = (w, db1, Inl (provisioning_error i)) \<and> app_Stop c dep db1 i w = (w, db1, Inl (provisioning_error i)) \<and>
    app_Quiesce c dep db1 i w = (w, db1, Inl (provisioning_error i)) \<and> app_Rollback c dep db1 i w = (w, db1, Inl (provisioning_error i)) \<and>
    app_Update c db1 i digest = Inl (provisioning_error i) \<and> (\<exists>e. CheckHealth c dep db1 i w = (w, db1, Inl e)) \<and>
    (\<exists>e. app_Uninstall c dep db1 i w = (w, db1, Some e))"
proof -
  let ?r = "(install_row b name exposure hostname i rel ts)\<lparr>ar_PreviousReleaseID := [], ar_LastError := []\<rparr>"
  note c = createApp_Inr [OF assms(1)]
  have "List.find (\<lambda>x. ar_ID x = i) (adb_apps db @ [?r]) = Some ?r"
    using c(1) find_snoc_key [of ar_ID ?r "adb_apps db" i] by (simp add: install_row_def list_ex_key)
  then have g: "getApp db1 i = Inr ?r" by (simp add: getApp_def c(4))
  have p: "ar_ObservedState ?r = ObservedProvisioning" "ar_BundleID ?r = bu_ID b" by (simp_all add: install_row_def)
  show ?thesis using provisioning_refused(7) [OF g p(1), of c dep w] assms(2) p(2) by (simp add: provisioning_refused(1-6) [OF g p(1)])
qed

lemma interrupted_install_is_stuck_witness:
  "\<exists>db1. createAppWithRelease demo_pg (install_row (demo_bundle ''web'' [''pg'']) ''web'' ExposurePrivate [] ''app9'' ''rel9'' 5)
      \<lparr>rr_ID = ''rel9'', rr_AppID = ''app9'', rr_Digest = [], rr_Compose = [], rr_CreatedAt = 5\<rparr> = Inr db1 \<and>
    app_Start demo_catalog demo_apps db1 ''app9'' 5 = (5, db1, Inl (provisioning_error ''app9''))"
proof -
  let ?x = "createAppWithRelease demo_pg (install_row (demo_bundle ''web'' [''pg'']) ''web'' ExposurePrivate [] ''app9'' ''rel9'' 5)
      \<lparr>rr_ID = ''rel9'', rr_AppID = ''app9'', rr_Digest = [], rr_Compose = [], rr_CreatedAt = 5\<rparr>"
  have "\<not> isl ?x" by code_simp
  then obtain db1 where d: "?x = Inr db1" by (cases ?x) auto
  have n: "native demo_catalog (bu_ID (demo_bundle ''web'' [''pg'']))" by code_simp
  show ?thesis using interrupted_install_is_stuck [OF d n, of demo_apps 5 "[]"] d by blast
qed

theorem releases_are_never_swapped:
  assumes "app_reach empty_apps_db db"
  shows "(\<exists>e. app_Rollback c dep db i w = (w, db, Inl e)) \<and> (\<exists>e. app_Update c db i digest = Inl e) \<and>
    (case app_Status db i of Inl _ \<Rightarrow> getApp db i = Inl (wrapf AErrNotFound (''app '' @ i))
      | Inr s \<Rightarrow> \<not> st_RollbackAvailable s \<and> st_PreviousDigest s = [])"
proof -
  have ok: "apps_ok db" by (rule app.reached_ok [OF assms])
  have "\<exists>e. app_Update c db i digest = Inl e" by (auto simp: app_Update_def split: sum.splits option.splits)
  moreover have "\<exists>e. app_Rollback c dep db i w = (w, db, Inl e)"
    using getApp_ok(1) [OF ok] by (auto simp: app_Rollback_def split: sum.splits option.splits)
  moreover have "case app_Status db i of Inl _ \<Rightarrow> getApp db i = Inl (wrapf AErrNotFound (''app '' @ i))
      | Inr s \<Rightarrow> \<not> st_RollbackAvailable s \<and> st_PreviousDigest s = []"
    using getApp_ok(1) [OF ok] by (cases "getApp db i") (auto simp: app_Status_def app_view_def Let_def getApp_def split: option.splits)
  ultimately show ?thesis by blast
qed

lemma releases_are_never_swapped_witness:
  "\<not> isl (app_Status demo_both ''app1'') \<and> (\<exists>e. app_Rollback demo_catalog demo_apps demo_both ''app1'' 20 = (20, demo_both, Inl e))"
proof -
  have "\<not> isl (app_Status demo_both ''app1'')" by code_simp
  then show ?thesis using releases_are_never_swapped [OF demo_both_reach, where c = demo_catalog and dep = demo_apps and i = "''app1''" and w = 20]
    by blast
qed

section \<open>The order of bundles\<close>

text \<open>
  C26: topoSortBundles is correct: of bundles with distinct identifiers it returns each of them
  once, every bundle after the bundles of the list it depends on, exactly when these
  dependencies have no cycle; else it reports an error. Dependencies that are not in the list
  are ignored.
\<close>

theorem bundles_are_sorted_topologically:
  assumes "distinct (map bu_ID bundles)"
  shows "case topoSortBundles bundles of
      Inr out \<Rightarrow> mset out = mset bundles \<and> acyclic (depends bundles) \<and>
        (\<forall>n < length out. \<forall>d \<in> set (bu_Dependencies (out ! n)). d \<in> bu_ID ` set bundles \<longrightarrow> d \<in> bu_ID ` set (take n out))
    | Inl e \<Rightarrow> \<not> acyclic (depends bundles)"
  using topoSort_correct [OF assms] by (auto simp: deps_first_def split: sum.splits)

lemma bundles_are_sorted_topologically_witness:
  "map_sum id (map bu_ID) (topoSortBundles [demo_bundle ''web'' [''pg''], demo_bundle ''pg'' []]) = Inr [''pg'', ''web''] \<and>
   acyclic (depends [demo_bundle ''web'' [''pg''], demo_bundle ''pg'' []])"
proof -
  have s: "map_sum id (map bu_ID) (topoSortBundles [demo_bundle ''web'' [''pg''], demo_bundle ''pg'' []]) = Inr [''pg'', ''web'']" by code_simp
  have "distinct (map bu_ID [demo_bundle ''web'' [''pg''], demo_bundle ''pg'' []])" by code_simp
  from bundles_are_sorted_topologically [OF this] s show ?thesis by (auto split: sum.splits)
qed

theorem affected_bundles_are_the_dependents:
  assumes "distinct (map bu_ID bundles)" "affectedBundles bundles target = Inr out"
  shows "distinct (map bu_ID out) \<and> set out = {b \<in> set bundles. (target, bu_ID b) \<in> (uses bundles)\<^sup>*} \<and>
    (\<forall>n < length out. \<forall>d \<in> set (bu_Dependencies (out ! n)). d \<in> bu_ID ` set out \<longrightarrow> d \<in> bu_ID ` set (take n out))"
  using affectedBundles_correct [OF assms] by blast

lemma affected_bundles_are_the_dependents_witness:
  "\<exists>out. affectedBundles [demo_bundle ''web'' [''pg''], demo_bundle ''pg'' []] ''pg'' = Inr out \<and> map bu_ID out = [''pg'', ''web''] \<and>
     set out = {b \<in> set [demo_bundle ''web'' [''pg''], demo_bundle ''pg'' []]. (''pg'', bu_ID b) \<in> (uses [demo_bundle ''web'' [''pg''], demo_bundle ''pg'' []])\<^sup>*}"
proof -
  let ?l = "[demo_bundle ''web'' [''pg''], demo_bundle ''pg'' []]"
  have "map_sum id (map bu_ID) (affectedBundles ?l ''pg'') = Inr [''pg'', ''web'']" by code_simp
  then obtain out where o: "affectedBundles ?l ''pg'' = Inr out" "map bu_ID out = [''pg'', ''web'']" by (cases "affectedBundles ?l ''pg''") auto
  have "distinct (map bu_ID ?l)" by code_simp
  note t = affected_bundles_are_the_dependents [OF this o(1)]
  show ?thesis by (intro exI [of _ out] conjI o t [THEN conjunct2, THEN conjunct1])
qed

end
