(* ===== verification/MaintProps.thy ===== *)
theory MaintProps
  imports AppsProps
begin

text \<open>
  internal/controlplane (maintenance.go, storage.go, restore_live.go): the properties of the pauses for
  imports, storage migrations and live restores.
\<close>

section \<open>Pausing and resuming\<close>

definition dependent_apps :: "Catalog \<Rightarrow> apps_db \<Rightarrow> string \<Rightarrow> id set" where
  "dependent_apps c db target = \<Union> (apps_of db ` dependents c target)"

lemma not_isl: "\<not> isl x \<Longrightarrow> \<exists>y. x = Inr y" by (cases x) auto

lemma pause_lock:
  assumes "PauseAppForImport c dep st i w = (w', st', Inr m)"
  shows "\<exists>w1. md_Lock dep w = (w1, None) \<and> pauseAppLocked c dep st i MaintenanceImport w1 = (w', st', Inr m)"
  using assms by (auto simp: PauseAppForImport_def withMaintenanceLock_def split: prod.splits option.splits)

lemma Status_bundle:
  assumes "apps_ok db" "app_Status db i = Inr s" shows "i \<in> apps_of db b \<longleftrightarrow> b = st_BundleID s"
proof -
  obtain r where g: "getApp db i = Inr r" "st_BundleID s = ar_BundleID r"
    using assms(2) by (auto simp: app_Status_def app_view_def Let_def split: sum.splits if_splits)
  have "i \<in> apps_of db (ar_BundleID r)" using getApp_Inr [OF g(1)] by (auto simp: apps_of_def)
  then show ?thesis using apps_of_getApp [OF assms(1), of i b] g by auto
qed

text \<open>
  C27: A pause that succeeds, for whatever reason and from any reachable state: every bundle of
  the catalog that depends on the application's bundle, directly or not, and that bundle itself
  have a pause with this reason and a marker file; their applications are stopped and want what
  they wanted before; no other pause and no other application has changed.
\<close>

theorem pause_stops_and_records_every_dependent:
  assumes "app_reach empty_apps_db (ms_db st)" "distinct (map bu_ID (catalog_Bundles c))"
    "pauseAppLocked c dep st i reason w = (w', st', Inr m)" "app_Status (ms_db st) i = Inr s"
  shows "(\<forall>b \<in> dependents c (st_BundleID s). paused_for reason (ms_db st') b \<and> b \<in> set (ms_markers st')) \<and>
    (\<forall>b. b \<notin> dependents c (st_BundleID s) \<longrightarrow> GetMaintenance (ms_db st') b = GetMaintenance (ms_db st) b) \<and>
    lifecycle (ms_db st') = (\<lambda>j. if j \<in> dependent_apps c (ms_db st) (st_BundleID s)
      then map_option (\<lambda>(desired, observed). (desired, ObservedStopped)) (lifecycle (ms_db st) j) else lifecycle (ms_db st) j)"
proof -
  have e: "stop_life = (\<lambda>(desired, observed). (desired, ObservedStopped))" by (auto simp: stop_life_def fun_eq_iff)
  have "paused_whole reason (dependents c (st_BundleID s)) st st'"
    using pauseAppLocked_pauses [OF app.reached_ok [OF assms(1)] assms(3,2)] assms(4) by simp
  then show ?thesis unfolding e [symmetric] by (simp add: paused_whole_def pauses_def dependent_apps_def)
qed

definition demo_paused :: maint_state where
  "demo_paused = fst (snd (PauseAppForImport demo_catalog demo_maint demo_state ''app1'' 30))"

lemma demo_dependents: "dependents demo_catalog ''pg'' = {''pg'', ''web''}"
proof -
  have "map_sum id (map bu_ID) (affectedBundles (catalog_Bundles demo_catalog) ''pg'') = Inr [''pg'', ''web'']" by code_simp
  then obtain out where o: "affectedBundles (catalog_Bundles demo_catalog) ''pg'' = Inr out" "map bu_ID out = [''pg'', ''web'']"
    by (cases "affectedBundles (catalog_Bundles demo_catalog) ''pg''") auto
  have "dependents demo_catalog ''pg'' = bu_ID ` set out"
    using affectedBundles_correct(2) [OF demo_catalog_distinct o(1)] by (auto simp: dependents_def)
  also have "\<dots> = set (map bu_ID out)" by simp
  finally show ?thesis using o(2) by simp
qed

lemma demo_status: "\<exists>s. app_Status demo_both ''app1'' = Inr s \<and> st_BundleID s = ''pg''"
proof -
  have "map_sum (\<lambda>_. ()) st_BundleID (app_Status demo_both ''app1'') = Inr ''pg''" by code_simp
  then show ?thesis by (cases "app_Status demo_both ''app1''") auto
qed

lemma demo_state_reach: "app_reach empty_apps_db (ms_db demo_state)" using demo_both_reach by (simp add: demo_state_def)

lemma demo_pause: "\<exists>w m. PauseAppForImport demo_catalog demo_maint demo_state ''app1'' 30 = (w, demo_paused, Inr m)"
proof -
  have "\<not> isl (snd (snd (PauseAppForImport demo_catalog demo_maint demo_state ''app1'' 30)))" by code_simp
  then show ?thesis unfolding demo_paused_def
    by (cases "PauseAppForImport demo_catalog demo_maint demo_state ''app1'' 30") (auto intro: not_isl)
qed

lemma pause_stops_and_records_every_dependent_witness:
  "paused_for MaintenanceImport (ms_db demo_paused) ''web'' \<and> ''web'' \<in> set (ms_markers demo_paused)"
proof -
  obtain w m where "PauseAppForImport demo_catalog demo_maint demo_state ''app1'' 30 = (w, demo_paused, Inr m)" using demo_pause by blast
  then obtain w1 where m: "pauseAppLocked demo_catalog demo_maint demo_state ''app1'' MaintenanceImport w1 = (w, demo_paused, Inr m)"
    using pause_lock by metis
  obtain s where s: "app_Status (ms_db demo_state) ''app1'' = Inr s" "st_BundleID s = ''pg''" using demo_status by (auto simp: demo_state_def)
  show ?thesis using pause_stops_and_records_every_dependent [OF demo_state_reach demo_catalog_distinct m s(1)]
    by (simp add: s(2) demo_dependents)
qed

text \<open>
  C28: A pause for an import and a later resumption that both succeed restore the applications:
  of the bundle and of everything that depends on it, each application that wanted to run runs,
  each that wanted to be stopped is stopped, whatever state they were in before; every desired
  state and all other applications are as before the pause, and of the pauses exactly those of
  these bundles are gone.
\<close>

theorem import_pause_and_resume_round_trip:
  assumes "app_reach empty_apps_db (ms_db st)" "distinct (map bu_ID (catalog_Bundles c))"
    "PauseAppForImport c dep st i w = (w1, st1, Inr m)" "ResumeAppFromImport c dep' st1 i w2 = (w3, st2, Inr u)"
    "app_Status (ms_db st) i = Inr s"
  shows "lifecycle (ms_db st2) = (\<lambda>j. if j \<in> dependent_apps c (ms_db st) (st_BundleID s)
      then map_option (\<lambda>(desired, observed). (desired, if desired = DesiredRunning then ObservedRunning else ObservedStopped)) (lifecycle (ms_db st) j)
      else lifecycle (ms_db st) j) \<and>
    (\<forall>b. GetMaintenance (ms_db st2) b = (if b \<in> dependents c (st_BundleID s) then Inl (bare AErrNotFound) else GetMaintenance (ms_db st) b))"
proof -
  have ok: "apps_ok (ms_db st)" by (rule app.reached_ok [OF assms(1)])
  obtain wl where p: "pauseAppLocked c dep st i MaintenanceImport wl = (w1, st1, Inr m)" using pause_lock [OF assms(3)] by blast
  have pw: "paused_whole MaintenanceImport (dependents c (st_BundleID s)) st st1"
    using pauseAppLocked_pauses [OF ok p assms(2)] assms(5) by simp
  then have ok1: "apps_ok (ms_db st1)" and ao: "apps_of (ms_db st1) = apps_of (ms_db st)" by (simp_all add: paused_whole_def)
  obtain s1 w4 where s1: "app_Status (ms_db st1) i = Inr s1" and r: "resume_locked c dep' st1 (st_BundleID s1) w4 = (w3, st2, Inr u)"
    using assms(4) by (auto simp: ResumeAppFromImport_def withMaintenanceLock_def split: sum.splits prod.splits option.splits)
  have b: "st_BundleID s1 = st_BundleID s" using Status_bundle [OF ok1 s1] Status_bundle [OF ok assms(5)] ao by metis
  note rw = resume_locked_resumes [OF ok1 r assms(2), unfolded b]
  have e: "start_life (stop_life p) = (case p of (desired, observed) \<Rightarrow> (desired, if desired = DesiredRunning then ObservedRunning else ObservedStopped))" for p
    by (cases p) (simp add: start_life_def stop_life_def)
  have l: "lifecycle (ms_db st2) j = (if j \<in> dependent_apps c (ms_db st) (st_BundleID s)
      then map_option (\<lambda>(desired, observed). (desired, if desired = DesiredRunning then ObservedRunning else ObservedStopped)) (lifecycle (ms_db st) j)
      else lifecycle (ms_db st) j)" for j
    using pw rw by (simp add: paused_whole_def resumed_whole_def ao dependent_apps_def option.map_comp comp_def e)
  have m: "GetMaintenance (ms_db st2) b = (if b \<in> dependents c (st_BundleID s) then Inl (bare AErrNotFound) else GetMaintenance (ms_db st) b)" for b
    using pw rw by (simp add: paused_whole_def resumed_whole_def pauses_def)
  show ?thesis using l m by (simp add: fun_eq_iff)
qed

lemma import_pause_and_resume_round_trip_witness:
  "lifecycle (ms_db demo_paused) ''app10'' = Some (DesiredRunning, ObservedStopped) \<and>
   lifecycle (ms_db (fst (snd (ResumeAppFromImport demo_catalog demo_maint demo_paused ''app1'' 40)))) ''app10'' = lifecycle demo_both ''app10''"
proof -
  obtain w m where m: "PauseAppForImport demo_catalog demo_maint demo_state ''app1'' 30 = (w, demo_paused, Inr m)" using demo_pause by blast
  obtain s where s: "app_Status (ms_db demo_state) ''app1'' = Inr s" "st_BundleID s = ''pg''" using demo_status by (auto simp: demo_state_def)
  obtain w3 st2 x where r: "ResumeAppFromImport demo_catalog demo_maint demo_paused ''app1'' 40 = (w3, st2, x)" by (metis prod_cases3)
  have "\<not> isl (snd (snd (ResumeAppFromImport demo_catalog demo_maint demo_paused ''app1'' 40)))" by code_simp
  then obtain u where u: "x = Inr u" using r by (cases x) auto
  have a: "lifecycle (ms_db demo_paused) ''app10'' = Some (DesiredRunning, ObservedStopped)" by code_simp
  have d: "lifecycle (ms_db demo_state) ''app10'' = Some (DesiredRunning, ObservedRunning)" using demo_life(2) by (simp add: demo_state_def)
  have "lifecycle (ms_db st2) ''app10'' = Some (DesiredRunning, ObservedRunning)"
    using import_pause_and_resume_round_trip [OF demo_state_reach demo_catalog_distinct m r [unfolded u] s(1)] d by simp
  then show ?thesis using a demo_life(2) by (simp add: r)
qed

theorem import_pause_takes_over_owned_pause:
  assumes "app_reach empty_apps_db (ms_db st)" "distinct (map bu_ID (catalog_Bundles c))"
    "PauseAppForImport c dep st i w = (w', st', Inr m)" "app_Status (ms_db st) i = Inr s"
    "b \<in> dependents c (st_BundleID s)" "paused_for reason (ms_db st) b" "reason = MaintenanceRestore \<or> reason = MaintenanceStorage"
  shows "(\<exists>e. ResumeFromMaintenance (ms_db st) b = (ms_db st, Some e)) \<and> paused_for MaintenanceImport (ms_db st') b \<and>
    ResumeFromMaintenance (ms_db st') b = (deleteMaintenance (ms_db st') b, None)"
proof -
  obtain w1 where p: "pauseAppLocked c dep st i MaintenanceImport w1 = (w', st', Inr m)" using pause_lock [OF assms(3)] by blast
  have "paused_whole MaintenanceImport (dependents c (st_BundleID s)) st st'"
    using pauseAppLocked_pauses [OF app.reached_ok [OF assms(1)] p assms(2)] assms(4) by simp
  then have a: "paused_for MaintenanceImport (ms_db st') b" using assms(5) by (simp add: paused_whole_def pauses_def)
  have "MaintenanceImport \<noteq> MaintenanceRestore" "MaintenanceImport \<noteq> MaintenanceStorage" by (simp_all add: reason_defs)
  then show ?thesis using a assms(6,7) by (auto simp: paused_for_def ResumeFromMaintenance_def clearMaintenance_def)
qed

definition demo_restoring :: maint_state where
  "demo_restoring = demo_state\<lparr>ms_db := fst (PauseForMaintenance demo_catalog demo_both ''web'' MaintenanceRestore ''op'' 7)\<rparr>"

lemma demo_restoring_facts:
  "paused_for MaintenanceRestore (ms_db demo_restoring) ''web''" "app_reach empty_apps_db (ms_db demo_restoring)"
proof -
  have "\<not> isl (snd (PauseForMaintenance demo_catalog demo_both ''web'' MaintenanceRestore ''op'' 7))" by code_simp
  then obtain m where m: "PauseForMaintenance demo_catalog demo_both ''web'' MaintenanceRestore ''op'' 7 = (ms_db demo_restoring, Inr m)"
    by (cases "PauseForMaintenance demo_catalog demo_both ''web'' MaintenanceRestore ''op'' 7") (auto simp: demo_restoring_def dest: not_isl)
  show "paused_for MaintenanceRestore (ms_db demo_restoring) ''web''" using PauseForMaintenance_Inr(2,3) [OF m] by (auto simp: paused_for_def)
  have "\<exists>m'. setMaintenance demo_both m' 7 = Inr (ms_db demo_restoring)"
    using m by (auto simp: PauseForMaintenance_def Let_def split: option.splits if_splits sum.splits)
  then show "app_reach empty_apps_db (ms_db demo_restoring)" using app_reach_statements(5) [OF _ demo_both_reach] by blast
qed

lemma import_pause_takes_over_owned_pause_witness:
  "paused_for MaintenanceRestore (ms_db demo_restoring) ''web'' \<and>
   paused_for MaintenanceImport (ms_db (fst (snd (PauseAppForImport demo_catalog demo_maint demo_restoring ''app1'' 30)))) ''web''"
proof -
  obtain w st x where p: "PauseAppForImport demo_catalog demo_maint demo_restoring ''app1'' 30 = (w, st, x)" by (metis prod_cases3)
  have "\<not> isl (snd (snd (PauseAppForImport demo_catalog demo_maint demo_restoring ''app1'' 30)))" by code_simp
  then obtain m where x: "x = Inr m" using p not_isl by fastforce
  have "map_sum (\<lambda>_. ()) st_BundleID (app_Status (ms_db demo_restoring) ''app1'') = Inr ''pg''" by code_simp
  then obtain s where s: "app_Status (ms_db demo_restoring) ''app1'' = Inr s" "st_BundleID s = ''pg''"
    by (cases "app_Status (ms_db demo_restoring) ''app1''") auto
  have "''web'' \<in> dependents demo_catalog (st_BundleID s)" by (simp add: s(2) demo_dependents)
  from import_pause_takes_over_owned_pause [OF demo_restoring_facts(2) demo_catalog_distinct p [unfolded x] s(1) this demo_restoring_facts(1)]
  show ?thesis using demo_restoring_facts(1) by (simp add: p)
qed

section \<open>Storage migrations\<close>

text \<open>
  C29: A storage migration leaves the dependents of what it moved paused: after its maintenance
  was entered, a bundle that depends on an installed owner of the moved volumes without being
  an owner keeps its storage pause however resuming the owners ends, and the resumption for
  imports refuses to clear it.
\<close>

theorem storage_migration_leaves_dependents_paused:
  assumes "app_reach empty_apps_db (ms_db st)" "distinct (map bu_ID (catalog_Bundles c))"
    "enter_storage c dep st op owners w = (w1, st1, None)" "b \<in> set owners" "apps_of (ms_db st) b \<noteq> {}"
    "d \<in> dependents c b" "d \<notin> set owners" "resumeStorageApps c dep st1 owners w2 = (w3, st2, x)"
  shows "paused_for MaintenanceStorage (ms_db st2) d \<and> (\<exists>e. ResumeFromMaintenance (ms_db st2) d = (ms_db st2, Some e))"
proof -
  have "enter_bundles c dep st MaintenanceStorage op owners w = (w1, st1, None)"
    using assms(3) by (auto simp: enter_storage_def split: prod.splits)
  from enter_bundles_entered [OF this app.reached_ok [OF assms(1)] assms(2)]
  have "paused_for MaintenanceStorage (ms_db st1) d" using assms(4-6) by (simp add: entered_def)
  then have "paused_for MaintenanceStorage (ms_db st2) d" using resumeStorageApps_others [OF assms(8,7)] by (simp add: paused_for_def)
  then show ?thesis by (auto simp: paused_for_def ResumeFromMaintenance_def clearMaintenance_def)
qed

lemma storage_migration_leaves_dependents_paused_witness:
  "(case enter_storage demo_catalog demo_maint demo_state ''op'' [''pg''] 30 of (w1, st1, e) \<Rightarrow> e = None \<and>
     (case resumeStorageApps demo_catalog demo_maint st1 [''pg''] w1 of (w2, st2, e) \<Rightarrow> paused_for MaintenanceStorage (ms_db st2) ''web''))"
proof -
  obtain w1 st1 e where p: "enter_storage demo_catalog demo_maint demo_state ''op'' [''pg''] 30 = (w1, st1, e)" by (metis prod_cases3)
  have "snd (snd (enter_storage demo_catalog demo_maint demo_state ''op'' [''pg''] 30)) = None" by code_simp
  then have e: "e = None" by (simp add: p)
  obtain w2 st2 x where r: "resumeStorageApps demo_catalog demo_maint st1 [''pg''] w1 = (w2, st2, x)" by (metis prod_cases3)
  have "list_ex (\<lambda>r. ar_BundleID r = ''pg'') (adb_apps (ms_db demo_state))" by code_simp
  then have "apps_of (ms_db demo_state) ''pg'' \<noteq> {}" by (auto simp: list_ex_iff apps_of_def)
  from storage_migration_leaves_dependents_paused [OF demo_state_reach demo_catalog_distinct p [unfolded e] _ this _ _ r]
  show ?thesis by (simp add: demo_dependents p e r)
qed

section \<open>Live restores\<close>


definition demo_restore :: "int RestoreDeps" where
  "demo_restore = \<lparr>rd_Bundles = (\<lambda>w. (w, None)), rd_Cancelled = (\<lambda>w. False), rd_Promote = (\<lambda>w. (w, None)), rd_Databases = (\<lambda>w. (w, None)),
     rd_Secrets = (\<lambda>w. (w, None)), rd_Rollback = (\<lambda>w. (w, None))\<rparr>"


section \<open>Reconciling\<close>

text \<open>
  C31: Reconciling at startup, when it succeeds, makes the pauses and the marker files agree:
  every pause has a marker and is unchanged, and every marker of a bundle of the catalog has a
  pause, an import pause where there was none; nothing happens to the applications.
\<close>

theorem reconciling_makes_pauses_and_markers_agree:
  assumes "app_reach empty_apps_db (ms_db st)" "ReconcileMaintenance c dep st w = (w', st', None)"
  shows "(\<forall>m \<in> set (adb_maintenance (ms_db st)). mn_BundleID m \<in> set (ms_markers st') \<and>
      GetMaintenance (ms_db st') (mn_BundleID m) = GetMaintenance (ms_db st) (mn_BundleID m)) \<and>
    (\<forall>b \<in> set (ms_markers st'). catalog_Get c b \<noteq> None \<longrightarrow>
      maintained (ms_db st) b \<or> paused_for MaintenanceImport (ms_db st') b) \<and>
    adb_apps (ms_db st') = adb_apps (ms_db st)"
proof -
  let ?recs = "ListMaintenance (ms_db st)"
  have recs: "mn_BundleID ` set ?recs = mn_BundleID ` set (adb_maintenance (ms_db st))" by (simp add: ListMaintenance_def)
  obtain w1 st1 where q: "restore_markers dep st ?recs w = (w1, st1, None)" "adopt_markers c dep ?recs st1 (sort (ms_markers st1)) w1 = (st', None)"
    using assms(2) by (auto simp: ReconcileMaintenance_def Let_def split: prod.splits option.splits)
  note r = restore_markers_None [OF q(1)]
  have "apps_ok (ms_db st1)" using r app.reached_ok [OF assms(1)] by simp
  note a = adopt_markers_None [OF q(2) this, unfolded recs set_sort]
  have "maintained (ms_db st) b" if b: "b \<in> mn_BundleID ` set (adb_maintenance (ms_db st))" for b
    using b find_None_iff [of "\<lambda>m. mn_BundleID m = b" "adb_maintenance (ms_db st)"] by (auto simp: maintained_def GetMaintenance_def split: option.splits)
  then show ?thesis using a r recs by auto
qed

lemma reconciling_makes_pauses_and_markers_agree_witness:
  "ms_markers demo_restoring = [] \<and> ''web'' \<in> set (ms_markers (fst (snd (ReconcileMaintenance demo_catalog demo_maint demo_restoring 30))))"
proof -
  obtain w st x where p: "ReconcileMaintenance demo_catalog demo_maint demo_restoring 30 = (w, st, x)" by (metis prod_cases3)
  have "snd (snd (ReconcileMaintenance demo_catalog demo_maint demo_restoring 30)) = None" by code_simp
  then have x: "x = None" by (simp add: p)
  have "\<exists>m \<in> set (adb_maintenance (ms_db demo_restoring)). mn_BundleID m = ''web''"
    using demo_restoring_facts(1) find_Some_in by (fastforce simp: paused_for_def GetMaintenance_def split: option.splits)
  then show ?thesis using reconciling_makes_pauses_and_markers_agree [OF demo_restoring_facts(2) p [unfolded x]]
    by (auto simp: p) (simp add: demo_restoring_def demo_state_def)
qed

end
