(* ===== verification/VirtualKeys.thy ===== *)
theory VirtualKeys
  imports Complex_Main SecretsMap
begin

text \<open>
  internal/providers: the scoped virtual keys of service.go and the two calls of the gateway adapter
  (litellm.go) that generate and delete them.  The gateway behind HTTP, SHA-256, the identifiers, the clock
  and the event sink are functions of the world; a finite amount of money is a rational number.
\<close>

section \<open>Vocabulary\<close>

definition VErrNotFound :: sentinel where "VErrNotFound = ErrSentinel ''provider: not found''"
definition VErrAlreadyExists :: sentinel where "VErrAlreadyExists = ErrSentinel ''provider: already exists''"
definition VErrValidation :: sentinel where "VErrValidation = ErrSentinel ''provider: validation failed''"
definition ErrEntitlement :: sentinel where "ErrEntitlement = ErrSentinel ''provider: entitlement failure''"
definition ErrTokenInvalid :: sentinel where "ErrTokenInvalid = ErrSentinel ''provider: token invalid or corrupted''"

lemmas provider_sentinels = VErrNotFound_def VErrAlreadyExists_def VErrValidation_def ErrEntitlement_def ErrTokenInvalid_def

record KeyLimits =
  kl_RPM :: "int option"
  kl_TPM :: "int option"
  kl_Concurrency :: "int option"
  kl_BudgetAmount :: "rat option"
  kl_BudgetDuration :: "string option"

record VirtualKey =
  vk_ID :: id
  vk_Name :: string
  vk_KeyPrefix :: string
  vk_Scopes :: "string list"
  vk_GatewayKeyID :: "string option"
  vk_OwnerKind :: "string option"
  vk_OwnerID :: "string option"
  vk_Limits :: KeyLimits
  vk_ExpiresAt :: "time option"
  vk_RevokedAt :: "time option"
  vk_CreatedAt :: time
  vk_UpdatedAt :: time

record VirtualKeyRow =
  vr_Key :: VirtualKey
  vr_Hash :: string

type_synonym vk_db = "VirtualKeyRow list"

abbreviation vr_ID :: "VirtualKeyRow \<Rightarrow> id" where "vr_ID r \<equiv> vk_ID (vr_Key r)"

record IssueVirtualKeyInput =
  ik_Name :: string
  ik_Scopes :: "string list"
  ik_ExpiresAt :: "time option"
  ik_OwnerKind :: "string option"
  ik_OwnerID :: "string option"
  ik_Limits :: KeyLimits

definition allowedAliases :: "string list" where
  "allowedAliases = [''omahab/fast'', ''omahab/balanced'', ''omahab/reasoning'', ''omahab/embedding'', ''omahab/karakeep'',
     ''omahab/summarization'', ''omahab/memory'']"

definition allowedOwnerKind :: "string list" where
  "allowedOwnerKind = [''hermes'', ''device'', ''harness'']"

definition GatewayVirtualKeyPrefix :: string where "GatewayVirtualKeyPrefix = ''sk-''"

definition line_breaking :: "string \<Rightarrow> bool" where
  "line_breaking s \<longleftrightarrow> contains_any s [char_of (0 :: nat), char_of (10 :: nat), char_of (13 :: nat)]"

definition has_nul :: "string \<Rightarrow> bool" where "has_nul s \<longleftrightarrow> List.member s (char_of (0 :: nat))"

fun normalizeScopes_from :: "string list \<Rightarrow> string list \<Rightarrow> string list" where
  "normalizeScopes_from seen [] = []"
| "normalizeScopes_from seen (s0 # ss) = (let s = trim_space s0 in
     if s = [] \<or> List.member seen s then normalizeScopes_from seen ss else s # normalizeScopes_from (s # seen) ss)"

definition normalizeScopes :: "string list \<Rightarrow> string list" where "normalizeScopes = normalizeScopes_from []"

definition ClassifyHTTPStatus :: "nat \<Rightarrow> goerror option" where
  "ClassifyHTTPStatus st = (if st = 403 then Some (bare ErrEntitlement) else if st = 401 then Some (bare ErrTokenInvalid) else None)"

section \<open>The gateway adapter\<close>

datatype 'a http_outcome = Unreachable goerror | Response nat 'a

text \<open>Generating answers with the fields key, key_id and id, or with a body that does not parse.\<close>

record 'w LiteLLM =
  gw_MasterKey :: "'w \<Rightarrow> string"
  gw_Generate :: "VirtualKey \<Rightarrow> 'w \<Rightarrow> 'w \<times> (goerror + string \<times> string \<times> string) http_outcome"
  gw_Delete :: "string list \<Rightarrow> 'w \<Rightarrow> 'w \<times> unit http_outcome"

definition status_error :: "string \<Rightarrow> nat \<Rightarrow> goerror" where
  "status_error what st = (case ClassifyHTTPStatus st of Some e \<Rightarrow> e | None \<Rightarrow> errorf (what @ '' unexpected status '' @ itoa (int st)))"

text \<open>The first error of a list of checks.\<close>

definition first_refusal :: "goerror option list \<Rightarrow> goerror option" where
  "first_refusal es = (case List.find (\<lambda>e. e \<noteq> None) es of None \<Rightarrow> None | Some e \<Rightarrow> e)"

definition refuse :: "bool \<Rightarrow> goerror \<Rightarrow> goerror option" where
  "refuse b e = (if b then Some e else None)"

definition parse_generated :: "string \<times> string \<times> string \<Rightarrow> (string \<times> string) result" where
  "parse_generated b = (case b of (key, key_id, i) \<Rightarrow>
     (let token = trim_space key; kid = (if trim_space key_id = [] then trim_space i else trim_space key_id) in
      if token = [] then Inl (errorf ''key generate: missing key in response'')
      else if \<not> has_prefix token ''sk-'' then Inl (errorf ''key generate: gateway returned non-sk prefix'')
      else if kid = [] then Inl (errorf ''key generate: missing key_id in response'')
      else Inr (token, kid)))"

definition gateway_IssueVirtualKey :: "'w LiteLLM \<Rightarrow> VirtualKey \<Rightarrow> 'w \<Rightarrow> 'w \<times> (string \<times> string) result" where
  "gateway_IssueVirtualKey g vk w =
     (case first_refusal ([refuse (trim_space (vk_Name vk) = []) (wrapf VErrValidation ''virtual key name is required''),
          refuse (length (vk_Name vk) > 128) (wrapf VErrValidation ''virtual key name too long'')] @
          map (\<lambda>s. refuse (\<not> List.member allowedAliases (trim_space s)) (wrapf VErrValidation (''unsupported scope '' @ quote s))) (vk_Scopes vk) @
          [refuse (gw_MasterKey g w = []) (wrapf VErrValidation ''gateway master key not configured'')]) of
        Some e \<Rightarrow> (w, Inl e)
      | None \<Rightarrow> (case gw_Generate g vk w of
          (w1, Unreachable e) \<Rightarrow> (w1, Inl (wrapctx ''key generate failed'' e))
        | (w1, Response st b) \<Rightarrow>
            (w1, if st \<noteq> 200 \<and> st \<noteq> 201 then Inl (status_error ''key generate'' st)
                 else case b of Inl e \<Rightarrow> Inl (wrapctx ''parse key generate response'' e) | Inr p \<Rightarrow> parse_generated p)))"

definition bad_handle :: "string \<Rightarrow> bool" where
  "bad_handle s \<longleftrightarrow> has_nul s \<or> contains_any s (char_of (96 :: nat) # ''$|;&*?~#()<>'')"

text \<open>The keys sent: the alias, then the identifier, each once and not empty.\<close>

definition delete_keys :: "string \<Rightarrow> string \<Rightarrow> string list" where
  "delete_keys kid alias = (if alias = [] then [] else [alias]) @ (if kid = [] \<or> kid = alias then [] else [kid])"

definition revokeVirtualKey :: "'w LiteLLM \<Rightarrow> bool \<Rightarrow> string \<Rightarrow> string \<Rightarrow> 'w \<Rightarrow> 'w \<times> goerror option" where
  "revokeVirtualKey g strict kid0 alias0 w = (let kid = trim_space kid0; alias = trim_space alias0 in
     if kid = [] \<and> alias = [] then (w, Some (wrapf VErrValidation ''gateway_key_id is required''))
     else if bad_handle kid \<or> bad_handle alias then (w, Some (wrapf VErrValidation ''gatewayKeyID contains invalid characters''))
     else if gw_MasterKey g w = [] then (w, None)
     else (case gw_Delete g (delete_keys kid alias) w of
         (w1, Unreachable e) \<Rightarrow> (w1, if strict then Some (wrapctx ''key delete failed'' e) else None)
       | (w1, Response st _) \<Rightarrow>
           (w1, if st = 404 then None else if st \<noteq> 200 \<and> st \<noteq> 204 then Some (status_error ''key delete'' st) else None)))"

definition gateway_RevokeVirtualKey :: "'w LiteLLM \<Rightarrow> string \<Rightarrow> string \<Rightarrow> 'w \<Rightarrow> 'w \<times> goerror option" where
  "gateway_RevokeVirtualKey g = revokeVirtualKey g False"

definition RevokeVirtualKeyStrict :: "'w LiteLLM \<Rightarrow> string \<Rightarrow> string \<Rightarrow> 'w \<Rightarrow> 'w \<times> goerror option" where
  "RevokeVirtualKeyStrict g = revokeVirtualKey g True"

section \<open>The service\<close>

record 'w KeyService =
  ks_Vault :: "'w Vault"
  ks_Hash :: "string \<Rightarrow> string"
  ks_Gateway :: "'w LiteLLM option"
  ks_Emit :: "string \<Rightarrow> id \<Rightarrow> string \<Rightarrow> 'w \<Rightarrow> 'w"

definition given :: "string option \<Rightarrow> string option" where
  "given x = (case x of None \<Rightarrow> None | Some s \<Rightarrow> if trim_space s = [] then None else Some (trim_space s))"

definition ownerKind :: "IssueVirtualKeyInput \<Rightarrow> string option" where "ownerKind i = given (map_option to_lower (ik_OwnerKind i))"
definition ownerID :: "IssueVirtualKeyInput \<Rightarrow> string option" where "ownerID i = given (ik_OwnerID i)"

definition at_most_zero :: "'a :: {zero, linorder} option \<Rightarrow> bool" where
  "at_most_zero x = (case x of None \<Rightarrow> False | Some n \<Rightarrow> n \<le> 0)"

definition limit_checks :: "KeyLimits \<Rightarrow> goerror option list" where
  "limit_checks l =
    [refuse (at_most_zero (kl_RPM l)) (wrapf VErrValidation ''rpm_limit must be > 0''),
     refuse (at_most_zero (kl_TPM l)) (wrapf VErrValidation ''tpm_limit must be > 0''),
     refuse (at_most_zero (kl_Concurrency l)) (wrapf VErrValidation ''concurrency_limit must be > 0''),
     refuse (at_most_zero (kl_BudgetAmount l)) (wrapf VErrValidation ''budget_amount must be > 0''),
     (case kl_BudgetDuration l of None \<Rightarrow> None
      | Some bd \<Rightarrow> if trim_space bd = [] then Some (wrapf VErrValidation ''budget_duration cannot be empty'')
          else refuse (line_breaking (trim_space bd)) (wrapf VErrValidation ''budget_duration contains invalid character'')),
     refuse (kl_BudgetAmount l \<noteq> None \<and> kl_BudgetDuration l = None) (wrapf VErrValidation ''budget_duration is required when budget_amount is set''),
     refuse (kl_BudgetDuration l \<noteq> None \<and> kl_BudgetAmount l = None) (wrapf VErrValidation ''budget_amount is required when budget_duration is set'')]"

definition issue_checks :: "time \<Rightarrow> IssueVirtualKeyInput \<Rightarrow> goerror option" where
  "issue_checks now i = (let name = trim_space (ik_Name i) in first_refusal
    ([refuse (name = []) (wrapf VErrValidation ''name is required''),
      refuse (length name > 128) (wrapf VErrValidation ''name too long''),
      refuse (has_nul name) (wrapf VErrValidation ''name contains NUL'')] @
     map (\<lambda>s. refuse (\<not> List.member allowedAliases s) (wrapf VErrValidation (''unsupported scope '' @ quote s))) (normalizeScopes (ik_Scopes i)) @
     [(case ik_ExpiresAt i of None \<Rightarrow> None | Some t \<Rightarrow> refuse (t < now) (wrapf VErrValidation ''expires_at is in the past'')),
      (case ownerKind i of None \<Rightarrow> None
       | Some k \<Rightarrow> refuse (\<not> List.member allowedOwnerKind k) (wrapf VErrValidation (''unsupported owner_kind '' @ quote (the (ik_OwnerKind i))))),
      (case ownerID i of None \<Rightarrow> None
       | Some o' \<Rightarrow> if has_nul o' then Some (wrapf VErrValidation ''owner_id contains NUL'')
           else refuse (length o' > 128) (wrapf VErrValidation ''owner_id too long'')),
      refuse (ownerKind i \<noteq> None \<and> ownerID i = None) (wrapf VErrValidation ''owner_id is required when owner_kind is set''),
      refuse (ownerID i \<noteq> None \<and> ownerKind i = None) (wrapf VErrValidation ''owner_kind is required when owner_id is set'')] @
     limit_checks (ik_Limits i)))"

definition trimmed_limits :: "KeyLimits \<Rightarrow> KeyLimits" where
  "trimmed_limits l = l\<lparr>kl_BudgetDuration := map_option trim_space (kl_BudgetDuration l)\<rparr>"

text \<open>The key as the gateway is asked for it; its identifier, prefix and times are not set yet.\<close>

definition requested :: "IssueVirtualKeyInput \<Rightarrow> VirtualKey" where
  "requested i = \<lparr>vk_ID = [], vk_Name = trim_space (ik_Name i), vk_KeyPrefix = [], vk_Scopes = normalizeScopes (ik_Scopes i),
     vk_GatewayKeyID = None, vk_OwnerKind = ownerKind i, vk_OwnerID = ownerID i, vk_Limits = trimmed_limits (ik_Limits i),
     vk_ExpiresAt = ik_ExpiresAt i, vk_RevokedAt = None, vk_CreatedAt = 0, vk_UpdatedAt = 0\<rparr>"

definition issued_checks :: "string \<times> string \<Rightarrow> (string \<times> string) result" where
  "issued_checks p = (let token = trim_space (fst p); kid = trim_space (snd p) in
     if token = [] then Inl (wrapf VErrValidation ''gateway returned empty virtual key'')
     else if \<not> has_prefix token GatewayVirtualKeyPrefix then Inl (wrapf VErrValidation ''gateway returned non-sk virtual key prefix'')
     else if kid = [] then Inl (wrapf VErrValidation ''gateway returned empty key id'')
     else Inr (token, kid))"

definition stored_key :: "IssueVirtualKeyInput \<Rightarrow> string \<Rightarrow> string \<Rightarrow> id \<Rightarrow> time \<Rightarrow> VirtualKey" where
  "stored_key i token kid vid now = (requested i)\<lparr>vk_ID := vid, vk_KeyPrefix := take 12 token, vk_GatewayKeyID := Some kid,
     vk_CreatedAt := now, vk_UpdatedAt := now\<rparr>"

text \<open>The INSERT, refused when its id or its hash exists.\<close>

definition insertVirtualKey :: "vk_db \<Rightarrow> VirtualKeyRow \<Rightarrow> vk_db option" where
  "insertVirtualKey db r = (if list_ex (\<lambda>x. vr_ID x = vr_ID r \<or> vr_Hash x = vr_Hash r) db then None else Some (db @ [r]))"

definition IssueVirtualKey :: "'w KeyService \<Rightarrow> IssueVirtualKeyInput \<Rightarrow> vk_db \<Rightarrow> 'w \<Rightarrow> 'w \<times> vk_db \<times> (VirtualKey \<times> string) result" where
  "IssueVirtualKey k i db w = (case issue_checks (va_Now (ks_Vault k) w) i of
      Some e \<Rightarrow> (w, db, Inl e)
    | None \<Rightarrow> (case ks_Gateway k of
        None \<Rightarrow> (w, db, Inl (wrapf VErrValidation ''virtual key gateway not configured''))
      | Some g \<Rightarrow> (case gateway_IssueVirtualKey g (requested i) w of
          (w1, Inl e) \<Rightarrow> (w1, db, Inl (wrapctx ''issue virtual key via gateway'' e))
        | (w1, Inr p) \<Rightarrow> (case issued_checks p of
            Inl e \<Rightarrow> (w1, db, Inl e)
          | Inr (token, kid) \<Rightarrow> (case store_NewID (ks_Vault k) w1 of (w2, vid) \<Rightarrow>
              (let vk = stored_key i token kid vid (va_Now (ks_Vault k) w2) in
               case insertVirtualKey db \<lparr>vr_Key = vk, vr_Hash = ks_Hash k token\<rparr> of
                 None \<Rightarrow> (w2, db, Inl (wrapf VErrAlreadyExists ''virtual key hash collision''))
               | Some db1 \<Rightarrow> (ks_Emit k ''provider.virtual_key.issued'' vid (''virtual key issued: '' @ vk_Name vk @ '' ('' @ vk_KeyPrefix vk @ '')'') w2,
                   db1, Inr (vk, token))))))))"

definition ListVirtualKeys :: "vk_db \<Rightarrow> VirtualKey list" where
  "ListVirtualKeys db = sort_key (\<lambda>k. FormatTime (vk_CreatedAt k)) (map vr_Key db)"

definition vk_by_id :: "vk_db \<Rightarrow> id \<Rightarrow> VirtualKeyRow option" where "vk_by_id db i = List.find (\<lambda>r. vr_ID r = i) db"

definition GetVirtualKey :: "vk_db \<Rightarrow> id \<Rightarrow> VirtualKey result" where
  "GetVirtualKey db i = (if trim_space i = [] then Inl (wrapf VErrValidation ''id is required'')
     else case vk_by_id db i of None \<Rightarrow> Inl (bare VErrNotFound) | Some r \<Rightarrow> Inr (vr_Key r))"

definition revoked_key :: "time \<Rightarrow> VirtualKeyRow \<Rightarrow> VirtualKeyRow" where
  "revoked_key now r = r\<lparr>vr_Key := (vr_Key r)\<lparr>vk_RevokedAt := Some now, vk_UpdatedAt := now\<rparr>\<rparr>"

text \<open>The call of the gateway when the key has a handle and a gateway is configured.\<close>

definition gateway_call :: "'w KeyService \<Rightarrow> ('w LiteLLM \<Rightarrow> string \<Rightarrow> string \<Rightarrow> 'w \<Rightarrow> 'w \<times> goerror option) \<Rightarrow> VirtualKey \<Rightarrow> 'w \<Rightarrow> 'w \<times> goerror option" where
  "gateway_call k f vk w = (case (vk_GatewayKeyID vk, ks_Gateway k) of
      (Some kid, Some g) \<Rightarrow> f g kid (vk_Name vk) w | _ \<Rightarrow> (w, None))"

definition revoke_failed :: "'w KeyService \<Rightarrow> id \<Rightarrow> goerror \<Rightarrow> 'w \<Rightarrow> 'w" where
  "revoke_failed k i e = ks_Emit k ''provider.virtual_key.revoke_gateway_failed'' i (''virtual key gateway revoke failed: '' @ err_msg e)"

definition RevokeVirtualKey :: "'w KeyService \<Rightarrow> id \<Rightarrow> vk_db \<Rightarrow> 'w \<Rightarrow> 'w \<times> vk_db \<times> goerror option" where
  "RevokeVirtualKey k i db w = (case GetVirtualKey db i of
      Inl e \<Rightarrow> (w, db, Some e)
    | Inr vk \<Rightarrow> (if vk_RevokedAt vk \<noteq> None then (fst (gateway_call k gateway_RevokeVirtualKey vk w), db, None)
        else (let db1 = update_where (\<lambda>r. vr_ID r = i \<and> vk_RevokedAt (vr_Key r) = None) (revoked_key (va_Now (ks_Vault k) w)) db;
                  w2 = (case gateway_call k gateway_RevokeVirtualKey vk w of (w1, None) \<Rightarrow> w1 | (w1, Some e) \<Rightarrow> revoke_failed k i e w1) in
              (ks_Emit k ''provider.virtual_key.revoked'' i ''virtual key revoked'' w2, db1, None))))"

definition GatewayRevokeVirtualKey :: "'w KeyService \<Rightarrow> id \<Rightarrow> vk_db \<Rightarrow> 'w \<Rightarrow> 'w \<times> goerror option" where
  "GatewayRevokeVirtualKey k i db w = (case GetVirtualKey db i of
      Inl e \<Rightarrow> (w, Some e) | Inr vk \<Rightarrow> gateway_call k RevokeVirtualKeyStrict vk w)"

definition tombstone :: "time \<Rightarrow> VirtualKeyRow \<Rightarrow> VirtualKeyRow" where
  "tombstone now r = r\<lparr>vr_Key := (vr_Key r)\<lparr>vk_RevokedAt := (case vk_RevokedAt (vr_Key r) of None \<Rightarrow> Some now | t \<Rightarrow> t), vk_UpdatedAt := now\<rparr>\<rparr>"

definition DeleteVirtualKey :: "'w KeyService \<Rightarrow> id \<Rightarrow> vk_db \<Rightarrow> 'w \<Rightarrow> 'w \<times> vk_db \<times> goerror option" where
  "DeleteVirtualKey k i db w = (case GetVirtualKey db i of
      Inl e \<Rightarrow> (w, db, Some e)
    | Inr vk \<Rightarrow> (case gateway_call k gateway_RevokeVirtualKey vk w of
        (w1, Some e) \<Rightarrow> (revoke_failed k i e w1, update_where (\<lambda>r. vr_ID r = i) (tombstone (va_Now (ks_Vault k) w1)) db,
            Some (wrapctx ''delete virtual key: gateway revoke failed'' e))
      | (w1, None) \<Rightarrow> (ks_Emit k ''provider.virtual_key.deleted'' i ''virtual key deleted'' w1, filter (\<lambda>r. vr_ID r \<noteq> i) db, None)))"

definition Allows :: "VirtualKey \<Rightarrow> string \<Rightarrow> bool" where
  "Allows vk alias \<longleftrightarrow> vk_Scopes vk = [] \<or> List.member (vk_Scopes vk) alias"

end
