(* ===== verification/Companion.thy ===== *)
theory Companion
  imports VirtualKeys GoFiles WorkspacesRunner
begin

text \<open>
  internal/companion (service.go, migrations.go): companion devices, enrollment codes, the tool environment
  and the queue of unconfirmed revocations.  The tables are lists of rows; the secrets and the virtual keys
  are those of their brokers, and the file of the machine backups is explicit.  SHA-256, bcrypt, the random
  bytes, the clock and systemctl are functions; SQL statements do not fail, but for the constraints of the
  schema.
\<close>

section \<open>Vocabulary and tables\<close>

definition EErrNotFound :: sentinel where "EErrNotFound = ErrSentinel ''environments: not found''"
definition EErrValidation :: sentinel where "EErrValidation = ErrSentinel ''environments: validation failed''"
definition EErrConflict :: sentinel where "EErrConflict = ErrSentinel ''environments: conflict''"
definition EErrExpired :: sentinel where "EErrExpired = ErrSentinel ''environments: expired''"
definition EErrConsumed :: sentinel where "EErrConsumed = ErrSentinel ''environments: already consumed''"
definition EErrRevoked :: sentinel where "EErrRevoked = ErrSentinel ''environments: revoked''"

lemmas env_sentinels = EErrNotFound_def EErrValidation_def EErrConflict_def EErrExpired_def EErrConsumed_def EErrRevoked_def

record DeviceInfo =
  di_Hostname :: string
  di_Platform :: string
  di_Arch :: string
  di_ClientVersion :: string
  di_Shell :: string
  di_EnvRevision :: int
  di_EnvVariableCount :: int
  di_BackupLastSnapshot :: "time option"

record Device =
  dev_ID :: id
  dev_Name :: string
  dev_TokenHash :: string
  dev_TokenPrefix :: string
  dev_AllowProviderOAuth :: bool
  dev_Info :: DeviceInfo
  dev_ForgejoTokenName :: string
  dev_LastSeenAt :: "time option"
  dev_RevokedAt :: "time option"
  dev_CreatedAt :: time
  dev_UpdatedAt :: time

record EnrollmentRow =
  en_ID :: id
  en_CodeHash :: string
  en_CodePrefix :: string
  en_ExpiresAt :: time
  en_ConsumedAt :: "time option"
  en_CreatedAt :: time

record MachineBackupCredentials =
  mb_ResticRepo :: string
  mb_ResticPassword :: string
  mb_RestUser :: string
  mb_RestPassword :: string

record EnvMeta =
  em_Revision :: int
  em_VariableCount :: int
  em_UpdatedAt :: time

record EnvVariable =
  ev_Name :: string
  ev_SecretID :: id
  ev_Version :: int
  ev_CreatedAt :: time
  ev_UpdatedAt :: time

record EnvGrant =
  eg_DeviceID :: id
  eg_GrantedAt :: time

record RevocationPending =
  rp_DeviceID :: id
  rp_Target :: string
  rp_Handle :: string
  rp_Alias :: string
  rp_Attempts :: int
  rp_LastError :: string
  rp_UpdatedAt :: time

record companion_db =
  co_devices :: "Device list"
  co_enrollments :: "EnrollmentRow list"
  co_meta :: "EnvMeta option"
  co_variables :: "EnvVariable list"
  co_grants :: "EnvGrant list"
  co_pending :: "RevocationPending list"
  co_secrets :: secrets_db
  co_keys :: vk_db
  co_fs :: FS
  co_domain :: "string option"

text \<open>The tables after the migration.\<close>

definition empty_companion_db :: companion_db where
  "empty_companion_db = \<lparr>co_devices = [], co_enrollments = [], co_meta = Some \<lparr>em_Revision = 0, em_VariableCount = 0, em_UpdatedAt = 0\<rparr>,
     co_variables = [], co_grants = [], co_pending = [], co_secrets = [], co_keys = [],
     co_fs = \<lparr>fs_Files = (\<lambda>_. None), fs_Faults = [], fs_Next = 0\<rparr>, co_domain = None\<rparr>"

text \<open>What the service is made of: its brokers, when they are configured, and its overrides.\<close>

record 'w Companion =
  ce_Keys :: "'w KeyService"
  ce_Secrets :: bool
  ce_Providers :: bool
  ce_Bcrypt :: "string \<Rightarrow> 'w \<Rightarrow> 'w \<times> string result"
  ce_Restart :: "string \<Rightarrow> 'w \<Rightarrow> 'w \<times> goerror option"
  ce_HtpasswdPath :: string
  ce_ResticService :: string

abbreviation ce_Vault :: "'w Companion \<Rightarrow> 'w Vault" where "ce_Vault c \<equiv> ks_Vault (ce_Keys c)"
abbreviation ce_Hash :: "'w Companion \<Rightarrow> string \<Rightarrow> string" where "ce_Hash c \<equiv> ks_Hash (ce_Keys c)"

definition nowUTC :: "'w Companion \<Rightarrow> 'w \<Rightarrow> time" where "nowUTC c w = va_Now (ce_Vault c) w"

definition machineBackupHtpasswdPath :: "'w Companion \<Rightarrow> string" where
  "machineBackupHtpasswdPath c = (if ce_HtpasswdPath c \<noteq> [] then ce_HtpasswdPath c else ''/var/lib/omahab/machine-backups.htpasswd'')"

definition machineBackupServiceName :: "'w Companion \<Rightarrow> string" where
  "machineBackupServiceName c = (if ce_ResticService c \<noteq> [] then ce_ResticService c else ''restic-rest-server'')"

section \<open>Validation\<close>

definition toolEnvNameRe :: "string \<Rightarrow> bool" where
  "toolEnvNameRe s \<longleftrightarrow> (case s of [] \<Rightarrow> False | c # r \<Rightarrow> (is_upper c \<or> c = CHR ''_'') \<and>
     list_all (\<lambda>c. is_upper c \<or> is_digit c \<or> c = CHR ''_'') r \<and> length r \<le> 127)"

definition reservedNames :: "string list" where
  "reservedNames = [''OPENAI_BASE_URL'', ''OPENAI_API_KEY'', ''ANTHROPIC_BASE_URL'', ''ANTHROPIC_API_KEY'', ''OMAHAB_MODEL_FAST'',
     ''OMAHAB_MODEL_BALANCED'', ''OMAHAB_MODEL_REASONING'', ''OMAHAB_MODEL_EMBEDDING'']"

definition ValidateToolEnvName :: "string \<Rightarrow> goerror option" where
  "ValidateToolEnvName name0 = (let name = trim_space name0 in
     if name = [] then Some (wrapf EErrValidation ''name is required'')
     else if length name > 128 then Some (wrapf EErrValidation ''name too long (max 128)'')
     else if \<not> toolEnvNameRe name then Some (wrapf EErrValidation (''invalid name '' @ quote name @ '': must match ^[A-Z_][A-Z0-9_]{0,127}$''))
     else if List.member reservedNames name then Some (wrapf EErrValidation (quote name @ '' is reserved and cannot be overwritten''))
     else None)"

definition ValidateToolEnvValue :: "string \<Rightarrow> goerror option" where
  "ValidateToolEnvValue v =
     (if List.member v (char_of (0 :: nat)) then Some (wrapf EErrValidation ''value must not contain NUL'')
      else if List.member v (char_of (13 :: nat)) then Some (wrapf EErrValidation ''value must not contain CR'')
      else if List.member v (char_of (10 :: nat)) then Some (wrapf EErrValidation ''value must not contain LF'')
      else if v = [] then Some (wrapf EErrValidation ''value is required'')
      else if length v > 64 * 1024 then Some (wrapf EErrValidation ''value too large'')
      else None)"

text \<open>base64.RawURLEncoding: the URL alphabet, without padding.\<close>

definition base64url :: "string \<Rightarrow> string" where
  "base64url s = map (\<lambda>c. if c = CHR ''+'' then CHR ''-'' else if c = CHR ''/'' then CHR ''_'' else c) (filter (\<lambda>c. c \<noteq> CHR ''='') (base64 s))"

definition generateEnrollmentCode :: "'w Companion \<Rightarrow> 'w \<Rightarrow> 'w \<times> string" where
  "generateEnrollmentCode c w = (case va_Rand (ce_Vault c) 24 w of (w1, b) \<Rightarrow> (w1, base64url b))"

definition generateDeviceToken :: "'w Companion \<Rightarrow> 'w \<Rightarrow> 'w \<times> string" where
  "generateDeviceToken c w = (case va_Rand (ce_Vault c) 32 w of (w1, b) \<Rightarrow> (w1, ''oma_dev_'' @ base64url b))"

definition generateBackupPassword :: "'w Companion \<Rightarrow> 'w \<Rightarrow> 'w \<times> string" where
  "generateBackupPassword c w = (case va_Rand (ce_Vault c) 32 w of (w1, b) \<Rightarrow> (w1, base64url b))"

section \<open>Reading devices\<close>

definition required :: "string \<Rightarrow> goerror" where "required what = wrapf EErrValidation (what @ '' is required'')"

definition device_by_id :: "companion_db \<Rightarrow> id \<Rightarrow> Device option" where
  "device_by_id db i = List.find (\<lambda>d. dev_ID d = i) (co_devices db)"

definition GetDevice :: "companion_db \<Rightarrow> id \<Rightarrow> Device result" where
  "GetDevice db i0 = (let i = trim_space i0 in
     if i = [] then Inl (required ''id'')
     else case device_by_id db i of None \<Rightarrow> Inl (wrapf EErrNotFound (''device '' @ quote i @ '' not found'')) | Some d \<Rightarrow> Inr d)"

definition ListDevices :: "companion_db \<Rightarrow> Device list" where
  "ListDevices db = sort_key (\<lambda>d. FormatTime (dev_CreatedAt d)) (co_devices db)"

definition update_device :: "id \<Rightarrow> (Device \<Rightarrow> Device) \<Rightarrow> companion_db \<Rightarrow> companion_db" where
  "update_device i f db = db\<lparr>co_devices := update_where (\<lambda>d. dev_ID d = i) f (co_devices db)\<rparr>"

definition seen_device :: "time \<Rightarrow> Device \<Rightarrow> Device" where
  "seen_device now d = d\<lparr>dev_LastSeenAt := Some now, dev_UpdatedAt := now\<rparr>"

definition ValidateDeviceToken :: "'w Companion \<Rightarrow> string \<Rightarrow> companion_db \<Rightarrow> 'w \<Rightarrow> companion_db \<times> Device result" where
  "ValidateDeviceToken c token0 db w = (let token = trim_space token0 in
     if token = [] then (db, Inl (required ''token''))
     else if \<not> has_prefix token ''oma_dev_'' then (db, Inl (wrapf EErrNotFound ''invalid device token prefix''))
     else if line_breaking token then (db, Inl (wrapf EErrValidation ''token contains invalid character''))
     else case List.find (\<lambda>d. dev_TokenHash d = ce_Hash c token) (co_devices db) of
         None \<Rightarrow> (db, Inl (wrapf EErrNotFound ''device not found''))
       | Some d \<Rightarrow> if dev_RevokedAt d \<noteq> None then (db, Inl (wrapf EErrRevoked ''device revoked''))
           else (update_device (dev_ID d) (seen_device (nowUTC c w)) db, Inr (seen_device (nowUTC c w) d)))"

section \<open>Enrollment codes\<close>

text \<open>The INSERT, refused when its id or its hash exists.\<close>

definition insertEnrollment :: "companion_db \<Rightarrow> EnrollmentRow \<Rightarrow> companion_db option" where
  "insertEnrollment db e = (if list_ex (\<lambda>x. en_ID x = en_ID e \<or> en_CodeHash x = en_CodeHash e) (co_enrollments db) then None
     else Some (db\<lparr>co_enrollments := co_enrollments db @ [e]\<rparr>))"

definition new_enrollment :: "'w Companion \<Rightarrow> string \<Rightarrow> time \<Rightarrow> time \<Rightarrow> companion_db \<Rightarrow> 'w \<Rightarrow> 'w \<times> companion_db \<times> EnrollmentRow result" where
  "new_enrollment c code expires now db w = (case store_NewID (ce_Vault c) w of (w1, i) \<Rightarrow>
     (let e = \<lparr>en_ID = i, en_CodeHash = ce_Hash c code, en_CodePrefix = take 8 code, en_ExpiresAt = expires,
            en_ConsumedAt = None, en_CreatedAt = now\<rparr> in
      case insertEnrollment db e of
        None \<Rightarrow> (w1, db, Inl (wrapf EErrConflict ''enrollment hash collision''))
      | Some db1 \<Rightarrow> (w1, db1, Inr e)))"

definition enrollment_life :: time where "enrollment_life = 600 * ns_per_sec"

definition CreateEnrollment :: "'w Companion \<Rightarrow> companion_db \<Rightarrow> 'w \<Rightarrow> 'w \<times> companion_db \<times> (EnrollmentRow \<times> string) result" where
  "CreateEnrollment c db w = (case generateEnrollmentCode c w of (w1, code) \<Rightarrow>
     (let now = nowUTC c w1 in case new_enrollment c code (now + enrollment_life) now db w1 of
        (w2, db1, Inl e) \<Rightarrow> (w2, db1, Inl e) | (w2, db1, Inr e) \<Rightarrow> (w2, db1, Inr (e, code))))"

definition CreateEnrollmentWithCode :: "'w Companion \<Rightarrow> string \<Rightarrow> time \<Rightarrow> companion_db \<Rightarrow> 'w \<Rightarrow> 'w \<times> companion_db \<times> EnrollmentRow result" where
  "CreateEnrollmentWithCode c code expires db w =
     (if trim_space code = [] then (w, db, Inl (required ''code'')) else new_enrollment c code expires (nowUTC c w) db w)"

definition CleanupExpiredEnrollments :: "time \<Rightarrow> companion_db \<Rightarrow> companion_db" where
  "CleanupExpiredEnrollments now db = db\<lparr>co_enrollments :=
     filter (\<lambda>e. \<not> (FormatTime (en_ExpiresAt e) < FormatTime now \<and> en_ConsumedAt e = None)) (co_enrollments db)\<rparr>"

text \<open>Reading the enrollment of a code: the checks before the transaction.\<close>

definition check_code :: "'w Companion \<Rightarrow> string \<Rightarrow> companion_db \<Rightarrow> time \<Rightarrow> EnrollmentRow result" where
  "check_code c code0 db now = (let code = trim_space code0 in
     if code = [] then Inl (required ''code'')
     else if line_breaking code then Inl (wrapf EErrValidation ''code contains invalid character'')
     else case List.find (\<lambda>e. en_CodeHash e = ce_Hash c code) (co_enrollments db) of
         None \<Rightarrow> Inl (wrapf EErrNotFound ''invalid enrollment code'')
       | Some e \<Rightarrow> if en_ConsumedAt e \<noteq> None then Inl (wrapf EErrConsumed ''enrollment already consumed'')
           else if now > en_ExpiresAt e then Inl (wrapf EErrExpired ''enrollment expired'')
           else Inr e)"

definition no_info :: DeviceInfo where
  "no_info = \<lparr>di_Hostname = [], di_Platform = [], di_Arch = [], di_ClientVersion = [], di_Shell = [], di_EnvRevision = 0,
     di_EnvVariableCount = 0, di_BackupLastSnapshot = None\<rparr>"

definition new_device :: "'w Companion \<Rightarrow> id \<Rightarrow> string \<Rightarrow> time \<Rightarrow> Device" where
  "new_device c i token now = \<lparr>dev_ID = i, dev_Name = ''device-'' @ take 8 i, dev_TokenHash = ce_Hash c token, dev_TokenPrefix = take 16 token,
     dev_AllowProviderOAuth = False, dev_Info = no_info, dev_ForgejoTokenName = [], dev_LastSeenAt = None, dev_RevokedAt = None,
     dev_CreatedAt = now, dev_UpdatedAt = now\<rparr>"

text \<open>The transaction: consume the code where it is not consumed, insert the device; all or nothing.\<close>

definition enroll_tx :: "time \<Rightarrow> id \<Rightarrow> Device \<Rightarrow> companion_db \<Rightarrow> companion_db \<times> goerror option" where
  "enroll_tx now eid d db =
     (if \<not> list_ex (\<lambda>e. en_ID e = eid \<and> en_ConsumedAt e = None) (co_enrollments db) then (db, Some (wrapf EErrConsumed ''enrollment already consumed''))
      else if list_ex (\<lambda>x. dev_ID x = dev_ID d \<or> dev_TokenHash x = dev_TokenHash d) (co_devices db) then (db, Some (wrapf EErrConflict ''device token collision''))
      else (db\<lparr>co_enrollments := update_where (\<lambda>e. en_ID e = eid \<and> en_ConsumedAt e = None) (\<lambda>e. e\<lparr>en_ConsumedAt := Some now\<rparr>) (co_enrollments db),
              co_devices := co_devices db @ [d]\<rparr>, None))"

section \<open>The file of the machine backups\<close>

definition nl :: string where "nl = [char_of (10 :: nat)]"

definition text_lines :: "string \<Rightarrow> string list" where
  "text_lines data = map trim_space (split_on (char_of (10 :: nat)) data)"

text \<open>The user of a line: what precedes the first colon; a line without one has none.\<close>

definition line_user :: "string \<Rightarrow> string option" where
  "line_user l = (if List.member l CHR '':'' then Some (takeWhile (\<lambda>c. c \<noteq> CHR '':'') l) else None)"

definition of_other_user :: "string \<Rightarrow> string \<Rightarrow> bool" where
  "of_other_user user l \<longleftrightarrow> (case line_user l of None \<Rightarrow> False | Some u \<Rightarrow> u \<noteq> user)"

definition updated_text :: "string \<Rightarrow> string \<Rightarrow> string \<Rightarrow> string" where
  "updated_text user line data =
     join nl (filter (\<lambda>l. l \<noteq> [] \<and> \<not> has_prefix l ''#'' \<and> of_other_user user l) (text_lines data) @ [line]) @ nl"

definition removed_text :: "string \<Rightarrow> string \<Rightarrow> string" where
  "removed_text user data = (let out = filter (\<lambda>l. l \<noteq> [] \<and> of_other_user user l) (text_lines data) in
     if out = [] then [] else join nl out @ nl)"

text \<open>os.WriteFile: creates the file with the mode or truncates it.\<close>

definition fs_WriteFile :: "string \<Rightarrow> string \<Rightarrow> nat \<Rightarrow> FS \<Rightarrow> FS \<times> goerror option" where
  "fs_WriteFile p content mode = fs_call (\<lambda>m. Some (m(p \<mapsto> (case m p of None \<Rightarrow> mode | Some (md, _) \<Rightarrow> md, content))))"

definition is_not_exist :: "goerror \<Rightarrow> bool" where "is_not_exist e \<longleftrightarrow> e = errorf ''file does not exist''"

definition replace_htpasswd :: "string \<Rightarrow> string \<Rightarrow> FS \<Rightarrow> FS \<times> goerror option" where
  "replace_htpasswd path content fs = (let tmp = path @ ''.tmp'' in
     case fs_WriteFile tmp content (6 * 64) fs of
       (fs1, Some e) \<Rightarrow> (fs1, Some (wrapctx ''write htpasswd tmp'' e))
     | (fs1, None) \<Rightarrow> (case fs_Rename tmp path fs1 of
         (fs2, Some e) \<Rightarrow> (fst (fs_Remove tmp fs2), Some (wrapctx ''rename htpasswd'' e))
       | (fs2, None) \<Rightarrow> (fst (fs_Chmod path (6 * 64) fs2), None)))"

definition updateHtpasswdEntry :: "'w Companion \<Rightarrow> string \<Rightarrow> string \<Rightarrow> FS \<Rightarrow> 'w \<Rightarrow> 'w \<times> FS \<times> goerror option" where
  "updateHtpasswdEntry c user password fs w = (let path = machineBackupHtpasswdPath c in
     case ce_Bcrypt c password w of
       (w1, Inl e) \<Rightarrow> (w1, fs, Some (wrapctx ''bcrypt'' e))
     | (w1, Inr h) \<Rightarrow> (case fs_MkdirAll (path_dir path) fs of
         (fs1, Some e) \<Rightarrow> (w1, fs1, Some (wrapctx ''mkdir htpasswd dir'' e))
       | (fs1, None) \<Rightarrow> (case fs_ReadFile path fs1 of
           (fs2, Inr data) \<Rightarrow> (w1, replace_htpasswd path (updated_text user (user @ '':'' @ h) data) fs2)
         | (fs2, Inl e) \<Rightarrow> if is_not_exist e then (w1, replace_htpasswd path (updated_text user (user @ '':'' @ h) []) fs2)
             else (w1, fs2, Some (wrapctx ''read htpasswd'' e)))))"

definition removeHtpasswdEntry :: "'w Companion \<Rightarrow> string \<Rightarrow> FS \<Rightarrow> FS \<times> goerror option" where
  "removeHtpasswdEntry c user fs = (let path = machineBackupHtpasswdPath c in
     case fs_ReadFile path fs of
       (fs1, Inl e) \<Rightarrow> (fs1, if is_not_exist e then None else Some e)
     | (fs1, Inr data) \<Rightarrow> replace_htpasswd path (removed_text user data) fs1)"

definition reloadResticServer :: "'w Companion \<Rightarrow> 'w \<Rightarrow> 'w \<times> goerror option" where
  "reloadResticServer c w = (let svc = machineBackupServiceName c in case ce_Restart c svc w of
      (w1, None) \<Rightarrow> (w1, None)
    | (w1, Some e) \<Rightarrow> if contains_str (err_msg e) ''executable file not found'' \<or> contains_str (err_msg e) ''not found'' then (w1, None)
        else (w1, Some (wrapctx (''restart '' @ svc) e)))"

definition getInstanceDomain :: "companion_db \<Rightarrow> string" where
  "getInstanceDomain db = (case co_domain db of None \<Rightarrow> [] | Some d \<Rightarrow> trim_space d)"

definition machine_user :: "id \<Rightarrow> string" where "machine_user i = ''dev-'' @ i"

definition ensureMachineBackupCredentials :: "'w Companion \<Rightarrow> id \<Rightarrow> companion_db \<Rightarrow> 'w \<Rightarrow> 'w \<times> companion_db \<times> MachineBackupCredentials result" where
  "ensureMachineBackupCredentials c i db w =
     (case generateBackupPassword c w of (w1, resticPassword) \<Rightarrow> (case generateBackupPassword c w1 of (w2, restPassword) \<Rightarrow>
       (let domain = (if getInstanceDomain db = [] then ''example.invalid'' else getInstanceDomain db) in
        case updateHtpasswdEntry c (machine_user i) restPassword (co_fs db) w2 of
          (w3, fs, Some e) \<Rightarrow> (w3, db\<lparr>co_fs := fs\<rparr>, Inl e)
        | (w3, fs, None) \<Rightarrow> (case reloadResticServer c w3 of
            (w4, Some e) \<Rightarrow> (w4, db\<lparr>co_fs := fs\<rparr>, Inl e)
          | (w4, None) \<Rightarrow> (w4, db\<lparr>co_fs := fs\<rparr>, Inr \<lparr>mb_ResticRepo = ''rest:https://backup.'' @ domain @ ''/dev-'' @ i,
              mb_ResticPassword = resticPassword, mb_RestUser = machine_user i, mb_RestPassword = restPassword\<rparr>)))))"

definition EnrollDevice :: "'w Companion \<Rightarrow> string \<Rightarrow> companion_db \<Rightarrow> 'w \<Rightarrow> 'w \<times> companion_db \<times> (Device \<times> string \<times> MachineBackupCredentials option) result" where
  "EnrollDevice c code db w = (let now = nowUTC c w in case check_code c code db now of
      Inl e \<Rightarrow> (w, db, Inl e)
    | Inr e \<Rightarrow> (case generateDeviceToken c w of (w1, token) \<Rightarrow> (case store_NewID (ce_Vault c) w1 of (w2, i) \<Rightarrow>
        (case enroll_tx now (en_ID e) (new_device c i token now) db of
          (db1, Some err) \<Rightarrow> (w2, db1, Inl err)
        | (db1, None) \<Rightarrow> (case ensureMachineBackupCredentials c i db1 w2 of
            (w3, db2, Inl _) \<Rightarrow> (w3, db2, Inr (new_device c i token now, token, None))
          | (w3, db2, Inr cr) \<Rightarrow> (w3, db2, Inr (new_device c i token now, token, Some cr)))))))"

end
