(* ===== verification/CompanionEnv.thy ===== *)
theory CompanionEnv
  imports Companion
begin

text \<open>
  internal/companion (service.go): revoking and updating devices, the revision of the tool environment,
  grants, the queue of unconfirmed revocations, the variables and the bundle a device receives.
\<close>

section \<open>Devices\<close>

text \<open>The file and the reload are best effort here: their errors are dropped.\<close>

definition drop_machine_entry :: "'w Companion \<Rightarrow> id \<Rightarrow> companion_db \<Rightarrow> 'w \<Rightarrow> 'w \<times> companion_db" where
  "drop_machine_entry c i db w = (fst (reloadResticServer c w), db\<lparr>co_fs := fst (removeHtpasswdEntry c (machine_user i) (co_fs db))\<rparr>)"

definition mark_revoked :: "time \<Rightarrow> id \<Rightarrow> companion_db \<Rightarrow> companion_db" where
  "mark_revoked now i db = db\<lparr>co_devices :=
     update_where (\<lambda>d. dev_ID d = i \<and> dev_RevokedAt d = None) (\<lambda>d. d\<lparr>dev_RevokedAt := Some now, dev_UpdatedAt := now\<rparr>) (co_devices db)\<rparr>"

definition RevokeDevice :: "'w Companion \<Rightarrow> id \<Rightarrow> companion_db \<Rightarrow> 'w \<Rightarrow> 'w \<times> companion_db \<times> Device result" where
  "RevokeDevice c i0 db w = (let i = trim_space i0 in
     if i = [] then (w, db, Inl (required ''id''))
     else if list_ex (\<lambda>d. dev_ID d = i \<and> dev_RevokedAt d = None) (co_devices db)
     then (case drop_machine_entry c i (mark_revoked (nowUTC c w) i db) w of (w1, db1) \<Rightarrow> (w1, db1, GetDevice db1 i))
     else (case GetDevice db i of
         Inl e \<Rightarrow> (w, db, Inl e)
       | Inr d \<Rightarrow> if dev_RevokedAt d \<noteq> None then (case drop_machine_entry c i db w of (w1, db1) \<Rightarrow> (w1, db1, Inr d)) else (w, db, Inr d)))"

text \<open>An UPDATE by the trimmed id, then the device read back.\<close>

definition update_and_get :: "id \<Rightarrow> (Device \<Rightarrow> Device) \<Rightarrow> companion_db \<Rightarrow> companion_db \<times> Device result" where
  "update_and_get i0 f db = (let i = trim_space i0 in
     if i = [] then (db, Inl (required ''id'')) else (let db1 = update_device i f db in (db1, GetDevice db1 i)))"

definition SetDeviceAllowOAuth :: "time \<Rightarrow> id \<Rightarrow> bool \<Rightarrow> companion_db \<Rightarrow> companion_db \<times> Device result" where
  "SetDeviceAllowOAuth now i allow db = update_and_get i (\<lambda>d. d\<lparr>dev_AllowProviderOAuth := allow, dev_UpdatedAt := now\<rparr>) db"

definition UpdateLastSeen :: "time \<Rightarrow> id \<Rightarrow> companion_db \<Rightarrow> companion_db" where
  "UpdateLastSeen now i db = update_device (trim_space i) (seen_device now) db"

definition cap_at :: "nat \<Rightarrow> string \<Rightarrow> string" where "cap_at n s = take n (trim_space s)"

definition info_check :: "string \<Rightarrow> string \<Rightarrow> goerror option" where
  "info_check what s = refuse (line_breaking s) (wrapf EErrValidation (what @ '' contains invalid character''))"

definition clean_info :: "DeviceInfo \<Rightarrow> DeviceInfo" where
  "clean_info n = \<lparr>di_Hostname = cap_at 253 (di_Hostname n), di_Platform = cap_at 64 (di_Platform n), di_Arch = cap_at 32 (di_Arch n),
     di_ClientVersion = cap_at 64 (di_ClientVersion n), di_Shell = cap_at 256 (di_Shell n), di_EnvRevision = max 0 (di_EnvRevision n),
     di_EnvVariableCount = max 0 (di_EnvVariableCount n), di_BackupLastSnapshot = di_BackupLastSnapshot n\<rparr>"

definition UpdateDeviceInfo :: "time \<Rightarrow> id \<Rightarrow> DeviceInfo \<Rightarrow> companion_db \<Rightarrow> companion_db \<times> Device result" where
  "UpdateDeviceInfo now i n db =
     (if trim_space i = [] then (db, Inl (required ''id''))
      else case first_refusal [info_check ''hostname'' (di_Hostname n), info_check ''platform'' (di_Platform n), info_check ''arch'' (di_Arch n),
          info_check ''client version'' (di_ClientVersion n), info_check ''shell'' (di_Shell n)] of
        Some e \<Rightarrow> (db, Inl e)
      | None \<Rightarrow> update_and_get i (\<lambda>d. (seen_device now d)\<lparr>dev_Info := clean_info n\<rparr>) db)"

definition SetForgejoTokenName :: "time \<Rightarrow> id \<Rightarrow> string \<Rightarrow> companion_db \<Rightarrow> companion_db \<times> goerror option" where
  "SetForgejoTokenName now i0 name db = (let i = trim_space i0 in
     if i = [] then (db, Some (required ''id''))
     else (update_device i (\<lambda>d. d\<lparr>dev_ForgejoTokenName := trim_space name, dev_UpdatedAt := now\<rparr>) db, None))"

definition GetForgejoTokenName :: "companion_db \<Rightarrow> id \<Rightarrow> string result" where
  "GetForgejoTokenName db i = (case GetDevice db i of Inl e \<Rightarrow> Inl e | Inr d \<Rightarrow> Inr (dev_ForgejoTokenName d))"

section \<open>Revision and grants\<close>

definition GetRevision :: "companion_db \<Rightarrow> (int \<times> int) result" where
  "GetRevision db = (case co_meta db of None \<Rightarrow> Inl (errorf ''get revision: sql: no rows in result set'')
     | Some m \<Rightarrow> Inr (em_Revision m, em_VariableCount m))"

definition env_secrets :: "companion_db \<Rightarrow> SecretRow list" where
  "env_secrets db = filter (\<lambda>r. sec_Scope (se_Secret r) = ''environment'') (co_secrets db)"

definition IncrementRevision :: "time \<Rightarrow> companion_db \<Rightarrow> companion_db \<times> int result" where
  "IncrementRevision now db = (case co_meta db of
      None \<Rightarrow> (db, Inl (wrapf EErrNotFound ''environment_meta not found''))
    | Some m \<Rightarrow> (db\<lparr>co_meta := Some \<lparr>em_Revision = em_Revision m + 1, em_VariableCount = int (length (env_secrets db)), em_UpdatedAt = now\<rparr>\<rparr>,
        Inr (em_Revision m + 1)))"

definition IsDeviceGranted :: "companion_db \<Rightarrow> id \<Rightarrow> bool" where
  "IsDeviceGranted db i \<longleftrightarrow> list_ex (\<lambda>g. eg_DeviceID g = trim_space i) (co_grants db)"

definition GrantedDeviceIDs :: "companion_db \<Rightarrow> id list" where
  "GrantedDeviceIDs db = map (\<lambda>g. trim_space (eg_DeviceID g)) (co_grants db)"

definition bumped :: "time \<Rightarrow> companion_db \<Rightarrow> companion_db \<times> goerror option" where
  "bumped now db = (case IncrementRevision now db of (db1, Inl e) \<Rightarrow> (db1, Some e) | (db1, Inr _) \<Rightarrow> (db1, None))"

definition GrantDevice :: "time \<Rightarrow> id \<Rightarrow> companion_db \<Rightarrow> companion_db \<times> goerror option" where
  "GrantDevice now i0 db = (let i = trim_space i0 in
     if i = [] then (db, Some (required ''device_id''))
     else case GetDevice db i of
         Inl e \<Rightarrow> (db, Some e)
       | Inr d \<Rightarrow> if dev_RevokedAt d \<noteq> None then (db, Some (wrapf EErrRevoked ''device revoked''))
           else if list_ex (\<lambda>g. eg_DeviceID g = i) (co_grants db) then (db, None)
           else bumped now (db\<lparr>co_grants := co_grants db @ [\<lparr>eg_DeviceID = i, eg_GrantedAt = now\<rparr>]\<rparr>))"

definition RevokeGrant :: "time \<Rightarrow> id \<Rightarrow> companion_db \<Rightarrow> companion_db \<times> goerror option" where
  "RevokeGrant now i0 db = (let i = trim_space i0 in
     if i = [] then (db, Some (required ''device_id''))
     else case GetDevice db i of
         Inl e \<Rightarrow> (db, Some e)
       | Inr _ \<Rightarrow> if list_ex (\<lambda>g. eg_DeviceID g = i) (co_grants db)
           then bumped now (db\<lparr>co_grants := filter (\<lambda>g. eg_DeviceID g \<noteq> i) (co_grants db)\<rparr>) else (db, None))"

section \<open>Unconfirmed revocations\<close>

definition RevokeTargetGatewayKey :: string where "RevokeTargetGatewayKey = ''gateway_key''"
definition RevokeTargetForgejoToken :: string where "RevokeTargetForgejoToken = ''forgejo_token''"
definition RevokeTargetHtpasswd :: string where "RevokeTargetHtpasswd = ''htpasswd''"
definition RevokeTargetDeviceSecret :: string where "RevokeTargetDeviceSecret = ''device_secret''"

definition pending_key :: "RevocationPending \<Rightarrow> id \<times> string \<times> string" where
  "pending_key p = (rp_DeviceID p, rp_Target p, rp_Handle p)"

text \<open>INSERT ... ON CONFLICT (device_id, target, handle) DO UPDATE.\<close>

definition upsertPending :: "RevocationPending \<Rightarrow> RevocationPending list \<Rightarrow> RevocationPending list" where
  "upsertPending p ps = (if list_ex (\<lambda>x. pending_key x = pending_key p) ps
     then update_where (\<lambda>x. pending_key x = pending_key p)
       (\<lambda>x. x\<lparr>rp_Attempts := rp_Attempts x + 1, rp_LastError := rp_LastError p, rp_Alias := rp_Alias p, rp_UpdatedAt := rp_UpdatedAt p\<rparr>) ps
     else ps @ [p])"

definition QueueRevocationPending :: "time \<Rightarrow> id \<Rightarrow> string \<Rightarrow> string \<Rightarrow> string \<Rightarrow> goerror \<Rightarrow> companion_db \<Rightarrow> companion_db \<times> goerror option" where
  "QueueRevocationPending now i target handle alias e db =
     (if trim_space i = [] \<or> trim_space target = [] then (db, Some (wrapf EErrValidation ''device_id and target are required''))
      else (db\<lparr>co_pending := upsertPending \<lparr>rp_DeviceID = trim_space i, rp_Target = trim_space target, rp_Handle = trim_space handle,
          rp_Alias = trim_space alias, rp_Attempts = 1, rp_LastError = take 1000 (err_msg e), rp_UpdatedAt = now\<rparr> (co_pending db)\<rparr>, None))"

definition ListRevocationPending :: "companion_db \<Rightarrow> RevocationPending list" where
  "ListRevocationPending db = sort_key (\<lambda>p. FormatTime (rp_UpdatedAt p)) (co_pending db)"

definition ClearRevocationPending :: "id \<Rightarrow> string \<Rightarrow> string \<Rightarrow> companion_db \<Rightarrow> companion_db" where
  "ClearRevocationPending i target handle db =
     db\<lparr>co_pending := filter (\<lambda>p. pending_key p \<noteq> (trim_space i, trim_space target, trim_space handle)) (co_pending db)\<rparr>"

definition RemoveDeviceBackupCredentials :: "'w Companion \<Rightarrow> id \<Rightarrow> companion_db \<Rightarrow> 'w \<Rightarrow> 'w \<times> companion_db \<times> goerror option" where
  "RemoveDeviceBackupCredentials c i0 db w = (let i = trim_space i0 in
     if i = [] then (w, db, Some (required ''device_id''))
     else case removeHtpasswdEntry c (machine_user i) (co_fs db) of
         (fs, Some e) \<Rightarrow> (w, db\<lparr>co_fs := fs\<rparr>, Some (wrapctx ''remove htpasswd entry'' e))
       | (fs, None) \<Rightarrow> (case reloadResticServer c w of
           (w1, Some e) \<Rightarrow> (w1, db\<lparr>co_fs := fs\<rparr>, Some (wrapctx ''reload restic server'' e))
         | (w1, None) \<Rightarrow> (w1, db\<lparr>co_fs := fs\<rparr>, None)))"

section \<open>Variables\<close>

definition ListToolEnvs :: "companion_db \<Rightarrow> Secret list" where
  "ListToolEnvs db = sort_key sec_Name (map se_Secret (env_secrets db))"

definition keep_variable :: "EnvVariable \<Rightarrow> EnvVariable list \<Rightarrow> EnvVariable list" where
  "keep_variable v vs = filter (\<lambda>x. ev_Name x \<noteq> ev_Name v) vs @ [v]"

text \<open>Put, then Rotate when the secret exists already.\<close>

definition put_or_rotate :: "'w Companion \<Rightarrow> string \<Rightarrow> string \<Rightarrow> string \<Rightarrow> secrets_db \<Rightarrow> 'w \<Rightarrow> 'w \<times> secrets_db \<times> Secret result" where
  "put_or_rotate c scope name val s w = (case secret_Put (ce_Vault c) s scope name val w of
      (w1, s1, Inl e) \<Rightarrow> if errors_is e ErrConflict
        then (case RotateByName (ce_Vault c) s1 scope name val w1 of
            (w2, s2, Inl e2) \<Rightarrow> (w2, s2, Inl (wrapctx (''rotate tool env '' @ quote name) e2)) | r \<Rightarrow> r)
        else (w1, s1, Inl (wrapctx (''put tool env '' @ quote name) e))
    | r \<Rightarrow> r)"

definition PutToolEnv :: "'w Companion \<Rightarrow> string \<Rightarrow> string \<Rightarrow> companion_db \<Rightarrow> 'w \<Rightarrow> 'w \<times> companion_db \<times> Secret result" where
  "PutToolEnv c name0 val db w = (case checked (ValidateToolEnvName name0) (ValidateToolEnvValue val) of
      Some e \<Rightarrow> (w, db, Inl e)
    | None \<Rightarrow> if \<not> ce_Secrets c then (w, db, Inl (wrapf EErrNotFound ''secrets not configured''))
        else (let name = trim_space name0 in case put_or_rotate c ''environment'' name val (co_secrets db) w of
            (w1, s1, Inl e) \<Rightarrow> (w1, db\<lparr>co_secrets := s1\<rparr>, Inl e)
          | (w1, s1, Inr sec) \<Rightarrow> (case IncrementRevision (nowUTC c w1) (db\<lparr>co_secrets := s1\<rparr>) of
              (db1, Inl e) \<Rightarrow> (w1, db1, Inl e)
            | (db1, Inr _) \<Rightarrow> (w1, db1\<lparr>co_variables := keep_variable \<lparr>ev_Name = name, ev_SecretID = sec_ID sec, ev_Version = sec_Version sec,
                  ev_CreatedAt = sec_CreatedAt sec, ev_UpdatedAt = sec_UpdatedAt sec\<rparr> (co_variables db1)\<rparr>, Inr sec))))"

definition DeleteToolEnv :: "'w Companion \<Rightarrow> string \<Rightarrow> companion_db \<Rightarrow> 'w \<Rightarrow> companion_db \<times> goerror option" where
  "DeleteToolEnv c name0 db w = (case ValidateToolEnvName name0 of
      Some e \<Rightarrow> (db, Some e)
    | None \<Rightarrow> if \<not> ce_Secrets c then (db, Some (wrapf EErrNotFound ''secrets not configured''))
        else (let name = trim_space name0 in case DeleteByName (co_secrets db) ''environment'' name of
            (s1, Some e) \<Rightarrow> (db\<lparr>co_secrets := s1\<rparr>, Some (if errors_is e ErrNotFound then wrapf EErrNotFound (''tool env '' @ quote name @ '' not found'')
                else wrapctx (''delete tool env '' @ quote name) e))
          | (s1, None) \<Rightarrow> (case bumped (nowUTC c w) (db\<lparr>co_secrets := s1\<rparr>) of
              (db1, Some e) \<Rightarrow> (db1, Some e)
            | (db1, None) \<Rightarrow> (db1\<lparr>co_variables := filter (\<lambda>v. ev_Name v \<noteq> name) (co_variables db1)\<rparr>, None))))"

section \<open>The key of a device\<close>

definition device_secret :: "id \<Rightarrow> string" where "device_secret i = ''device-key.'' @ i"

text \<open>The newest key of the device that is not revoked and, by the text of its expiry, not expired.\<close>

definition valid_key_of :: "companion_db \<Rightarrow> id \<Rightarrow> time \<Rightarrow> VirtualKey option" where
  "valid_key_of db i now = (case rev (sort_key (\<lambda>k. FormatTime (vk_CreatedAt k)) (filter (\<lambda>k. vk_OwnerKind k = Some ''device'' \<and> vk_OwnerID k = Some i \<and>
       vk_RevokedAt k = None \<and> (case vk_ExpiresAt k of None \<Rightarrow> True | Some t \<Rightarrow> FormatTime now < FormatTime t)) (map vr_Key (co_keys db)))) of
      [] \<Rightarrow> None | k # _ \<Rightarrow> Some k)"

definition no_limits :: KeyLimits where
  "no_limits = \<lparr>kl_RPM = None, kl_TPM = None, kl_Concurrency = None, kl_BudgetAmount = None, kl_BudgetDuration = None\<rparr>"

definition device_key_input :: "id \<Rightarrow> IssueVirtualKeyInput" where
  "device_key_input i = \<lparr>ik_Name = ''device-'' @ take 8 i, ik_Scopes = [''omahab/fast'', ''omahab/balanced'', ''omahab/reasoning'', ''omahab/embedding''],
     ik_ExpiresAt = None, ik_OwnerKind = Some ''device'', ik_OwnerID = Some i, ik_Limits = no_limits\<rparr>"

text \<open>Issuing: the plaintext is cached when it can be, the revision grows.\<close>

definition issue_device_key :: "'w Companion \<Rightarrow> id \<Rightarrow> companion_db \<Rightarrow> 'w \<Rightarrow> 'w \<times> companion_db \<times> string result" where
  "issue_device_key c i db w = (case IssueVirtualKey (ce_Keys c) (device_key_input i) (co_keys db) w of
      (w1, ks, Inl e) \<Rightarrow> (w1, db\<lparr>co_keys := ks\<rparr>, Inl (wrapctx ''issue device virtual key'' e))
    | (w1, ks, Inr (_, token)) \<Rightarrow> (case put_or_rotate c ''platform-app'' (device_secret i) token (co_secrets db) w1 of
        (w2, s1, _) \<Rightarrow> (w2, fst (IncrementRevision (nowUTC c w2) (db\<lparr>co_keys := ks, co_secrets := s1\<rparr>)), Inr token)))"

definition ensureDeviceVirtualKey :: "'w Companion \<Rightarrow> id \<Rightarrow> companion_db \<Rightarrow> 'w \<Rightarrow> 'w \<times> companion_db \<times> string result" where
  "ensureDeviceVirtualKey c i db w =
     (if \<not> ce_Providers c \<or> \<not> ce_Secrets c then (w, db, Inl (errorf ''providers or secrets not configured''))
      else case valid_key_of db i (nowUTC c w) of
        None \<Rightarrow> issue_device_key c i db w
      | Some vk \<Rightarrow> (case RevealByName (ce_Vault c) (co_secrets db) ''platform-app'' (device_secret i) of
          Inr v \<Rightarrow> if trim_space v \<noteq> [] then (w, db, Inr (trim_space v))
            else (case RevokeVirtualKey (ce_Keys c) (vk_ID vk) (co_keys db) w of (w1, ks, _) \<Rightarrow> issue_device_key c i (db\<lparr>co_keys := ks\<rparr>) w1)
        | Inl _ \<Rightarrow> (case RevokeVirtualKey (ce_Keys c) (vk_ID vk) (co_keys db) w of (w1, ks, _) \<Rightarrow> issue_device_key c i (db\<lparr>co_keys := ks\<rparr>) w1)))"

section \<open>The bundle\<close>

type_synonym EnvBundle = "string \<Rightarrow> string option"

text \<open>The values of the variables; one that cannot be opened is skipped.\<close>

definition tool_values :: "'w Companion \<Rightarrow> companion_db \<Rightarrow> EnvBundle" where
  "tool_values c db = foldl (\<lambda>b m. case RevealByName (ce_Vault c) (co_secrets db) ''environment'' (sec_Name m) of
      Inl _ \<Rightarrow> b | Inr v \<Rightarrow> b(sec_Name m \<mapsto> v)) Map.empty (ListToolEnvs db)"

definition models_url :: "companion_db \<Rightarrow> string" where
  "models_url db = (if getInstanceDomain db = [] then ''https://models.example.invalid'' else ''https://models.'' @ getInstanceDomain db)"

definition reserved_values :: "string \<Rightarrow> string \<Rightarrow> EnvBundle \<Rightarrow> EnvBundle" where
  "reserved_values url key b0 = (let b = (if key \<noteq> [] then b0(''OPENAI_API_KEY'' \<mapsto> key, ''ANTHROPIC_API_KEY'' \<mapsto> key) else b0) in
     b(''OPENAI_BASE_URL'' \<mapsto> url, ''ANTHROPIC_BASE_URL'' \<mapsto> url, ''OMAHAB_MODEL_FAST'' \<mapsto> ''omahab/fast'',
       ''OMAHAB_MODEL_BALANCED'' \<mapsto> ''omahab/balanced'', ''OMAHAB_MODEL_REASONING'' \<mapsto> ''omahab/reasoning'',
       ''OMAHAB_MODEL_EMBEDDING'' \<mapsto> ''omahab/embedding''))"

definition GetCompanionEnvironmentBundle :: "'w Companion \<Rightarrow> id \<Rightarrow> companion_db \<Rightarrow> 'w \<Rightarrow> 'w \<times> companion_db \<times> (EnvBundle \<times> int) result" where
  "GetCompanionEnvironmentBundle c i0 db w = (let i = trim_space i0 in
     if i = [] then (w, db, Inl (required ''device_id''))
     else case device_by_id db i of
       None \<Rightarrow> (w, db, Inl (wrapf EErrNotFound ''device not found''))
     | Some d \<Rightarrow> if dev_RevokedAt d \<noteq> None then (w, db, Inl (wrapf EErrRevoked ''device revoked''))
         else case GetRevision db of
           Inl e \<Rightarrow> (w, db, Inl e)
         | Inr (rv, _) \<Rightarrow>
             if \<not> IsDeviceGranted db i \<or> \<not> ce_Secrets c then (w, db, Inr (Map.empty, rv))
             else (case ensureDeviceVirtualKey c i db w of
                 (w1, db1, k) \<Rightarrow> (w1, db1, Inr (reserved_values (models_url db) (case k of Inl _ \<Rightarrow> [] | Inr key \<Rightarrow> key) (tool_values c db), rv))))"

end
