(* ===== verification/CompanionOps.thy ===== *)
theory CompanionOps
  imports CompanionEnv ControlErrors
begin

text \<open>
  internal/controlplane (companion_ops.go): the operations of the API on companions.  Revoking a device
  contains it locally, then revokes every external credential; what is not confirmed stays in the queue of
  unconfirmed revocations, which the retry driver empties.  Forgejo, the folder sharing and the publishing
  of events are functions of the world; the gateway is the adapter of VirtualKeys.
\<close>

text \<open>The parts of the backend, when they are configured; for Forgejo, the source control and its client.\<close>

record 'w Backend =
  bk_Environments :: "'w Companion option"
  bk_Keys :: "'w KeyService option"
  bk_Gateway :: "'w LiteLLM option"
  bk_Secrets :: bool
  bk_Forgejo :: "((string \<Rightarrow> 'w \<Rightarrow> 'w \<times> goerror option) option) option"
  bk_CreateToken :: "string \<Rightarrow> 'w \<Rightarrow> 'w \<times> string result"
  bk_ForgejoEnv :: string
  bk_Syncer :: "(id \<Rightarrow> 'w \<Rightarrow> 'w \<times> string list result) option"
  bk_Reconcile :: "'w \<Rightarrow> 'w"
  bk_Publish :: "string \<Rightarrow> string \<Rightarrow> string \<Rightarrow> 'w \<Rightarrow> 'w"
  bk_EnsureResticApp :: "'w \<Rightarrow> 'w"

type_synonym 'w cst = "'w \<times> companion_db"

definition environments_missing :: goerror where
  "environments_missing = translateError (wrapf ErrNotConfigured ''environments not configured'')"

section \<open>Devices\<close>

record CompanionDevice =
  cd_ID :: id
  cd_Name :: string
  cd_Info :: DeviceInfo
  cd_AllowProviderOAuth :: bool
  cd_Granted :: bool
  cd_LastSeenAt :: "time option"
  cd_RevokedAt :: "time option"
  cd_CreatedAt :: time
  cd_UpdatedAt :: time

definition companionDeviceToAPI :: "Device \<Rightarrow> bool \<Rightarrow> CompanionDevice" where
  "companionDeviceToAPI d granted = \<lparr>cd_ID = dev_ID d, cd_Name = dev_Name d, cd_Info = dev_Info d, cd_AllowProviderOAuth = dev_AllowProviderOAuth d,
     cd_Granted = granted, cd_LastSeenAt = dev_LastSeenAt d, cd_RevokedAt = dev_RevokedAt d, cd_CreatedAt = dev_CreatedAt d, cd_UpdatedAt = dev_UpdatedAt d\<rparr>"

text \<open>A page of a listing; a limit above 100 is 50.\<close>

definition paginate :: "int \<Rightarrow> int \<Rightarrow> 'a list \<Rightarrow> 'a list" where
  "paginate limit0 offset xs = (if limit0 \<le> 0 \<and> offset \<le> 0 then xs
     else (let limit = (if limit0 \<le> 0 \<or> 100 < limit0 then (if 0 < limit0 \<and> limit0 < 50 then limit0 else 50) else limit0) in
       take (nat limit) (drop (nat offset) xs)))"

definition ListCompanionDevices :: "'w Backend \<Rightarrow> int \<Rightarrow> int \<Rightarrow> companion_db \<Rightarrow> CompanionDevice list" where
  "ListCompanionDevices b limit offset db = (if bk_Environments b = None then []
     else paginate limit offset (map (\<lambda>d. companionDeviceToAPI d (List.member (GrantedDeviceIDs db) (dev_ID d))) (ListDevices db)))"

definition as_api :: "companion_db \<times> Device result \<Rightarrow> companion_db \<times> CompanionDevice result" where
  "as_api r = (case r of (db, Inl e) \<Rightarrow> (db, Inl (translateError e)) | (db, Inr d) \<Rightarrow> (db, Inr (companionDeviceToAPI d (IsDeviceGranted db (dev_ID d)))))"

definition GetCompanionDevice :: "'w Backend \<Rightarrow> id \<Rightarrow> companion_db \<Rightarrow> CompanionDevice result" where
  "GetCompanionDevice b i db = (if bk_Environments b = None then Inl environments_missing else snd (as_api (db, GetDevice db i)))"

definition UpdateCompanionDeviceInfo :: "'w Backend \<Rightarrow> id \<Rightarrow> DeviceInfo \<Rightarrow> 'w cst \<Rightarrow> companion_db \<times> CompanionDevice result" where
  "UpdateCompanionDeviceInfo b i n s = (case s of (w, db) \<Rightarrow> (case bk_Environments b of
      None \<Rightarrow> (db, Inl environments_missing) | Some c \<Rightarrow> as_api (UpdateDeviceInfo (nowUTC c w) i n db)))"

definition api_SetDeviceAllowOAuth :: "'w Backend \<Rightarrow> id \<Rightarrow> bool \<Rightarrow> 'w cst \<Rightarrow> companion_db \<times> CompanionDevice result" where
  "api_SetDeviceAllowOAuth b i allow s = (case s of (w, db) \<Rightarrow> (case bk_Environments b of
      None \<Rightarrow> (db, Inl environments_missing) | Some c \<Rightarrow> as_api (SetDeviceAllowOAuth (nowUTC c w) i allow db)))"

section \<open>Enrolling\<close>

definition CreateCompanionEnrollment :: "'w Backend \<Rightarrow> 'w cst \<Rightarrow> 'w cst \<times> (EnrollmentRow \<times> string) result" where
  "CreateCompanionEnrollment b s = (case s of (w, db) \<Rightarrow> (case bk_Environments b of
      None \<Rightarrow> (s, Inl environments_missing)
    | Some c \<Rightarrow> (case CreateEnrollment c db w of
        (w1, db1, Inl e) \<Rightarrow> ((w1, db1), Inl (translateError e)) | (w1, db1, Inr r) \<Rightarrow> ((w1, db1), Inr r))))"

record EnrollCompanionResponse =
  er_Token :: string
  er_TokenPrefix :: string
  er_Credentials :: "MachineBackupCredentials option"
  er_ForgejoToken :: string
  er_ForgejoHost :: string

definition host_of :: "string \<Rightarrow> string" where
  "host_of u = hd (split_on CHR ''/'' (trim_prefix (trim_prefix u ''https://'') ''http://''))"

definition forgejo_host :: "'w Backend \<Rightarrow> 'w Companion \<Rightarrow> companion_db \<Rightarrow> string" where
  "forgejo_host b c db = (case RevealByName (ce_Vault c) (co_secrets db) ''platform-app'' ''forgejo_base_url'' of
      Inr v \<Rightarrow> if trim_space v \<noteq> [] then host_of (trim_space v)
        else if trim_space (bk_ForgejoEnv b) \<noteq> [] then host_of (trim_space (bk_ForgejoEnv b))
        else if getInstanceDomain db \<noteq> [] then ''git.'' @ getInstanceDomain db else []
    | Inl _ \<Rightarrow> if trim_space (bk_ForgejoEnv b) \<noteq> [] then host_of (trim_space (bk_ForgejoEnv b))
        else if getInstanceDomain db \<noteq> [] then ''git.'' @ getInstanceDomain db else [])"

definition device_token_name :: "id \<Rightarrow> string" where "device_token_name i = ''device-'' @ i"

text \<open>The token of the device at Forgejo, best effort; its name is stored for the revocation.\<close>

definition with_git_token :: "'w Backend \<Rightarrow> 'w Companion \<Rightarrow> id \<Rightarrow> EnrollCompanionResponse \<Rightarrow> 'w cst \<Rightarrow> 'w cst \<times> EnrollCompanionResponse" where
  "with_git_token b c i resp s = (case (s, bk_Forgejo b) of
      ((w, db), Some (Some _)) \<Rightarrow> (case bk_CreateToken b (device_token_name i) w of
          (w1, Inr tok) \<Rightarrow> if trim_space tok = [] then ((w1, db), resp)
            else ((w1, fst (SetForgejoTokenName (nowUTC c w1) i (device_token_name i) db)),
              resp\<lparr>er_ForgejoToken := trim_space tok, er_ForgejoHost := forgejo_host b c db\<rparr>)
        | (w1, Inl _) \<Rightarrow> ((w1, db), resp))
    | _ \<Rightarrow> (s, resp))"

definition EnrollCompanion :: "'w Backend \<Rightarrow> string \<Rightarrow> 'w cst \<Rightarrow> 'w cst \<times> EnrollCompanionResponse result" where
  "EnrollCompanion b code s = (case s of (w, db) \<Rightarrow> (case bk_Environments b of
      None \<Rightarrow> (s, Inl environments_missing)
    | Some c \<Rightarrow> if trim_space code = [] then (s, Inl (translateError (Validation ''code is required'')))
        else (case EnrollDevice c code db w of
          (w1, db1, Inl e) \<Rightarrow> ((w1, db1), Inl (translateError e))
        | (w1, db1, Inr (d, token, cr)) \<Rightarrow>
            (case with_git_token b c (dev_ID d) \<lparr>er_Token = token, er_TokenPrefix = take 16 token, er_Credentials = cr, er_ForgejoToken = [], er_ForgejoHost = []\<rparr> (w1, db1) of
              ((w2, db2), resp) \<Rightarrow> ((bk_EnsureResticApp b w2, db2), Inr resp)))))"

section \<open>Revoking\<close>

text \<open>An error of an external goes to the queue; the error of the queue itself is dropped.\<close>

definition queued :: "'w Companion \<Rightarrow> id \<Rightarrow> string \<Rightarrow> string \<Rightarrow> string \<Rightarrow> goerror \<Rightarrow> 'w cst \<Rightarrow> 'w cst" where
  "queued c i target handle alias e s = (case s of (w, db) \<Rightarrow> (w, fst (QueueRevocationPending (nowUTC c w) i target handle alias e db)))"

definition on_error :: "('w cst \<times> goerror option) \<Rightarrow> (goerror \<Rightarrow> 'w cst \<Rightarrow> 'w cst) \<Rightarrow> 'w cst" where
  "on_error r f = (case r of (s, None) \<Rightarrow> s | (s, Some e) \<Rightarrow> f e s)"

definition retryGatewayKeyRevoke :: "'w Backend \<Rightarrow> RevocationPending \<Rightarrow> 'w cst \<Rightarrow> 'w cst \<times> goerror option" where
  "retryGatewayKeyRevoke b p s = (case bk_Gateway b of None \<Rightarrow> (s, Some (errorf ''gateway not configured''))
     | Some g \<Rightarrow> (case RevokeVirtualKeyStrict g (rp_Handle p) (rp_Alias p) (fst s) of (w, e) \<Rightarrow> ((w, snd s), e)))"

definition retryForgejoTokenRevoke :: "'w Backend \<Rightarrow> RevocationPending \<Rightarrow> 'w cst \<Rightarrow> 'w cst \<times> goerror option" where
  "retryForgejoTokenRevoke b p s = (case bk_Forgejo b of None \<Rightarrow> (s, Some (errorf ''scm not configured''))
     | Some None \<Rightarrow> (s, Some (errorf ''forgejo client is required''))
     | Some (Some delete_token) \<Rightarrow> (case delete_token (rp_Handle p) (fst s) of (w, e) \<Rightarrow> ((w, snd s), e)))"

definition remove_credentials :: "'w Companion \<Rightarrow> id \<Rightarrow> 'w cst \<Rightarrow> 'w cst \<times> goerror option" where
  "remove_credentials c i s = (case RemoveDeviceBackupCredentials c i (snd s) (fst s) of (w, db, e) \<Rightarrow> ((w, db), e))"

text \<open>Deleting the cached secret: one that is absent is confirmed.\<close>

definition delete_secret :: "'w Backend \<Rightarrow> string \<Rightarrow> 'w cst \<Rightarrow> 'w cst \<times> goerror option" where
  "delete_secret b name s = (if \<not> bk_Secrets b then (s, None)
     else case DeleteByName (co_secrets (snd s)) ''platform-app'' name of (s1, e) \<Rightarrow>
       ((fst s, (snd s)\<lparr>co_secrets := s1\<rparr>), case e of None \<Rightarrow> None | Some x \<Rightarrow> if errors_is x ErrNotFound then None else Some x))"

definition remove_sharing :: "'w Backend \<Rightarrow> id \<Rightarrow> 'w cst \<Rightarrow> 'w cst \<times> goerror option" where
  "remove_sharing b i s = (case bk_Syncer b of None \<Rightarrow> (s, None)
     | Some f \<Rightarrow> (case f i (fst s) of (w, Inl e) \<Rightarrow> ((w, snd s), Some e)
         | (w, Inr affected) \<Rightarrow> ((if affected \<noteq> [] then bk_Reconcile b w else w, snd s), None)))"

text \<open>The attempt for one row; an unknown target has none.\<close>

definition retry_target :: "'w Backend \<Rightarrow> 'w Companion \<Rightarrow> RevocationPending \<Rightarrow> 'w cst \<Rightarrow> ('w cst \<times> goerror option) option" where
  "retry_target b c p s = (if rp_Target p = RevokeTargetGatewayKey then Some (retryGatewayKeyRevoke b p s)
     else if rp_Target p = RevokeTargetForgejoToken then Some (retryForgejoTokenRevoke b p s)
     else if rp_Target p = RevokeTargetHtpasswd then Some (remove_credentials c (rp_DeviceID p) s)
     else if rp_Target p = RevokeTargetDeviceSecret then Some (delete_secret b (rp_Handle p) s)
     else if rp_Target p = ''sync_folders'' then Some (remove_sharing b (rp_DeviceID p) s)
     else None)"

definition confirmed :: "'w Companion \<Rightarrow> RevocationPending \<Rightarrow> 'w cst \<Rightarrow> 'w cst" where
  "confirmed c p s = (case s of (w, db) \<Rightarrow> (let db1 = ClearRevocationPending (rp_DeviceID p) (rp_Target p) (rp_Handle p) db in
     (w, if rp_Target p = RevokeTargetForgejoToken then fst (SetForgejoTokenName (nowUTC c w) (rp_DeviceID p) [] db1) else db1)))"

definition retry_row :: "'w Backend \<Rightarrow> 'w Companion \<Rightarrow> RevocationPending \<Rightarrow> 'w cst \<times> int \<Rightarrow> 'w cst \<times> int" where
  "retry_row b c p sn = (case sn of (s, n) \<Rightarrow> (case retry_target b c p s of
      None \<Rightarrow> (s, n)
    | Some (s1, Some e) \<Rightarrow> (queued c (rp_DeviceID p) (rp_Target p) (rp_Handle p) (rp_Alias p) e s1, n)
    | Some (s1, None) \<Rightarrow> (confirmed c p s1, n + 1)))"

definition RetryPendingDeviceRevocations :: "'w Backend \<Rightarrow> 'w cst \<Rightarrow> 'w cst \<times> int result" where
  "RetryPendingDeviceRevocations b s = (case bk_Environments b of
      None \<Rightarrow> (s, Inl environments_missing)
    | Some c \<Rightarrow> (case fold (retry_row b c) (ListRevocationPending (snd s)) (s, 0) of (s1, n) \<Rightarrow> (s1, Inr n)))"

text \<open>The keys of the device: the local row first, then the gateway's confirmation.\<close>

definition device_keys :: "companion_db \<Rightarrow> id \<Rightarrow> VirtualKey list" where
  "device_keys db i = filter (\<lambda>k. vk_OwnerKind k = Some ''device'' \<and> vk_OwnerID k = Some i) (map vr_Key (co_keys db))"

fun revoke_keys :: "'w Companion \<Rightarrow> 'w KeyService \<Rightarrow> id \<Rightarrow> VirtualKey list \<Rightarrow> 'w cst \<Rightarrow> 'w cst \<times> goerror option" where
  "revoke_keys c ks i [] s = (s, None)"
| "revoke_keys c ks i (h # hs) (w, db) = (case RevokeVirtualKey ks (vk_ID h) (co_keys db) w of
      (w1, keys, Some e) \<Rightarrow> ((w1, db\<lparr>co_keys := keys\<rparr>), Some (translateError (wrapctx ''revoke device virtual key'' e)))
    | (w1, keys, None) \<Rightarrow> (let db1 = db\<lparr>co_keys := keys\<rparr>; kid = (case vk_GatewayKeyID h of None \<Rightarrow> [] | Some x \<Rightarrow> x) in
        if trim_space kid = [] then revoke_keys c ks i hs (w1, db1)
        else (case GatewayRevokeVirtualKey ks (vk_ID h) keys w1 of
            (w2, None) \<Rightarrow> revoke_keys c ks i hs (w2, db1)
          | (w2, Some e) \<Rightarrow> revoke_keys c ks i hs (queued c i RevokeTargetGatewayKey kid (vk_Name h) e (w2, db1)))))"

definition stored_token_name :: "companion_db \<Rightarrow> id \<Rightarrow> string" where
  "stored_token_name db i = (case GetForgejoTokenName db i of Inl _ \<Rightarrow> device_token_name i
     | Inr tn \<Rightarrow> if trim_space tn = [] then device_token_name i else trim_space tn)"

definition revoke_git_token :: "'w Backend \<Rightarrow> 'w Companion \<Rightarrow> id \<Rightarrow> 'w cst \<Rightarrow> 'w cst \<times> goerror option" where
  "revoke_git_token b c i s = (case bk_Forgejo b of
      Some (Some delete_token) \<Rightarrow> (let name = stored_token_name (snd s) i in case delete_token name (fst s) of
          (w, Some e) \<Rightarrow> (queued c i RevokeTargetForgejoToken name [] e (w, snd s), None)
        | (w, None) \<Rightarrow> (case SetForgejoTokenName (nowUTC c w) i [] (snd s) of
            (db, e) \<Rightarrow> ((w, db), map_option (\<lambda>x. translateError (wrapctx ''clear device token handle'' x)) e)))
    | _ \<Rightarrow> (s, None))"

definition pendingRevokeError :: "id \<Rightarrow> RevocationPending list \<Rightarrow> goerror" where
  "pendingRevokeError i ps = wrapf ApiServiceUnavailable (''device '' @ i @ '' contained but '' @ itoa (int (length ps)) @
     '' external revocation(s) unconfirmed, retry in progress'' @
     (case ps of [] \<Rightarrow> [] | p # _ \<Rightarrow> if trim_space (rp_LastError p) = [] then [] else '': '' @ rp_LastError p))"

text \<open>After the keys and the token at Forgejo: the secret, the file and the sharing, each queued when it fails.\<close>

definition revoke_secret :: "'w Backend \<Rightarrow> 'w Companion \<Rightarrow> id \<Rightarrow> 'w cst \<Rightarrow> 'w cst" where
  "revoke_secret b c i s = on_error (delete_secret b (device_secret i) s) (queued c i RevokeTargetDeviceSecret (device_secret i) [])"

definition revoke_entry :: "'w Companion \<Rightarrow> id \<Rightarrow> 'w cst \<Rightarrow> 'w cst" where
  "revoke_entry c i s = on_error (remove_credentials c i s) (queued c i RevokeTargetHtpasswd (machine_user i) [])"

definition revoke_sharing :: "'w Backend \<Rightarrow> 'w Companion \<Rightarrow> id \<Rightarrow> 'w cst \<Rightarrow> 'w cst" where
  "revoke_sharing b c i s = on_error (remove_sharing b i s) (queued c i ''sync_folders'' i [])"

definition revoke_device_keys :: "'w Backend \<Rightarrow> 'w Companion \<Rightarrow> id \<Rightarrow> 'w cst \<Rightarrow> 'w cst \<times> goerror option" where
  "revoke_device_keys b c i s = (case bk_Keys b of None \<Rightarrow> (s, None) | Some ks \<Rightarrow> revoke_keys c ks i (device_keys (snd s) i) s)"

definition unconfirmed :: "companion_db \<Rightarrow> id \<Rightarrow> RevocationPending list" where
  "unconfirmed db i = filter (\<lambda>p. rp_DeviceID p = i) (ListRevocationPending db)"

definition revokeDeviceExternals :: "'w Backend \<Rightarrow> 'w Companion \<Rightarrow> id \<Rightarrow> 'w cst \<Rightarrow> 'w cst \<times> goerror option" where
  "revokeDeviceExternals b c i s = (case revoke_device_keys b c i s of
      (s1, Some e) \<Rightarrow> (s1, Some e)
    | (s1, None) \<Rightarrow> (case revoke_git_token b c i (revoke_secret b c i s1) of
        (s2, Some e) \<Rightarrow> (s2, Some e)
      | (s2, None) \<Rightarrow> (case RetryPendingDeviceRevocations b (revoke_sharing b c i (revoke_entry c i s2)) of
          (s3, Inl e) \<Rightarrow> (s3, Some e)
        | (s3, Inr _) \<Rightarrow> (let mine = unconfirmed (snd s3) i in
            (s3, if mine = [] then None else Some (pendingRevokeError i mine))))))"

definition RevokeCompanionDevice :: "'w Backend \<Rightarrow> id \<Rightarrow> 'w cst \<Rightarrow> 'w cst \<times> goerror option" where
  "RevokeCompanionDevice b i0 s = (case s of (w, db) \<Rightarrow> (case bk_Environments b of
      None \<Rightarrow> (s, Some environments_missing)
    | Some c \<Rightarrow> (let i = trim_space i0 in
        if i = [] then (s, Some (translateError (Validation ''id is required'')))
        else case RevokeDevice c i db w of
            (w1, db1, Inl e) \<Rightarrow> ((w1, db1), Some (translateError e))
          | (w1, db1, Inr _) \<Rightarrow> (case revokeDeviceExternals b c i (w1, db1) of
              (s2, Some e) \<Rightarrow> (s2, Some e)
            | ((w2, db2), None) \<Rightarrow> ((bk_Publish b ''companion.revoked'' ''warning'' (''companion device revoked: '' @ i) w2, db2), None)))))"

section \<open>The tool environment\<close>

text \<open>Granting and ungranting: the revision is read back, an event is published.\<close>

definition grant_result :: "'w Backend \<Rightarrow> id \<Rightarrow> bool \<Rightarrow> string \<Rightarrow> 'w \<Rightarrow> companion_db \<times> goerror option \<Rightarrow> 'w cst \<times> (id \<times> bool \<times> int) result" where
  "grant_result b i granted msg w r = (case r of
      (db, Some e) \<Rightarrow> ((w, db), Inl (translateError e))
    | (db, None) \<Rightarrow> (case GetRevision db of Inl e \<Rightarrow> ((w, db), Inl (translateError e))
        | Inr (rv, _) \<Rightarrow> ((bk_Publish b ''environment.changed'' ''info'' (msg @ i) w, db), Inr (i, granted, rv))))"

definition change_grant :: "'w Backend \<Rightarrow> bool \<Rightarrow> id \<Rightarrow> 'w cst \<Rightarrow> 'w cst \<times> (id \<times> bool \<times> int) result" where
  "change_grant b granted i0 s = (case s of (w, db) \<Rightarrow> (case bk_Environments b of
      None \<Rightarrow> (s, Inl environments_missing)
    | Some c \<Rightarrow> (let i = trim_space i0 in
        if i = [] then (s, Inl (translateError (Validation ''id is required'')))
        else if granted then grant_result b i True ''tool environment shared with device '' w (GrantDevice (nowUTC c w) i db)
        else grant_result b i False ''tool environment unshared from device '' w (RevokeGrant (nowUTC c w) i db))))"

definition GrantDeviceEnvironment :: "'w Backend \<Rightarrow> id \<Rightarrow> 'w cst \<Rightarrow> 'w cst \<times> (id \<times> bool \<times> int) result" where
  "GrantDeviceEnvironment b = change_grant b True"

definition RevokeDeviceEnvironment :: "'w Backend \<Rightarrow> id \<Rightarrow> 'w cst \<Rightarrow> 'w cst \<times> (id \<times> bool \<times> int) result" where
  "RevokeDeviceEnvironment b = change_grant b False"

definition etag_of :: "(string \<Rightarrow> string) \<Rightarrow> int \<Rightarrow> id \<Rightarrow> string" where
  "etag_of hash rv i = ''W/'' @ [CHR 0x22] @ ''rev-'' @ itoa rv @ ''-'' @ take 8 (hash i) @ [CHR 0x22]"

definition GetCompanionEnvironment :: "'w Backend \<Rightarrow> string \<Rightarrow> 'w cst \<Rightarrow> 'w cst \<times> (EnvBundle \<times> string) result" where
  "GetCompanionEnvironment b token s = (case s of (w, db) \<Rightarrow> (case bk_Environments b of
      None \<Rightarrow> (s, Inl environments_missing)
    | Some c \<Rightarrow> if trim_space token = [] then (s, Inl (translateError (Validation ''device token is required'')))
        else (case ValidateDeviceToken c (trim_space token) db w of
            (db1, Inl e) \<Rightarrow> ((w, db1), Inl (translateError e))
          | (db1, Inr d) \<Rightarrow> (case GetCompanionEnvironmentBundle c (dev_ID d) db1 w of
              (w2, db2, Inl e) \<Rightarrow> ((w2, db2), Inl (translateError e))
            | (w2, db2, Inr (m, rv)) \<Rightarrow> ((w2, db2), Inr (m, etag_of (ce_Hash c) rv (dev_ID d)))))))"

definition PutToolEnvironment :: "'w Backend \<Rightarrow> string \<Rightarrow> string \<Rightarrow> 'w cst \<Rightarrow> 'w cst \<times> Secret result" where
  "PutToolEnvironment b name val s = (case s of (w, db) \<Rightarrow> (case bk_Environments b of
      None \<Rightarrow> (s, Inl environments_missing)
    | Some c \<Rightarrow> if line_breaking val then (s, Inl (translateError (Validation ''value must not contain NUL, CR, or LF'')))
        else (case PutToolEnv c name val db w of
            (w1, db1, Inl e) \<Rightarrow> ((w1, db1), Inl (translateError e))
          | (w1, db1, Inr m) \<Rightarrow> ((bk_Publish b ''environment.changed'' ''info'' (''tool environment changed: '' @ name @ '' updated'') w1, db1), Inr m))))"

definition DeleteToolEnvironment :: "'w Backend \<Rightarrow> string \<Rightarrow> 'w cst \<Rightarrow> 'w cst \<times> goerror option" where
  "DeleteToolEnvironment b name s = (case s of (w, db) \<Rightarrow> (case bk_Environments b of
      None \<Rightarrow> (s, Some environments_missing)
    | Some c \<Rightarrow> (case DeleteToolEnv c name db w of
            (db1, Some e) \<Rightarrow> ((w, db1), Some (translateError e))
          | (db1, None) \<Rightarrow> ((bk_Publish b ''environment.changed'' ''info'' (''tool environment changed: '' @ name @ '' deleted'') w, db1), None))))"

end
