(* ===== verification/CompanionStates.thy ===== *)
theory CompanionStates
  imports CompanionOps
begin

text \<open>
  internal/companion: the statements as a step relation, in which any interleaving of operations is a
  sequence; what every reachable state satisfies; what lasts; and that the operations are such sequences.
\<close>

section \<open>Statement steps\<close>

definition keeps_identity :: "(Device \<Rightarrow> Device) \<Rightarrow> bool" where
  "keeps_identity f \<longleftrightarrow> (\<forall>d. dev_ID (f d) = dev_ID d \<and> dev_TokenHash (f d) = dev_TokenHash d \<and> dev_RevokedAt (f d) = dev_RevokedAt d)"

inductive vk_step :: "vk_db \<Rightarrow> vk_db \<Rightarrow> bool" where
  vs_insert: "insertVirtualKey db r = Some db' \<Longrightarrow> vk_step db db'"
| vs_revoke: "vk_step db (update_where P (revoked_key now) db)"
| vs_tombstone: "vk_step db (update_where P (tombstone now) db)"
| vs_delete: "vk_step db (filter P db)"

inductive co_step :: "'w Companion \<Rightarrow> companion_db \<Rightarrow> companion_db \<Rightarrow> bool" for c where
  cs_enrollment: "insertEnrollment db e = Some db' \<Longrightarrow> co_step c db db'"
| cs_cleanup: "co_step c db (CleanupExpiredEnrollments now db)"
| cs_enroll: "enroll_tx now i d db = (db', e) \<Longrightarrow> co_step c db db'"
| cs_device: "keeps_identity f \<Longrightarrow> co_step c db (update_device i f db)"
| cs_revoke: "co_step c db (mark_revoked now i db)"
| cs_grant: "device_by_id db i \<noteq> None \<Longrightarrow> \<not> list_ex (\<lambda>g. eg_DeviceID g = i) (co_grants db) \<Longrightarrow>
    co_step c db (db\<lparr>co_grants := co_grants db @ [\<lparr>eg_DeviceID = i, eg_GrantedAt = now\<rparr>]\<rparr>)"
| cs_ungrant: "co_step c db (db\<lparr>co_grants := filter P (co_grants db)\<rparr>)"
| cs_bump: "co_step c db (fst (IncrementRevision now db))"
| cs_variable: "co_step c db (db\<lparr>co_variables := keep_variable v (co_variables db)\<rparr>)"
| cs_unset: "co_step c db (db\<lparr>co_variables := filter P (co_variables db)\<rparr>)"
| cs_queue: "rp_Attempts p = 1 \<Longrightarrow> co_step c db (db\<lparr>co_pending := upsertPending p (co_pending db)\<rparr>)"
| cs_clear: "co_step c db (db\<lparr>co_pending := filter P (co_pending db)\<rparr>)"
| cs_secrets: "secret_step (ce_Vault c) (co_secrets db) s \<Longrightarrow> co_step c db (db\<lparr>co_secrets := s\<rparr>)"
| cs_keys: "vk_step (co_keys db) ks \<Longrightarrow> co_step c db (db\<lparr>co_keys := ks\<rparr>)"
| cs_files: "co_step c db (db\<lparr>co_fs := fs\<rparr>)"

inductive_cases co_stepE: "co_step c db db'"

section \<open>Well-formed tables\<close>

abbreviation device_ids :: "companion_db \<Rightarrow> id set" where "device_ids db \<equiv> dev_ID ` set (co_devices db)"

definition devices_ok :: "Device list \<Rightarrow> bool" where
  "devices_ok ds \<longleftrightarrow> distinct (map dev_ID ds) \<and> distinct (map dev_TokenHash ds)"

definition enrollments_ok :: "EnrollmentRow list \<Rightarrow> bool" where
  "enrollments_ok es \<longleftrightarrow> distinct (map en_ID es) \<and> distinct (map en_CodeHash es)"

definition keys_ok :: "vk_db \<Rightarrow> bool" where
  "keys_ok ks \<longleftrightarrow> distinct (map vr_ID ks) \<and> distinct (map vr_Hash ks)"

definition grants_ok :: "id set \<Rightarrow> EnvGrant list \<Rightarrow> bool" where
  "grants_ok D gs \<longleftrightarrow> distinct (map eg_DeviceID gs) \<and> eg_DeviceID ` set gs \<subseteq> D"

definition pending_ok :: "RevocationPending list \<Rightarrow> bool" where
  "pending_ok ps \<longleftrightarrow> distinct (map pending_key ps) \<and> list_all (\<lambda>p. 1 \<le> rp_Attempts p) ps"

definition meta_ok :: "EnvMeta option \<Rightarrow> bool" where
  "meta_ok m \<longleftrightarrow> (case m of None \<Rightarrow> False | Some x \<Rightarrow> 0 \<le> em_Revision x)"

definition companion_ok :: "companion_db \<Rightarrow> bool" where
  "companion_ok db \<longleftrightarrow> devices_ok (co_devices db) \<and> enrollments_ok (co_enrollments db) \<and> meta_ok (co_meta db) \<and>
     distinct (map ev_Name (co_variables db)) \<and> grants_ok (device_ids db) (co_grants db) \<and> pending_ok (co_pending db) \<and>
     secrets_ok (co_secrets db) \<and> keys_ok (co_keys db)"

lemma list_ex_two_keys: "list_ex (\<lambda>x. k x = a \<or> l x = b) xs \<longleftrightarrow> a \<in> k ` set xs \<or> b \<in> l ` set xs"
  by (auto simp: list_ex_iff)

lemma insertVirtualKey_Some:
  assumes "insertVirtualKey db r = Some db'"
  shows "vr_ID r \<notin> vr_ID ` set db" "vr_Hash r \<notin> vr_Hash ` set db" "db' = db @ [r]"
  using assms by (simp_all add: insertVirtualKey_def list_ex_two_keys split: if_splits)

lemma insertEnrollment_Some:
  assumes "insertEnrollment db e = Some db'"
  shows "en_ID e \<notin> en_ID ` set (co_enrollments db)" "en_CodeHash e \<notin> en_CodeHash ` set (co_enrollments db)"
    "db' = db\<lparr>co_enrollments := co_enrollments db @ [e]\<rparr>"
  using assms by (simp_all add: insertEnrollment_def list_ex_two_keys split: if_splits)

lemma update_keys_ok:
  assumes "keys_ok ks" "\<And>r. vr_ID (f r) = vr_ID r" "\<And>r. vr_Hash (f r) = vr_Hash r"
  shows "keys_ok (update_where P f ks)"
  using assms by (simp add: keys_ok_def map_update_where_key)

lemma vk_step_ok: "vk_step ks ks' \<Longrightarrow> keys_ok ks \<Longrightarrow> keys_ok ks'"
proof (induction rule: vk_step.induct)
  case (vs_insert db r db')
  then show ?case using insertVirtualKey_Some [OF vs_insert.hyps] by (simp add: keys_ok_def)
qed (simp_all add: update_keys_ok revoked_key_def tombstone_def, simp add: keys_ok_def filter_distinct_map)

lemma update_devices_ok:
  assumes "devices_ok ds" "\<And>d. dev_ID (f d) = dev_ID d" "\<And>d. dev_TokenHash (f d) = dev_TokenHash d"
  shows "devices_ok (update_where P f ds)" "dev_ID ` set (update_where P f ds) = dev_ID ` set ds"
  using assms by (simp_all add: devices_ok_def map_update_where_key image_update_where_key)

lemma upsertPending_keys:
  "map pending_key (upsertPending p ps) = map pending_key ps @ (if pending_key p \<in> pending_key ` set ps then [] else [pending_key p])"
proof -
  have "map pending_key (update_where (\<lambda>x. pending_key x = pending_key p)
      (\<lambda>x. x\<lparr>rp_Attempts := rp_Attempts x + 1, rp_LastError := rp_LastError p, rp_Alias := rp_Alias p, rp_UpdatedAt := rp_UpdatedAt p\<rparr>) ps) = map pending_key ps"
    by (rule map_update_where_key) (simp add: pending_key_def)
  then show ?thesis by (simp add: upsertPending_def list_ex_key)
qed

lemma upsertPending_attempts:
  "list_all (\<lambda>p. 1 \<le> rp_Attempts p) ps \<Longrightarrow> rp_Attempts p = 1 \<Longrightarrow> list_all (\<lambda>p. 1 \<le> rp_Attempts p) (upsertPending p ps)"
  by (auto simp: upsertPending_def list_all_iff set_update_where)

lemma enroll_tx_cases:
  assumes "enroll_tx now i d db = (db', e)"
  obtains (refused) x where "e = Some x" "db' = db"
  | (enrolled) en where "e = None" "en \<in> set (co_enrollments db)" "en_ID en = i" "en_ConsumedAt en = None"
      "dev_ID d \<notin> device_ids db" "dev_TokenHash d \<notin> dev_TokenHash ` set (co_devices db)"
      "db' = db\<lparr>co_enrollments := update_where (\<lambda>e. en_ID e = i \<and> en_ConsumedAt e = None) (\<lambda>e. e\<lparr>en_ConsumedAt := Some now\<rparr>) (co_enrollments db),
         co_devices := co_devices db @ [d]\<rparr>"
proof (cases "list_ex (\<lambda>e. en_ID e = i \<and> en_ConsumedAt e = None) (co_enrollments db)")
  case True
  show ?thesis
  proof (cases "list_ex (\<lambda>x. dev_ID x = dev_ID d \<or> dev_TokenHash x = dev_TokenHash d) (co_devices db)")
    case True
    show ?thesis by (rule refused [of "wrapf EErrConflict ''device token collision''"]) (use assms True \<open>list_ex (\<lambda>e. en_ID e = i \<and> en_ConsumedAt e = None) _\<close> in \<open>simp_all add: enroll_tx_def\<close>)
  next
    case False
    obtain en where en: "en \<in> set (co_enrollments db)" "en_ID en = i" "en_ConsumedAt en = None"
      using \<open>list_ex (\<lambda>e. en_ID e = i \<and> en_ConsumedAt e = None) _\<close> by (auto simp: list_ex_iff)
    show ?thesis by (rule enrolled [OF _ en]) (use assms True False in \<open>simp_all add: enroll_tx_def list_ex_two_keys\<close>)
  qed
next
  case False
  then have "enroll_tx now i d db = (db, Some (wrapf EErrConsumed ''enrollment already consumed''))" by (simp add: enroll_tx_def)
  then have "e = Some (wrapf EErrConsumed ''enrollment already consumed'')" "db' = db" using assms by simp_all
  then show ?thesis by (rule refused)
qed

lemma co_step_ok: "co_step c db db' \<Longrightarrow> companion_ok db \<Longrightarrow> companion_ok db'"
proof (induction rule: co_step.induct)
  case (cs_enrollment db e db')
  then show ?case using insertEnrollment_Some [OF cs_enrollment.hyps] by (simp add: companion_ok_def enrollments_ok_def)
next
  case (cs_cleanup db now)
  then show ?case by (simp add: CleanupExpiredEnrollments_def companion_ok_def enrollments_ok_def filter_distinct_map)
next
  case (cs_enroll now i d db db' e)
  from cs_enroll.hyps show ?case
  proof (cases rule: enroll_tx_cases)
    case (enrolled en)
    then show ?thesis using cs_enroll.prems
      by (auto simp: companion_ok_def devices_ok_def enrollments_ok_def grants_ok_def map_update_where_key)
  qed (use cs_enroll.prems in simp)
next
  case (cs_device f db i)
  then show ?case by (simp add: update_device_def companion_ok_def update_devices_ok keeps_identity_def)
next
  case (cs_revoke db now i)
  then show ?case by (simp add: mark_revoked_def companion_ok_def update_devices_ok)
next
  case (cs_grant db i now)
  have "i \<in> device_ids db" using cs_grant(1) find_Some_in unfolding device_by_id_def by (metis (mono_tags, lifting) image_eqI option.exhaust)
  then show ?case using cs_grant by (auto simp: companion_ok_def grants_ok_def list_ex_iff)
next
  case (cs_ungrant db P)
  then show ?case by (auto simp: companion_ok_def grants_ok_def filter_distinct_map)
next
  case (cs_bump db now)
  then show ?case by (auto simp: companion_ok_def meta_ok_def IncrementRevision_def split: option.splits)
next
  case (cs_variable db v)
  then show ?case by (auto simp: companion_ok_def keep_variable_def filter_distinct_map)
next
  case (cs_unset db P)
  then show ?case by (simp add: companion_ok_def filter_distinct_map)
next
  case (cs_queue p db)
  then show ?case by (simp add: companion_ok_def pending_ok_def upsertPending_keys upsertPending_attempts)
next
  case (cs_clear db P)
  then show ?case by (auto simp: companion_ok_def pending_ok_def filter_distinct_map list_all_iff)
next
  case (cs_secrets db s)
  then show ?case by (simp add: companion_ok_def secret_step_ok)
next
  case (cs_keys db ks)
  then show ?case by (simp add: companion_ok_def vk_step_ok)
next
  case (cs_files db fs)
  then show ?case by (simp add: companion_ok_def)
qed

lemma empty_companion_ok: "companion_ok empty_companion_db"
  by (simp add: companion_ok_def empty_companion_db_def devices_ok_def enrollments_ok_def meta_ok_def grants_ok_def pending_ok_def
      secrets_ok_def keys_ok_def)

interpretation companions: statement_tables "co_step c" companion_ok empty_companion_db for c
  by unfold_locales (rule empty_companion_ok, erule (1) co_step_ok)

section \<open>What lasts\<close>

definition code_consumed :: "string \<Rightarrow> companion_db \<Rightarrow> bool" where
  "code_consumed h db \<longleftrightarrow> list_ex (\<lambda>e. en_CodeHash e = h \<and> en_ConsumedAt e \<noteq> None) (co_enrollments db)"

definition token_revoked :: "string \<Rightarrow> companion_db \<Rightarrow> bool" where
  "token_revoked h db \<longleftrightarrow> list_ex (\<lambda>d. dev_TokenHash d = h \<and> dev_RevokedAt d \<noteq> None) (co_devices db)"

definition device_revoked :: "id \<Rightarrow> companion_db \<Rightarrow> bool" where
  "device_revoked i db \<longleftrightarrow> list_ex (\<lambda>d. dev_ID d = i \<and> dev_RevokedAt d \<noteq> None) (co_devices db)"

definition revision_of :: "companion_db \<Rightarrow> int" where
  "revision_of db = (case co_meta db of None \<Rightarrow> 0 | Some m \<Rightarrow> em_Revision m)"

lemma list_ex_update_where:
  "list_ex Q xs \<Longrightarrow> (\<And>x. Q x \<Longrightarrow> Q (f x)) \<Longrightarrow> list_ex Q (update_where P f xs)"
  by (auto simp: list_ex_iff update_where_def)

lemma IncrementRevision_tables [simp]:
  "co_devices (fst (IncrementRevision now db)) = co_devices db" "co_enrollments (fst (IncrementRevision now db)) = co_enrollments db"
  "co_pending (fst (IncrementRevision now db)) = co_pending db" "co_fs (fst (IncrementRevision now db)) = co_fs db"
  "co_secrets (fst (IncrementRevision now db)) = co_secrets db" "co_grants (fst (IncrementRevision now db)) = co_grants db"
  by (simp_all add: IncrementRevision_def split: option.split)

lemma code_consumed_step: "co_step c db db' \<Longrightarrow> code_consumed h db \<Longrightarrow> code_consumed h db'"
proof (induction rule: co_step.induct)
  case (cs_cleanup db now)
  then show ?case by (auto simp: code_consumed_def CleanupExpiredEnrollments_def list_ex_iff)
next
  case (cs_enroll now i d db db' e)
  from cs_enroll.hyps show ?case
    by (cases rule: enroll_tx_cases) (use cs_enroll.prems in \<open>auto simp: code_consumed_def intro!: list_ex_update_where\<close>)
qed (auto simp: code_consumed_def insertEnrollment_def update_device_def mark_revoked_def split: if_splits)

lemma device_facts_step:
  assumes "co_step c db db'" "list_ex Q (co_devices db)"
    and keeps: "\<And>f d. keeps_identity f \<Longrightarrow> Q d \<Longrightarrow> Q (f d)"
    and revoke: "\<And>d now. Q d \<Longrightarrow> Q (d\<lparr>dev_RevokedAt := Some now, dev_UpdatedAt := now\<rparr>)"
  shows "list_ex Q (co_devices db')"
  using assms(1,2)
proof (induction rule: co_step.induct)
  case (cs_enroll now i d db db' e)
  from cs_enroll.hyps show ?case by (cases rule: enroll_tx_cases) (use cs_enroll.prems in auto)
next
  case (cs_device f db i)
  then show ?case using keeps by (auto simp: update_device_def intro!: list_ex_update_where)
next
  case (cs_revoke db now i)
  then show ?case using revoke by (auto simp: mark_revoked_def intro!: list_ex_update_where)
qed (auto simp: insertEnrollment_def CleanupExpiredEnrollments_def split: if_splits)

lemma token_revoked_step: "co_step c db db' \<Longrightarrow> token_revoked h db \<Longrightarrow> token_revoked h db'"
  unfolding token_revoked_def by (erule (1) device_facts_step) (auto simp: keeps_identity_def)

lemma device_revoked_step: "co_step c db db' \<Longrightarrow> device_revoked i db \<Longrightarrow> device_revoked i db'"
  unfolding device_revoked_def by (erule (1) device_facts_step) (auto simp: keeps_identity_def)

lemma revision_step: "co_step c db db' \<Longrightarrow> revision_of db \<le> revision_of db'"
proof (induction rule: co_step.induct)
  case (cs_enroll now i d db db' e)
  from cs_enroll.hyps show ?case by (cases rule: enroll_tx_cases) (auto simp: revision_of_def)
qed (auto simp: revision_of_def insertEnrollment_def CleanupExpiredEnrollments_def update_device_def mark_revoked_def IncrementRevision_def
    split: if_splits option.splits)

lemma steps_last:
  assumes "(co_step c)\<^sup>*\<^sup>* db db'" "Q db" and "\<And>a b. co_step c a b \<Longrightarrow> Q a \<Longrightarrow> Q b"
  shows "Q db'"
  using assms(1,2) by (induction rule: rtranclp_induct) (use assms(3) in blast)+

lemmas companion_lasting =
  steps_last [where Q = "code_consumed h" for h, OF _ _ code_consumed_step]
  steps_last [where Q = "token_revoked h" for h, OF _ _ token_revoked_step]
  steps_last [where Q = "device_revoked i" for i, OF _ _ device_revoked_step]

lemma revision_steps: "(co_step c)\<^sup>*\<^sup>* db db' \<Longrightarrow> revision_of db \<le> revision_of db'"
  by (induction rule: rtranclp_induct) (use revision_step in \<open>force intro: order_trans\<close>)+

end
