(* ===== verification/CompanionRefine.thy ===== *)
theory CompanionRefine
  imports CompanionStates
begin

text \<open>
  internal/companion and companion_ops.go: every operation of the API on companions changes the tables by a
  sequence of statements, whatever the externals answer.
\<close>

abbreviation co_steps :: "'w Companion \<Rightarrow> companion_db \<Rightarrow> companion_db \<Rightarrow> bool" where
  "co_steps c \<equiv> (co_step c)\<^sup>*\<^sup>*"

lemmas one_step = r_into_rtranclp [of "co_step c" for c]
lemmas then_step = rtranclp.rtrancl_into_rtrancl [of "co_step c" for c]

section \<open>The brokers\<close>

lemma secrets_steps:
  "(secret_step (ce_Vault c))\<^sup>*\<^sup>* (co_secrets db) s \<Longrightarrow> co_steps c db (db\<lparr>co_secrets := s\<rparr>)"
proof (induction rule: rtranclp_induct)
  case (step a b)
  then have "co_step c (db\<lparr>co_secrets := a\<rparr>) (db\<lparr>co_secrets := a\<rparr>\<lparr>co_secrets := b\<rparr>)" by (intro cs_secrets) simp
  then show ?case using step.IH by (simp add: then_step)
qed simp

lemma RotateByName_steps: "RotateByName v s scope name val w = (w', s', r) \<Longrightarrow> (secret_step v)\<^sup>*\<^sup>* s s'"
  by (auto simp: RotateByName_def split: sum.splits intro: ss_rotate)

lemma put_or_rotate_steps:
  assumes "put_or_rotate c scope name val s w = (w', s', r)"
  shows "(secret_step (ce_Vault c))\<^sup>*\<^sup>* s s'"
proof -
  obtain w1 s1 r1 where p: "secret_Put (ce_Vault c) s scope name val w = (w1, s1, r1)" by (rule prod_cases3)
  obtain w2 s2 r2 where q: "RotateByName (ce_Vault c) s1 scope name val w1 = (w2, s2, r2)" by (rule prod_cases3)
  have "secret_step (ce_Vault c) s s1" using p by (rule ss_put)
  moreover have "(secret_step (ce_Vault c))\<^sup>*\<^sup>* s1 s2" using q by (rule RotateByName_steps)
  moreover have "s' = s1 \<or> s' = s2" using assms p q by (auto simp: put_or_rotate_def split: sum.splits if_splits)
  ultimately show ?thesis by (auto intro: converse_rtranclp_into_rtranclp)
qed

lemma IssueVirtualKey_cases:
  assumes "IssueVirtualKey k i db w = (w', db', r)"
  obtains (refused) e where "r = Inl e" "db' = db"
  | (issued) token kid vid now where "r = Inr (stored_key i token kid vid now, token)"
      "insertVirtualKey db \<lparr>vr_Key = stored_key i token kid vid now, vr_Hash = ks_Hash k token\<rparr> = Some db'"
      "has_prefix token GatewayVirtualKeyPrefix" "kid \<noteq> []"
  using assms unfolding IssueVirtualKey_def issued_checks_def Let_def
  by (auto split: option.splits prod.splits sum.splits if_splits)

lemma IssueVirtualKey_steps: "IssueVirtualKey k i db w = (w', db', r) \<Longrightarrow> vk_step\<^sup>*\<^sup>* db db'"
  by (erule IssueVirtualKey_cases) (auto intro: vs_insert)

lemma RevokeVirtualKey_steps: "RevokeVirtualKey k i db w = (w', db', r) \<Longrightarrow> vk_step\<^sup>*\<^sup>* db db'"
  by (auto simp: RevokeVirtualKey_def Let_def split: sum.splits if_splits intro: vs_revoke)

lemma DeleteVirtualKey_steps: "DeleteVirtualKey k i db w = (w', db', r) \<Longrightarrow> vk_step\<^sup>*\<^sup>* db db'"
  by (auto simp: DeleteVirtualKey_def split: sum.splits prod.splits option.splits intro: vs_tombstone vs_delete)

lemma keys_steps: "vk_step\<^sup>*\<^sup>* (co_keys db) ks \<Longrightarrow> co_steps c db (db\<lparr>co_keys := ks\<rparr>)"
proof (induction rule: rtranclp_induct)
  case (step a b)
  then have "co_step c (db\<lparr>co_keys := a\<rparr>) (db\<lparr>co_keys := a\<rparr>\<lparr>co_keys := b\<rparr>)" by (intro cs_keys) simp
  then show ?case using step.IH by (simp add: then_step)
qed simp

section \<open>The service\<close>

lemma seen_device_identity [simp]: "keeps_identity (seen_device now)"
  by (simp add: keeps_identity_def seen_device_def)

lemma device_steps: "keeps_identity f \<Longrightarrow> co_steps c db (update_device i f db)"
  by (rule one_step) (rule cs_device)

lemma ValidateDeviceToken_steps: "ValidateDeviceToken c t db w = (db', r) \<Longrightarrow> co_steps c db db'"
  by (auto simp: ValidateDeviceToken_def Let_def split: if_splits option.splits intro!: device_steps)

lemma new_enrollment_steps: "new_enrollment c code ex now db w = (w', db', r) \<Longrightarrow> co_steps c db db'"
  by (auto simp: new_enrollment_def Let_def split: prod.splits option.splits intro: cs_enrollment)

lemma CreateEnrollment_steps: "CreateEnrollment c db w = (w', db', r) \<Longrightarrow> co_steps c db db'"
  by (auto simp: CreateEnrollment_def Let_def split: prod.splits sum.splits dest: new_enrollment_steps)

lemma ensureMachineBackupCredentials_files:
  assumes "ensureMachineBackupCredentials c i db w = (w', db', r)" shows "\<exists>fs. db' = db\<lparr>co_fs := fs\<rparr>"
  using assms by (auto simp: ensureMachineBackupCredentials_def Let_def split: prod.splits option.splits)

lemma EnrollDevice_cases:
  assumes "EnrollDevice c code db w = (w', db', r)"
  obtains (invalid) e where "check_code c code db (nowUTC c w) = Inl e" "r = Inl e" "db' = db"
  | (refused) en e i token where "check_code c code db (nowUTC c w) = Inr en" "r = Inl e"
      "enroll_tx (nowUTC c w) (en_ID en) (new_device c i token (nowUTC c w)) db = (db', Some e)"
  | (enrolled) en i b db1 fs cr w1 where "check_code c code db (nowUTC c w) = Inr en"
      "generateDeviceToken c w = (w1, ''oma_dev_'' @ base64url b)"
      "enroll_tx (nowUTC c w) (en_ID en) (new_device c i (''oma_dev_'' @ base64url b) (nowUTC c w)) db = (db1, None)"
      "db' = db1\<lparr>co_fs := fs\<rparr>" "r = Inr (new_device c i (''oma_dev_'' @ base64url b) (nowUTC c w), ''oma_dev_'' @ base64url b, cr)"
proof (cases "check_code c code db (nowUTC c w)")
  case (Inl e)
  then have "r = Inl e" "db' = db" using assms by (simp_all add: EnrollDevice_def Let_def)
  then show thesis by (rule invalid [OF Inl])
next
  case (Inr en)
  obtain w1 b where b: "va_Rand (ce_Vault c) 32 w = (w1, b)" by fastforce
  have t: "generateDeviceToken c w = (w1, ''oma_dev_'' @ base64url b)" using b by (simp add: generateDeviceToken_def)
  obtain w2 i where i: "store_NewID (ce_Vault c) w1 = (w2, i)" by fastforce
  let ?d = "new_device c i (''oma_dev_'' @ base64url b) (nowUTC c w)"
  obtain db1 x where x: "enroll_tx (nowUTC c w) (en_ID en) ?d db = (db1, x)" by fastforce
  show thesis
  proof (cases x)
    case None
    obtain w3 db2 cr where m: "ensureMachineBackupCredentials c i db1 w2 = (w3, db2, cr)" by (rule prod_cases3)
    obtain fs where "db2 = db1\<lparr>co_fs := fs\<rparr>" using ensureMachineBackupCredentials_files [OF m] by blast
    moreover have "\<exists>cr. r = Inr (?d, ''oma_dev_'' @ base64url b, cr)" "db' = db2"
      using assms Inr t i x None m by (simp_all add: EnrollDevice_def Let_def split: sum.splits) auto
    ultimately show thesis using enrolled [OF Inr t] x None by blast
  next
    case (Some e)
    then have "r = Inl e" "db' = db1" using assms Inr t i x by (simp_all add: EnrollDevice_def Let_def)
    then show thesis using refused [OF Inr] x Some by simp
  qed
qed

lemma EnrollDevice_steps: "EnrollDevice c code db w = (w', db', r) \<Longrightarrow> co_steps c db db'"
proof (erule EnrollDevice_cases)
  fix en i b db1 fs
  assume "enroll_tx (nowUTC c w) (en_ID en) (new_device c i (''oma_dev_'' @ base64url b) (nowUTC c w)) db = (db1, None)" "db' = db1\<lparr>co_fs := fs\<rparr>"
  then show "co_steps c db db'" using cs_enroll cs_files by (metis one_step then_step)
qed (auto intro: cs_enroll)

lemma RevokeDevice_steps: "RevokeDevice c i db w = (w', db', r) \<Longrightarrow> co_steps c db db'"
  by (auto simp: RevokeDevice_def drop_machine_entry_def Let_def split: if_splits sum.splits
      intro: cs_files then_step [OF one_step [OF cs_revoke] cs_files])

lemma update_and_get_steps: "update_and_get i f db = (db', r) \<Longrightarrow> keeps_identity f \<Longrightarrow> co_steps c db db'"
  by (auto simp: update_and_get_def Let_def split: if_splits intro: cs_device)

lemma UpdateDeviceInfo_steps: "UpdateDeviceInfo now i n db = (db', r) \<Longrightarrow> co_steps c db db'"
  by (auto simp: UpdateDeviceInfo_def keeps_identity_def seen_device_def split: if_splits option.splits elim!: update_and_get_steps)

lemma SetDeviceAllowOAuth_steps: "SetDeviceAllowOAuth now i allow db = (db', r) \<Longrightarrow> co_steps c db db'"
  by (auto simp: SetDeviceAllowOAuth_def keeps_identity_def elim!: update_and_get_steps)

lemma SetForgejoTokenName_steps: "SetForgejoTokenName now i n db = (db', r) \<Longrightarrow> co_steps c db db'"
  by (auto simp: SetForgejoTokenName_def Let_def keeps_identity_def split: if_splits intro!: device_steps)

lemma bumped_steps: "bumped now db = (db', r) \<Longrightarrow> co_steps c db db'"
  using cs_bump [of c db now] by (auto simp: bumped_def split: prod.splits sum.splits)

lemma GrantDevice_steps: "GrantDevice now i db = (db', r) \<Longrightarrow> co_steps c db db'"
proof -
  assume a: "GrantDevice now i db = (db', r)"
  let ?g = "db\<lparr>co_grants := co_grants db @ [\<lparr>eg_DeviceID = trim_space i, eg_GrantedAt = now\<rparr>]\<rparr>"
  from a consider "db' = db" | "device_by_id db (trim_space i) \<noteq> None" "\<not> list_ex (\<lambda>g. eg_DeviceID g = trim_space i) (co_grants db)" "bumped now ?g = (db', r)"
    by (auto simp: GrantDevice_def GetDevice_def Let_def split: if_splits option.splits)
  then show ?thesis
  proof cases
    case 2
    then show ?thesis using bumped_steps [of now ?g db' r c] cs_grant [of db "trim_space i" c now] by (metis converse_rtranclp_into_rtranclp)
  qed simp
qed

lemma RevokeGrant_steps: "RevokeGrant now i db = (db', r) \<Longrightarrow> co_steps c db db'"
  by (auto simp: RevokeGrant_def Let_def split: if_splits sum.splits dest!: bumped_steps [where c = c]
      intro: converse_rtranclp_into_rtranclp [where r = "co_step c", OF cs_ungrant])

lemma Queue_steps: "QueueRevocationPending now i t h a e db = (db', r) \<Longrightarrow> co_steps c db db'"
  by (auto simp: QueueRevocationPending_def split: if_splits intro!: one_step [OF cs_queue])

lemma Clear_steps: "co_steps c db (ClearRevocationPending i t h db)"
  by (auto simp: ClearRevocationPending_def intro: cs_clear)

lemma PutToolEnv_steps:
  assumes "PutToolEnv c name val db w = (w', db', r)" shows "co_steps c db db'"
proof (cases "checked (ValidateToolEnvName name) (ValidateToolEnvValue val) \<noteq> None \<or> \<not> ce_Secrets c")
  case True
  then show ?thesis using assms by (auto simp: PutToolEnv_def split: option.splits)
next
  case False
  obtain w1 s1 x where p: "put_or_rotate c ''environment'' (trim_space name) val (co_secrets db) w = (w1, s1, x)" by (rule prod_cases3)
  have 1: "co_steps c db (db\<lparr>co_secrets := s1\<rparr>)" by (rule secrets_steps [OF put_or_rotate_steps [OF p]])
  show ?thesis
  proof (cases x)
    case (Inl e)
    then show ?thesis using assms False p 1 by (auto simp: PutToolEnv_def Let_def)
  next
    case (Inr sec)
    obtain db1 y where b: "IncrementRevision (nowUTC c w1) (db\<lparr>co_secrets := s1\<rparr>) = (db1, y)" by fastforce
    have 2: "co_steps c db db1" using then_step [OF 1 cs_bump [of c _ "nowUTC c w1"]] b by simp
    show ?thesis using assms False p Inr b 2 then_step [OF 2 cs_variable]
      by (cases y) (auto simp: PutToolEnv_def Let_def)
  qed
qed

lemma DeleteToolEnv_steps:
  assumes "DeleteToolEnv c name db w = (db', r)" shows "co_steps c db db'"
proof (cases "ValidateToolEnvName name \<noteq> None \<or> \<not> ce_Secrets c")
  case True
  then show ?thesis using assms by (auto simp: DeleteToolEnv_def split: option.splits)
next
  case False
  obtain s1 x where p: "DeleteByName (co_secrets db) ''environment'' (trim_space name) = (s1, x)" by fastforce
  have 1: "co_steps c db (db\<lparr>co_secrets := s1\<rparr>)" by (rule secrets_steps [OF r_into_rtranclp, OF ss_delete_name, OF p])
  obtain db1 y where b: "bumped (nowUTC c w) (db\<lparr>co_secrets := s1\<rparr>) = (db1, y)" by fastforce
  have 2: "co_steps c db db1" using rtranclp_trans [OF 1 bumped_steps [OF b]] .
  show ?thesis using assms False p b 1 2 then_step [OF 2 cs_unset]
    by (auto simp: DeleteToolEnv_def Let_def split: option.splits)
qed

lemma issue_device_key_steps:
  assumes "issue_device_key c i db w = (w', db', r)" shows "co_steps c db db'"
proof -
  obtain w1 ks x where p: "IssueVirtualKey (ce_Keys c) (device_key_input i) (co_keys db) w = (w1, ks, x)" by (rule prod_cases3)
  have 1: "co_steps c db (db\<lparr>co_keys := ks\<rparr>)" by (rule keys_steps [OF IssueVirtualKey_steps [OF p]])
  show ?thesis
  proof (cases x)
    case (Inr kt)
    obtain w2 s1 y where q: "put_or_rotate c ''platform-app'' (device_secret i) (snd kt) (co_secrets db) w1 = (w2, s1, y)" by (rule prod_cases3)
    obtain k token where kt: "kt = (k, token)" by fastforce
    have "co_steps c (db\<lparr>co_keys := ks\<rparr>) (db\<lparr>co_keys := ks\<rparr>\<lparr>co_secrets := s1\<rparr>)"
      by (rule secrets_steps) (use put_or_rotate_steps [OF q] in simp)
    then have 2: "co_steps c db (db\<lparr>co_keys := ks, co_secrets := s1\<rparr>)" using rtranclp_trans [OF 1] by simp
    have "db' = fst (IncrementRevision (nowUTC c w2) (db\<lparr>co_keys := ks, co_secrets := s1\<rparr>))"
      using assms p q Inr kt by (auto simp: issue_device_key_def)
    then show ?thesis using then_step [OF 2 cs_bump [of c _ "nowUTC c w2"]] by simp
  qed (use assms p 1 in \<open>simp add: issue_device_key_def\<close>)
qed

lemma ensureDeviceVirtualKey_steps:
  assumes "ensureDeviceVirtualKey c i db w = (w', db', r)" shows "co_steps c db db'"
proof (cases "(\<not> ce_Providers c \<or> \<not> ce_Secrets c) \<or> valid_key_of db i (nowUTC c w) = None")
  case True
  then show ?thesis using assms issue_device_key_steps by (fastforce simp: ensureDeviceVirtualKey_def split: if_splits)
next
  case False
  then obtain vk where vk: "valid_key_of db i (nowUTC c w) = Some vk" by auto
  obtain w1 ks x where p: "RevokeVirtualKey (ce_Keys c) (vk_ID vk) (co_keys db) w = (w1, ks, x)" by (rule prod_cases3)
  have 1: "co_steps c db (db\<lparr>co_keys := ks\<rparr>)" by (rule keys_steps [OF RevokeVirtualKey_steps [OF p]])
  have "db' = db \<or> issue_device_key c i (db\<lparr>co_keys := ks\<rparr>) w1 = (w', db', r)"
    using assms False vk p by (auto simp: ensureDeviceVirtualKey_def split: sum.splits if_splits)
  then show ?thesis using rtranclp_trans [OF 1, of db'] issue_device_key_steps [of c i "db\<lparr>co_keys := ks\<rparr>" w1 w' db' r] by auto
qed

lemma Bundle_steps:
  assumes "GetCompanionEnvironmentBundle c i db w = (w', db', r)" shows "co_steps c db db'"
proof -
  obtain w1 db1 k where p: "ensureDeviceVirtualKey c (trim_space i) db w = (w1, db1, k)" by (rule prod_cases3)
  have "db' = db \<or> db' = db1" using assms p
    by (auto simp: GetCompanionEnvironmentBundle_def Let_def split: if_splits option.splits sum.splits)
  then show ?thesis using ensureDeviceVirtualKey_steps [OF p] by auto
qed

end
