(* ===== verification/CompanionLemmas.thy ===== *)
theory CompanionLemmas
  imports CompanionRefine
begin

text \<open>
  internal/companion: the texts of codes and tokens, enrollment codes and tokens along any interleaving,
  the variables of the bundle as the broker's map, and the lines of the machine backups' file as a map.
\<close>

section \<open>Texts without white space\<close>

lemma trim_space_plain: "(\<And>c. c \<in> set s \<Longrightarrow> \<not> is_space c) \<Longrightarrow> trim_space s = s"
proof -
  assume p: "\<And>c. c \<in> set s \<Longrightarrow> \<not> is_space c"
  have d: "dropWhile is_space t = t" if "set t \<subseteq> set s" for t
    using that p by (cases t) auto
  show ?thesis by (simp add: trim_space_def trim_func_def trim_left_def trim_right_def d)
qed

lemma b64_digit_code:
  "(of_char (b64_digit n) :: nat) \<in> {43, 47} \<union> {48..57} \<union> {65..90} \<union> {97..122}"
  by (auto simp: b64_digit_def)

lemma base64_chars: "c \<in> set (base64 s) \<Longrightarrow> c = CHR ''='' \<or> (\<exists>n. c = b64_digit n)"
  by (induction s rule: base64.induct) (auto simp: Let_def)

definition plain_char :: "char \<Rightarrow> bool" where "plain_char c \<longleftrightarrow> 32 < (of_char c :: nat)"

lemma plain_not_space: "plain_char c \<Longrightarrow> \<not> is_space c"
  by (simp add: plain_char_def is_space_def Let_def)

lemma base64url_plain: "c \<in> set (base64url s) \<Longrightarrow> plain_char c"
proof -
  have d: "plain_char (b64_digit n)" for n
    using b64_digit_code [of n] by (auto simp: plain_char_def)
  have "plain_char x" if "x \<in> set (base64 s)" for x
    using base64_chars [OF that] d by (auto simp: plain_char_def)
  then show "c \<in> set (base64url s) \<Longrightarrow> plain_char c"
    by (auto simp: base64url_def plain_char_def split: if_splits)
qed

lemma plain_line: "(\<And>c. c \<in> set s \<Longrightarrow> plain_char c) \<Longrightarrow> \<not> line_breaking s"
proof
  assume p: "\<And>c. c \<in> set s \<Longrightarrow> plain_char c" and "line_breaking s"
  then obtain c where "c \<in> set s" "c = char_of (0 :: nat) \<or> c = char_of (10 :: nat) \<or> c = char_of (13 :: nat)"
    by (auto simp: line_breaking_def contains_any_def list_ex_iff)
  with p [of c] show False by (auto simp: plain_char_def)
qed

lemma device_token_plain: "c \<in> set (''oma_dev_'' @ base64url b) \<Longrightarrow> plain_char c"
  using base64url_plain by (auto simp: plain_char_def)

lemma device_token_text:
  "trim_space (''oma_dev_'' @ base64url b) = ''oma_dev_'' @ base64url b" "has_prefix (''oma_dev_'' @ base64url b) ''oma_dev_''"
  "\<not> line_breaking (''oma_dev_'' @ base64url b)"
  by (rule trim_space_plain plain_line, erule plain_not_space [OF device_token_plain] device_token_plain)
    (simp add: has_prefix_def, rule plain_line, erule device_token_plain)

section \<open>Enrollment codes\<close>

lemma check_code_Inr:
  assumes "check_code c code db now = Inr en"
  shows "trim_space code \<noteq> []" "\<not> line_breaking (trim_space code)" "en \<in> set (co_enrollments db)"
    "en_CodeHash en = ce_Hash c (trim_space code)" "en_ConsumedAt en = None" "now \<le> en_ExpiresAt en"
  using assms find_Some_in [of "\<lambda>e. en_CodeHash e = ce_Hash c (trim_space code)" "co_enrollments db" en]
  by (auto simp: check_code_def Let_def split: if_splits option.splits)

lemma consumed_code_refused:
  assumes "companion_ok db" "code_consumed (ce_Hash c (trim_space code)) db" "trim_space code \<noteq> []" "\<not> line_breaking (trim_space code)"
  shows "check_code c code db now = Inl (wrapf EErrConsumed ''enrollment already consumed'')"
proof -
  obtain e where e: "e \<in> set (co_enrollments db)" "en_CodeHash e = ce_Hash c (trim_space code)" "en_ConsumedAt e \<noteq> None"
    using assms(2) by (auto simp: code_consumed_def list_ex_iff)
  have "distinct (map en_CodeHash (co_enrollments db))" using assms(1) by (simp add: companion_ok_def enrollments_ok_def)
  then have "List.find (\<lambda>x. en_CodeHash x = ce_Hash c (trim_space code)) (co_enrollments db) = Some e"
    using find_distinct_key [of en_CodeHash "co_enrollments db" e] e by simp
  then show ?thesis using assms(3,4) e(3) by (simp add: check_code_def)
qed

lemma consumed_tx_refused:
  assumes "companion_ok db" "en \<in> set (co_enrollments db)" "en_ConsumedAt en \<noteq> None"
  shows "enroll_tx now (en_ID en) d db = (db, Some (wrapf EErrConsumed ''enrollment already consumed''))"
proof -
  have "distinct (map en_ID (co_enrollments db))" using assms(1) by (simp add: companion_ok_def enrollments_ok_def)
  then have "x = en" if "x \<in> set (co_enrollments db)" "en_ID x = en_ID en" for x
    using that assms(2) by (metis distinct_map inj_onD)
  then have "\<not> list_ex (\<lambda>x. en_ID x = en_ID en \<and> en_ConsumedAt x = None) (co_enrollments db)" using assms(3) by (auto simp: list_ex_iff)
  then show ?thesis by (simp add: enroll_tx_def)
qed

text \<open>The row of a code keeps its identifier, and once consumed it stays.\<close>

definition row_consumed :: "id \<Rightarrow> string \<Rightarrow> companion_db \<Rightarrow> bool" where
  "row_consumed i h db \<longleftrightarrow> list_ex (\<lambda>e. en_ID e = i \<and> en_CodeHash e = h \<and> en_ConsumedAt e \<noteq> None) (co_enrollments db)"

lemma row_consumed_step: "co_step c db db' \<Longrightarrow> row_consumed i h db \<Longrightarrow> row_consumed i h db'"
proof (induction rule: co_step.induct)
  case (cs_cleanup db now)
  then show ?case by (auto simp: row_consumed_def CleanupExpiredEnrollments_def list_ex_iff)
next
  case (cs_enroll now j d db db' e)
  from cs_enroll.hyps show ?case
    by (cases rule: enroll_tx_cases) (use cs_enroll.prems in \<open>auto simp: row_consumed_def intro!: list_ex_update_where\<close>)
qed (auto simp: row_consumed_def insertEnrollment_def update_device_def mark_revoked_def split: if_splits)

lemma row_consumed_code: "row_consumed i h db \<Longrightarrow> code_consumed h db"
  by (auto simp: row_consumed_def code_consumed_def list_ex_iff)

lemma enrolled_row_consumed:
  assumes "check_code c code db now = Inr en" "enroll_tx now (en_ID en) d db = (db', None)"
  shows "row_consumed (en_ID en) (ce_Hash c (trim_space code)) db'"
  using assms(2)
proof (cases rule: enroll_tx_cases)
  case (enrolled x)
  let ?e = "en\<lparr>en_ConsumedAt := Some now\<rparr>"
  have "?e \<in> set (co_enrollments db')" using check_code_Inr [OF assms(1)] by (simp add: enrolled(7) set_update_where)
  then show ?thesis using check_code_Inr(4) [OF assms(1)] unfolding row_consumed_def list_ex_iff by (intro bexI [of _ ?e]) auto
qed simp

section \<open>Tokens\<close>

definition holds_token :: "id \<Rightarrow> string \<Rightarrow> companion_db \<Rightarrow> bool" where
  "holds_token i h db \<longleftrightarrow> list_ex (\<lambda>d. dev_ID d = i \<and> dev_TokenHash d = h) (co_devices db)"

lemma holds_token_step: "co_step c db db' \<Longrightarrow> holds_token i h db \<Longrightarrow> holds_token i h db'"
  unfolding holds_token_def by (erule (1) device_facts_step) (auto simp: keeps_identity_def)

lemma device_of_token:
  assumes "companion_ok db" "holds_token i h db"
  obtains d where "List.find (\<lambda>x. dev_TokenHash x = h) (co_devices db) = Some d" "dev_ID d = i"
    "dev_RevokedAt d \<noteq> None \<longleftrightarrow> device_revoked i db"
proof -
  obtain d where d: "d \<in> set (co_devices db)" "dev_ID d = i" "dev_TokenHash d = h" using assms(2) by (auto simp: holds_token_def list_ex_iff)
  have k: "distinct (map dev_ID (co_devices db))" "distinct (map dev_TokenHash (co_devices db))"
    using assms(1) by (simp_all add: companion_ok_def devices_ok_def)
  have same: "x = d" if "x \<in> set (co_devices db)" "dev_ID x = i" for x
    using inj_onD [of dev_ID "set (co_devices db)" x d] k(1) that d(1,2) by (simp add: distinct_map)
  show thesis
  proof (rule that)
    show "List.find (\<lambda>x. dev_TokenHash x = h) (co_devices db) = Some d" using find_distinct_key [OF k(2) d(1)] d(3) by simp
    show "dev_ID d = i" by (rule d(2))
    show "dev_RevokedAt d \<noteq> None \<longleftrightarrow> device_revoked i db" using same d(1,2) unfolding device_revoked_def list_ex_iff by blast
  qed
qed

lemma token_outcome:
  assumes "companion_ok db" "holds_token i (ce_Hash c t) db" "t = ''oma_dev_'' @ base64url b"
  shows "if device_revoked i db then ValidateDeviceToken c t db w = (db, Inl (wrapf EErrRevoked ''device revoked''))
    else \<exists>d. snd (ValidateDeviceToken c t db w) = Inr d \<and> dev_ID d = i"
proof -
  obtain d where d: "List.find (\<lambda>x. dev_TokenHash x = ce_Hash c t) (co_devices db) = Some d" "dev_ID d = i"
    "dev_RevokedAt d \<noteq> None \<longleftrightarrow> device_revoked i db" using device_of_token [OF assms(1,2)] .
  have t: "trim_space t = t" "has_prefix t ''oma_dev_''" "\<not> line_breaking t" "t \<noteq> []"
    using device_token_text [of b] assms(3) by simp_all
  show ?thesis using d t by (simp add: ValidateDeviceToken_def Let_def seen_device_def)
qed

lemma revoked_gets_no_bundle:
  assumes "companion_ok db" "device_revoked i db" "trim_space i = i" "i \<noteq> []"
  shows "GetCompanionEnvironmentBundle c i db w = (w, db, Inl (wrapf EErrRevoked ''device revoked''))"
proof -
  obtain d where d: "d \<in> set (co_devices db)" "dev_ID d = i" "dev_RevokedAt d \<noteq> None" using assms(2) by (auto simp: device_revoked_def list_ex_iff)
  have "distinct (map dev_ID (co_devices db))" using assms(1) by (simp add: companion_ok_def devices_ok_def)
  then have "device_by_id db i = Some d" using find_distinct_key [of dev_ID "co_devices db" d] d by (simp add: device_by_id_def)
  then show ?thesis using d(3) assms(3,4) by (simp add: GetCompanionEnvironmentBundle_def)
qed

lemma mark_revoked_revokes:
  assumes "list_ex (\<lambda>d. dev_ID d = i \<and> dev_RevokedAt d = None) (co_devices x)"
  shows "device_revoked i (mark_revoked now i x)"
proof -
  obtain d where d: "d \<in> set (co_devices x)" "dev_ID d = i" "dev_RevokedAt d = None" using assms by (auto simp: list_ex_iff)
  then have "d\<lparr>dev_RevokedAt := Some now, dev_UpdatedAt := now\<rparr> \<in> set (co_devices (mark_revoked now i x))"
    by (simp add: mark_revoked_def set_update_where)
  then show ?thesis using d(2) unfolding device_revoked_def list_ex_iff
    by (intro bexI [of _ "d\<lparr>dev_RevokedAt := Some now, dev_UpdatedAt := now\<rparr>"]) simp_all
qed

lemma RevokeDevice_marks:
  assumes "RevokeDevice c i db w = (w', db', Inr d)"
  shows "device_revoked (trim_space i) db'" "trim_space i \<noteq> []"
proof -
  let ?i = "trim_space i"
  show "?i \<noteq> []" using assms by (auto simp: RevokeDevice_def Let_def)
  show "device_revoked ?i db'"
  proof (cases "list_ex (\<lambda>d. dev_ID d = ?i \<and> dev_RevokedAt d = None) (co_devices db)")
    case True
    then show ?thesis using assms mark_revoked_revokes [OF True, of "nowUTC c w"]
      by (auto simp: RevokeDevice_def Let_def drop_machine_entry_def device_revoked_def split: if_splits)
  next
    case False
    obtain x where g: "device_by_id db ?i = Some x" "co_devices db' = co_devices db"
      using assms False by (auto simp: RevokeDevice_def Let_def drop_machine_entry_def GetDevice_def split: if_splits option.splits)
    then have "x \<in> set (co_devices db)" "dev_ID x = ?i" using find_Some_in unfolding device_by_id_def by fastforce+
    then show ?thesis using False g(2) by (auto simp: device_revoked_def list_ex_iff)
  qed
qed

section \<open>The variables of the bundle\<close>

text \<open>Stored names have no surrounding white space.\<close>

definition names_trimmed :: "secrets_db \<Rightarrow> bool" where
  "names_trimmed s \<longleftrightarrow> (\<forall>k \<in> key_of ` set s. trim_space (snd k) = snd k)"

lemma key_of_update_where: "(\<And>r. key_of (f r) = key_of r) \<Longrightarrow> key_of ` set (update_where P f s) = key_of ` set s"
  by (rule image_update_where_key)

lemma names_trimmed_step: "secret_step v s s' \<Longrightarrow> names_trimmed s \<Longrightarrow> names_trimmed s'"
proof (induction rule: secret_step.induct)
  case (ss_put db scope name val w w' db' x)
  from ss_put.hyps show ?case
  proof (cases rule: Put_cases)
    case (stored i now nonce w1)
    have "key_of ` set db' \<subseteq> insert (trim_space scope, trim_space name) (key_of ` set db)"
      using upsert_cases(2) [OF stored(3)] by (auto simp: key_of_update_where split: if_splits)
    then show ?thesis using ss_put.prems unfolding names_trimmed_def by fastforce
  qed (use ss_put.prems in simp)
next
  case (ss_rotate db i val w w' db' x)
  from ss_rotate.hyps show ?case
  proof (cases rule: Rotate_cases)
    case (stored r now nonce)
    then show ?thesis using ss_rotate.prems by (simp add: names_trimmed_def key_of_update_where)
  qed (use ss_rotate.prems in simp)
next
  case (ss_delete db i db' e)
  then show ?case by (auto simp: secret_Delete_def names_trimmed_def split: option.splits if_splits)
next
  case (ss_delete_name db scope name db' e)
  then show ?case by (auto simp: DeleteByName_def Let_def names_trimmed_def split: option.splits if_splits)
qed

lemma names_trimmed_co_step: "co_step c db db' \<Longrightarrow> names_trimmed (co_secrets db) \<Longrightarrow> names_trimmed (co_secrets db')"
proof (induction rule: co_step.induct)
  case (cs_enroll now i d db db' e)
  from cs_enroll.hyps show ?case by (cases rule: enroll_tx_cases) (use cs_enroll.prems in auto)
next
  case (cs_secrets db s)
  then show ?case by (simp add: names_trimmed_step)
qed (auto simp: insertEnrollment_def CleanupExpiredEnrollments_def update_device_def mark_revoked_def split: if_splits)

lemma foldl_updates:
  "foldl (\<lambda>b m. case f (k m) of Inl _ \<Rightarrow> b | Inr v \<Rightarrow> b(k m \<mapsto> v)) b0 ms n =
    (if n \<in> k ` set ms then (case f n of Inl _ \<Rightarrow> b0 n | Inr v \<Rightarrow> Some v) else b0 n)"
  by (induction ms arbitrary: b0) (auto split: sum.splits)

lemma tool_values_abs:
  assumes "secrets_ok (co_secrets db)" "names_trimmed (co_secrets db)"
  shows "tool_values c db n = abs_secrets (ce_Vault c) (co_secrets db) (''environment'', n)"
proof -
  let ?v = "ce_Vault c" and ?s = "co_secrets db"
  have e: "validateScope ''environment'' = None" "trim_space ''environment'' = ''environment''" by code_simp+
  have set: "sec_Name ` set (ListToolEnvs db) = {n. (''environment'', n) \<in> key_of ` set ?s}"
    by (auto simp: ListToolEnvs_def env_secrets_def key_of_def image_iff) metis
  have tv: "tool_values c db n = (if n \<in> sec_Name ` set (ListToolEnvs db) then (case RevealByName ?v ?s ''environment'' n of Inl _ \<Rightarrow> None | Inr v \<Rightarrow> Some v) else None)"
    unfolding tool_values_def by (rule foldl_updates)
  show ?thesis
  proof (cases "(''environment'', n) \<in> key_of ` set ?s")
    case True
    then obtain r where r: "r \<in> set ?s" "key_of r = (''environment'', n)" by auto
    have "secret_validateName n = None" using assms(1) r by (fastforce simp: secrets_ok_def list_all_iff)
    moreover have "trim_space n = n" using bspec [OF assms(2) [unfolded names_trimmed_def] True] by simp
    ultimately have R: "RevealByName ?v ?s ''environment'' n = Inr p \<longleftrightarrow> abs_secrets ?v ?s (''environment'', n) = Some p" for p
      by (simp add: Reveal_abs e)
    have "abs_secrets ?v ?s (''environment'', n) = (case RevealByName ?v ?s ''environment'' n of Inl _ \<Rightarrow> None | Inr p \<Rightarrow> Some p)"
    proof (cases "RevealByName ?v ?s ''environment'' n")
      case (Inl e)
      have "abs_secrets ?v ?s (''environment'', n) = None"
      proof (rule ccontr)
        assume "abs_secrets ?v ?s (''environment'', n) \<noteq> None"
        then obtain p where "abs_secrets ?v ?s (''environment'', n) = Some p" by auto
        then show False using R [of p] Inl by simp
      qed
      then show ?thesis using Inl by simp
    next
      case (Inr p)
      then show ?thesis using R [of p] by simp
    qed
    moreover have "n \<in> sec_Name ` set (ListToolEnvs db)" unfolding set using True by simp
    ultimately show ?thesis using tv by simp
  next
    case False
    then have "List.find (\<lambda>r. key_of r = (''environment'', n)) ?s = None" by (force simp: find_None_iff)
    moreover have "n \<notin> sec_Name ` set (ListToolEnvs db)" unfolding set using False by simp
    ultimately show ?thesis using tv by (simp add: abs_secrets_def)
  qed
qed

lemma Put_keeps_key_names: "secret_Put v s scope name val w = (w', s', Inr sec) \<Longrightarrow> put_checks scope name val = None"
  by (auto simp: secret_Put_def split: option.splits)

text \<open>Putting a variable stores it, or fails and changes no value.\<close>

lemma put_or_rotate_value:
  assumes "vault_ok (ce_Vault c)" "secrets_ok s" "put_or_rotate c scope name val s w = (w', s', Inr sec)"
    "trim_space scope = scope" "trim_space name = name"
  shows "abs_secrets (ce_Vault c) s' = (abs_secrets (ce_Vault c) s)((scope, name) \<mapsto> val)"
proof -
  obtain w1 s1 r where p: "secret_Put (ce_Vault c) s scope name val w = (w1, s1, r)" by (rule prod_cases3)
  note a = Put_abs [OF assms(1,2) p]
  show ?thesis
  proof (cases r)
    case (Inr x)
    then have "s' = s1" using assms(3) p by (simp add: put_or_rotate_def)
    then show ?thesis using a Inr assms(4,5) by simp
  next
    case (Inl e)
    then have s1: "s1 = s" using a by simp
    obtain w2 s2 q where q: "RotateByName (ce_Vault c) s scope name val w1 = (w2, s2, q)" by (rule prod_cases3)
    have f: "s' = s2" "q = Inr sec" using assms(3) p Inl s1 q by (auto simp: put_or_rotate_def split: if_splits sum.splits)
    obtain x where x: "GetByName s scope name = Inr x" "Rotate (ce_Vault c) s (sec_ID x) val w1 = (w2, s2, Inr sec)"
      using q f(2) by (auto simp: RotateByName_def split: sum.splits)
    obtain r where r: "by_key s scope name = Some r" "x = se_Secret r" using x(1) by (auto simp: GetByName_def split: option.splits)
    have k: "r \<in> set s" "key_of r = (scope, name)" using find_Some_in r(1) assms(4,5) unfolding by_key_def by fastforce+
    note b = Rotate_abs [OF assms(1,2) x(2)]
    obtain y where y: "y \<in> set s" "se_ID y = sec_ID x" "key_of y = (sec_Scope sec, sec_Name sec)" using b by auto
    have "y = r" using inj_onD [of se_ID "set s" y r] assms(2) y k r(2) by (simp add: secrets_ok_def distinct_map)
    then show ?thesis using b y(3) k(2) f(1) by simp
  qed
qed

section \<open>The lines of the file as a map\<close>

text \<open>What a server reads: the first line of a user, unless it is a comment.\<close>

definition entry_lines :: "string \<Rightarrow> string list" where
  "entry_lines data = filter (\<lambda>l. l \<noteq> [] \<and> \<not> has_prefix l ''#'') (text_lines data)"

definition entry_of :: "string \<Rightarrow> string \<Rightarrow> string option" where
  "entry_of data u = map_option (\<lambda>l. drop (length u + 1) l) (List.find (\<lambda>l. line_user l = Some u) (entry_lines data))"

definition line_text :: "string \<Rightarrow> bool" where
  "line_text l \<longleftrightarrow> trim_space l = l \<and> \<not> List.member l (char_of (10 :: nat))"

lemma split_on_app: "d \<notin> set a \<Longrightarrow> split_on d (a @ d # s) = a # split_on d s"
  by (induction a) auto

lemma split_on_none: "d \<notin> set a \<Longrightarrow> split_on d a = [a]"
  by (induction a) auto

lemma text_lines_join:
  assumes "\<And>l. l \<in> set ls \<Longrightarrow> line_text l"
  shows "text_lines (join nl ls @ (if ls = [] then [] else nl)) = ls @ [[]]"
  using assms
proof (induction nl ls rule: join.induct)
  case 1
  show ?case by code_simp
next
  case (2 x)
  then have "line_text x" by simp
  then show ?case by (simp add: text_lines_def nl_def split_on_app line_text_def)
    (simp add: trim_space_def trim_func_def trim_left_def trim_right_def)
next
  case (3 x y xs)
  then have "line_text x" "text_lines (join nl (y # xs) @ nl) = (y # xs) @ [[]]" by simp_all
  then show ?case by (simp add: text_lines_def nl_def split_on_app line_text_def)
qed

lemma text_lines_are_lines: "l \<in> set (text_lines data) \<Longrightarrow> line_text l"
proof -
  assume "l \<in> set (text_lines data)"
  then obtain r where r: "r \<in> set (split_on (char_of (10 :: nat)) data)" "l = trim_space r" by (auto simp: text_lines_def)
  then have "char_of (10 :: nat) \<notin> set l" using split_on_pieces [OF r(1)] set_trim_space [of r] by auto
  then show ?thesis using r(2) by (simp add: line_text_def)
qed

lemma find_filter_user:
  "List.find (\<lambda>l. line_user l = Some v) (filter (of_other_user u) ls) = (if v = u then None else List.find (\<lambda>l. line_user l = Some v) ls)"
  by (induction ls) (auto simp: of_other_user_def)

lemma entry_lines_removed:
  "entry_lines (removed_text u data) = filter (of_other_user u) (entry_lines data)"
proof -
  let ?out = "filter (\<lambda>l. l \<noteq> [] \<and> of_other_user u l) (text_lines data)"
  have "removed_text u data = join nl ?out @ (if ?out = [] then [] else nl)" by (simp add: removed_text_def Let_def)
  moreover have "text_lines (join nl ?out @ (if ?out = [] then [] else nl)) = ?out @ [[]]"
    by (rule text_lines_join) (auto dest: text_lines_are_lines)
  ultimately have "text_lines (removed_text u data) = ?out @ [[]]" by simp
  then show ?thesis by (auto simp: entry_lines_def intro: filter_cong)
qed

lemma entry_removed: "entry_of (removed_text u data) = (entry_of data)(u := None)"
  by (auto simp: entry_of_def entry_lines_removed find_filter_user fun_eq_iff)

lemma line_user_of: "\<not> List.member u CHR '':'' \<Longrightarrow> line_user (u @ '':'' @ h) = Some u"
  by (subst line_user_def, subst takeWhile_append2) auto

lemma entry_updated:
  assumes "line_text (u @ '':'' @ h)" "\<not> List.member u CHR '':''" "u \<noteq> []" "hd u \<noteq> CHR ''#''"
  shows "entry_of (updated_text u (u @ '':'' @ h) data) = (entry_of data)(u \<mapsto> h)"
proof -
  let ?l = "u @ '':'' @ h"
  let ?out = "filter (\<lambda>l. l \<noteq> [] \<and> \<not> has_prefix l ''#'' \<and> of_other_user u l) (text_lines data)"
  have "text_lines (join nl (?out @ [?l]) @ (if ?out @ [?l] = [] then [] else nl)) = (?out @ [?l]) @ [[]]"
    by (rule text_lines_join) (use assms(1) in \<open>auto dest: text_lines_are_lines\<close>)
  then have t: "text_lines (updated_text u ?l data) = (?out @ [?l]) @ [[]]" by (simp add: updated_text_def)
  have h: "\<not> has_prefix ?l ''#''" using assms(3,4) by (cases u) (auto simp: has_prefix_def)
  have "entry_lines (updated_text u ?l data) = filter (of_other_user u) (entry_lines data) @ [?l]"
    unfolding entry_lines_def t using h by (auto intro: filter_cong)
  then show ?thesis
    using line_user_of [OF assms(2)] by (auto simp: entry_of_def find_append find_filter_user fun_eq_iff split: option.splits)
qed

end
