(* ===== verification/CompanionRevokes.thy ===== *)
theory CompanionRevokes
  imports CompanionLemmas
begin

text \<open>
  companion_ops.go: what revoking a device leaves.  Each external credential the control plane itself
  stores is gone or its row is in the queue, through every call; and each call is a sequence of statements.
\<close>

section \<open>The file\<close>

definition has_entry :: "string \<Rightarrow> string \<Rightarrow> bool" where
  "has_entry data u \<longleftrightarrow> list_ex (\<lambda>l. line_user l = Some u) (text_lines data)"

definition no_entry :: "'w Companion \<Rightarrow> string \<Rightarrow> FS \<Rightarrow> bool" where
  "no_entry c u fs \<longleftrightarrow> (case fs_Files fs (machineBackupHtpasswdPath c) of None \<Rightarrow> True | Some (_, data) \<Rightarrow> \<not> has_entry data u)"

lemma removed_lines:
  "l \<in> set (text_lines (removed_text u data)) \<Longrightarrow> l = [] \<or> (l \<in> set (text_lines data) \<and> of_other_user u l)"
proof -
  let ?out = "filter (\<lambda>l. l \<noteq> [] \<and> of_other_user u l) (text_lines data)"
  have "removed_text u data = join nl ?out @ (if ?out = [] then [] else nl)" by (simp add: removed_text_def Let_def)
  moreover have "text_lines (join nl ?out @ (if ?out = [] then [] else nl)) = ?out @ [[]]"
    by (rule text_lines_join) (auto dest: text_lines_are_lines)
  ultimately have "text_lines (removed_text u data) = ?out @ [[]]" by simp
  then show "l \<in> set (text_lines (removed_text u data)) \<Longrightarrow> l = [] \<or> (l \<in> set (text_lines data) \<and> of_other_user u l)" by auto
qed

lemma removed_has_no_entry: "\<not> has_entry (removed_text u data) u"
  by (auto simp: has_entry_def list_ex_iff of_other_user_def line_user_def dest!: removed_lines)

lemma removed_keeps_absent: "\<not> has_entry data v \<Longrightarrow> \<not> has_entry (removed_text u data) v"
  by (auto simp: has_entry_def list_ex_iff line_user_def dest!: removed_lines)

lemma replace_htpasswd_files:
  assumes "replace_htpasswd path content fs = (fs', r)"
  shows "case r of None \<Rightarrow> (\<exists>m. fs_Files fs' path = Some (m, content)) | Some _ \<Rightarrow> fs_Files fs' path = fs_Files fs path"
proof -
  let ?tmp = "path @ ''.tmp''"
  have ne: "?tmp \<noteq> path" by simp
  obtain fs1 x where w: "fs_WriteFile ?tmp content (6 * 64) fs = (fs1, x)" by fastforce
  show ?thesis
  proof (cases x)
    case (Some e)
    then show ?thesis using assms w fs_call_Some [OF w [unfolded fs_WriteFile_def Some]] by (auto simp: replace_htpasswd_def Let_def)
  next
    case None
    obtain m where f1: "fs_Files fs1 = (fs_Files fs)(?tmp \<mapsto> (m, content))"
      using fs_call_None [OF w [unfolded fs_WriteFile_def None]] by (metis option.inject)
    obtain fs2 y where n: "fs_Rename ?tmp path fs1 = (fs2, y)" by fastforce
    show ?thesis
    proof (cases y)
      case (Some e)
      have "fs_Files fs2 path = fs_Files fs path" using fs_call_Some [OF n [unfolded fs_Rename_def Some]] f1 by simp
      then show ?thesis using assms w None n Some fs_Remove_files [OF ne [symmetric], of fs2] by (auto simp: replace_htpasswd_def Let_def)
    next
      case y: None
      have "fs_Files fs2 = ((fs_Files fs1)(?tmp := None))(path \<mapsto> (m, content))"
        using fs_call_None [OF n [unfolded fs_Rename_def y]] f1 by simp
      then have "fs_Files fs2 path = Some (m, content)" by simp
      then have "\<exists>m. fs_Files (fst (fs_Chmod path (6 * 64) fs2)) path = Some (m, content)"
        by (auto simp: fs_Chmod_def fs_call_def split: prod.splits bool.splits option.splits)
      then show ?thesis using assms w None n y by (auto simp: replace_htpasswd_def Let_def)
    qed
  qed
qed

lemma removeHtpasswdEntry_files:
  assumes "removeHtpasswdEntry c u fs = (fs', r)"
  shows "r = None \<Longrightarrow> no_entry c u fs'" "no_entry c v fs \<Longrightarrow> no_entry c v fs'"
proof -
  let ?p = "machineBackupHtpasswdPath c"
  obtain fs1 x where rd: "fs_ReadFile ?p fs = (fs1, x)" by fastforce
  note f1 = fs_ReadFile_files [OF rd]
  have "(r = None \<longrightarrow> no_entry c u fs') \<and> (no_entry c v fs \<longrightarrow> no_entry c v fs')"
  proof (cases x)
    case (Inl e)
    then have e: "fs' = fs1" "r = None \<Longrightarrow> e = errorf ''file does not exist''"
      using assms rd by (auto simp: removeHtpasswdEntry_def Let_def is_not_exist_def split: if_splits)
    then show ?thesis using f1 fs_ReadFile_missing [of ?p fs fs1] rd Inl by (auto simp: no_entry_def)
  next
    case (Inr data)
    then have w: "replace_htpasswd ?p (removed_text u data) fs1 = (fs', r)" using assms rd by (simp add: removeHtpasswdEntry_def Let_def)
    obtain m where "fs_Files fs ?p = Some (m, data)" using fs_ReadFile_Inr [of ?p fs fs1 data] rd Inr by auto
    then show ?thesis using replace_htpasswd_files [OF w] f1 removed_has_no_entry [of u data] removed_keeps_absent [of data v u]
      by (cases r) (auto simp: no_entry_def)
  qed
  then show "r = None \<Longrightarrow> no_entry c u fs'" "no_entry c v fs \<Longrightarrow> no_entry c v fs'" by simp_all
qed

section \<open>Gone or queued\<close>

definition is_queued :: "companion_db \<Rightarrow> id \<Rightarrow> string \<Rightarrow> string \<Rightarrow> bool" where
  "is_queued db i target handle \<longleftrightarrow> (i, target, handle) \<in> pending_key ` set (co_pending db)"

definition secret_gone :: "'w Backend \<Rightarrow> string \<Rightarrow> companion_db \<Rightarrow> bool" where
  "secret_gone b name db \<longleftrightarrow> (bk_Secrets b \<longrightarrow> (''platform-app'', name) \<notin> key_of ` set (co_secrets db))"

definition entry_covered :: "'w Companion \<Rightarrow> id \<Rightarrow> companion_db \<Rightarrow> bool" where
  "entry_covered c i db \<longleftrightarrow> no_entry c (machine_user i) (co_fs db) \<or> is_queued db i RevokeTargetHtpasswd (machine_user i)"

definition secret_covered :: "'w Backend \<Rightarrow> id \<Rightarrow> companion_db \<Rightarrow> bool" where
  "secret_covered b i db \<longleftrightarrow> secret_gone b (device_secret i) db \<or> is_queued db i RevokeTargetDeviceSecret (device_secret i)"

lemmas covered_defs = entry_covered_def secret_covered_def is_queued_def

text \<open>A trimmed identifier with a prefix is trimmed.\<close>

lemma trim_right_app: "trim_right P s = s \<Longrightarrow> s \<noteq> [] \<Longrightarrow> trim_right P (p @ s) = p @ s"
proof -
  assume t: "trim_right P s = s" and n: "s \<noteq> []"
  then have d: "dropWhile P (rev s) = rev s" by (metis rev_rev_ident trim_right_def)
  then have "\<not> P (hd (rev s))" using n hd_dropWhile [of P "rev s"] by simp
  then show "trim_right P (p @ s) = p @ s" using n by (cases "rev s") (auto simp: trim_right_def)
qed

lemma trim_prefixed:
  assumes "trim_space i = i" "i \<noteq> []" "p \<noteq> []" "\<not> is_space (hd p)"
  shows "trim_space (p @ i) = p @ i"
proof -
  have "length (trim_space i) \<le> length (dropWhile is_space i)"
    by (simp add: trim_space_def trim_func_def trim_left_def trim_right_def length_dropWhile_le [of is_space "rev (dropWhile is_space i)", simplified])
  moreover have "length (takeWhile is_space i) + length (dropWhile is_space i) = length i"
    by (metis length_append takeWhile_dropWhile_id)
  ultimately have "length (takeWhile is_space i) = 0" unfolding assms(1) by linarith
  then have "takeWhile is_space i = []" by simp
  then have "dropWhile is_space i = i" by (metis append_Nil takeWhile_dropWhile_id)
  then have "trim_right is_space i = i" using assms(1) by (simp add: trim_space_def trim_func_def trim_left_def)
  then have "trim_right is_space (p @ i) = p @ i" using trim_right_app assms(2) by blast
  moreover have "dropWhile is_space (p @ i) = p @ i" using assms(3,4) by (cases p) auto
  ultimately show ?thesis by (simp add: trim_space_def trim_func_def trim_left_def)
qed

section \<open>The calls\<close>

lemma upsertPending_set: "pending_key ` set (upsertPending p ps) = insert (pending_key p) (pending_key ` set ps)"
  using arg_cong [OF upsertPending_keys [of p ps], of set] by (auto split: if_splits)

lemma pending_key_row [simp]:
  "pending_key \<lparr>rp_DeviceID = i, rp_Target = t, rp_Handle = h, rp_Alias = a, rp_Attempts = n, rp_LastError = e, rp_UpdatedAt = u\<rparr> = (i, t, h)"
  by (simp add: pending_key_def)

lemma queued_state:
  assumes "queued c i t h a e s = s'"
  shows "co_fs (snd s') = co_fs (snd s)" "co_secrets (snd s') = co_secrets (snd s)" "co_keys (snd s') = co_keys (snd s)"
    "is_queued (snd s) j t' h' \<Longrightarrow> is_queued (snd s') j t' h'"
    "trim_space i \<noteq> [] \<Longrightarrow> trim_space t \<noteq> [] \<Longrightarrow> is_queued (snd s') (trim_space i) (trim_space t) (trim_space h)"
  using assms by (auto simp: queued_def QueueRevocationPending_def is_queued_def upsertPending_set split: prod.splits)

lemma queued_covered:
  "entry_covered c i (snd s) \<Longrightarrow> entry_covered c i (snd (queued c j t h a e s))"
  "secret_covered b i (snd s) \<Longrightarrow> secret_covered b i (snd (queued c j t h a e s))"
  using queued_state [of c j t h a e s, OF refl] by (auto simp: covered_defs secret_gone_def)

lemma remove_credentials_state:
  assumes "remove_credentials c j s = (s', r)"
  shows "co_secrets (snd s') = co_secrets (snd s)" "co_keys (snd s') = co_keys (snd s)" "co_pending (snd s') = co_pending (snd s)"
    "no_entry c v (co_fs (snd s)) \<Longrightarrow> no_entry c v (co_fs (snd s'))" "r = None \<Longrightarrow> no_entry c (machine_user (trim_space j)) (co_fs (snd s'))"
proof -
  obtain fs x where e: "removeHtpasswdEntry c (machine_user (trim_space j)) (co_fs (snd s)) = (fs, x)" by fastforce
  note f = removeHtpasswdEntry_files [OF e]
  show "co_secrets (snd s') = co_secrets (snd s)" "co_keys (snd s') = co_keys (snd s)" "co_pending (snd s') = co_pending (snd s)"
    "no_entry c v (co_fs (snd s)) \<Longrightarrow> no_entry c v (co_fs (snd s'))" "r = None \<Longrightarrow> no_entry c (machine_user (trim_space j)) (co_fs (snd s'))"
    using assms e f by (auto simp: remove_credentials_def RemoveDeviceBackupCredentials_def Let_def split: if_splits option.splits prod.splits)
qed

lemma remove_credentials_covered:
  assumes "remove_credentials c j s = (s', r)"
  shows "entry_covered c i (snd s) \<Longrightarrow> entry_covered c i (snd s')" "secret_covered b i (snd s) \<Longrightarrow> secret_covered b i (snd s')"
  using remove_credentials_state [OF assms] by (auto simp: covered_defs secret_gone_def)

lemma delete_secret_state:
  assumes "delete_secret b name s = (s', r)"
  shows "co_fs (snd s') = co_fs (snd s)" "co_keys (snd s') = co_keys (snd s)" "co_pending (snd s') = co_pending (snd s)"
    "secret_gone b n (snd s) \<Longrightarrow> secret_gone b n (snd s')" "r = None \<Longrightarrow> secret_gone b (trim_space name) (snd s')"
proof -
  obtain s1 x where d: "DeleteByName (co_secrets (snd s)) ''platform-app'' name = (s1, x)" by fastforce
  have sc: "trim_space ''platform-app'' = ''platform-app''" "validateScope ''platform-app'' = None" by code_simp+
  have sub: "key_of ` set s1 \<subseteq> key_of ` set (co_secrets (snd s))"
    using d by (auto simp: DeleteByName_def Let_def split: option.splits if_splits)
  have gone: "(''platform-app'', trim_space name) \<notin> key_of ` set s1" if "case x of None \<Rightarrow> True | Some e \<Rightarrow> errors_is e ErrNotFound"
  proof (cases "secret_validateName name")
    case None
    then show ?thesis using d that by (auto simp: DeleteByName_def Let_def checked_def sc list_ex_key split: if_splits)
  next
    case (Some e)
    then have "x = Some e" using d by (simp add: DeleteByName_def checked_def sc)
    moreover have "\<not> errors_is e ErrNotFound" using Some by (auto simp: secret_validateName_def Let_def split: if_splits)
    ultimately show ?thesis using that by simp
  qed
  show "co_fs (snd s') = co_fs (snd s)" "co_keys (snd s') = co_keys (snd s)" "co_pending (snd s') = co_pending (snd s)"
    using assms d by (auto simp: delete_secret_def split: if_splits)
  show "secret_gone b n (snd s) \<Longrightarrow> secret_gone b n (snd s')"
    using assms d subsetD [OF sub, of "(''platform-app'', n)"] by (cases "bk_Secrets b") (simp_all add: delete_secret_def secret_gone_def, force)
  show "r = None \<Longrightarrow> secret_gone b (trim_space name) (snd s')"
    using assms d gone by (auto simp: delete_secret_def secret_gone_def split: if_splits option.splits)
qed

lemma delete_secret_covered:
  assumes "delete_secret b name s = (s', r)"
  shows "entry_covered c i (snd s) \<Longrightarrow> entry_covered c i (snd s')" "secret_covered b i (snd s) \<Longrightarrow> secret_covered b i (snd s')"
  using delete_secret_state [OF assms] by (auto simp: covered_defs)

lemma remove_sharing_state: "remove_sharing b j s = (s', r) \<Longrightarrow> snd s' = snd s"
  by (auto simp: remove_sharing_def split: option.splits prod.splits sum.splits)

lemma retry_outside_state:
  "retryGatewayKeyRevoke b p s = (s', r) \<Longrightarrow> snd s' = snd s" "retryForgejoTokenRevoke b p s = (s', r) \<Longrightarrow> snd s' = snd s"
  by (auto simp: retryGatewayKeyRevoke_def retryForgejoTokenRevoke_def split: option.splits prod.splits)

lemma retry_target_state:
  assumes "retry_target b c p s = Some (s', r)"
  shows "entry_covered c i (snd s) \<Longrightarrow> entry_covered c i (snd s')" "secret_covered b i (snd s) \<Longrightarrow> secret_covered b i (snd s')"
    "r = None \<Longrightarrow> rp_Target p = RevokeTargetHtpasswd \<Longrightarrow> no_entry c (machine_user (trim_space (rp_DeviceID p))) (co_fs (snd s'))"
    "r = None \<Longrightarrow> rp_Target p = RevokeTargetDeviceSecret \<Longrightarrow> secret_gone b (trim_space (rp_Handle p)) (snd s')"
    "co_keys (snd s') = co_keys (snd s)"
  using assms retry_outside_state [of b p s s' r] remove_credentials_state [of c "rp_DeviceID p" s s' r] remove_credentials_covered [of c "rp_DeviceID p" s s' r]
    delete_secret_state [of b "rp_Handle p" s s' r] delete_secret_covered [of b "rp_Handle p" s s' r] remove_sharing_state [of b "rp_DeviceID p" s s' r]
  by (simp_all add: retry_target_def RevokeTargetGatewayKey_def RevokeTargetForgejoToken_def RevokeTargetHtpasswd_def RevokeTargetDeviceSecret_def split: if_splits)

lemma SetForgejoTokenName_state [simp]:
  "co_fs (fst (SetForgejoTokenName now j n db)) = co_fs db" "co_secrets (fst (SetForgejoTokenName now j n db)) = co_secrets db"
  "co_keys (fst (SetForgejoTokenName now j n db)) = co_keys db" "co_pending (fst (SetForgejoTokenName now j n db)) = co_pending db"
  by (auto simp: SetForgejoTokenName_def Let_def update_device_def)

lemma confirmed_state:
  "co_fs (snd (confirmed c p s)) = co_fs (snd s)" "co_secrets (snd (confirmed c p s)) = co_secrets (snd s)" "co_keys (snd (confirmed c p s)) = co_keys (snd s)"
  "is_queued (snd (confirmed c p s)) j t h \<longleftrightarrow> is_queued (snd s) j t h \<and> (j, t, h) \<noteq> (trim_space (rp_DeviceID p), trim_space (rp_Target p), trim_space (rp_Handle p))"
  by (auto simp: confirmed_def ClearRevocationPending_def Let_def is_queued_def split: prod.splits)

section \<open>The retry driver\<close>

lemma retried_target_trimmed: "retry_target b c p s = Some r \<Longrightarrow> trim_space (rp_Target p) = rp_Target p"
proof -
  assume "retry_target b c p s = Some r"
  then have "List.member [RevokeTargetGatewayKey, RevokeTargetForgejoToken, RevokeTargetHtpasswd, RevokeTargetDeviceSecret, ''sync_folders''] (rp_Target p)"
    by (auto simp: retry_target_def split: if_splits)
  moreover have "list_all (\<lambda>t. trim_space t = t) [RevokeTargetGatewayKey, RevokeTargetForgejoToken, RevokeTargetHtpasswd, RevokeTargetDeviceSecret, ''sync_folders'']"
    by code_simp
  ultimately show ?thesis by (auto simp: list_all_iff)
qed

lemma retry_row_covered:
  assumes "retry_row b c p (s, n) = (s', n')"
  shows "entry_covered c i (snd s) \<Longrightarrow> entry_covered c i (snd s')" "secret_covered b i (snd s) \<Longrightarrow> secret_covered b i (snd s')"
proof -
  have "(entry_covered c i (snd s) \<longrightarrow> entry_covered c i (snd s')) \<and> (secret_covered b i (snd s) \<longrightarrow> secret_covered b i (snd s'))"
  proof (cases "retry_target b c p s")
    case None
    then show ?thesis using assms by (simp add: retry_row_def)
  next
    case (Some r)
    obtain s1 x where r: "r = (s1, x)" by fastforce
    note st = retry_target_state [OF Some [unfolded r]] and tr = retried_target_trimmed [OF Some]
    show ?thesis
    proof (cases x)
      case e: (Some e)
      then have "s' = queued c (rp_DeviceID p) (rp_Target p) (rp_Handle p) (rp_Alias p) e s1" using assms Some r by (simp add: retry_row_def)
      then show ?thesis using st(1,2) queued_covered by blast
    next
      case None
      then have s': "s' = confirmed c p s1" using assms Some r by (simp add: retry_row_def)
      have "entry_covered c i (snd s')" if h: "entry_covered c i (snd s1)"
      proof (cases "(i, RevokeTargetHtpasswd, machine_user i) = (trim_space (rp_DeviceID p), trim_space (rp_Target p), trim_space (rp_Handle p))")
        case True
        then have "no_entry c (machine_user i) (co_fs (snd s1))" using st(3) None tr by simp
        then show ?thesis by (simp add: s' entry_covered_def confirmed_state)
      next
        case False
        then show ?thesis using h by (auto simp: s' entry_covered_def confirmed_state)
      qed
      moreover have "secret_covered b i (snd s')" if h: "secret_covered b i (snd s1)"
      proof (cases "(i, RevokeTargetDeviceSecret, device_secret i) = (trim_space (rp_DeviceID p), trim_space (rp_Target p), trim_space (rp_Handle p))")
        case True
        then have "device_secret i = trim_space (rp_Handle p)" "rp_Target p = RevokeTargetDeviceSecret" using tr unfolding prod.inject by (elim conjE, simp)+
        then have "secret_gone b (device_secret i) (snd s1)" using st(4) None by metis
        then show ?thesis by (simp add: s' secret_covered_def secret_gone_def confirmed_state)
      next
        case False
        then show ?thesis using h by (auto simp: s' secret_covered_def secret_gone_def confirmed_state)
      qed
      ultimately show ?thesis using st(1,2) by blast
    qed
  qed
  then show "entry_covered c i (snd s) \<Longrightarrow> entry_covered c i (snd s')" "secret_covered b i (snd s) \<Longrightarrow> secret_covered b i (snd s')" by simp_all
qed

lemma retry_row_keys: "co_keys (snd (fst (retry_row b c p (s, n)))) = co_keys (snd s)"
  using queued_state(3) [of c "rp_DeviceID p" "rp_Target p" "rp_Handle p" "rp_Alias p"]
  by (auto simp: retry_row_def confirmed_state dest: retry_target_state(5) split: option.splits)

lemma retry_fold:
  assumes "fold (retry_row b c) ps (s, n) = (s', n')"
  shows "(entry_covered c i (snd s) \<longrightarrow> entry_covered c i (snd s')) \<and> (secret_covered b i (snd s) \<longrightarrow> secret_covered b i (snd s')) \<and>
    co_keys (snd s') = co_keys (snd s)"
  using assms
proof (induction ps arbitrary: s n)
  case (Cons p ps)
  obtain s1 n1 where r: "retry_row b c p (s, n) = (s1, n1)" by fastforce
  have k: "co_keys (snd s1) = co_keys (snd s)" using retry_row_keys [of b c p s n] r by simp
  show ?case using Cons.IH [of s1 n1] Cons.prems r k retry_row_covered [OF r] by simp
qed simp

lemma Retry_state:
  assumes "RetryPendingDeviceRevocations b s = (s', r)" "bk_Environments b = Some c"
  shows "entry_covered c i (snd s) \<Longrightarrow> entry_covered c i (snd s')" "secret_covered b i (snd s) \<Longrightarrow> secret_covered b i (snd s')"
    "co_keys (snd s') = co_keys (snd s)" "\<exists>n. r = Inr n"
proof -
  obtain s1 n where f: "fold (retry_row b c) (ListRevocationPending (snd s)) (s, 0) = (s1, n)" by fastforce
  then have "s' = s1" "r = Inr n" using assms by (simp_all add: RetryPendingDeviceRevocations_def)
  then show "entry_covered c i (snd s) \<Longrightarrow> entry_covered c i (snd s')" "secret_covered b i (snd s) \<Longrightarrow> secret_covered b i (snd s')"
    "co_keys (snd s') = co_keys (snd s)" "\<exists>n. r = Inr n" using retry_fold [OF f, of i] by simp_all
qed

section \<open>The keys of a device\<close>

definition key_dead :: "id \<Rightarrow> vk_db \<Rightarrow> bool" where
  "key_dead i ks \<longleftrightarrow> list_all (\<lambda>r. vr_ID r = i \<longrightarrow> vk_RevokedAt (vr_Key r) \<noteq> None) ks"

definition owned_by :: "id \<Rightarrow> VirtualKeyRow \<Rightarrow> bool" where
  "owned_by i r \<longleftrightarrow> vk_OwnerKind (vr_Key r) = Some ''device'' \<and> vk_OwnerID (vr_Key r) = Some i"

definition device_keys_dead :: "id \<Rightarrow> vk_db \<Rightarrow> bool" where
  "device_keys_dead i ks \<longleftrightarrow> list_all (\<lambda>r. owned_by i r \<longrightarrow> vk_RevokedAt (vr_Key r) \<noteq> None) ks"

lemma RevokeVirtualKey_rows:
  assumes "keys_ok ks" "RevokeVirtualKey k i ks w = (w', ks', r)"
  shows "r = None \<Longrightarrow> key_dead i ks'" "key_dead j ks \<Longrightarrow> key_dead j ks'" "keys_ok ks'"
    "map (\<lambda>r. (vr_ID r, owned_by d r)) ks' = map (\<lambda>r. (vr_ID r, owned_by d r)) ks"
proof -
  have s: "ks' = ks \<and> (r = None \<longrightarrow> key_dead i ks) \<or> (\<exists>now. ks' = update_where (\<lambda>r. vr_ID r = i \<and> vk_RevokedAt (vr_Key r) = None) (revoked_key now) ks)"
  proof (cases "GetVirtualKey ks i")
    case (Inl e)
    then show ?thesis using assms(2) by (auto simp: RevokeVirtualKey_def)
  next
    case (Inr vk)
    then obtain x where x: "x \<in> set ks" "vr_ID x = i" "vk = vr_Key x"
      using find_Some_in by (fastforce simp: GetVirtualKey_def vk_by_id_def split: if_splits option.splits)
    have same: "y = x" if "y \<in> set ks" "vr_ID y = i" for y
      using inj_onD [of vr_ID "set ks" y x] assms(1) that x by (simp add: keys_ok_def distinct_map)
    have "vk_RevokedAt vk \<noteq> None \<longrightarrow> key_dead i ks" unfolding key_dead_def list_all_iff x(3) by (metis same)
    then show ?thesis using assms(2) Inr by (auto simp: RevokeVirtualKey_def Let_def split: if_splits)
  qed
  have d: "key_dead i (update_where (\<lambda>r. vr_ID r = i \<and> vk_RevokedAt (vr_Key r) = None) (revoked_key now) ks)" for now
    by (induction ks) (auto simp: key_dead_def update_where_def revoked_key_def)
  have p: "key_dead j ks \<Longrightarrow> key_dead j (update_where P (revoked_key now) ks)" for P now
    by (induction ks) (auto simp: key_dead_def update_where_def revoked_key_def)
  have o: "map (\<lambda>r. (vr_ID r, owned_by d r)) (update_where P (revoked_key now) ks) = map (\<lambda>r. (vr_ID r, owned_by d r)) ks" for P now
    by (rule map_update_where_key) (simp add: revoked_key_def owned_by_def)
  have k: "keys_ok (update_where P (revoked_key now) ks)" for P now
    by (rule update_keys_ok [OF assms(1)]) (simp_all add: revoked_key_def)
  from s have "(r = None \<longrightarrow> key_dead i ks') \<and> (key_dead j ks \<longrightarrow> key_dead j ks') \<and> keys_ok ks' \<and>
    map (\<lambda>r. (vr_ID r, owned_by d r)) ks' = map (\<lambda>r. (vr_ID r, owned_by d r)) ks"
  proof (elim disjE exE conjE)
    fix now assume "ks' = update_where (\<lambda>r. vr_ID r = i \<and> vk_RevokedAt (vr_Key r) = None) (revoked_key now) ks"
    then show ?thesis using d p o k by simp
  qed (use assms(1) in simp)
  then show "r = None \<Longrightarrow> key_dead i ks'" "key_dead j ks \<Longrightarrow> key_dead j ks'" "keys_ok ks'"
    "map (\<lambda>r. (vr_ID r, owned_by d r)) ks' = map (\<lambda>r. (vr_ID r, owned_by d r)) ks" by (elim conjE, simp)+
qed

lemma revoke_keys_Cons:
  assumes "revoke_keys c ks i (h # hs) s = (s', None)"
  obtains s1 keys w where "RevokeVirtualKey ks (vk_ID h) (co_keys (snd s)) (fst s) = (w, keys, None)"
    "revoke_keys c ks i hs s1 = (s', None)" "co_keys (snd s1) = keys"
    "co_fs (snd s1) = co_fs (snd s)" "co_secrets (snd s1) = co_secrets (snd s)"
proof -
  obtain w db where s: "s = (w, db)" by fastforce
  obtain w1 keys x where r: "RevokeVirtualKey ks (vk_ID h) (co_keys db) w = (w1, keys, x)" by (rule prod_cases3)
  have x: "x = None" using assms r s by (cases x) simp_all
  let ?db = "db\<lparr>co_keys := keys\<rparr>"
  let ?kid = "case vk_GatewayKeyID h of None \<Rightarrow> [] | Some y \<Rightarrow> y"
  obtain w2 y where g: "GatewayRevokeVirtualKey ks (vk_ID h) keys w1 = (w2, y)" by fastforce
  let ?q = "\<lambda>e. queued c i RevokeTargetGatewayKey ?kid (vk_Name h) e (w2, ?db)"
  let ?s1 = "if trim_space ?kid = [] then (w1, ?db) else case y of None \<Rightarrow> (w2, ?db) | Some e \<Rightarrow> ?q e"
  have "revoke_keys c ks i hs ?s1 = (s', None)"
    by (cases "trim_space ?kid = []"; cases y) (use assms s r x g in \<open>simp_all add: Let_def\<close>)
  moreover have "snd ?s1 = ?db \<or> (\<exists>e. ?s1 = ?q e)" by (cases y) auto
  ultimately obtain s1 where s1: "revoke_keys c ks i hs s1 = (s', None)" "snd s1 = ?db \<or> (\<exists>e. s1 = ?q e)" by blast
  have "co_keys (snd s1) = keys" "co_fs (snd s1) = co_fs db" "co_secrets (snd s1) = co_secrets db"
    using s1(2) queued_state(1-3) [of c i RevokeTargetGatewayKey ?kid "vk_Name h" _ "(w2, ?db)"] by fastforce+
  then show thesis using that [of w1 keys s1] r x s s1(1) by simp
qed

lemma revoke_keys_dead:
  assumes "revoke_keys c ks i hs s = (s', None)" "keys_ok (co_keys (snd s))"
  shows "(\<forall>h \<in> set hs. key_dead (vk_ID h) (co_keys (snd s'))) \<and> (\<forall>j. key_dead j (co_keys (snd s)) \<longrightarrow> key_dead j (co_keys (snd s'))) \<and>
    map (\<lambda>r. (vr_ID r, owned_by d r)) (co_keys (snd s')) = map (\<lambda>r. (vr_ID r, owned_by d r)) (co_keys (snd s))"
  using assms
proof (induction hs arbitrary: s)
  case (Cons h hs)
  obtain s1 keys w where r: "RevokeVirtualKey ks (vk_ID h) (co_keys (snd s)) (fst s) = (w, keys, None)"
    "revoke_keys c ks i hs s1 = (s', None)" "co_keys (snd s1) = keys" by (rule revoke_keys_Cons [OF Cons.prems(1)])
  note rows = RevokeVirtualKey_rows [OF Cons.prems(2) r(1)]
  note ih = Cons.IH [OF r(2), unfolded r(3), OF rows(3)]
  have "key_dead (vk_ID h) (co_keys (snd s'))" using ih rows(1) by simp
  moreover have "key_dead j (co_keys (snd s)) \<Longrightarrow> key_dead j (co_keys (snd s'))" for j using ih rows(2) by simp
  ultimately show ?case using ih rows(4) [of d] by simp
qed simp

end
