(* ===== verification/CompanionApi.thy ===== *)
theory CompanionApi
  imports CompanionRevokes
begin

text \<open>
  companion_ops.go: the operations of the API as sequences of statements, and what revoking a device
  leaves when it reports success.
\<close>

section \<open>Sequences of statements\<close>

lemma queued_steps: "co_steps c (snd s) (snd (queued c' i t h a e s))"
  using Queue_steps [of "nowUTC c' (fst s)" i t h a e "snd s" _ _ c] by (auto simp: queued_def split: prod.splits) (metis fst_conv surj_pair)

lemma files_steps: "co_steps c db (db\<lparr>co_fs := fs\<rparr>)"
  by (rule one_step) (rule cs_files)

lemma remove_credentials_steps: "remove_credentials c' i s = (s', r) \<Longrightarrow> co_steps c (snd s) (snd s')"
  by (auto simp: remove_credentials_def RemoveDeviceBackupCredentials_def Let_def split: if_splits option.splits prod.splits intro: files_steps)

lemma delete_secret_steps: "delete_secret b n s = (s', r) \<Longrightarrow> co_steps c (snd s) (snd s')"
  by (auto simp: delete_secret_def split: if_splits prod.splits intro!: secrets_steps r_into_rtranclp [where r = "secret_step (ce_Vault c)"] intro: ss_delete_name)

lemma token_name_steps: "co_steps c db (fst (SetForgejoTokenName now i n db))"
  using SetForgejoTokenName_steps [of now i n db] by (metis surj_pair fst_conv)

lemma confirmed_steps: "co_steps c (snd s) (snd (confirmed c' p s))"
proof -
  obtain w db where s: "s = (w, db)" by fastforce
  let ?db = "ClearRevocationPending (rp_DeviceID p) (rp_Target p) (rp_Handle p) db"
  have "co_steps c db ?db" by (rule Clear_steps)
  moreover have "co_steps c ?db (fst (SetForgejoTokenName (nowUTC c' w) (rp_DeviceID p) [] ?db))" by (rule token_name_steps)
  ultimately show ?thesis by (auto simp: s confirmed_def Let_def)
qed

lemma retry_target_steps: "retry_target b c' p s = Some (s', r) \<Longrightarrow> co_steps c (snd s) (snd s')"
  using retry_outside_state [of b p s s' r] remove_credentials_steps [of c' "rp_DeviceID p" s s' r c]
    delete_secret_steps [of b "rp_Handle p" s s' r c] remove_sharing_state [of b "rp_DeviceID p" s s' r]
  by (auto simp: retry_target_def split: if_splits)

lemma retry_row_steps: "retry_row b c' p (s, n) = (s', n') \<Longrightarrow> co_steps c (snd s) (snd s')"
proof (cases "retry_target b c' p s")
  case (Some r)
  obtain s1 x where r: "r = (s1, x)" by fastforce
  note st = retry_target_steps [OF Some [unfolded r]]
  assume "retry_row b c' p (s, n) = (s', n')"
  then have "s' = confirmed c' p s1 \<or> (\<exists>e. s' = queued c' (rp_DeviceID p) (rp_Target p) (rp_Handle p) (rp_Alias p) e s1)"
    using Some r by (auto simp: retry_row_def split: option.splits)
  then show ?thesis using st confirmed_steps queued_steps by (metis rtranclp_trans)
qed (simp add: retry_row_def)

lemma retry_fold_steps: "fold (retry_row b c') ps (s, n) = (s', n') \<Longrightarrow> co_steps c (snd s) (snd s')"
proof (induction ps arbitrary: s n)
  case (Cons p ps)
  obtain s1 n1 where r: "retry_row b c' p (s, n) = (s1, n1)" by fastforce
  show ?case using rtranclp_trans [OF retry_row_steps [OF r] Cons.IH [of s1 n1]] Cons.prems r by simp
qed simp

lemma Retry_steps: "RetryPendingDeviceRevocations b s = (s', r) \<Longrightarrow> co_steps c (snd s) (snd s')"
  by (auto simp: RetryPendingDeviceRevocations_def split: option.splits prod.splits intro: retry_fold_steps)

lemma revoke_keys_steps: "revoke_keys c' ks i hs s = (s', r) \<Longrightarrow> co_steps c (snd s) (snd s')"
proof (induction hs arbitrary: s)
  case (Cons h hs)
  obtain w db where s: "s = (w, db)" by fastforce
  obtain w1 keys x where v: "RevokeVirtualKey ks (vk_ID h) (co_keys db) w = (w1, keys, x)" by (rule prod_cases3)
  let ?db = "db\<lparr>co_keys := keys\<rparr>"
  let ?kid = "case vk_GatewayKeyID h of None \<Rightarrow> [] | Some y \<Rightarrow> y"
  have 1: "co_steps c db ?db" by (rule keys_steps [OF RevokeVirtualKey_steps [OF v]])
  obtain w2 y where g: "GatewayRevokeVirtualKey ks (vk_ID h) keys w1 = (w2, y)" by fastforce
  let ?s1 = "if trim_space ?kid = [] then (w1, ?db) else case y of None \<Rightarrow> (w2, ?db) | Some e \<Rightarrow> queued c' i RevokeTargetGatewayKey ?kid (vk_Name h) e (w2, ?db)"
  have 2: "co_steps c db (snd ?s1)" using 1 rtranclp_trans [OF 1 queued_steps [of c "(w2, ?db)", simplified]] by (auto split: option.splits)
  show ?case
  proof (cases x)
    case (Some e)
    then show ?thesis using Cons.prems s v 1 by (auto simp: Let_def)
  next
    case None
    have "revoke_keys c' ks i hs ?s1 = (s', r)"
      by (cases "trim_space ?kid = []"; cases y) (use Cons.prems s v None g in \<open>simp_all add: Let_def\<close>)
    then show ?thesis using rtranclp_trans [OF 2 Cons.IH] s by simp
  qed
qed simp

lemma revoke_device_keys_steps: "revoke_device_keys b c' i s = (s', r) \<Longrightarrow> co_steps c (snd s) (snd s')"
  by (auto simp: revoke_device_keys_def split: option.splits intro: revoke_keys_steps)

lemma on_error_steps: "co_steps c db (snd (fst r)) \<Longrightarrow> co_steps c db (snd (on_error r (queued c' i t h a)))"
  by (cases r) (auto simp: on_error_def split: option.splits intro: rtranclp_trans queued_steps)

lemma revoke_secret_steps: "co_steps c (snd s) (snd (revoke_secret b c' i s))"
  unfolding revoke_secret_def by (rule on_error_steps) (metis delete_secret_steps surj_pair fst_conv)

lemma revoke_entry_steps: "co_steps c (snd s) (snd (revoke_entry c' i s))"
  unfolding revoke_entry_def by (rule on_error_steps) (metis remove_credentials_steps surj_pair fst_conv)

lemma revoke_sharing_steps: "co_steps c (snd s) (snd (revoke_sharing b c' i s))"
  unfolding revoke_sharing_def by (rule on_error_steps) (metis remove_sharing_state surj_pair fst_conv rtranclp.rtrancl_refl)

lemma revoke_git_token_cases:
  assumes "revoke_git_token b c' i s = (s', r)"
  obtains (nothing) "s' = s" "r = None"
  | (failed) w e where "s' = queued c' i RevokeTargetForgejoToken (stored_token_name (snd s) i) [] e (w, snd s)" "r = None"
  | (deleted) w where "s' = (w, fst (SetForgejoTokenName (nowUTC c' w) i [] (snd s)))"
  using assms by (auto simp: revoke_git_token_def Let_def split: option.splits prod.splits)

lemma revoke_git_token_steps: "revoke_git_token b c' i s = (s', r) \<Longrightarrow> co_steps c (snd s) (snd s')"
proof (erule revoke_git_token_cases)
  fix w e assume "s' = queued c' i RevokeTargetForgejoToken (stored_token_name (snd s) i) [] e (w, snd s)"
  then show ?thesis using queued_steps [of c "(w, snd s)" c'] by simp
qed (simp_all add: token_name_steps)

lemma Externals_steps:
  assumes "revokeDeviceExternals b c' i s = (s', r)" shows "co_steps c (snd s) (snd s')"
proof -
  obtain s1 x where k: "revoke_device_keys b c' i s = (s1, x)" by fastforce
  obtain s2 y where g: "revoke_git_token b c' i (revoke_secret b c' i s1) = (s2, y)" by fastforce
  obtain s3 z where t: "RetryPendingDeviceRevocations b (revoke_sharing b c' i (revoke_entry c' i s2)) = (s3, z)" by fastforce
  have 1: "co_steps c (snd s) (snd s1)" by (rule revoke_device_keys_steps [OF k])
  have 2: "co_steps c (snd s1) (snd s2)" by (rule rtranclp_trans [OF revoke_secret_steps revoke_git_token_steps [OF g]])
  have 3: "co_steps c (snd s2) (snd s3)" by (rule rtranclp_trans [OF revoke_entry_steps rtranclp_trans [OF revoke_sharing_steps Retry_steps [OF t]]])
  have "s' = s1 \<or> s' = s2 \<or> s' = s3" using assms k g t
    by (cases x; cases y; cases z) (auto simp: revokeDeviceExternals_def Let_def)
  then show ?thesis using 1 rtranclp_trans [OF 1 2] rtranclp_trans [OF rtranclp_trans [OF 1 2] 3] by auto
qed

lemma Revoke_cases:
  assumes "RevokeCompanionDevice b i s = (s', r)" "bk_Environments b = Some c"
  obtains (invalid) e where "s' = s" "r = Some e"
  | (unknown) e w1 where "RevokeDevice c (trim_space i) (snd s) (fst s) = (w1, snd s', Inl e)" "r = Some (translateError e)"
  | (unconfirmed) e w1 db1 d where "RevokeDevice c (trim_space i) (snd s) (fst s) = (w1, db1, Inr d)"
      "revokeDeviceExternals b c (trim_space i) (w1, db1) = (s', Some e)" "r = Some e"
  | (confirmed) w1 db1 d s2 where "RevokeDevice c (trim_space i) (snd s) (fst s) = (w1, db1, Inr d)"
      "revokeDeviceExternals b c (trim_space i) (w1, db1) = (s2, None)" "snd s' = snd s2" "r = None"
proof -
  obtain w1 db1 x where d: "RevokeDevice c (trim_space i) (snd s) (fst s) = (w1, db1, x)" by (rule prod_cases3)
  obtain s2 y where e: "revokeDeviceExternals b c (trim_space i) (w1, db1) = (s2, y)" by fastforce
  show thesis
  proof (cases "trim_space i = []")
    case True
    then have "s' = s" "r = Some (translateError (Validation ''code is required'')) \<or> r \<noteq> None" using assms by (auto simp: RevokeCompanionDevice_def split: prod.splits)
    then show thesis using invalid by blast
  next
    case i: False
    show thesis
    proof (cases x)
      case (Inl err)
      then have "snd s' = db1" "r = Some (translateError err)" using assms i d by (auto simp: RevokeCompanionDevice_def Let_def split: prod.splits)
      then show thesis using unknown d Inl by blast
    next
      case (Inr dev)
      show thesis
      proof (cases y)
        case None
        then have "snd s' = snd s2" "r = None" using assms i d Inr e by (auto simp: RevokeCompanionDevice_def Let_def split: prod.splits)
        then show thesis using confirmed d Inr e None by blast
      next
        case (Some err)
        then have "s' = s2" "r = Some err" using assms i d Inr e by (auto simp: RevokeCompanionDevice_def Let_def split: prod.splits)
        then show thesis using unconfirmed d Inr e Some by blast
      qed
    qed
  qed
qed

lemma Revoke_steps: "RevokeCompanionDevice b i s = (s', r) \<Longrightarrow> bk_Environments b = Some c \<Longrightarrow> co_steps c (snd s) (snd s')"
proof (erule (1) Revoke_cases)
  fix w1 db1 d s2
  assume d: "RevokeDevice c (trim_space i) (snd s) (fst s) = (w1, db1, Inr d)" and "revokeDeviceExternals b c (trim_space i) (w1, db1) = (s2, None)" "snd s' = snd s2"
  then show ?thesis using rtranclp_trans [OF RevokeDevice_steps [OF d]] Externals_steps [of b c "trim_space i" "(w1, db1)" s2 None c] by simp
next
  fix e w1 db1 d
  assume d: "RevokeDevice c (trim_space i) (snd s) (fst s) = (w1, db1, Inr d)" and "revokeDeviceExternals b c (trim_space i) (w1, db1) = (s', Some e)"
  then show ?thesis using rtranclp_trans [OF RevokeDevice_steps [OF d]] Externals_steps [of b c "trim_space i" "(w1, db1)" s' "Some e" c] by simp
next
  fix e w1 assume "RevokeDevice c (trim_space i) (snd s) (fst s) = (w1, snd s', Inl e)"
  then show ?thesis by (rule RevokeDevice_steps)
qed simp

lemma with_git_token_steps: "with_git_token b c' i resp s = (s', r) \<Longrightarrow> co_steps c (snd s) (snd s')"
  by (auto simp: with_git_token_def token_name_steps split: prod.splits option.splits sum.splits if_splits)

lemma EnrollCompanion_steps:
  assumes "EnrollCompanion b code s = (s', r)" "bk_Environments b = Some c" shows "co_steps c (snd s) (snd s')"
proof -
  obtain w db where s: "s = (w, db)" by fastforce
  obtain w1 db1 x where e: "EnrollDevice c code db w = (w1, db1, x)" by (rule prod_cases3)
  have 1: "co_steps c db db1" by (rule EnrollDevice_steps [OF e])
  show ?thesis
  proof (cases x)
    case (Inl err)
    then show ?thesis using assms s e 1 by (auto simp: EnrollCompanion_def split: if_splits)
  next
    case (Inr p)
    obtain d token cr where p: "p = (d, token, cr)" by (rule prod_cases3)
    let ?resp = "\<lparr>er_Token = token, er_TokenPrefix = take 16 token, er_Credentials = cr, er_ForgejoToken = [], er_ForgejoHost = []\<rparr>"
    obtain w2 db2 resp where g: "with_git_token b c (dev_ID d) ?resp (w1, db1) = ((w2, db2), resp)" by (metis surj_pair)
    have "snd s' = db \<or> snd s' = db2" using assms s e Inr p g by (auto simp: EnrollCompanion_def split: if_splits)
    then show ?thesis using rtranclp_trans [OF 1] with_git_token_steps [OF g, of c] s by auto
  qed
qed

section \<open>The API\<close>

text \<open>One operation of the API on companions, whatever it answers; the world may change in between.\<close>

inductive api_step :: "'w Backend \<Rightarrow> companion_db \<Rightarrow> companion_db \<Rightarrow> bool" for b where
  as_create: "CreateCompanionEnrollment b (w, db) = ((w', db'), r) \<Longrightarrow> api_step b db db'"
| as_enroll: "EnrollCompanion b code (w, db) = ((w', db'), r) \<Longrightarrow> api_step b db db'"
| as_revoke: "RevokeCompanionDevice b i (w, db) = ((w', db'), e) \<Longrightarrow> api_step b db db'"
| as_retry: "RetryPendingDeviceRevocations b (w, db) = ((w', db'), n) \<Longrightarrow> api_step b db db'"
| as_info: "UpdateCompanionDeviceInfo b i info (w, db) = (db', r) \<Longrightarrow> api_step b db db'"
| as_oauth: "api_SetDeviceAllowOAuth b i allow (w, db) = (db', r) \<Longrightarrow> api_step b db db'"
| as_grant: "GrantDeviceEnvironment b i (w, db) = ((w', db'), g) \<Longrightarrow> api_step b db db'"
| as_ungrant: "RevokeDeviceEnvironment b i (w, db) = ((w', db'), g) \<Longrightarrow> api_step b db db'"
| as_fetch: "GetCompanionEnvironment b token (w, db) = ((w', db'), m) \<Longrightarrow> api_step b db db'"
| as_put: "PutToolEnvironment b name val (w, db) = ((w', db'), s) \<Longrightarrow> api_step b db db'"
| as_delete: "DeleteToolEnvironment b name (w, db) = ((w', db'), e) \<Longrightarrow> api_step b db db'"
| as_cleanup: "api_step b db (CleanupExpiredEnrollments now db)"

lemma as_api_db: "as_api r = (db', x) \<Longrightarrow> db' = fst r"
  by (auto simp: as_api_def split: prod.splits sum.splits)

lemma grant_result_db: "grant_result b i g m w r = ((w', db'), x) \<Longrightarrow> db' = fst r"
  by (auto simp: grant_result_def split: prod.splits sum.splits option.splits)

lemma change_grant_steps:
  assumes "change_grant b g i (w, db) = ((w', db'), x)" "bk_Environments b = Some c" shows "co_steps c db db'"
proof -
  have "co_steps c db (fst (GrantDevice (nowUTC c w) (trim_space i) db))" "co_steps c db (fst (RevokeGrant (nowUTC c w) (trim_space i) db))"
    by (metis GrantDevice_steps surj_pair fst_conv) (metis RevokeGrant_steps surj_pair fst_conv)
  then show ?thesis using assms by (auto simp: change_grant_def Let_def split: if_splits dest!: grant_result_db)
qed

lemma fetch_steps:
  assumes "GetCompanionEnvironment b token (w, db) = ((w', db'), x)" "bk_Environments b = Some c" shows "co_steps c db db'"
proof -
  obtain db1 d where v: "ValidateDeviceToken c (trim_space token) db w = (db1, d)" by fastforce
  have 1: "co_steps c db db1" by (rule ValidateDeviceToken_steps [OF v])
  show ?thesis
  proof (cases d)
    case (Inl e)
    then show ?thesis using assms v 1 by (auto simp: GetCompanionEnvironment_def split: if_splits)
  next
    case (Inr dev)
    obtain w2 db2 m where g: "GetCompanionEnvironmentBundle c (dev_ID dev) db1 w = (w2, db2, m)" by (rule prod_cases3)
    have "db' = db \<or> db' = db2" using assms v Inr g by (auto simp: GetCompanionEnvironment_def split: if_splits sum.splits)
    then show ?thesis using rtranclp_trans [OF 1 Bundle_steps [OF g]] by auto
  qed
qed

lemma api_step_steps: "api_step b db db' \<Longrightarrow> bk_Environments b = Some c \<Longrightarrow> co_steps c db db'"
proof (induction rule: api_step.induct)
  case (as_create w db w' db' r)
  then show ?case by (auto simp: CreateCompanionEnrollment_def split: prod.splits sum.splits dest: CreateEnrollment_steps)
next
  case (as_enroll code w db w' db' r)
  then show ?case using EnrollCompanion_steps by fastforce
next
  case (as_revoke i w db w' db' e)
  then show ?case using Revoke_steps by fastforce
next
  case (as_retry w db w' db' n)
  then show ?case using Retry_steps by fastforce
next
  case (as_info i info w db db' r)
  have "co_steps c db (fst (UpdateDeviceInfo (nowUTC c w) i info db))" by (metis UpdateDeviceInfo_steps surj_pair fst_conv)
  then show ?case using as_info by (auto simp: UpdateCompanionDeviceInfo_def dest!: as_api_db)
next
  case (as_oauth i allow w db db' r)
  have "co_steps c db (fst (SetDeviceAllowOAuth (nowUTC c w) i allow db))" by (metis SetDeviceAllowOAuth_steps surj_pair fst_conv)
  then show ?case using as_oauth by (auto simp: api_SetDeviceAllowOAuth_def dest!: as_api_db)
next
  case (as_grant i w db w' db' g)
  then show ?case by (auto simp: GrantDeviceEnvironment_def dest: change_grant_steps)
next
  case (as_ungrant i w db w' db' g)
  then show ?case by (auto simp: RevokeDeviceEnvironment_def dest: change_grant_steps)
next
  case (as_fetch token w db w' db' m)
  then show ?case by (rule fetch_steps)
next
  case (as_put name val w db w' db' s)
  then show ?case by (auto simp: PutToolEnvironment_def split: if_splits prod.splits sum.splits dest: PutToolEnv_steps)
next
  case (as_delete name w db w' db' e)
  then show ?case by (auto simp: DeleteToolEnvironment_def split: prod.splits option.splits dest: DeleteToolEnv_steps)
next
  case (as_cleanup db now)
  then show ?case by (intro one_step cs_cleanup)
qed

section \<open>A revocation that reports success\<close>

lemma on_error_covered:
  "entry_covered c i (snd (fst r)) \<Longrightarrow> entry_covered c i (snd (on_error r (queued c j t h a)))"
  "secret_covered b i (snd (fst r)) \<Longrightarrow> secret_covered b i (snd (on_error r (queued c j t h a)))"
  "co_keys (snd (on_error r (queued c j t h a))) = co_keys (snd (fst r))"
proof -
  obtain s x where r: "r = (s, x)" by fastforce
  show "entry_covered c i (snd (fst r)) \<Longrightarrow> entry_covered c i (snd (on_error r (queued c j t h a)))"
    by (cases x) (simp_all add: r on_error_def queued_covered(1) del: split_paired_all)
  show "secret_covered b i (snd (fst r)) \<Longrightarrow> secret_covered b i (snd (on_error r (queued c j t h a)))"
    by (cases x) (simp_all add: r on_error_def, rule queued_covered(2))
  show "co_keys (snd (on_error r (queued c j t h a))) = co_keys (snd (fst r))"
    by (cases x) (simp_all add: r on_error_def, rule queued_state(3) [OF refl])
qed

lemma revoke_secret_covered:
  assumes "trim_space i = i" "i \<noteq> []"
  shows "secret_covered b i (snd (revoke_secret b c i s))" "co_keys (snd (revoke_secret b c i s)) = co_keys (snd s)"
proof -
  obtain s1 x where d: "delete_secret b (device_secret i) s = (s1, x)" by fastforce
  note st = delete_secret_state [OF d]
  have t: "trim_space (device_secret i) = device_secret i" unfolding device_secret_def by (rule trim_prefixed [OF assms]) code_simp+
  have t': "trim_space RevokeTargetDeviceSecret = RevokeTargetDeviceSecret" "RevokeTargetDeviceSecret \<noteq> []" by code_simp+
  show "secret_covered b i (snd (revoke_secret b c i s))" "co_keys (snd (revoke_secret b c i s)) = co_keys (snd s)"
    using d st t t' assms queued_state [of c i RevokeTargetDeviceSecret "device_secret i" "[]" _ s1]
    by (cases x, auto simp: revoke_secret_def on_error_def secret_covered_def)+
qed

lemma revoke_entry_covered:
  assumes "trim_space i = i" "i \<noteq> []"
  shows "entry_covered c i (snd (revoke_entry c i s))" "secret_covered b i (snd s) \<Longrightarrow> secret_covered b i (snd (revoke_entry c i s))"
    "co_keys (snd (revoke_entry c i s)) = co_keys (snd s)"
proof -
  obtain s1 x where d: "remove_credentials c i s = (s1, x)" by fastforce
  note st = remove_credentials_state [OF d] and cv = remove_credentials_covered [OF d]
  have t: "trim_space (machine_user i) = machine_user i" unfolding machine_user_def by (rule trim_prefixed [OF assms]) code_simp+
  have t': "trim_space RevokeTargetHtpasswd = RevokeTargetHtpasswd" "RevokeTargetHtpasswd \<noteq> []" by code_simp+
  show "entry_covered c i (snd (revoke_entry c i s))" "co_keys (snd (revoke_entry c i s)) = co_keys (snd s)"
    using d st t t' assms queued_state [of c i RevokeTargetHtpasswd "machine_user i" "[]" _ s1]
    by (cases x, auto simp: revoke_entry_def on_error_def entry_covered_def)+
  show "secret_covered b i (snd s) \<Longrightarrow> secret_covered b i (snd (revoke_entry c i s))"
    unfolding revoke_entry_def by (rule on_error_covered(2)) (use d cv(2) in simp)
qed

lemma revoke_sharing_covered:
  "entry_covered c i (snd s) \<Longrightarrow> entry_covered c i (snd (revoke_sharing b c i s))"
  "secret_covered b i (snd s) \<Longrightarrow> secret_covered b i (snd (revoke_sharing b c i s))"
  "co_keys (snd (revoke_sharing b c i s)) = co_keys (snd s)"
proof -
  have "snd (fst (remove_sharing b i s)) = snd s" using remove_sharing_state [of b i s] by (metis prod.collapse)
  then show "entry_covered c i (snd s) \<Longrightarrow> entry_covered c i (snd (revoke_sharing b c i s))"
    "secret_covered b i (snd s) \<Longrightarrow> secret_covered b i (snd (revoke_sharing b c i s))"
    "co_keys (snd (revoke_sharing b c i s)) = co_keys (snd s)"
    unfolding revoke_sharing_def by (auto intro: on_error_covered(1,2) simp: on_error_covered(3))
qed

lemma revoke_git_token_covered:
  assumes "revoke_git_token b c i s = (s', r)"
  shows "secret_covered b i (snd s) \<Longrightarrow> secret_covered b i (snd s')" "co_keys (snd s') = co_keys (snd s)"
proof -
  have "(secret_covered b i (snd s) \<longrightarrow> secret_covered b i (snd s')) \<and> co_keys (snd s') = co_keys (snd s)"
    using assms
  proof (cases rule: revoke_git_token_cases)
    case (failed w e)
    have "secret_covered b i (snd s')" if "secret_covered b i (snd s)"
      unfolding failed(1) by (rule queued_covered(2)) (use that in simp)
    moreover have "co_keys (snd s') = co_keys (snd (w, snd s))" unfolding failed(1) by (rule queued_state(3) [OF refl])
    ultimately show ?thesis by simp
  next
    case (deleted w)
    then show ?thesis by (simp add: secret_covered_def secret_gone_def is_queued_def)
  qed simp
  then show "secret_covered b i (snd s) \<Longrightarrow> secret_covered b i (snd s')" "co_keys (snd s') = co_keys (snd s)" by simp_all
qed

lemma device_keys_dead_from:
  assumes "\<forall>h \<in> set (device_keys db i). key_dead (vk_ID h) ks" "map (\<lambda>r. (vr_ID r, owned_by i r)) ks = map (\<lambda>r. (vr_ID r, owned_by i r)) (co_keys db)"
  shows "device_keys_dead i ks"
  unfolding device_keys_dead_def list_all_iff
proof (intro ballI impI)
  fix r assume r: "r \<in> set ks" "owned_by i r"
  have "(vr_ID r, True) \<in> set (map (\<lambda>r. (vr_ID r, owned_by i r)) (co_keys db))" unfolding assms(2) [symmetric] using r by force
  then obtain x where "x \<in> set (co_keys db)" "vr_ID x = vr_ID r" "owned_by i x" by auto
  then have "vr_Key x \<in> set (device_keys db i)" by (simp add: device_keys_def owned_by_def)
  then have "key_dead (vr_ID r) ks" using assms(1) \<open>vr_ID x = vr_ID r\<close> by force
  then show "vk_RevokedAt (vr_Key r) \<noteq> None" using r(1) by (simp add: key_dead_def list_all_iff)
qed

lemma Externals_confirmed:
  assumes "revokeDeviceExternals b c i s = (s', None)" "bk_Environments b = Some c" "trim_space i = i" "i \<noteq> []" "keys_ok (co_keys (snd s))"
  shows "no_entry c (machine_user i) (co_fs (snd s'))" "secret_gone b (device_secret i) (snd s')"
    "unconfirmed (snd s') i = []" "bk_Keys b \<noteq> None \<Longrightarrow> device_keys_dead i (co_keys (snd s'))"
proof -
  obtain s1 x where k: "revoke_device_keys b c i s = (s1, x)" by fastforce
  obtain s2 y where g: "revoke_git_token b c i (revoke_secret b c i s1) = (s2, y)" by fastforce
  let ?s3 = "revoke_sharing b c i (revoke_entry c i s2)"
  obtain s4 z where t: "RetryPendingDeviceRevocations b ?s3 = (s4, z)" by fastforce
  note rt = Retry_state [OF t assms(2)]
  have out: "x = None" "y = None" "s' = s4" "unconfirmed (snd s4) i = []"
    using assms(1) k g t rt(4) by (cases x; cases y; auto simp: revokeDeviceExternals_def Let_def split: if_splits)+
  have sc: "secret_covered b i (snd s2)" using revoke_git_token_covered(1) [OF g] revoke_secret_covered(1) [OF assms(3,4)] by blast
  have "entry_covered c i (snd s4)" "secret_covered b i (snd s4)"
    by (rule rt(1) [OF revoke_sharing_covered(1) [OF revoke_entry_covered(1) [OF assms(3,4)]]])
      (rule rt(2) [OF revoke_sharing_covered(2) [OF revoke_entry_covered(2) [OF assms(3,4) sc]]])
  moreover have "\<not> is_queued (snd s4) i t h" for t h
    using out(4) by (auto simp: is_queued_def unconfirmed_def ListRevocationPending_def filter_empty_conv pending_key_def)
  ultimately show "no_entry c (machine_user i) (co_fs (snd s'))" "secret_gone b (device_secret i) (snd s')"
    using out(3) by (simp_all add: entry_covered_def secret_covered_def)
  show "unconfirmed (snd s') i = []" using out by simp
  have kk: "co_keys (snd s4) = co_keys (snd s1)"
    by (simp only: rt(3) revoke_sharing_covered(3) revoke_entry_covered(3) [OF assms(3,4)] revoke_git_token_covered(2) [OF g] revoke_secret_covered(2) [OF assms(3,4)])
  show "device_keys_dead i (co_keys (snd s'))" if h: "bk_Keys b \<noteq> None"
  proof -
    obtain ks where ks: "bk_Keys b = Some ks" using h by auto
    then have "revoke_keys c ks i (device_keys (snd s) i) s = (s1, None)" using k out(1) by (simp add: revoke_device_keys_def)
    from revoke_keys_dead [OF this assms(5), of i] show ?thesis using device_keys_dead_from [of "snd s" i "co_keys (snd s1)"] kk out(3) by simp
  qed
qed

end
