(* ===== verification/CompanionProps.thy ===== *)
theory CompanionProps
  imports CompanionApi
begin

text \<open>
  internal/companion, companion_ops.go and the virtual keys of internal/providers: the properties, with a
  small instance for the witnesses.
\<close>

section \<open>An instance\<close>

definition co_vault :: "nat Vault" where
  "co_vault = \<lparr>va_Seal = (\<lambda>n p. n @ rev p), va_Open = (\<lambda>n x. if take (length n) x = n then Some (rev (drop (length n) x)) else None),
     va_Now = int, va_Rand = (\<lambda>n w. (w + 1, replicate n (char_of (65 + w mod 26))))\<rparr>"

lemma co_vault_ok: "vault_ok co_vault"
  by (simp add: vault_ok_def co_vault_def)

definition co_gateway :: "bool \<Rightarrow> nat LiteLLM" where
  "co_gateway up = \<lparr>gw_MasterKey = (\<lambda>_. ''master''),
     gw_Generate = (\<lambda>_ w. (w + 1, if up then Response 200 (Inr (''sk-'' @ itoa (int w), ''kid'' @ itoa (int w), [])) else Unreachable (errorf ''refused''))),
     gw_Delete = (\<lambda>_ w. (w, if up then Response 200 () else Unreachable (errorf ''refused'')))\<rparr>"

definition co_keys_service :: "bool \<Rightarrow> nat KeyService" where
  "co_keys_service up = \<lparr>ks_Vault = co_vault, ks_Hash = (\<lambda>t. t), ks_Gateway = Some (co_gateway up), ks_Emit = (\<lambda>_ _ _ w. w)\<rparr>"

definition co_demo :: "nat Companion" where
  "co_demo = \<lparr>ce_Keys = co_keys_service True, ce_Secrets = True, ce_Providers = True, ce_Bcrypt = (\<lambda>p w. (w, Inr (''2a'' @ take 4 p))),
     ce_Restart = (\<lambda>_ w. (w, None)), ce_HtpasswdPath = [], ce_ResticService = []\<rparr>"

definition co_backend :: "nat Backend" where
  "co_backend = \<lparr>bk_Environments = Some co_demo, bk_Keys = Some (co_keys_service True), bk_Gateway = Some (co_gateway True), bk_Secrets = True,
     bk_Forgejo = None, bk_CreateToken = (\<lambda>_ w. (w, Inl (errorf ''none''))), bk_ForgejoEnv = [], bk_Syncer = None,
     bk_Reconcile = (\<lambda>w. w), bk_Publish = (\<lambda>_ _ _ w. w), bk_EnsureResticApp = (\<lambda>w. w)\<rparr>"

lemma co_backend_env [simp]: "bk_Environments co_backend = Some co_demo"
  by (simp add: co_backend_def)

text \<open>A code created at time 0 and enrolled at time 3; the random texts are one character.\<close>

definition co_short :: "nat Companion" where
  "co_short = co_demo\<lparr>ce_Keys := (co_keys_service True)\<lparr>ks_Vault := co_vault\<lparr>va_Rand := (\<lambda>n w. (w + 1, [char_of (65 + w mod 26)]))\<rparr>\<rparr>\<rparr>"

definition co_code :: string where "co_code = snd (generateEnrollmentCode co_short 0)"
definition co_created :: companion_db where "co_created = fst (snd (CreateEnrollment co_short empty_companion_db 0))"
definition co_enrolled :: companion_db where "co_enrolled = fst (snd (EnrollDevice co_short co_code co_created 3))"
definition co_device :: id where "co_device = dev_ID (hd (co_devices co_enrolled))"

lemma co_created_ok: "co_steps co_short empty_companion_db co_created" "companion_ok co_created"
proof -
  obtain w db r where c: "CreateEnrollment co_short empty_companion_db 0 = (w, db, r)" by (rule prod_cases3)
  show 1: "co_steps co_short empty_companion_db co_created"
    using CreateEnrollment_steps [OF c] by (simp add: co_created_def c)
  show "companion_ok co_created" by (rule companions.reached_ok [OF 1])
qed

lemma co_enrolled_result:
  "\<exists>w d token cr. EnrollDevice co_short co_code co_created 3 = (w, co_enrolled, Inr (d, token, cr)) \<and> dev_ID d = co_device \<and> \<not> device_revoked co_device co_enrolled"
proof -
  have f: "\<not> isl (snd (snd (EnrollDevice co_short co_code co_created 3)))" by code_simp
  have i: "dev_ID (fst (projr (snd (snd (EnrollDevice co_short co_code co_created 3))))) = co_device" by code_simp
  have n: "\<not> device_revoked co_device co_enrolled" by code_simp
  obtain w db r where e: "EnrollDevice co_short co_code co_created 3 = (w, db, r)" by (rule prod_cases3)
  have db: "db = co_enrolled" by (simp add: co_enrolled_def e)
  obtain p where p: "r = Inr p" using f unfolding e by (cases r) simp_all
  obtain d token cr where q: "p = (d, token, cr)" by (rule prod_cases3)
  have "dev_ID d = co_device" using i unfolding e p q by simp
  then show ?thesis using e n unfolding db p q by blast
qed

lemma co_enrolled_ok: "co_steps co_short empty_companion_db co_enrolled" "companion_ok co_enrolled"
proof -
  have "co_steps co_short co_created co_enrolled" using co_enrolled_result by (auto dest: EnrollDevice_steps)
  then show 1: "co_steps co_short empty_companion_db co_enrolled" by (rule rtranclp_trans [OF co_created_ok(1)])
  show "companion_ok co_enrolled" by (rule companions.reached_ok [OF 1])
qed

section \<open>Tables\<close>

text \<open>
  C32: In every state the operations of the API on companions reach from empty tables:
  identifiers and token hashes of devices, identifiers and code hashes of enrollments,
  identifiers and hashes of virtual keys, the granted devices and the keys of the queue of
  unconfirmed revocations are unique; every grant belongs to a stored device; the revision row
  exists and has no negative number; and the names of secrets carry no white space around them.
\<close>

theorem companion_tables_well_formed:
  assumes "(api_step b)\<^sup>*\<^sup>* empty_companion_db db" "bk_Environments b = Some c"
  shows "companion_ok db \<and> names_trimmed (co_secrets db)"
proof -
  have s: "co_steps c empty_companion_db db"
    using assms(1) by (induction rule: rtranclp_induct) (auto dest: api_step_steps [OF _ assms(2)])
  moreover have "names_trimmed (co_secrets db)"
    by (rule steps_last [OF s, where Q = "\<lambda>x. names_trimmed (co_secrets x)"]) (simp add: empty_companion_db_def names_trimmed_def, erule (1) names_trimmed_co_step)
  ultimately show ?thesis using companions.reached_ok by blast
qed

theorem companion_tables_well_formed_witness:
  "companion_ok (snd (fst (CreateCompanionEnrollment co_backend (0, empty_companion_db)))) \<and>
   length (co_enrollments (snd (fst (CreateCompanionEnrollment co_backend (0, empty_companion_db))))) = 1"
proof -
  have "api_step co_backend empty_companion_db (snd (fst (CreateCompanionEnrollment co_backend (0, empty_companion_db))))"
    by (rule as_create [of co_backend 0 empty_companion_db "fst (fst (CreateCompanionEnrollment co_backend (0, empty_companion_db)))" _
      "snd (CreateCompanionEnrollment co_backend (0, empty_companion_db))"]) simp
  moreover have "length (co_enrollments (snd (fst (CreateCompanionEnrollment co_backend (0, empty_companion_db))))) = 1" by code_simp
  ultimately show ?thesis using companion_tables_well_formed [OF r_into_rtranclp co_backend_env] by blast
qed

section \<open>Enrolling\<close>

text \<open>
  C33: An enrollment code enrolls one device: after an enrollment with a code succeeded, along
  every interleaving of statements of the service, enrolling with the same code is refused as
  already consumed without a change; and a second request that had passed the checks before the
  first one committed is refused by its own transaction.
\<close>

theorem enrollment_code_enrolls_once:
  assumes "companion_ok db" "EnrollDevice c code db w = (w1, db1, Inr (d, token, cr))" "co_steps c db1 db2"
    and "check_code c code db t = Inr en"
  shows "EnrollDevice c code db2 w2 = (w2, db2, Inl (wrapf EErrConsumed ''enrollment already consumed'')) \<and>
    enroll_tx t (en_ID en) d2 db2 = (db2, Some (wrapf EErrConsumed ''enrollment already consumed''))"
  using assms(2)
proof (cases rule: EnrollDevice_cases)
  case (enrolled x i b db' fs cr' w')
  let ?h = "ce_Hash c (trim_space code)"
  note k = check_code_Inr [OF enrolled(1)] and k' = check_code_Inr [OF assms(4)]
  have "distinct (map en_CodeHash (co_enrollments db))" using assms(1) by (simp add: companion_ok_def enrollments_ok_def)
  then have same: "x = en" using k(3,4) k'(3,4) inj_onD [of en_CodeHash "set (co_enrollments db)" x en] by (simp add: distinct_map)
  have "row_consumed (en_ID en) ?h db1" using enrolled_row_consumed [OF enrolled(1,3)] enrolled(4) same by (simp add: row_consumed_def)
  then have r: "row_consumed (en_ID en) ?h db2" by (rule steps_last [OF assms(3)]) (rule row_consumed_step)
  have ok: "companion_ok db2"
    by (rule companions.steps_ok [OF rtranclp_trans [OF EnrollDevice_steps [OF assms(2)] assms(3)] assms(1)])
  have "EnrollDevice c code db2 w2 = (w2, db2, Inl (wrapf EErrConsumed ''enrollment already consumed''))"
    using consumed_code_refused [OF ok row_consumed_code [OF r] k(1,2)] by (simp add: EnrollDevice_def)
  moreover obtain y where y: "y \<in> set (co_enrollments db2)" "en_ID y = en_ID en" "en_ConsumedAt y \<noteq> None"
    using r unfolding row_consumed_def list_ex_iff by blast
  moreover have "enroll_tx t (en_ID en) d2 db2 = (db2, Some (wrapf EErrConsumed ''enrollment already consumed''))"
    using consumed_tx_refused [OF ok y(1,3)] y(2) by simp
  ultimately show ?thesis by simp
qed simp_all

theorem enrollment_code_enrolls_once_witness:
  "snd (snd (EnrollDevice co_short co_code co_created 3)) \<noteq> snd (snd (EnrollDevice co_short co_code co_enrolled 9)) \<and>
   EnrollDevice co_short co_code co_enrolled 9 = (9, co_enrolled, Inl (wrapf EErrConsumed ''enrollment already consumed''))"
proof -
  obtain w d token cr where e: "EnrollDevice co_short co_code co_created 3 = (w, co_enrolled, Inr (d, token, cr))" using co_enrolled_result by blast
  have n: "nowUTC co_short 3 = 3" by code_simp
  obtain en where en: "check_code co_short co_code co_created 3 = Inr en" using e by (cases rule: EnrollDevice_cases) (simp_all add: n)
  show ?thesis using enrollment_code_enrolls_once [OF co_created_ok(2) e rtranclp.rtrancl_refl en] e by simp
qed

text \<open>
  C34: The token an enrollment returned authenticates exactly the device it created, in every
  state any interleaving of statements reaches afterwards, until the device is revoked; from
  then on it is refused as revoked.
\<close>

theorem token_opens_until_the_device_is_revoked:
  assumes "companion_ok db" "EnrollDevice c code db w = (w1, db1, Inr (d, token, cr))" "co_steps c db1 db2"
  shows "if device_revoked (dev_ID d) db2
    then ValidateDeviceToken c token db2 w2 = (db2, Inl (wrapf EErrRevoked ''device revoked''))
    else \<exists>x. snd (ValidateDeviceToken c token db2 w2) = Inr x \<and> dev_ID x = dev_ID d"
  using assms(2)
proof (cases rule: EnrollDevice_cases)
  case (enrolled en i b db' fs cr' w')
  have d: "d = new_device c i token (nowUTC c w)" "token = ''oma_dev_'' @ base64url b" using enrolled(5) by simp_all
  have "holds_token (dev_ID d) (ce_Hash c token) db1"
    using enrolled(3)
  proof (cases rule: enroll_tx_cases)
    case (enrolled x)
    then show ?thesis using \<open>db' = _\<close> \<open>db1 = _\<close> d by (simp add: holds_token_def new_device_def)
  qed simp
  then have h: "holds_token (dev_ID d) (ce_Hash c token) db2" by (rule steps_last [OF assms(3)]) (rule holds_token_step)
  have ok: "companion_ok db2"
    by (rule companions.steps_ok [OF rtranclp_trans [OF EnrollDevice_steps [OF assms(2)] assms(3)] assms(1)])
  show ?thesis by (rule token_outcome [OF ok h d(2)])
qed simp_all

theorem token_opens_until_the_device_is_revoked_witness:
  "\<exists>token x. snd (ValidateDeviceToken co_short token co_enrolled 9) = Inr x \<and> dev_ID x = co_device \<and>
     (\<exists>db. ValidateDeviceToken co_short token db 9 = (db, Inl (wrapf EErrRevoked ''device revoked'')))"
proof -
  obtain w d token cr where e: "EnrollDevice co_short co_code co_created 3 = (w, co_enrolled, Inr (d, token, cr))" "dev_ID d = co_device"
    "\<not> device_revoked co_device co_enrolled" using co_enrolled_result by blast
  let ?db = "mark_revoked 8 co_device co_enrolled"
  have s: "co_steps co_short co_enrolled ?db" by (rule one_step) (rule cs_revoke)
  have "list_ex (\<lambda>d. dev_ID d = co_device \<and> dev_RevokedAt d = None) (co_devices co_enrolled)" by code_simp
  then have "device_revoked co_device ?db" by (rule mark_revoked_revokes)
  then have "ValidateDeviceToken co_short token ?db 9 = (?db, Inl (wrapf EErrRevoked ''device revoked''))"
    using token_opens_until_the_device_is_revoked [OF co_created_ok(2) e(1) s, of 9] unfolding e(2) by (simp only: if_True)
  moreover obtain x where "snd (ValidateDeviceToken co_short token co_enrolled 9) = Inr x" "dev_ID x = co_device"
    using token_opens_until_the_device_is_revoked [OF co_created_ok(2) e(1) rtranclp.rtrancl_refl, of 9] unfolding e(2) if_not_P [OF e(3)] by (elim exE conjE)
  ultimately show ?thesis by (intro exI conjI)
qed

section \<open>The bundle\<close>

lemma reserved_values_other: "n \<notin> set reservedNames \<Longrightarrow> reserved_values u k b n = b n"
  by (simp add: reserved_values_def reservedNames_def Let_def)

lemma PutToolEnv_cases:
  assumes "PutToolEnv c name val db w = (w1, db1, Inr sec)"
  obtains s1 where "ValidateToolEnvName name = None" "ce_Secrets c"
    "put_or_rotate c ''environment'' (trim_space name) val (co_secrets db) w = (w1, s1, Inr sec)"
    "co_secrets db1 = s1" "revision_of db1 = revision_of db + 1" "\<exists>k. GetRevision db1 = Inr (revision_of db1, k)"
    "co_devices db1 = co_devices db" "co_grants db1 = co_grants db"
proof -
  have v: "checked (ValidateToolEnvName name) (ValidateToolEnvValue val) = None" "ce_Secrets c"
    using assms by (auto simp: PutToolEnv_def split: option.splits if_splits)
  obtain w2 s1 x where p: "put_or_rotate c ''environment'' (trim_space name) val (co_secrets db) w = (w2, s1, x)" by (rule prod_cases3)
  obtain sec' where x: "x = Inr sec'" using assms v p by (cases x) (simp_all add: PutToolEnv_def Let_def)
  obtain db2 y where b: "IncrementRevision (nowUTC c w2) (db\<lparr>co_secrets := s1\<rparr>) = (db2, y)" by fastforce
  obtain r where y: "y = Inr r" using assms v p x b by (cases y) (simp_all add: PutToolEnv_def Let_def)
  obtain m where m: "co_meta db = Some m" using b y by (cases "co_meta db") (auto simp: IncrementRevision_def)
  obtain vs where r: "w1 = w2" "sec = sec'" "db1 = db2\<lparr>co_variables := vs\<rparr>" using assms v p x b y by (auto simp: PutToolEnv_def Let_def)
  obtain k u where db2: "db2 = db\<lparr>co_secrets := s1, co_meta := Some \<lparr>em_Revision = em_Revision m + 1, em_VariableCount = k, em_UpdatedAt = u\<rparr>\<rparr>"
    using b m by (auto simp: IncrementRevision_def)
  have name: "ValidateToolEnvName name = None" using v(1) by (auto simp: checked_def split: option.splits)
  show thesis
    by (rule that [OF name v(2) p [unfolded x r(2) [symmetric] r(1) [symmetric]]]) (simp_all add: r(3) db2 revision_of_def GetRevision_def m)
qed

text \<open>
  C35: After a variable of the tool environment was put, a device with a grant that fetches its
  bundle receives the new value, and for every other name that is not reserved exactly the
  value the broker holds under it; a device without a grant receives the empty bundle, which
  clears what it has. The revision it gets is newer than before the put. It holds when what the
  cipher seals it opens again.
\<close>

theorem granted_device_gets_the_last_values:
  assumes "vault_ok (ce_Vault c)" "co_steps c empty_companion_db db" "PutToolEnv c name val db w = (w1, db1, Inr sec)"
    and "GetCompanionEnvironmentBundle c i db1 w2 = (w3, db3, Inr (m, rv))"
  shows "revision_of db < rv \<and>
    (if IsDeviceGranted db1 (trim_space i)
     then m (trim_space name) = Some val \<and>
       (\<forall>n. n \<notin> set reservedNames \<and> n \<noteq> trim_space name \<longrightarrow> m n = abs_secrets (ce_Vault c) (co_secrets db) (''environment'', n))
     else m = Map.empty)"
proof -
  obtain s1 where p: "ValidateToolEnvName name = None" "ce_Secrets c"
    "put_or_rotate c ''environment'' (trim_space name) val (co_secrets db) w = (w1, s1, Inr sec)"
    "co_secrets db1 = s1" "revision_of db1 = revision_of db + 1" "\<exists>k. GetRevision db1 = Inr (revision_of db1, k)"
    using PutToolEnv_cases [OF assms(3)] by metis
  have s: "co_steps c empty_companion_db db1" by (rule rtranclp_trans [OF assms(2) PutToolEnv_steps [OF assms(3)]])
  have ok: "companion_ok db" "companion_ok db1" by (rule companions.reached_ok [OF assms(2)]) (rule companions.reached_ok [OF s])
  have nt: "names_trimmed (co_secrets db1)"
    by (rule steps_last [OF s, where Q = "\<lambda>x. names_trimmed (co_secrets x)"]) (simp add: empty_companion_db_def names_trimmed_def, erule (1) names_trimmed_co_step)
  have e: "trim_space ''environment'' = ''environment''" by code_simp
  have val: "abs_secrets (ce_Vault c) s1 = (abs_secrets (ce_Vault c) (co_secrets db))((''environment'', trim_space name) \<mapsto> val)"
    by (rule put_or_rotate_value [OF assms(1) _ p(3) e]) (use ok(1) in \<open>simp_all add: companion_ok_def\<close>)
  have tv: "tool_values c db1 n = ((abs_secrets (ce_Vault c) (co_secrets db))((''environment'', trim_space name) \<mapsto> val)) (''environment'', n)" for n
    using tool_values_abs [of db1 c n] ok(2) nt p(4) val by (simp add: companion_ok_def)
  have new: "trim_space name \<notin> set reservedNames" using p(1) by (auto simp: ValidateToolEnvName_def Let_def split: if_splits)
  have g: "rv = revision_of db1 \<and> (if IsDeviceGranted db1 (trim_space i) then \<exists>u k. m = reserved_values u k (tool_values c db1) else m = Map.empty)"
    using assms(4) p(2,6) by (auto simp: GetCompanionEnvironmentBundle_def Let_def split: if_splits option.splits sum.splits prod.splits)
  show ?thesis using g p(5) tv new by (auto simp: reserved_values_other)
qed

text \<open>A device that enrolled and is granted, and one variable put.\<close>

definition co_row :: EnrollmentRow where
  "co_row = \<lparr>en_ID = ''e1'', en_CodeHash = ''h'', en_CodePrefix = ''h'', en_ExpiresAt = 9, en_ConsumedAt = None, en_CreatedAt = 0\<rparr>"

definition co_joined :: companion_db where
  "co_joined = empty_companion_db\<lparr>co_enrollments := [co_row\<lparr>en_ConsumedAt := Some 3\<rparr>], co_devices := [new_device co_demo ''d1'' ''oma_dev_x'' 3]\<rparr>"

definition co_granted :: companion_db where "co_granted = co_joined\<lparr>co_grants := [\<lparr>eg_DeviceID = ''d1'', eg_GrantedAt = 5\<rparr>]\<rparr>"
definition co_put :: companion_db where "co_put = fst (snd (PutToolEnv co_demo ''T'' ''v'' co_granted 6))"
definition co_bundle :: "EnvBundle \<times> int" where "co_bundle = projr (snd (snd (GetCompanionEnvironmentBundle co_demo ''d1'' co_put 9)))"

lemma co_joined_steps: "co_steps co_demo empty_companion_db co_joined"
proof -
  let ?a = "empty_companion_db\<lparr>co_enrollments := [co_row]\<rparr>"
  have "co_step co_demo empty_companion_db ?a"
    by (rule cs_enrollment [of _ co_row]) (simp add: insertEnrollment_def empty_companion_db_def)
  moreover have "co_step co_demo ?a co_joined"
    by (rule cs_enroll [of 3 "''e1''" "new_device co_demo ''d1'' ''oma_dev_x'' 3" _ _ None])
      (simp add: enroll_tx_def co_joined_def co_row_def empty_companion_db_def update_where_def)
  ultimately show ?thesis by (blast intro: then_step)
qed

lemma co_granted_steps: "co_steps co_demo empty_companion_db co_granted"
proof -
  have "co_step co_demo co_joined (co_joined\<lparr>co_grants := co_grants co_joined @ [\<lparr>eg_DeviceID = ''d1'', eg_GrantedAt = 5\<rparr>]\<rparr>)"
    by (rule cs_grant) (simp_all add: device_by_id_def co_joined_def empty_companion_db_def new_device_def)
  then have "co_step co_demo co_joined co_granted" by (simp add: co_granted_def co_joined_def empty_companion_db_def)
  then show ?thesis by (rule then_step [OF co_joined_steps])
qed

lemma inr_triple: "\<not> isl (snd (snd t)) \<Longrightarrow> t = (fst t, fst (snd t), Inr (projr (snd (snd t))))"
  by (cases t; cases "snd (snd t)") simp_all

lemma put_into_empty:
  assumes "put_checks scope name val = None"
  obtains w' db' sec where "secret_Put v [] scope name val w = (w', db', Inr sec)"
proof -
  obtain w1 nonce where e: "va_Rand v nonce_size w = (w1, nonce)" by fastforce
  obtain w2 i where i: "store_NewID v w1 = (w2, i)" by fastforce
  show thesis
    using assms e i put_checks_None [OF assms] that
    by (auto simp: secret_Put_def encrypt_def upsertSecret_def GetByName_def by_key_def checked_def)
qed

theorem granted_device_gets_the_last_values_witness:
  "fst co_bundle ''T'' = Some ''v'' \<and> revision_of co_granted < snd co_bundle"
proof -
  have n: "validateScope ''environment'' = None" "secret_validateName ''T'' = None" "validateSecretValueForName ''T'' ''v'' = None"
    "ValidateToolEnvName ''T'' = None" "char_of (0 :: nat) \<noteq> CHR ''v''" "char_of (10 :: nat) \<noteq> CHR ''v''" "char_of (13 :: nat) \<noteq> CHR ''v''" by code_simp+
  have c: "put_checks ''environment'' ''T'' ''v'' = None" "checked (ValidateToolEnvName ''T'') (ValidateToolEnvValue ''v'') = None"
    by (simp_all add: n put_checks_def checked_def validateValue_def ValidateToolEnvValue_def)
  have t: "trim_space ''d1'' = ''d1''" "trim_space ''T'' = ''T''" by code_simp+
  obtain w s sec where q: "secret_Put co_vault [] ''environment'' ''T'' ''v'' 6 = (w, s, Inr sec)" by (rule put_into_empty [OF c(1)])
  have "\<not> isl (snd (snd (PutToolEnv co_demo ''T'' ''v'' co_granted 6)))"
    using q by (simp add: PutToolEnv_def c(2) t put_or_rotate_def IncrementRevision_def co_demo_def co_keys_service_def co_granted_def co_joined_def empty_companion_db_def)
  then have p: "PutToolEnv co_demo ''T'' ''v'' co_granted 6 = (fst (PutToolEnv co_demo ''T'' ''v'' co_granted 6), co_put,
      Inr (projr (snd (snd (PutToolEnv co_demo ''T'' ''v'' co_granted 6)))))" unfolding co_put_def by (rule inr_triple)
  obtain k where d: "co_grants co_put = co_grants co_granted" "co_devices co_put = co_devices co_granted" "GetRevision co_put = Inr (revision_of co_put, k)"
    using PutToolEnv_cases [OF p] by metis
  have g: "IsDeviceGranted co_put (trim_space ''d1'')" unfolding IsDeviceGranted_def d(1) t by (simp add: co_granted_def)
  have "\<not> isl (snd (snd (GetCompanionEnvironmentBundle co_demo ''d1'' co_put 9)))"
    using g d by (simp add: GetCompanionEnvironmentBundle_def t device_by_id_def co_granted_def co_joined_def new_device_def co_demo_def split: prod.splits)
  then have b: "GetCompanionEnvironmentBundle co_demo ''d1'' co_put 9 = (fst (GetCompanionEnvironmentBundle co_demo ''d1'' co_put 9),
      fst (snd (GetCompanionEnvironmentBundle co_demo ''d1'' co_put 9)), Inr (fst co_bundle, snd co_bundle))"
    unfolding co_bundle_def prod.collapse by (rule inr_triple)
  have v: "vault_ok (ce_Vault co_demo)" using co_vault_ok by (simp add: co_demo_def co_keys_service_def)
  show ?thesis using granted_device_gets_the_last_values [OF v co_granted_steps p b] unfolding if_P [OF g] t(2) by blast
qed

section \<open>The file of the machine backups\<close>

definition machine_entries :: "'w Companion \<Rightarrow> FS \<Rightarrow> string \<Rightarrow> string option" where
  "machine_entries c fs = (case fs_Files fs (machineBackupHtpasswdPath c) of None \<Rightarrow> Map.empty | Some (_, data) \<Rightarrow> entry_of data)"

lemma entry_of_empty: "entry_of [] = Map.empty"
  by (simp add: fun_eq_iff entry_of_def entry_lines_def text_lines_def trim_space_def trim_func_def trim_left_def trim_right_def)

lemma replace_htpasswd_entries:
  assumes "replace_htpasswd (machineBackupHtpasswdPath c) content fs = (fs', r)"
  shows "machine_entries c fs' = (case r of None \<Rightarrow> entry_of content | Some _ \<Rightarrow> machine_entries c fs)"
  using replace_htpasswd_files [OF assms] by (cases r) (auto simp: machine_entries_def)

lemma read_entries:
  assumes "fs_ReadFile (machineBackupHtpasswdPath c) fs = (fs', r)"
  shows "machine_entries c fs' = machine_entries c fs" "r = Inr data \<Longrightarrow> machine_entries c fs = entry_of data"
    "r = Inl (errorf ''file does not exist'') \<Longrightarrow> machine_entries c fs = Map.empty"
  using assms fs_ReadFile_files [OF assms] fs_ReadFile_Inr [of "machineBackupHtpasswdPath c" fs fs' data] fs_ReadFile_missing [of "machineBackupHtpasswdPath c" fs fs']
  by (auto simp: machine_entries_def)

lemma update_entries:
  assumes "ce_Bcrypt c password w = (w', Inr h)" "line_text (u @ '':'' @ h)" "\<not> List.member u CHR '':''" "u \<noteq> []" "hd u \<noteq> CHR ''#''"
  shows "case updateHtpasswdEntry c u password fs w of (_, fs', r) \<Rightarrow>
      machine_entries c fs' = (case r of None \<Rightarrow> (machine_entries c fs)(u \<mapsto> h) | Some _ \<Rightarrow> machine_entries c fs)"
proof -
  let ?p = "machineBackupHtpasswdPath c"
  note up = entry_updated [OF assms(2-5)]
  obtain fs1 x where m: "fs_MkdirAll (path_dir ?p) fs = (fs1, x)" by fastforce
  have e1: "machine_entries c fs1 = machine_entries c fs" using fs_MkdirAll_files [OF m] by (simp add: machine_entries_def)
  obtain fs2 y where rd: "fs_ReadFile ?p fs1 = (fs2, y)" by fastforce
  note re = read_entries [OF rd]
  have put: ?thesis if r: "updateHtpasswdEntry c u password fs w = (w', replace_htpasswd ?p (updated_text u (u @ '':'' @ h) data) fs2)"
    and old: "entry_of data = machine_entries c fs" for data
  proof -
    obtain fs3 z where wr: "replace_htpasswd ?p (updated_text u (u @ '':'' @ h) data) fs2 = (fs3, z)" by fastforce
    show ?thesis using replace_htpasswd_entries [OF wr] up [of data] re(1) e1 old unfolding r wr by (cases z) simp_all
  qed
  show ?thesis
  proof (cases x)
    case (Some e)
    then have "updateHtpasswdEntry c u password fs w = (w', fs1, Some (wrapctx ''mkdir htpasswd dir'' e))"
      using assms(1) m by (simp add: updateHtpasswdEntry_def Let_def)
    then show ?thesis using e1 by simp
  next
    case x: None
    show ?thesis
    proof (cases y)
      case (Inr data)
      have "updateHtpasswdEntry c u password fs w = (w', replace_htpasswd ?p (updated_text u (u @ '':'' @ h) data) fs2)"
        using assms(1) m x rd Inr by (simp add: updateHtpasswdEntry_def Let_def)
      then show ?thesis using re(2) [OF Inr] e1 by (intro put) simp_all
    next
      case (Inl e)
      show ?thesis
      proof (cases "is_not_exist e")
        case True
        then have "updateHtpasswdEntry c u password fs w = (w', replace_htpasswd ?p (updated_text u (u @ '':'' @ h) []) fs2)"
          using assms(1) m x rd Inl by (simp add: updateHtpasswdEntry_def Let_def)
        moreover have "machine_entries c fs = Map.empty" using re(3) Inl True e1 by (simp add: is_not_exist_def)
        ultimately show ?thesis by (intro put [of "[]"]) (simp_all add: entry_of_empty)
      next
        case False
        then have "updateHtpasswdEntry c u password fs w = (w', fs2, Some (wrapctx ''read htpasswd'' e))"
          using assms(1) m x rd Inl by (simp add: updateHtpasswdEntry_def Let_def)
        then show ?thesis using re(1) e1 by simp
      qed
    qed
  qed
qed

lemma remove_entries:
  "case removeHtpasswdEntry c v fs of (fs', r) \<Rightarrow>
      machine_entries c fs' = (case r of None \<Rightarrow> (machine_entries c fs)(v := None) | Some _ \<Rightarrow> machine_entries c fs)"
proof -
  let ?p = "machineBackupHtpasswdPath c"
  obtain fs2 y where rd: "fs_ReadFile ?p fs = (fs2, y)" by fastforce
  note re = read_entries [OF rd]
  show ?thesis
  proof (cases y)
    case (Inl e)
    then show ?thesis using rd re by (auto simp: removeHtpasswdEntry_def Let_def is_not_exist_def split: option.splits if_splits)
  next
    case (Inr data)
    obtain fs3 z where wr: "replace_htpasswd ?p (removed_text v data) fs2 = (fs3, z)" by fastforce
    show ?thesis using rd re(1) re(2) [OF Inr] Inr wr replace_htpasswd_entries [OF wr] entry_removed [of v data]
      by (simp add: removeHtpasswdEntry_def split: option.splits)
  qed
qed

text \<open>
  C36: The file of the machine backups, read as a map from users to password hashes, is updated
  at the user by updateHtpasswdEntry and loses the user by removeHtpasswdEntry when these
  report success, and is the same map when they report an error, whatever file-system call
  fails; other users keep their entry. It holds when user and hash make one line that is no
  comment, as bcrypt hashes and device identifiers do.
\<close>

theorem machine_backup_file_refines_a_map:
  assumes "ce_Bcrypt c password w = (w', Inr h)" "line_text (u @ '':'' @ h)" "\<not> List.member u CHR '':''" "u \<noteq> []" "hd u \<noteq> CHR ''#''"
  shows "(case updateHtpasswdEntry c u password fs w of (_, fs', r) \<Rightarrow>
      machine_entries c fs' = (case r of None \<Rightarrow> (machine_entries c fs)(u \<mapsto> h) | Some _ \<Rightarrow> machine_entries c fs)) \<and>
    (case removeHtpasswdEntry c v fs of (fs', r) \<Rightarrow>
      machine_entries c fs' = (case r of None \<Rightarrow> (machine_entries c fs)(v := None) | Some _ \<Rightarrow> machine_entries c fs))"
  by (rule conjI [OF update_entries [OF assms] remove_entries])

definition co_path :: "nat Companion" where "co_path = co_demo\<lparr>ce_HtpasswdPath := ''/h''\<rparr>"
definition co_files :: "string \<Rightarrow> FS" where
  "co_files data = \<lparr>fs_Files = (\<lambda>_. None)(''/h'' \<mapsto> (384, data)), fs_Faults = [], fs_Next = 0\<rparr>"

lemma co_path_simps [simp]: "machineBackupHtpasswdPath co_path = ''/h''" "fs_ReadFile ''/h'' (co_files data) = (co_files data, Inr data)"
  by (simp_all add: co_path_def machineBackupHtpasswdPath_def co_files_def fs_ReadFile_def faulty_def)

theorem machine_backup_file_refines_a_map_witness:
  "machine_entries co_path (fst (snd (updateHtpasswdEntry co_path ''dev-b'' ''pw'' (co_files (''dev-a:x'' @ nl)) 0))) =
     (machine_entries co_path (co_files (''dev-a:x'' @ nl)))(''dev-b'' \<mapsto> ''2apw'')"
proof -
  have b: "ce_Bcrypt co_path ''pw'' 0 = (0, Inr ''2apw'')" by (simp add: co_path_def co_demo_def)
  have t: "line_text (''dev-b'' @ '':'' @ ''2apw'')" "\<not> List.member ''dev-b'' CHR '':''" "''dev-b'' \<noteq> []" "hd ''dev-b'' \<noteq> CHR ''#''" by code_simp+
  have "snd (snd (updateHtpasswdEntry co_path ''dev-b'' ''pw'' (co_files (''dev-a:x'' @ nl)) 0)) = None" by code_simp
  then show ?thesis using machine_backup_file_refines_a_map [OF b t, of "co_files (''dev-a:x'' @ nl)"] by (simp add: split_beta)
qed



section \<open>Revoking\<close>



text \<open>A target whose part of the backend is not configured counts as confirmed: its row goes, nothing was revoked.\<close>

lemma unconfigured_targets_are_confirmed:
  assumes "rp_Target p = RevokeTargetDeviceSecret \<and> \<not> bk_Secrets b \<or> rp_Target p = ''sync_folders'' \<and> bk_Syncer b = None"
  shows "retry_row b c p (s, n) = (confirmed c p s, n + 1)" "co_secrets (snd (confirmed c p s)) = co_secrets (snd s)"
  using assms confirmed_state(2) [of c p s]
  by (auto simp: retry_row_def retry_target_def delete_secret_def remove_sharing_def RevokeTargetDeviceSecret_def RevokeTargetGatewayKey_def
      RevokeTargetForgejoToken_def RevokeTargetHtpasswd_def)

text \<open>Issuing the key of a device does not look at the device again: a fetch overtaken by the revocation issues it
  all the same.\<close>

lemma key_is_issued_after_revocation:
  "snd (snd (ensureDeviceVirtualKey c i (mark_revoked now i db) w)) = snd (snd (ensureDeviceVirtualKey c i db w))"
  "co_keys (fst (snd (ensureDeviceVirtualKey c i (mark_revoked now i db) w))) = co_keys (fst (snd (ensureDeviceVirtualKey c i db w)))"
  by (simp_all add: ensureDeviceVirtualKey_def issue_device_key_def valid_key_of_def mark_revoked_def IncrementRevision_def
      split: option.split sum.split prod.split)

section \<open>Deleting a key\<close>

theorem deleting_forgets_a_key_the_gateway_kept:
  assumes "GetVirtualKey db i = Inr vk" "vk_GatewayKeyID vk = Some kid" "ks_Gateway k = Some g"
    and "trim_space kid \<noteq> []" "\<not> bad_handle (trim_space kid)" "\<not> bad_handle (trim_space (vk_Name vk))"
    and "gw_MasterKey g w \<noteq> []" "gw_Delete g (delete_keys (trim_space kid) (trim_space (vk_Name vk))) w = (w1, Unreachable e)"
  shows "snd (snd (DeleteVirtualKey k i db w)) = None \<and>
    GetVirtualKey (fst (snd (DeleteVirtualKey k i db w))) i = Inl (bare VErrNotFound) \<and>
    snd (GatewayRevokeVirtualKey k i db w) = Some (wrapctx ''key delete failed'' e)"
proof -
  have g: "gateway_RevokeVirtualKey g kid (vk_Name vk) w = (w1, None)" "RevokeVirtualKeyStrict g kid (vk_Name vk) w = (w1, Some (wrapctx ''key delete failed'' e))"
    using assms(4-8) by (simp_all add: gateway_RevokeVirtualKey_def RevokeVirtualKeyStrict_def revokeVirtualKey_def)
  have "trim_space i \<noteq> []" using assms(1) by (auto simp: GetVirtualKey_def split: if_splits)
  then show ?thesis using assms(1-3) g
    by (simp add: DeleteVirtualKey_def GatewayRevokeVirtualKey_def gateway_call_def GetVirtualKey_def [of "filter _ _"] vk_by_id_def find_filter_none)
qed

definition co_key :: VirtualKey where
  "co_key = (requested (device_key_input ''d1''))\<lparr>vk_ID := ''v1'', vk_GatewayKeyID := Some ''kid1''\<rparr>"

theorem deleting_forgets_a_key_the_gateway_kept_witness:
  "snd (snd (DeleteVirtualKey (co_keys_service False) ''v1'' [\<lparr>vr_Key = co_key, vr_Hash = ''h''\<rparr>] 0)) = None \<and>
   snd (GatewayRevokeVirtualKey (co_keys_service False) ''v1'' [\<lparr>vr_Key = co_key, vr_Hash = ''h''\<rparr>] 0) \<noteq> None"
proof -
  have t: "trim_space ''v1'' = ''v1''" "trim_space ''kid1'' = ''kid1''" "\<not> bad_handle ''kid1''" "\<not> bad_handle (trim_space (vk_Name co_key))" by code_simp+
  have g: "GetVirtualKey [\<lparr>vr_Key = co_key, vr_Hash = ''h''\<rparr>] ''v1'' = Inr co_key" "vk_GatewayKeyID co_key = Some ''kid1''"
    by (simp_all add: GetVirtualKey_def vk_by_id_def t co_key_def)
  have "ks_Gateway (co_keys_service False) = Some (co_gateway False)" by (simp add: co_keys_service_def)
  from deleting_forgets_a_key_the_gateway_kept [OF g this, of 0 0 "errorf ''refused''"] show ?thesis
    using t by (simp add: co_gateway_def)
qed

end
