(* ===== verification/ProviderCredentials.thy ===== *)
theory ProviderCredentials
  imports VirtualKeys Domain
begin

text \<open>
  internal/providers (service.go, migrations.go): the metadata of provider credentials, the aliases that route
  to them, health and entitlement, and the device flow.  The secrets themselves are at the broker or at the
  gateway; refreshing and revoking tokens at a provider, the clock, identifiers and the event sink are
  functions of the world.
\<close>

section \<open>Vocabulary and tables\<close>

definition ProviderChatGPT :: string where "ProviderChatGPT = ''chatgpt''"
definition ProviderXAI :: string where "ProviderXAI = ''xai''"
definition ProviderZAI :: string where "ProviderZAI = ''zai''"

definition allowedProviders :: "string list" where
  "allowedProviders = [''openai'', ''anthropic'', ''openrouter'', ProviderChatGPT, ProviderXAI, ProviderZAI]"

definition CredentialTypeAPIKey :: string where "CredentialTypeAPIKey = ''api_key''"
definition CredentialTypeOAuth :: string where "CredentialTypeOAuth = ''oauth''"

definition allowedProviderCredentialType :: "string \<Rightarrow> string \<Rightarrow> bool" where
  "allowedProviderCredentialType p t \<longleftrightarrow> List.member allowedProviders p \<and>
     t = (if p = ProviderChatGPT \<or> p = ProviderXAI then CredentialTypeOAuth else CredentialTypeAPIKey)"

definition EntitlementEntitled :: string where "EntitlementEntitled = ''entitled''"
definition EntitlementNotEntitled :: string where "EntitlementNotEntitled = ''not_entitled''"
definition EntitlementUnknown :: string where "EntitlementUnknown = ''unknown''"

definition allowedEntitlements :: "string list" where
  "allowedEntitlements = [EntitlementEntitled, EntitlementNotEntitled, EntitlementUnknown]"

definition ManagedByOmahab :: string where "ManagedByOmahab = ''omahab''"
definition ManagedByLiteLLM :: string where "ManagedByLiteLLM = ''litellm''"

definition ExternalRefChatGPT :: string where "ExternalRefChatGPT = ''chatgpt''"
definition ExternalRefXAI :: string where "ExternalRefXAI = ''xai_oauth''"

definition ZAIPlanPAYG :: string where "ZAIPlanPAYG = ''payg''"
definition ZAIPlanCoding :: string where "ZAIPlanCoding = ''coding''"
definition ZAITermsURL :: string where "ZAITermsURL = ''https://docs.z.ai/legal-agreement/subscription-terms''"

definition allowedHealth :: "string list" where
  "allowedHealth = [HealthUnknown, HealthHealthy, HealthDegraded, HealthUnhealthy]"

lemmas provider_words = ProviderChatGPT_def ProviderXAI_def ProviderZAI_def CredentialTypeAPIKey_def CredentialTypeOAuth_def
  ManagedByOmahab_def ManagedByLiteLLM_def ExternalRefChatGPT_def ExternalRefXAI_def ZAIPlanPAYG_def ZAIPlanCoding_def

lemmas health_words = EntitlementEntitled_def EntitlementNotEntitled_def EntitlementUnknown_def HealthUnknown_def HealthHealthy_def
  HealthDegraded_def HealthUnhealthy_def

text \<open>The row of a credential; a NULL secret_id reads as the empty identifier.\<close>

record Credential =
  pv_ID :: id
  pv_Provider :: string
  pv_CredentialType :: string
  pv_DisplayName :: string
  pv_SecretID :: id
  pv_ManagedBy :: string
  pv_ExternalRef :: "string option"
  pv_Entitlement :: string
  pv_EntitlementMessage :: string
  pv_Plan :: string
  pv_AuthorizedCodingUse :: bool
  pv_AuthorizedAt :: "time option"
  pv_ExpiresAt :: "time option"
  pv_Health :: health
  pv_LastCheckedAt :: "time option"
  pv_CreatedAt :: time
  pv_UpdatedAt :: time

record Alias =
  al_Name :: string
  al_CredentialID :: id
  al_Model :: string
  al_CreatedAt :: time
  al_UpdatedAt :: time

record CreateCredentialInput =
  ci_ID :: id
  ci_Provider :: string
  ci_CredentialType :: string
  ci_DisplayName :: string
  ci_SecretID :: id
  ci_ManagedBy :: string
  ci_ExternalRef :: "string option"
  ci_Plan :: string
  ci_AuthorizedCodingUse :: bool
  ci_ExpiresAt :: "time option"

record UpdateCredentialInput =
  ui_DisplayName :: "string option"
  ui_SecretID :: "id option"
  ui_Entitlement :: "string option"
  ui_EntitlementMessage :: "string option"
  ui_Plan :: "string option"
  ui_AuthorizedCodingUse :: "bool option"
  ui_ExpiresAt :: "time option"
  ui_Health :: "health option"

record credentials_db =
  pc_credentials :: "Credential list"
  pc_aliases :: "Alias list"

definition empty_credentials_db :: credentials_db where "empty_credentials_db = \<lparr>pc_credentials = [], pc_aliases = []\<rparr>"

record DeviceAuthorization =
  da_DeviceCode :: string
  da_UserCode :: string
  da_VerificationURI :: string
  da_ExpiresAt :: time

text \<open>The client of the providers' logins; refreshing answers the expiry of the token it got.\<close>

record 'w OAuthClient =
  oa_Start :: "string \<Rightarrow> 'w \<Rightarrow> 'w \<times> DeviceAuthorization result"
  oa_Poll :: "string \<Rightarrow> string \<Rightarrow> 'w \<Rightarrow> 'w \<times> time result"
  oa_Refresh :: "string \<Rightarrow> id \<Rightarrow> 'w \<Rightarrow> 'w \<times> time result"
  oa_Revoke :: "string \<Rightarrow> id \<Rightarrow> 'w \<Rightarrow> 'w \<times> goerror option"

record 'w CredentialService =
  cv_Keys :: "'w KeyService"
  cv_OAuth :: "'w OAuthClient"

abbreviation cv_now :: "'w CredentialService \<Rightarrow> 'w \<Rightarrow> time" where "cv_now s w \<equiv> va_Now (ks_Vault (cv_Keys s)) w"
abbreviation cv_emit :: "'w CredentialService \<Rightarrow> string \<Rightarrow> id \<Rightarrow> string \<Rightarrow> 'w \<Rightarrow> 'w" where "cv_emit s \<equiv> ks_Emit (cv_Keys s)"

section \<open>Creating a credential\<close>

definition validateCredentialType :: "string \<Rightarrow> goerror option" where
  "validateCredentialType t0 = (let t = trim_space (to_lower t0) in
     if t = CredentialTypeAPIKey \<or> t = CredentialTypeOAuth then None
     else if contains_str t ''cookie'' \<or> contains_str t ''session'' \<or> contains_str t ''browser''
     then Some (wrapf VErrValidation (''credential type '' @ quote t @ '' is not sanctioned (cookie/session extraction not allowed)''))
     else Some (wrapf VErrValidation (''unsupported credential type '' @ quote t)))"

text \<open>The normalized input.\<close>

definition in_provider :: "CreateCredentialInput \<Rightarrow> string" where "in_provider i = trim_space (to_lower (ci_Provider i))"
definition in_type :: "CreateCredentialInput \<Rightarrow> string" where "in_type i = trim_space (to_lower (ci_CredentialType i))"
definition in_secret :: "CreateCredentialInput \<Rightarrow> id" where "in_secret i = trim_space (ci_SecretID i)"
definition in_managed :: "CreateCredentialInput \<Rightarrow> string" where
  "in_managed i = (let m = trim_space (to_lower (ci_ManagedBy i)) in if m = [] then ManagedByOmahab else m)"
definition in_ref :: "CreateCredentialInput \<Rightarrow> string option" where "in_ref i = given (ci_ExternalRef i)"
definition in_plan :: "CreateCredentialInput \<Rightarrow> string" where
  "in_plan i = (let p = to_lower (trim_space (ci_Plan i)) in if in_provider i = ProviderZAI \<and> p = [] then ZAIPlanPAYG else p)"

definition invalid :: "bool \<Rightarrow> string \<Rightarrow> goerror option" where "invalid b m = refuse b (wrapf VErrValidation m)"

definition plan_checks :: "string \<Rightarrow> string \<Rightarrow> bool \<Rightarrow> goerror option list" where
  "plan_checks provider plan ack = (if provider = ProviderZAI
     then [invalid (plan \<noteq> ZAIPlanPAYG \<and> plan \<noteq> ZAIPlanCoding) ''zai plan must be payg|coding'',
       invalid (plan = ZAIPlanCoding \<and> \<not> ack)
         (''zai Coding Plan use requires explicit authorization acknowledgement (see '' @ ZAITermsURL @ '')'')]
     else [invalid (plan \<noteq> [] \<or> ack) ''plan/authorized_coding_use apply to zai only''])"

text \<open>Who manages a credential decides whether it has a secret or an external reference.\<close>

definition omahab_checks :: "id \<Rightarrow> string option \<Rightarrow> goerror option list" where
  "omahab_checks secret ref =
    [invalid (secret = []) ''secret_id is required for managed_by=omahab'',
     invalid (has_nul secret) ''secret_id contains NUL'',
     invalid (ref \<noteq> None) ''external_ref must be null for managed_by=omahab'']"

definition ref_word :: "string \<Rightarrow> string" where "ref_word r = trim_space (to_lower r)"

definition litellm_checks :: "string \<Rightarrow> id \<Rightarrow> string option \<Rightarrow> goerror option list" where
  "litellm_checks provider secret ref = [invalid (secret \<noteq> []) ''secret_id must be empty for managed_by=litellm''] @
    (case ref of None \<Rightarrow> [invalid True ''external_ref is required for managed_by=litellm'']
     | Some r \<Rightarrow> [invalid (ref_word r \<noteq> ExternalRefChatGPT \<and> ref_word r \<noteq> ExternalRefXAI) (''unsupported external_ref '' @ quote r),
         invalid (provider = ProviderChatGPT \<and> ref_word r \<noteq> ExternalRefChatGPT)
           (''provider '' @ quote provider @ '' requires external_ref '' @ quote ExternalRefChatGPT),
         invalid (provider = ProviderXAI \<and> ref_word r \<noteq> ExternalRefXAI)
           (''provider '' @ quote provider @ '' requires external_ref '' @ quote ExternalRefXAI)])"

definition create_checks :: "CreateCredentialInput \<Rightarrow> goerror option" where
  "create_checks i = (let p = in_provider i; t = in_type i; m = in_managed i in first_refusal
    ([invalid (p = []) ''provider is required'',
      invalid (\<not> List.member allowedProviders p) (''unsupported provider '' @ quote p),
      invalid (t = []) ''credential_type is required'',
      validateCredentialType t,
      invalid (\<not> allowedProviderCredentialType p t) (''credential type '' @ quote t @ '' not allowed for provider '' @ quote p),
      invalid (m \<noteq> ManagedByOmahab \<and> m \<noteq> ManagedByLiteLLM) (''unsupported managed_by '' @ quote m)] @
     plan_checks p (in_plan i) (ci_AuthorizedCodingUse i) @
     [invalid (t = CredentialTypeAPIKey \<and> m \<noteq> ManagedByOmahab) (''credential type '' @ quote t @ '' must be managed_by='' @ quote ManagedByOmahab),
      invalid (t = CredentialTypeOAuth \<and> m \<noteq> ManagedByLiteLLM) (''credential type '' @ quote t @ '' must be managed_by='' @ quote ManagedByLiteLLM)] @
     (if m = ManagedByOmahab then omahab_checks (in_secret i) (in_ref i) else litellm_checks p (in_secret i) (in_ref i))))"

definition new_credential :: "CreateCredentialInput \<Rightarrow> id \<Rightarrow> time \<Rightarrow> Credential" where
  "new_credential i cid now = (let zai = (in_provider i = ProviderZAI) in
    \<lparr>pv_ID = cid, pv_Provider = in_provider i, pv_CredentialType = in_type i, pv_DisplayName = trim_space (ci_DisplayName i),
     pv_SecretID = in_secret i, pv_ManagedBy = in_managed i,
     pv_ExternalRef = (if in_managed i = ManagedByLiteLLM then map_option ref_word (in_ref i) else in_ref i),
     pv_Entitlement = EntitlementUnknown, pv_EntitlementMessage = [], pv_Plan = in_plan i,
     pv_AuthorizedCodingUse = (ci_AuthorizedCodingUse i \<and> zai),
     pv_AuthorizedAt = (if zai \<and> in_plan i = ZAIPlanCoding \<and> ci_AuthorizedCodingUse i then Some now else None),
     pv_ExpiresAt = ci_ExpiresAt i, pv_Health = HealthUnknown, pv_LastCheckedAt = None, pv_CreatedAt = now, pv_UpdatedAt = now\<rparr>)"

text \<open>The INSERT, refused when the identifier exists.\<close>

definition insertCredential :: "Credential \<Rightarrow> credentials_db \<Rightarrow> credentials_db option" where
  "insertCredential c db = (if list_ex (\<lambda>x. pv_ID x = pv_ID c) (pc_credentials db) then None
     else Some (db\<lparr>pc_credentials := pc_credentials db @ [c]\<rparr>))"

definition CreateCredential :: "'w CredentialService \<Rightarrow> CreateCredentialInput \<Rightarrow> credentials_db \<Rightarrow> 'w \<Rightarrow> 'w \<times> credentials_db \<times> Credential result" where
  "CreateCredential s i db w = (case create_checks i of
      Some e \<Rightarrow> (w, db, Inl e)
    | None \<Rightarrow> (case (if trim_space (ci_ID i) = [] then store_NewID (ks_Vault (cv_Keys s)) w else (w, trim_space (ci_ID i))) of (w1, cid) \<Rightarrow>
        if has_nul cid then (w1, db, Inl (wrapf VErrValidation ''id contains NUL''))
        else (let c = new_credential i cid (cv_now s w1) in case insertCredential c db of
            None \<Rightarrow> (w1, db, Inl (bare VErrAlreadyExists))
          | Some db1 \<Rightarrow> (cv_emit s ''provider.credential.created'' cid
              (''provider credential created: '' @ in_provider i @ ''/'' @ in_type i) w1, db1, Inr c))))"

section \<open>Reading credentials\<close>

definition credential_by_id :: "credentials_db \<Rightarrow> id \<Rightarrow> Credential option" where
  "credential_by_id db i = List.find (\<lambda>c. pv_ID c = i) (pc_credentials db)"

definition GetCredential :: "credentials_db \<Rightarrow> id \<Rightarrow> Credential result" where
  "GetCredential db i = (if trim_space i = [] then Inl (wrapf VErrValidation ''id is required'')
     else case credential_by_id db i of None \<Rightarrow> Inl (bare VErrNotFound) | Some c \<Rightarrow> Inr c)"

text \<open>ORDER BY provider, created_at: by the text of the creation, then stably by the provider.\<close>

definition ListCredentials :: "credentials_db \<Rightarrow> Credential list" where
  "ListCredentials db = sort_key pv_Provider (sort_key (\<lambda>c. FormatTime (pv_CreatedAt c)) (pc_credentials db))"

definition ListCredentialsByProvider :: "credentials_db \<Rightarrow> string \<Rightarrow> Credential list result" where
  "ListCredentialsByProvider db p0 = (let p = trim_space (to_lower p0) in
     if \<not> List.member allowedProviders p then Inl (wrapf VErrValidation (''unsupported provider '' @ quote p))
     else Inr (sort_key (\<lambda>c. FormatTime (pv_CreatedAt c)) (filter (\<lambda>c. pv_Provider c = p) (pc_credentials db))))"

section \<open>Updating\<close>

text \<open>One field after the other, each with its checks, on the row as it was read.\<close>

definition new_secret :: "UpdateCredentialInput \<Rightarrow> Credential \<Rightarrow> Credential result" where
  "new_secret u c = (case ui_SecretID u of None \<Rightarrow> Inr c
     | Some s0 \<Rightarrow> (let sid = trim_space s0 in
         if pv_ManagedBy c = ManagedByLiteLLM then Inl (wrapf VErrValidation ''secret_id cannot be set for litellm-managed credential'')
         else if sid = [] then Inl (wrapf VErrValidation ''secret_id is required'')
         else if has_nul sid then Inl (wrapf VErrValidation ''secret_id contains NUL'')
         else Inr (c\<lparr>pv_SecretID := sid\<rparr>)))"

definition new_entitlement :: "UpdateCredentialInput \<Rightarrow> Credential \<Rightarrow> Credential result" where
  "new_entitlement u c = (case ui_Entitlement u of None \<Rightarrow> Inr c
     | Some e0 \<Rightarrow> (let e = trim_space (to_lower e0) in
         if \<not> List.member allowedEntitlements e then Inl (wrapf VErrValidation (''invalid entitlement '' @ quote e))
         else Inr (c\<lparr>pv_Entitlement := e\<rparr>)))"

definition new_health :: "UpdateCredentialInput \<Rightarrow> Credential \<Rightarrow> Credential result" where
  "new_health u c = (case ui_Health u of None \<Rightarrow> Inr c
     | Some h \<Rightarrow> if List.member allowedHealth h then Inr (c\<lparr>pv_Health := h\<rparr>) else Inl (wrapf VErrValidation (''invalid health '' @ quote h)))"

definition new_plan :: "time \<Rightarrow> UpdateCredentialInput \<Rightarrow> Credential \<Rightarrow> Credential result" where
  "new_plan now u c =
     (if ui_Plan u = None \<and> ui_AuthorizedCodingUse u = None then Inr c
      else if pv_Provider c \<noteq> ProviderZAI then Inl (wrapf VErrValidation ''plan/authorized_coding_use apply to zai only'')
      else (let plan = (case ui_Plan u of None \<Rightarrow> pv_Plan c | Some p \<Rightarrow> to_lower (trim_space p));
                ack = (case ui_AuthorizedCodingUse u of None \<Rightarrow> pv_AuthorizedCodingUse c | Some a \<Rightarrow> a) in
        if ui_Plan u \<noteq> None \<and> plan \<noteq> ZAIPlanPAYG \<and> plan \<noteq> ZAIPlanCoding then Inl (wrapf VErrValidation ''zai plan must be payg|coding'')
        else if ui_Plan u \<noteq> None \<and> plan = ZAIPlanCoding \<and> pv_Plan c \<noteq> ZAIPlanCoding \<and> ui_AuthorizedCodingUse u \<noteq> Some True
        then Inl (wrapf VErrValidation (''re-entering zai Coding Plan use requires explicit authorization acknowledgement (see '' @ ZAITermsURL @ '')''))
        else if plan = ZAIPlanCoding \<and> \<not> ack
        then Inl (wrapf VErrValidation (''zai Coding Plan use requires explicit authorization acknowledgement (see '' @ ZAITermsURL @ '')''))
        else Inr (c\<lparr>pv_Plan := plan, pv_AuthorizedCodingUse := ack,
          pv_AuthorizedAt := (if plan = ZAIPlanCoding \<and> ack \<and> pv_AuthorizedAt c = None then Some now else pv_AuthorizedAt c)\<rparr>)))"

definition and_then :: "'a result \<Rightarrow> ('a \<Rightarrow> 'b result) \<Rightarrow> 'b result" where
  "and_then r f = (case r of Inl e \<Rightarrow> Inl e | Inr x \<Rightarrow> f x)"

text \<open>The texts and the expiry have no checks.\<close>

definition changed_credential :: "time \<Rightarrow> UpdateCredentialInput \<Rightarrow> Credential \<Rightarrow> Credential result" where
  "changed_credential now u c =
     and_then (new_secret u (c\<lparr>pv_DisplayName := (case ui_DisplayName u of None \<Rightarrow> pv_DisplayName c | Some d \<Rightarrow> trim_space d)\<rparr>)) (\<lambda>c1.
     and_then (new_entitlement u c1) (\<lambda>c2.
     and_then (new_health u (c2\<lparr>pv_EntitlementMessage := (case ui_EntitlementMessage u of None \<Rightarrow> pv_EntitlementMessage c2 | Some m \<Rightarrow> trim_space m),
         pv_ExpiresAt := (case ui_ExpiresAt u of None \<Rightarrow> pv_ExpiresAt c2 | t \<Rightarrow> t)\<rparr>)) (\<lambda>c3.
     and_then (new_plan now u c3) (\<lambda>c4. Inr (c4\<lparr>pv_UpdatedAt := now\<rparr>)))))"

text \<open>The UPDATE of the mutable columns, with the values of the row that was read.\<close>

definition write_columns :: "Credential \<Rightarrow> Credential \<Rightarrow> Credential" where
  "write_columns e c = c\<lparr>pv_DisplayName := pv_DisplayName e, pv_SecretID := (if pv_ManagedBy e = ManagedByOmahab then pv_SecretID e else []),
     pv_Entitlement := pv_Entitlement e, pv_EntitlementMessage := pv_EntitlementMessage e, pv_Plan := pv_Plan e,
     pv_AuthorizedCodingUse := pv_AuthorizedCodingUse e, pv_AuthorizedAt := pv_AuthorizedAt e, pv_ExpiresAt := pv_ExpiresAt e,
     pv_Health := pv_Health e, pv_UpdatedAt := pv_UpdatedAt e\<rparr>"

definition update_credential :: "id \<Rightarrow> (Credential \<Rightarrow> Credential) \<Rightarrow> credentials_db \<Rightarrow> credentials_db" where
  "update_credential i f db = db\<lparr>pc_credentials := update_where (\<lambda>c. pv_ID c = i) f (pc_credentials db)\<rparr>"

definition UpdateCredential :: "time \<Rightarrow> id \<Rightarrow> UpdateCredentialInput \<Rightarrow> credentials_db \<Rightarrow> credentials_db \<times> Credential result" where
  "UpdateCredential now i u db = (case and_then (GetCredential db i) (changed_credential now u) of
      Inl e \<Rightarrow> (db, Inl e) | Inr c \<Rightarrow> (update_credential i (write_columns c) db, Inr c))"

section \<open>Health, refreshing and revoking\<close>

definition write_health :: "time \<Rightarrow> health \<Rightarrow> string \<Rightarrow> string \<Rightarrow> Credential \<Rightarrow> Credential" where
  "write_health now h ent msg c = c\<lparr>pv_Health := h, pv_Entitlement := ent, pv_EntitlementMessage := msg, pv_LastCheckedAt := Some now, pv_UpdatedAt := now\<rparr>"

definition cred_UpdateHealth :: "time \<Rightarrow> id \<Rightarrow> health \<Rightarrow> string \<Rightarrow> string \<Rightarrow> credentials_db \<Rightarrow> credentials_db \<times> goerror option" where
  "cred_UpdateHealth now i h ent0 msg db = (case GetCredential db i of
      Inl e \<Rightarrow> (db, Some e)
    | Inr _ \<Rightarrow> if \<not> List.member allowedHealth h then (db, Some (wrapf VErrValidation (''invalid health '' @ quote h)))
        else (let e1 = trim_space (to_lower ent0); ent = (if e1 = [] then EntitlementUnknown else e1) in
          if \<not> List.member allowedEntitlements ent then (db, Some (wrapf VErrValidation (''invalid entitlement '' @ quote ent)))
          else (update_credential i (write_health now h ent (trim_space msg)) db, None)))"

definition ReportEntitlementFailure :: "time \<Rightarrow> id \<Rightarrow> string \<Rightarrow> credentials_db \<Rightarrow> credentials_db \<times> goerror option" where
  "ReportEntitlementFailure now i msg db = cred_UpdateHealth now i HealthDegraded EntitlementNotEntitled msg db"

definition ReportTokenInvalid :: "time \<Rightarrow> id \<Rightarrow> string \<Rightarrow> credentials_db \<Rightarrow> credentials_db \<times> goerror option" where
  "ReportTokenInvalid now i msg db = cred_UpdateHealth now i HealthUnhealthy EntitlementUnknown msg db"

definition refreshed :: "time \<Rightarrow> time \<Rightarrow> Credential \<Rightarrow> Credential" where
  "refreshed now expires c = (write_health now HealthHealthy EntitlementEntitled [] c)\<lparr>pv_ExpiresAt := Some expires\<rparr>"

text \<open>A refused entitlement, an invalid token and any other failure are told apart; the error of storing the
  health is dropped.\<close>

definition refresh_failed :: "time \<Rightarrow> id \<Rightarrow> goerror \<Rightarrow> credentials_db \<Rightarrow> credentials_db \<times> goerror" where
  "refresh_failed now i e db =
     (if errors_is e ErrEntitlement then (fst (cred_UpdateHealth now i HealthDegraded EntitlementNotEntitled (err_msg e) db), bare ErrEntitlement)
      else if errors_is e ErrTokenInvalid then (fst (cred_UpdateHealth now i HealthUnhealthy EntitlementUnknown ''token invalid'' db), bare ErrTokenInvalid)
      else (fst (cred_UpdateHealth now i HealthDegraded EntitlementUnknown (err_msg e) db), wrapctx ''refresh credential'' e))"

definition RefreshCredential :: "'w CredentialService \<Rightarrow> id \<Rightarrow> credentials_db \<Rightarrow> 'w \<Rightarrow> 'w \<times> credentials_db \<times> goerror option" where
  "RefreshCredential s i db w = (case GetCredential db i of
      Inl e \<Rightarrow> (w, db, Some e)
    | Inr c \<Rightarrow> if pv_CredentialType c \<noteq> CredentialTypeOAuth then (w, db, Some (wrapf VErrValidation ''refresh only valid for oauth credentials''))
        else (case oa_Refresh (cv_OAuth s) (pv_Provider c) (pv_ID c) w of
            (w1, Inl e) \<Rightarrow> (case refresh_failed (cv_now s w1) (pv_ID c) e db of (db1, e1) \<Rightarrow> (w1, db1, Some e1))
          | (w1, Inr expires) \<Rightarrow> (cv_emit s ''provider.credential.refreshed'' i (''provider credential refreshed: '' @ pv_Provider c) w1,
              update_credential i (refreshed (cv_now s w1) expires) db, None)))"

definition alias_count :: "credentials_db \<Rightarrow> id \<Rightarrow> nat" where
  "alias_count db i = length (filter (\<lambda>a. al_CredentialID a = i) (pc_aliases db))"

text \<open>The DELETE, which the reference of an alias restricts.\<close>

definition delete_credential :: "id \<Rightarrow> credentials_db \<Rightarrow> credentials_db option" where
  "delete_credential i db = (if 0 < alias_count db i then None else Some (db\<lparr>pc_credentials := filter (\<lambda>c. pv_ID c \<noteq> i) (pc_credentials db)\<rparr>))"

definition DeleteCredential :: "'w CredentialService \<Rightarrow> id \<Rightarrow> credentials_db \<Rightarrow> 'w \<Rightarrow> 'w \<times> credentials_db \<times> goerror option" where
  "DeleteCredential s i db w = (case GetCredential db i of
      Inl e \<Rightarrow> (w, db, Some e)
    | Inr _ \<Rightarrow> (case delete_credential i db of
        None \<Rightarrow> (w, db, Some (wrapf VErrValidation (''credential is referenced by '' @ itoa (int (alias_count db i)) @ '' alias(es)'')))
      | Some db1 \<Rightarrow> (cv_emit s ''provider.credential.deleted'' i ''provider credential deleted'' w, db1, None)))"

definition drop_aliases :: "id \<Rightarrow> credentials_db \<Rightarrow> credentials_db" where
  "drop_aliases i db = db\<lparr>pc_aliases := filter (\<lambda>a. al_CredentialID a \<noteq> i) (pc_aliases db)\<rparr>"

definition RevokeCredential :: "'w CredentialService \<Rightarrow> id \<Rightarrow> credentials_db \<Rightarrow> 'w \<Rightarrow> 'w \<times> credentials_db \<times> goerror option" where
  "RevokeCredential s i db w = (case GetCredential db i of
      Inl e \<Rightarrow> (w, db, Some e)
    | Inr c \<Rightarrow> (case oa_Revoke (cv_OAuth s) (pv_Provider c) (pv_ID c) w of
        (w1, Some e) \<Rightarrow> (w1, db, Some (wrapctx ''revoke token'' e))
      | (w1, None) \<Rightarrow> (case DeleteCredential s i (drop_aliases i db) w1 of
          (w2, db1, Some e) \<Rightarrow> (w2, db1, if errors_is e VErrNotFound then None else Some e)
        | (w2, db1, None) \<Rightarrow> (cv_emit s ''provider.credential.revoked'' i (''provider credential revoked: '' @ pv_Provider c) w2, db1, None))))"

section \<open>The device flow\<close>

definition StartDeviceFlow :: "'w CredentialService \<Rightarrow> string \<Rightarrow> 'w \<Rightarrow> 'w \<times> DeviceAuthorization result" where
  "StartDeviceFlow s p0 w = (let p = trim_space (to_lower p0) in
     if \<not> List.member allowedProviders p then (w, Inl (wrapf VErrValidation (''unsupported provider '' @ quote p)))
     else if p \<noteq> ProviderChatGPT \<and> p \<noteq> ProviderXAI
     then (w, Inl (wrapf VErrValidation (''device flow only supported for chatgpt and xai providers: '' @ quote p)))
     else oa_Start (cv_OAuth s) p w)"

definition PollDeviceFlow :: "'w CredentialService \<Rightarrow> string \<Rightarrow> string \<Rightarrow> 'w \<Rightarrow> 'w \<times> time result" where
  "PollDeviceFlow s p0 code w = (let p = trim_space (to_lower p0) in
     if \<not> List.member allowedProviders p then (w, Inl (wrapf VErrValidation (''unsupported provider '' @ quote p)))
     else if trim_space code = [] then (w, Inl (wrapf VErrValidation ''device_code is required''))
     else (case oa_Poll (cv_OAuth s) p code w of
         (w1, Inl e) \<Rightarrow> (w1, Inl (if errors_is e ErrEntitlement \<or> errors_is e ErrTokenInvalid then e else wrapctx ''poll device flow'' e))
       | r \<Rightarrow> r))"

section \<open>Aliases\<close>

definition GetAlias :: "credentials_db \<Rightarrow> string \<Rightarrow> Alias result" where
  "GetAlias db n0 = (let n = trim_space n0 in
     if n = [] then Inl (wrapf VErrValidation ''alias name is required'')
     else case List.find (\<lambda>a. al_Name a = n) (pc_aliases db) of None \<Rightarrow> Inl (bare VErrNotFound) | Some a \<Rightarrow> Inr a)"

definition ListAliases :: "credentials_db \<Rightarrow> Alias list" where "ListAliases db = sort_key al_Name (pc_aliases db)"

definition alias_checks :: "string \<Rightarrow> id \<Rightarrow> string \<Rightarrow> goerror option" where
  "alias_checks n i m = first_refusal
     [invalid (n = []) ''alias name is required'',
      invalid (\<not> List.member allowedAliases n) (''unsupported alias '' @ quote n),
      invalid (trim_space i = []) ''credential_id is required'',
      invalid (m = []) ''model is required'',
      invalid (has_nul m \<or> has_nul n) ''NUL byte not allowed'']"

text \<open>UPDATE or INSERT by the name.\<close>

definition put_alias :: "time \<Rightarrow> string \<Rightarrow> id \<Rightarrow> string \<Rightarrow> Alias list \<Rightarrow> Alias list" where
  "put_alias now n i m as = (if list_ex (\<lambda>a. al_Name a = n) as
     then update_where (\<lambda>a. al_Name a = n) (\<lambda>a. a\<lparr>al_CredentialID := i, al_Model := m, al_UpdatedAt := now\<rparr>) as
     else as @ [\<lparr>al_Name = n, al_CredentialID = i, al_Model = m, al_CreatedAt = now, al_UpdatedAt = now\<rparr>])"

definition SetAlias :: "'w CredentialService \<Rightarrow> string \<Rightarrow> id \<Rightarrow> string \<Rightarrow> credentials_db \<Rightarrow> 'w \<Rightarrow> 'w \<times> credentials_db \<times> Alias result" where
  "SetAlias s n0 i m0 db w = (let n = trim_space n0; m = trim_space m0 in case alias_checks n i m of
      Some e \<Rightarrow> (w, db, Inl e)
    | None \<Rightarrow> (case GetCredential db i of
        Inl e \<Rightarrow> (w, db, Inl e)
      | Inr _ \<Rightarrow> (let db1 = db\<lparr>pc_aliases := put_alias (cv_now s w) n i m (pc_aliases db)\<rparr> in
          (cv_emit s ''provider.alias.set'' [] (''provider alias '' @ n @ '' -> '' @ m) w, db1, GetAlias db1 n))))"

definition DeleteAlias :: "'w CredentialService \<Rightarrow> string \<Rightarrow> credentials_db \<Rightarrow> 'w \<Rightarrow> 'w \<times> credentials_db \<times> goerror option" where
  "DeleteAlias s n0 db w = (let n = trim_space n0 in
     if n = [] then (w, db, Some (wrapf VErrValidation ''alias name is required''))
     else if \<not> list_ex (\<lambda>a. al_Name a = n) (pc_aliases db) then (w, db, Some (bare VErrNotFound))
     else (cv_emit s ''provider.alias.deleted'' [] (''provider alias deleted: '' @ n) w,
       db\<lparr>pc_aliases := filter (\<lambda>a. al_Name a \<noteq> n) (pc_aliases db)\<rparr>, None))"

definition ResolveAlias :: "credentials_db \<Rightarrow> string \<Rightarrow> (Credential \<times> string) result" where
  "ResolveAlias db n = and_then (GetAlias db n) (\<lambda>a. and_then (GetCredential db (al_CredentialID a)) (\<lambda>c. Inr (c, al_Model a)))"

end
