(* ===== verification/ProviderProps.thy ===== *)
theory ProviderProps
  imports ProviderCredentials Tables
begin

text \<open>
  internal/providers: the statements on credentials and aliases as a step relation with its invariant, the
  operations as calls that are sequences of statements, and the properties of the credential broker.
\<close>

section \<open>Sanctioned credentials\<close>

text \<open>Subscriptions are logins the gateway manages; every other provider has a key at the secrets broker.\<close>

definition subscription :: "string \<Rightarrow> string option" where
  "subscription p = (if p = ProviderChatGPT then Some ExternalRefChatGPT else if p = ProviderXAI then Some ExternalRefXAI else None)"

definition plan_ok :: "string \<Rightarrow> string \<Rightarrow> bool \<Rightarrow> bool" where
  "plan_ok p plan ack \<longleftrightarrow> (if p = ProviderZAI then plan = ZAIPlanPAYG \<or> plan = ZAIPlanCoding \<and> ack else plan = [] \<and> \<not> ack)"

definition sanctioned :: "Credential \<Rightarrow> bool" where
  "sanctioned c \<longleftrightarrow> List.member allowedProviders (pv_Provider c) \<and>
     (case subscription (pv_Provider c) of
        Some r \<Rightarrow> pv_CredentialType c = CredentialTypeOAuth \<and> pv_ManagedBy c = ManagedByLiteLLM \<and> pv_SecretID c = [] \<and> pv_ExternalRef c = Some r
      | None \<Rightarrow> pv_CredentialType c = CredentialTypeAPIKey \<and> pv_ManagedBy c = ManagedByOmahab \<and> pv_SecretID c \<noteq> [] \<and>
          \<not> has_nul (pv_SecretID c) \<and> pv_ExternalRef c = None) \<and>
     plan_ok (pv_Provider c) (pv_Plan c) (pv_AuthorizedCodingUse c) \<and>
     (pv_Plan c = ZAIPlanCoding \<longrightarrow> pv_AuthorizedAt c \<noteq> None) \<and>
     List.member allowedEntitlements (pv_Entitlement c) \<and> List.member allowedHealth (pv_Health c)"

text \<open>The inputs a credential can be created from, as the comments of the package list them.\<close>

definition accepted_input :: "CreateCredentialInput \<Rightarrow> bool" where
  "accepted_input i \<longleftrightarrow> List.member allowedProviders (in_provider i) \<and>
     (case subscription (in_provider i) of
        Some r \<Rightarrow> in_type i = CredentialTypeOAuth \<and> in_managed i = ManagedByLiteLLM \<and> in_secret i = [] \<and> map_option ref_word (in_ref i) = Some r
      | None \<Rightarrow> in_type i = CredentialTypeAPIKey \<and> in_managed i = ManagedByOmahab \<and> in_secret i \<noteq> [] \<and> \<not> has_nul (in_secret i) \<and> in_ref i = None) \<and>
     plan_ok (in_provider i) (in_plan i) (ci_AuthorizedCodingUse i)"

lemma first_refusal_None: "first_refusal es = None \<longleftrightarrow> (\<forall>e \<in> set es. e = None)"
  by (auto simp: first_refusal_def find_None_iff split: option.splits dest: find_Some_in)

lemma invalid_None [simp]: "invalid b m = None \<longleftrightarrow> \<not> b"
  by (simp add: invalid_def refuse_def)

lemma provider_words_distinct [simp]:
  "ProviderChatGPT \<noteq> []" "ProviderXAI \<noteq> []" "ProviderZAI \<noteq> []" "ProviderXAI \<noteq> ProviderChatGPT" "ProviderZAI \<noteq> ProviderChatGPT" "ProviderZAI \<noteq> ProviderXAI"
  "ProviderChatGPT \<noteq> ProviderXAI" "ProviderChatGPT \<noteq> ProviderZAI" "ProviderXAI \<noteq> ProviderZAI"
  "CredentialTypeOAuth \<noteq> CredentialTypeAPIKey" "CredentialTypeAPIKey \<noteq> CredentialTypeOAuth" "CredentialTypeAPIKey \<noteq> []" "CredentialTypeOAuth \<noteq> []"
  "ManagedByOmahab \<noteq> ManagedByLiteLLM" "ManagedByLiteLLM \<noteq> ManagedByOmahab"
  "ExternalRefXAI \<noteq> ExternalRefChatGPT" "ExternalRefChatGPT \<noteq> ExternalRefXAI" "ZAIPlanPAYG \<noteq> ZAIPlanCoding" "ZAIPlanCoding \<noteq> ZAIPlanPAYG" "ZAIPlanCoding \<noteq> []" "ZAIPlanPAYG \<noteq> []"
  by (simp_all add: provider_words)

lemmas provider_words_distinct_sym [simp] = provider_words_distinct [symmetric]

lemma allowed_not_empty [simp]: "[] \<notin> set allowedProviders"
  by (simp add: allowedProviders_def provider_words)

lemma sanctioned_texts [simp]:
  "sanctioned (c\<lparr>pv_DisplayName := d\<rparr>) = sanctioned c" "sanctioned (c\<lparr>pv_EntitlementMessage := d\<rparr>) = sanctioned c"
  "sanctioned (c\<lparr>pv_ExpiresAt := t\<rparr>) = sanctioned c" "sanctioned (c\<lparr>pv_UpdatedAt := u\<rparr>) = sanctioned c"
  by (auto simp: sanctioned_def split: option.splits)

lemma validateCredentialType_None:
  "trim_space (to_lower t) = t \<Longrightarrow> validateCredentialType t = None \<longleftrightarrow> t = CredentialTypeAPIKey \<or> t = CredentialTypeOAuth"
  by (simp add: validateCredentialType_def Let_def)

lemma lowered_trimmed: "to_lower (trim_space (to_lower s)) = trim_space (to_lower s)"
  unfolding to_lower_def using set_trim_space [of "map lower_char s"] by (intro map_idI) auto

lemma in_words: "trim_space (to_lower (in_type i)) = in_type i" "trim_space (to_lower (in_provider i)) = in_provider i"
  by (simp_all add: in_type_def in_provider_def lowered_trimmed)

lemma plan_checks_None: "(\<forall>e \<in> set (plan_checks p plan ack). e = None) \<longleftrightarrow> plan_ok p plan ack"
  by (auto simp: plan_checks_def plan_ok_def)

lemma allowed_type: "allowedProviderCredentialType p t \<longleftrightarrow>
    List.member allowedProviders p \<and> t = (case subscription p of Some _ \<Rightarrow> CredentialTypeOAuth | None \<Rightarrow> CredentialTypeAPIKey)"
  by (simp add: allowedProviderCredentialType_def subscription_def)

lemma create_checks_None: "create_checks i = None \<longleftrightarrow> accepted_input i"
proof -
  have lit: "(\<forall>e \<in> set (litellm_checks p sid ref). e = None) \<longleftrightarrow> sid = [] \<and> map_option ref_word ref = Some r"
    if "subscription p = Some r" for p sid ref r
    using that by (cases ref) (auto simp: litellm_checks_def subscription_def split: if_splits)
  have oma: "(\<forall>e \<in> set (omahab_checks sid ref). e = None) \<longleftrightarrow> sid \<noteq> [] \<and> \<not> has_nul sid \<and> ref = None" for sid ref
    by (simp add: omahab_checks_def)
  show ?thesis
  proof (cases "subscription (in_provider i)")
    case None
    then show ?thesis
      by (auto simp: create_checks_def Let_def first_refusal_None accepted_input_def plan_checks_None allowed_type oma
          validateCredentialType_None [OF in_words(1)] ball_Un)
  next
    case (Some r)
    then show ?thesis
      by (auto simp: create_checks_def Let_def first_refusal_None accepted_input_def plan_checks_None allowed_type lit
          validateCredentialType_None [OF in_words(1)] ball_Un)
  qed
qed

lemma new_credential_sanctioned: "accepted_input i \<Longrightarrow> sanctioned (new_credential i cid now)"
  by (auto simp: accepted_input_def sanctioned_def new_credential_def Let_def plan_ok_def allowedEntitlements_def allowedHealth_def
      split: option.splits)

section \<open>Statements\<close>

inductive pc_step :: "credentials_db \<Rightarrow> credentials_db \<Rightarrow> bool" where
  pc_insert: "sanctioned c \<Longrightarrow> insertCredential c db = Some db' \<Longrightarrow> pc_step db db'"
| pc_write: "sanctioned e \<Longrightarrow> \<forall>c \<in> set (pc_credentials db). pv_ID c = i \<longrightarrow> pv_Provider c = pv_Provider e \<Longrightarrow>
    pc_step db (update_credential i (write_columns e) db)"
| pc_health: "List.member allowedHealth h \<Longrightarrow> List.member allowedEntitlements ent \<Longrightarrow>
    pc_step db (update_credential i (write_health now h ent msg) db)"
| pc_refreshed: "pc_step db (update_credential i (refreshed now t) db)"
| pc_delete: "delete_credential i db = Some db' \<Longrightarrow> pc_step db db'"
| pc_alias: "List.member allowedAliases n \<Longrightarrow> m \<noteq> [] \<Longrightarrow> GetCredential db i = Inr c \<Longrightarrow>
    pc_step db (db\<lparr>pc_aliases := put_alias now n i m (pc_aliases db)\<rparr>)"
| pc_unalias: "pc_step db (db\<lparr>pc_aliases := filter P (pc_aliases db)\<rparr>)"

definition alias_ok :: "id set \<Rightarrow> Alias \<Rightarrow> bool" where
  "alias_ok ids a \<longleftrightarrow> List.member allowedAliases (al_Name a) \<and> al_Model a \<noteq> [] \<and> trim_space (al_CredentialID a) \<noteq> [] \<and> al_CredentialID a \<in> ids"

definition credentials_ok :: "credentials_db \<Rightarrow> bool" where
  "credentials_ok db \<longleftrightarrow> distinct (map pv_ID (pc_credentials db)) \<and> list_all sanctioned (pc_credentials db) \<and>
     distinct (map al_Name (pc_aliases db)) \<and> list_all (alias_ok (pv_ID ` set (pc_credentials db))) (pc_aliases db)"

lemma write_columns_sanctioned:
  assumes "sanctioned e" "sanctioned c" "pv_Provider c = pv_Provider e"
  shows "sanctioned (write_columns e c)"
  using assms by (auto simp: sanctioned_def write_columns_def split: option.splits)

lemma write_health_sanctioned:
  assumes "sanctioned c" "List.member allowedHealth h" "List.member allowedEntitlements ent"
  shows "sanctioned (write_health now h ent msg c)"
  using assms by (auto simp: sanctioned_def write_health_def split: option.splits)

lemma update_credential_ok:
  assumes "credentials_ok db" "\<And>c. pv_ID (f c) = pv_ID c"
    and "\<And>c. c \<in> set (pc_credentials db) \<Longrightarrow> pv_ID c = i \<Longrightarrow> sanctioned c \<Longrightarrow> sanctioned (f c)"
  shows "credentials_ok (update_credential i f db)"
proof -
  have "pv_ID ` set (update_where (\<lambda>c. pv_ID c = i) f (pc_credentials db)) = pv_ID ` set (pc_credentials db)"
    by (rule image_update_where_key) (rule assms(2))
  moreover have "list_all sanctioned (update_where (\<lambda>c. pv_ID c = i) f (pc_credentials db))"
    using assms(1,3) by (auto simp: credentials_ok_def list_all_iff set_update_where)
  ultimately show ?thesis using assms(1,2) by (simp add: credentials_ok_def update_credential_def map_update_where_key)
qed

lemma put_alias_names: "map al_Name (put_alias now n i m as) = map al_Name as @ (if n \<in> al_Name ` set as then [] else [n])"
  unfolding put_alias_def list_ex_key by (simp add: map_update_where_key)

lemma put_alias_ok:
  assumes "list_all (alias_ok ids) as" "alias_ok ids \<lparr>al_Name = n, al_CredentialID = i, al_Model = m, al_CreatedAt = now, al_UpdatedAt = now\<rparr>"
  shows "list_all (alias_ok ids) (put_alias now n i m as)"
  using assms by (auto simp: put_alias_def list_all_iff set_update_where alias_ok_def)

lemma GetCredential_Inr: "GetCredential db i = Inr c \<longleftrightarrow> trim_space i \<noteq> [] \<and> credential_by_id db i = Some c"
  by (auto simp: GetCredential_def split: option.splits)

lemma credential_by_id_Some: "credential_by_id db i = Some c \<Longrightarrow> c \<in> set (pc_credentials db) \<and> pv_ID c = i"
  unfolding credential_by_id_def by (rule find_Some_in)

lemma pc_step_ok: "pc_step db db' \<Longrightarrow> credentials_ok db \<Longrightarrow> credentials_ok db'"
proof (induction rule: pc_step.induct)
  case (pc_insert c db db')
  then show ?case by (auto simp: insertCredential_def credentials_ok_def list_ex_key list_all_iff alias_ok_def split: if_splits)
next
  case (pc_write e db i)
  show ?case
    by (rule update_credential_ok [OF pc_write.prems], simp add: write_columns_def) (use pc_write.hyps write_columns_sanctioned in blast)
next
  case (pc_health h ent db i now msg)
  show ?case
    by (rule update_credential_ok [OF pc_health.prems], simp add: write_health_def) (use pc_health.hyps write_health_sanctioned in blast)
next
  case (pc_refreshed db i now t)
  have "List.member allowedHealth HealthHealthy" "List.member allowedEntitlements EntitlementEntitled"
    by (simp_all add: allowedHealth_def allowedEntitlements_def)
  then show ?case
    by (intro update_credential_ok [OF pc_refreshed.prems]) (simp_all add: refreshed_def write_health_sanctioned, simp add: write_health_def)
next
  case (pc_delete i db db')
  have "alias_ok (pv_ID ` set (filter (\<lambda>c. pv_ID c \<noteq> i) (pc_credentials db))) a" if "a \<in> set (pc_aliases db)" for a
    using pc_delete that
    by (fastforce simp: delete_credential_def alias_count_def credentials_ok_def list_all_iff alias_ok_def filter_empty_conv split: if_splits)
  then show ?case using pc_delete
    by (auto simp: delete_credential_def credentials_ok_def filter_distinct_map list_all_iff split: if_splits)
next
  case (pc_alias n m db i c now)
  then have "alias_ok (pv_ID ` set (pc_credentials db)) \<lparr>al_Name = n, al_CredentialID = i, al_Model = m, al_CreatedAt = now, al_UpdatedAt = now\<rparr>"
    using credential_by_id_Some by (fastforce simp: alias_ok_def GetCredential_Inr)
  then show ?case using pc_alias.prems by (simp add: credentials_ok_def put_alias_names put_alias_ok)
next
  case (pc_unalias db P)
  then show ?case by (auto simp: credentials_ok_def filter_distinct_map list_all_iff)
qed

lemma empty_credentials_ok: "credentials_ok empty_credentials_db"
  by (simp add: credentials_ok_def empty_credentials_db_def)

interpretation brokered: statement_tables pc_step credentials_ok empty_credentials_db
  by unfold_locales (rule empty_credentials_ok, erule (1) pc_step_ok)

section \<open>Operations\<close>

lemma and_then_Inr: "and_then r f = Inr y \<longleftrightarrow> (\<exists>x. r = Inr x \<and> f x = Inr y)"
  by (auto simp: and_then_def split: sum.splits)

text \<open>What updating keeps: the identity and being sanctioned.\<close>

definition same_credential :: "Credential \<Rightarrow> Credential \<Rightarrow> bool" where
  "same_credential c d \<longleftrightarrow> pv_ID d = pv_ID c \<and> pv_Provider d = pv_Provider c \<and> pv_ManagedBy d = pv_ManagedBy c \<and> (sanctioned c \<longrightarrow> sanctioned d)"

lemma new_secret_same: "new_secret u c = Inr d \<Longrightarrow> same_credential c d"
  by (auto simp: new_secret_def Let_def same_credential_def sanctioned_def split: option.splits if_splits)

lemma new_entitlement_same: "new_entitlement u c = Inr d \<Longrightarrow> same_credential c d"
  by (auto simp: new_entitlement_def Let_def same_credential_def sanctioned_def split: option.splits if_splits)

lemma new_health_same: "new_health u c = Inr d \<Longrightarrow> same_credential c d"
  by (auto simp: new_health_def same_credential_def sanctioned_def split: option.splits if_splits)

lemma new_plan_same: "new_plan now u c = Inr d \<Longrightarrow> same_credential c d"
  by (auto simp: new_plan_def Let_def same_credential_def sanctioned_def plan_ok_def subscription_def split: option.splits if_splits)

lemma changed_credential_same:
  assumes "changed_credential now u c = Inr d"
  shows "same_credential c d"
proof -
  from assms obtain c1 c2 c3 c4 where
    steps: "new_secret u (c\<lparr>pv_DisplayName := (case ui_DisplayName u of None \<Rightarrow> pv_DisplayName c | Some d \<Rightarrow> trim_space d)\<rparr>) = Inr c1"
      "new_entitlement u c1 = Inr c2" "new_plan now u c3 = Inr c4" and d: "d = c4\<lparr>pv_UpdatedAt := now\<rparr>"
    and h: "new_health u (c2\<lparr>pv_EntitlementMessage := (case ui_EntitlementMessage u of None \<Rightarrow> pv_EntitlementMessage c2 | Some m \<Rightarrow> trim_space m),
         pv_ExpiresAt := (case ui_ExpiresAt u of None \<Rightarrow> pv_ExpiresAt c2 | t \<Rightarrow> t)\<rparr>) = Inr c3"
    unfolding changed_credential_def and_then_Inr by auto
  show ?thesis
    using new_secret_same [OF steps(1)] new_entitlement_same [OF steps(2)] new_health_same [OF h] new_plan_same [OF steps(3)] d
    by (simp add: same_credential_def)
qed

inductive pc_call :: "'w CredentialService \<Rightarrow> credentials_db \<Rightarrow> credentials_db \<Rightarrow> bool" for s where
  call_Create: "CreateCredential s i db w = (w', db', r) \<Longrightarrow> pc_call s db db'"
| call_Update: "UpdateCredential now cid u db = (db', r) \<Longrightarrow> pc_call s db db'"
| call_Health: "cred_UpdateHealth now cid h ent msg db = (db', r) \<Longrightarrow> pc_call s db db'"
| call_Refresh: "RefreshCredential s cid db w = (w', db', r) \<Longrightarrow> pc_call s db db'"
| call_Delete: "DeleteCredential s cid db w = (w', db', r) \<Longrightarrow> pc_call s db db'"
| call_Revoke: "RevokeCredential s cid db w = (w', db', r) \<Longrightarrow> pc_call s db db'"
| call_SetAlias: "SetAlias s n cid m db w = (w', db', r) \<Longrightarrow> pc_call s db db'"
| call_DeleteAlias: "DeleteAlias s n db w = (w', db', r) \<Longrightarrow> pc_call s db db'"
| call_Entitlement: "ReportEntitlementFailure now cid msg db = (db', r) \<Longrightarrow> pc_call s db db'"
| call_Token: "ReportTokenInvalid now cid msg db = (db', r) \<Longrightarrow> pc_call s db db'"

lemma health_steps: "cred_UpdateHealth now cid h ent msg db = (db', r) \<Longrightarrow> pc_step\<^sup>*\<^sup>* db db'"
  by (auto simp: cred_UpdateHealth_def Let_def split: sum.splits if_splits intro!: r_into_rtranclp pc_health)

lemma health_steps_fst: "pc_step\<^sup>*\<^sup>* db (fst (cred_UpdateHealth now cid h ent msg db))"
  by (rule health_steps) (rule surjective_pairing)

lemma delete_steps: "DeleteCredential s cid db w = (w', db', r) \<Longrightarrow> pc_step\<^sup>*\<^sup>* db db'"
  by (auto simp: DeleteCredential_def split: sum.splits option.splits intro: pc_delete)

lemma same_row: "credentials_ok db \<Longrightarrow> c \<in> set (pc_credentials db) \<Longrightarrow> d \<in> set (pc_credentials db) \<Longrightarrow> pv_ID c = pv_ID d \<Longrightarrow> c = d"
  unfolding credentials_ok_def by (metis distinct_map inj_on_eq_iff)

lemma update_steps:
  assumes "UpdateCredential now cid u db = (db', r)" "credentials_ok db"
  shows "pc_step\<^sup>*\<^sup>* db db'"
proof (cases "and_then (GetCredential db cid) (changed_credential now u)")
  case (Inr e)
  then obtain c where c: "credential_by_id db cid = Some c" "changed_credential now u c = Inr e"
    by (auto simp: and_then_Inr GetCredential_Inr)
  have in_db: "c \<in> set (pc_credentials db)" "pv_ID c = cid" using credential_by_id_Some [OF c(1)] by auto
  have "same_credential c e" by (rule changed_credential_same [OF c(2)])
  then have "sanctioned e" "pv_Provider e = pv_Provider c"
    using assms(2) in_db by (auto simp: same_credential_def credentials_ok_def list_all_iff)
  then have "pc_step db (update_credential cid (write_columns e) db)"
    by (intro pc_write) (use same_row [OF assms(2) in_db(1)] in_db(2) in auto)
  then show ?thesis using assms(1) Inr by (auto simp: UpdateCredential_def)
qed (use assms in \<open>auto simp: UpdateCredential_def\<close>)

lemma calls_are_steps:
  assumes "pc_call s db db'" "credentials_ok db"
  shows "pc_step\<^sup>*\<^sup>* db db'"
  using assms
proof (induction rule: pc_call.induct)
  case (call_Create i db w w' db' r)
  have "pc_step db db1" if "insertCredential (new_credential i cid now) db = Some db1" "create_checks i = None" for cid now db1
    using that by (auto intro!: pc_insert new_credential_sanctioned simp: create_checks_None)
  then show ?case using call_Create.hyps by (auto simp: CreateCredential_def Let_def split: option.splits prod.splits if_splits)
next
  case (call_Update now cid u db db' r)
  then show ?case by (rule update_steps)
next
  case (call_Health now cid h ent msg db db' r)
  then show ?case by (simp add: health_steps)
next
  case (call_Refresh cid db w w' db' r)
  then show ?case
    by (auto simp: RefreshCredential_def refresh_failed_def split: sum.splits if_splits prod.splits intro: pc_refreshed health_steps_fst)
next
  case (call_Delete cid db w w' db' r)
  then show ?case by (simp add: delete_steps)
next
  case (call_Revoke cid db w w' db' r)
  have "pc_step db (drop_aliases cid db)" unfolding drop_aliases_def by (rule pc_unalias)
  moreover have "pc_step\<^sup>*\<^sup>* (drop_aliases cid db) db1" if "DeleteCredential s cid (drop_aliases cid db) w1 = (w2, db1, e)" for w1 w2 db1 e
    using that by (rule delete_steps)
  ultimately show ?case using call_Revoke.hyps
    by (auto simp: RevokeCredential_def split: sum.splits prod.splits option.splits intro: converse_rtranclp_into_rtranclp)
next
  case (call_SetAlias n cid m db w w' db' r)
  then show ?case
    by (auto simp: SetAlias_def Let_def alias_checks_def first_refusal_None split: option.splits sum.splits intro!: r_into_rtranclp pc_alias)
next
  case (call_DeleteAlias n db w w' db' r)
  then show ?case by (auto simp: DeleteAlias_def Let_def split: if_splits intro: pc_unalias)
next
  case (call_Entitlement now cid msg db db' r)
  then show ?case by (simp add: ReportEntitlementFailure_def health_steps)
next
  case (call_Token now cid msg db db' r)
  then show ?case by (simp add: ReportTokenInvalid_def health_steps)
qed

section \<open>Properties\<close>

lemma mixed_ok: "(\<lambda>a b. pc_step a b \<or> pc_call s a b)\<^sup>*\<^sup>* empty_credentials_db db \<Longrightarrow> credentials_ok db"
  by (induction rule: rtranclp_induct) (use empty_credentials_ok pc_step_ok calls_are_steps brokered.steps_ok in blast)+

lemma alias_resolves:
  assumes "credentials_ok db" "GetAlias db n = Inr a"
  shows "\<exists>c. ResolveAlias db n = Inr (c, al_Model a) \<and> pv_ID c = al_CredentialID a"
proof -
  have "a \<in> set (pc_aliases db)" using assms(2) by (auto simp: GetAlias_def Let_def split: if_splits option.splits dest: find_Some_in)
  then have a: "trim_space (al_CredentialID a) \<noteq> []" "al_CredentialID a \<in> pv_ID ` set (pc_credentials db)"
    using assms(1) by (auto simp: credentials_ok_def list_all_iff alias_ok_def)
  then obtain c where c: "credential_by_id db (al_CredentialID a) = Some c"
    unfolding credential_by_id_def by (metis (mono_tags, lifting) find_None_iff imageE not_None_eq)
  then have "GetCredential db (al_CredentialID a) = Inr c" using a(1) by (simp add: GetCredential_Inr)
  then show ?thesis using assms(2) credential_by_id_Some [OF c] by (auto simp: ResolveAlias_def and_then_def)
qed

lemma credential_by_id_update:
  assumes "\<And>c. pv_ID (f c) = pv_ID c"
  shows "credential_by_id (update_credential i f db) i = map_option f (credential_by_id db i)"
  unfolding credential_by_id_def update_credential_def using assms by (simp add: find_update_where_key)

definition pv_demo :: "nat CredentialService" where
  "pv_demo = \<lparr>cv_Keys = \<lparr>ks_Vault = \<lparr>va_Seal = (\<lambda>n p. p), va_Open = (\<lambda>n x. Some x), va_Now = int, va_Rand = (\<lambda>n w. (w + 1, replicate n (char_of w)))\<rparr>,
       ks_Hash = rev, ks_Gateway = None, ks_Emit = (\<lambda>_ _ _ w. w + 1)\<rparr>,
     cv_OAuth = \<lparr>oa_Start = (\<lambda>_ w. (w, Inl (errorf ''off''))), oa_Poll = (\<lambda>_ _ w. (w, Inl (errorf ''off''))),
       oa_Refresh = (\<lambda>_ _ w. (w, Inl (errorf ''off''))), oa_Revoke = (\<lambda>_ _ w. (w, None))\<rparr>\<rparr>"

definition pv_input :: CreateCredentialInput where
  "pv_input = \<lparr>ci_ID = ''c1'', ci_Provider = '' ZAI'', ci_CredentialType = ''api_key'', ci_DisplayName = ''Z'', ci_SecretID = ''s1'', ci_ManagedBy = [],
     ci_ExternalRef = None, ci_Plan = ''coding'', ci_AuthorizedCodingUse = True, ci_ExpiresAt = None\<rparr>"

definition pv_created :: credentials_db where "pv_created = fst (snd (CreateCredential pv_demo pv_input empty_credentials_db 5))"
definition pv_routed :: credentials_db where "pv_routed = fst (snd (SetAlias pv_demo ''omahab/fast'' ''c1'' ''glm'' pv_created 7))"
definition pv_alias :: Alias where
  "pv_alias = \<lparr>al_Name = ''omahab/fast'', al_CredentialID = ''c1'', al_Model = ''glm'', al_CreatedAt = 7, al_UpdatedAt = 7\<rparr>"
definition pv_rename :: UpdateCredentialInput where
  "pv_rename = \<lparr>ui_DisplayName = Some ''Renamed'', ui_SecretID = None, ui_Entitlement = None, ui_EntitlementMessage = None, ui_Plan = None,
     ui_AuthorizedCodingUse = None, ui_ExpiresAt = None, ui_Health = None\<rparr>"

lemma called:
  "pc_call s db (fst (snd (CreateCredential s i db w)))" "pc_call s db (fst (snd (SetAlias s n cid m db w)))"
  by (cases "CreateCredential s i db w" rule: prod_cases3, simp add: call_Create)
    (cases "SetAlias s n cid m db w" rule: prod_cases3, simp add: call_SetAlias)



text \<open>
  C40: Creating a credential succeeds exactly for the accepted inputs: the chain of checks is
  equivalent to the declarative table of providers, types, managers, references and plans of
  the package, together with an identifier that is new and has no NUL.
\<close>

theorem credential_is_created_exactly_when_accepted:
  "\<not> isl (snd (snd (CreateCredential s i db w))) \<longleftrightarrow> accepted_input i \<and>
     (case (if trim_space (ci_ID i) = [] then store_NewID (ks_Vault (cv_Keys s)) w else (w, trim_space (ci_ID i))) of
        (_, cid) \<Rightarrow> \<not> has_nul cid \<and> credential_by_id db cid = None)"
proof (cases "create_checks i")
  case None
  obtain w1 cid where id: "(if trim_space (ci_ID i) = [] then store_NewID (ks_Vault (cv_Keys s)) w else (w, trim_space (ci_ID i))) = (w1, cid)"
    by (rule prod.exhaust)
  have "insertCredential (new_credential i cid (cv_now s w1)) db = None \<longleftrightarrow> credential_by_id db cid \<noteq> None"
    by (simp add: insertCredential_def new_credential_def Let_def credential_by_id_def list_ex_iff find_None_iff)
  then show ?thesis using None create_checks_None [of i] unfolding CreateCredential_def id
    by (cases "credential_by_id db cid") (auto simp: Let_def split: option.splits)
next
  case (Some e)
  then show ?thesis using create_checks_None [of i] by (simp add: CreateCredential_def)
qed

lemma reported:
  assumes "ReportEntitlementFailure t2 i msg db = (db1, None)" "GetCredential db i = Inr c"
  shows "credential_by_id db1 i = Some (write_health t2 HealthDegraded EntitlementNotEntitled (trim_space msg) c)"
proof -
  have "trim_space (to_lower EntitlementNotEntitled) = EntitlementNotEntitled" "EntitlementNotEntitled \<noteq> []" by (simp_all add: EntitlementNotEntitled_def, code_simp)
  then have "db1 = update_credential i (write_health t2 HealthDegraded EntitlementNotEntitled (trim_space msg)) db"
    using assms by (simp add: ReportEntitlementFailure_def cred_UpdateHealth_def Let_def allowedHealth_def allowedEntitlements_def)
  then show ?thesis using assms(2) by (simp add: credential_by_id_update write_health_def GetCredential_Inr)
qed

abbreviation health_of :: "Credential \<Rightarrow> string \<times> health" where "health_of c \<equiv> (pv_Entitlement c, pv_Health c)"

lemma unasked_health:
  "new_secret u c = Inr d \<Longrightarrow> health_of d = health_of c"
  "ui_Entitlement u = None \<Longrightarrow> new_entitlement u c = Inr d \<Longrightarrow> health_of d = health_of c"
  "ui_Health u = None \<Longrightarrow> new_health u c = Inr d \<Longrightarrow> health_of d = health_of c"
  "new_plan t u c = Inr d \<Longrightarrow> health_of d = health_of c"
  by (auto simp: new_secret_def new_entitlement_def new_health_def new_plan_def Let_def split: option.splits if_splits)

lemma changed_keeps_health:
  assumes "changed_credential t u c = Inr e" "ui_Entitlement u = None" "ui_Health u = None"
  shows "pv_Entitlement e = pv_Entitlement c \<and> pv_Health e = pv_Health c"
proof -
  from assms(1) obtain c1 c2 c3 c4 where
    steps: "new_secret u (c\<lparr>pv_DisplayName := (case ui_DisplayName u of None \<Rightarrow> pv_DisplayName c | Some d \<Rightarrow> trim_space d)\<rparr>) = Inr c1"
      "new_entitlement u c1 = Inr c2" "new_plan t u c3 = Inr c4" and e: "e = c4\<lparr>pv_UpdatedAt := t\<rparr>"
    and h: "new_health u (c2\<lparr>pv_EntitlementMessage := (case ui_EntitlementMessage u of None \<Rightarrow> pv_EntitlementMessage c2 | Some m \<Rightarrow> trim_space m),
         pv_ExpiresAt := (case ui_ExpiresAt u of None \<Rightarrow> pv_ExpiresAt c2 | t \<Rightarrow> t)\<rparr>) = Inr c3"
    unfolding changed_credential_def and_then_Inr by auto
  show ?thesis
    using unasked_health(1) [OF steps(1)] unasked_health(2) [OF assms(2) steps(2)] unasked_health(3) [OF assms(3) h]
      unasked_health(4) [OF steps(3)] e by simp
qed

theorem overlapping_update_hides_an_entitlement_failure:
  assumes "GetCredential db i = Inr c" "changed_credential t u c = Inr e" "ui_Entitlement u = None" "ui_Health u = None"
    and "ReportEntitlementFailure t2 i msg db = (db1, None)"
  shows "(\<exists>x. credential_by_id (update_credential i (write_columns e) db1) i = Some x \<and>
      pv_Entitlement x = pv_Entitlement c \<and> pv_Health x = pv_Health c) \<and>
    (\<exists>x. credential_by_id (fst (UpdateCredential t3 i u db1)) i = Some x \<and>
      pv_Entitlement x = EntitlementNotEntitled \<and> pv_Health x = HealthDegraded)"
proof -
  let ?x = "write_health t2 HealthDegraded EntitlementNotEntitled (trim_space msg) c"
  note x = reported [OF assms(5,1)]
  have id: "pv_ID (write_columns e' y) = pv_ID y" for e' y by (simp add: write_columns_def)
  have one: "credential_by_id (update_credential i (write_columns e) db1) i = Some (write_columns e ?x)"
    by (simp add: credential_by_id_update id x)
  have "\<exists>y. credential_by_id (fst (UpdateCredential t3 i u db1)) i = Some y \<and> pv_Entitlement y = EntitlementNotEntitled \<and> pv_Health y = HealthDegraded"
  proof (cases "and_then (GetCredential db1 i) (changed_credential t3 u)")
    case (Inl e)
    then show ?thesis using x by (simp add: UpdateCredential_def write_health_def)
  next
    case (Inr e3)
    then have "changed_credential t3 u ?x = Inr e3" using x by (auto simp: and_then_Inr GetCredential_Inr)
    from changed_keeps_health [OF this assms(3,4)] Inr x show ?thesis
      by (simp add: UpdateCredential_def credential_by_id_update id) (simp add: write_columns_def write_health_def)
  qed
  moreover have "pv_Entitlement (write_columns e ?x) = pv_Entitlement c \<and> pv_Health (write_columns e ?x) = pv_Health c"
    using changed_keeps_health [OF assms(2-4)] by (simp add: write_columns_def)
  ultimately show ?thesis using one by blast
qed

definition pv_read :: Credential where "pv_read = hd (pc_credentials pv_created)"

theorem overlapping_update_hides_an_entitlement_failure_witness:
  "\<exists>e db1. changed_credential 8 pv_rename pv_read = Inr e \<and> ReportEntitlementFailure 9 ''c1'' ''403'' pv_created = (db1, None) \<and>
     (\<exists>x. credential_by_id (update_credential ''c1'' (write_columns e) db1) ''c1'' = Some x \<and> pv_Entitlement x = EntitlementUnknown)"
proof -
  have g: "GetCredential pv_created ''c1'' = Inr pv_read" by code_simp
  have "pv_Entitlement pv_read = EntitlementUnknown" by code_simp
  moreover have "\<not> isl (changed_credential 8 pv_rename pv_read)" by code_simp
  then obtain e where e: "changed_credential 8 pv_rename pv_read = Inr e" by (cases "changed_credential 8 pv_rename pv_read") auto
  have "snd (ReportEntitlementFailure 9 ''c1'' ''403'' pv_created) = None" by code_simp
  then obtain db1 where r: "ReportEntitlementFailure 9 ''c1'' ''403'' pv_created = (db1, None)" by (metis prod.collapse)
  have "ui_Entitlement pv_rename = None" "ui_Health pv_rename = None" by (simp_all add: pv_rename_def)
  from overlapping_update_hides_an_entitlement_failure [OF g e this r] e r calculation show ?thesis by auto
qed

end
