(* ===== verification/Spec2Isabelle.thy ===== *)
theory Spec2Isabelle
  imports ExposureProps ProjectsProps EventsProps BackupsProps WorkspacesProps SecretsProps MaintProps CompanionProps ProviderProps
begin

text \<open>
  A verification development for omahab, the control plane of a self-hosted server (Go, under
  src/internal).  The control plane keeps its state in SQLite tables and drives other programs:
  Cloudflare and Caddy publish services, the ONCE runner deploys projects, restic makes backups, DevPod
  runs workspaces, systemd runs the platform applications.
  The development models its controllers with the packages they share, each as functions
  of its tables and of an opaque world, and proves what makes them correct.

  Parts and interaction.  store and domain hold the errors, the text of timestamps and the
  validated vocabulary every controller uses.  The exposure controller plans and applies what is
  published, through the Cloudflare and Caddy adapters.  The projects controller deploys releases
  through a runner and records them.  The backups controller runs, verifies and thins backups
  through a runner, and reports health.  The workspaces controller creates development containers for
  projects and issues one-time capabilities to attach to them.  The broker of secrets keeps the texts
  the others use, sealed under a master key that lives in a file and can be recovered from a phrase.
  The applications service installs, starts and stops the bundles of a catalog; imports, storage
  migrations and live restores of the control plane pause its applications, with everything that
  depends on them, and resume them.  The companion service enrolls the owner's devices, shares the tool
  environment with those that have a grant, issues them keys of the model gateway, and the control plane
  revokes all of it when a device is revoked.  The controllers emit events; the event inbox stores them,
  redacted, and hands them to subscribers and to the ntfy sink.

  Theories and code.
  \<^item> Prelude: ASCII strings, formatting of fmt verbs, list and table lemmas.  Errors: goerror, the
    observable part of an error (its sentinels and its message), for internal/store/errors.go.
    GoTime: FormatTime of store.go.  GoPath: filepath.Clean and Join.  NetIP: addresses.  Tables: the
    locale statement_tables, the contract of a step relation on tables with an invariant, which every
    controller interprets on its own statements.  Domain: internal/domain (types.go, validate.go).
  \<^item> ExposureTypes, ExposureNames, ExposurePlan, ExposureCheck: internal/exposure/exposure.go, clients.go
    and plan.go; the planner is a composition of blocks, one for each if of exposureSteps.
    ExposureApply: apply.go.  ExposureStore: store.go.  ExposureService: api.go and Apply.
    Cloudflare: internal/cloudflare and internal/edge over the REST services as records of functions.
    CloudServer and ExposureDemo: a concrete deployment for the witnesses.  ExposureClients states the
    laws of the clients as locales, interpreted on the adapters; ExposureSafety, ExposureRollback,
    ExposureRefine and ExposureStates prove the safety of plans, what a rollback restores, that applying
    refines an abstract transition, and the invariant of the tables; ExposureProps has the properties.
  \<^item> ProjectsValidate: internal/projects/util.go, errors.go.  ProjectsDb: schema.go, release_tokens.go, the
    deploy lock and release rows of deploy.go.  ProjectsDeploy: deploy.go, runner.go.  ProjectsService:
    service.go.  ProjectsStates: the statements as a step relation and its invariant.  ProjectsSafety: the
    health wait.  ProjectsOutcome: how deployments end.  ProjectsLemmas, ProjectsProps: slugs, the lock,
    tokens, and the properties.
  \<^item> Events: internal/events (service.go, migrations.go, ntfy.go).  EventsLemmas: redaction, sizes, the
    invariant of the inbox.  EventsProps: pages, idempotency, cursors.
  \<^item> BackupsTypes: internal/backups/models.go, backups.go, errors.go and the locations of service.go.
    BackupsDb: store.go and migrate.go.  BackupsService: service.go, attach.go, run.go, events.go.
    BackupsVerify: verify.go.  BackupsHealth: retention.go, status.go.  BackupsStates: the statements as
    a step relation and its invariant.  BackupsSteps: every operation is a sequence of statements.
    BackupsOutcome: how operations end.  BackupsProps: the properties.

  \<^item> Workspaces: internal/workspaces/service.go (vocabulary, tables, Create, Get, List), migrations.go.
    WorkspacesLife: the rest of service.go.  WorkspacesRunner: runner.go, over a process environment and
    a host.  WorkspacesStates: the statements as a step relation, its invariant, and that the operations
    are sequences of statements.  WorkspacesSafety: what creation and capabilities leave behind.
    WorkspacesProps: the properties.
  \<^item> GoFiles: single files of a file system and a schedule of faults, for package os.  Secrets:
    internal/secrets/secrets.go, migrations.go.  SecretsMap: the operations as a step relation, its
    invariant, and the map from scope and name to text the broker refines.  SecretsKeys: key.go,
    recovery.go.  SecretsProps: what creating the master key leaves on disk, and the properties.
  \<^item> AppsCatalog: internal/apps/catalog.go, errors.go.  AppsDb: store.go, migrations.go, maintenance.go.
    AppsService: service.go.  AppsStates: the statements as a step relation and its invariant.
    AppsLife: what every operation does to the desired and the observed state.  BundleOrder:
    topoSortBundles of internal/controlplane/setup_phases.go and affectedBundles of maintenance.go.
    ControlErrors: translateError of backend.go.  AppMaintenance: maintenance.go, and of storage.go and
    restore_live.go what pauses and resumes applications.  AppPauses, AppResumes: what that leaves.
    AppsProps, MaintProps: the properties.
  \<^item> VirtualKeys: the virtual keys of internal/providers/service.go and the two gateway calls of
    litellm.go.  ProviderCredentials: credentials and aliases of the same file.  ProviderProps: their
    statements and calls as step relations, the invariant and the properties.
  \<^item> Companion, CompanionEnv: internal/companion (service.go, migrations.go).  CompanionOps:
    internal/controlplane/companion_ops.go.  CompanionStates: the statements as a step relation and its
    invariant; CompanionRefine: every operation is a sequence of statements.  CompanionLemmas: tokens,
    codes, the values of the bundle, the entries of the backup file.  CompanionRevokes: what revoking and
    retrying leave.  CompanionApi: the operations of the API as a step relation.  CompanionProps: the
    properties.

  How state and operations correspond.  A table is a list of records in insertion order and a
  statement a function on the record of the tables; the unique and foreign-key constraints of the
  schema are tests that make it fail with the error the code looks for.  A service's collaborators
  (clients, runner, clock, fresh identifiers, file system, event sink) are a record of functions over
  a type variable for the world, which the operations thread through.  An error is a value of
  goerror; a nil dereference is None or Panics; a loop that may not end is a partial function.
  Where an operation makes several statements around external calls, the states any interleaving can
  reach are those of the statement relation (db_step, event_step, backup_step, ws_step, app_step, co_step), for
  which the invariants are proved, and the operations refine it.

  What the lemmas show.  Exposure: the transitions between private, shared and public never expose a
  service on the way, a failed apply is rolled back as far as the clients allow, public exposure needs
  an acknowledgement of the revision, stale plans are refused, the adapters keep the laws the
  controller relies on, and the cases in which they do not.  Projects: only a healthy release becomes
  active, tables stay well-formed, the lock excludes concurrent deployments until it is taken over,
  operations return, tokens, slugs.  Events: the stored events are valid, redacted and bounded, keys
  are idempotent, pages cover the listing.  Backups: tables and references, one operation at a time and
  the slot given back, verified means proven, the health rules, what retention keeps.
  Workspaces: tables, creation is atomic, a capability is accepted exactly once, texts reach the shell
  as one word, the environment of the process, the guard against secrets.
  Secrets: the broker refines a map, the master key is written whole or not at all whatever call
  fails, the recovery phrase gives back the key.
  Applications: tables, the operations refine the state machine of the package comment, an interrupted
  installation is stuck, releases are never swapped.  Control plane: the order of bundles, a pause stops
  and records every dependent, pausing and resuming is a round trip, reconciling makes pauses and
  marker files agree, and three flows in which the pauses get in each other's way.
  Companions: a code enrolls once, a token opens until its device is revoked, what a device with a grant
  receives, the backup file as a map, a revocation that reports success is complete, and the interleavings
  and errors in which an entry or a key survives.
  Providers: which inputs become a credential, every credential stays sanctioned, no route dangles, and
  the update that overlaps a report of its health.

  Bounds and fuel.  awaitHealth is a partial function; health_wait_bounded gives the number of probes
  after which it has returned.  catch_up and walk take a bound on the number of pages; a walk longer
  than the number of rows is complete.  Other recursions are structural or have a measure.  Go's int is
  int: no modelled operation computes with values near its bounds.

  Parameters.  url.Parse, SHA-256, random tokens and identifiers, the REST services, the ONCE and
  restic runners, the validation of a restored tree, the clock, the file system of the controllers and the secrets
  they use; AES-GCM, HKDF, BIP-39 and the sealer of the master key; the systemd runner, the sources of
  environments, durations and absolute URLs of bundles, the marker files of pauses, and what a live
  restore does between stopping and restarting the applications; bcrypt, systemctl, Forgejo, the sharing of
  folders and the HTTP answers of the model gateway.

  Not modelled, and why.  Failures of the database other than constraints, and a crash in the middle of
  an operation except for what reconciling closes: the code only passes them on.  The JSON text of
  columns: values are stored as such.  Case folding and white space beyond ASCII.  Goroutine scheduling
  inside one operation.  Timestamps before the year 0 or after 9999, and the zero time.  The command
  lines of the ONCE and restic runners, PostgreSQL and SQLite checks, setup phases, HTTP handlers, the
  desktop client, source control, knowledge, email, identity and the terminal programs orchestrate other
  programs, files and documents, and keep little state of their own; they are listed in the manifest with
  the reason.
\<close>

end
